(* ===== verification/Prelude.thy ===== *)
theory Prelude
  imports Main "HOL-Library.Sublist"
begin

section \<open>Shared vocabulary: JavaScript values, strings and collections\<close>

text \<open>
  What every component of the development uses: the JavaScript string operations the
  sources call (\<^verbatim>\<open>trim\<close>, \<^verbatim>\<open>toLowerCase\<close>, \<^verbatim>\<open>split\<close>, \<^verbatim>\<open>join\<close>, \<^verbatim>\<open>startsWith\<close>,
  \<^verbatim>\<open>includes\<close>, \<^verbatim>\<open>slice\<close>), decimal printing, the nullish and falsy defaults, and
  counting maps.

  A JavaScript string is represented by the list of the bytes of its UTF-8 encoding (an
  Isabelle \<open>string\<close>). Concatenation, equality, \<^verbatim>\<open>startsWith\<close>, \<^verbatim>\<open>includes\<close>, splitting at
  an ASCII separator and percent-encoding are the same on both representations; case
  conversion, trimming and lengths are those of JavaScript on ASCII text, which is what
  the status names, tokens, routes and subdomains handled by the sources are.
\<close>

named_theorems js_defs \<open>definitions of the JavaScript library functions\<close>

subsection \<open>Missing values\<close>

text \<open>
  \<^verbatim>\<open>undefined\<close> and \<^verbatim>\<open>null\<close> are both \<open>None\<close>; \<open>nullish\<close> is the operator \<^verbatim>\<open>??\<close> and
  \<open>orElse\<close> is \<^verbatim>\<open>||\<close> on strings, where the empty string is falsy as well.
\<close>

definition nullish :: "'a option \<Rightarrow> 'a \<Rightarrow> 'a" where
  "nullish x d = (case x of None \<Rightarrow> d | Some v \<Rightarrow> v)"

definition truthyStr :: "string option \<Rightarrow> bool" where
  "truthyStr x = (case x of None \<Rightarrow> False | Some s \<Rightarrow> s \<noteq> [])"

definition orElse :: "string option \<Rightarrow> string \<Rightarrow> string" where
  "orElse x d = (case x of None \<Rightarrow> d | Some s \<Rightarrow> if s = [] then d else s)"

definition orNull :: "string \<Rightarrow> string option" where
  "orNull s = (if s = [] then None else Some s)"

lemma nullish_simps [simp]: "nullish None d = d" "nullish (Some v) d = v"
  by (simp_all add: nullish_def)

lemma truthyStr_simps [simp]: "\<not> truthyStr None" "truthyStr (Some s) \<longleftrightarrow> s \<noteq> []"
  by (simp_all add: truthyStr_def)

lemma orElse_simps [simp]:
  "orElse None d = d" "orElse (Some []) d = d" "orElse (Some (c # s)) d = c # s"
  by (simp_all add: orElse_def)

lemma orElse_truthy: "truthyStr x \<Longrightarrow> orElse x d = the x"
  by (cases x) (auto simp: orElse_def)

lemma orElse_not_truthy: "\<not> truthyStr x \<Longrightarrow> orElse x d = d"
  by (cases x) (auto simp: orElse_def)

lemma orNull_simps [simp]: "orNull [] = None" "orNull (c # s) = Some (c # s)"
  by (simp_all add: orNull_def)

lemma orNull_eq_None [simp]: "orNull s = None \<longleftrightarrow> s = []"
  by (simp add: orNull_def)

subsection \<open>White space and case\<close>

definition js_ws :: "char \<Rightarrow> bool" where
  "js_ws c \<longleftrightarrow> (of_char c :: nat) \<in> {9, 10, 11, 12, 13, 32}"

definition trimStart :: "string \<Rightarrow> string" where
  "trimStart s = dropWhile js_ws s"

definition trimEnd :: "string \<Rightarrow> string" where
  "trimEnd s = rev (dropWhile js_ws (rev s))"

definition trim :: "string \<Rightarrow> string" where
  "trim s = trimEnd (trimStart s)"

definition lowerChar :: "char \<Rightarrow> char" where
  "lowerChar c = (let n = of_char c :: nat in if 65 \<le> n \<and> n \<le> 90 then char_of (n + 32) else c)"

definition upperChar :: "char \<Rightarrow> char" where
  "upperChar c = (let n = of_char c :: nat in if 97 \<le> n \<and> n \<le> 122 then char_of (n - 32) else c)"

definition toLowerCase :: "string \<Rightarrow> string" where
  "toLowerCase s = map lowerChar s"

definition toUpperCase :: "string \<Rightarrow> string" where
  "toUpperCase s = map upperChar s"

text \<open>Closed applications evaluate by rewriting with \<open>js_defs\<close>.\<close>

lemmas [js_defs] = char_of_def bit_0 Let_def js_ws_def trimStart_def trimEnd_def trim_def lowerChar_def upperChar_def
  toLowerCase_def toUpperCase_def

lemma trim_Nil [simp]: "trim [] = []"
  by (simp add: trim_def trimStart_def trimEnd_def)

lemma dropWhile_takeWhile_rev_hd:
  "dropWhile P xs = [] \<or> \<not> P (hd (dropWhile P xs))"
  by (induction xs) auto

lemma trimEnd_last: "trimEnd s = [] \<or> \<not> js_ws (last (trimEnd s))"
  unfolding trimEnd_def
  using dropWhile_takeWhile_rev_hd [of js_ws "rev s"] by (auto simp: last_rev)

lemma trimEnd_fixed: "s = [] \<or> \<not> js_ws (last s) \<Longrightarrow> trimEnd s = s"
  by (cases s rule: rev_cases) (auto simp: trimEnd_def)

lemma trimEnd_prefix: "prefix (trimEnd s) s"
  unfolding trimEnd_def
  by (metis suffix_dropWhile suffix_to_prefix rev_rev_ident)

lemma trim_trim [simp]: "trim (trim s) = trim s"
proof -
  let ?t = "trimStart s"
  have st: "?t = [] \<or> \<not> js_ws (hd ?t)"
    unfolding trimStart_def by (rule dropWhile_takeWhile_rev_hd)
  have "trimStart (trimEnd ?t) = trimEnd ?t"
  proof (cases "trimEnd ?t")
    case Nil
    then show ?thesis by (simp add: trimStart_def)
  next
    case (Cons c cs)
    with trimEnd_prefix [of ?t] have "hd ?t = c" "?t \<noteq> []"
      by (auto simp: prefix_def)
    with st have "\<not> js_ws c" by metis
    with Cons show ?thesis by (simp add: trimStart_def)
  qed
  moreover have "trimEnd (trimEnd ?t) = trimEnd ?t"
    by (rule trimEnd_fixed) (rule trimEnd_last)
  ultimately show ?thesis by (simp add: trim_def)
qed


lemma lowerChar_lowerChar [simp]: "lowerChar (lowerChar c) = lowerChar c"
  by (auto simp: lowerChar_def Let_def)

lemma toLowerCase_idem [simp]: "toLowerCase (toLowerCase s) = toLowerCase s"
  by (simp add: toLowerCase_def)

lemma toLowerCase_Nil [simp]: "toLowerCase [] = []"
  by (simp add: toLowerCase_def)

lemma toLowerCase_append: "toLowerCase (s @ t) = toLowerCase s @ toLowerCase t"
  by (simp add: toLowerCase_def)

lemma length_toLowerCase [simp]: "length (toLowerCase s) = length s"
  by (simp add: toLowerCase_def)

lemma js_ws_lowerChar [simp]: "js_ws (lowerChar c) = js_ws c"
  by (auto simp: js_ws_def lowerChar_def Let_def)

text \<open>The normal form of the status comparisons: trimmed, then lower case.\<close>

definition normText :: "string option \<Rightarrow> string" where
  "normText v = toLowerCase (trim (nullish v []))"

lemma dropWhile_toLowerCase: "dropWhile js_ws (toLowerCase s) = toLowerCase (dropWhile js_ws s)"
  by (induction s) (auto simp: toLowerCase_def)

lemma trim_toLowerCase: "trim (toLowerCase s) = toLowerCase (trim s)"
  unfolding trim_def trimEnd_def trimStart_def
  by (metis dropWhile_toLowerCase rev_map toLowerCase_def)

lemma normText_idem [simp]: "normText (Some (normText v)) = normText v"
  by (simp add: normText_def trim_toLowerCase)

lemma normText_None [simp]: "normText None = []"
  by (simp add: normText_def)

subsection \<open>Searching and slicing\<close>

definition startsWith :: "string \<Rightarrow> string \<Rightarrow> bool" where
  "startsWith s p \<longleftrightarrow> prefix p s"

definition endsWith :: "string \<Rightarrow> string \<Rightarrow> bool" where
  "endsWith s p \<longleftrightarrow> suffix p s"

fun includesStr :: "string \<Rightarrow> string \<Rightarrow> bool" where
  "includesStr [] p \<longleftrightarrow> p = []"
| "includesStr (c # s) p \<longleftrightarrow> prefix p (c # s) \<or> includesStr s p"

lemma includes_sublist: "includesStr s p \<longleftrightarrow> sublist p s"
  by (induction s) (auto simp: sublist_Cons_right)

lemmas [js_defs] = startsWith_def endsWith_def normText_def

text \<open>\<^verbatim>\<open>s.slice(-n)\<close>, the last \<open>n\<close> elements; \<^verbatim>\<open>s.slice(0, n)\<close> is \<open>take\<close>.\<close>

definition lastN :: "nat \<Rightarrow> 'a list \<Rightarrow> 'a list" where
  "lastN n xs = drop (length xs - n) xs"

lemma length_lastN [simp]: "length (lastN n xs) = min n (length xs)"
  by (auto simp: lastN_def)

lemma lastN_short [simp]: "length xs \<le> n \<Longrightarrow> lastN n xs = xs"
  by (simp add: lastN_def)

lemma rev_lastN: "rev (lastN n xs) = take n (rev xs)"
  by (cases "n \<le> length xs") (simp_all add: lastN_def rev_drop)

lemma last_lastN: "xs \<noteq> [] \<Longrightarrow> 0 < n \<Longrightarrow> last (lastN n xs) = last xs"
  by (simp add: lastN_def last_drop)

lemma set_lastN: "set (lastN n xs) \<subseteq> set xs"
  by (simp add: lastN_def set_drop_subset)

lemma find_SomeD: "find P xs = Some x \<Longrightarrow> x \<in> set xs \<and> P x"
  by (induction xs) (auto split: if_splits)

subsection \<open>Splitting and joining\<close>

text \<open>
  \<open>splitOn sep s\<close> is \<^verbatim>\<open>s.split(sep)\<close> for a non-empty separator: \<open>k\<close> counts the characters
  of a separator that are still to be skipped, \<open>acc\<close> is the current piece, reversed.
\<close>

fun splitGo :: "string \<Rightarrow> nat \<Rightarrow> string \<Rightarrow> string \<Rightarrow> string list" where
  "splitGo sep k acc [] = [rev acc]"
| "splitGo sep (Suc k) acc (c # cs) = splitGo sep k acc cs"
| "splitGo sep 0 acc (c # cs) =
     (if prefix sep (c # cs) then rev acc # splitGo sep (length sep - 1) [] cs
      else splitGo sep 0 (c # acc) cs)"

definition splitOn :: "string \<Rightarrow> string \<Rightarrow> string list" where
  "splitOn sep s = splitGo sep 0 [] s"

fun joinWith :: "string \<Rightarrow> string list \<Rightarrow> string" where
  "joinWith sep [] = []"
| "joinWith sep [x] = x"
| "joinWith sep (x # y # ys) = x @ sep @ joinWith sep (y # ys)"

text \<open>\<^verbatim>\<open>s.split(/[?#]/, 1)[0]\<close>: the text before the first query or fragment mark.\<close>

definition pathOnly :: "string \<Rightarrow> string" where
  "pathOnly s = takeWhile (\<lambda>c. c \<noteq> CHR ''?'' \<and> c \<noteq> CHR ''#'') s"

definition replaceChar :: "char \<Rightarrow> char \<Rightarrow> string \<Rightarrow> string" where
  "replaceChar a b s = map (\<lambda>c. if c = a then b else c) s"

lemmas [js_defs] = splitOn_def pathOnly_def replaceChar_def

lemma splitGo_skip: "splitGo sep (length u) acc (u @ s) = splitGo sep 0 acc s"
  by (induction u) auto

lemma splitGo_ne: "splitGo sep k acc s \<noteq> []"
  by (induction sep k acc s rule: splitGo.induct) auto

lemma splitGo_piece:
  assumes "sep = c # sep'" and "c \<notin> set x"
  shows "splitGo sep 0 acc (x @ s) = splitGo sep 0 (rev x @ acc) s"
  using assms(2) by (induction x arbitrary: acc) (auto simp: assms(1))

lemma splitGo_sep: "sep = c # sep' \<Longrightarrow> splitGo sep 0 acc (sep @ s) = rev acc # splitGo sep 0 [] s"
  using splitGo_skip [of sep sep' "[]" s] by simp

lemma splitOn_join:
  assumes sep: "sep = c # sep'" and xs: "\<forall>x\<in>set xs. c \<notin> set x" "xs \<noteq> []"
  shows "splitOn sep (joinWith sep xs) = xs"
  unfolding splitOn_def using xs
proof (induction xs rule: induct_list012)
  case (2 x)
  then show ?case using splitGo_piece [OF sep, of x "[]" "[]"] by simp
next
  case (3 x y ys)
  then show ?case
    using splitGo_piece [OF sep, of x "[]" "sep @ joinWith sep (y # ys)"]
      splitGo_sep [OF sep, of "rev x" "joinWith sep (y # ys)"] by simp
qed simp

subsection \<open>Printing and reading decimal numbers\<close>

definition digitChar :: "nat \<Rightarrow> char" where
  "digitChar d = char_of (48 + d)"

definition isDigit :: "char \<Rightarrow> bool" where
  "isDigit c \<longleftrightarrow> 48 \<le> (of_char c :: nat) \<and> (of_char c :: nat) \<le> 57"

definition digitVal :: "char \<Rightarrow> nat" where
  "digitVal c = of_char c - 48"

fun natStr :: "nat \<Rightarrow> string" where
  "natStr n = (if n < 10 then [digitChar n] else natStr (n div 10) @ [digitChar (n mod 10)])"

declare natStr.simps [simp del]

definition intStr :: "int \<Rightarrow> string" where
  "intStr i = (if i < 0 then CHR ''-'' # natStr (nat (- i)) else natStr (nat i))"

definition digitsVal :: "string \<Rightarrow> nat" where
  "digitsVal ds = foldl (\<lambda>n c. 10 * n + digitVal c) 0 ds"

lemma isDigit_digitChar: "d < 10 \<Longrightarrow> isDigit (digitChar d)"
  by (simp add: isDigit_def digitChar_def)

lemma digitVal_digitChar: "d < 10 \<Longrightarrow> digitVal (digitChar d) = d"
  by (simp add: digitVal_def digitChar_def)

lemma natStr_digits: "\<forall>c\<in>set (natStr n). isDigit c"
proof (induction n rule: natStr.induct)
  case (1 n)
  then show ?case
    by (cases "n < 10") (auto simp: natStr.simps [of n] isDigit_digitChar)
qed

lemma natStr_nonempty [simp]: "natStr n \<noteq> []"
  by (subst natStr.simps) simp

lemma digitsVal_snoc: "digitsVal (ds @ [c]) = 10 * digitsVal ds + digitVal c"
  by (simp add: digitsVal_def)

lemma digitsVal_natStr [simp]: "digitsVal (natStr n) = n"
proof (induction n rule: natStr.induct)
  case (1 n)
  show ?case
  proof (cases "n < 10")
    case True
    then show ?thesis
      by (subst natStr.simps) (simp add: digitsVal_def digitVal_digitChar)
  next
    case False
    with 1 show ?thesis
      by (subst natStr.simps) (simp add: digitsVal_snoc digitVal_digitChar)
  qed
qed

lemma natStr_inject [simp]: "natStr m = natStr n \<longleftrightarrow> m = n"
  by (metis digitsVal_natStr)

text \<open>A character outside a decimal numeral.\<close>

lemma not_in_natStr: "\<not> isDigit c \<Longrightarrow> c \<notin> set (natStr n)"
  using natStr_digits by blast

subsection \<open>Counting maps\<close>

text \<open>
  \<^verbatim>\<open>counts[key] = (counts[key] ?? 0) + 1\<close> on a \<^verbatim>\<open>Record<string, number>\<close>, and the number of
  events such a table has recorded.
\<close>

definition bump :: "'k \<Rightarrow> ('k \<rightharpoonup> nat) \<Rightarrow> ('k \<rightharpoonup> nat)" where
  "bump k m = m(k \<mapsto> nullish (m k) 0 + 1)"

definition tallies :: "('k \<rightharpoonup> nat) \<Rightarrow> 'k list \<Rightarrow> bool" where
  "tallies m ks \<longleftrightarrow> (\<forall>k. m k = (if k \<in> set ks then Some (count_list ks k) else None))"

lemma tallies_Nil: "tallies Map.empty []"
  by (simp add: tallies_def)

lemma tallies_bump: "tallies m ks \<Longrightarrow> tallies (bump k m) (ks @ [k])"
  by (auto simp: tallies_def bump_def nullish_def count_list_append split: option.splits)

lemma tallies_dom: "tallies m ks \<Longrightarrow> dom m = set ks"
  by (auto simp: tallies_def dom_def split: if_splits)

lemma tallies_total:
  assumes "tallies m ks"
  shows "(\<Sum>k\<in>dom m. the (m k)) = length ks"
proof -
  have "(\<Sum>k\<in>dom m. the (m k)) = (\<Sum>k\<in>set ks. count_list ks k)"
    unfolding tallies_dom [OF assms] by (rule sum.cong) (use assms in \<open>auto simp: tallies_def\<close>)
  then show ?thesis by (simp add: sum_count_set)
qed

end
