(* ===== verification/Js_Json.thy ===== *)
theory Js_Json
  imports Prelude
begin

section \<open>JSON values, \<open>JSON.stringify\<close> and \<open>JSON.parse\<close>\<close>

text \<open>
  The values that cross the network and the local storage, with the printer and the parser
  of the language's \<^verbatim>\<open>JSON\<close> object. An object is the list of its members in insertion
  order; a repeated name counts with its last value, as in JavaScript. Numbers are
  integers: the sources compute only with epoch seconds, counts and page numbers, and a
  text with a fraction or an exponent is not read. An escape \<^verbatim>\<open>\uXXXX\<close> becomes the bytes of
  its UTF-8 encoding, surrogates one by one.

  The main result, \<open>JSON_parse_stringify\<close>, is that parsing undoes printing.
\<close>

datatype json =
    JNull
  | JBool bool
  | JNum int
  | JStr string
  | JArr "json list"
  | JObj "(string \<times> json) list"

subsection \<open>Access\<close>

text \<open>\<^verbatim>\<open>value.name\<close>; \<open>None\<close> is \<^verbatim>\<open>undefined\<close>, also where \<^verbatim>\<open>?.\<close> meets no object.\<close>

fun getProp :: "json \<Rightarrow> string \<Rightarrow> json option" where
  "getProp (JObj kvs) k = map_of (rev kvs) k"
| "getProp _ k = None"

text \<open>The string held, if it is one; the test \<^verbatim>\<open>typeof v === "string"\<close>.\<close>

fun asStr :: "json option \<Rightarrow> string option" where
  "asStr (Some (JStr s)) = Some s"
| "asStr _ = None"

fun asNum :: "json option \<Rightarrow> int option" where
  "asNum (Some (JNum n)) = Some n"
| "asNum _ = None"

fun asBool :: "json option \<Rightarrow> bool option" where
  "asBool (Some (JBool b)) = Some b"
| "asBool _ = None"

text \<open>\<^verbatim>\<open>typeof value === "object" && value !== null\<close>, which arrays satisfy too.\<close>

fun isRecord :: "json \<Rightarrow> bool" where
  "isRecord (JObj _) = True"
| "isRecord (JArr _) = True"
| "isRecord _ = False"

subsection \<open>Printing\<close>

definition hexDigit :: "nat \<Rightarrow> char" where
  "hexDigit d = (if d < 10 then char_of (48 + d) else char_of (87 + d))"

definition escapeChar :: "char \<Rightarrow> string" where
  "escapeChar c =
     (let n = of_char c :: nat in
      if n = 34 then [CHR 0x5C, CHR 0x22]
      else if n = 92 then [CHR 0x5C, CHR 0x5C]
      else if n = 8 then [CHR 0x5C, CHR ''b'']
      else if n = 9 then [CHR 0x5C, CHR ''t'']
      else if n = 10 then [CHR 0x5C, CHR ''n'']
      else if n = 12 then [CHR 0x5C, CHR ''f'']
      else if n = 13 then [CHR 0x5C, CHR ''r'']
      else if n < 32 then [CHR 0x5C, CHR ''u'', CHR ''0'', CHR ''0'', hexDigit (n div 16), hexDigit (n mod 16)]
      else [c])"

definition quoteStr :: "string \<Rightarrow> string" where
  "quoteStr s = CHR 0x22 # concat (map escapeChar s) @ [CHR 0x22]"

fun JSON_stringify :: "json \<Rightarrow> string"
and stringifyElems :: "json list \<Rightarrow> string"
and stringifyMembers :: "(string \<times> json) list \<Rightarrow> string" where
  "JSON_stringify JNull = ''null''"
| "JSON_stringify (JBool b) = (if b then ''true'' else ''false'')"
| "JSON_stringify (JNum i) = intStr i"
| "JSON_stringify (JStr s) = quoteStr s"
| "JSON_stringify (JArr vs) = CHR ''['' # stringifyElems vs @ '']''"
| "JSON_stringify (JObj kvs) = CHR ''{'' # stringifyMembers kvs @ ''}''"
| "stringifyElems [] = []"
| "stringifyElems (v # vs) = JSON_stringify v @ (if vs = [] then [] else CHR '','' # stringifyElems vs)"
| "stringifyMembers [] = []"
| "stringifyMembers ((k, v) # kvs) =
     quoteStr k @ CHR '':'' # JSON_stringify v @ (if kvs = [] then [] else CHR '','' # stringifyMembers kvs)"

subsection \<open>Reading\<close>

definition jsonWs :: "char \<Rightarrow> bool" where
  "jsonWs c \<longleftrightarrow> (of_char c :: nat) \<in> {9, 10, 13, 32}"

definition skipWs :: "string \<Rightarrow> string" where
  "skipWs s = dropWhile jsonWs s"

definition hexVal :: "char \<Rightarrow> nat option" where
  "hexVal c =
     (let n = of_char c :: nat in
      if 48 \<le> n \<and> n \<le> 57 then Some (n - 48)
      else if 97 \<le> n \<and> n \<le> 102 then Some (n - 87)
      else if 65 \<le> n \<and> n \<le> 70 then Some (n - 55)
      else None)"

definition utf8 :: "nat \<Rightarrow> string" where
  "utf8 n =
     (if n < 128 then [char_of n]
      else if n < 2048 then [char_of (192 + n div 64), char_of (128 + n mod 64)]
      else [char_of (224 + n div 4096), char_of (128 + n div 64 mod 64), char_of (128 + n mod 64)])"

definition simpleEscape :: "char \<Rightarrow> char option" where
  "simpleEscape c =
     (if c = CHR 0x22 then Some (CHR 0x22)
      else if c = CHR 0x5C then Some (CHR 0x5C)
      else if c = CHR ''/'' then Some (CHR ''/'')
      else if c = CHR ''b'' then Some (CHR 0x08)
      else if c = CHR ''t'' then Some (CHR 0x09)
      else if c = CHR ''n'' then Some (CHR 0x0A)
      else if c = CHR ''f'' then Some (CHR 0x0C)
      else if c = CHR ''r'' then Some (CHR 0x0D)
      else None)"

text \<open>The body of a string literal, after its opening quote.\<close>

fun unescape :: "string \<Rightarrow> (string \<times> string) option" where
  "unescape [] = None"
| "unescape (c # s) =
     (if c = CHR 0x22 then Some ([], s)
      else if c = CHR 0x5C then
        (case s of
           [] \<Rightarrow> None
         | e # s1 \<Rightarrow>
             if e = CHR ''u'' then
               (case s1 of
                  h1 # h2 # h3 # h4 # s2 \<Rightarrow>
                    (case (hexVal h1, hexVal h2, hexVal h3, hexVal h4) of
                       (Some a, Some b, Some d, Some f) \<Rightarrow>
                         map_option (\<lambda>(t, r). (utf8 (((a * 16 + b) * 16 + d) * 16 + f) @ t, r)) (unescape s2)
                     | _ \<Rightarrow> None)
                | _ \<Rightarrow> None)
             else
               (case simpleEscape e of
                  None \<Rightarrow> None
                | Some x \<Rightarrow> map_option (\<lambda>(t, r). (x # t, r)) (unescape s1)))
      else if (of_char c :: nat) < 32 then None
      else map_option (\<lambda>(t, r). (c # t, r)) (unescape s))"

definition readNat :: "string \<Rightarrow> (nat \<times> string) option" where
  "readNat s =
     (let ds = takeWhile isDigit s; r = dropWhile isDigit s in
      if ds = [] \<or> (length ds > 1 \<and> hd ds = CHR ''0'')
         \<or> (r \<noteq> [] \<and> (hd r = CHR ''.'' \<or> hd r = CHR ''e'' \<or> hd r = CHR ''E''))
      then None else Some (digitsVal ds, r))"

definition readLit :: "string \<Rightarrow> json \<Rightarrow> string \<Rightarrow> (json \<times> string) option" where
  "readLit w v s = (if prefix w s then Some (v, drop (length w) s) else None)"

text \<open>
  \<open>parseValue\<close> reads one value and returns the rest of the text; \<open>n\<close> bounds the nesting,
  and \<open>parse_fuel\<close> below shows that twice the length of the text is always enough.
\<close>

fun parseValue :: "nat \<Rightarrow> string \<Rightarrow> (json \<times> string) option"
and parseElems :: "nat \<Rightarrow> string \<Rightarrow> (json list \<times> string) option"
and parseMembers :: "nat \<Rightarrow> string \<Rightarrow> ((string \<times> json) list \<times> string) option" where
  "parseValue 0 s = None"
| "parseValue (Suc n) s =
     (case skipWs s of
        [] \<Rightarrow> None
      | c # r \<Rightarrow>
          if c = CHR 0x22 then map_option (\<lambda>(t, r'). (JStr t, r')) (unescape r)
          else if c = CHR ''['' then
            (if prefix '']'' (skipWs r) then Some (JArr [], tl (skipWs r))
             else map_option (\<lambda>(vs, r'). (JArr vs, r')) (parseElems n r))
          else if c = CHR ''{'' then
            (if prefix ''}'' (skipWs r) then Some (JObj [], tl (skipWs r))
             else map_option (\<lambda>(kvs, r'). (JObj kvs, r')) (parseMembers n r))
          else if c = CHR ''-'' then map_option (\<lambda>(k, r'). (JNum (- int k), r')) (readNat r)
          else if isDigit c then map_option (\<lambda>(k, r'). (JNum (int k), r')) (readNat (c # r))
          else if c = CHR ''n'' then readLit ''null'' JNull (c # r)
          else if c = CHR ''t'' then readLit ''true'' (JBool True) (c # r)
          else readLit ''false'' (JBool False) (c # r))"
| "parseElems 0 s = None"
| "parseElems (Suc n) s =
     (case parseValue n s of
        None \<Rightarrow> None
      | Some (v, r) \<Rightarrow>
          (case skipWs r of
             [] \<Rightarrow> None
           | c # r' \<Rightarrow>
               if c = CHR '']'' then Some ([v], r')
               else if c = CHR '','' then map_option (\<lambda>(vs, t). (v # vs, t)) (parseElems n r')
               else None))"
| "parseMembers 0 s = None"
| "parseMembers (Suc n) s =
     (case skipWs s of
        [] \<Rightarrow> None
      | q # r \<Rightarrow>
          if q \<noteq> CHR 0x22 then None
          else (case unescape r of
             None \<Rightarrow> None
           | Some (k, r1) \<Rightarrow>
               if \<not> prefix '':'' (skipWs r1) then None
               else (case parseValue n (tl (skipWs r1)) of
                  None \<Rightarrow> None
                | Some (v, r2) \<Rightarrow>
                    (case skipWs r2 of
                       [] \<Rightarrow> None
                     | c # r3 \<Rightarrow>
                         if c = CHR ''}'' then Some ([(k, v)], r3)
                         else if c = CHR '','' then map_option (\<lambda>(kvs, t). ((k, v) # kvs, t)) (parseMembers n r3)
                         else None))))"

definition JSON_parse :: "string \<Rightarrow> json option" where
  "JSON_parse s =
     (case parseValue (2 * length s + 1) s of
        None \<Rightarrow> None
      | Some (v, r) \<Rightarrow> if skipWs r = [] then Some v else None)"

subsection \<open>Parsing undoes printing\<close>

lemma hexVal_hexDigit: "d < 16 \<Longrightarrow> hexVal (hexDigit d) = Some d"
  by (auto simp: hexVal_def hexDigit_def Let_def)

lemma char_of_code: "(of_char c :: nat) = k \<Longrightarrow> c = char_of k"
  by (metis char_of_char)

lemma unescape_escapeChar:
  "unescape (escapeChar c @ t) = map_option (\<lambda>(u, r). (c # u, r)) (unescape t)"
proof -
  let ?n = "of_char c :: nat"
  consider "?n \<in> {34, 92, 8, 9, 10, 12, 13}" | "?n \<notin> {34, 92, 8, 9, 10, 12, 13}" "?n < 32"
    | "?n \<notin> {34, 92}" "\<not> ?n < 32" by auto
  then show ?thesis
  proof cases
    case 1
    then show ?thesis
      by (auto simp: escapeChar_def simpleEscape_def char_of_def bit_0 dest!: char_of_code)
  next
    case 2
    then have "?n div 16 < 16" "?n mod 16 < 16" by auto
    moreover have "hexVal (CHR ''0'') = Some 0" by (simp add: hexVal_def)
    moreover have "utf8 ?n = [c]" using 2 by (simp add: utf8_def)
    ultimately show ?thesis
      using 2 by (simp add: escapeChar_def hexVal_hexDigit Let_def option.map_comp comp_def split_beta)
  next
    case 3
    then have "c \<noteq> CHR 0x22" "c \<noteq> CHR 0x5C" by auto
    with 3 show ?thesis by (auto simp: escapeChar_def Let_def)
  qed
qed

lemma unescape_quoted:
  "unescape (concat (map escapeChar s) @ CHR 0x22 # rest) = Some (s, rest)"
  by (induction s) (simp_all add: unescape_escapeChar)

text \<open>What may follow a value: nothing, or the punctuation of the enclosing array or object.\<close>

definition okRest :: "string \<Rightarrow> bool" where
  "okRest r \<longleftrightarrow> r = [] \<or> hd r = CHR '','' \<or> hd r = CHR '']'' \<or> hd r = CHR ''}''"

lemma okRest_not_digit: "okRest r \<Longrightarrow> r = [] \<or> \<not> isDigit (hd r)"
  by (auto simp: okRest_def isDigit_def)

lemma hd_natStr: "0 < n \<Longrightarrow> hd (natStr n) \<noteq> CHR ''0''"
proof (induction n rule: natStr.induct)
  case (1 n)
  show ?case
  proof (cases "n < 10")
    case True
    with 1(2) have "(of_char (digitChar n) :: nat) \<noteq> of_char (CHR ''0'')"
      by (simp add: digitChar_def)
    with True show ?thesis by (subst natStr.simps) auto
  next
    case False
    with 1 show ?thesis by (subst natStr.simps) (simp add: hd_append)
  qed
qed

lemma natStr_0: "natStr 0 = ''0''"
  by (simp add: natStr.simps digitChar_def char_of_def bit_0)

lemma takeWhile_natStr: "okRest r \<Longrightarrow> takeWhile isDigit (natStr n @ r) = natStr n"
  and dropWhile_natStr: "okRest r \<Longrightarrow> dropWhile isDigit (natStr n @ r) = r"
  using okRest_not_digit [of r] natStr_digits [of n]
  by (cases r; simp add: takeWhile_append2 dropWhile_append2)+

lemma readNat_natStr: "okRest r \<Longrightarrow> readNat (natStr n @ r) = Some (n, r)"
proof -
  assume r: "okRest r"
  have "\<not> (length (natStr n) > 1 \<and> hd (natStr n) = CHR ''0'')"
    by (cases "n = 0") (auto simp: natStr_0 hd_natStr)
  with r show ?thesis
    unfolding readNat_def Let_def takeWhile_natStr [OF r] dropWhile_natStr [OF r]
    by (auto simp: okRest_def)
qed

lemma skipWs_Cons: "\<not> jsonWs c \<Longrightarrow> skipWs (c # s) = c # s"
  by (simp add: skipWs_def)

lemma okRest_skipWs: "okRest r \<Longrightarrow> skipWs r = r"
  by (cases r) (auto simp: okRest_def skipWs_def jsonWs_def)

lemma digit_not_special:
  "isDigit c \<Longrightarrow> c \<noteq> CHR 0x22 \<and> c \<noteq> CHR ''['' \<and> c \<noteq> CHR ''{'' \<and> c \<noteq> CHR ''-'' \<and> \<not> jsonWs c"
  by (auto simp: isDigit_def jsonWs_def)

lemma parseValue_num:
  assumes "okRest r"
  shows "parseValue (Suc n) (intStr i @ r) = Some (JNum i, r)"
proof (cases "i < 0")
  case True
  then have "intStr i @ r = CHR ''-'' # natStr (nat (- i)) @ r" by (simp add: intStr_def)
  then show ?thesis
    using True by (simp add: skipWs_Cons jsonWs_def readNat_natStr [OF assms])
next
  case False
  obtain d ds where d: "natStr (nat i) = d # ds" by (cases "natStr (nat i)") auto
  then have "isDigit d" using natStr_digits [of "nat i"] by simp
  then show ?thesis
    using False readNat_natStr [OF assms, of "nat i"] digit_not_special [of d]
    by (simp add: intStr_def d skipWs_Cons)
qed

lemma okRest_simps [simp]:
  "okRest []" "okRest (CHR '','' # r)" "okRest (CHR '']'' # r)" "okRest (CHR ''}'' # r)"
  by (simp_all add: okRest_def)

lemma stringify_hd:
  "\<exists>c s. JSON_stringify v = c # s \<and> \<not> jsonWs c \<and> c \<noteq> CHR '']''"
proof (cases v)
  case (JNum i)
  obtain d ds where d: "natStr (nat i) = d # ds" by (cases "natStr (nat i)") auto
  then have "isDigit d" using natStr_digits [of "nat i"] by simp
  then have "\<not> jsonWs d \<and> d \<noteq> CHR '']''" by (auto simp: isDigit_def jsonWs_def)
  with d JNum show ?thesis by (auto simp: intStr_def jsonWs_def)
qed (auto simp: jsonWs_def quoteStr_def)

lemma length_stringify_pos: "0 < length (JSON_stringify v)"
  using stringify_hd [of v] by auto

theorem parse_stringify:
  "2 * length (JSON_stringify v) \<le> n \<Longrightarrow> okRest r \<Longrightarrow>
     parseValue n (JSON_stringify v @ r) = Some (v, r)"
  "vs \<noteq> [] \<Longrightarrow> 2 * length (stringifyElems vs) + 1 \<le> n \<Longrightarrow>
     parseElems n (stringifyElems vs @ CHR '']'' # r) = Some (vs, r)"
  "kvs \<noteq> [] \<Longrightarrow> 2 * length (stringifyMembers kvs) + 1 \<le> n \<Longrightarrow>
     parseMembers n (stringifyMembers kvs @ CHR ''}'' # r) = Some (kvs, r)"
proof (induction v and vs and kvs arbitrary: n r and n r and n r
    rule: JSON_stringify_stringifyElems_stringifyMembers.induct)
  case 1
  then show ?case by (cases n) (auto simp: skipWs_def jsonWs_def isDigit_def readLit_def)
next
  case (2 b)
  then show ?case by (cases n; cases b) (auto simp: skipWs_def jsonWs_def isDigit_def readLit_def)
next
  case (3 i)
  then show ?case using length_stringify_pos [of "JNum i"]
    by (cases n) (auto simp del: parseValue.simps simp: parseValue_num)
next
  case (4 s)
  then show ?case
    by (cases n) (auto simp: quoteStr_def skipWs_def jsonWs_def unescape_quoted)
next
  case (5 vs)
  then obtain m where m: "n = Suc m" by (cases n) auto
  show ?case
  proof (cases vs)
    case Nil
    then show ?thesis by (simp add: m skipWs_def jsonWs_def)
  next
    case (Cons v vs')
    obtain c s where "JSON_stringify v = c # s" "\<not> jsonWs c" "c \<noteq> CHR '']''"
      using stringify_hd by blast
    then have np: "\<not> prefix '']'' (skipWs (stringifyElems vs @ CHR '']'' # r))"
      by (simp add: Cons skipWs_Cons)
    have "parseElems m (stringifyElems vs @ CHR '']'' # r) = Some (vs, r)"
      by (rule 5(1)) (use 5(2) Cons m in auto)
    with np show ?thesis
      by (simp add: m skipWs_Cons jsonWs_def del: stringifyElems.simps)
  qed
next
  case (6 kvs)
  then obtain m where m: "n = Suc m" by (cases n) auto
  show ?case
  proof (cases kvs)
    case Nil
    then show ?thesis by (simp add: m skipWs_def jsonWs_def)
  next
    case (Cons kv kvs')
    obtain k v where kv: "kv = (k, v)" by (cases kv)
    have np: "\<not> prefix ''}'' (skipWs (stringifyMembers kvs @ CHR ''}'' # r))"
      by (simp add: Cons kv quoteStr_def skipWs_Cons jsonWs_def)
    have "parseMembers m (stringifyMembers kvs @ CHR ''}'' # r) = Some (kvs, r)"
      by (rule 6(1)) (use 6(2) Cons m in auto)
    with np show ?thesis
      by (simp add: m skipWs_Cons jsonWs_def del: stringifyMembers.simps)
  qed
next
  case 7
  then show ?case by simp
next
  case (8 v vs)
  then obtain m where m: "n = Suc m" by (cases n) auto
  let ?rest = "(if vs = [] then [] else CHR '','' # stringifyElems vs) @ CHR '']'' # r"
  have "parseValue m (JSON_stringify v @ ?rest) = Some (v, ?rest)"
    by (rule 8(1)) (use 8(4) m in auto)
  moreover have "vs \<noteq> [] \<Longrightarrow> parseElems m (stringifyElems vs @ CHR '']'' # r) = Some (vs, r)"
    by (rule 8(2)) (use 8(4) m length_stringify_pos [of v] in auto)
  ultimately show ?case by (auto simp: m okRest_skipWs)
next
  case 9
  then show ?case by simp
next
  case (10 k v kvs)
  then obtain m where m: "n = Suc m" by (cases n) auto
  let ?rest = "(if kvs = [] then [] else CHR '','' # stringifyMembers kvs) @ CHR ''}'' # r"
  have "parseValue m (JSON_stringify v @ ?rest) = Some (v, ?rest)"
    by (rule 10(1)) (use 10(4) m in auto)
  moreover have "kvs \<noteq> [] \<Longrightarrow> parseMembers m (stringifyMembers kvs @ CHR ''}'' # r) = Some (kvs, r)"
    by (rule 10(2)) (use 10(4) m length_stringify_pos [of v] in auto)
  ultimately show ?case
    by (auto simp: m okRest_skipWs quoteStr_def skipWs_Cons jsonWs_def unescape_quoted)
qed

theorem JSON_parse_stringify [simp]: "JSON_parse (JSON_stringify v) = Some v"
  using parse_stringify(1) [of v "2 * length (JSON_stringify v) + 1" "[]"]
  by (simp add: JSON_parse_def skipWs_def)

subsection \<open>The fuel of the parser is enough\<close>

lemma length_skipWs: "length (skipWs s) \<le> length s"
  by (simp add: skipWs_def length_dropWhile_le)

lemma unescape_shorter: "unescape s = Some (t, r) \<Longrightarrow> length r < length s"
  by (induction s arbitrary: t r rule: unescape.induct)
     (fastforce split: if_splits list.splits option.splits)+

lemma readNat_shorter: "readNat s = Some (k, r) \<Longrightarrow> length r < length s"
proof -
  assume a: "readNat s = Some (k, r)"
  then have "takeWhile isDigit s \<noteq> []" "r = dropWhile isDigit s"
    by (auto simp: readNat_def Let_def split: if_splits)
  then show ?thesis
    by (metis append_Nil length_greater_0_conv length_append less_add_same_cancel2 takeWhile_dropWhile_id)
qed

lemma readLit_shorter: "w \<noteq> [] \<Longrightarrow> readLit w v s = Some (x, r) \<Longrightarrow> length r < length s"
  by (auto simp: readLit_def prefix_def split: if_splits)

lemma parse_shorter:
  "parseValue n s = Some (v, r) \<Longrightarrow> length r < length s"
  "parseElems n s = Some (vs, r) \<Longrightarrow> length r < length s"
  "parseMembers n s = Some (kvs, r) \<Longrightarrow> length r < length s"
proof (induction n s and n s and n s arbitrary: v r and vs r and kvs r
    rule: parseValue_parseElems_parseMembers.induct)
  case (2 n s)
  obtain c r0 where c: "skipWs s = c # r0" using 2(3) by (cases "skipWs s") auto
  then have l: "length r0 < length s" using length_skipWs [of s] by simp
  show ?case using 2(3) c l length_skipWs [of r0]
    by (auto split: if_splits dest!: unescape_shorter readNat_shorter readLit_shorter [rotated] 2(1) [rotated -1] 2(2) [rotated -1])
next
  case (4 n s)
  from 4(3) obtain v r1 where v: "parseValue n s = Some (v, r1)"
    by (auto split: option.splits)
  from 4(3) v obtain c r2 where c: "skipWs r1 = c # r2" by (auto split: list.splits)
  have "length r2 < length s" using 4(1) [OF v] c length_skipWs [of r1] by simp
  then show ?case using 4(3) v c 4(2)[OF v]
    by (fastforce split: if_splits)
next
  case (6 n s)
  from 6(3) obtain q r0 where q: "skipWs s = q # r0" "q = CHR 0x22"
    by (auto split: list.splits if_splits)
  from 6(3) q obtain k r1 where k: "unescape r0 = Some (k, r1)"
    by (auto split: option.splits)
  from 6(3) q k have colon: "prefix '':'' (skipWs r1)" by (auto split: if_splits)
  then obtain s1 where s1: "skipWs r1 = CHR '':'' # s1" by (auto simp: prefix_def)
  from 6(3) q k s1 obtain v r2 where v: "parseValue n s1 = Some (v, r2)"
    by (auto split: option.splits)
  from 6(3) q k s1 v obtain c r3 where c: "skipWs r2 = c # r3" by (auto split: list.splits)
  have l: "length r0 < length s" "length r1 < length r0" "length s1 < length r1"
    using q length_skipWs [of s] unescape_shorter [OF k] s1 length_skipWs [of r1] by auto
  have "length r2 < length s1" using 6(1) [OF q(1) _ k refl] q(2) s1 v by auto
  then have "length r3 < length s" using l c length_skipWs [of r2] by simp
  then show ?case using 6(3) q k s1 v c 6(2) [OF q(1) _ k refl _ _ refl c]
    by (fastforce split: if_splits)
qed auto

lemma parse_fuel_step:
  "2 * length s < m \<Longrightarrow> parseValue (Suc m) s = parseValue m s"
  "2 * length s + 1 < m \<Longrightarrow> parseElems (Suc m) s = parseElems m s"
  "2 * length s + 1 < m \<Longrightarrow> parseMembers (Suc m) s = parseMembers m s"
proof (induction m s and m s and m s rule: parseValue_parseElems_parseMembers.induct)
  case (2 m s)
  show ?case
  proof (cases "skipWs s")
    case Nil
    then show ?thesis by simp
  next
    case (Cons c r)
    then have "2 * length r + 1 < m" using 2(3) length_skipWs [of s] by simp
    then have "c = CHR ''['' \<Longrightarrow> \<not> prefix '']'' (skipWs r) \<Longrightarrow> parseElems (Suc m) r = parseElems m r"
      and "c = CHR ''{'' \<Longrightarrow> \<not> prefix ''}'' (skipWs r) \<Longrightarrow> parseMembers (Suc m) r = parseMembers m r"
      using 2(1,2) [OF Cons] by (auto simp del: parseElems.simps parseMembers.simps)
    with Cons show ?thesis by (auto simp del: parseElems.simps parseMembers.simps)
  qed
next
  case (4 m s)
  have e: "parseValue (Suc m) s = parseValue m s" by (rule 4(1)) (use 4(3) in auto)
  show ?case
  proof (cases "parseValue m s")
    case None
    then show ?thesis unfolding parseElems.simps(2) e by simp
  next
    case (Some p)
    then obtain v r where v: "parseValue m s = Some (v, r)" by (cases p) auto
    show ?thesis
    proof (cases "skipWs r")
      case Nil
      with v show ?thesis unfolding parseElems.simps(2) e by simp
    next
      case (Cons c r')
      then have "2 * length r' + 1 < m"
        using 4(3) parse_shorter(1) [OF v] length_skipWs [of r] by auto
      then have "c = CHR '','' \<Longrightarrow> parseElems (Suc m) r' = parseElems m r'"
        using 4(2) [OF v refl Cons] by (auto simp del: parseElems.simps parseValue.simps)
      then show ?thesis unfolding parseElems.simps(2) [of "Suc m"] parseElems.simps(2) [of m] e v Cons
        by (auto simp: v Cons simp del: parseElems.simps parseValue.simps)
    qed
  qed
next
  case (6 m s)
  show ?case
  proof (cases "\<exists>r k r1 s1. skipWs s = CHR 0x22 # r \<and> unescape r = Some (k, r1) \<and> skipWs r1 = CHR '':'' # s1")
    case False
    have "parseMembers (Suc j) s = None" for j
      using False by (fastforce simp: prefix_def simp del: parseValue.simps split: list.splits option.splits)
    then show ?thesis by simp
  next
    case True
    then obtain r k r1 s1 where
      h: "skipWs s = CHR 0x22 # r" "unescape r = Some (k, r1)" "skipWs r1 = CHR '':'' # s1"
      by blast
    have l: "length s1 < length s"
      using h length_skipWs [of s] length_skipWs [of r1] unescape_shorter [OF h(2)] by auto
    have e: "parseValue (Suc m) s1 = parseValue m s1"
      using 6(1) [OF h(1) _ h(2) refl] h(3) l 6(3) by (auto simp del: parseValue.simps)
    note [simp del] = parseMembers.simps parseValue.simps
    have u: "parseMembers (Suc j) s = (case parseValue j s1 of None \<Rightarrow> None
        | Some (v, r2) \<Rightarrow> (case skipWs r2 of [] \<Rightarrow> None
           | c # r3 \<Rightarrow> if c = CHR ''}'' then Some ([(k, v)], r3)
             else if c = CHR '','' then map_option (\<lambda>(kvs, t). ((k, v) # kvs, t)) (parseMembers j r3)
             else None))" for j
      by (simp add: parseMembers.simps(2) h)
    show ?thesis
    proof (cases "parseValue m s1")
      case None
      then show ?thesis by (simp add: u e)
    next
      case (Some p)
      then obtain v r2 where v: "parseValue m s1 = Some (v, r2)" by (cases p) auto
      show ?thesis
      proof (cases "skipWs r2")
        case Nil
        with v show ?thesis by (simp add: u e)
      next
        case (Cons c r3)
        then have "2 * length r3 + 1 < m"
          using 6(3) l parse_shorter(1) [OF v] length_skipWs [of r2] by auto
        then have "c = CHR '','' \<Longrightarrow> parseMembers (Suc m) r3 = parseMembers m r3"
          using 6(2) [OF h(1) _ h(2) refl _ _ refl Cons] h(3) v by auto
        with v Cons show ?thesis by (auto simp: u e)
      qed
    qed
  qed
qed auto

theorem parse_fuel: "2 * length s < n \<Longrightarrow> parseValue n s = parseValue (2 * length s + 1) s"
proof (induction "n - (2 * length s + 1)" arbitrary: n)
  case 0
  then have "n = 2 * length s + 1" by simp
  then show ?case by (simp only:)
next
  case (Suc k)
  then obtain m where m: "n = Suc m" "2 * length s < m" by (cases n) auto
  with Suc show ?case by (simp add: parse_fuel_step(1) del: parseValue.simps)
qed
text \<open>From here on printing and parsing are used through their equations only.\<close>

declare parseValue.simps [simp del] parseElems.simps [simp del] parseMembers.simps [simp del]

end
