(* ===== verification/Js_Encoding.thy ===== *)
theory Js_Encoding
  imports Prelude
begin

section \<open>Percent-encoding, base64 and query strings\<close>

text \<open>
  The encoders of the language and the browser that the session, cookie and URL code calls:
  \<^verbatim>\<open>encodeURIComponent\<close> and its inverse, \<^verbatim>\<open>atob\<close> (the forgiving base64 decoder), Node's
  \<^verbatim>\<open>Buffer.from(s, "base64")\<close> and \<^verbatim>\<open>URLSearchParams.toString\<close>. Since a string is its UTF-8
  bytes, percent-encoding works byte by byte.

  Main results: \<open>decode_encodeURIComponent\<close>, \<open>atob_padded_b64url\<close>.
\<close>

subsection \<open>Percent-encoding\<close>

definition isAlnum :: "char \<Rightarrow> bool" where
  "isAlnum c =
     (let n = of_char c :: nat in
      (48 \<le> n \<and> n \<le> 57) \<or> (65 \<le> n \<and> n \<le> 90) \<or> (97 \<le> n \<and> n \<le> 122))"

definition uriUnreserved :: "char \<Rightarrow> bool" where
  "uriUnreserved c \<longleftrightarrow> isAlnum c \<or> c \<in> set ''-_.!~*()'' \<or> c = CHR 0x27"

definition formUnreserved :: "char \<Rightarrow> bool" where
  "formUnreserved c \<longleftrightarrow> isAlnum c \<or> c \<in> set ''*-._''"

definition hexUpper :: "nat \<Rightarrow> char" where
  "hexUpper d = (if d < 10 then char_of (48 + d) else char_of (55 + d))"

definition percent :: "char \<Rightarrow> string" where
  "percent c = (let n = of_char c :: nat in [CHR ''%'', hexUpper (n div 16), hexUpper (n mod 16)])"

definition encodeURIComponent :: "string \<Rightarrow> string" where
  "encodeURIComponent s = concat (map (\<lambda>c. if uriUnreserved c then [c] else percent c) s)"

definition hexNum :: "char \<Rightarrow> nat option" where
  "hexNum c =
     (let n = of_char c :: nat in
      if 48 \<le> n \<and> n \<le> 57 then Some (n - 48)
      else if 65 \<le> n \<and> n \<le> 70 then Some (n - 55)
      else if 97 \<le> n \<and> n \<le> 102 then Some (n - 87)
      else None)"

text \<open>\<open>None\<close> is the \<^verbatim>\<open>URIError\<close> of a malformed escape.\<close>

fun decodeURIComponent :: "string \<Rightarrow> string option" where
  "decodeURIComponent [] = Some []"
| "decodeURIComponent (c # s) =
     (if c = CHR ''%'' then
        (case s of
           h # l # r \<Rightarrow>
             (case (hexNum h, hexNum l) of
                (Some a, Some b) \<Rightarrow> map_option (Cons (char_of (a * 16 + b))) (decodeURIComponent r)
              | _ \<Rightarrow> None)
         | _ \<Rightarrow> None)
      else map_option (Cons c) (decodeURIComponent s))"

lemma hexNum_hexUpper: "d < 16 \<Longrightarrow> hexNum (hexUpper d) = Some d"
  by (auto simp: hexNum_def hexUpper_def Let_def)

lemma nibbles: "(of_char c :: nat) div 16 < 16" "(of_char c :: nat) mod 16 < 16"
  by (rule less_mult_imp_div_less) simp_all

lemma uriUnreserved_not_percent: "uriUnreserved c \<Longrightarrow> c \<noteq> CHR ''%''"
  by (auto simp: uriUnreserved_def isAlnum_def Let_def)

theorem decode_encodeURIComponent [simp]: "decodeURIComponent (encodeURIComponent s) = Some s"
proof (induction s)
  case Nil
  then show ?case by (simp add: encodeURIComponent_def)
next
  case (Cons c s)
  with nibbles [of c] show ?case
    by (auto simp: encodeURIComponent_def percent_def Let_def hexNum_hexUpper
        dest: uriUnreserved_not_percent)
qed

lemma isAlnum_hexUpper: "d < 16 \<Longrightarrow> isAlnum (hexUpper d)"
  by (auto simp: isAlnum_def hexUpper_def Let_def)

lemma set_encodeURIComponent:
  "c \<in> set (encodeURIComponent s) \<Longrightarrow> uriUnreserved c \<or> c = CHR ''%''"
  by (auto simp: encodeURIComponent_def percent_def Let_def uriUnreserved_def isAlnum_hexUpper nibbles
      split: if_splits)

text \<open>The separators of cookies and URLs never occur in an encoded component.\<close>

lemma encodeURIComponent_no_sep:
  "CHR '';'' \<notin> set (encodeURIComponent s)" "CHR ''='' \<notin> set (encodeURIComponent s)"
  "CHR ''/'' \<notin> set (encodeURIComponent s)" "CHR ''?'' \<notin> set (encodeURIComponent s)"
  "CHR ''#'' \<notin> set (encodeURIComponent s)" "CHR ''&'' \<notin> set (encodeURIComponent s)"
  "CHR '' '' \<notin> set (encodeURIComponent s)"
  by (auto dest!: set_encodeURIComponent simp: uriUnreserved_def isAlnum_def)

lemma encodeURIComponent_eq_Nil [simp]: "encodeURIComponent s = [] \<longleftrightarrow> s = []"
  by (cases s) (auto simp: encodeURIComponent_def percent_def Let_def)

lemma encodeURIComponent_inject [simp]:
  "encodeURIComponent s = encodeURIComponent t \<longleftrightarrow> s = t"
  by (metis decode_encodeURIComponent option.inject)

subsection \<open>Query strings\<close>

definition formEncode :: "string \<Rightarrow> string" where
  "formEncode s = concat (map (\<lambda>c. if c = CHR '' '' then ''+'' else if formUnreserved c then [c] else percent c) s)"

text \<open>\<^verbatim>\<open>URLSearchParams\<close> is the list of its pairs.\<close>

type_synonym query = "(string \<times> string) list"

definition queryAppend :: "string \<Rightarrow> string \<Rightarrow> query \<Rightarrow> query" where
  "queryAppend k v q = q @ [(k, v)]"

text \<open>\<^verbatim>\<open>params.set\<close>: the first pair of the name gets the value, the others go.\<close>

definition querySet :: "string \<Rightarrow> string \<Rightarrow> query \<Rightarrow> query" where
  "querySet k v q =
     (if k \<in> fst ` set q then
        (let pre = takeWhile (\<lambda>p. fst p \<noteq> k) q; post = dropWhile (\<lambda>p. fst p \<noteq> k) q in
         pre @ [(k, v)] @ filter (\<lambda>p. fst p \<noteq> k) (tl post))
      else q @ [(k, v)])"

definition queryGet :: "string \<Rightarrow> query \<Rightarrow> string option" where
  "queryGet k q = map_of q k"

definition queryStr :: "query \<Rightarrow> string" where
  "queryStr q = joinWith ''&'' (map (\<lambda>(k, v). formEncode k @ ''='' @ formEncode v) q)"

subsection \<open>Base64\<close>

definition b64Char :: "nat \<Rightarrow> char" where
  "b64Char n =
     (if n < 26 then char_of (65 + n) else if n < 52 then char_of (71 + n)
      else if n < 62 then char_of (n - 4) else if n = 62 then CHR ''+'' else CHR ''/'')"

definition b64Val :: "char \<Rightarrow> nat option" where
  "b64Val c =
     (let n = of_char c :: nat in
      if 65 \<le> n \<and> n \<le> 90 then Some (n - 65)
      else if 97 \<le> n \<and> n \<le> 122 then Some (n - 71)
      else if 48 \<le> n \<and> n \<le> 57 then Some (n + 4)
      else if n = 43 then Some 62
      else if n = 47 then Some 63
      else None)"

fun b64Enc :: "nat list \<Rightarrow> nat list" where
  "b64Enc [] = []"
| "b64Enc [a] = [a div 4, a mod 4 * 16]"
| "b64Enc [a, b] = [a div 4, a mod 4 * 16 + b div 16, b mod 16 * 4]"
| "b64Enc (a # b # c # r) =
     a div 4 # (a mod 4 * 16 + b div 16) # (b mod 16 * 4 + c div 64) # (c mod 64) # b64Enc r"

fun b64Dec :: "nat list \<Rightarrow> nat list" where
  "b64Dec (a # b # c # d # r) =
     (a * 4 + b div 16) # (b mod 16 * 16 + c div 4) # (c mod 4 * 64 + d) # b64Dec r"
| "b64Dec [a, b, c] = [a * 4 + b div 16, b mod 16 * 16 + c div 4]"
| "b64Dec [a, b] = [a * 4 + b div 16]"
| "b64Dec _ = []"

text \<open>\<^verbatim>\<open>atob\<close>: white space is dropped, at most two final padding characters are removed when
  the length is a multiple of four, then a length of \<open>4k + 1\<close> or a foreign character throws.\<close>

definition stripPad :: "string \<Rightarrow> string" where
  "stripPad t =
     (if length t mod 4 \<noteq> 0 then t
      else if suffix ''=='' t then take (length t - 2) t
      else if suffix ''='' t then take (length t - 1) t
      else t)"

definition atob :: "string \<Rightarrow> string option" where
  "atob s =
     (let t = stripPad (filter (\<lambda>c. \<not> (js_ws c \<and> c \<noteq> CHR 0x0B)) s) in
      if length t mod 4 = 1 \<or> (\<exists>c\<in>set t. b64Val c = None) then None
      else Some (map char_of (b64Dec (map (\<lambda>c. the (b64Val c)) t))))"

text \<open>Node's decoder reads up to the first padding character and skips foreign characters;
  it knows both alphabets.\<close>

definition bufferFromBase64 :: "string \<Rightarrow> string" where
  "bufferFromBase64 s =
     (let t = takeWhile (\<lambda>c. c \<noteq> CHR ''='') s;
          u = replaceChar (CHR ''-'') (CHR ''+'') (replaceChar (CHR ''_'') (CHR ''/'') t) in
      map char_of (b64Dec (map the (filter (\<lambda>v. v \<noteq> None) (map b64Val u)))))"

text \<open>What the token decoders do before decoding: back to the standard alphabet, padded.\<close>

definition normalizeB64url :: "string \<Rightarrow> string" where
  "normalizeB64url s = replaceChar (CHR ''_'') (CHR ''/'') (replaceChar (CHR ''-'') (CHR ''+'') s)"

definition padB64 :: "string \<Rightarrow> string" where
  "padB64 s = s @ replicate ((4 - length s mod 4) mod 4) (CHR ''='')"

text \<open>The unpadded base64url text of a token segment, as its issuer writes it.\<close>

definition b64urlEncode :: "string \<Rightarrow> string" where
  "b64urlEncode s =
     replaceChar (CHR ''+'') (CHR ''-'') (replaceChar (CHR ''/'') (CHR ''_'')
       (map b64Char (b64Enc (map of_char s))))"

lemma b64Val_b64Char: "n < 64 \<Longrightarrow> b64Val (b64Char n) = Some n"
  by (auto simp: b64Val_def b64Char_def Let_def)

lemma sextets:
  fixes a b c :: nat
  shows "a < 256 \<Longrightarrow> a div 4 < 64" "a mod 4 * 16 < 64"
    and "b < 256 \<Longrightarrow> a mod 4 * 16 + b div 16 < 64" "b mod 16 * 4 < 64"
    and "c < 256 \<Longrightarrow> b mod 16 * 4 + c div 64 < 64"
  by linarith+

lemma octets:
  fixes a b c :: nat
  shows "b < 256 \<Longrightarrow> a div 4 * 4 + (a mod 4 * 16 + b div 16) div 16 = a"
    and "b < 256 \<Longrightarrow> c < 256 \<Longrightarrow>
      (a mod 4 * 16 + b div 16) mod 16 * 16 + (b mod 16 * 4 + c div 64) div 4 = b"
    and "c < 256 \<Longrightarrow> (b mod 16 * 4 + c div 64) mod 4 * 64 + c mod 64 = c"
proof -
  have q: "b div 16 < 16" if "b < 256" for b :: nat using that by linarith
  have t: "c div 64 < 4" if "c < 256" for c :: nat using that by linarith
  show "b < 256 \<Longrightarrow> a div 4 * 4 + (a mod 4 * 16 + b div 16) div 16 = a"
    using q [of b] by simp
  show "b < 256 \<Longrightarrow> c < 256 \<Longrightarrow>
      (a mod 4 * 16 + b div 16) mod 16 * 16 + (b mod 16 * 4 + c div 64) div 4 = b"
    using q [of b] t [of c] by simp
  show "c < 256 \<Longrightarrow> (b mod 16 * 4 + c div 64) mod 4 * 64 + c mod 64 = c"
    using t [of c] by simp
qed

lemma b64Enc_bound: "\<forall>x\<in>set bs. x < 256 \<Longrightarrow> \<forall>y\<in>set (b64Enc bs). y < 64"
  by (induction bs rule: b64Enc.induct) (auto simp: sextets)

lemma b64Dec_b64Enc: "\<forall>x\<in>set bs. x < 256 \<Longrightarrow> b64Dec (b64Enc bs) = bs"
proof (induction bs rule: b64Enc.induct)
  case (2 a)
  then show ?case using octets(1) [of 0 a] by simp
next
  case (3 a b)
  then show ?case using octets(1) [of b a] octets(2) [of b 0 a] by simp
next
  case (4 a b c r)
  then show ?case using octets(1) [of b a] octets(2) [of b c a] octets(3) [of c b] by simp
qed simp

lemma length_b64Enc: "length (b64Enc bs) mod 4 \<noteq> 1"
  by (induction bs rule: b64Enc.induct) auto

lemma b64Char_plain: "b64Char n \<noteq> CHR ''-'' \<and> b64Char n \<noteq> CHR ''_'' \<and> b64Char n \<noteq> CHR ''='' \<and> \<not> js_ws (b64Char n)"
  if "n < 64"
proof -
  have "b64Val (b64Char n) \<noteq> None" using that by (simp add: b64Val_b64Char)
  then show ?thesis by (auto simp: b64Val_def Let_def js_ws_def)
qed

lemma stripPad_padB64:
  assumes "length t mod 4 \<noteq> 1" and "t = [] \<or> last t \<noteq> CHR ''=''"
  shows "stripPad (padB64 t) = t"
proof -
  have t: "\<not> suffix ''='' t" using assms(2) by (cases t rule: rev_cases) auto
  then have t2: "\<not> suffix ''=='' t" by (auto simp: suffix_def)
  have "length t mod 4 < 4" by simp
  then consider "length t mod 4 = 0" | "length t mod 4 = 2" | "length t mod 4 = 3"
    using assms(1) by linarith
  then show ?thesis
  proof cases
    case 1
    with t t2 show ?thesis by (simp add: padB64_def stripPad_def)
  next
    case 2
    then have p: "padB64 t = t @ ''==''" by (simp add: padB64_def numeral_2_eq_2)
    from 2 have "(length t + 2) mod 4 = 0" by presburger
    then show ?thesis unfolding p stripPad_def by (simp add: suffix_def)
  next
    case 3
    then have p: "padB64 t = t @ ''=''" by (simp add: padB64_def)
    from 3 have "Suc (length t) mod 4 = 0" by presburger
    moreover have "\<not> suffix ''=='' (t @ ''='')" using t by (auto simp: suffix_def)
    ultimately show ?thesis unfolding p stripPad_def by (simp add: suffix_def)
  qed
qed

text \<open>A token segment written by its issuer is read back.\<close>

theorem atob_padded_b64url: "atob (padB64 (normalizeB64url (b64urlEncode s))) = Some s"
proof -
  let ?ns = "b64Enc (map of_char s) :: nat list"
  let ?t = "map b64Char ?ns"
  have b: "\<forall>y\<in>set ?ns. y < 64" by (rule b64Enc_bound) auto
  have n: "normalizeB64url (b64urlEncode s) = ?t"
    unfolding normalizeB64url_def b64urlEncode_def replaceChar_def
    using b b64Char_plain by (auto simp: comp_def)
  have l: "length ?t mod 4 \<noteq> 1" using length_b64Enc [of "map of_char s"] by simp
  have ws: "filter (\<lambda>c. \<not> (js_ws c \<and> c \<noteq> CHR 0x0B)) (padB64 ?t) = padB64 ?t"
    using b b64Char_plain by (auto simp: padB64_def filter_id_conv js_ws_def)
  have "?t = [] \<or> last ?t \<noteq> CHR ''=''"
    using b b64Char_plain by (cases ?ns rule: rev_cases) auto
  with l have "stripPad (filter (\<lambda>c. \<not> (js_ws c \<and> c \<noteq> CHR 0x0B)) (padB64 ?t)) = ?t"
    unfolding ws by (rule stripPad_padB64)
  moreover have "\<forall>c\<in>set ?t. b64Val c \<noteq> None" using b by (auto simp: b64Val_b64Char)
  moreover have "map (\<lambda>c. the (b64Val c)) ?t = ?ns"
    using b by (auto simp: b64Val_b64Char map_idI)
  moreover have "b64Dec ?ns = map of_char s" by (rule b64Dec_b64Enc) auto
  ultimately show ?thesis
    using l unfolding n atob_def by (auto simp: Let_def comp_def)
qed

text \<open>Node's decoder agrees on the segments an issuer writes.\<close>

theorem buffer_padded_b64url: "bufferFromBase64 (padB64 (normalizeB64url (b64urlEncode s))) = s"
proof -
  let ?ns = "b64Enc (map of_char s) :: nat list"
  let ?t = "map b64Char ?ns"
  have b: "\<forall>y\<in>set ?ns. y < 64" by (rule b64Enc_bound) auto
  have n: "normalizeB64url (b64urlEncode s) = ?t"
    unfolding normalizeB64url_def b64urlEncode_def replaceChar_def
    using b b64Char_plain by (auto simp: comp_def)
  have "takeWhile (\<lambda>c. c \<noteq> CHR ''='') (padB64 ?t) = ?t"
  proof -
    have "\<forall>c\<in>set ?t. c \<noteq> CHR ''=''" using b b64Char_plain by auto
    then have "takeWhile (\<lambda>c. c \<noteq> CHR ''='') (?t @ r) = ?t @ takeWhile (\<lambda>c. c \<noteq> CHR ''='') r" for r
      by (intro takeWhile_append2) blast
    moreover have "takeWhile (\<lambda>c. c \<noteq> CHR ''='') (replicate k (CHR ''='')) = []" for k
      by (cases k) auto
    ultimately show ?thesis unfolding padB64_def by simp
  qed
  moreover have "replaceChar (CHR ''-'') (CHR ''+'') (replaceChar (CHR ''_'') (CHR ''/'') ?t) = ?t"
    using b b64Char_plain by (auto simp: replaceChar_def)
  moreover have "map the (filter (\<lambda>v. v \<noteq> None) (map b64Val ?t)) = ?ns"
    using b by (induction ?ns rule: rev_induct) (auto simp: b64Val_b64Char map_idI filter_map comp_def)
  moreover have "b64Dec ?ns = map of_char s" by (rule b64Dec_b64Enc) auto
  ultimately show ?thesis unfolding n bufferFromBase64_def by (simp add: Let_def comp_def)
qed

text \<open>A token segment contains no dot.\<close>

lemma b64urlEncode_no_dot: "CHR ''.'' \<notin> set (b64urlEncode s)"
proof -
  have b: "\<forall>y\<in>set (b64Enc (map of_char s) :: nat list). y < 64" by (rule b64Enc_bound) auto
  have "b64Char n \<noteq> CHR ''.''" if "n < 64" for n
  proof -
    have "b64Val (b64Char n) \<noteq> None" using that by (simp add: b64Val_b64Char)
    then show ?thesis by (auto simp: b64Val_def Let_def)
  qed
  then have "CHR ''.'' \<notin> b64Char ` {..<64}" by (metis imageE lessThan_iff)
  moreover have "set (map b64Char (b64Enc (map of_char s))) \<subseteq> b64Char ` {..<64}" using b by auto
  ultimately show ?thesis by (auto simp: b64urlEncode_def replaceChar_def)
qed

end
