(* ===== verification/Browser.thy ===== *)
theory Browser
  imports Js_Json Js_Encoding
begin

section \<open>The browser: storage, cookies, clock, network and errors\<close>

text \<open>
  The state the sources read and write through the browser's objects, and the effects as a
  state-and-exception monad. One asynchronous function runs from its call to its settled
  promise as one function on the state; what the server answers is a script of outcomes,
  one for each call of \<^verbatim>\<open>fetch\<close>, and every statement holds for every script. The requests
  made are recorded in order, so that a statement can speak about them.
\<close>

named_theorems io_simps \<open>unfolding the effect combinators\<close>

subsection \<open>Messages\<close>

record fetch_req =
  reqUrl :: string
  fmethod :: string
  fheaders :: "(string \<times> string) list"
  fbody :: "string option"

record response =
  rstatus :: nat
  contentType :: string
  jsonBody :: "json option"
  textBody :: "string option"

text \<open>\<open>jsonBody\<close> and \<open>textBody\<close> are what \<^verbatim>\<open>response.json()\<close> and \<^verbatim>\<open>response.text()\<close> settle to,
  \<open>None\<close> for a rejection.\<close>

definition rok :: "response \<Rightarrow> bool" where
  "rok r \<longleftrightarrow> 200 \<le> rstatus r \<and> rstatus r < 300"

datatype fetch_outcome = NetworkError | Responded response

text \<open>
  The errors: the client's own class with its message, status, body, path and
  session flag, any other \<^verbatim>\<open>Error\<close> with its message, and a body that does not have
  the type the client casts it to (the sources do not check, the model stops).
\<close>

datatype exn =
    ApiRequestError (errMessage: string) (errStatus: nat) (errBody: json) (errPath: string) (errExpired: bool)
  | JsError (errMessage: string)
  | IllTyped

subsection \<open>The state\<close>

record cookie =
  ckName :: string
  ckValue :: string
  ckExpires :: int
  ckSecure :: bool

record world =
  hasWindow :: bool
  locProtocol :: string
  locHostname :: string
  locHost :: string
  locPathname :: string
  now :: int
  localStorage :: "string \<rightharpoonup> string"
  cookieJar :: "cookie list"
  apiBase :: string
  inbox :: "(nat \<times> fetch_outcome) list"
  sent :: "fetch_req list"
  events :: "string list"
  uuids :: "nat \<Rightarrow> string"
  uuidNext :: nat

type_synonym 'a io = "world \<Rightarrow> (exn + 'a) \<times> world"

subsection \<open>Combinators\<close>

definition ret :: "'a \<Rightarrow> 'a io" where
  "ret x w = (Inr x, w)"

definition throw :: "exn \<Rightarrow> 'a io" where
  "throw e w = (Inl e, w)"

definition await :: "'a io \<Rightarrow> ('a \<Rightarrow> 'b io) \<Rightarrow> 'b io" where
  "await m f w = (case m w of (Inl e, w') \<Rightarrow> (Inl e, w') | (Inr x, w') \<Rightarrow> f x w')"

definition catching :: "'a io \<Rightarrow> (exn \<Rightarrow> 'a io) \<Rightarrow> 'a io" where
  "catching m h w = (case m w of (Inl e, w') \<Rightarrow> h e w' | (Inr x, w') \<Rightarrow> (Inr x, w'))"

definition asks :: "(world \<Rightarrow> 'a) \<Rightarrow> 'a io" where
  "asks f w = (Inr (f w), w)"

definition modify :: "(world \<Rightarrow> world) \<Rightarrow> unit io" where
  "modify f w = (Inr (), f w)"

lemmas [io_simps] = ret_def throw_def await_def catching_def asks_def modify_def

text \<open>Awaiting a settled promise, and the laws of sequencing.\<close>

lemma await_ret [simp]: "await (ret x) f = f x"
  by (rule ext) (simp add: io_simps)

lemma await_throw [simp]: "await (throw e) f = throw e"
  by (rule ext) (simp add: io_simps)

lemma catching_ret [simp]: "catching (ret x) h = ret x"
  by (rule ext) (simp add: io_simps)

lemma catching_throw [simp]: "catching (throw e) h = h e"
  by (rule ext) (simp add: io_simps)

lemma await_assoc: "await (await m f) g = await m (\<lambda>x. await (f x) g)"
  by (rule ext) (simp add: io_simps split: prod.splits sum.splits)

lemma await_Inr_iff:
  "await m f w = (Inr y, w'') \<longleftrightarrow> (\<exists>x w'. m w = (Inr x, w') \<and> f x w' = (Inr y, w''))"
  by (auto simp: await_def split: prod.splits sum.splits)

lemma await_Inl_iff:
  "await m f w = (Inl e, w'') \<longleftrightarrow>
    m w = (Inl e, w'') \<or> (\<exists>x w'. m w = (Inr x, w') \<and> f x w' = (Inl e, w''))"
  by (auto simp: await_def split: prod.splits sum.splits)

text \<open>A relation on states that every effect of a program respects.\<close>

definition keeps :: "(world \<Rightarrow> world \<Rightarrow> bool) \<Rightarrow> 'a io \<Rightarrow> bool" where
  "keeps R m \<longleftrightarrow> (\<forall>w. R w (snd (m w)))"

lemma keeps_ret: "reflp R \<Longrightarrow> keeps R (ret x)"
  by (simp add: keeps_def ret_def reflpD)

lemma keeps_throw: "reflp R \<Longrightarrow> keeps R (throw e)"
  by (simp add: keeps_def throw_def reflpD)

lemma keeps_asks: "reflp R \<Longrightarrow> keeps R (asks f)"
  by (simp add: keeps_def asks_def reflpD)

lemma keeps_modify: "(\<And>w. R w (f w)) \<Longrightarrow> keeps R (modify f)"
  by (simp add: keeps_def modify_def)

lemma keeps_if: "(b \<Longrightarrow> keeps R m) \<Longrightarrow> (\<not> b \<Longrightarrow> keeps R m') \<Longrightarrow> keeps R (if b then m else m')"
  by simp

lemma keeps_option: "keeps R m \<Longrightarrow> (\<And>x. keeps R (f x)) \<Longrightarrow> keeps R (case v of None \<Rightarrow> m | Some x \<Rightarrow> f x)"
  by (simp split: option.split)

lemma keeps_await:
  assumes R: "transp R" and m: "keeps R m" and f: "\<And>x. keeps R (f x)"
  shows "keeps R (await m f)"
  unfolding keeps_def
proof
  fix w
  obtain r w' where mw: "m w = (r, w')" by (cases "m w")
  have "R w w'" using m mw by (metis keeps_def snd_conv)
  moreover have "R w' (snd (f x w'))" for x using f by (simp add: keeps_def)
  ultimately show "R w (snd (await m f w))"
    using R by (auto simp: await_def mw split: sum.split dest: transpD)
qed

lemma keeps_catching:
  assumes R: "transp R" and m: "keeps R m" and h: "\<And>e. keeps R (h e)"
  shows "keeps R (catching m h)"
  unfolding keeps_def
proof
  fix w
  obtain r w' where mw: "m w = (r, w')" by (cases "m w")
  have "R w w'" using m mw by (metis keeps_def snd_conv)
  moreover have "R w' (snd (h e w'))" for e using h by (simp add: keeps_def)
  ultimately show "R w (snd (catching m h w))"
    using R by (auto simp: catching_def mw split: sum.split dest: transpD)
qed

lemmas keeps_intros = keeps_ret keeps_throw keeps_asks keeps_if keeps_option keeps_await keeps_catching

lemma keepsD: "keeps R m \<Longrightarrow> m w = (r, w') \<Longrightarrow> R w w'"
  by (metis keeps_def snd_conv)

subsection \<open>The network\<close>

text \<open>Each call consumes one outcome, which arrives after some milliseconds; without a server
  the call fails like a broken connection.\<close>

definition fetch :: "fetch_req \<Rightarrow> response io" where
  "fetch req w =
     (let w1 = w\<lparr>sent := sent w @ [req]\<rparr> in
      case inbox w of
        [] \<Rightarrow> (Inl (JsError ''Failed to fetch''), w1)
      | (d, out) # rest \<Rightarrow>
          (let w2 = w1\<lparr>inbox := rest, now := now w + int d\<rparr> in
           case out of
             NetworkError \<Rightarrow> (Inl (JsError ''Failed to fetch''), w2)
           | Responded r \<Rightarrow> (Inr r, w2)))"

subsection \<open>Headers\<close>

text \<open>Header names are compared in lower case; \<open>set\<close> replaces.\<close>

definition headerGet :: "string \<Rightarrow> (string \<times> string) list \<Rightarrow> string option" where
  "headerGet k hs = map_of hs (toLowerCase k)"

definition headerSet :: "string \<Rightarrow> string \<Rightarrow> (string \<times> string) list \<Rightarrow> (string \<times> string) list" where
  "headerSet k v hs = (toLowerCase k, v) # filter (\<lambda>p. fst p \<noteq> toLowerCase k) hs"

lemma map_of_filter_other: "k \<noteq> k' \<Longrightarrow> map_of (filter (\<lambda>p. fst p \<noteq> k') hs) k = map_of hs k"
  by (induction hs) auto

lemma headerGet_headerSet:
  "headerGet k (headerSet k' v hs) = (if toLowerCase k = toLowerCase k' then Some v else headerGet k hs)"
  by (auto simp: headerGet_def headerSet_def map_of_filter_other)

subsection \<open>Cookies\<close>

text \<open>
  Writing \<^verbatim>\<open>document.cookie\<close> replaces the cookie of that name in place, adds it at the end,
  or removes it when its life is over; reading shows the live ones.
\<close>

definition writeCookie :: "string \<Rightarrow> string \<Rightarrow> int \<Rightarrow> bool \<Rightarrow> world \<Rightarrow> world" where
  "writeCookie name v maxAge sec w =
     (let c = \<lparr>ckName = name, ckValue = v, ckExpires = now w + maxAge * 1000, ckSecure = sec\<rparr> in
      w\<lparr>cookieJar :=
         (if maxAge \<le> 0 then filter (\<lambda>d. ckName d \<noteq> name) (cookieJar w)
          else if name \<in> ckName ` set (cookieJar w)
               then map (\<lambda>d. if ckName d = name then c else d) (cookieJar w)
               else cookieJar w @ [c])\<rparr>)"

definition liveCookies :: "world \<Rightarrow> cookie list" where
  "liveCookies w = filter (\<lambda>c. now w < ckExpires c) (cookieJar w)"

definition documentCookie :: "world \<Rightarrow> string" where
  "documentCookie w = joinWith ''; '' (map (\<lambda>c. ckName c @ ''='' @ ckValue c) (liveCookies w))"

text \<open>A browser on a page of the platform, with nothing stored: the start of the examples.\<close>

definition freshBrowser :: world where
  "freshBrowser = \<lparr>hasWindow = True, locProtocol = ''https:'', locHostname = ''app.example.com'',
     locHost = ''app.example.com'', locPathname = ''/app/overview'', now = 1700000000123,
     localStorage = Map.empty, cookieJar = [], apiBase = ''/api'', inbox = [], sent = [],
     events = [], uuids = (\<lambda>n. ''uuid-'' @ natStr n), uuidNext = 0\<rparr>"

end
