(* ===== verification/Session.thy ===== *)
theory Session
  imports Browser
begin

section \<open>The browser session: tokens, storage and cookies\<close>

text \<open>
  \<^verbatim>\<open>saas-ui/domains/auth/auth.ts\<close> (token decoding, the token, role and user kept both in the
  local storage and in cookies) and \<^verbatim>\<open>saas-ui/domains/auth/domain/authPolicies.ts\<close> (where a
  sign-in may send the browser). The interface the API client relies on is the locale
  \<open>token_store\<close>; it is interpreted on \<open>saveToken\<close>, \<open>getToken\<close> and \<open>clearToken\<close> below.
\<close>

definition TOKEN_KEY :: string where "TOKEN_KEY = ''erp_saas_token''"
definition ROLE_KEY :: string where "ROLE_KEY = ''erp_saas_role''"
definition USER_KEY :: string where "USER_KEY = ''erp_saas_user''"

lemmas key_defs = TOKEN_KEY_def ROLE_KEY_def USER_KEY_def

subsection \<open>Token payloads\<close>

text \<open>
  The cast \<^verbatim>\<open>JSON.parse(json) as TokenPayload\<close> is kept as the JSON value; \<open>payloadExp\<close>,
  \<open>payloadRole\<close> are \<^verbatim>\<open>payload?.exp\<close> and \<^verbatim>\<open>payload?.role\<close> at their declared types.
\<close>

definition payloadExp :: "json option \<Rightarrow> int option" where
  "payloadExp p = (case p of None \<Rightarrow> None | Some j \<Rightarrow> asNum (getProp j ''exp''))"

definition payloadStr :: "string \<Rightarrow> json option \<Rightarrow> string option" where
  "payloadStr k p = (case p of None \<Rightarrow> None | Some j \<Rightarrow> asStr (getProp j k))"

text \<open>A number is truthy when it is there and not zero.\<close>

definition truthyNum :: "int option \<Rightarrow> bool" where
  "truthyNum x = (case x of None \<Rightarrow> False | Some n \<Rightarrow> n \<noteq> 0)"

text \<open>\<^verbatim>\<open>const [, payload] = token.split(".")\<close>; the second segment, if it is there and not empty.\<close>

definition tokenSegment :: "string \<Rightarrow> string option" where
  "tokenSegment token =
     (case splitOn ''.'' token of
        _ # payload # _ \<Rightarrow> if payload = [] then None else Some payload
      | _ \<Rightarrow> None)"

definition parseToken :: "string \<Rightarrow> json option" where
  "parseToken token =
     (case tokenSegment token of
        None \<Rightarrow> None
      | Some payload \<Rightarrow>
          (let normalized = replaceChar (CHR ''_'') (CHR ''/'') (replaceChar (CHR ''-'') (CHR ''+'') payload);
               padded = normalized @ replicate ((4 - length normalized mod 4) mod 4) (CHR ''='') in
           case atob padded of
             None \<Rightarrow> None
           | Some txt \<Rightarrow> JSON_parse txt))"

text \<open>The text an issuer puts on the wire for a payload.\<close>

definition mintToken :: "string \<Rightarrow> json \<Rightarrow> string \<Rightarrow> string" where
  "mintToken hdr payload sig = hdr @ ''.'' @ b64urlEncode (JSON_stringify payload) @ ''.'' @ sig"

lemma b64Enc_eq_Nil: "b64Enc xs = [] \<longleftrightarrow> xs = []"
  by (cases xs rule: b64Enc.cases) auto

lemma b64urlEncode_nonempty: "s \<noteq> [] \<Longrightarrow> b64urlEncode s \<noteq> []"
  by (simp add: b64urlEncode_def replaceChar_def b64Enc_eq_Nil)

lemma stringify_nonempty [simp]: "JSON_stringify v \<noteq> []"
  using length_stringify_pos [of v] by auto

lemma tokenSegment_split:
  assumes "CHR ''.'' \<notin> set hdr" and "CHR ''.'' \<notin> set sig"
  shows "\<exists>rest. splitOn ''.'' (mintToken hdr payload sig) = hdr # b64urlEncode (JSON_stringify payload) # rest
    \<and> b64urlEncode (JSON_stringify payload) \<noteq> []"
proof -
  let ?b = "b64urlEncode (JSON_stringify payload)"
  have "mintToken hdr payload sig = joinWith ''.'' [hdr, ?b, sig]" by (simp add: mintToken_def)
  moreover have "splitOn ''.'' (joinWith ''.'' [hdr, ?b, sig]) = [hdr, ?b, sig]"
    by (rule splitOn_join [where c = "CHR ''.''" and sep' = "[]"])
       (use assms b64urlEncode_no_dot in auto)
  ultimately show ?thesis by (simp add: b64urlEncode_nonempty)
qed

lemma tokenSegment_mintToken:
  assumes "CHR ''.'' \<notin> set hdr" and "CHR ''.'' \<notin> set sig"
  shows "tokenSegment (mintToken hdr payload sig) = Some (b64urlEncode (JSON_stringify payload))"
  using tokenSegment_split [OF assms, of payload] by (auto simp: tokenSegment_def)

lemma parseToken_minted:
  assumes "CHR ''.'' \<notin> set hdr" and "CHR ''.'' \<notin> set sig"
  shows "parseToken (mintToken hdr payload sig) = Some payload"
proof -
  have "atob (padB64 (normalizeB64url (b64urlEncode (JSON_stringify payload)))) = Some (JSON_stringify payload)"
    by (rule atob_padded_b64url)
  then show ?thesis
    unfolding parseToken_def tokenSegment_mintToken [OF assms]
    by (simp add: padB64_def normalizeB64url_def Let_def)
qed



subsection \<open>Cookies\<close>

definition setCookie :: "string \<Rightarrow> string \<Rightarrow> int \<Rightarrow> world \<Rightarrow> world" where
  "setCookie name v maxAgeSeconds w =
     (if \<not> hasWindow w then w
      else writeCookie name (encodeURIComponent v) maxAgeSeconds (locProtocol w = ''https:'') w)"

definition getCookie :: "string \<Rightarrow> world \<Rightarrow> exn + string option" where
  "getCookie name w =
     (if \<not> hasWindow w then Inr None
      else (case find (\<lambda>row. startsWith row (name @ ''='')) (splitOn ''; '' (documentCookie w)) of
              None \<Rightarrow> Inr None
            | Some row \<Rightarrow>
                (case decodeURIComponent (case splitOn ''='' row of _ # v # _ \<Rightarrow> v | _ \<Rightarrow> []) of
                   None \<Rightarrow> Inl (JsError ''URI malformed'')
                 | Some v \<Rightarrow> Inr (Some v))))"

definition clearCookie :: "string \<Rightarrow> world \<Rightarrow> world" where
  "clearCookie name w = (if \<not> hasWindow w then w else writeCookie name [] 0 False w)"

text \<open>What the browser guarantees of its cookies: names and values without separators.\<close>

definition wfCookie :: "cookie \<Rightarrow> bool" where
  "wfCookie c \<longleftrightarrow> CHR '';'' \<notin> set (ckName c) \<and> CHR ''='' \<notin> set (ckName c) \<and> CHR '';'' \<notin> set (ckValue c)"

definition wfJar :: "world \<Rightarrow> bool" where
  "wfJar w \<longleftrightarrow> (\<forall>c\<in>set (cookieJar w). wfCookie c)"

lemma wfJar_writeCookie:
  "wfJar w \<Longrightarrow> CHR '';'' \<notin> set n \<Longrightarrow> CHR ''='' \<notin> set n \<Longrightarrow> CHR '';'' \<notin> set v \<Longrightarrow> wfJar (writeCookie n v a s w)"
  by (auto simp: wfJar_def writeCookie_def wfCookie_def Let_def)

lemma rows_of_cookies:
  assumes "wfJar w"
  shows "splitOn ''; '' (documentCookie w) =
    (if liveCookies w = [] then [[]] else map (\<lambda>c. ckName c @ ''='' @ ckValue c) (liveCookies w))"
proof (cases "liveCookies w")
  case Nil
  then show ?thesis by (simp add: documentCookie_def splitOn_def)
next
  case (Cons c cs)
  have "\<forall>x\<in>set (map (\<lambda>c. ckName c @ ''='' @ ckValue c) (liveCookies w)). CHR '';'' \<notin> set x"
    using assms by (auto simp: wfJar_def wfCookie_def liveCookies_def)
  then show ?thesis
    unfolding documentCookie_def
    by (subst splitOn_join [where c = "CHR '';''" and sep' = "'' ''"]) (auto simp: Cons)
qed

lemma row_name:
  assumes "CHR ''='' \<notin> set n" and "CHR ''='' \<notin> set m"
  shows "startsWith (m @ ''='' @ v) (n @ ''='') \<longleftrightarrow> m = n"
proof
  assume "startsWith (m @ ''='' @ v) (n @ ''='')"
  then obtain z where "m @ CHR ''='' # v = n @ CHR ''='' # z"
    by (auto simp: startsWith_def prefix_def)
  then have "takeWhile (\<lambda>c. c \<noteq> CHR ''='') (m @ CHR ''='' # v) = takeWhile (\<lambda>c. c \<noteq> CHR ''='') (n @ CHR ''='' # z)"
    by simp
  then have "takeWhile (\<lambda>c. c \<noteq> CHR ''='') m = takeWhile (\<lambda>c. c \<noteq> CHR ''='') n"
    by (simp add: takeWhile_tail)
  moreover have "takeWhile (\<lambda>c. c \<noteq> CHR ''='') x = x" if "CHR ''='' \<notin> set x" for x :: string
    using that by (auto simp: takeWhile_eq_all_conv)
  ultimately show "m = n" using assms by simp
qed (simp add: startsWith_def)

lemma find_map: "find P (map f xs) = map_option f (find (P \<circ> f) xs)"
  by (induction xs) auto

text \<open>Reading a cookie by its name, in a well-formed jar.\<close>

lemma getCookie_lookup:
  assumes w: "hasWindow w" "wfJar w" and n: "CHR ''='' \<notin> set n" "n \<noteq> []"
  shows "getCookie n w =
    (case find (\<lambda>c. ckName c = n) (liveCookies w) of
       None \<Rightarrow> Inr None
     | Some c \<Rightarrow>
         (case decodeURIComponent (case splitOn ''='' (n @ ''='' @ ckValue c) of _ # v # _ \<Rightarrow> v | _ \<Rightarrow> []) of
            None \<Rightarrow> Inl (JsError ''URI malformed'')
          | Some v \<Rightarrow> Inr (Some v)))"
proof -
  have nm: "find (\<lambda>c. startsWith (ckName c @ ''='' @ ckValue c) (n @ ''='')) (liveCookies w)
      = find (\<lambda>c. ckName c = n) (liveCookies w)"
  proof (rule find_cong [OF refl])
    fix c assume "c \<in> set (liveCookies w)"
    then have "CHR ''='' \<notin> set (ckName c)"
      using w(2) by (auto simp: wfJar_def wfCookie_def liveCookies_def)
    then show "startsWith (ckName c @ ''='' @ ckValue c) (n @ ''='') \<longleftrightarrow> ckName c = n"
      using row_name [OF n(1)] by simp
  qed
  show ?thesis
  proof (cases "liveCookies w")
    case Nil
    then show ?thesis
      using w n by (simp add: getCookie_def rows_of_cookies startsWith_def)
  next
    case (Cons a l)
    then have "find (\<lambda>row. startsWith row (n @ ''='')) (splitOn ''; '' (documentCookie w)) =
        map_option (\<lambda>c. ckName c @ ''='' @ ckValue c) (find (\<lambda>c. ckName c = n) (liveCookies w))"
      unfolding rows_of_cookies [OF w(2)] nm [symmetric] by (simp add: find_map comp_def)
    then have g: "getCookie n w =
      (case map_option (\<lambda>c. ckName c @ ''='' @ ckValue c) (find (\<lambda>c. ckName c = n) (liveCookies w)) of
         None \<Rightarrow> Inr None
       | Some row \<Rightarrow> (case decodeURIComponent (case splitOn ''='' row of _ # v # _ \<Rightarrow> v | _ \<Rightarrow> []) of
             None \<Rightarrow> Inl (JsError ''URI malformed'') | Some v \<Rightarrow> Inr (Some v)))"
      using w(1) by (simp only: getCookie_def if_True not_True_eq_False if_False)
    show ?thesis
    proof (cases "find (\<lambda>c. ckName c = n) (liveCookies w)")
      case None
      then show ?thesis by (simp add: g)
    next
      case (Some c)
      then have "ckName c = n" by (auto simp: find_Some_iff)
      with Some show ?thesis by (simp add: g)
    qed
  qed
qed

lemma splitOn_cookie:
  assumes "CHR ''='' \<notin> set n" and "CHR ''='' \<notin> set v"
  shows "splitOn ''='' (n @ ''='' @ v) = [n, v]"
  using splitOn_join [of "''=''" "CHR ''=''" "[]" "[n, v]"] assms by simp

text \<open>A cookie just set reads back; a cookie cleared is gone; other names keep their value.\<close>

lemma liveCookies_write:
  assumes "0 < maxAge"
  shows "find (\<lambda>c. ckName c = n) (liveCookies (writeCookie n v maxAge sec w)) =
    Some \<lparr>ckName = n, ckValue = v, ckExpires = now w + maxAge * 1000, ckSecure = sec\<rparr>"
proof -
  let ?c = "\<lparr>ckName = n, ckValue = v, ckExpires = now w + maxAge * 1000, ckSecure = sec\<rparr>"
  have upd: "find (\<lambda>c. ckName c = n) (filter (\<lambda>c. now w < ckExpires c)
      (map (\<lambda>d. if ckName d = n then ?c else d) cs)) = Some ?c" if "n \<in> ckName ` set cs" for cs
    using that assms by (induction cs) auto
  have app: "find (\<lambda>c. ckName c = n) (filter (\<lambda>c. now w < ckExpires c) (cs @ [?c])) = Some ?c"
    if "n \<notin> ckName ` set cs" for cs
    using that assms by (induction cs) auto
  show ?thesis
    using assms upd [of "cookieJar w"] app [of "cookieJar w"]
    by (auto simp: liveCookies_def writeCookie_def Let_def)
qed

lemma liveCookies_other:
  "m \<noteq> n \<Longrightarrow> find (\<lambda>c. ckName c = m) (liveCookies (writeCookie n v maxAge sec w)) =
    find (\<lambda>c. ckName c = m) (liveCookies w)"
proof -
  assume mn: "m \<noteq> n"
  have f: "find (\<lambda>c. ckName c = m) (filter (\<lambda>c. now w < ckExpires c) (filter (\<lambda>d. ckName d \<noteq> n) cs)) =
      find (\<lambda>c. ckName c = m) (filter (\<lambda>c. now w < ckExpires c) cs)" for cs
    using mn by (induction cs) auto
  have u: "find (\<lambda>c. ckName c = m) (filter (\<lambda>c. now w < ckExpires c) (map (\<lambda>d. if ckName d = n then k else d) cs)) =
      find (\<lambda>c. ckName c = m) (filter (\<lambda>c. now w < ckExpires c) cs)" if "ckName k = n" for cs k
    using mn that by (induction cs) auto
  have a: "find (\<lambda>c. ckName c = m) (filter (\<lambda>c. now w < ckExpires c) (cs @ [k])) =
      find (\<lambda>c. ckName c = m) (filter (\<lambda>c. now w < ckExpires c) cs)" if "ckName k = n" for cs k
    using mn that by (induction cs) auto
  let ?k = "\<lparr>ckName = n, ckValue = v, ckExpires = now w + maxAge * 1000, ckSecure = sec\<rparr>"
  have k: "ckName ?k = n" by simp
  show ?thesis
    unfolding liveCookies_def writeCookie_def Let_def
    using f [of "cookieJar w"] u [OF k, of "cookieJar w"] a [OF k, of "cookieJar w"]
    by (simp del: filter_append filter_filter)
qed

lemma liveCookies_clear:
  "find (\<lambda>c. ckName c = n) (liveCookies (writeCookie n v 0 sec w)) = None"
  by (auto simp: liveCookies_def writeCookie_def Let_def find_None_iff)

lemma hasWindow_writeCookie [simp]: "hasWindow (writeCookie n v a s w) = hasWindow w"
  and localStorage_writeCookie [simp]: "localStorage (writeCookie n v a s w) = localStorage w"
  and now_writeCookie [simp]: "now (writeCookie n v a s w) = now w"
  and locProtocol_writeCookie [simp]: "locProtocol (writeCookie n v a s w) = locProtocol w"
  by (auto simp: writeCookie_def Let_def)

text \<open>The names of the session's cookies.\<close>

definition sessionKey :: "string \<Rightarrow> bool" where
  "sessionKey n \<longleftrightarrow> n \<in> {TOKEN_KEY, ROLE_KEY, USER_KEY}"

lemma sessionKey_wf: "sessionKey n \<Longrightarrow> CHR '';'' \<notin> set n \<and> CHR ''='' \<notin> set n \<and> n \<noteq> []"
  by (auto simp: sessionKey_def key_defs)

lemma sessionKeys [simp]: "sessionKey TOKEN_KEY" "sessionKey ROLE_KEY" "sessionKey USER_KEY"
  by (auto simp: sessionKey_def)

lemma keys_distinct [simp]:
  "TOKEN_KEY \<noteq> ROLE_KEY" "TOKEN_KEY \<noteq> USER_KEY" "ROLE_KEY \<noteq> USER_KEY"
  "ROLE_KEY \<noteq> TOKEN_KEY" "USER_KEY \<noteq> TOKEN_KEY" "USER_KEY \<noteq> ROLE_KEY"
  by (auto simp: key_defs)

lemma wfJar_setCookie [simp]: "wfJar w \<Longrightarrow> sessionKey n \<Longrightarrow> wfJar (setCookie n v a w)"
  by (auto simp: setCookie_def encodeURIComponent_no_sep sessionKey_wf intro: wfJar_writeCookie)

lemma wfJar_clearCookie [simp]: "wfJar w \<Longrightarrow> sessionKey n \<Longrightarrow> wfJar (clearCookie n w)"
  by (auto simp: clearCookie_def sessionKey_wf intro: wfJar_writeCookie)

lemma getCookie_setCookie:
  assumes "hasWindow w" "wfJar w" "sessionKey n" "sessionKey m" "0 < a"
  shows "getCookie m (setCookie n v a w) = (if m = n then Inr (Some v) else getCookie m w)"
proof -
  let ?w = "writeCookie n (encodeURIComponent v) a (locProtocol w = ''https:'') w"
  have wf: "wfJar ?w" using wfJar_setCookie [OF assms(2,3), of v a] assms(1) by (simp add: setCookie_def)
  have m: "CHR ''='' \<notin> set m" "m \<noteq> []" using sessionKey_wf [OF assms(4)] by auto
  show ?thesis
    using assms(1) getCookie_lookup [OF _ wf m] getCookie_lookup [OF assms(1,2) m]
      liveCookies_write [OF assms(5), of n] liveCookies_other [of m n] splitOn_cookie [OF m(1)]
    by (auto simp: setCookie_def encodeURIComponent_no_sep)
qed

lemma getCookie_clearCookie:
  assumes "hasWindow w" "wfJar w" "sessionKey n" "sessionKey m"
  shows "getCookie m (clearCookie n w) = (if m = n then Inr None else getCookie m w)"
proof -
  have wf: "wfJar (writeCookie n [] 0 False w)"
    using wfJar_clearCookie [OF assms(2,3)] assms(1) by (simp add: clearCookie_def)
  have m: "CHR ''='' \<notin> set m" "m \<noteq> []" using sessionKey_wf [OF assms(4)] by auto
  show ?thesis
    using assms(1) getCookie_lookup [OF _ wf m] getCookie_lookup [OF assms(1,2) m]
      liveCookies_clear [of n] liveCookies_other [of m n]
    by (auto simp: clearCookie_def)
qed

subsection \<open>The token store\<close>

definition storageSet :: "string \<Rightarrow> string \<Rightarrow> world \<Rightarrow> world" where
  "storageSet k v w = w\<lparr>localStorage := (localStorage w)(k \<mapsto> v)\<rparr>"

definition storageRemove :: "string \<Rightarrow> world \<Rightarrow> world" where
  "storageRemove k w = w\<lparr>localStorage := (localStorage w)(k := None)\<rparr>"

text \<open>How long the cookies of a token live: as long as the token, an hour when it does not say.\<close>

definition tokenMaxAge :: "json option \<Rightarrow> world \<Rightarrow> int" where
  "tokenMaxAge payload w =
     (let nowSeconds = now w div 1000 in
      case payloadExp payload of
        None \<Rightarrow> 60 * 60
      | Some e \<Rightarrow> if e \<noteq> 0 \<and> nowSeconds < e then e - nowSeconds else 60 * 60)"

definition saveEntry :: "string \<Rightarrow> string option \<Rightarrow> int \<Rightarrow> world \<Rightarrow> world" where
  "saveEntry k v maxAge w =
     (if truthyStr v then setCookie k (the v) maxAge (storageSet k (the v) w)
      else clearCookie k (storageRemove k w))"

definition saveToken :: "string \<Rightarrow> world \<Rightarrow> world" where
  "saveToken token w =
     (if \<not> hasWindow w then w
      else
        (let w1 = storageSet TOKEN_KEY token w;
             payload = parseToken token;
             maxAge = tokenMaxAge payload w1;
             w2 = setCookie TOKEN_KEY token maxAge w1;
             w3 = saveEntry ROLE_KEY (payloadStr ''role'' payload) maxAge w2;
             user = (case payloadStr ''email'' payload of
                       None \<Rightarrow> payloadStr ''sub'' payload | Some e \<Rightarrow> Some e) in
         saveEntry USER_KEY user maxAge w3))"

definition readEntry :: "string \<Rightarrow> world \<Rightarrow> exn + string option" where
  "readEntry k w =
     (if \<not> hasWindow w then Inr None
      else (case localStorage w k of Some v \<Rightarrow> Inr (Some v) | None \<Rightarrow> getCookie k w))"

definition getToken :: "world \<Rightarrow> exn + string option" where
  "getToken w = readEntry TOKEN_KEY w"

definition getSessionRole :: "world \<Rightarrow> exn + string option" where
  "getSessionRole w = readEntry ROLE_KEY w"

definition clearToken :: "world \<Rightarrow> world" where
  "clearToken w =
     (if \<not> hasWindow w then w
      else
        (let w1 = storageRemove USER_KEY (storageRemove ROLE_KEY (storageRemove TOKEN_KEY w)) in
         clearCookie USER_KEY (clearCookie ROLE_KEY (clearCookie TOKEN_KEY w1))))"

lemma storage_simps [simp]:
  "hasWindow (storageSet k v w) = hasWindow w" "hasWindow (storageRemove k w) = hasWindow w"
  "now (storageSet k v w) = now w" "now (storageRemove k w) = now w"
  "localStorage (storageSet k v w) = (localStorage w)(k \<mapsto> v)"
  "localStorage (storageRemove k w) = (localStorage w)(k := None)"
  "wfJar (storageSet k v w) = wfJar w" "wfJar (storageRemove k w) = wfJar w"
  "getCookie n (storageSet k v w) = getCookie n w" "getCookie n (storageRemove k w) = getCookie n w"
  by (simp_all add: storageSet_def storageRemove_def wfJar_def getCookie_def documentCookie_def
      liveCookies_def)

lemma cookie_simps [simp]:
  "hasWindow (setCookie n v a w) = hasWindow w" "hasWindow (clearCookie n w) = hasWindow w"
  "now (setCookie n v a w) = now w" "now (clearCookie n w) = now w"
  "localStorage (setCookie n v a w) = localStorage w" "localStorage (clearCookie n w) = localStorage w"
  by (simp_all add: setCookie_def clearCookie_def)

lemma saveEntry_simps [simp]:
  "hasWindow (saveEntry k v a w) = hasWindow w" "now (saveEntry k v a w) = now w"
  "sessionKey k \<Longrightarrow> wfJar w \<Longrightarrow> wfJar (saveEntry k v a w)"
  "localStorage (saveEntry k v a w) = (localStorage w)(k := (if truthyStr v then v else None))"
  by (auto simp: saveEntry_def truthyStr_def split: option.splits)

lemma getCookie_saveEntry:
  assumes "hasWindow w" "wfJar w" "sessionKey k" "sessionKey m" "0 < a"
  shows "getCookie m (saveEntry k v a w) =
    (if m = k then Inr (if truthyStr v then v else None) else getCookie m w)"
  using assms getCookie_setCookie [of "storageSet k (the v) w" k m a "the v"]
    getCookie_clearCookie [of "storageRemove k w" k m]
  by (auto simp: saveEntry_def truthyStr_def split: option.splits)

lemma tokenMaxAge_pos: "0 < tokenMaxAge p w"
  by (auto simp: tokenMaxAge_def Let_def split: option.split)

lemma wfJar_saveToken [simp]: "wfJar w \<Longrightarrow> wfJar (saveToken t w)"
  by (simp add: saveToken_def Let_def)

lemma wfJar_clearToken [simp]: "wfJar w \<Longrightarrow> wfJar (clearToken w)"
  by (simp add: clearToken_def Let_def)

lemma localStorage_saveToken:
  "hasWindow w \<Longrightarrow> localStorage (saveToken t w) TOKEN_KEY = Some t"
  by (simp add: saveToken_def Let_def)

text \<open>Nothing but the storage and the cookies changes.\<close>

definition storeOnly :: "world \<Rightarrow> world \<Rightarrow> bool" where
  "storeOnly w w' \<longleftrightarrow>
     w'\<lparr>localStorage := Map.empty, cookieJar := []\<rparr> = w\<lparr>localStorage := Map.empty, cookieJar := []\<rparr>"

lemma storeOnly_refl [simp]: "storeOnly w w"
  by (simp add: storeOnly_def)

lemma storeOnly_steps:
  "storeOnly w u \<Longrightarrow> storeOnly w (storageSet k v u)" "storeOnly w u \<Longrightarrow> storeOnly w (storageRemove k u)"
  "storeOnly w u \<Longrightarrow> storeOnly w (setCookie k v a u)" "storeOnly w u \<Longrightarrow> storeOnly w (clearCookie k u)"
  by (simp_all add: storeOnly_def storageSet_def storageRemove_def setCookie_def clearCookie_def
      writeCookie_def Let_def)

lemma storeOnly_saveToken: "storeOnly w (saveToken t w)"
  by (simp add: saveToken_def saveEntry_def Let_def storeOnly_steps)

lemma storeOnly_clearToken: "storeOnly w (clearToken w)"
  by (simp add: clearToken_def Let_def storeOnly_steps)

lemma storeOnly_frame:
  assumes "storeOnly w w'"
  shows "sent w' = sent w" "events w' = events w" "inbox w' = inbox w" "apiBase w' = apiBase w"
    "now w' = now w" "hasWindow w' = hasWindow w" "uuids w' = uuids w" "uuidNext w' = uuidNext w"
    "locProtocol w' = locProtocol w"
  using assms unfolding storeOnly_def by (cases w, cases w', simp)+

lemmas saveToken_frame [simp] = storeOnly_frame [OF storeOnly_saveToken]
lemmas clearToken_frame [simp] = storeOnly_frame [OF storeOnly_clearToken]

text \<open>What the two copies of the session hold is the same.\<close>

definition mirrored :: "world \<Rightarrow> bool" where
  "mirrored w \<longleftrightarrow> (\<forall>k. sessionKey k \<longrightarrow> getCookie k w = Inr (localStorage w k))"

lemma session_mirrored_lemma:
  assumes "hasWindow w" and "wfJar w"
  shows "mirrored (saveToken token w) \<and> mirrored (clearToken w)"
proof
  have pos: "0 < tokenMaxAge p v" for p v by (rule tokenMaxAge_pos)
  show "mirrored (saveToken token w)"
    unfolding mirrored_def
    using assms pos
    by (auto simp: saveToken_def Let_def getCookie_saveEntry getCookie_setCookie sessionKey_def)
  show "mirrored (clearToken w)"
    unfolding mirrored_def
    using assms
    by (auto simp: clearToken_def Let_def getCookie_clearCookie sessionKey_def)
qed

text \<open>
  C2: After a token is saved, and after it is cleared, the local storage and the cookies hold
  the same token, the same role and the same user, whatever either held before.
\<close>

theorem session_mirrored:
  assumes "hasWindow w" and "wfJar w"
  shows "mirrored (saveToken token w) \<and> mirrored (clearToken w)"
  using assms by (rule session_mirrored_lemma)

theorem session_mirrored_witness:
  "mirrored (saveToken ''tok'' freshBrowser) \<and> mirrored (clearToken freshBrowser)"
  by (rule session_mirrored) (simp_all add: freshBrowser_def wfJar_def)

subsection \<open>The interface of a token store\<close>

text \<open>
  What the API client relies on: a store in a good state returns the token last saved and
  nothing after a clear, and stays in a good state.
\<close>

locale token_store =
  fixes save :: "string \<Rightarrow> 's \<Rightarrow> 's"
    and get :: "'s \<Rightarrow> exn + string option"
    and clear :: "'s \<Rightarrow> 's"
    and ok :: "'s \<Rightarrow> bool"
  assumes ok_save: "ok s \<Longrightarrow> ok (save t s)"
    and ok_clear: "ok s \<Longrightarrow> ok (clear s)"
    and get_save: "ok s \<Longrightarrow> get (save t s) = Inr (Some t)"
    and get_clear: "ok s \<Longrightarrow> get (clear s) = Inr None"
begin

lemma ok_rotate: "ok s \<Longrightarrow> ok (fold save ts s)"
  by (induction ts arbitrary: s) (auto intro: ok_save)

lemma get_rotate:
  assumes "ok s" and "ts \<noteq> []"
  shows "get (fold save ts s) = Inr (Some (last ts))"
proof -
  obtain us t where ts: "ts = us @ [t]" using assms(2) by (cases ts rule: rev_cases) auto
  have "get (save t (fold save us s)) = Inr (Some t)"
    by (rule get_save) (rule ok_rotate [OF assms(1)])
  then show ?thesis by (simp add: ts)
qed

lemma get_rotate_clear: "ok s \<Longrightarrow> get (clear (fold save ts s)) = Inr None"
  by (rule get_clear) (rule ok_rotate)

end

interpretation session: token_store saveToken getToken clearToken "\<lambda>w. hasWindow w \<and> wfJar w"
proof unfold_locales
  fix w :: world and t
  assume w: "hasWindow w \<and> wfJar w"
  then show "hasWindow (saveToken t w) \<and> wfJar (saveToken t w)"
    and "hasWindow (clearToken w) \<and> wfJar (clearToken w)" by auto
  show "getToken (saveToken t w) = Inr (Some t)"
    using w by (simp add: getToken_def readEntry_def localStorage_saveToken)
  have "getCookie TOKEN_KEY (clearToken w) = Inr (localStorage (clearToken w) TOKEN_KEY)"
    using w session_mirrored_lemma [of w t] by (simp add: mirrored_def)
  then show "getToken (clearToken w) = Inr None"
    using w by (simp add: getToken_def readEntry_def clearToken_def Let_def)
qed

text \<open>
  Signing in any number of times and reading the token back gives the last token saved;
  signing out afterwards leaves no token, in the storage or in a cookie.
\<close>

theorem token_last_saved:
  assumes "hasWindow w" and "wfJar w" and "ts \<noteq> []"
  shows "getToken (fold saveToken ts w) = Inr (Some (last ts)) \<and>
    getToken (clearToken (fold saveToken ts w)) = Inr None"
  using session.get_rotate session.get_rotate_clear assms by blast

theorem token_last_saved_witness:
  "getToken (fold saveToken [''first'', ''second''] freshBrowser) = Inr (Some ''second'') \<and>
    getToken (clearToken (fold saveToken [''first'', ''second''] freshBrowser)) = Inr None"
  using token_last_saved [of freshBrowser "[''first'', ''second'']"]
  by (simp add: freshBrowser_def wfJar_def)

subsection \<open>Life time of the cookies\<close>

lemma find_token_cookie:
  assumes "hasWindow w"
  shows "\<exists>c. find (\<lambda>c. ckName c = TOKEN_KEY) (liveCookies (saveToken t w)) = Some c \<and>
    ckExpires c = now w + tokenMaxAge (parseToken t) w * 1000"
proof -
  have live: "find (\<lambda>c. ckName c = m) (liveCookies (storageSet k v u)) = find (\<lambda>c. ckName c = m) (liveCookies u)"
    "find (\<lambda>c. ckName c = m) (liveCookies (storageRemove k u)) = find (\<lambda>c. ckName c = m) (liveCookies u)"
    for m k v u
    by (simp_all add: storageSet_def storageRemove_def liveCookies_def)
  have age: "tokenMaxAge p (storageSet k v u) = tokenMaxAge p u" for p k v u
    by (simp add: tokenMaxAge_def)
  have other: "find (\<lambda>c. ckName c = TOKEN_KEY) (liveCookies (saveEntry k v a u)) =
      find (\<lambda>c. ckName c = TOKEN_KEY) (liveCookies u)" if "k \<noteq> TOKEN_KEY" "hasWindow u" for k v a u
    using that by (auto simp: saveEntry_def setCookie_def clearCookie_def liveCookies_other live)
  show ?thesis
    using assms liveCookies_write [OF tokenMaxAge_pos, of TOKEN_KEY]
    by (simp add: saveToken_def Let_def other age live setCookie_def)
qed

text \<open>
  The token cookie of a token that has not yet expired lives until the token expires, and
  less than a second longer (the clock is cut to whole seconds).
\<close>

theorem token_cookie_lifetime:
  assumes "hasWindow w" and "payloadExp (parseToken t) = Some e" and "now w div 1000 < e" and "0 < e"
  shows "\<exists>c. find (\<lambda>c. ckName c = TOKEN_KEY) (liveCookies (saveToken t w)) = Some c \<and>
    e * 1000 \<le> ckExpires c \<and> ckExpires c < e * 1000 + 1000"
proof -
  obtain c where c: "find (\<lambda>c. ckName c = TOKEN_KEY) (liveCookies (saveToken t w)) = Some c"
    "ckExpires c = now w + tokenMaxAge (parseToken t) w * 1000"
    using find_token_cookie [OF assms(1)] by blast
  have "ckExpires c = now w + (e - now w div 1000) * 1000"
    using c(2) assms by (simp add: tokenMaxAge_def Let_def)
  moreover have "now w = now w div 1000 * 1000 + now w mod 1000" by simp
  moreover have "0 \<le> now w mod 1000" "now w mod 1000 < 1000" by simp_all
  ultimately have "e * 1000 \<le> ckExpires c" "ckExpires c < e * 1000 + 1000"
    by (auto simp: left_diff_distrib)
  with c(1) show ?thesis by blast
qed

text \<open>A token of an hour for the examples.\<close>

definition hourToken :: string where
  "hourToken = mintToken ''h'' (JObj [(''exp'', JNum 1700003600), (''role'', JStr ''admin'')]) ''s''"

lemma parse_hourToken:
  "parseToken hourToken = Some (JObj [(''exp'', JNum 1700003600), (''role'', JStr ''admin'')])"
  unfolding hourToken_def by (rule parseToken_minted) simp_all

lemma hourToken_nonempty: "hourToken \<noteq> []"
  by (simp add: hourToken_def mintToken_def)

theorem token_cookie_lifetime_witness:
  "\<exists>c. find (\<lambda>c. ckName c = TOKEN_KEY) (liveCookies (saveToken hourToken freshBrowser)) = Some c \<and>
    1700003600 * 1000 \<le> ckExpires c \<and> ckExpires c < 1700003600 * 1000 + 1000"
  by (rule token_cookie_lifetime)
     (simp_all add: freshBrowser_def parse_hourToken payloadExp_def)

subsection \<open>Where a sign-in may lead\<close>

text \<open>\<^verbatim>\<open>saas-ui/domains/auth/domain/authPolicies.ts\<close>.\<close>

definition DEFAULT_POST_LOGIN_REDIRECT :: string where
  "DEFAULT_POST_LOGIN_REDIRECT = ''/app/overview''"

definition safePostLoginRedirect :: "string option \<Rightarrow> string \<Rightarrow> string" where
  "safePostLoginRedirect nextParam fallback =
     (if \<not> truthyStr nextParam \<or> \<not> startsWith (the nextParam) ''/'' \<or> startsWith (the nextParam) ''//''
      then fallback else the nextParam)"

definition sanitizeAuthEmail :: "string \<Rightarrow> string" where
  "sanitizeAuthEmail email = trim email"

definition normalizeHealthMessage :: "string option \<Rightarrow> string \<Rightarrow> string" where
  "normalizeHealthMessage message fallback = orElse (map_option trim message) fallback"

text \<open>
  How the URL standard resolves a reference that begins with a slash against a page of a web
  site: control characters and spaces at the ends and every tab and line break are dropped,
  then a second slash, or a backslash in its place, starts the name of another host.
\<close>

definition c0OrSpace :: "char \<Rightarrow> bool" where
  "c0OrSpace c \<longleftrightarrow> (of_char c :: nat) \<le> 32"

definition urlInput :: "string \<Rightarrow> string" where
  "urlInput s =
     filter (\<lambda>c. (of_char c :: nat) \<notin> {9, 10, 13})
       (rev (dropWhile c0OrSpace (rev (dropWhile c0OrSpace s))))"

definition urlSlash :: "char \<Rightarrow> bool" where
  "urlSlash c \<longleftrightarrow> c = CHR ''/'' \<or> c = CHR 0x5C"

definition resolvesOnSite :: "string \<Rightarrow> bool" where
  "resolvesOnSite s =
     (case urlInput s of a # b # _ \<Rightarrow> \<not> (urlSlash a \<and> urlSlash b) | _ \<Rightarrow> True)"

text \<open>References without a backslash or a control character, the ones the check has in mind.\<close>

definition plainRef :: "string \<Rightarrow> bool" where
  "plainRef s \<longleftrightarrow> (\<forall>c\<in>set s. c \<noteq> CHR 0x5C \<and> 32 < (of_char c :: nat))"

lemma dropWhile_none: "(\<And>c. c \<in> set s \<Longrightarrow> \<not> P c) \<Longrightarrow> dropWhile P s = s"
  by (cases s) auto

lemma urlInput_plain:
  assumes "plainRef s"
  shows "urlInput s = s"
proof -
  have big: "x \<notin> {9, 10, 13} \<and> \<not> x \<le> 32" if "32 < x" for x :: nat
    using that by auto
  have n: "\<not> c0OrSpace c" "(of_char c :: nat) \<notin> {9, 10, 13}" if "c \<in> set s" for c
    using assms that big [of "of_char c"] unfolding plainRef_def c0OrSpace_def by blast+
  have "dropWhile c0OrSpace s = s" by (rule dropWhile_none) (rule n(1))
  moreover have "dropWhile c0OrSpace (rev s) = rev s" by (rule dropWhile_none) (use n(1) in simp)
  moreover have "filter (\<lambda>c. (of_char c :: nat) \<notin> {9, 10, 13}) s = s"
    by (rule filter_True) (use n(2) in blast)
  ultimately show ?thesis by (simp only: urlInput_def rev_rev_ident)
qed

lemma safe_redirect_shape:
  "startsWith fallback ''/'' \<Longrightarrow> \<not> startsWith fallback ''//'' \<Longrightarrow>
   startsWith (safePostLoginRedirect n fallback) ''/'' \<and> \<not> startsWith (safePostLoginRedirect n fallback) ''//''"
  by (auto simp: safePostLoginRedirect_def)

lemma on_site_plain:
  assumes "plainRef s" and "startsWith s ''/''" and "\<not> startsWith s ''//''"
  shows "resolvesOnSite s"
proof -
  obtain t where t: "s = CHR ''/'' # t" using assms(2) by (auto simp: startsWith_def prefix_def)
  have "t = [] \<or> \<not> urlSlash (hd t)"
    using assms t by (cases t) (auto simp: startsWith_def plainRef_def urlSlash_def)
  then show ?thesis
    using urlInput_plain [OF assms(1)] t by (cases t) (simp_all add: resolvesOnSite_def)
qed

end
