(* ===== verification/Types.thy ===== *)
theory Types
  imports Js_Json "HOL-Library.Monad_Syntax"
begin

section \<open>The wire types of the control-plane API\<close>

text \<open>
  The declarations of \<^verbatim>\<open>saas-ui/domains/shared/lib/types.ts\<close>, one record for each object type,
  with the field names prefixed by an abbreviation of the type. A field that may be absent
  or \<^verbatim>\<open>null\<close> is an \<open>option\<close>; the open string unions (\<^verbatim>\<open>TenantStatus\<close>, \<^verbatim>\<open>JobStatus\<close>,
  \<^verbatim>\<open>TenantPlan\<close>) are strings, as their \<^verbatim>\<open>(string & {})\<close> member makes them.

  \<open>as_T\<close> reads a JSON value as a \<open>T\<close>: the cast \<^verbatim>\<open>body as T\<close> of the API client, which the
  language does not check. It is \<open>None\<close> for a value that does not have the declared type;
  there the model stops, where the program would go on with a value of another shape.
\<close>

type_synonym TenantStatus = string
type_synonym JobStatus = string
type_synonym TenantPlan = string

subsection \<open>Reading fields\<close>

definition reqStr :: "json \<Rightarrow> string \<Rightarrow> string option" where
  "reqStr j k = asStr (getProp j k)"

definition reqNum :: "json \<Rightarrow> string \<Rightarrow> int option" where
  "reqNum j k = asNum (getProp j k)"

definition reqBool :: "json \<Rightarrow> string \<Rightarrow> bool option" where
  "reqBool j k = asBool (getProp j k)"

definition reqVal :: "(json \<Rightarrow> 'a option) \<Rightarrow> json \<Rightarrow> string \<Rightarrow> 'a option" where
  "reqVal f j k = Option.bind (getProp j k) f"

definition optVal :: "(json \<Rightarrow> 'a option) \<Rightarrow> json \<Rightarrow> string \<Rightarrow> 'a option option" where
  "optVal f j k =
     (case getProp j k of None \<Rightarrow> Some None | Some JNull \<Rightarrow> Some None
      | Some v \<Rightarrow> map_option Some (f v))"

definition optStr :: "json \<Rightarrow> string \<Rightarrow> string option option" where
  "optStr j k = optVal (\<lambda>v. asStr (Some v)) j k"

definition optNum :: "json \<Rightarrow> string \<Rightarrow> int option option" where
  "optNum j k = optVal (\<lambda>v. asNum (Some v)) j k"

definition optBool :: "json \<Rightarrow> string \<Rightarrow> bool option option" where
  "optBool j k = optVal (\<lambda>v. asBool (Some v)) j k"

fun readAll :: "(json \<Rightarrow> 'a option) \<Rightarrow> json list \<Rightarrow> 'a list option" where
  "readAll f [] = Some []"
| "readAll f (v # vs) = do { x \<leftarrow> f v; xs \<leftarrow> readAll f vs; Some (x # xs) }"

fun as_list :: "(json \<Rightarrow> 'a option) \<Rightarrow> json \<Rightarrow> 'a list option" where
  "as_list f (JArr vs) = readAll f vs"
| "as_list f _ = None"

definition reqList :: "(json \<Rightarrow> 'a option) \<Rightarrow> json \<Rightarrow> string \<Rightarrow> 'a list option" where
  "reqList f j k = reqVal (as_list f) j k"

definition strList :: "json \<Rightarrow> string list option" where
  "strList v = as_list (\<lambda>v. asStr (Some v)) v"

text \<open>A value that passes through unread.\<close>

definition as_json :: "json \<Rightarrow> json option" where
  "as_json j = Some j"

lemmas field_defs = reqStr_def reqNum_def reqBool_def reqVal_def optVal_def optStr_def optNum_def
  optBool_def reqList_def strList_def as_json_def

lemma readAll_map: "(\<And>x. x \<in> set xs \<Longrightarrow> f (g x) = Some x) \<Longrightarrow> readAll f (map g xs) = Some xs"
  by (induction xs) auto

lemma length_readAll: "readAll f vs = Some xs \<Longrightarrow> length xs = length vs"
  by (induction vs arbitrary: xs) (auto split: Option.bind_splits)

subsection \<open>Generic results\<close>

text \<open>\<^verbatim>\<open>OptionalEndpointResult<T>\<close>: a backend without the endpoint is an ordinary result.\<close>

datatype 'a OptionalEndpointResult = Supported 'a | Unsupported

fun supported :: "'a OptionalEndpointResult \<Rightarrow> bool" where
  "supported (Supported _) = True"
| "supported Unsupported = False"

record 'a PaginatedResult =
  pr_data :: "'a list"
  pr_total :: int
  pr_page :: int
  pr_limit :: int

definition as_PaginatedResult :: "(json \<Rightarrow> 'a option) \<Rightarrow> json \<Rightarrow> 'a PaginatedResult option" where
  "as_PaginatedResult f j = do {
     x0 \<leftarrow> reqList f j ''data'';
     x1 \<leftarrow> reqNum j ''total'';
     x2 \<leftarrow> reqNum j ''page'';
     x3 \<leftarrow> reqNum j ''limit'';
     Some \<lparr>pr_data = x0, pr_total = x1, pr_page = x2, pr_limit = x3\<rparr> }"

subsection \<open>Request payloads\<close>

record TenantCreatePayload =
  cp_subdomain :: string
  cp_company_name :: string
  cp_plan :: TenantPlan
  cp_chosen_app :: "string option"

record TenantUpdatePayload =
  up_plan :: "string option"
  up_chosen_app :: "string option"

subsection \<open>Notifications of the user interface\<close>

datatype NotificationType = NSuccess | NWarning | NError | NInfo

record NotificationItem =
  ni_id :: string
  ni_type :: NotificationType
  ni_title :: string
  ni_body :: string
  ni_created_at :: string
  ni_read :: bool

subsection \<open>Resources\<close>

record PlanEntitlement =
  pe_id :: string
  pe_plan_id :: string
  pe_app_slug :: string
  pe_mandatory :: bool
  pe_selectable :: bool

definition as_PlanEntitlement :: "json \<Rightarrow> PlanEntitlement option" where
  "as_PlanEntitlement j = do {
     x0 \<leftarrow> reqStr j ''id'';
     x1 \<leftarrow> reqStr j ''plan_id'';
     x2 \<leftarrow> reqStr j ''app_slug'';
     x3 \<leftarrow> reqBool j ''mandatory'';
     x4 \<leftarrow> reqBool j ''selectable'';
     Some \<lparr>pe_id = x0, pe_plan_id = x1, pe_app_slug = x2, pe_mandatory = x3,
       pe_selectable = x4\<rparr> }"

record PlanDetail =
  pd_id :: string
  pd_slug :: string
  pd_display_name :: string
  pd_is_active :: bool
  pd_isolation_model :: string
  pd_max_extra_apps :: "int option"
  pd_monthly_price_usd_cents :: int
  pd_monthly_price_tzs :: int
  pd_stripe_price_id :: "string option"
  pd_dpo_product_code :: "string option"
  pd_backup_frequency :: string
  pd_backup_retention_days :: int
  pd_includes_s3_offsite_backup :: bool
  pd_support_channel :: string
  pd_sla_enabled :: bool
  pd_custom_domain_enabled :: bool
  pd_created_at :: string
  pd_updated_at :: string
  pd_entitlements :: "PlanEntitlement list"

definition as_PlanDetail :: "json \<Rightarrow> PlanDetail option" where
  "as_PlanDetail j = do {
     x0 \<leftarrow> reqStr j ''id'';
     x1 \<leftarrow> reqStr j ''slug'';
     x2 \<leftarrow> reqStr j ''display_name'';
     x3 \<leftarrow> reqBool j ''is_active'';
     x4 \<leftarrow> reqStr j ''isolation_model'';
     x5 \<leftarrow> optNum j ''max_extra_apps'';
     x6 \<leftarrow> reqNum j ''monthly_price_usd_cents'';
     x7 \<leftarrow> reqNum j ''monthly_price_tzs'';
     x8 \<leftarrow> optStr j ''stripe_price_id'';
     x9 \<leftarrow> optStr j ''dpo_product_code'';
     x10 \<leftarrow> reqStr j ''backup_frequency'';
     x11 \<leftarrow> reqNum j ''backup_retention_days'';
     x12 \<leftarrow> reqBool j ''includes_s3_offsite_backup'';
     x13 \<leftarrow> reqStr j ''support_channel'';
     x14 \<leftarrow> reqBool j ''sla_enabled'';
     x15 \<leftarrow> reqBool j ''custom_domain_enabled'';
     x16 \<leftarrow> reqStr j ''created_at'';
     x17 \<leftarrow> reqStr j ''updated_at'';
     x18 \<leftarrow> reqList as_PlanEntitlement j ''entitlements'';
     Some \<lparr>pd_id = x0, pd_slug = x1, pd_display_name = x2, pd_is_active = x3,
       pd_isolation_model = x4, pd_max_extra_apps = x5, pd_monthly_price_usd_cents = x6,
       pd_monthly_price_tzs = x7, pd_stripe_price_id = x8, pd_dpo_product_code = x9,
       pd_backup_frequency = x10, pd_backup_retention_days = x11,
       pd_includes_s3_offsite_backup = x12, pd_support_channel = x13, pd_sla_enabled = x14,
       pd_custom_domain_enabled = x15, pd_created_at = x16, pd_updated_at = x17,
       pd_entitlements = x18\<rparr> }"

record Tenant =
  tn_id :: string
  tn_organization_id :: "string option"
  tn_owner_id :: string
  tn_owner_email :: "string option"
  tn_subdomain :: string
  tn_domain :: string
  tn_site_name :: string
  tn_company_name :: string
  tn_plan :: string
  tn_chosen_app :: "string option"
  tn_status :: string
  tn_billing_status :: "string option"
  tn_payment_channel :: "string option"
  tn_stripe_checkout_session_id :: "string option"
  tn_stripe_subscription_id :: "string option"
  tn_platform_customer_id :: "string option"
  tn_payment_provider :: "string option"
  tn_dpo_transaction_token :: "string option"
  tn_created_at :: string
  tn_updated_at :: string

definition as_Tenant :: "json \<Rightarrow> Tenant option" where
  "as_Tenant j = do {
     x0 \<leftarrow> reqStr j ''id'';
     x1 \<leftarrow> optStr j ''organization_id'';
     x2 \<leftarrow> reqStr j ''owner_id'';
     x3 \<leftarrow> optStr j ''owner_email'';
     x4 \<leftarrow> reqStr j ''subdomain'';
     x5 \<leftarrow> reqStr j ''domain'';
     x6 \<leftarrow> reqStr j ''site_name'';
     x7 \<leftarrow> reqStr j ''company_name'';
     x8 \<leftarrow> reqStr j ''plan'';
     x9 \<leftarrow> optStr j ''chosen_app'';
     x10 \<leftarrow> reqStr j ''status'';
     x11 \<leftarrow> optStr j ''billing_status'';
     x12 \<leftarrow> optStr j ''payment_channel'';
     x13 \<leftarrow> optStr j ''stripe_checkout_session_id'';
     x14 \<leftarrow> optStr j ''stripe_subscription_id'';
     x15 \<leftarrow> optStr j ''platform_customer_id'';
     x16 \<leftarrow> optStr j ''payment_provider'';
     x17 \<leftarrow> optStr j ''dpo_transaction_token'';
     x18 \<leftarrow> reqStr j ''created_at'';
     x19 \<leftarrow> reqStr j ''updated_at'';
     Some \<lparr>tn_id = x0, tn_organization_id = x1, tn_owner_id = x2, tn_owner_email = x3,
       tn_subdomain = x4, tn_domain = x5, tn_site_name = x6, tn_company_name = x7,
       tn_plan = x8, tn_chosen_app = x9, tn_status = x10, tn_billing_status = x11,
       tn_payment_channel = x12, tn_stripe_checkout_session_id = x13,
       tn_stripe_subscription_id = x14, tn_platform_customer_id = x15,
       tn_payment_provider = x16, tn_dpo_transaction_token = x17, tn_created_at = x18,
       tn_updated_at = x19\<rparr> }"

record Job =
  jb_id :: string
  jb_tenant_id :: string
  jb_type :: string
  jb_status :: string
  jb_rq_job_id :: "string option"
  jb_logs :: string
  jb_error :: "string option"
  jb_created_at :: "string option"
  jb_started_at :: "string option"
  jb_finished_at :: "string option"

definition as_Job :: "json \<Rightarrow> Job option" where
  "as_Job j = do {
     x0 \<leftarrow> reqStr j ''id'';
     x1 \<leftarrow> reqStr j ''tenant_id'';
     x2 \<leftarrow> reqStr j ''type'';
     x3 \<leftarrow> reqStr j ''status'';
     x4 \<leftarrow> optStr j ''rq_job_id'';
     x5 \<leftarrow> reqStr j ''logs'';
     x6 \<leftarrow> optStr j ''error'';
     x7 \<leftarrow> optStr j ''created_at'';
     x8 \<leftarrow> optStr j ''started_at'';
     x9 \<leftarrow> optStr j ''finished_at'';
     Some \<lparr>jb_id = x0, jb_tenant_id = x1, jb_type = x2, jb_status = x3,
       jb_rq_job_id = x4, jb_logs = x5, jb_error = x6, jb_created_at = x7, jb_started_at = x8,
       jb_finished_at = x9\<rparr> }"

record UserProfile =
  usr_id :: string
  usr_email :: string
  usr_phone :: "string option"
  usr_role :: string
  usr_email_verified :: bool
  usr_email_verified_at :: "string option"
  usr_created_at :: string

definition as_UserProfile :: "json \<Rightarrow> UserProfile option" where
  "as_UserProfile j = do {
     x0 \<leftarrow> reqStr j ''id'';
     x1 \<leftarrow> reqStr j ''email'';
     x2 \<leftarrow> optStr j ''phone'';
     x3 \<leftarrow> reqStr j ''role'';
     x4 \<leftarrow> reqBool j ''email_verified'';
     x5 \<leftarrow> optStr j ''email_verified_at'';
     x6 \<leftarrow> reqStr j ''created_at'';
     Some \<lparr>usr_id = x0, usr_email = x1, usr_phone = x2, usr_role = x3,
       usr_email_verified = x4, usr_email_verified_at = x5, usr_created_at = x6\<rparr> }"

record AuditLogEntry =
  al_id :: string
  al_actor_id :: "string option"
  al_actor_role :: string
  al_actor_email :: "string option"
  al_action :: string
  al_resource :: string
  al_resource_id :: "string option"
  al_ip_address :: "string option"
  al_metadata :: "json option"
  al_created_at :: string

definition as_AuditLogEntry :: "json \<Rightarrow> AuditLogEntry option" where
  "as_AuditLogEntry j = do {
     x0 \<leftarrow> reqStr j ''id'';
     x1 \<leftarrow> optStr j ''actor_id'';
     x2 \<leftarrow> reqStr j ''actor_role'';
     x3 \<leftarrow> optStr j ''actor_email'';
     x4 \<leftarrow> reqStr j ''action'';
     x5 \<leftarrow> reqStr j ''resource'';
     x6 \<leftarrow> optStr j ''resource_id'';
     x7 \<leftarrow> optStr j ''ip_address'';
     x8 \<leftarrow> optVal Some j ''metadata'';
     x9 \<leftarrow> reqStr j ''created_at'';
     Some \<lparr>al_id = x0, al_actor_id = x1, al_actor_role = x2, al_actor_email = x3,
       al_action = x4, al_resource = x5, al_resource_id = x6, al_ip_address = x7,
       al_metadata = x8, al_created_at = x9\<rparr> }"

record TenantMember =
  tm_id :: string
  tm_tenant_id :: string
  tm_user_id :: string
  tm_user_email :: "string option"
  tm_role :: string
  tm_created_at :: string

definition as_TenantMember :: "json \<Rightarrow> TenantMember option" where
  "as_TenantMember j = do {
     x0 \<leftarrow> reqStr j ''id'';
     x1 \<leftarrow> reqStr j ''tenant_id'';
     x2 \<leftarrow> reqStr j ''user_id'';
     x3 \<leftarrow> optStr j ''user_email'';
     x4 \<leftarrow> reqStr j ''role'';
     x5 \<leftarrow> reqStr j ''created_at'';
     Some \<lparr>tm_id = x0, tm_tenant_id = x1, tm_user_id = x2, tm_user_email = x3,
       tm_role = x4, tm_created_at = x5\<rparr> }"

record DomainMapping =
  dm_id :: string
  dm_tenant_id :: string
  dm_domain :: string
  dm_status :: string
  dm_verification_token :: string
  dm_created_at :: string
  dm_verified_at :: "string option"
  dm_updated_at :: string

definition as_DomainMapping :: "json \<Rightarrow> DomainMapping option" where
  "as_DomainMapping j = do {
     x0 \<leftarrow> reqStr j ''id'';
     x1 \<leftarrow> reqStr j ''tenant_id'';
     x2 \<leftarrow> reqStr j ''domain'';
     x3 \<leftarrow> reqStr j ''status'';
     x4 \<leftarrow> reqStr j ''verification_token'';
     x5 \<leftarrow> reqStr j ''created_at'';
     x6 \<leftarrow> optStr j ''verified_at'';
     x7 \<leftarrow> reqStr j ''updated_at'';
     Some \<lparr>dm_id = x0, dm_tenant_id = x1, dm_domain = x2, dm_status = x3,
       dm_verification_token = x4, dm_created_at = x5, dm_verified_at = x6,
       dm_updated_at = x7\<rparr> }"

record SupportNote =
  sn_id :: string
  sn_tenant_id :: string
  sn_author_id :: "string option"
  sn_author_role :: string
  sn_author_email :: "string option"
  sn_category :: string
  sn_owner_name :: "string option"
  sn_owner_contact :: "string option"
  sn_sla_due_at :: "string option"
  sn_status :: "string option"
  sn_resolved_at :: "string option"
  sn_sla_state :: "string option"
  sn_sla_last_evaluated_at :: "string option"
  sn_note :: string
  sn_created_at :: string
  sn_updated_at :: string

definition as_SupportNote :: "json \<Rightarrow> SupportNote option" where
  "as_SupportNote j = do {
     x0 \<leftarrow> reqStr j ''id'';
     x1 \<leftarrow> reqStr j ''tenant_id'';
     x2 \<leftarrow> optStr j ''author_id'';
     x3 \<leftarrow> reqStr j ''author_role'';
     x4 \<leftarrow> optStr j ''author_email'';
     x5 \<leftarrow> reqStr j ''category'';
     x6 \<leftarrow> optStr j ''owner_name'';
     x7 \<leftarrow> optStr j ''owner_contact'';
     x8 \<leftarrow> optStr j ''sla_due_at'';
     x9 \<leftarrow> optStr j ''status'';
     x10 \<leftarrow> optStr j ''resolved_at'';
     x11 \<leftarrow> optStr j ''sla_state'';
     x12 \<leftarrow> optStr j ''sla_last_evaluated_at'';
     x13 \<leftarrow> reqStr j ''note'';
     x14 \<leftarrow> reqStr j ''created_at'';
     x15 \<leftarrow> reqStr j ''updated_at'';
     Some \<lparr>sn_id = x0, sn_tenant_id = x1, sn_author_id = x2, sn_author_role = x3,
       sn_author_email = x4, sn_category = x5, sn_owner_name = x6, sn_owner_contact = x7,
       sn_sla_due_at = x8, sn_status = x9, sn_resolved_at = x10, sn_sla_state = x11,
       sn_sla_last_evaluated_at = x12, sn_note = x13, sn_created_at = x14,
       sn_updated_at = x15\<rparr> }"

record SubdomainAvailability =
  sa_subdomain :: string
  sa_domain :: "string option"
  sa_available :: bool
  sa_reason :: "string option"
  sa_message :: string

definition as_SubdomainAvailability :: "json \<Rightarrow> SubdomainAvailability option" where
  "as_SubdomainAvailability j = do {
     x0 \<leftarrow> reqStr j ''subdomain'';
     x1 \<leftarrow> optStr j ''domain'';
     x2 \<leftarrow> reqBool j ''available'';
     x3 \<leftarrow> optStr j ''reason'';
     x4 \<leftarrow> reqStr j ''message'';
     Some \<lparr>sa_subdomain = x0, sa_domain = x1, sa_available = x2, sa_reason = x3,
       sa_message = x4\<rparr> }"

record ResetAdminPasswordResult =
  rp_tenant_id :: string
  rp_domain :: string
  rp_administrator_user :: string
  rp_admin_password :: string
  rp_message :: string

definition as_ResetAdminPasswordResult :: "json \<Rightarrow> ResetAdminPasswordResult option" where
  "as_ResetAdminPasswordResult j = do {
     x0 \<leftarrow> reqStr j ''tenant_id'';
     x1 \<leftarrow> reqStr j ''domain'';
     x2 \<leftarrow> reqStr j ''administrator_user'';
     x3 \<leftarrow> reqStr j ''admin_password'';
     x4 \<leftarrow> reqStr j ''message'';
     Some \<lparr>rp_tenant_id = x0, rp_domain = x1, rp_administrator_user = x2,
       rp_admin_password = x3, rp_message = x4\<rparr> }"

record BackupManifestEntry =
  bm_id :: "string option"
  bm_tenant_id :: "string option"
  bm_job_id :: "string option"
  bm_file_path :: "string option"
  bm_file_size_bytes :: "int option"
  bm_created_at :: "string option"
  bm_expires_at :: "string option"
  bm_s3_key :: "string option"
  bm_download_url :: "string option"

definition as_BackupManifestEntry :: "json \<Rightarrow> BackupManifestEntry option" where
  "as_BackupManifestEntry j = do {
     x0 \<leftarrow> optStr j ''id'';
     x1 \<leftarrow> optStr j ''tenant_id'';
     x2 \<leftarrow> optStr j ''job_id'';
     x3 \<leftarrow> optStr j ''file_path'';
     x4 \<leftarrow> optNum j ''file_size_bytes'';
     x5 \<leftarrow> optStr j ''created_at'';
     x6 \<leftarrow> optStr j ''expires_at'';
     x7 \<leftarrow> optStr j ''s3_key'';
     x8 \<leftarrow> optStr j ''download_url'';
     Some \<lparr>bm_id = x0, bm_tenant_id = x1, bm_job_id = x2, bm_file_path = x3,
       bm_file_size_bytes = x4, bm_created_at = x5, bm_expires_at = x6, bm_s3_key = x7,
       bm_download_url = x8\<rparr> }"

record DeadLetterJob =
  dl_id :: string
  dl_func_name :: string
  dl_args :: json
  dl_kwargs :: json
  dl_enqueued_at :: "string option"

definition as_DeadLetterJob :: "json \<Rightarrow> DeadLetterJob option" where
  "as_DeadLetterJob j = do {
     x0 \<leftarrow> reqStr j ''id'';
     x1 \<leftarrow> reqStr j ''func_name'';
     x2 \<leftarrow> reqVal Some j ''args'';
     x3 \<leftarrow> reqVal Some j ''kwargs'';
     x4 \<leftarrow> optStr j ''enqueued_at'';
     Some \<lparr>dl_id = x0, dl_func_name = x1, dl_args = x2, dl_kwargs = x3,
       dl_enqueued_at = x4\<rparr> }"

record MessageResponse =
  mr_message :: string

definition as_MessageResponse :: "json \<Rightarrow> MessageResponse option" where
  "as_MessageResponse j = do {
     x0 \<leftarrow> reqStr j ''message'';
     Some \<lparr>mr_message = x0\<rparr> }"

record BillingPortalResponse =
  bp_url :: string

definition as_BillingPortalResponse :: "json \<Rightarrow> BillingPortalResponse option" where
  "as_BillingPortalResponse j = do {
     x0 \<leftarrow> reqStr j ''url'';
     Some \<lparr>bp_url = x0\<rparr> }"

record ImpersonationLink =
  il_token :: string
  il_url :: string
  il_expires_at :: string
  il_target_user_id :: string
  il_target_email :: string

definition as_ImpersonationLink :: "json \<Rightarrow> ImpersonationLink option" where
  "as_ImpersonationLink j = do {
     x0 \<leftarrow> reqStr j ''token'';
     x1 \<leftarrow> reqStr j ''url'';
     x2 \<leftarrow> reqStr j ''expires_at'';
     x3 \<leftarrow> reqStr j ''target_user_id'';
     x4 \<leftarrow> reqStr j ''target_email'';
     Some \<lparr>il_token = x0, il_url = x1, il_expires_at = x2, il_target_user_id = x3,
       il_target_email = x4\<rparr> }"

record BillingInvoice =
  bi_id :: string
  bi_status :: "string option"
  bi_amount_due :: "int option"
  bi_amount_paid :: "int option"
  bi_currency :: "string option"
  bi_collection_method :: "string option"
  bi_payment_method_types :: "string list option"
  bi_metadata :: "json option"
  bi_hosted_invoice_url :: "string option"
  bi_invoice_pdf :: "string option"
  bi_created_at :: "string option"

definition as_BillingInvoice :: "json \<Rightarrow> BillingInvoice option" where
  "as_BillingInvoice j = do {
     x0 \<leftarrow> reqStr j ''id'';
     x1 \<leftarrow> optStr j ''status'';
     x2 \<leftarrow> optNum j ''amount_due'';
     x3 \<leftarrow> optNum j ''amount_paid'';
     x4 \<leftarrow> optStr j ''currency'';
     x5 \<leftarrow> optStr j ''collection_method'';
     x6 \<leftarrow> optVal strList j ''payment_method_types'';
     x7 \<leftarrow> optVal Some j ''metadata'';
     x8 \<leftarrow> optStr j ''hosted_invoice_url'';
     x9 \<leftarrow> optStr j ''invoice_pdf'';
     x10 \<leftarrow> optStr j ''created_at'';
     Some \<lparr>bi_id = x0, bi_status = x1, bi_amount_due = x2, bi_amount_paid = x3,
       bi_currency = x4, bi_collection_method = x5, bi_payment_method_types = x6,
       bi_metadata = x7, bi_hosted_invoice_url = x8, bi_invoice_pdf = x9,
       bi_created_at = x10\<rparr> }"

record MetricsSummary =
  ms_total_tenants :: int
  ms_active_tenants :: int
  ms_suspended_tenants :: int
  ms_failed_tenants :: int
  ms_provisioning_tenants :: int
  ms_pending_payment_tenants :: int
  ms_trialing_tenants :: int
  ms_trial_converted_tenants :: int
  ms_trial_expired_past_due_tenants :: int
  ms_trial_cancelled_tenants :: int
  ms_jobs_last_24h :: int
  ms_provisioning_success_rate_7d :: int
  ms_dead_letter_count :: int
  ms_support_open_notes :: int
  ms_support_breached_notes :: int
  ms_support_due_soon_notes :: int

definition as_MetricsSummary :: "json \<Rightarrow> MetricsSummary option" where
  "as_MetricsSummary j = do {
     x0 \<leftarrow> reqNum j ''total_tenants'';
     x1 \<leftarrow> reqNum j ''active_tenants'';
     x2 \<leftarrow> reqNum j ''suspended_tenants'';
     x3 \<leftarrow> reqNum j ''failed_tenants'';
     x4 \<leftarrow> reqNum j ''provisioning_tenants'';
     x5 \<leftarrow> reqNum j ''pending_payment_tenants'';
     x6 \<leftarrow> reqNum j ''trialing_tenants'';
     x7 \<leftarrow> reqNum j ''trial_converted_tenants'';
     x8 \<leftarrow> reqNum j ''trial_expired_past_due_tenants'';
     x9 \<leftarrow> reqNum j ''trial_cancelled_tenants'';
     x10 \<leftarrow> reqNum j ''jobs_last_24h'';
     x11 \<leftarrow> reqNum j ''provisioning_success_rate_7d'';
     x12 \<leftarrow> reqNum j ''dead_letter_count'';
     x13 \<leftarrow> reqNum j ''support_open_notes'';
     x14 \<leftarrow> reqNum j ''support_breached_notes'';
     x15 \<leftarrow> reqNum j ''support_due_soon_notes'';
     Some \<lparr>ms_total_tenants = x0, ms_active_tenants = x1, ms_suspended_tenants = x2,
       ms_failed_tenants = x3, ms_provisioning_tenants = x4, ms_pending_payment_tenants = x5,
       ms_trialing_tenants = x6, ms_trial_converted_tenants = x7,
       ms_trial_expired_past_due_tenants = x8, ms_trial_cancelled_tenants = x9,
       ms_jobs_last_24h = x10, ms_provisioning_success_rate_7d = x11,
       ms_dead_letter_count = x12, ms_support_open_notes = x13,
       ms_support_breached_notes = x14, ms_support_due_soon_notes = x15\<rparr> }"

record TenantRuntimeConsistencyEntry =
  re_tenant_id :: string
  re_subdomain :: string
  re_domain :: string
  re_status :: string
  re_subscription_status :: "string option"
  re_plan :: "string option"
  re_owner_email :: "string option"
  re_runtime_expected :: bool
  re_runtime_exists :: bool
  re_classification :: string
  re_last_job_type :: "string option"
  re_last_job_status :: "string option"
  re_last_job_at :: "string option"

definition as_TenantRuntimeConsistencyEntry :: "json \<Rightarrow> TenantRuntimeConsistencyEntry option" where
  "as_TenantRuntimeConsistencyEntry j = do {
     x0 \<leftarrow> reqStr j ''tenant_id'';
     x1 \<leftarrow> reqStr j ''subdomain'';
     x2 \<leftarrow> reqStr j ''domain'';
     x3 \<leftarrow> reqStr j ''status'';
     x4 \<leftarrow> optStr j ''subscription_status'';
     x5 \<leftarrow> optStr j ''plan'';
     x6 \<leftarrow> optStr j ''owner_email'';
     x7 \<leftarrow> reqBool j ''runtime_expected'';
     x8 \<leftarrow> reqBool j ''runtime_exists'';
     x9 \<leftarrow> reqStr j ''classification'';
     x10 \<leftarrow> optStr j ''last_job_type'';
     x11 \<leftarrow> optStr j ''last_job_status'';
     x12 \<leftarrow> optStr j ''last_job_at'';
     Some \<lparr>re_tenant_id = x0, re_subdomain = x1, re_domain = x2, re_status = x3,
       re_subscription_status = x4, re_plan = x5, re_owner_email = x6,
       re_runtime_expected = x7, re_runtime_exists = x8, re_classification = x9,
       re_last_job_type = x10, re_last_job_status = x11, re_last_job_at = x12\<rparr> }"

record TenantRuntimeConsistencyReport =
  rr_generated_at :: string
  rr_total_tenants :: int
  rr_runtime_expected_missing :: int
  rr_pending_without_runtime :: int
  rr_pending_payment_without_runtime :: int
  rr_deleted_with_runtime :: int
  rr_runtime_sites_without_db_entry :: int
  rr_entries :: "TenantRuntimeConsistencyEntry list"
  rr_runtime_only_sites :: "string list"

definition as_TenantRuntimeConsistencyReport :: "json \<Rightarrow> TenantRuntimeConsistencyReport option" where
  "as_TenantRuntimeConsistencyReport j = do {
     x0 \<leftarrow> reqStr j ''generated_at'';
     x1 \<leftarrow> reqNum j ''total_tenants'';
     x2 \<leftarrow> reqNum j ''runtime_expected_missing'';
     x3 \<leftarrow> reqNum j ''pending_without_runtime'';
     x4 \<leftarrow> reqNum j ''pending_payment_without_runtime'';
     x5 \<leftarrow> reqNum j ''deleted_with_runtime'';
     x6 \<leftarrow> reqNum j ''runtime_sites_without_db_entry'';
     x7 \<leftarrow> reqList as_TenantRuntimeConsistencyEntry j ''entries'';
     x8 \<leftarrow> reqList (\<lambda>v. asStr (Some v)) j ''runtime_only_sites'';
     Some \<lparr>rr_generated_at = x0, rr_total_tenants = x1,
       rr_runtime_expected_missing = x2, rr_pending_without_runtime = x3,
       rr_pending_payment_without_runtime = x4, rr_deleted_with_runtime = x5,
       rr_runtime_sites_without_db_entry = x6, rr_entries = x7,
       rr_runtime_only_sites = x8\<rparr> }"

record TenantSummary =
  ts_tenant_id :: string
  ts_last_job :: "Job option"
  ts_last_backup :: "BackupManifestEntry option"
  ts_last_audit :: "AuditLogEntry option"
  ts_last_invoice :: "BillingInvoice option"

definition as_TenantSummary :: "json \<Rightarrow> TenantSummary option" where
  "as_TenantSummary j = do {
     x0 \<leftarrow> reqStr j ''tenant_id'';
     x1 \<leftarrow> optVal as_Job j ''last_job'';
     x2 \<leftarrow> optVal as_BackupManifestEntry j ''last_backup'';
     x3 \<leftarrow> optVal as_AuditLogEntry j ''last_audit'';
     x4 \<leftarrow> optVal as_BillingInvoice j ''last_invoice'';
     Some \<lparr>ts_tenant_id = x0, ts_last_job = x1, ts_last_backup = x2, ts_last_audit = x3,
       ts_last_invoice = x4\<rparr> }"

record TenantSubscription =
  sub_id :: string
  sub_tenant_id :: string
  sub_plan_id :: string
  sub_status :: string
  sub_trial_ends_at :: "string option"
  sub_current_period_start :: "string option"
  sub_current_period_end :: "string option"
  sub_cancelled_at :: "string option"
  sub_selected_app :: "string option"
  sub_payment_provider :: "string option"
  sub_provider_subscription_id :: "string option"
  sub_provider_customer_id :: "string option"
  sub_provider_checkout_session_id :: "string option"
  sub_created_at :: string
  sub_updated_at :: string
  sub_plan :: PlanDetail

definition as_TenantSubscription :: "json \<Rightarrow> TenantSubscription option" where
  "as_TenantSubscription j = do {
     x0 \<leftarrow> reqStr j ''id'';
     x1 \<leftarrow> reqStr j ''tenant_id'';
     x2 \<leftarrow> reqStr j ''plan_id'';
     x3 \<leftarrow> reqStr j ''status'';
     x4 \<leftarrow> optStr j ''trial_ends_at'';
     x5 \<leftarrow> optStr j ''current_period_start'';
     x6 \<leftarrow> optStr j ''current_period_end'';
     x7 \<leftarrow> optStr j ''cancelled_at'';
     x8 \<leftarrow> optStr j ''selected_app'';
     x9 \<leftarrow> optStr j ''payment_provider'';
     x10 \<leftarrow> optStr j ''provider_subscription_id'';
     x11 \<leftarrow> optStr j ''provider_customer_id'';
     x12 \<leftarrow> optStr j ''provider_checkout_session_id'';
     x13 \<leftarrow> reqStr j ''created_at'';
     x14 \<leftarrow> reqStr j ''updated_at'';
     x15 \<leftarrow> reqVal as_PlanDetail j ''plan'';
     Some \<lparr>sub_id = x0, sub_tenant_id = x1, sub_plan_id = x2, sub_status = x3,
       sub_trial_ends_at = x4, sub_current_period_start = x5, sub_current_period_end = x6,
       sub_cancelled_at = x7, sub_selected_app = x8, sub_payment_provider = x9,
       sub_provider_subscription_id = x10, sub_provider_customer_id = x11,
       sub_provider_checkout_session_id = x12, sub_created_at = x13, sub_updated_at = x14,
       sub_plan = x15\<rparr> }"

record TenantCreateResponse =
  cr_tenant :: Tenant
  cr_job :: "Job option"
  cr_checkout_url :: "string option"
  cr_checkout_session_id :: "string option"

definition as_TenantCreateResponse :: "json \<Rightarrow> TenantCreateResponse option" where
  "as_TenantCreateResponse j = do {
     x0 \<leftarrow> reqVal as_Tenant j ''tenant'';
     x1 \<leftarrow> optVal as_Job j ''job'';
     x2 \<leftarrow> optStr j ''checkout_url'';
     x3 \<leftarrow> optStr j ''checkout_session_id'';
     Some \<lparr>cr_tenant = x0, cr_job = x1, cr_checkout_url = x2, cr_checkout_session_id = x3\<rparr> }"

record TenantReadiness =
  rd_ready :: bool
  rd_message :: string

definition as_TenantReadiness :: "json \<Rightarrow> TenantReadiness option" where
  "as_TenantReadiness j = do {
     x0 \<leftarrow> reqBool j ''ready'';
     x1 \<leftarrow> reqStr j ''message'';
     Some \<lparr>rd_ready = x0, rd_message = x1\<rparr> }"

record DunningItem =
  di_tenant_id :: string
  di_tenant_name :: string
  di_domain :: string
  di_status :: string
  di_billing_status :: "string option"
  di_payment_channel :: "string option"
  di_next_retry_at :: "string option"
  di_grace_ends_at :: "string option"
  di_last_invoice_id :: "string option"
  di_last_payment_attempt :: "string option"

definition as_DunningItem :: "json \<Rightarrow> DunningItem option" where
  "as_DunningItem j = do {
     x0 \<leftarrow> reqStr j ''tenant_id'';
     x1 \<leftarrow> reqStr j ''tenant_name'';
     x2 \<leftarrow> reqStr j ''domain'';
     x3 \<leftarrow> reqStr j ''status'';
     x4 \<leftarrow> optStr j ''billing_status'';
     x5 \<leftarrow> optStr j ''payment_channel'';
     x6 \<leftarrow> optStr j ''next_retry_at'';
     x7 \<leftarrow> optStr j ''grace_ends_at'';
     x8 \<leftarrow> optStr j ''last_invoice_id'';
     x9 \<leftarrow> optStr j ''last_payment_attempt'';
     Some \<lparr>di_tenant_id = x0, di_tenant_name = x1, di_domain = x2, di_status = x3,
       di_billing_status = x4, di_payment_channel = x5, di_next_retry_at = x6,
       di_grace_ends_at = x7, di_last_invoice_id = x8, di_last_payment_attempt = x9\<rparr> }"

text \<open>The answer of \<^verbatim>\<open>/billing/invoices\<close> may lack its list, which the repositories default.\<close>

record BillingInvoiceListResponse =
  bl_invoices :: "BillingInvoice list option"

definition as_BillingInvoiceListResponse :: "json \<Rightarrow> BillingInvoiceListResponse option" where
  "as_BillingInvoiceListResponse j = do {
     x0 \<leftarrow> optVal (as_list as_BillingInvoice) j ''invoices'';
     Some \<lparr>bl_invoices = x0\<rparr> }"

text \<open>A tenant with a status, a billing status and a payment channel, for the examples.\<close>

definition sampleTenant :: "string \<Rightarrow> string option \<Rightarrow> string option \<Rightarrow> Tenant" where
  "sampleTenant status billing channel = \<lparr>tn_id = ''t1'', tn_organization_id = None, tn_owner_id = ''u1'',
     tn_owner_email = None, tn_subdomain = ''acme'', tn_domain = ''acme.test'', tn_site_name = ''acme'',
     tn_company_name = ''Acme'', tn_plan = ''starter'', tn_chosen_app = None, tn_status = status,
     tn_billing_status = billing, tn_payment_channel = channel, tn_stripe_checkout_session_id = None,
     tn_stripe_subscription_id = None, tn_platform_customer_id = None, tn_payment_provider = None,
     tn_dpo_transaction_token = None, tn_created_at = [], tn_updated_at = []\<rparr>"

end
