(* ===== verification/Api_Client.thy ===== *)
theory Api_Client
  imports Session Types
begin

section \<open>The API client: requests, token refresh, optional endpoints\<close>

text \<open>
  \<^verbatim>\<open>saas-ui/domains/shared/lib/api.ts\<close> up to the \<^verbatim>\<open>api\<close> object, which is modelled in
  \<open>Api_Endpoints\<close>. One call of \<open>request\<close> may refresh the access token before it asks (the token
  is about to expire) and once more after a 401, and then asks a second time; a 401 that
  remains ends the session.
\<close>

subsection \<open>The base URL\<close>

record api_env =
  envApiBase :: "string option"
  envPlatformDomain :: "string option"
  envTenantSuffix :: "string option"

definition DEFAULT_DOMAIN :: string where "DEFAULT_DOMAIN = ''erp.blenkotechnologies.co.tz''"

definition isLocalHost :: "string \<Rightarrow> bool" where
  "isLocalHost h \<longleftrightarrow> h = ''localhost'' \<or> h = ''127.0.0.1''"

definition resolveApiBase :: "api_env \<Rightarrow> world \<Rightarrow> string" where
  "resolveApiBase env w =
     (let configured = trim (nullish (envApiBase env) []);
          platformDomain = trim (nullish (envPlatformDomain env) DEFAULT_DOMAIN);
          tenantSuffix = trim (nullish (envTenantSuffix env) DEFAULT_DOMAIN) in
      if configured = [] then ''/api''
      else if hasWindow w then
        (let isLocalConfigured = includesStr configured ''localhost'' \<or> includesStr configured ''127.0.0.1'';
             isLocalBrowser = isLocalHost (locHostname w) in
         if isLocalConfigured \<and> \<not> isLocalBrowser then ''/api''
         else
           (let h = locHostname w;
                isPlatformDomain = (h = platformDomain \<or> h = ''www.'' @ platformDomain);
                isTenantSubdomain =
                  (tenantSuffix \<noteq> [] \<and> endsWith h (''.'' @ tenantSuffix) \<and> \<not> isPlatformDomain) in
            if isTenantSubdomain \<and> \<not> startsWith configured ''http'' then
              (if locProtocol w = ''http:'' then ''http'' else ''https'') @ ''://'' @ platformDomain @ ''/api''
            else configured))
      else configured)"

subsection \<open>Errors and bodies\<close>

definition parseErrorMessage :: "json \<Rightarrow> nat \<Rightarrow> string" where
  "parseErrorMessage body status =
     (let usable = (\<lambda>v. case asStr v of None \<Rightarrow> False | Some s \<Rightarrow> trim s \<noteq> []);
          fallback = ''Request failed: '' @ natStr status in
      if usable (Some body) then the (asStr (Some body))
      else if isRecord body then
        (if usable (getProp body ''detail'') then the (asStr (getProp body ''detail''))
         else if usable (getProp body ''message'') then the (asStr (getProp body ''message''))
         else if usable (getProp body ''error'') then the (asStr (getProp body ''error''))
         else fallback)
      else fallback)"

definition parseResponseBody :: "response \<Rightarrow> json" where
  "parseResponseBody r =
     (if rstatus r = 204 then JNull
      else if includesStr (contentType r) ''application/json'' then nullish (jsonBody r) JNull
      else (case textBody r of None \<Rightarrow> JNull | Some s \<Rightarrow> if s = [] then JNull else JStr s))"

definition SESSION_EXPIRED_EVENT :: string where
  "SESSION_EXPIRED_EVENT = ''erp-saas:session-expired''"

definition dispatch :: "string \<Rightarrow> world \<Rightarrow> world" where
  "dispatch e w = w\<lparr>events := events w @ [e]\<rparr>"

definition notifySessionExpired :: "world \<Rightarrow> world" where
  "notifySessionExpired w =
     (let w1 = clearToken w in if hasWindow w1 then dispatch SESSION_EXPIRED_EVENT w1 else w1)"

text \<open>A fresh key for each call; the random source is the state's stream of identifiers.\<close>

definition createIdempotencyKey :: "string io" where
  "createIdempotencyKey w = (Inr (uuids w (uuidNext w)), w\<lparr>uuidNext := Suc (uuidNext w)\<rparr>)"

fun isSessionExpiredError :: "exn \<Rightarrow> bool" where
  "isSessionExpiredError (ApiRequestError _ _ _ _ expired) = expired"
| "isSessionExpiredError _ = False"

fun isEndpointMissingError :: "exn \<Rightarrow> bool" where
  "isEndpointMissingError (ApiRequestError _ status _ _ _) = (status \<in> set [404, 405, 501])"
| "isEndpointMissingError _ = False"

fun getApiErrorMessage :: "exn \<Rightarrow> string \<Rightarrow> string" where
  "getApiErrorMessage (ApiRequestError m _ _ _ _) fallback = (if trim m \<noteq> [] then m else fallback)"
| "getApiErrorMessage (JsError m) fallback = (if trim m \<noteq> [] then m else fallback)"
| "getApiErrorMessage IllTyped fallback = fallback"

subsection \<open>Token expiry and refresh\<close>

definition REFRESH_EXEMPT_PATHS :: "string list" where
  "REFRESH_EXEMPT_PATHS =
     [''/auth/login'', ''/auth/signup'', ''/auth/refresh'', ''/auth/forgot-password'',
      ''/auth/reset-password'', ''/auth/verify-email'', ''/auth/impersonate'']"

definition decodeTokenExpiryEpochSeconds :: "string \<Rightarrow> int option" where
  "decodeTokenExpiryEpochSeconds token =
     (case splitOn ''.'' token of
        _ # payload # _ \<Rightarrow>
          if payload = [] then None
          else
            (let normalized = replaceChar (CHR ''_'') (CHR ''/'') (replaceChar (CHR ''-'') (CHR ''+'') payload);
                 padded = normalized @ replicate ((4 - length normalized mod 4) mod 4) (CHR ''='') in
             (case Option.bind (atob padded) JSON_parse of
                None \<Rightarrow> None
              | Some decoded \<Rightarrow> asNum (getProp decoded ''exp'')))
      | _ \<Rightarrow> None)"

definition isTokenNearExpiry :: "string \<Rightarrow> int \<Rightarrow> int \<Rightarrow> bool" where
  "isTokenNearExpiry token withinSeconds nowMs =
     (case decodeTokenExpiryEpochSeconds token of
        None \<Rightarrow> False
      | Some e \<Rightarrow> if e = 0 then False else e - nowMs div 1000 \<le> withinSeconds)"

definition canAttemptRefresh :: "string \<Rightarrow> bool" where
  "canAttemptRefresh path \<longleftrightarrow> path \<notin> set REFRESH_EXEMPT_PATHS"

definition refreshRequest :: "world \<Rightarrow> fetch_req" where
  "refreshRequest w = \<lparr>reqUrl = apiBase w @ ''/auth/refresh'', fmethod = ''POST'', fheaders = [], fbody = None\<rparr>"

definition refreshAccessToken :: "string option io" where
  "refreshAccessToken =
     catching
       (await (asks refreshRequest) (\<lambda>rq.
        await (fetch rq) (\<lambda>response.
          if \<not> rok response then ret None
          else
            (let token = asStr (getProp (parseResponseBody response) ''access_token'') in
             if \<not> truthyStr token then ret None
             else await (modify (saveToken (the token))) (\<lambda>_. ret token)))))
       (\<lambda>e. ret None)"

subsection \<open>One request\<close>

record req_init =
  riMethod :: "string option"
  riBody :: "string option"
  riHeaders :: "(string \<times> string) list"

definition noInit :: req_init where
  "noInit = \<lparr>riMethod = None, riBody = None, riHeaders = []\<rparr>"

definition initMethod :: "string \<Rightarrow> req_init" where
  "initMethod m = noInit\<lparr>riMethod := Some m\<rparr>"

definition initBody :: "string \<Rightarrow> json \<Rightarrow> req_init" where
  "initBody m b = noInit\<lparr>riMethod := Some m, riBody := Some (JSON_stringify b)\<rparr>"

definition newHeaders :: "(string \<times> string) list \<Rightarrow> (string \<times> string) list" where
  "newHeaders hs = foldl (\<lambda>acc (k, v). headerSet k v acc) [] hs"

definition contentHeaders :: "req_init \<Rightarrow> (string \<times> string) list" where
  "contentHeaders init =
     (let headers = newHeaders (riHeaders init) in
      if riBody init \<noteq> None \<and> headerGet ''Content-Type'' headers = None
      then headerSet ''Content-Type'' ''application/json'' headers else headers)"

definition authorize :: "string option \<Rightarrow> (string \<times> string) list \<Rightarrow> (string \<times> string) list" where
  "authorize token headers =
     (if truthyStr token then headerSet ''Authorization'' (''Bearer '' @ the token) headers else headers)"

definition performFetch :: "string \<Rightarrow> req_init \<Rightarrow> (string \<times> string) list \<Rightarrow> response io" where
  "performFetch path init headers =
     await (asks apiBase) (\<lambda>base.
       fetch \<lparr>reqUrl = base @ path, fmethod = nullish (riMethod init) ''GET'', fheaders = headers,
              fbody = riBody init\<rparr>)"

text \<open>The refresh before the request: the token to use.\<close>

definition freshToken :: "string \<Rightarrow> (string \<times> string) list \<Rightarrow> string option \<Rightarrow> string option io" where
  "freshToken path headers token =
     await (asks now) (\<lambda>t.
       if truthyStr token \<and> canAttemptRefresh path \<and> isTokenNearExpiry (the token) 60 t
          \<and> headerGet ''Authorization'' headers = None
       then await refreshAccessToken (\<lambda>refreshed.
              ret (if truthyStr refreshed then refreshed else token))
       else ret token)"

text \<open>The refresh after a 401, with the second attempt.\<close>

definition retryUnauthorized ::
  "string \<Rightarrow> req_init \<Rightarrow> (string \<times> string) list \<Rightarrow> response \<Rightarrow> response io" where
  "retryUnauthorized path init headers response =
     (if rstatus response = 401 \<and> canAttemptRefresh path then
        await refreshAccessToken (\<lambda>refreshed.
          if truthyStr refreshed
          then performFetch path init (headerSet ''Authorization'' (''Bearer '' @ the refreshed) headers)
          else ret response)
      else ret response)"

text \<open>The end of a request: the body, or an error.\<close>

definition settle :: "(json \<Rightarrow> 'a option) \<Rightarrow> string \<Rightarrow> response \<Rightarrow> 'a io" where
  "settle view path response =
     (let body = parseResponseBody response in
      if \<not> rok response then
        (let sessionExpired = (rstatus response = 401) in
         await (modify (if sessionExpired then notifySessionExpired else id)) (\<lambda>_.
           throw (ApiRequestError (parseErrorMessage body (rstatus response)) (rstatus response) body
                    path sessionExpired)))
      else (case view body of None \<Rightarrow> throw IllTyped | Some x \<Rightarrow> ret x))"

definition liftResult :: "(world \<Rightarrow> exn + 'a) \<Rightarrow> 'a io" where
  "liftResult f w = (f w, w)"

definition request :: "(json \<Rightarrow> 'a option) \<Rightarrow> string \<Rightarrow> req_init \<Rightarrow> string option \<Rightarrow> 'a io" where
  "request view path init idempotencyKey =
     await (liftResult getToken) (\<lambda>stored.
       (let headers0 = contentHeaders init in
        await (freshToken path headers0 stored) (\<lambda>token.
          (let headers1 = authorize token headers0;
               headers = (if truthyStr idempotencyKey
                          then headerSet ''X-Idempotency-Key'' (the idempotencyKey) headers1 else headers1) in
           await (performFetch path init headers) (\<lambda>first.
           await (retryUnauthorized path init headers first) (\<lambda>response.
             settle view path response))))))"

definition requestOptionalEndpoint ::
  "(json \<Rightarrow> 'a option) \<Rightarrow> string \<Rightarrow> req_init \<Rightarrow> 'a OptionalEndpointResult io" where
  "requestOptionalEndpoint view path init =
     catching (await (request view path init None) (\<lambda>data. ret (Supported data)))
       (\<lambda>e. if isEndpointMissingError e then ret Unsupported else throw e)"

subsection \<open>What a call of the client may change\<close>

text \<open>
  Every call leaves the base URL and the clock's direction alone, keeps a well-formed cookie
  jar well-formed, and appends to the log of requests only requests below the base URL.
\<close>

definition extends :: "world \<Rightarrow> world \<Rightarrow> bool" where
  "extends w w' \<longleftrightarrow> apiBase w' = apiBase w \<and> hasWindow w' = hasWindow w \<and> (wfJar w \<longrightarrow> wfJar w') \<and>
     now w \<le> now w' \<and> uuids w' = uuids w \<and> uuidNext w \<le> uuidNext w' \<and>
     (\<exists>rs. sent w' = sent w @ rs \<and> (\<forall>r\<in>set rs. startsWith (reqUrl r) (apiBase w)))"

lemma reflp_extends: "reflp extends"
  by (auto simp: reflp_def extends_def)

lemma transp_extends: "transp extends"
  by (rule transpI) (force simp: extends_def)

lemma keeps_liftResult: "reflp R \<Longrightarrow> keeps R (liftResult f)"
  by (simp add: keeps_def liftResult_def reflpD)

lemmas extends_intros =
  keeps_ret [OF reflp_extends] keeps_throw [OF reflp_extends] keeps_asks [OF reflp_extends]
  keeps_liftResult [OF reflp_extends] keeps_await [OF transp_extends]
  keeps_catching [OF transp_extends] keeps_if keeps_option keeps_modify

lemma extends_saveToken: "extends w (saveToken t w)"
  by (simp add: extends_def)

lemma extends_notifySessionExpired: "extends w (notifySessionExpired w)"
  by (simp add: extends_def notifySessionExpired_def dispatch_def Let_def wfJar_def)
     (metis wfJar_clearToken wfJar_def)

lemma fetch_extends:
  "startsWith (reqUrl rq) (apiBase w) \<Longrightarrow> fetch rq w = (r, w') \<Longrightarrow> extends w w'"
  by (auto simp: fetch_def extends_def wfJar_def Let_def
      split: list.splits fetch_outcome.splits prod.splits)

lemma keeps_fetch_base:
  "(\<And>b. startsWith (reqUrl (mk b)) b) \<Longrightarrow>
   keeps extends (await (asks apiBase) (\<lambda>base. fetch (mk base)))"
  by (simp add: keeps_def await_def asks_def) (metis fetch_extends prod.collapse)

lemma keeps_performFetch: "keeps extends (performFetch path init headers)"
  unfolding performFetch_def by (rule keeps_fetch_base) (simp add: startsWith_def)

lemma keeps_refresh: "keeps extends refreshAccessToken"
proof -
  have "keeps extends (await (asks apiBase) (\<lambda>base. fetch
      \<lparr>reqUrl = base @ ''/auth/refresh'', fmethod = ''POST'', fheaders = [], fbody = None\<rparr>))"
    by (rule keeps_fetch_base) (simp add: startsWith_def)
  then have f: "keeps extends (await (asks refreshRequest) fetch)"
    by (simp add: keeps_def await_def asks_def refreshRequest_def)
  have "keeps extends (await (await (asks refreshRequest) fetch) (\<lambda>response.
      if \<not> rok response then ret None
      else if \<not> truthyStr (asStr (getProp (parseResponseBody response) ''access_token'')) then ret None
      else await (modify (saveToken (the (asStr (getProp (parseResponseBody response) ''access_token'')))))
             (\<lambda>_. ret (asStr (getProp (parseResponseBody response) ''access_token'')))))"
    by (intro extends_intros f extends_saveToken)
  then show ?thesis
    unfolding refreshAccessToken_def Let_def await_assoc
    by (rule keeps_catching [OF transp_extends]) (rule keeps_ret [OF reflp_extends])
qed

lemma keeps_settle: "keeps extends (settle view path response)"
  unfolding settle_def Let_def
  by (intro extends_intros) (auto simp: extends_notifySessionExpired reflpD [OF reflp_extends])

lemma keeps_request: "keeps extends (request view path init key)"
  unfolding request_def Let_def freshToken_def retryUnauthorized_def
  by (intro extends_intros keeps_performFetch keeps_refresh keeps_settle)

lemma keeps_optional: "keeps extends (requestOptionalEndpoint view path init)"
  unfolding requestOptionalEndpoint_def by (intro extends_intros keeps_request)

subsection \<open>The exchange of a request\<close>

text \<open>A request is an exchange of messages, which ends with a response, and its settlement.\<close>

definition exchange :: "string \<Rightarrow> req_init \<Rightarrow> string option \<Rightarrow> response io" where
  "exchange path init idempotencyKey =
     await (liftResult getToken) (\<lambda>stored.
     await (freshToken path (contentHeaders init) stored) (\<lambda>token.
       (let headers1 = authorize token (contentHeaders init);
            headers = (if truthyStr idempotencyKey
                       then headerSet ''X-Idempotency-Key'' (the idempotencyKey) headers1 else headers1) in
        await (performFetch path init headers) (retryUnauthorized path init headers))))"

lemma request_exchange: "request view path init key = await (exchange path init key) (settle view path)"
  by (simp add: request_def exchange_def await_assoc Let_def)

lemma keeps_exchange: "keeps extends (exchange path init key)"
  unfolding exchange_def Let_def freshToken_def retryUnauthorized_def
  by (intro extends_intros keeps_performFetch keeps_refresh)

text \<open>The number of requests on the wire.\<close>

definition calls :: "nat \<Rightarrow> 'a io \<Rightarrow> bool" where
  "calls n m \<longleftrightarrow> (\<forall>w. length (sent (snd (m w))) \<le> length (sent w) + n)"

lemma calls_leaf: "calls n (ret x)" "calls n (throw e)" "calls n (asks f)" "calls n (liftResult g)"
  by (simp_all add: calls_def ret_def throw_def asks_def liftResult_def)

lemma calls_modify: "(\<And>w. sent (f w) = sent w) \<Longrightarrow> calls n (modify f)"
  by (simp add: calls_def modify_def)

lemma calls_if: "calls n m \<Longrightarrow> calls n m' \<Longrightarrow> calls n (if b then m else m')"
  by simp

lemma calls_fetch: "calls (Suc n) (fetch rq)"
  by (auto simp: calls_def fetch_def Let_def split: list.splits fetch_outcome.splits prod.splits)

lemma calls_await:
  assumes "calls a m" and "\<And>x. calls b (f x)" and "a + b \<le> n"
  shows "calls n (await m f)"
  unfolding calls_def
proof
  fix w
  obtain r w' where mw: "m w = (r, w')" by (cases "m w")
  have m: "length (sent w') \<le> length (sent w) + a"
    using assms(1) by (auto simp: calls_def mw dest: spec [of _ w])
  have f: "length (sent (snd (f x w'))) \<le> length (sent w') + b" for x
    using assms(2) by (simp add: calls_def)
  show "length (sent (snd (await m f w))) \<le> length (sent w) + n"
  proof (cases r)
    case (Inl e)
    with m assms(3) show ?thesis by (simp add: await_def mw)
  next
    case (Inr x)
    with m f [of x] assms(3) show ?thesis by (simp add: await_def mw)
  qed
qed

lemma calls_catching:
  assumes "calls n m" and "\<And>e. calls 0 (h e)"
  shows "calls n (catching m h)"
proof -
  have "length (sent (snd (catching m h w))) \<le> length (sent w) + n" for w
  proof -
    obtain r w' where mw: "m w = (r, w')" by (cases "m w")
    have "length (sent w') \<le> length (sent w) + n"
      using assms(1) by (auto simp: calls_def mw dest: spec [of _ w])
    moreover have "length (sent (snd (h e w'))) \<le> length (sent w')" for e
      using assms(2) by (simp add: calls_def)
    ultimately show ?thesis
      by (auto simp: catching_def mw split: sum.split intro: order_trans)
  qed
  then show ?thesis by (simp add: calls_def)
qed

lemma calls_performFetch: "calls (Suc n) (performFetch path init headers)"
  unfolding performFetch_def by (rule calls_await [where a = 0]) (auto intro: calls_leaf calls_fetch)

lemma calls_refresh: "calls 1 refreshAccessToken"
  unfolding refreshAccessToken_def Let_def
  by (intro calls_catching calls_await [where a = 0 and b = 1] calls_await [where a = 1 and b = 0]
      calls_leaf calls_if calls_await [where a = 0 and b = 0] calls_modify
      calls_fetch [of 0, folded One_nat_def]) simp_all

lemma calls_freshToken: "calls (if canAttemptRefresh path then 1 else 0) (freshToken path headers token)"
proof (cases "canAttemptRefresh path")
  case True
  have "calls 1 (freshToken path headers token)"
    unfolding freshToken_def
    by (intro calls_await [where a = 0 and b = 1] calls_if calls_await [where a = 1 and b = 0]
        calls_refresh calls_leaf) simp_all
  with True show ?thesis by simp
next
  case False
  have "calls 0 (freshToken path headers token)"
    unfolding freshToken_def using False
    by (intro calls_await [where a = 0 and b = 0]) (simp_all add: calls_leaf)
  with False show ?thesis by simp
qed

lemma calls_retry: "calls (if canAttemptRefresh path then 2 else 0) (retryUnauthorized path init hs r)"
proof (cases "canAttemptRefresh path \<and> rstatus r = 401")
  case True
  have "calls 2 (retryUnauthorized path init hs r)"
    unfolding retryUnauthorized_def
    by (intro calls_if calls_await [where a = 1 and b = 1] calls_refresh calls_leaf
        calls_performFetch [of 0, folded One_nat_def]) simp_all
  with True show ?thesis by simp
qed (auto simp: retryUnauthorized_def calls_leaf)

lemma calls_exchange: "calls (if canAttemptRefresh path then 4 else 1) (exchange path init key)"
  unfolding exchange_def Let_def
  by (rule calls_await [where a = 0 and b = "if canAttemptRefresh path then 4 else 1", OF calls_leaf(4)],
      rule calls_await [OF calls_freshToken, where b = "if canAttemptRefresh path then 3 else 1"],
      rule calls_await [OF calls_performFetch [of 0] calls_retry])
     simp_all

text \<open>
  C6: A request puts at most four messages on the wire (a refresh, the request, a refresh after
  a 401, the second attempt) and exactly one on the sign-in routes, which never refresh, all of
  them below the API base URL, for every behaviour of the server.
\<close>

theorem request_traffic:
  "\<exists>rs. sent (snd (request view path init key w)) = sent w @ rs \<and>
     length rs \<le> (if canAttemptRefresh path then 4 else 1) \<and>
     (\<forall>r \<in> set rs. startsWith (reqUrl r) (apiBase w))"
proof -
  let ?w = "snd (request view path init key w)"
  have "calls (if canAttemptRefresh path then 4 else 1) (request view path init key)"
    unfolding request_exchange
    by (rule calls_await [OF calls_exchange, where b = 0])
       (auto simp: settle_def Let_def notifySessionExpired_def dispatch_def
         intro!: calls_if calls_await [where a = 0 and b = 0] calls_modify calls_leaf split: option.split)
  then have n: "length (sent ?w) \<le> length (sent w) + (if canAttemptRefresh path then 4 else 1)"
    by (simp add: calls_def)
  have "extends w ?w" using keeps_request unfolding keeps_def by blast
  then show ?thesis using n by (auto simp: extends_def)
qed

theorem request_traffic_witness:
  "\<exists>rs. sent (snd (request as_json ''/auth/login'' noInit None freshBrowser)) = rs \<and> length rs \<le> 1"
  using request_traffic [of as_json "''/auth/login''" noInit None freshBrowser]
  by (auto simp: canAttemptRefresh_def REFRESH_EXEMPT_PATHS_def freshBrowser_def)

text \<open>A signed-in browser that the server answers with a script, for the examples.\<close>

definition signedIn :: "(nat \<times> fetch_outcome) list \<Rightarrow> world" where
  "signedIn script = freshBrowser\<lparr>localStorage := [TOKEN_KEY \<mapsto> ''tok''], inbox := script\<rparr>"

definition jsonResponse :: "nat \<Rightarrow> json \<Rightarrow> fetch_outcome" where
  "jsonResponse status body = Responded \<lparr>rstatus = status, contentType = ''application/json'',
     jsonBody = Some body, textBody = None\<rparr>"

lemma signedIn_ok [simp]:
  "hasWindow (signedIn s)" "wfJar (signedIn s)" "localStorage (signedIn s) TOKEN_KEY = Some ''tok''"
  "inbox (signedIn s) = s" "sent (signedIn s) = []" "apiBase (signedIn s) = ''/api''"
  by (simp_all add: signedIn_def freshBrowser_def wfJar_def)

lemma tok_not_near_expiry [simp]: "\<not> isTokenNearExpiry ''tok'' k t"
  using splitOn_join [of "''.''" "CHR ''.''" "[]" "[''tok'']"]
  by (simp add: isTokenNearExpiry_def decodeTokenExpiryEpochSeconds_def)

subsection \<open>How a request ends the session\<close>

text \<open>The exchange fails only with errors that are not answers of the server.\<close>

definition throws :: "(exn \<Rightarrow> bool) \<Rightarrow> 'a io \<Rightarrow> bool" where
  "throws P m \<longleftrightarrow> (\<forall>w e w'. m w = (Inl e, w') \<longrightarrow> P e)"

lemma throws_leaf:
  "throws P (ret x)" "throws P (asks f)" "throws P (modify g)" "P e \<Longrightarrow> throws P (throw e)"
  by (simp_all add: throws_def io_simps)

lemma throws_if: "throws P m \<Longrightarrow> throws P m' \<Longrightarrow> throws P (if b then m else m')"
  by simp

lemma throws_await: "throws P m \<Longrightarrow> (\<And>x. throws P (f x)) \<Longrightarrow> throws P (await m f)"
  unfolding throws_def await_Inl_iff by blast

lemma throws_catching: "(\<And>e. throws P (h e)) \<Longrightarrow> throws P (catching m h)"
  by (auto simp: throws_def catching_def split: prod.splits sum.splits)

lemma throws_fetch: "throws (\<lambda>e. \<not> isSessionExpiredError e) (fetch rq)"
  by (auto simp: throws_def fetch_def Let_def split: list.splits fetch_outcome.splits prod.splits)

lemma throws_getToken: "throws (\<lambda>e. \<not> isSessionExpiredError e) (liftResult getToken)"
  by (auto simp: throws_def liftResult_def getToken_def readEntry_def getCookie_def
      split: if_splits option.splits)

lemma throws_exchange: "throws (\<lambda>e. \<not> isSessionExpiredError e) (exchange path init key)"
  unfolding exchange_def Let_def freshToken_def retryUnauthorized_def performFetch_def refreshAccessToken_def
  by (intro throws_await throws_getToken throws_fetch throws_if throws_leaf throws_catching)

text \<open>It keeps a stored token stored and sends no event.\<close>

definition keepsToken :: "world \<Rightarrow> world \<Rightarrow> bool" where
  "keepsToken w w' \<longleftrightarrow> events w' = events w \<and> hasWindow w' = hasWindow w \<and>
     (hasWindow w \<longrightarrow> localStorage w TOKEN_KEY \<noteq> None \<longrightarrow> localStorage w' TOKEN_KEY \<noteq> None)"

lemma reflp_keepsToken: "reflp keepsToken"
  by (simp add: reflp_def keepsToken_def)

lemma transp_keepsToken: "transp keepsToken"
  by (rule transpI) (simp add: keepsToken_def)

lemmas keepsToken_intros =
  keeps_ret [OF reflp_keepsToken] keeps_throw [OF reflp_keepsToken] keeps_asks [OF reflp_keepsToken]
  keeps_liftResult [OF reflp_keepsToken] keeps_await [OF transp_keepsToken]
  keeps_catching [OF transp_keepsToken] keeps_if keeps_option keeps_modify

lemma keepsToken_fetch: "keeps keepsToken (fetch rq)"
  by (auto simp: keeps_def keepsToken_def fetch_def Let_def
      split: list.splits fetch_outcome.splits prod.splits)

lemma keepsToken_saveToken: "keepsToken w (saveToken t w)"
  by (simp add: keepsToken_def localStorage_saveToken)

lemma keepsToken_exchange: "keeps keepsToken (exchange path init key)"
  unfolding exchange_def Let_def freshToken_def retryUnauthorized_def performFetch_def refreshAccessToken_def
  by (intro keepsToken_intros keepsToken_fetch keepsToken_saveToken)

lemma getToken_storage: "hasWindow w \<Longrightarrow> localStorage w TOKEN_KEY = Some t \<Longrightarrow> getToken w = Inr (Some t)"
  by (simp add: getToken_def readEntry_def)

lemma getCookie_dispatch [simp]: "getCookie n (dispatch e w) = getCookie n w"
  by (simp add: dispatch_def getCookie_def documentCookie_def liveCookies_def)

lemma dispatch_store [simp]:
  "getToken (dispatch e w) = getToken w" "mirrored (dispatch e w) = mirrored w"
  "hasWindow (dispatch e w) = hasWindow w" "events (dispatch e w) = events w @ [e]"
  using getCookie_dispatch [of _ e w]
  by (auto simp: dispatch_def getToken_def readEntry_def mirrored_def split: option.splits)

lemma notify_ends_session:
  assumes "hasWindow w" and "wfJar w"
  shows "getToken (notifySessionExpired w) = Inr None \<and> mirrored (notifySessionExpired w) \<and>
    events (notifySessionExpired w) = events w @ [SESSION_EXPIRED_EVENT]"
  using assms session.get_clear [of w] session_mirrored_lemma [OF assms]
  by (simp add: notifySessionExpired_def Let_def)

lemma settle_cases:
  assumes "settle view path response w = (r, w')"
  shows "if rstatus response = 401
    then w' = notifySessionExpired w \<and> (\<exists>e. r = Inl e \<and> isSessionExpiredError e \<and> errStatus e = 401)
    else w' = w \<and> (\<forall>e. r = Inl e \<longrightarrow> \<not> isSessionExpiredError e)"
  using assms by (auto simp: settle_def Let_def io_simps rok_def split: if_splits option.splits)

text \<open>
  C7: A request of a signed-in browser ends the session exactly when it fails with a
  session-expired error: then no token is left, the storage and the cookies agree that it is
  gone, and the event is sent once. With every other result, also after failed or successful
  refreshes, the browser still holds a token and no event is sent.
\<close>

theorem request_session_outcome:
  assumes "hasWindow w" and "wfJar w" and "localStorage w TOKEN_KEY = Some t"
    and "request view path init key w = (r, w')"
  shows "if \<exists>e. r = Inl e \<and> isSessionExpiredError e
    then getToken w' = Inr None \<and> mirrored w' \<and> events w' = events w @ [SESSION_EXPIRED_EVENT]
    else (\<exists>t'. getToken w' = Inr (Some t')) \<and> events w' = events w"
proof -
  obtain r1 w1 where x: "exchange path init key w = (r1, w1)" by (cases "exchange path init key w")
  have k: "keepsToken w w1" and e: "extends w w1"
    using x keepsD keepsToken_exchange keeps_exchange by blast+
  then obtain t1 where t1: "localStorage w1 TOKEN_KEY = Some t1" and ev: "events w1 = events w"
    and g: "hasWindow w1" "wfJar w1"
    using assms(1-3) by (auto simp: keepsToken_def extends_def)
  show ?thesis
  proof (cases r1)
    case (Inl err)
    then have "\<not> isSessionExpiredError err" using x throws_exchange [of path init key] by (auto simp: throws_def)
    moreover have "r = Inl err" "w' = w1" using assms(4) Inl x by (auto simp: request_exchange await_def)
    ultimately show ?thesis using ev getToken_storage [OF g(1) t1] by auto
  next
    case (Inr response)
    then have s: "settle view path response w1 = (r, w')"
      using assms(4) x by (auto simp: request_exchange await_def)
    show ?thesis
      using settle_cases [OF s] notify_ends_session [OF g] getToken_storage [OF g(1) t1] ev
      by (auto split: if_splits)
  qed
qed

lemma expired_login:
  "fst (request as_json ''/auth/login'' noInit None (signedIn [(5, jsonResponse 401 JNull)])) =
    Inl (ApiRequestError ''Request failed: 401'' 401 JNull ''/auth/login'' True)"
  by code_simp

theorem request_session_outcome_witness:
  "getToken (snd (request as_json ''/auth/login'' noInit None (signedIn [(5, jsonResponse 401 JNull)]))) = Inr None"
  using request_session_outcome [OF signedIn_ok(1-3) surjective_pairing,
      of as_json "''/auth/login''" noInit None "[(5, jsonResponse 401 JNull)]"] expired_login
  by simp

subsection \<open>The refresh after a 401\<close>

lemma authorization_key: "toLowerCase ''X-Idempotency-Key'' \<noteq> toLowerCase ''Authorization''"
  by (simp add: js_defs)

lemma fetch_answered:
  "inbox w = (d, Responded r) # rest \<Longrightarrow>
   fetch rq w = (Inr r, w\<lparr>sent := sent w @ [rq], inbox := rest, now := now w + int d\<rparr>)"
  by (simp add: fetch_def Let_def)

lemma refresh_answered:
  assumes "inbox w = (d, Responded r) # rest" and "rok r"
    and "asStr (getProp (parseResponseBody r) ''access_token'') = Some t" and "t \<noteq> []"
  shows "refreshAccessToken w = (Inr (Some t),
    saveToken t (w\<lparr>sent := sent w @ [refreshRequest w], inbox := rest, now := now w + int d\<rparr>))"
  using assms by (simp add: refreshAccessToken_def io_simps fetch_answered Let_def)


definition refreshScript :: "(nat \<times> fetch_outcome) list" where
  "refreshScript = [(5, jsonResponse 401 JNull), (5, jsonResponse 200 (JObj [(''access_token'', JStr ''new'')])),
     (5, jsonResponse 200 (JArr []))]"


subsection \<open>Optional endpoints\<close>

lemma exchange_errors: "throws (\<lambda>e. \<not> isEndpointMissingError e) (exchange path init key)"
proof -
  have f: "throws (\<lambda>e. \<not> isEndpointMissingError e) (fetch rq)" for rq
    by (auto simp: throws_def fetch_def Let_def split: list.splits fetch_outcome.splits prod.splits)
  have g: "throws (\<lambda>e. \<not> isEndpointMissingError e) (liftResult getToken)"
    by (auto simp: throws_def liftResult_def getToken_def readEntry_def getCookie_def
        split: if_splits option.splits)
  show ?thesis
    unfolding exchange_def Let_def freshToken_def retryUnauthorized_def performFetch_def refreshAccessToken_def
    by (intro throws_await f g throws_if throws_leaf throws_catching)
qed

lemma settle_missing:
  "(\<exists>e. settle view path r w = (Inl e, w') \<and> isEndpointMissingError e) \<longleftrightarrow>
    rstatus r \<in> {404, 405, 501} \<and> w' = w"
  by (cases "view (parseResponseBody r)") (auto simp: settle_def Let_def io_simps rok_def)

text \<open>
  An optional endpoint is reported as unsupported exactly when the last answer of the
  server has status 404, 405 or 501; every other failure stays an error, and the state is the
  one the exchange left.
\<close>

theorem optional_unsupported_iff:
  "requestOptionalEndpoint view path init w = (Inr Unsupported, w') \<longleftrightarrow>
    (\<exists>r. exchange path init None w = (Inr r, w') \<and> rstatus r \<in> {404, 405, 501})"
proof -
  have "requestOptionalEndpoint view path init w = (Inr Unsupported, w') \<longleftrightarrow>
      (\<exists>e. request view path init None w = (Inl e, w') \<and> isEndpointMissingError e)"
    by (auto simp: requestOptionalEndpoint_def io_simps split: prod.splits sum.splits if_splits)
  also have "\<dots> \<longleftrightarrow> (\<exists>r w1. exchange path init None w = (Inr r, w1) \<and>
      (\<exists>e. settle view path r w1 = (Inl e, w') \<and> isEndpointMissingError e))"
    using exchange_errors [of path init None] unfolding request_exchange await_Inl_iff throws_def by blast
  finally show ?thesis unfolding settle_missing by blast
qed

end
