(* ===== verification/Api_Endpoints.thy ===== *)
theory Api_Endpoints
  imports Api_Client
begin

section \<open>The endpoints of the control-plane API\<close>

text \<open>
  The rest of \<^verbatim>\<open>saas-ui/domains/shared/lib/api.ts\<close>: the creation of a tenant with its fallback
  for older servers, the live-log address of a job, the audit export, and the methods of the
  \<^verbatim>\<open>api\<close> object, one definition each, named \<open>api_\<close> and the method's name.
\<close>

subsection \<open>Payloads\<close>

text \<open>An object literal with a field that may be absent.\<close>

definition optField :: "string \<Rightarrow> string option \<Rightarrow> (string \<times> json) list" where
  "optField k v = (case v of None \<Rightarrow> [] | Some s \<Rightarrow> [(k, JStr s)])"

definition jstrOpt :: "string option \<Rightarrow> json" where
  "jstrOpt v = (case v of None \<Rightarrow> JNull | Some s \<Rightarrow> JStr s)"

definition json_TenantCreatePayload :: "TenantCreatePayload \<Rightarrow> json" where
  "json_TenantCreatePayload p = JObj ([(''subdomain'', JStr (cp_subdomain p)),
     (''company_name'', JStr (cp_company_name p)), (''plan'', JStr (cp_plan p))] @
     optField ''chosen_app'' (cp_chosen_app p))"

definition json_TenantUpdatePayload :: "TenantUpdatePayload \<Rightarrow> json" where
  "json_TenantUpdatePayload p =
     JObj (optField ''plan'' (up_plan p) @ optField ''chosen_app'' (up_chosen_app p))"

record NotificationPreferencesApiPayload =
  np_email_alerts :: "bool option"
  np_sms_alerts :: "bool option"
  np_billing_alerts :: "bool option"
  np_provisioning_alerts :: "bool option"
  np_support_alerts :: "bool option"

definition as_NotificationPreferencesApiPayload :: "json \<Rightarrow> NotificationPreferencesApiPayload option" where
  "as_NotificationPreferencesApiPayload j = do {
     x0 \<leftarrow> optBool j ''email_alerts'';
     x1 \<leftarrow> optBool j ''sms_alerts'';
     x2 \<leftarrow> optBool j ''billing_alerts'';
     x3 \<leftarrow> optBool j ''provisioning_alerts'';
     x4 \<leftarrow> optBool j ''support_alerts'';
     Some \<lparr>np_email_alerts = x0, np_sms_alerts = x1, np_billing_alerts = x2,
       np_provisioning_alerts = x3, np_support_alerts = x4\<rparr> }"

definition boolField :: "string \<Rightarrow> bool option \<Rightarrow> (string \<times> json) list" where
  "boolField k v = (case v of None \<Rightarrow> [] | Some b \<Rightarrow> [(k, JBool b)])"

definition json_NotificationPreferencesApiPayload :: "NotificationPreferencesApiPayload \<Rightarrow> json" where
  "json_NotificationPreferencesApiPayload p = JObj (boolField ''email_alerts'' (np_email_alerts p) @
     boolField ''sms_alerts'' (np_sms_alerts p) @ boolField ''billing_alerts'' (np_billing_alerts p) @
     boolField ''provisioning_alerts'' (np_provisioning_alerts p) @
     boolField ''support_alerts'' (np_support_alerts p))"

text \<open>The token pair of a sign-in, of which the client reads the access token.\<close>

record TokenPair =
  tp_access_token :: string
  tp_token_type :: "string option"

definition as_TokenPair :: "json \<Rightarrow> TokenPair option" where
  "as_TokenPair j = do {
     x0 \<leftarrow> reqStr j ''access_token'';
     x1 \<leftarrow> optStr j ''token_type'';
     Some \<lparr>tp_access_token = x0, tp_token_type = x1\<rparr> }"

subsection \<open>Creating a tenant\<close>

definition normalizeTenantCreatePayload :: "TenantCreatePayload \<Rightarrow> TenantCreatePayload" where
  "normalizeTenantCreatePayload payload =
     (let chosen = trim (nullish (cp_chosen_app payload) []) in
      if chosen = [] then payload\<lparr>cp_chosen_app := None\<rparr>
      else payload\<lparr>cp_chosen_app := Some chosen\<rparr>)"

text \<open>\<^verbatim>\<open>error.body ?? ""\<close>: a missing body prints as an empty text.\<close>

fun shouldRetryWithoutChosenApp :: "exn \<Rightarrow> TenantCreatePayload \<Rightarrow> bool" where
  "shouldRetryWithoutChosenApp (ApiRequestError _ status body _ _) payload =
     (if \<not> truthyStr (cp_chosen_app payload) then False
      else if status \<noteq> 422 then False
      else
        (let bodyText = toLowerCase (JSON_stringify (if body = JNull then JStr [] else body)) in
         includesStr bodyText ''chosen_app'' \<or> includesStr bodyText ''extra fields not permitted'' \<or>
         includesStr bodyText ''extra_forbidden'' \<or> includesStr bodyText ''unexpected keyword''))"
| "shouldRetryWithoutChosenApp _ payload = False"

definition createTenantWithCompatibility :: "TenantCreatePayload \<Rightarrow> string \<Rightarrow> json io" where
  "createTenantWithCompatibility payload idempotencyKey =
     (let normalizedPayload = normalizeTenantCreatePayload payload in
      catching
        (request as_json ''/tenants'' (initBody ''POST'' (json_TenantCreatePayload normalizedPayload))
           (Some idempotencyKey))
        (\<lambda>error.
           if \<not> shouldRetryWithoutChosenApp error normalizedPayload then throw error
           else
             (let legacyPayload = normalizedPayload\<lparr>cp_chosen_app := None\<rparr> in
              await createIdempotencyKey (\<lambda>key.
                request as_json ''/tenants'' (initBody ''POST'' (json_TenantCreatePayload legacyPayload))
                  (Some key)))))"

definition requestNotificationPreferencesOptional ::
  "req_init \<Rightarrow> NotificationPreferencesApiPayload OptionalEndpointResult io" where
  "requestNotificationPreferencesOptional init =
     await (requestOptionalEndpoint as_NotificationPreferencesApiPayload
              ''/auth/me/notification-preferences'' init)
       (\<lambda>primary. if supported primary then ret primary
         else requestOptionalEndpoint as_NotificationPreferencesApiPayload
                ''/auth/me/preferences/notifications'' init)"

subsection \<open>The live log of a job\<close>

text \<open>
  What \<^verbatim>\<open>new URL\<close> makes of an absolute http address: the host in lower case without
  credentials and default port, and the path. Addresses with dot segments or international
  host names are outside the model.
\<close>

definition stripTrailingSlashes :: "string \<Rightarrow> string" where
  "stripTrailingSlashes s = rev (dropWhile (\<lambda>c. c = CHR ''/'') (rev s))"

record parsed_url =
  urlSecure :: bool
  urlHost :: string
  urlPathname :: string

definition urlEndsHost :: "char \<Rightarrow> bool" where
  "urlEndsHost c \<longleftrightarrow> c \<in> {CHR ''/'', CHR ''?'', CHR ''#''}"

definition parseHttpUrl :: "string \<Rightarrow> parsed_url" where
  "parseHttpUrl s =
     (let secure = startsWith s ''https://'';
          rest = drop (if secure then 8 else 7) s;
          authority = takeWhile (\<lambda>c. \<not> urlEndsHost c) rest;
          host = toLowerCase (rev (takeWhile (\<lambda>c. c \<noteq> CHR ''@'') (rev authority)));
          port = (if secure then '':443'' else '':80'');
          path = pathOnly (dropWhile (\<lambda>c. \<not> urlEndsHost c) rest) in
      \<lparr>urlSecure = secure,
       urlHost = (if endsWith host port then take (length host - length port) host else host),
       urlPathname = (if path = [] then ''/'' else path)\<rparr>)"

definition resolveWsBase :: "world \<Rightarrow> string" where
  "resolveWsBase w =
     (if \<not> hasWindow w then []
      else
        (let configured = apiBase w in
         if startsWith configured ''http://'' \<or> startsWith configured ''https://'' then
           (let parsed = parseHttpUrl configured;
                protocol = (if urlSecure parsed then ''wss:'' else ''ws:'');
                pathname = stripTrailingSlashes (urlPathname parsed) in
            protocol @ ''//'' @ urlHost parsed @ pathname)
         else
           (let protocol = (if locProtocol w = ''https:'' then ''wss:'' else ''ws:'');
                normalizedPath =
                  (if configured = [] then []
                   else if startsWith configured ''/'' then configured else CHR ''/'' # configured);
                pathname = stripTrailingSlashes normalizedPath in
            protocol @ ''//'' @ locHost w @ pathname)))"

definition jobStreamUrl :: "string \<Rightarrow> world \<Rightarrow> string" where
  "jobStreamUrl jobId w =
     (let base = stripTrailingSlashes (resolveWsBase w) in
      base @ ''/ws/jobs/'' @ encodeURIComponent jobId)"

subsection \<open>Session listeners\<close>

text \<open>
  \<^verbatim>\<open>onSessionExpired\<close> adds a listener for the event and returns its removal; the listeners of a
  page are a list, and an event runs those registered when it is sent.
\<close>

definition onSessionExpired :: "'l \<Rightarrow> world \<Rightarrow> 'l list \<Rightarrow> 'l list" where
  "onSessionExpired listener w ls = (if \<not> hasWindow w then ls else ls @ [listener])"

definition offSessionExpired :: "'l \<Rightarrow> world \<Rightarrow> 'l list \<Rightarrow> 'l list" where
  "offSessionExpired listener w ls = (if \<not> hasWindow w then ls else remove1 listener ls)"

subsection \<open>Query strings\<close>

datatype StrOrList = One string | Many "string list"

definition appendQueryValues :: "string \<Rightarrow> StrOrList option \<Rightarrow> query \<Rightarrow> query" where
  "appendQueryValues key v query =
     (let append_all = (\<lambda>vs.
            foldl (\<lambda>q item. queryAppend key item q) query
              (filter (\<lambda>item. item \<noteq> []) (map trim (concat (map (splitOn '','') vs))))) in
      case v of
        None \<Rightarrow> query
      | Some (One s) \<Rightarrow> if s = [] then query else append_all [s]
      | Some (Many vs) \<Rightarrow> append_all vs)"

datatype filter_mode = AndMode | OrMode

definition pagedQuery ::
  "int \<Rightarrow> int \<Rightarrow> StrOrList option \<Rightarrow> string option \<Rightarrow> string option \<Rightarrow> StrOrList option \<Rightarrow>
   StrOrList option \<Rightarrow> filter_mode \<Rightarrow> query" where
  "pagedQuery page limit status search plan billingStatus paymentChannel filterMode =
     (let q0 = [(''page'', intStr page), (''limit'', intStr limit)];
          q1 = appendQueryValues ''status'' status q0;
          q2 = appendQueryValues ''billing_status'' billingStatus q1;
          q3 = appendQueryValues ''payment_channel'' paymentChannel q2;
          q4 = (if truthyStr search then querySet ''search'' (the search) q3 else q3);
          q5 = (if truthyStr plan then querySet ''plan'' (the plan) q4 else q4) in
      if filterMode \<noteq> AndMode then querySet ''filter_mode'' ''or'' q5 else q5)"

subsection \<open>The audit export\<close>

definition auditExportUrl :: "int \<Rightarrow> world \<Rightarrow> string" where
  "auditExportUrl limit w = apiBase w @ ''/admin/audit-log/export?limit='' @ encodeURIComponent (intStr limit)"

text \<open>The download itself, a click on a generated link, is the event \<^verbatim>\<open>download:audit-log.csv\<close>.\<close>

definition downloadAuditLogCsv :: "int \<Rightarrow> unit io" where
  "downloadAuditLogCsv limit =
     await (liftResult getToken) (\<lambda>token.
     await (asks (auditExportUrl limit)) (\<lambda>url.
     await (fetch \<lparr>reqUrl = url, fmethod = ''GET'', fheaders = authorize token [], fbody = None\<rparr>) (\<lambda>response.
       if \<not> rok response then
         (let body = parseResponseBody response in
          await (modify (if rstatus response = 401 then notifySessionExpired else id)) (\<lambda>_.
            throw (ApiRequestError (parseErrorMessage body (rstatus response)) (rstatus response) body
                     ''/admin/audit-log/export'' (rstatus response = 401))))
       else modify (\<lambda>w. if \<not> hasWindow w then w else dispatch ''download:audit-log.csv'' w))))"

subsection \<open>The methods\<close>

text \<open>Boolean query values, the optional fields of a support note, and one definition for each method.\<close>

definition boolStr :: "bool \<Rightarrow> string" where
  "boolStr b = (if b then ''true'' else ''false'')"

record SupportNoteExtras =
  se_owner_name :: "string option"
  se_owner_contact :: "string option"
  se_sla_due_at :: "string option"
  se_status :: "string option"

definition extrasFields :: "SupportNoteExtras \<Rightarrow> (string \<times> json) list" where
  "extrasFields x = optField ''owner_name'' (se_owner_name x) @ optField ''owner_contact'' (se_owner_contact x) @
     optField ''sla_due_at'' (se_sla_due_at x) @ optField ''status'' (se_status x)"

definition api_signup ::
  "string \<Rightarrow> string \<Rightarrow> string option \<Rightarrow> UserProfile io" where
  "api_signup email password phone = (let extra = (case phone of None \<Rightarrow> [] | Some p \<Rightarrow> if trim p = [] then [] else [(''phone'', JStr (trim p))]) in
      request as_UserProfile ''/auth/signup''
        (initBody ''POST'' (JObj ([(''email'', JStr email), (''password'', JStr password)] @ extra))) None)"

definition api_login :: "string \<Rightarrow> string \<Rightarrow> TokenPair io" where
  "api_login email password =
     request as_TokenPair ''/auth/login''
       (initBody ''POST'' (JObj [(''email'', JStr email), (''password'', JStr password)])) None"

definition api_getCurrentUser :: "UserProfile io" where
  "api_getCurrentUser = request as_UserProfile ''/auth/me'' noInit None"

definition api_updateCurrentUser :: "string option \<Rightarrow> UserProfile io" where
  "api_updateCurrentUser phone =
     request as_UserProfile ''/auth/me'' (initBody ''PATCH'' (JObj [(''phone'', jstrOpt phone)])) None"

definition api_getCurrentUserNotificationPreferences :: "NotificationPreferencesApiPayload OptionalEndpointResult io" where
  "api_getCurrentUserNotificationPreferences = requestNotificationPreferencesOptional noInit"

definition api_updateCurrentUserNotificationPreferences ::
  "NotificationPreferencesApiPayload \<Rightarrow> NotificationPreferencesApiPayload OptionalEndpointResult io" where
  "api_updateCurrentUserNotificationPreferences payload =
     requestNotificationPreferencesOptional
       (initBody ''PATCH'' (json_NotificationPreferencesApiPayload payload))"

definition api_verifyEmail :: "string \<Rightarrow> MessageResponse io" where
  "api_verifyEmail token =
     request as_MessageResponse ''/auth/verify-email''
       (initBody ''POST'' (JObj [(''token'', JStr token)])) None"

definition api_resendVerification :: "MessageResponse io" where
  "api_resendVerification = request as_MessageResponse ''/auth/resend-verification'' noInit None"

definition api_forgotPassword :: "string \<Rightarrow> MessageResponse io" where
  "api_forgotPassword email =
     request as_MessageResponse ''/auth/forgot-password''
       (initBody ''POST'' (JObj [(''email'', JStr email)])) None"

definition api_resetPassword :: "string \<Rightarrow> string \<Rightarrow> MessageResponse io" where
  "api_resetPassword token newPassword =
     request as_MessageResponse ''/auth/reset-password''
       (initBody ''POST'' (JObj [(''token'', JStr token), (''new_password'', JStr newPassword)])) None"

definition api_refreshToken :: "TokenPair io" where
  "api_refreshToken = request as_TokenPair ''/auth/refresh'' (initMethod ''POST'') None"

definition api_listPlans :: "PlanDetail list io" where
  "api_listPlans = request (as_list as_PlanDetail) ''/plans'' noInit None"

definition api_getPlan :: "string \<Rightarrow> PlanDetail io" where
  "api_getPlan slug = request as_PlanDetail (''/plans/'' @ encodeURIComponent slug) noInit None"

definition api_listTenants :: "Tenant list io" where
  "api_listTenants = request (as_list as_Tenant) ''/tenants'' noInit None"

definition api_listTenantsPaged ::
  "int \<Rightarrow> int \<Rightarrow> StrOrList option \<Rightarrow> string option \<Rightarrow> string option \<Rightarrow> StrOrList option \<Rightarrow> StrOrList option \<Rightarrow> filter_mode \<Rightarrow> Tenant PaginatedResult OptionalEndpointResult io" where
  "api_listTenantsPaged page limit status search plan billingStatus paymentChannel filterMode = requestOptionalEndpoint (as_PaginatedResult as_Tenant) 
       (''/tenants/paged?'' @ queryStr (pagedQuery page limit status search plan billingStatus paymentChannel filterMode)) noInit"

definition api_getTenant :: "string \<Rightarrow> Tenant io" where
  "api_getTenant ident = request as_Tenant (''/tenants/'' @ ident) noInit None"

definition api_createTenant :: "TenantCreatePayload \<Rightarrow> json io" where
  "api_createTenant payload = await createIdempotencyKey (createTenantWithCompatibility payload)"

definition api_renewCheckout :: "string \<Rightarrow> TenantCreateResponse OptionalEndpointResult io" where
  "api_renewCheckout tenantId =
     requestOptionalEndpoint as_TenantCreateResponse (''/tenants/'' @ tenantId @ ''/checkout/renew'') (initMethod ''POST'')"

definition api_updateTenant ::
  "string \<Rightarrow> TenantUpdatePayload \<Rightarrow> Tenant OptionalEndpointResult io" where
  "api_updateTenant ident payload =
     requestOptionalEndpoint as_Tenant (''/tenants/'' @ ident)
       (initBody ''PATCH'' (json_TenantUpdatePayload payload))"

definition api_checkSubdomainAvailability :: "string \<Rightarrow> SubdomainAvailability io" where
  "api_checkSubdomainAvailability subdomain =
     request as_SubdomainAvailability (''/tenants/check-subdomain?subdomain='' @ encodeURIComponent subdomain) noInit None"

definition api_backupTenant :: "string \<Rightarrow> Job io" where
  "api_backupTenant ident = request as_Job (''/tenants/'' @ ident @ ''/backup'') (initMethod ''POST'') None"

definition api_deleteTenant :: "string \<Rightarrow> Job io" where
  "api_deleteTenant ident = request as_Job (''/tenants/'' @ ident) (initMethod ''DELETE'') None"

definition api_restoreTenant ::
  "string \<Rightarrow> string \<Rightarrow> Job OptionalEndpointResult io" where
  "api_restoreTenant ident backupId =
     requestOptionalEndpoint as_Job (''/tenants/'' @ ident @ ''/restore'')
       (initBody ''POST'' (JObj [(''backup_id'', JStr backupId)]))"

definition api_retryTenant :: "string \<Rightarrow> Job OptionalEndpointResult io" where
  "api_retryTenant ident =
     requestOptionalEndpoint as_Job (''/tenants/'' @ ident @ ''/retry'') (initMethod ''POST'')"

definition api_resetAdminPassword ::
  "string \<Rightarrow> string option \<Rightarrow> ResetAdminPasswordResult io" where
  "api_resetAdminPassword ident newPassword =
     request as_ResetAdminPasswordResult (''/tenants/'' @ ident @ ''/reset-admin-password'')
       (initBody ''POST'' (JObj [(''new_password'', jstrOpt (Option.bind newPassword (\<lambda>p. orNull (trim p))))])) None"

definition api_getJob :: "string \<Rightarrow> Job io" where
  "api_getJob ident = request as_Job (''/jobs/'' @ ident) noInit None"

definition api_listAllTenants :: "Tenant list io" where
  "api_listAllTenants = request (as_list as_Tenant) ''/admin/tenants'' noInit None"

definition api_listAllTenantsPaged ::
  "int \<Rightarrow> int \<Rightarrow> StrOrList option \<Rightarrow> string option \<Rightarrow> string option \<Rightarrow> StrOrList option \<Rightarrow> StrOrList option \<Rightarrow> filter_mode \<Rightarrow> Tenant PaginatedResult OptionalEndpointResult io" where
  "api_listAllTenantsPaged page limit status search plan billingStatus paymentChannel filterMode = requestOptionalEndpoint (as_PaginatedResult as_Tenant) 
       (''/admin/tenants/paged?'' @ queryStr (pagedQuery page limit status search plan billingStatus paymentChannel filterMode)) noInit"

definition api_requestImpersonationLink ::
  "string \<Rightarrow> string \<Rightarrow> ImpersonationLink OptionalEndpointResult io" where
  "api_requestImpersonationLink targetEmail reason =
     requestOptionalEndpoint as_ImpersonationLink ''/admin/impersonation-links''
       (initBody ''POST'' (JObj [(''target_email'', JStr targetEmail), (''reason'', JStr reason)]))"

definition api_exchangeImpersonationToken :: "string \<Rightarrow> TokenPair io" where
  "api_exchangeImpersonationToken token =
     request as_TokenPair ''/auth/impersonate'' (initBody ''POST'' (JObj [(''token'', JStr token)])) None"

definition api_listDeadLetterJobs :: "DeadLetterJob list OptionalEndpointResult io" where
  "api_listDeadLetterJobs =
     requestOptionalEndpoint (as_list as_DeadLetterJob) ''/admin/jobs/dead-letter'' noInit"

definition api_requeueDeadLetterJob :: "string \<Rightarrow> MessageResponse OptionalEndpointResult io" where
  "api_requeueDeadLetterJob jobId =
     requestOptionalEndpoint as_MessageResponse (''/admin/jobs/dead-letter/'' @ encodeURIComponent jobId @ ''/requeue'') (initMethod ''POST'')"

definition api_suspendTenant ::
  "string \<Rightarrow> string option \<Rightarrow> MessageResponse OptionalEndpointResult io" where
  "api_suspendTenant tenantId reason = (let query = (if truthyStr reason then ''?reason='' @ encodeURIComponent (the reason) else []) in
      requestOptionalEndpoint as_MessageResponse (''/admin/tenants/'' @ tenantId @ ''/suspend'' @ query)
        (initMethod ''POST''))"

definition api_unsuspendTenant ::
  "string \<Rightarrow> string option \<Rightarrow> MessageResponse OptionalEndpointResult io" where
  "api_unsuspendTenant tenantId reason = (let query = (if truthyStr reason then ''?reason='' @ encodeURIComponent (the reason) else []) in
      requestOptionalEndpoint as_MessageResponse (''/admin/tenants/'' @ tenantId @ ''/unsuspend'' @ query)
        (initMethod ''POST''))"

definition api_listTenantBackups ::
  "string \<Rightarrow> BackupManifestEntry list OptionalEndpointResult io" where
  "api_listTenantBackups tenantId =
     requestOptionalEndpoint (as_list as_BackupManifestEntry) (''/tenants/'' @ tenantId @ ''/backups'') noInit"

definition api_getTenantSummary :: "string \<Rightarrow> TenantSummary OptionalEndpointResult io" where
  "api_getTenantSummary tenantId =
     requestOptionalEndpoint as_TenantSummary (''/tenants/'' @ tenantId @ ''/summary'') noInit"

definition api_getTenantSubscription :: "string \<Rightarrow> TenantSubscription OptionalEndpointResult io" where
  "api_getTenantSubscription tenantId =
     requestOptionalEndpoint as_TenantSubscription (''/tenants/'' @ tenantId @ ''/subscription'') noInit"

definition api_getTenantReadiness :: "string \<Rightarrow> TenantReadiness OptionalEndpointResult io" where
  "api_getTenantReadiness tenantId =
     requestOptionalEndpoint as_TenantReadiness (''/tenants/'' @ tenantId @ ''/readiness'') noInit"

definition api_listTenantAuditLog ::
  "string \<Rightarrow> int \<Rightarrow> int \<Rightarrow> AuditLogEntry PaginatedResult OptionalEndpointResult io" where
  "api_listTenantAuditLog tenantId page limit = requestOptionalEndpoint (as_PaginatedResult as_AuditLogEntry) 
       (''/tenants/'' @ tenantId @ ''/audit-log?page='' @ intStr page @ ''&limit='' @ intStr limit) noInit"

definition api_listTenantMembers :: "string \<Rightarrow> TenantMember list OptionalEndpointResult io" where
  "api_listTenantMembers tenantId =
     requestOptionalEndpoint (as_list as_TenantMember) (''/tenants/'' @ tenantId @ ''/members'') noInit"

definition api_listTenantDomains :: "string \<Rightarrow> DomainMapping list OptionalEndpointResult io" where
  "api_listTenantDomains tenantId =
     requestOptionalEndpoint (as_list as_DomainMapping) (''/tenants/'' @ tenantId @ ''/domains'') noInit"

definition api_createTenantDomain ::
  "string \<Rightarrow> string \<Rightarrow> DomainMapping OptionalEndpointResult io" where
  "api_createTenantDomain tenantId domain =
     requestOptionalEndpoint as_DomainMapping (''/tenants/'' @ tenantId @ ''/domains'')
       (initBody ''POST'' (JObj [(''domain'', JStr domain)]))"

definition api_verifyTenantDomain ::
  "string \<Rightarrow> string \<Rightarrow> string option \<Rightarrow> DomainMapping OptionalEndpointResult io" where
  "api_verifyTenantDomain tenantId mappingId token =
     requestOptionalEndpoint as_DomainMapping (''/tenants/'' @ tenantId @ ''/domains/'' @ encodeURIComponent mappingId @ ''/verify'')
       (initBody ''POST'' (JObj [(''token'', jstrOpt token)]))"

definition api_deleteTenantDomain ::
  "string \<Rightarrow> string \<Rightarrow> MessageResponse OptionalEndpointResult io" where
  "api_deleteTenantDomain tenantId mappingId =
     requestOptionalEndpoint as_MessageResponse (''/tenants/'' @ tenantId @ ''/domains/'' @ encodeURIComponent mappingId) (initMethod ''DELETE'')"

definition api_inviteTenantMember ::
  "string \<Rightarrow> string \<Rightarrow> string \<Rightarrow> TenantMember OptionalEndpointResult io" where
  "api_inviteTenantMember tenantId email role =
     requestOptionalEndpoint as_TenantMember (''/tenants/'' @ tenantId @ ''/members'')
       (initBody ''POST'' (JObj [(''email'', JStr email), (''role'', JStr role)]))"

definition api_updateTenantMemberRole ::
  "string \<Rightarrow> string \<Rightarrow> string \<Rightarrow> TenantMember OptionalEndpointResult io" where
  "api_updateTenantMemberRole tenantId memberId role =
     requestOptionalEndpoint as_TenantMember (''/tenants/'' @ tenantId @ ''/members/'' @ encodeURIComponent memberId)
       (initBody ''PATCH'' (JObj [(''role'', JStr role)]))"

definition api_removeTenantMember ::
  "string \<Rightarrow> string \<Rightarrow> MessageResponse OptionalEndpointResult io" where
  "api_removeTenantMember tenantId memberId =
     requestOptionalEndpoint as_MessageResponse (''/tenants/'' @ tenantId @ ''/members/'' @ encodeURIComponent memberId) (initMethod ''DELETE'')"

definition api_listAdminJobs :: "int \<Rightarrow> Job list OptionalEndpointResult io" where
  "api_listAdminJobs limit =
     requestOptionalEndpoint (as_list as_Job) (''/admin/jobs?limit='' @ encodeURIComponent (intStr limit)) noInit"

definition api_getAdminJobLogs :: "string \<Rightarrow> Job OptionalEndpointResult io" where
  "api_getAdminJobLogs jobId =
     requestOptionalEndpoint as_Job (''/admin/jobs/'' @ encodeURIComponent jobId @ ''/logs'') noInit"

definition api_listAuditLog ::
  "int \<Rightarrow> int \<Rightarrow> AuditLogEntry PaginatedResult OptionalEndpointResult io" where
  "api_listAuditLog page limit = requestOptionalEndpoint (as_PaginatedResult as_AuditLogEntry) 
       (''/admin/audit-log?page='' @ intStr page @ ''&limit='' @ intStr limit) noInit"

definition api_listSupportNotes :: "string \<Rightarrow> SupportNote list OptionalEndpointResult io" where
  "api_listSupportNotes tenantId =
     requestOptionalEndpoint (as_list as_SupportNote) (''/admin/support-notes?tenant_id='' @ encodeURIComponent tenantId) noInit"

definition api_listSupportNotesAll :: "SupportNote list OptionalEndpointResult io" where
  "api_listSupportNotesAll =
     requestOptionalEndpoint (as_list as_SupportNote) ''/admin/support-notes'' noInit"

definition api_listBillingDunning :: "DunningItem list OptionalEndpointResult io" where
  "api_listBillingDunning =
     requestOptionalEndpoint (as_list as_DunningItem) ''/admin/billing/dunning'' noInit"

definition api_runBillingDunningCycle :: "bool \<Rightarrow> MessageResponse OptionalEndpointResult io" where
  "api_runBillingDunningCycle dryRun =
     requestOptionalEndpoint as_MessageResponse (''/admin/billing/dunning/run?dry_run='' @ encodeURIComponent (boolStr dryRun)) (initMethod ''POST'')"

definition api_rebuildPlatformAssets :: "MessageResponse OptionalEndpointResult io" where
  "api_rebuildPlatformAssets =
     requestOptionalEndpoint as_MessageResponse ''/admin/maintenance/assets/build'' (initMethod ''POST'')"

definition api_syncTenantTLS :: "bool \<Rightarrow> MessageResponse OptionalEndpointResult io" where
  "api_syncTenantTLS primeCerts =
     requestOptionalEndpoint as_MessageResponse (''/admin/maintenance/tls/sync?prime_certs='' @ encodeURIComponent (boolStr primeCerts)) (initMethod ''POST'')"

definition api_createSupportNote ::
  "string \<Rightarrow> string \<Rightarrow> string \<Rightarrow> SupportNoteExtras option \<Rightarrow> SupportNote OptionalEndpointResult io" where
  "api_createSupportNote tenantId category note extras = requestOptionalEndpoint as_SupportNote ''/admin/support-notes''
       (initBody ''POST'' (JObj ([(''tenant_id'', JStr tenantId), (''category'', JStr category), (''note'', JStr note)] @
          (case extras of None \<Rightarrow> [] | Some x \<Rightarrow> extrasFields x))))"

definition api_updateSupportNote ::
  "string \<Rightarrow> json \<Rightarrow> SupportNote OptionalEndpointResult io" where
  "api_updateSupportNote noteId payload =
     requestOptionalEndpoint as_SupportNote (''/admin/support-notes/'' @ encodeURIComponent noteId)
       (initBody ''PATCH'' payload)"

definition api_getBillingPortal :: "BillingPortalResponse OptionalEndpointResult io" where
  "api_getBillingPortal = requestOptionalEndpoint as_BillingPortalResponse ''/billing/portal'' noInit"

definition api_listBillingInvoices :: "BillingInvoiceListResponse OptionalEndpointResult io" where
  "api_listBillingInvoices =
     requestOptionalEndpoint as_BillingInvoiceListResponse ''/billing/invoices'' noInit"

definition api_getAdminMetrics :: "MetricsSummary OptionalEndpointResult io" where
  "api_getAdminMetrics = requestOptionalEndpoint as_MetricsSummary ''/admin/metrics'' noInit"

definition api_getTenantRuntimeConsistency :: "TenantRuntimeConsistencyReport OptionalEndpointResult io" where
  "api_getTenantRuntimeConsistency =
     requestOptionalEndpoint as_TenantRuntimeConsistencyReport ''/admin/tenants/runtime-consistency'' noInit"

definition api_authHealth :: "MessageResponse OptionalEndpointResult io" where
  "api_authHealth = requestOptionalEndpoint as_MessageResponse ''/auth/health'' noInit"

definition api_billingHealth :: "MessageResponse OptionalEndpointResult io" where
  "api_billingHealth = requestOptionalEndpoint as_MessageResponse ''/billing/health'' noInit"

subsection \<open>Creating a tenant: idempotency keys\<close>

text \<open>The messages a computation puts on the wire satisfy a predicate.\<close>

definition sends :: "(fetch_req \<Rightarrow> bool) \<Rightarrow> world \<Rightarrow> world \<Rightarrow> bool" where
  "sends P w w' \<longleftrightarrow> (\<exists>rs. sent w' = sent w @ rs \<and> (\<forall>r\<in>set rs. P r))"

lemma reflp_sends: "reflp (sends P)"
  by (simp add: reflp_def sends_def)

lemma transp_sends: "transp (sends P)"
  by (rule transpI) (force simp: sends_def)

lemma sends_mono: "sends P w w' \<Longrightarrow> (\<And>r. P r \<Longrightarrow> Q r) \<Longrightarrow> sends Q w w'"
  by (auto simp: sends_def)

lemma sends_trans: "sends P w w' \<Longrightarrow> sends P w' w'' \<Longrightarrow> sends P w w''"
  using transp_sends by (rule transpD)

lemmas sends_intros =
  keeps_ret [OF reflp_sends] keeps_throw [OF reflp_sends] keeps_asks [OF reflp_sends]
  keeps_liftResult [OF reflp_sends] keeps_await [OF transp_sends] keeps_catching [OF transp_sends]
  keeps_if keeps_option keeps_modify

lemma sends_fetch: "P rq \<Longrightarrow> keeps (sends P) (fetch rq)"
  by (auto simp: keeps_def sends_def fetch_def Let_def split: list.splits fetch_outcome.splits prod.splits)

lemma sends_same: "sent w' = sent w \<Longrightarrow> sends P w w'"
  by (simp add: sends_def)

text \<open>A keyed request: every message is a refresh or carries the body and the key.\<close>

definition keyed :: "string \<Rightarrow> string option \<Rightarrow> fetch_req \<Rightarrow> bool" where
  "keyed key body r \<longleftrightarrow> fbody r \<noteq> None \<longrightarrow>
     fbody r = body \<and> headerGet ''X-Idempotency-Key'' (fheaders r) = Some key"

lemma headerGet_other:
  "toLowerCase k \<noteq> toLowerCase k' \<Longrightarrow> headerGet k (headerSet k' v hs) = headerGet k hs"
  by (simp add: headerGet_headerSet)

lemma performFetch_keyed:
  "headerGet ''X-Idempotency-Key'' headers = Some key \<Longrightarrow>
   keeps (sends (keyed key (riBody init))) (performFetch path init headers)"
  unfolding performFetch_def by (intro sends_intros sends_fetch) (simp add: keyed_def)

lemma refresh_keyed: "keeps (sends (keyed key body)) refreshAccessToken"
proof -
  have rq: "keeps (sends (keyed key body)) (await (asks refreshRequest) fetch)"
    by (auto simp: keeps_def await_def asks_def refreshRequest_def keyed_def
        intro!: sends_fetch [unfolded keeps_def, rule_format])
  have "keeps (sends (keyed key body)) (await (await (asks refreshRequest) fetch) (\<lambda>response.
      if \<not> rok response then ret None
      else if \<not> truthyStr (asStr (getProp (parseResponseBody response) ''access_token'')) then ret None
      else await (modify (saveToken (the (asStr (getProp (parseResponseBody response) ''access_token'')))))
             (\<lambda>_. ret (asStr (getProp (parseResponseBody response) ''access_token'')))))"
    by (intro sends_intros rq sends_same) simp
  then show ?thesis
    unfolding refreshAccessToken_def Let_def await_assoc
    by (rule keeps_catching [OF transp_sends]) (rule keeps_ret [OF reflp_sends])
qed

lemma request_keyed:
  assumes "key \<noteq> []"
  shows "keeps (sends (keyed key (riBody init))) (request view path init (Some key))"
proof -
  have ne: "toLowerCase ''X-Idempotency-Key'' \<noteq> toLowerCase ''Authorization''"
    by (rule authorization_key)
  have h: "headerGet ''X-Idempotency-Key'' (headerSet ''Authorization'' a (headerSet ''X-Idempotency-Key'' key hs)) = Some key"
    for a hs using ne by (simp add: headerGet_headerSet)
  have k: "truthyStr (Some key)" using assms by simp
  show ?thesis
    unfolding request_def Let_def freshToken_def retryUnauthorized_def settle_def if_P [OF k] option.sel
    by (intro sends_intros performFetch_keyed refresh_keyed sends_same h)
       (auto simp: headerGet_headerSet notifySessionExpired_def dispatch_def Let_def)
qed

lemma createIdempotencyKey_eq:
  "createIdempotencyKey w = (Inr (uuids w (uuidNext w)), w\<lparr>uuidNext := Suc (uuidNext w)\<rparr>)"
  by (simp add: createIdempotencyKey_def)

lemma create_tenant_messages:
  assumes "key \<noteq> []" and "\<And>n. uuids w n \<noteq> []"
  shows "\<exists>n b1 b2. uuidNext w \<le> n \<and>
    sends (\<lambda>r. keyed key (Some b1) r \<or> keyed (uuids w n) (Some b2) r) w (snd (createTenantWithCompatibility payload key w))"
proof -
  let ?p = "normalizeTenantCreatePayload payload"
  let ?i1 = "initBody ''POST'' (json_TenantCreatePayload ?p)"
  let ?i2 = "initBody ''POST'' (json_TenantCreatePayload (?p\<lparr>cp_chosen_app := None\<rparr>))"
  obtain b1 b2 where b: "riBody ?i1 = Some b1" "riBody ?i2 = Some b2" by (simp add: initBody_def)
  obtain r w1 where x: "request as_json ''/tenants'' ?i1 (Some key) w = (r, w1)"
    by (cases "request as_json ''/tenants'' ?i1 (Some key) w")
  have s1: "sends (keyed key (Some b1)) w w1"
    using request_keyed [OF assms(1), of ?i1 as_json "''/tenants''"] x b by (metis keepsD)
  have e: "uuidNext w \<le> uuidNext w1" "uuids w1 = uuids w"
    using keepsD [OF keeps_request x] by (auto simp: extends_def)
  let ?n = "uuidNext w1"
  let ?P = "\<lambda>r. keyed key (Some b1) r \<or> keyed (uuids w ?n) (Some b2) r"
  have s1': "sends ?P w w1" by (rule sends_mono [OF s1]) simp
  have "sends (keyed (uuids w ?n) (Some b2)) u (snd (request as_json ''/tenants'' ?i2 (Some (uuids w ?n)) u))" for u
    using request_keyed [OF assms(2) [of ?n], of ?i2 as_json "''/tenants''"] b by (simp add: keeps_def)
  then have "sends ?P (w1\<lparr>uuidNext := Suc ?n\<rparr>)
      (snd (request as_json ''/tenants'' ?i2 (Some (uuids w ?n)) (w1\<lparr>uuidNext := Suc ?n\<rparr>)))"
    by (rule sends_mono) simp
  then have s2: "sends ?P w (snd (request as_json ''/tenants'' ?i2 (Some (uuids w ?n)) (w1\<lparr>uuidNext := Suc ?n\<rparr>)))"
    using s1' by (auto intro: sends_trans simp: sends_def)
  have "sends ?P w (snd (createTenantWithCompatibility payload key w))"
    using s1' s2 e(2)
    by (cases r) (simp_all add: createTenantWithCompatibility_def catching_def x Let_def throw_def
        await_def createIdempotencyKey_def)
  then show ?thesis using e(1) by blast
qed

text \<open>
  C9: An idempotency key is never used for two different tenants: of all the messages one
  creation puts on the wire, with its refreshes, second attempts and the fallback for older
  servers, those with a body carry a key, and two with the same key carry the same body. The
  random identifiers are assumed distinct and not empty.
\<close>

theorem idempotency_key_one_body:
  assumes "inj (uuids w)" and "\<And>n. uuids w n \<noteq> []"
  shows "\<exists>rs. sent (snd (api_createTenant payload w)) = sent w @ rs \<and>
    (\<forall>r\<in>set rs. fbody r \<noteq> None \<longrightarrow> headerGet ''X-Idempotency-Key'' (fheaders r) \<noteq> None) \<and>
    (\<forall>r\<in>set rs. \<forall>r'\<in>set rs. fbody r \<noteq> None \<longrightarrow> fbody r' \<noteq> None \<longrightarrow>
      headerGet ''X-Idempotency-Key'' (fheaders r) = headerGet ''X-Idempotency-Key'' (fheaders r') \<longrightarrow>
      fbody r = fbody r')"
proof -
  let ?k = "uuids w (uuidNext w)" and ?w = "w\<lparr>uuidNext := Suc (uuidNext w)\<rparr>"
  have eq: "api_createTenant payload w = createTenantWithCompatibility payload ?k ?w"
    by (simp add: api_createTenant_def await_def createIdempotencyKey_def)
  obtain n b1 b2 where n: "Suc (uuidNext w) \<le> n" and
    s: "sends (\<lambda>r. keyed ?k (Some b1) r \<or> keyed (uuids w n) (Some b2) r) ?w
          (snd (createTenantWithCompatibility payload ?k ?w))"
    using create_tenant_messages [of ?k ?w payload] assms(2) by auto
  have ne: "?k \<noteq> uuids w n" using n injD [OF assms(1)] by fastforce
  obtain rs where rs: "sent (snd (api_createTenant payload w)) = sent w @ rs"
    "\<forall>r\<in>set rs. keyed ?k (Some b1) r \<or> keyed (uuids w n) (Some b2) r"
    using s by (auto simp: sends_def eq)
  show ?thesis
    using rs ne by (intro exI [of _ rs]) (auto simp: keyed_def, (metis option.inject)+)
qed

theorem idempotency_key_one_body_witness:
  "\<exists>rs. sent (snd (api_createTenant \<lparr>cp_subdomain = ''acme'', cp_company_name = ''Acme'', cp_plan = ''business'',
      cp_chosen_app = Some ''hrms''\<rparr> freshBrowser)) = sent freshBrowser @ rs \<and>
    (\<forall>r\<in>set rs. fbody r \<noteq> None \<longrightarrow> headerGet ''X-Idempotency-Key'' (fheaders r) \<noteq> None) \<and>
    (\<forall>r\<in>set rs. \<forall>r'\<in>set rs. fbody r \<noteq> None \<longrightarrow> fbody r' \<noteq> None \<longrightarrow>
      headerGet ''X-Idempotency-Key'' (fheaders r) = headerGet ''X-Idempotency-Key'' (fheaders r') \<longrightarrow>
      fbody r = fbody r')"
  by (rule idempotency_key_one_body) (auto simp: freshBrowser_def inj_def)

subsection \<open>The address of the live log\<close>

lemma stripTrailing_fixed: "s = [] \<or> last s \<noteq> CHR ''/'' \<Longrightarrow> stripTrailingSlashes s = s"
  by (cases s rule: rev_cases) (auto simp: stripTrailingSlashes_def)

lemma stripTrailing_last: "stripTrailingSlashes s = [] \<or> last (stripTrailingSlashes s) \<noteq> CHR ''/''"
  unfolding stripTrailingSlashes_def
  using dropWhile_takeWhile_rev_hd [of "\<lambda>c. c = CHR ''/''" "rev s"] by (auto simp: last_rev)

lemma stripTrailing_append:
  "stripTrailingSlashes (a @ stripTrailingSlashes s) = (if stripTrailingSlashes s = [] then stripTrailingSlashes a
    else a @ stripTrailingSlashes s)"
  using stripTrailing_last [of s] by (auto intro: stripTrailing_fixed)

text \<open>
  With the client's default, a base on the page's own host, the live log of a job is asked
  from that host, encrypted exactly when the page is, and the identifier fills one path segment:
  it adds no slash, and different jobs have different addresses.
\<close>

theorem job_stream_address:
  assumes "hasWindow w" and "apiBase w = CHR ''/'' # p" and "stripTrailingSlashes (apiBase w) \<noteq> []"
  shows "jobStreamUrl j w = (if locProtocol w = ''https:'' then ''wss:'' else ''ws:'') @ ''//'' @ locHost w @
      stripTrailingSlashes (apiBase w) @ ''/ws/jobs/'' @ encodeURIComponent j \<and>
    CHR ''/'' \<notin> set (encodeURIComponent j) \<and>
    (jobStreamUrl j' w = jobStreamUrl j w \<longrightarrow> j' = j)"
proof -
  have "\<not> startsWith (apiBase w) ''http://''" "\<not> startsWith (apiBase w) ''https://''" "startsWith (apiBase w) ''/''"
    using assms(2) by (simp_all add: startsWith_def)
  then have b: "resolveWsBase w = (if locProtocol w = ''https:'' then ''wss:'' else ''ws:'') @ ''//'' @ locHost w @
      stripTrailingSlashes (apiBase w)"
    using assms by (auto simp: resolveWsBase_def Let_def)
  have "stripTrailingSlashes (resolveWsBase w) = resolveWsBase w"
    by (rule stripTrailing_fixed) (use b assms(3) stripTrailing_last [of "apiBase w"] in auto)
  then have u: "jobStreamUrl k w = resolveWsBase w @ ''/ws/jobs/'' @ encodeURIComponent k" for k
    by (simp add: jobStreamUrl_def Let_def)
  then show ?thesis using b encodeURIComponent_no_sep [of j] by auto
qed

theorem job_stream_address_witness:
  "jobStreamUrl ''a/b'' freshBrowser = ''wss://app.example.com/api/ws/jobs/a%2Fb''"
  using job_stream_address [of freshBrowser "''api''" "''a/b''"]
  by (simp add: freshBrowser_def stripTrailingSlashes_def encodeURIComponent_def percent_def uriUnreserved_def
      isAlnum_def hexUpper_def js_defs)

subsection \<open>Filter values\<close>

lemma foldl_queryAppend: "foldl (\<lambda>q item. queryAppend k item q) q0 xs = q0 @ map (Pair k) xs"
  by (induction xs arbitrary: q0) (simp_all add: queryAppend_def)

lemma appendQueryValues_pairs:
  "\<exists>xs. appendQueryValues k v q = q @ map (Pair k) xs \<and> [] \<notin> set xs \<and> (\<forall>x\<in>set xs. trim x = x)"
proof -
  have "\<exists>xs. foldl (\<lambda>q item. queryAppend k item q) q (filter (\<lambda>i. i \<noteq> []) (map trim zs)) = q @ map (Pair k) xs \<and>
      [] \<notin> set xs \<and> (\<forall>x\<in>set xs. trim x = x)" for zs
    by (intro exI [of _ "filter (\<lambda>i. i \<noteq> []) (map trim zs)"]) (auto simp: foldl_queryAppend)
  moreover have "\<exists>xs. q = q @ map (Pair k) xs \<and> [] \<notin> set xs \<and> (\<forall>x\<in>set xs. trim x = x)"
    by (rule exI [of _ "[]"]) simp
  ultimately show ?thesis
    by (auto simp: appendQueryValues_def split: option.split StrOrList.split)
qed

text \<open>The optional preferences endpoint has two addresses.\<close>

lemma preferences_supported:
  "requestNotificationPreferencesOptional init w = (Inr Unsupported, w') \<Longrightarrow>
   \<exists>w1. requestOptionalEndpoint as_NotificationPreferencesApiPayload ''/auth/me/notification-preferences'' init w =
     (Inr Unsupported, w1) \<and>
   requestOptionalEndpoint as_NotificationPreferencesApiPayload ''/auth/me/preferences/notifications'' init w1 =
     (Inr Unsupported, w')"
  by (auto simp: requestNotificationPreferencesOptional_def await_Inr_iff ret_def split: if_splits
      elim!: supported.elims)

end
