(* ===== verification/Tenant_Repository.thy ===== *)
theory Tenant_Repository
  imports Api_Endpoints
begin

section \<open>Tenants: repository and detail use cases\<close>

text \<open>
  \<^verbatim>\<open>saas-ui/domains/tenant-ops/infrastructure/tenantRepository.ts\<close> and
  \<^verbatim>\<open>saas-ui/domains/tenant-ops/application/tenantDetailUseCases.ts\<close>, function by function.
\<close>

subsection \<open>The repository\<close>

definition fetchTenants :: "Tenant list io" where
  "fetchTenants = api_listTenants"

definition createTenantWorkspace :: "TenantCreatePayload \<Rightarrow> json io" where
  "createTenantWorkspace payload = api_createTenant payload"

record TenantQueueQuery =
  tq_page :: int
  tq_limit :: int
  tq_status :: "StrOrList option"
  tq_search :: "string option"
  tq_plan :: "string option"
  tq_billingStatus :: "string list option"
  tq_paymentChannel :: "string list option"
  tq_filterMode :: "filter_mode option"

record TenantQueueData =
  td_tenants :: "Tenant list"
  td_total :: int
  td_page :: int
  td_usingServerPagination :: bool

text \<open>One page from the server, or every tenant from a server without the paged endpoint.\<close>

definition pageOrAll ::
  "Tenant PaginatedResult OptionalEndpointResult io \<Rightarrow> int \<Rightarrow> TenantQueueData io" where
  "pageOrAll request_page page =
     await request_page (\<lambda>paged.
       case paged of
         Supported d \<Rightarrow> ret \<lparr>td_tenants = pr_data d, td_total = pr_total d, td_page = pr_page d,
           td_usingServerPagination = True\<rparr>
       | Unsupported \<Rightarrow>
           await api_listTenants (\<lambda>tenants.
             ret \<lparr>td_tenants = tenants, td_total = int (length tenants), td_page = page,
               td_usingServerPagination = False\<rparr>))"

definition fetchTenantQueue :: "TenantQueueQuery \<Rightarrow> TenantQueueData io" where
  "fetchTenantQueue query =
     pageOrAll
       (api_listTenantsPaged (tq_page query) (tq_limit query) (tq_status query) (tq_search query) (tq_plan query)
          (map_option Many (tq_billingStatus query)) (map_option Many (tq_paymentChannel query))
          (nullish (tq_filterMode query) AndMode))
       (tq_page query)"

definition fetchCurrentUserProfile :: "UserProfile io" where
  "fetchCurrentUserProfile = api_getCurrentUser"

definition fetchTenantById :: "string \<Rightarrow> Tenant io" where
  "fetchTenantById tenantId = api_getTenant tenantId"

definition retryTenantById :: "string \<Rightarrow> Job OptionalEndpointResult io" where
  "retryTenantById tenantId = api_retryTenant tenantId"

definition resendTenantVerificationEmail :: "MessageResponse io" where
  "resendTenantVerificationEmail = api_resendVerification"

definition updateTenantWorkspace ::
  "string \<Rightarrow> TenantUpdatePayload \<Rightarrow> Tenant OptionalEndpointResult io" where
  "updateTenantWorkspace tenantId payload = api_updateTenant tenantId payload"

definition fetchWorkspaceBillingPortal ::
  "BillingPortalResponse OptionalEndpointResult io" where
  "fetchWorkspaceBillingPortal = api_getBillingPortal"

definition enqueueTenantBackup :: "string \<Rightarrow> Job io" where
  "enqueueTenantBackup tenantId = api_backupTenant tenantId"

definition resetTenantAdminPassword ::
  "string \<Rightarrow> string option \<Rightarrow> ResetAdminPasswordResult io" where
  "resetTenantAdminPassword tenantId newPassword = api_resetAdminPassword tenantId newPassword"

definition enqueueTenantDelete :: "string \<Rightarrow> Job io" where
  "enqueueTenantDelete tenantId = api_deleteTenant tenantId"

definition subscribeWorkspaceSessionExpired ::
  "'l \<Rightarrow> world \<Rightarrow> 'l list \<Rightarrow> 'l list" where
  "subscribeWorkspaceSessionExpired listener = onSessionExpired listener"

definition fetchTenantBackups ::
  "string \<Rightarrow> BackupManifestEntry list OptionalEndpointResult io" where
  "fetchTenantBackups tenantId = api_listTenantBackups tenantId"

definition fetchTenantAuditLog ::
  "string \<Rightarrow> int \<Rightarrow> int \<Rightarrow> AuditLogEntry PaginatedResult OptionalEndpointResult io" where
  "fetchTenantAuditLog tenantId page limit = api_listTenantAuditLog tenantId page limit"

definition fetchTenantMembers ::
  "string \<Rightarrow> TenantMember list OptionalEndpointResult io" where
  "fetchTenantMembers tenantId = api_listTenantMembers tenantId"

definition fetchTenantDomains ::
  "string \<Rightarrow> DomainMapping list OptionalEndpointResult io" where
  "fetchTenantDomains tenantId = api_listTenantDomains tenantId"

definition createTenantDomainMapping ::
  "string \<Rightarrow> string \<Rightarrow> DomainMapping OptionalEndpointResult io" where
  "createTenantDomainMapping tenantId domain = api_createTenantDomain tenantId domain"

definition verifyTenantDomainMapping ::
  "string \<Rightarrow> string \<Rightarrow> string option \<Rightarrow> DomainMapping OptionalEndpointResult io" where
  "verifyTenantDomainMapping tenantId mappingId token = api_verifyTenantDomain tenantId mappingId token"

definition deleteTenantDomainMapping ::
  "string \<Rightarrow> string \<Rightarrow> MessageResponse OptionalEndpointResult io" where
  "deleteTenantDomainMapping tenantId mappingId = api_deleteTenantDomain tenantId mappingId"

definition inviteTenantWorkspaceMember ::
  "string \<Rightarrow> string \<Rightarrow> string \<Rightarrow> TenantMember OptionalEndpointResult io" where
  "inviteTenantWorkspaceMember tenantId email role = api_inviteTenantMember tenantId email role"

definition updateTenantWorkspaceMemberRole ::
  "string \<Rightarrow> string \<Rightarrow> string \<Rightarrow> TenantMember OptionalEndpointResult io" where
  "updateTenantWorkspaceMemberRole tenantId memberId role =
     api_updateTenantMemberRole tenantId memberId role"

definition removeTenantWorkspaceMember ::
  "string \<Rightarrow> string \<Rightarrow> MessageResponse OptionalEndpointResult io" where
  "removeTenantWorkspaceMember tenantId memberId = api_removeTenantMember tenantId memberId"

definition fetchTenantSupportNotes ::
  "string \<Rightarrow> SupportNote list OptionalEndpointResult io" where
  "fetchTenantSupportNotes tenantId = api_listSupportNotes tenantId"

definition createTenantSupportNoteRecord ::
  "string \<Rightarrow> string \<Rightarrow> string \<Rightarrow> SupportNoteExtras option \<Rightarrow> SupportNote OptionalEndpointResult io" where
  "createTenantSupportNoteRecord tenantId category note extras =
     api_createSupportNote tenantId category note extras"

definition updateTenantSupportNoteRecord ::
  "string \<Rightarrow> json \<Rightarrow> SupportNote OptionalEndpointResult io" where
  "updateTenantSupportNoteRecord noteId payload = api_updateSupportNote noteId payload"

definition fetchTenantJobs :: "int \<Rightarrow> Job list OptionalEndpointResult io" where
  "fetchTenantJobs limit = api_listAdminJobs limit"

definition fetchTenantSummary ::
  "string \<Rightarrow> TenantSummary OptionalEndpointResult io" where
  "fetchTenantSummary tenantId = api_getTenantSummary tenantId"

definition fetchTenantSubscription ::
  "string \<Rightarrow> TenantSubscription OptionalEndpointResult io" where
  "fetchTenantSubscription tenantId = api_getTenantSubscription tenantId"

definition restoreTenantByBackup ::
  "string \<Rightarrow> string \<Rightarrow> Job OptionalEndpointResult io" where
  "restoreTenantByBackup tenantId backupId = api_restoreTenant tenantId backupId"

definition suspendTenantWorkspace ::
  "string \<Rightarrow> string option \<Rightarrow> MessageResponse OptionalEndpointResult io" where
  "suspendTenantWorkspace tenantId reason = api_suspendTenant tenantId reason"

definition unsuspendTenantWorkspace ::
  "string \<Rightarrow> string option \<Rightarrow> MessageResponse OptionalEndpointResult io" where
  "unsuspendTenantWorkspace tenantId reason = api_unsuspendTenant tenantId reason"

definition renewTenantCheckoutLink ::
  "string \<Rightarrow> TenantCreateResponse OptionalEndpointResult io" where
  "renewTenantCheckoutLink tenantId = api_renewCheckout tenantId"

subsection \<open>The use cases of the detail pages\<close>

definition loadTenantDetail :: "string \<Rightarrow> Tenant io" where
  "loadTenantDetail tenantId = fetchTenantById tenantId"

definition loadTenantCurrentUser :: "UserProfile io" where
  "loadTenantCurrentUser = fetchCurrentUserProfile"

definition retryTenantProvisioningAction ::
  "string \<Rightarrow> Job OptionalEndpointResult io" where
  "retryTenantProvisioningAction tenantId = retryTenantById tenantId"

definition loadTenantBackupManifest ::
  "string \<Rightarrow> BackupManifestEntry list OptionalEndpointResult io" where
  "loadTenantBackupManifest tenantId = fetchTenantBackups tenantId"

definition queueTenantBackupJob :: "string \<Rightarrow> Job io" where
  "queueTenantBackupJob tenantId = enqueueTenantBackup tenantId"

definition resetTenantAdministratorPassword ::
  "string \<Rightarrow> string option \<Rightarrow> ResetAdminPasswordResult io" where
  "resetTenantAdministratorPassword tenantId newPassword = resetTenantAdminPassword tenantId newPassword"

definition queueTenantDeleteJob :: "string \<Rightarrow> Job io" where
  "queueTenantDeleteJob tenantId = enqueueTenantDelete tenantId"

definition updateTenantPlanDetails ::
  "string \<Rightarrow> string \<Rightarrow> string option \<Rightarrow> Tenant OptionalEndpointResult io" where
  "updateTenantPlanDetails tenantId plan chosenApp =
     updateTenantWorkspace tenantId \<lparr>up_plan = Some plan, up_chosen_app = chosenApp\<rparr>"

definition loadTenantAuditEvents ::
  "string \<Rightarrow> int \<Rightarrow> int \<Rightarrow> AuditLogEntry PaginatedResult OptionalEndpointResult io" where
  "loadTenantAuditEvents tenantId page limit = fetchTenantAuditLog tenantId page limit"

definition loadTenantMembers ::
  "string \<Rightarrow> TenantMember list OptionalEndpointResult io" where
  "loadTenantMembers tenantId = fetchTenantMembers tenantId"

definition loadTenantDomains ::
  "string \<Rightarrow> DomainMapping list OptionalEndpointResult io" where
  "loadTenantDomains tenantId = fetchTenantDomains tenantId"

definition createTenantDomain ::
  "string \<Rightarrow> string \<Rightarrow> DomainMapping OptionalEndpointResult io" where
  "createTenantDomain tenantId domain = createTenantDomainMapping tenantId domain"

definition verifyTenantDomain ::
  "string \<Rightarrow> string \<Rightarrow> string option \<Rightarrow> DomainMapping OptionalEndpointResult io" where
  "verifyTenantDomain tenantId mappingId token = verifyTenantDomainMapping tenantId mappingId token"

definition deleteTenantDomain ::
  "string \<Rightarrow> string \<Rightarrow> MessageResponse OptionalEndpointResult io" where
  "deleteTenantDomain tenantId mappingId = deleteTenantDomainMapping tenantId mappingId"

definition inviteTenantMember ::
  "string \<Rightarrow> string \<Rightarrow> string \<Rightarrow> TenantMember OptionalEndpointResult io" where
  "inviteTenantMember tenantId email role = inviteTenantWorkspaceMember tenantId email role"

definition updateTenantMemberRole ::
  "string \<Rightarrow> string \<Rightarrow> string \<Rightarrow> TenantMember OptionalEndpointResult io" where
  "updateTenantMemberRole tenantId memberId role = updateTenantWorkspaceMemberRole tenantId memberId role"

definition removeTenantMember ::
  "string \<Rightarrow> string \<Rightarrow> MessageResponse OptionalEndpointResult io" where
  "removeTenantMember tenantId memberId = removeTenantWorkspaceMember tenantId memberId"

definition loadTenantSupportNotes ::
  "string \<Rightarrow> SupportNote list OptionalEndpointResult io" where
  "loadTenantSupportNotes tenantId = fetchTenantSupportNotes tenantId"

definition createTenantSupportNote ::
  "string \<Rightarrow> string \<Rightarrow> string \<Rightarrow> SupportNoteExtras option \<Rightarrow> SupportNote OptionalEndpointResult io" where
  "createTenantSupportNote tenantId category note extras =
     createTenantSupportNoteRecord tenantId category note extras"

definition updateTenantSupportNote ::
  "string \<Rightarrow> json \<Rightarrow> SupportNote OptionalEndpointResult io" where
  "updateTenantSupportNote noteId payload = updateTenantSupportNoteRecord noteId payload"

definition loadTenantRecentJobs ::
  "string \<Rightarrow> int \<Rightarrow> nat \<Rightarrow> (bool \<times> Job list) io" where
  "loadTenantRecentJobs tenantId limit maxItems = await (fetchTenantJobs limit) (\<lambda>result.
     case result of
       Unsupported \<Rightarrow> ret (False, [])
     | Supported d \<Rightarrow> ret (True, take maxItems (filter (\<lambda>job. jb_tenant_id job = tenantId) d)))"

definition loadTenantSummary ::
  "string \<Rightarrow> TenantSummary OptionalEndpointResult io" where
  "loadTenantSummary tenantId = fetchTenantSummary tenantId"

definition loadTenantSubscription ::
  "string \<Rightarrow> TenantSubscription OptionalEndpointResult io" where
  "loadTenantSubscription tenantId = fetchTenantSubscription tenantId"

definition restoreTenantFromBackup ::
  "string \<Rightarrow> string \<Rightarrow> Job OptionalEndpointResult io" where
  "restoreTenantFromBackup tenantId backupId = restoreTenantByBackup tenantId backupId"

definition suspendTenantAccess ::
  "string \<Rightarrow> string option \<Rightarrow> MessageResponse OptionalEndpointResult io" where
  "suspendTenantAccess tenantId reason = suspendTenantWorkspace tenantId reason"

definition unsuspendTenantAccess ::
  "string \<Rightarrow> string option \<Rightarrow> MessageResponse OptionalEndpointResult io" where
  "unsuspendTenantAccess tenantId reason = unsuspendTenantWorkspace tenantId reason"

definition renewTenantCheckoutDetail ::
  "string \<Rightarrow> TenantCreateResponse OptionalEndpointResult io" where
  "renewTenantCheckoutDetail tenantId = renewTenantCheckoutLink tenantId"

definition isTenantDetailSessionExpired :: "exn \<Rightarrow> bool" where
  "isTenantDetailSessionExpired error = isSessionExpiredError error"

definition toTenantDetailErrorMessage ::
  "exn \<Rightarrow> string \<Rightarrow> string" where
  "toTenantDetailErrorMessage error fallback = getApiErrorMessage error fallback"

end
