(* ===== verification/Admin_Repository.thy ===== *)
theory Admin_Repository
  imports Tenant_Repository
begin

section \<open>The admin console: counts, repository and use cases\<close>

text \<open>
  \<^verbatim>\<open>saas-ui/domains/admin-ops\<close> below the user interface: \<^verbatim>\<open>domain/adminDashboard.ts\<close>,
  \<^verbatim>\<open>infrastructure/adminRepository.ts\<close> and \<^verbatim>\<open>application/adminUseCases.ts\<close>, function by function.
\<close>

subsection \<open>Counts and alerts\<close>

definition SUSPENDED_STATUSES_admin :: "string list" where
  "SUSPENDED_STATUSES_admin = [''suspended'', ''suspended_admin'', ''suspended_billing'']"

definition PROVISIONING_STATUSES_admin :: "string list" where
  "PROVISIONING_STATUSES_admin =
     [''pending'', ''pending_payment'', ''provisioning'', ''upgrading'', ''restoring'', ''pending_deletion'']"

record AdminTenantCounts =
  tc_suspendedCount :: nat
  tc_provisioningCount :: nat
  tc_failedCount :: nat
  tc_activeCount :: nat

definition countTenant :: "Tenant \<Rightarrow> AdminTenantCounts \<Rightarrow> AdminTenantCounts" where
  "countTenant tenant c =
     (let status = toLowerCase (tn_status tenant);
          c1 = (if status = ''active'' then c\<lparr>tc_activeCount := tc_activeCount c + 1\<rparr> else c);
          c2 = (if status = ''failed'' then c1\<lparr>tc_failedCount := tc_failedCount c1 + 1\<rparr> else c1);
          c3 = (if status \<in> set SUSPENDED_STATUSES_admin then c2\<lparr>tc_suspendedCount := tc_suspendedCount c2 + 1\<rparr> else c2) in
      if status \<in> set PROVISIONING_STATUSES_admin then c3\<lparr>tc_provisioningCount := tc_provisioningCount c3 + 1\<rparr> else c3)"

definition deriveAdminTenantCounts :: "Tenant list \<Rightarrow> AdminTenantCounts" where
  "deriveAdminTenantCounts tenants =
     fold countTenant tenants
       \<lparr>tc_suspendedCount = 0, tc_provisioningCount = 0, tc_failedCount = 0, tc_activeCount = 0\<rparr>"

record AdminMetricAlert =
  ma_type :: NotificationType
  ma_title :: string
  ma_body :: string

definition deriveAdminMetricAlertKey :: "MetricsSummary \<Rightarrow> string" where
  "deriveAdminMetricAlertKey metrics =
     intStr (ms_failed_tenants metrics) @ ''-'' @ intStr (ms_dead_letter_count metrics) @ ''-'' @
     intStr (ms_provisioning_tenants metrics)"

definition deriveAdminMetricAlerts :: "MetricsSummary \<Rightarrow> AdminMetricAlert list" where
  "deriveAdminMetricAlerts metrics =
     (if ms_failed_tenants metrics > 0
      then [\<lparr>ma_type = NWarning, ma_title = ''Provisioning failures detected'',
              ma_body = intStr (ms_failed_tenants metrics) @ '' tenant(s) are in failed state.''\<rparr>] else []) @
     (if ms_dead_letter_count metrics > 0
      then [\<lparr>ma_type = NWarning, ma_title = ''Dead-letter queue backlog'',
              ma_body = intStr (ms_dead_letter_count metrics) @ '' job(s) waiting for requeue.''\<rparr>] else [])"

definition buildTenantActionPhrase :: "string \<Rightarrow> string" where
  "buildTenantActionPhrase subdomain = toUpperCase subdomain"

subsection \<open>The repository\<close>

record AdminTenantQuery =
  aq_page :: int
  aq_limit :: int
  aq_status :: "StrOrList option"
  aq_search :: "string option"
  aq_plan :: "string option"
  aq_billingStatus :: "StrOrList option"
  aq_paymentChannel :: "StrOrList option"
  aq_filterMode :: "filter_mode option"

record AdminTenantPage =
  at_tenants :: "Tenant list"
  at_total :: int
  at_page :: int
  at_usingServerPagination :: bool

definition fetchAdminTenants :: "AdminTenantQuery \<Rightarrow> AdminTenantPage io" where
  "fetchAdminTenants query =
     await (api_listAllTenantsPaged (aq_page query) (aq_limit query) (aq_status query) (aq_search query) (aq_plan query)
              (aq_billingStatus query) (aq_paymentChannel query) (nullish (aq_filterMode query) AndMode))
       (\<lambda>paged. case paged of
         Supported d \<Rightarrow> ret \<lparr>at_tenants = pr_data d, at_total = pr_total d, at_page = pr_page d,
           at_usingServerPagination = True\<rparr>
       | Unsupported \<Rightarrow>
           await api_listAllTenants (\<lambda>tenants.
             ret \<lparr>at_tenants = tenants, at_total = int (length tenants), at_page = aq_page query,
               at_usingServerPagination = False\<rparr>))"

record 'a OptionalListResult =
  ol_supported :: bool
  ol_data :: "'a list"

text \<open>The shape every optional list of the repository gives its answer.\<close>

definition toListResult :: "'a list OptionalEndpointResult \<Rightarrow> 'a OptionalListResult" where
  "toListResult result =
     (case result of Unsupported \<Rightarrow> \<lparr>ol_supported = False, ol_data = []\<rparr>
      | Supported d \<Rightarrow> \<lparr>ol_supported = True, ol_data = d\<rparr>)"

definition fetchDeadLetterJobs :: "DeadLetterJob OptionalListResult io" where
  "fetchDeadLetterJobs = await api_listDeadLetterJobs (\<lambda>result. ret (toListResult result))"

definition fetchAdminJobs :: "int \<Rightarrow> Job OptionalListResult io" where
  "fetchAdminJobs limit = await (api_listAdminJobs limit) (\<lambda>result. ret (toListResult result))"

definition fetchAdminJobLogs :: "string \<Rightarrow> (bool \<times> Job option) io" where
  "fetchAdminJobLogs jobId =
     await (api_getAdminJobLogs jobId) (\<lambda>result.
       ret (case result of Unsupported \<Rightarrow> (False, None) | Supported j \<Rightarrow> (True, Some j)))"

definition listAnswer :: "'a OptionalListResult \<Rightarrow> 'a list option" where
  "listAnswer r = (if ol_supported r then Some (ol_data r) else None)"

record AuditLogResult =
  ar_supported :: bool
  ar_entries :: "AuditLogEntry list"
  ar_total :: int

definition fetchAuditLog :: "int \<Rightarrow> int \<Rightarrow> AuditLogResult io" where
  "fetchAuditLog page limit =
     await (api_listAuditLog page limit) (\<lambda>result.
       ret (case result of
         Unsupported \<Rightarrow> \<lparr>ar_supported = False, ar_entries = [], ar_total = 0\<rparr>
       | Supported d \<Rightarrow> \<lparr>ar_supported = True, ar_entries = pr_data d, ar_total = pr_total d\<rparr>))"

definition fetchAdminMetrics :: "(bool \<times> MetricsSummary option) io" where
  "fetchAdminMetrics =
     await api_getAdminMetrics (\<lambda>result.
       ret (case result of Unsupported \<Rightarrow> (False, None) | Supported m \<Rightarrow> (True, Some m)))"

definition fetchTenantCatalog :: "Tenant list io" where
  "fetchTenantCatalog = api_listTenants"

definition fetchSupportNotesCatalog :: "SupportNote OptionalListResult io" where
  "fetchSupportNotesCatalog = await api_listSupportNotesAll (\<lambda>result. ret (toListResult result))"

definition fetchBillingDunningQueue :: "DunningItem OptionalListResult io" where
  "fetchBillingDunningQueue = await api_listBillingDunning (\<lambda>result. ret (toListResult result))"

definition triggerBillingDunningCycle :: "bool \<Rightarrow> (bool \<times> string) io" where
  "triggerBillingDunningCycle dryRun =
     await (api_runBillingDunningCycle dryRun) (\<lambda>result.
       ret (case result of Unsupported \<Rightarrow> (False, [])
            | Supported m \<Rightarrow> (True, orElse (Some (mr_message m)) ''Dunning cycle queued.'')))"

definition requeueDeadLetterJob :: "string \<Rightarrow> bool io" where
  "requeueDeadLetterJob jobId = await (api_requeueDeadLetterJob jobId) (\<lambda>result. ret (supported result))"

definition suspendTenant :: "string \<Rightarrow> string option \<Rightarrow> bool io" where
  "suspendTenant tenantId reason = await (api_suspendTenant tenantId reason) (\<lambda>result. ret (supported result))"

definition unsuspendTenant :: "string \<Rightarrow> string option \<Rightarrow> bool io" where
  "unsuspendTenant tenantId reason = await (api_unsuspendTenant tenantId reason) (\<lambda>result. ret (supported result))"

definition renewTenantCheckoutLink_admin :: "string \<Rightarrow> TenantCreateResponse OptionalEndpointResult io" where
  "renewTenantCheckoutLink_admin tenantId = api_renewCheckout tenantId"

definition downloadAuditCsv :: "int \<Rightarrow> unit io" where
  "downloadAuditCsv limit = downloadAuditLogCsv limit"

definition requestImpersonationLink :: "string \<Rightarrow> string \<Rightarrow> (bool \<times> ImpersonationLink option) io" where
  "requestImpersonationLink targetEmail reason =
     await (api_requestImpersonationLink targetEmail reason) (\<lambda>result.
       ret (case result of Unsupported \<Rightarrow> (False, None) | Supported l \<Rightarrow> (True, Some l)))"

subsection \<open>The use cases\<close>

datatype TenantActionType = Suspend | Unsuspend

definition loadAdminTenantPage :: "AdminTenantQuery \<Rightarrow> AdminTenantPage io" where
  "loadAdminTenantPage query = fetchAdminTenants query"

definition loadAdminDeadLetterQueue :: "DeadLetterJob OptionalListResult io" where
  "loadAdminDeadLetterQueue = fetchDeadLetterJobs"

definition loadAdminJobs :: "int \<Rightarrow> Job OptionalListResult io" where
  "loadAdminJobs limit = fetchAdminJobs limit"

definition loadAdminJobLogs :: "string \<Rightarrow> (bool \<times> Job option) io" where
  "loadAdminJobLogs jobId = fetchAdminJobLogs jobId"

definition loadAdminAuditLog :: "int \<Rightarrow> int \<Rightarrow> AuditLogResult io" where
  "loadAdminAuditLog page limit = fetchAuditLog page limit"

definition loadAdminMetrics :: "(bool \<times> MetricsSummary option) io" where
  "loadAdminMetrics = fetchAdminMetrics"

definition loadTenantCatalog :: "Tenant list io" where
  "loadTenantCatalog = fetchTenantCatalog"

definition loadSupportNotesCatalog :: "SupportNote OptionalListResult io" where
  "loadSupportNotesCatalog = fetchSupportNotesCatalog"

definition loadBillingDunningQueue :: "DunningItem OptionalListResult io" where
  "loadBillingDunningQueue = fetchBillingDunningQueue"

definition queueBillingDunningCycle :: "bool \<Rightarrow> (bool \<times> string) io" where
  "queueBillingDunningCycle dryRun = triggerBillingDunningCycle dryRun"

definition requeueDeadLetterById :: "string \<Rightarrow> bool io" where
  "requeueDeadLetterById jobId = requeueDeadLetterJob jobId"

definition executeTenantLifecycleAction :: "TenantActionType \<Rightarrow> string \<Rightarrow> string option \<Rightarrow> bool io" where
  "executeTenantLifecycleAction action tenantId reason =
     (if action = Suspend then suspendTenant tenantId reason else unsuspendTenant tenantId reason)"

definition exportAdminAuditCsv :: "int \<Rightarrow> unit io" where
  "exportAdminAuditCsv limit = downloadAuditCsv limit"

definition issueSupportImpersonationLink :: "string \<Rightarrow> string \<Rightarrow> (bool \<times> ImpersonationLink option) io" where
  "issueSupportImpersonationLink targetEmail reason = requestImpersonationLink targetEmail reason"

definition renewTenantCheckout_admin :: "string \<Rightarrow> TenantCreateResponse OptionalEndpointResult io" where
  "renewTenantCheckout_admin tenantId = renewTenantCheckoutLink_admin tenantId"

definition toAdminErrorMessage :: "exn \<Rightarrow> string \<Rightarrow> string" where
  "toAdminErrorMessage error fallback = getApiErrorMessage error fallback"

subsection \<open>Facts\<close>

lemma getApiErrorMessage_nonempty [simp]: "fallback \<noteq> [] \<Longrightarrow> getApiErrorMessage e fallback \<noteq> []"
  by (cases e) auto

lemma toAdminErrorMessage_nonempty [simp]: "fallback \<noteq> [] \<Longrightarrow> toAdminErrorMessage e fallback \<noteq> []"
  by (simp add: toAdminErrorMessage_def)

lemmas admin_usecases = loadAdminTenantPage_def loadAdminDeadLetterQueue_def loadAdminJobs_def loadAdminJobLogs_def
  loadAdminAuditLog_def loadAdminMetrics_def requeueDeadLetterById_def executeTenantLifecycleAction_def
  exportAdminAuditCsv_def issueSupportImpersonationLink_def

lemma ol_data_unsupported [simp]: "\<not> ol_supported (toListResult r) \<Longrightarrow> ol_data (toListResult r) = []"
  by (cases r) (simp_all add: toListResult_def)

text \<open>The four groups of the counts are disjoint.\<close>

definition adminGroups :: "string \<Rightarrow> bool list" where
  "adminGroups s = [s = ''active'', s = ''failed'', s \<in> set SUSPENDED_STATUSES_admin, s \<in> set PROVISIONING_STATUSES_admin]"

lemma adminGroups_disjoint: "length (filter id (adminGroups s)) \<le> 1"
  by (auto simp: adminGroups_def SUSPENDED_STATUSES_admin_def PROVISIONING_STATUSES_admin_def)

lemma fold_countTenant:
  "fold countTenant ts c =
     \<lparr>tc_suspendedCount = tc_suspendedCount c + length (filter (\<lambda>t. toLowerCase (tn_status t) \<in> set SUSPENDED_STATUSES_admin) ts),
      tc_provisioningCount = tc_provisioningCount c + length (filter (\<lambda>t. toLowerCase (tn_status t) \<in> set PROVISIONING_STATUSES_admin) ts),
      tc_failedCount = tc_failedCount c + length (filter (\<lambda>t. toLowerCase (tn_status t) = ''failed'') ts),
      tc_activeCount = tc_activeCount c + length (filter (\<lambda>t. toLowerCase (tn_status t) = ''active'') ts)\<rparr>"
  by (induction ts arbitrary: c) (simp_all add: countTenant_def Let_def)

text \<open>
  The console's four counts are the numbers of active, failed, suspended and provisioning
  tenants, whatever the letter case of the status; no tenant is counted twice, so that the
  counts never exceed the number of tenants.
\<close>

theorem admin_counts_correct:
  "let c = deriveAdminTenantCounts ts; n = (\<lambda>P. length (filter (\<lambda>t. P (toLowerCase (tn_status t))) ts)) in
   tc_activeCount c = n (\<lambda>s. s = ''active'') \<and> tc_failedCount c = n (\<lambda>s. s = ''failed'') \<and>
   tc_suspendedCount c = n (\<lambda>s. s \<in> set SUSPENDED_STATUSES_admin) \<and>
   tc_provisioningCount c = n (\<lambda>s. s \<in> set PROVISIONING_STATUSES_admin) \<and>
   tc_activeCount c + tc_failedCount c + tc_suspendedCount c + tc_provisioningCount c \<le> length ts"
proof -
  have "length (filter (\<lambda>t. toLowerCase (tn_status t) = ''active'') ts) +
    length (filter (\<lambda>t. toLowerCase (tn_status t) = ''failed'') ts) +
    length (filter (\<lambda>t. toLowerCase (tn_status t) \<in> set SUSPENDED_STATUSES_admin) ts) +
    length (filter (\<lambda>t. toLowerCase (tn_status t) \<in> set PROVISIONING_STATUSES_admin) ts) \<le> length ts"
  proof (induction ts)
    case (Cons t ts)
    then show ?case
      using adminGroups_disjoint [of "toLowerCase (tn_status t)"] by (simp add: adminGroups_def split: if_splits)
  qed simp
  then show ?thesis by (simp add: deriveAdminTenantCounts_def fold_countTenant Let_def)
qed

end
