(* ===== verification/Optional_Section.thy ===== *)
theory Optional_Section
  imports Types Browser
begin

section \<open>Sections of a page with an optional endpoint\<close>

text \<open>
  Many pages have sections of the same make: a flag that the endpoint exists, the rows, and the
  error of the last load. A load asks the server and takes over the answer: rows, a missing
  endpoint, or an error beside the rows that are already there. The locale states what a page
  promises of such a section; its lemmas hold for any order and number of answers, also for
  those that overtake each other.
\<close>

type_synonym 's handler = "'s \<Rightarrow> world \<Rightarrow> 's \<times> world"

text \<open>A handler that awaits one call and updates the page with its outcome.\<close>

definition answered :: "'a io \<Rightarrow> (exn + 'a \<Rightarrow> 's \<Rightarrow> 's) \<Rightarrow> 's handler" where
  "answered call absorb s w = (case call w of (r, w1) \<Rightarrow> (absorb r s, w1))"

definition afterwards :: "'s handler \<Rightarrow> 's handler \<Rightarrow> 's handler" where
  "afterwards f g s w = (case f s w of (s1, w1) \<Rightarrow> g s1 w1)"

definition onlyWhen :: "bool \<Rightarrow> 's handler \<Rightarrow> 's handler" where
  "onlyWhen b f s w = (if b then f s w else (s, w))"

lemma answered_apply: "call w = (r, w1) \<Longrightarrow> answered call absorb s w = (absorb r s, w1)"
  by (simp add: answered_def)

lemma fst_answered: "fst (answered call absorb s w) = absorb (fst (call w)) s"
  and snd_answered: "snd (answered call absorb s w) = snd (call w)"
  by (simp_all add: answered_def split: prod.splits)

lemma fst_afterwards: "fst (afterwards f g s w) = fst (g (fst (f s w)) (snd (f s w)))"
  and snd_afterwards: "snd (afterwards f g s w) = snd (g (fst (f s w)) (snd (f s w)))"
  by (simp_all add: afterwards_def split: prod.splits)

lemma onlyWhen_simps [simp]: "onlyWhen True f = f" "onlyWhen False f s w = (s, w)"
  by (auto simp: onlyWhen_def fun_eq_iff)

text \<open>A handler of a part of the page's state.\<close>

definition within :: "('s \<Rightarrow> 'q) \<Rightarrow> ('q \<Rightarrow> 's \<Rightarrow> 's) \<Rightarrow> 'q handler \<Rightarrow> 's handler" where
  "within part update h s w = (case h (part s) w of (q, w1) \<Rightarrow> (update q s, w1))"

lemma fst_within: "fst (within part update h s w) = update (fst (h (part s) w)) s"
  and snd_within: "snd (within part update h s w) = snd (h (part s) w)"
  by (simp_all add: within_def split: prod.splits)

lemmas handler_defs = answered_def afterwards_def onlyWhen_def

text \<open>
  The idiom of the pages' actions: await the call of an optional endpoint in a \<^verbatim>\<open>try\<close>; a missing
  endpoint and a failure each update the page, an answer goes on with what follows it, and
  \<^verbatim>\<open>finally\<close> updates the page in every case. What follows an answer are loads, which catch
  their own errors.
\<close>

definition attempt ::
  "'a OptionalEndpointResult io \<Rightarrow> ('s \<Rightarrow> 's) \<Rightarrow> ('a \<Rightarrow> 's handler) \<Rightarrow> (exn \<Rightarrow> 's \<Rightarrow> 's) \<Rightarrow> ('s \<Rightarrow> 's) \<Rightarrow> 's handler" where
  "attempt call missing ok failed lastly s w =
     (case call w of
        (Inr Unsupported, w1) \<Rightarrow> (lastly (missing s), w1)
      | (Inr (Supported x), w1) \<Rightarrow> (case ok x s w1 of (s1, w2) \<Rightarrow> (lastly s1, w2))
      | (Inl err, w1) \<Rightarrow> (lastly (failed err s), w1))"

text \<open>The same with an endpoint that always exists.\<close>

definition attemptCall :: "'a io \<Rightarrow> ('a \<Rightarrow> 's handler) \<Rightarrow> (exn \<Rightarrow> 's \<Rightarrow> 's) \<Rightarrow> ('s \<Rightarrow> 's) \<Rightarrow> 's handler" where
  "attemptCall call ok failed lastly s w =
     (case call w of
        (Inr x, w1) \<Rightarrow> (case ok x s w1 of (s1, w2) \<Rightarrow> (lastly s1, w2))
      | (Inl err, w1) \<Rightarrow> (lastly (failed err s), w1))"

definition staying :: "('s \<Rightarrow> 's) \<Rightarrow> 's handler" where
  "staying f s w = (f s, w)"

lemma attempt_cases:
  assumes "attempt call missing ok failed lastly s w = (s', w')"
  obtains (missing) "call w = (Inr Unsupported, w')" "s' = lastly (missing s)"
  | (ok) x w1 s1 where "call w = (Inr (Supported x), w1)" "ok x s w1 = (s1, w')" "s' = lastly s1"
  | (failed) err where "call w = (Inl err, w')" "s' = lastly (failed err s)"
  using assms by (auto simp: attempt_def split: prod.splits sum.splits OptionalEndpointResult.splits)

lemma attemptCall_cases:
  assumes "attemptCall call ok failed lastly s w = (s', w')"
  obtains (ok) x w1 s1 where "call w = (Inr x, w1)" "ok x s w1 = (s1, w')" "s' = lastly s1"
  | (failed) err where "call w = (Inl err, w')" "s' = lastly (failed err s)"
  using assms by (auto simp: attemptCall_def split: prod.splits sum.splits)

text \<open>The parts of a section that its page shows.\<close>

record 'd section_view =
  sv_supported :: bool
  sv_data :: 'd
  sv_error :: "string option"

definition coherent :: "'d list section_view \<Rightarrow> bool" where
  "coherent v \<longleftrightarrow> (sv_supported v \<or> sv_data v = [])"

text \<open>What the page shows in the section's place.\<close>

datatype 'row section_content = MissingFeature string | ErrorText string | RowsShown "'row list" | EmptyText string

definition sectionContent :: "string \<Rightarrow> string \<Rightarrow> ('d \<Rightarrow> 'row) \<Rightarrow> 'd list section_view \<Rightarrow> 'row section_content" where
  "sectionContent feature nothing row v =
     (if \<not> sv_supported v then MissingFeature feature
      else if truthyStr (sv_error v) then ErrorText (the (sv_error v))
      else if sv_data v \<noteq> [] then RowsShown (map row (sv_data v))
      else EmptyText nothing)"

lemma sectionContent_rows:
  "sectionContent feature nothing row v = RowsShown rs \<longleftrightarrow>
     sv_supported v \<and> \<not> truthyStr (sv_error v) \<and> sv_data v \<noteq> [] \<and> rs = map row (sv_data v)"
  by (auto simp: sectionContent_def)

locale optional_section =
  fixes answer :: "'r \<Rightarrow> 'd list option"
    and absorb :: "exn + 'r \<Rightarrow> 's \<Rightarrow> 's"
    and look :: "'s \<Rightarrow> 'd list section_view"
    and message :: "exn \<Rightarrow> string"
  assumes rows: "answer r = Some d \<Longrightarrow> look (absorb (Inr r) s) = \<lparr>sv_supported = True, sv_data = d, sv_error = None\<rparr>"
    and missing: "answer r = None \<Longrightarrow> look (absorb (Inr r) s) = \<lparr>sv_supported = False, sv_data = [], sv_error = None\<rparr>"
    and failed: "look (absorb (Inl e) s) = (look s)\<lparr>sv_error := Some (message e)\<rparr>"
begin

lemma absorb_cases:
  obtains (shown) x d where "r = Inr x" "answer x = Some d"
      "look (absorb r s) = \<lparr>sv_supported = True, sv_data = d, sv_error = None\<rparr>"
  | (gone) x where "r = Inr x" "answer x = None"
      "look (absorb r s) = \<lparr>sv_supported = False, sv_data = [], sv_error = None\<rparr>"
  | (kept) e where "r = Inl e" "look (absorb r s) = (look s)\<lparr>sv_error := Some (message e)\<rparr>"
proof (cases r)
  case (Inl e)
  then show ?thesis using kept failed by blast
next
  case (Inr x)
  then show ?thesis using shown gone rows missing by (cases "answer x") blast+
qed

lemma error_iff: "(\<exists>m. sv_error (look (absorb r s)) = Some m) \<longleftrightarrow> (\<exists>e. r = Inl e)"
  by (cases rule: absorb_cases [of r s]) auto

lemma coherent_absorb: "coherent (look s) \<Longrightarrow> coherent (look (absorb r s))"
  by (cases rule: absorb_cases [of r s]) (auto simp: coherent_def)

lemma coherent_answers: "coherent (look s) \<Longrightarrow> coherent (look (fold absorb rs s))"
  by (induction rs arbitrary: s) (auto intro: coherent_absorb)

lemma data_absorb:
  assumes "sv_data (look s) \<in> D" and "[] \<in> D" and "\<And>x d. r = Inr x \<Longrightarrow> answer x = Some d \<Longrightarrow> d \<in> D"
  shows "sv_data (look (absorb r s)) \<in> D"
  using assms by (cases rule: absorb_cases [of r s]) auto

text \<open>Rows come from an answer: a property of every answered row holds of every row shown.\<close>

lemma data_answers:
  assumes "sv_data (look s) \<in> D" and "[] \<in> D"
    and "\<And>x d. Inr x \<in> set rs \<Longrightarrow> answer x = Some d \<Longrightarrow> d \<in> D"
  shows "sv_data (look (fold absorb rs s)) \<in> D"
  using assms(1,3)
proof (induction rs arbitrary: s)
  case (Cons r rs)
  have "sv_data (look (absorb r s)) \<in> D" by (rule data_absorb) (use Cons.prems assms(2) in auto)
  moreover have "d \<in> D" if "Inr x \<in> set rs" "answer x = Some d" for x d
    using Cons.prems(2) that by auto
  ultimately show ?case using Cons.IH by simp
qed simp

lemma last_answer_wins: "look (absorb (Inr x) s) = look (absorb (Inr x) s')"
  using rows [of x] missing [of x] by (cases "answer x") simp_all

lemma error_after_answers:
  "rs \<noteq> [] \<Longrightarrow> (\<exists>m. sv_error (look (fold absorb rs s)) = Some m) \<longleftrightarrow> (\<exists>e. last rs = Inl e)"
  by (induction rs rule: rev_induct) (simp_all add: error_iff)

text \<open>A table shows the rows of the last answer, never those of an earlier one.\<close>

lemma rows_are_last:
  assumes "rs \<noteq> []" and "\<And>e. last rs = Inl e \<Longrightarrow> message e \<noteq> []"
    and "sectionContent feature nothing row (look (fold absorb rs s)) = RowsShown out"
  shows "\<exists>x d. last rs = Inr x \<and> answer x = Some d \<and> out = map row d"
proof -
  let ?s = "fold absorb (butlast rs) s"
  have "fold absorb (butlast rs @ [last rs]) s = absorb (last rs) ?s" by simp
  then have l: "look (fold absorb rs s) = look (absorb (last rs) ?s)" using assms(1) by simp
  show ?thesis
  proof (cases rule: absorb_cases [of "last rs" ?s])
    case (kept e)
    then have "truthyStr (sv_error (look (absorb (last rs) ?s)))" using assms(2) by simp
    then show ?thesis using assms(3) by (simp add: sectionContent_rows l)
  qed (use assms(3) in \<open>auto simp: sectionContent_rows l\<close>)
qed

end

end
