(* ===== verification/Request_Traffic.thy ===== *)
theory Request_Traffic
  imports Api_Endpoints Optional_Section
begin

section \<open>Where a handler's messages go\<close>

text \<open>
  A call of the client sends messages to its own path and, when the token has to be renewed, to
  the refresh endpoint. \<open>addressed P w w'\<close> says that between two worlds only messages went out
  whose method and path satisfy \<open>P\<close>; the lemmas carry this from one request to the handlers of
  the pages.
\<close>

definition isRefresh :: "string \<Rightarrow> string \<Rightarrow> bool" where
  "isRefresh m p \<longleftrightarrow> m = ''POST'' \<and> p = ''/auth/refresh''"

definition addressed :: "(string \<Rightarrow> string \<Rightarrow> bool) \<Rightarrow> world \<Rightarrow> world \<Rightarrow> bool" where
  "addressed P w w' \<longleftrightarrow> apiBase w' = apiBase w \<and>
     sends (\<lambda>r. \<exists>p. reqUrl r = apiBase w @ p \<and> (isRefresh (fmethod r) p \<or> P (fmethod r) p)) w w'"

lemma addressed_refl: "addressed P w w"
  using reflp_sends by (simp add: addressed_def reflpD)

lemma reflp_addressed: "reflp (addressed P)"
  by (simp add: reflp_def addressed_refl)

lemma addressed_trans: "addressed P w w1 \<Longrightarrow> addressed P w1 w2 \<Longrightarrow> addressed P w w2"
  unfolding addressed_def using sends_trans by fastforce

lemma transp_addressed: "transp (addressed P)"
  by (rule transpI) (rule addressed_trans)

lemma addressed_mono: "addressed P w w' \<Longrightarrow> (\<And>m p. P m p \<Longrightarrow> Q m p) \<Longrightarrow> addressed Q w w'"
  unfolding addressed_def by (blast intro: sends_mono)

lemma addressed_same: "sent w' = sent w \<Longrightarrow> apiBase w' = apiBase w \<Longrightarrow> addressed P w w'"
  by (simp add: addressed_def sends_same)

lemmas addressed_intros =
  keeps_ret [OF reflp_addressed] keeps_throw [OF reflp_addressed] keeps_asks [OF reflp_addressed]
  keeps_liftResult [OF reflp_addressed] keeps_await [OF transp_addressed] keeps_catching [OF transp_addressed]
  keeps_if keeps_option keeps_modify

lemma apiBase_fetch: "apiBase (snd (fetch rq w)) = apiBase w"
  by (auto simp: fetch_def Let_def split: list.splits fetch_outcome.splits prod.splits)

lemma addressed_fetch:
  assumes "\<And>w. \<exists>p. reqUrl (mk w) = apiBase w @ p \<and> (isRefresh (fmethod (mk w)) p \<or> P (fmethod (mk w)) p)"
  shows "keeps (addressed P) (await (asks mk) fetch)"
  unfolding keeps_def
proof
  fix w
  have "addressed P w (snd (fetch (mk w) w))"
    using sends_fetch [of "\<lambda>r. \<exists>p. reqUrl r = apiBase w @ p \<and> (isRefresh (fmethod r) p \<or> P (fmethod r) p)" "mk w"]
      assms [of w]
    by (simp add: addressed_def apiBase_fetch keeps_def)
  then show "addressed P w (snd (await (asks mk) fetch w))" by (simp add: await_def asks_def)
qed

lemma addressed_performFetch:
  assumes "P (nullish (riMethod init) ''GET'') path"
  shows "keeps (addressed P) (performFetch path init headers)"
proof -
  have "performFetch path init headers = await (asks (\<lambda>w. \<lparr>reqUrl = apiBase w @ path,
      fmethod = nullish (riMethod init) ''GET'', fheaders = headers, fbody = riBody init\<rparr>)) fetch"
    by (rule ext) (simp add: performFetch_def await_def asks_def)
  then show ?thesis using addressed_fetch assms by simp
qed

lemma addressed_refresh: "keeps (addressed P) refreshAccessToken"
proof -
  have rq: "keeps (addressed P) (await (asks refreshRequest) fetch)"
    by (rule addressed_fetch) (simp add: refreshRequest_def isRefresh_def)
  have "keeps (addressed P) (await (await (asks refreshRequest) fetch) (\<lambda>response.
      if \<not> rok response then ret None
      else if \<not> truthyStr (asStr (getProp (parseResponseBody response) ''access_token'')) then ret None
      else await (modify (saveToken (the (asStr (getProp (parseResponseBody response) ''access_token'')))))
             (\<lambda>_. ret (asStr (getProp (parseResponseBody response) ''access_token'')))))"
    by (intro addressed_intros rq addressed_same) simp_all
  then show ?thesis
    unfolding refreshAccessToken_def Let_def await_assoc
    by (rule keeps_catching [OF transp_addressed]) (rule keeps_ret [OF reflp_addressed])
qed

lemma addressed_request:
  assumes "P (nullish (riMethod init) ''GET'') path"
  shows "keeps (addressed P) (request view path init key)"
  unfolding request_def Let_def freshToken_def retryUnauthorized_def settle_def
  by (intro addressed_intros addressed_performFetch addressed_refresh addressed_same assms)
     (simp_all add: notifySessionExpired_def dispatch_def Let_def)

lemma addressed_optional:
  "P (nullish (riMethod init) ''GET'') path \<Longrightarrow> keeps (addressed P) (requestOptionalEndpoint view path init)"
  unfolding requestOptionalEndpoint_def by (intro addressed_intros addressed_request)

text \<open>The methods of a request's forms.\<close>

lemma init_methods [simp]:
  "nullish (riMethod noInit) ''GET'' = ''GET''"
  "nullish (riMethod (initMethod m)) ''GET'' = m"
  "nullish (riMethod (initBody m b)) ''GET'' = m"
  by (simp_all add: noInit_def initMethod_def initBody_def)

lemma addressed_answered: "keeps (addressed P) call \<Longrightarrow> addressed P w (snd (answered call absorb s w))"
  by (simp add: snd_answered keeps_def)

lemma addressed_afterwards:
  assumes "addressed P w (snd (f s w))" and "\<And>s w. addressed P w (snd (g s w))"
  shows "addressed P w (snd (afterwards f g s w))"
  using addressed_trans [OF assms(1) assms(2)] by (simp add: snd_afterwards)

lemma addressed_within: "addressed P w (snd (h (part s) w)) \<Longrightarrow> addressed P w (snd (within part update h s w))"
  by (simp add: snd_within)

lemma addressed_onlyWhen: "(\<And>s w. addressed P w (snd (h s w))) \<Longrightarrow> addressed P w (snd (onlyWhen b h s w))"
  by (cases b) (simp_all add: addressed_refl)

lemma addressed_attempt:
  assumes "keeps (addressed P) call" and "\<And>x s w. addressed P w (snd (ok x s w))"
  shows "addressed P w (snd (attempt call missing ok failed lastly s w))"
proof -
  obtain s' w' where a: "attempt call missing ok failed lastly s w = (s', w')"
    by (cases "attempt call missing ok failed lastly s w")
  from a have "addressed P w w'"
  proof (cases rule: attempt_cases)
    case (ok x w1 s1)
    then have "addressed P w w1" "addressed P w1 w'"
      using keepsD [OF assms(1)] assms(2) [of w1 x s] by auto
    then show ?thesis by (rule addressed_trans)
  qed (auto dest: keepsD [OF assms(1)])
  then show ?thesis by (simp add: a)
qed

lemma addressed_attemptCall:
  assumes "keeps (addressed P) call" and "\<And>x s w. addressed P w (snd (ok x s w))"
  shows "addressed P w (snd (attemptCall call ok failed lastly s w))"
proof -
  obtain s' w' where a: "attemptCall call ok failed lastly s w = (s', w')"
    by (cases "attemptCall call ok failed lastly s w")
  from a have "addressed P w w'"
  proof (cases rule: attemptCall_cases)
    case (ok x w1 s1)
    then have "addressed P w w1" "addressed P w1 w'"
      using keepsD [OF assms(1)] assms(2) [of w1 x s] by auto
    then show ?thesis by (rule addressed_trans)
  qed (auto dest: keepsD [OF assms(1)])
  then show ?thesis by (simp add: a)
qed

lemma addressed_attemptD:
  "attempt call missing ok failed lastly s w = (s', w') \<Longrightarrow> keeps (addressed P) call \<Longrightarrow>
   (\<And>x s w. addressed P w (snd (ok x s w))) \<Longrightarrow> addressed P w w'"
  by (metis addressed_attempt snd_conv)

lemma addressed_attemptCallD:
  "attemptCall call ok failed lastly s w = (s', w') \<Longrightarrow> keeps (addressed P) call \<Longrightarrow>
   (\<And>x s w. addressed P w (snd (ok x s w))) \<Longrightarrow> addressed P w w'"
  by (metis addressed_attemptCall snd_conv)

lemma addressed_staying: "addressed P w (snd (staying f s w))"
  by (simp add: staying_def addressed_refl)

text \<open>
  What a handler that only reads may send: its messages are GET requests, apart from the
  renewal of the token.
\<close>

definition readsOnly :: "string \<Rightarrow> string \<Rightarrow> bool" where
  "readsOnly m p \<longleftrightarrow> m = ''GET''"

lemma readsOnly_GET [simp]: "readsOnly ''GET'' p"
  by (simp add: readsOnly_def)

end
