(* ===== verification/Routes.thy ===== *)
theory Routes
  imports Prelude
begin

section \<open>Matching routes\<close>

text \<open>
  Every navigation module of the client decides with the same test whether a path belongs to a
  route: it is the route, or begins with the route and a slash. This theory states what the test
  means, as a relation on the segments of the two paths, and the interface of a matcher, which
  the theory Navigation interprets for each of the modules.
\<close>

definition under :: "string \<Rightarrow> string \<Rightarrow> bool" where
  "under path route \<longleftrightarrow> path = route \<or> startsWith path (route @ ''/'')"

definition segments :: "string \<Rightarrow> string list" where
  "segments path = splitOn ''/'' path"

subsection \<open>Segments\<close>

lemma splitGo_slash:
  "splitGo ''/'' 0 acc (c # s) =
     (if c = CHR ''/'' then rev acc # splitGo ''/'' 0 [] s else splitGo ''/'' 0 (c # acc) s)"
  by simp

lemma splitGo_slash_append:
  "splitGo ''/'' 0 acc (a @ ''/'' @ b) = splitGo ''/'' 0 acc a @ splitGo ''/'' 0 [] b"
  by (induction a arbitrary: acc) (simp_all add: splitGo_slash del: splitGo.simps(3))

lemma segments_append: "segments (a @ ''/'' @ b) = segments a @ segments b"
  unfolding segments_def splitOn_def by (rule splitGo_slash_append)

lemma segments_ne [simp]: "segments s \<noteq> []"
  unfolding segments_def splitOn_def by (rule splitGo_ne)

lemma joinWith_Cons: "ys \<noteq> [] \<Longrightarrow> joinWith sep (x # ys) = x @ sep @ joinWith sep ys"
  by (cases ys) simp_all

lemma joinWith_append: "xs \<noteq> [] \<Longrightarrow> ys \<noteq> [] \<Longrightarrow> joinWith sep (xs @ ys) = joinWith sep xs @ sep @ joinWith sep ys"
  by (induction xs rule: induct_list012) (simp_all add: joinWith_Cons)

lemma join_splitGo: "joinWith ''/'' (splitGo ''/'' 0 acc s) = rev acc @ s"
proof (induction s arbitrary: acc)
  case (Cons c s)
  then show ?case
    using splitGo_ne [of "''/''" 0 "[]" s] by (cases "c = CHR ''/''") (simp_all add: joinWith_Cons)
qed simp

lemma join_segments [simp]: "joinWith ''/'' (segments s) = s"
  unfolding segments_def splitOn_def by (simp add: join_splitGo)

lemma under_refl [simp]: "under p p"
  by (simp add: under_def)

theorem under_segments: "under path route \<longleftrightarrow> prefix (segments route) (segments path)"
proof
  assume "under path route"
  then consider "path = route" | r where "path = route @ ''/'' @ r"
    by (auto simp: under_def startsWith_def prefix_def)
  then show "prefix (segments route) (segments path)"
    using segments_append [of route] by cases simp_all
next
  assume "prefix (segments route) (segments path)"
  then obtain zs where z: "segments path = segments route @ zs" by (auto simp: prefix_def)
  show "under path route"
  proof (cases "zs = []")
    case True
    then have "joinWith ''/'' (segments path) = joinWith ''/'' (segments route)" using z by simp
    then have "path = route" by (simp only: join_segments)
    then show ?thesis by simp
  next
    case False
    then have "joinWith ''/'' (segments path) = route @ ''/'' @ joinWith ''/'' zs"
      using z joinWith_append [of "segments route" zs "''/''"] by simp
    then show ?thesis by (simp add: under_def startsWith_def)
  qed
qed

lemma under_trans: "under p q \<Longrightarrow> under q r \<Longrightarrow> under p r"
  unfolding under_segments by (rule prefix_order.trans)

lemma under_antisym: "under p q \<Longrightarrow> under q p \<Longrightarrow> p = q"
  by (metis under_segments prefix_order.antisym join_segments)

lemma under_comparable: "under p q \<Longrightarrow> under p r \<Longrightarrow> under q r \<or> under r q"
  unfolding under_segments by (meson prefix_same_cases)

lemma under_child [simp]: "under (p @ ''/'' @ q) p"
  by (simp add: under_def startsWith_def)

lemma under_sibling: "CHR ''/'' \<notin> set s \<Longrightarrow> s \<noteq> [] \<Longrightarrow> \<not> under (p @ s) p"
  by (auto simp: under_def startsWith_def prefix_def)

subsection \<open>The interface of a matcher\<close>

text \<open>
  A matcher tells whether a path belongs to an item: after the module's normalisation the path
  is under one of the item's routes.
\<close>

locale route_matcher =
  fixes norm :: "string \<Rightarrow> string"
    and routes :: "'i \<Rightarrow> string list"
    and matches :: "string \<Rightarrow> 'i \<Rightarrow> bool"
  assumes matches_iff: "matches p i \<longleftrightarrow> list_ex (under (norm p)) (routes i)"
begin

lemma matches_segments: "matches p i \<longleftrightarrow> list_ex (\<lambda>r. prefix (segments r) (segments (norm p))) (routes i)"
  by (simp add: matches_iff under_segments [abs_def])

lemma matches_child: "matches p i \<Longrightarrow> under (norm q) (norm p) \<Longrightarrow> matches q i"
  by (auto simp: matches_iff list_ex_iff intro: under_trans)

lemma matches_own: "r \<in> set (routes i) \<Longrightarrow> norm p = r \<Longrightarrow> matches p i"
  by (force simp: matches_iff list_ex_iff)

lemma matches_comparable:
  "matches p i \<Longrightarrow> matches p j \<Longrightarrow> list_ex (\<lambda>r. list_ex (\<lambda>r'. under r r' \<or> under r' r) (routes j)) (routes i)"
  by (auto simp: matches_iff list_ex_iff dest: under_comparable)

text \<open>Items none of whose routes are comparable never match the same path.\<close>

definition apart :: "'i \<Rightarrow> 'i \<Rightarrow> bool" where
  "apart i j \<longleftrightarrow> \<not> list_ex (\<lambda>r. list_ex (\<lambda>r'. under r r' \<or> under r' r) (routes j)) (routes i)"

lemma apart_disjoint: "apart i j \<Longrightarrow> matches p i \<Longrightarrow> \<not> matches p j"
  using matches_comparable by (auto simp: apart_def)

end

end
