(* ===== verification/Navigation.thy ===== *)
theory Navigation
  imports Routes
begin

section \<open>Navigation\<close>

text \<open>
  The navigation modules of the client: \<^verbatim>\<open>saas-ui/domains/shell/model/nav.ts\<close>,
  \<^verbatim>\<open>shell/model/workspace.ts\<close>, \<^verbatim>\<open>shell/application/workspaceShellUseCases.ts\<close>,
  \<^verbatim>\<open>app/(app-shell)/app/_components/appNavigation.ts\<close>, \<^verbatim>\<open>dashboard/domain/navigation.ts\<close>,
  \<^verbatim>\<open>admin-ops/.../adminConsoleConfig.ts\<close>, \<^verbatim>\<open>tenant-ops/ui/tenant-detail/routeCompatibility.ts\<close>
  and \<^verbatim>\<open>TenantEntityNav.tsx\<close>. Each module's test is an interpretation of \<open>route_matcher\<close>.
\<close>

subsection \<open>Items of the shell\<close>

record ShellNavItem =
  sn_href :: string
  sn_label :: string
  sn_hint :: "string option"
  sn_match :: "string list option"
  sn_icon :: "string option"

record ShellNavSection =
  ss_title :: string
  ss_description :: "string option"
  ss_items :: "ShellNavItem list"

definition normalizePath :: "string \<Rightarrow> string" where
  "normalizePath v =
     (if v = [] then ''/''
      else let path = pathOnly v in
        if path = [] then ''/''
        else if length path > 1 \<and> endsWith path ''/'' then butlast path
        else if startsWith path ''/'' then path else ''/'' @ path)"

definition shellCandidates :: "ShellNavItem \<Rightarrow> string list" where
  "shellCandidates item = map normalizePath (sn_href item # nullish (sn_match item) [])"

definition isShellNavItemActive :: "string \<Rightarrow> ShellNavItem \<Rightarrow> bool" where
  "isShellNavItemActive pathname item =
     (let normalizedPath = normalizePath pathname in
      list_ex (\<lambda>candidate. normalizedPath = candidate \<or> startsWith normalizedPath (candidate @ ''/'')) (shellCandidates item))"

interpretation shell: route_matcher normalizePath shellCandidates isShellNavItemActive
  by unfold_locales (simp add: isShellNavItemActive_def under_def [abs_def] Let_def)

subsection \<open>Workspaces\<close>

datatype WorkspaceKey = WsOverview | WsTenants | WsBilling | WsSupport | WsPlatform | WsAccount

record WorkspaceDescriptor =
  wd_key :: WorkspaceKey
  wd_label :: string
  wd_href :: string
  wd_description :: "string option"
  wd_icon :: string

definition workspaceDescriptors :: "WorkspaceDescriptor list" where
  "workspaceDescriptors =
    [\<lparr>wd_key = WsOverview, wd_label = ''Overview'', wd_href = ''/app/overview'', wd_description = None, wd_icon = ''overview''\<rparr>,
     \<lparr>wd_key = WsTenants, wd_label = ''Tenants'', wd_href = ''/app/tenants'', wd_description = None, wd_icon = ''tenants''\<rparr>,
     \<lparr>wd_key = WsBilling, wd_label = ''Billing'', wd_href = ''/app/billing/invoices'', wd_description = None, wd_icon = ''billing''\<rparr>,
     \<lparr>wd_key = WsSupport, wd_label = ''Support'', wd_href = ''/app/support/queue'', wd_description = None, wd_icon = ''support''\<rparr>,
     \<lparr>wd_key = WsPlatform, wd_label = ''Platform'', wd_href = ''/app/platform/provisioning'', wd_description = None, wd_icon = ''platform''\<rparr>,
     \<lparr>wd_key = WsAccount, wd_label = ''Account'', wd_href = ''/app/account/profile'', wd_description = None, wd_icon = ''account''\<rparr>]"

primrec workspaceLocalNavByKey :: "WorkspaceKey \<Rightarrow> ShellNavSection" where
  "workspaceLocalNavByKey WsOverview =
   \<lparr>ss_title = ''Overview workspace'', ss_description = Some ''Snapshot, alerts, and activity.'', ss_items =
     [\<lparr>sn_href = ''/app/overview'', sn_label = ''Overview'', sn_hint = Some ''Workspace snapshot and priorities'',
       sn_match = Some [''/dashboard/overview''], sn_icon = None\<rparr>,
      \<lparr>sn_href = ''/app/overview/activity'', sn_label = ''Recent activity'', sn_hint = Some ''Latest workspace and lifecycle events'',
       sn_match = Some [''/dashboard/activity''], sn_icon = None\<rparr>]\<rparr>"
| "workspaceLocalNavByKey WsTenants =
   \<lparr>ss_title = ''Tenants workspace'', ss_description = Some ''Registry and lifecycle visibility.'', ss_items =
     [\<lparr>sn_href = ''/app/tenants'', sn_label = ''Registry'', sn_hint = Some ''Search workspaces and open workspace details'',
       sn_match = Some [''/dashboard/registry'', ''/tenants''], sn_icon = None\<rparr>,
      \<lparr>sn_href = ''/app/tenants/active'', sn_label = ''Active'', sn_hint = Some ''Live customer workspaces'',
       sn_match = Some [''/dashboard/active''], sn_icon = None\<rparr>,
      \<lparr>sn_href = ''/app/tenants/suspensions'', sn_label = ''Suspended'', sn_hint = Some ''Suspension states and actions'',
       sn_match = Some [''/dashboard/suspensions''], sn_icon = None\<rparr>]\<rparr>"
| "workspaceLocalNavByKey WsBilling =
   \<lparr>ss_title = ''Billing workspace'', ss_description = Some ''Invoices, recovery, and payment state.'', ss_items =
     [\<lparr>sn_href = ''/app/billing/invoices'', sn_label = ''Payments'', sn_hint = Some ''Review invoices and payment follow-up'',
       sn_match = Some [''/billing'', ''/dashboard/billing'', ''/dashboard/billing-details''], sn_icon = None\<rparr>,
      \<lparr>sn_href = ''/app/billing/recovery'', sn_label = ''Recovery'', sn_hint = Some ''Payment follow-ups and invoice recovery'',
       sn_match = Some [''/dashboard/billing-recovery'', ''/dashboard/billing-ops''], sn_icon = None\<rparr>]\<rparr>"
| "workspaceLocalNavByKey WsSupport =
   \<lparr>ss_title = ''Support workspace'', ss_description = Some ''Queue, escalation, and SLA readiness.'', ss_items =
     [\<lparr>sn_href = ''/app/support/queue'', sn_label = ''Queue'', sn_hint = Some ''Customer support handoff and resolution tracking'',
       sn_match = Some [''/dashboard/support''], sn_icon = None\<rparr>,
      \<lparr>sn_href = ''/app/support/escalations'', sn_label = ''Escalations'', sn_hint = Some ''Triage guidance and escalation checks'',
       sn_match = Some [''/dashboard/support-overview''], sn_icon = None\<rparr>]\<rparr>"
| "workspaceLocalNavByKey WsPlatform =
   \<lparr>ss_title = ''Platform workspace'', ss_description = Some ''Health, provisioning, and incidents.'', ss_items =
     [\<lparr>sn_href = ''/app/platform/health'', sn_label = ''Health'', sn_hint = Some ''Infrastructure, queue, and service checks'',
       sn_match = Some [''/dashboard/platform-health''], sn_icon = None\<rparr>,
      \<lparr>sn_href = ''/app/platform/provisioning'', sn_label = ''Provisioning'', sn_hint = Some ''Deployments and pending upgrades'',
       sn_match = Some [''/dashboard/provisioning''], sn_icon = None\<rparr>,
      \<lparr>sn_href = ''/app/platform/incidents'', sn_label = ''Incidents'', sn_hint = Some ''Provisioning failures and rescue actions'',
       sn_match = Some [''/dashboard/incidents''], sn_icon = None\<rparr>,
      \<lparr>sn_href = ''/app/platform/onboarding'', sn_label = ''Onboarding'', sn_hint = Some ''Payment onboarding and activation readiness'',
       sn_match = Some [''/dashboard/onboarding''], sn_icon = None\<rparr>]\<rparr>"
| "workspaceLocalNavByKey WsAccount =
   \<lparr>ss_title = ''Account workspace'', ss_description = Some ''Profile and preferences.'', ss_items =
     [\<lparr>sn_href = ''/app/account/profile'', sn_label = ''Profile'', sn_hint = Some ''Identity and billing profile'',
       sn_match = Some [''/dashboard/account''], sn_icon = None\<rparr>,
      \<lparr>sn_href = ''/app/account/settings'', sn_label = ''Settings'', sn_hint = Some ''Notification and contact preferences'',
       sn_match = Some [''/dashboard/settings''], sn_icon = None\<rparr>]\<rparr>"

definition workspaceLocalNavSections :: "ShellNavSection list" where
  "workspaceLocalNavSections = map (\<lambda>d. workspaceLocalNavByKey (wd_key d)) workspaceDescriptors"

primrec workspaceRouteMatchers :: "WorkspaceKey \<Rightarrow> string list" where
  "workspaceRouteMatchers WsOverview =
   [''/app/overview'',
    ''/app/overview/activity'',
    ''/dashboard/overview'',
    ''/dashboard/activity'',
    ''/dashboard'']"
| "workspaceRouteMatchers WsTenants =
   [''/app/tenants'',
    ''/dashboard/registry'',
    ''/dashboard/active'',
    ''/dashboard/suspensions'',
    ''/tenants'']"
| "workspaceRouteMatchers WsBilling =
   [''/app/billing/invoices'',
    ''/app/billing/recovery'',
    ''/billing'',
    ''/dashboard/billing'',
    ''/dashboard/billing-recovery'',
    ''/dashboard/billing-details'',
    ''/dashboard/billing-ops'']"
| "workspaceRouteMatchers WsSupport =
   [''/app/support/queue'',
    ''/app/support/escalations'',
    ''/dashboard/support'',
    ''/dashboard/support-overview'']"
| "workspaceRouteMatchers WsPlatform =
   [''/app/platform/health'',
    ''/app/platform/provisioning'',
    ''/app/platform/incidents'',
    ''/app/platform/onboarding'',
    ''/dashboard/platform-health'',
    ''/dashboard/provisioning'',
    ''/dashboard/incidents'',
    ''/dashboard/onboarding'']"
| "workspaceRouteMatchers WsAccount =
   [''/app/account/profile'',
    ''/app/account/settings'',
    ''/dashboard/account'',
    ''/dashboard/settings'']"

definition normalizeRoute :: "string \<Rightarrow> string" where
  "normalizeRoute pathname =
     (let only = pathOnly pathname;
          route = (if startsWith only ''/'' then only else ''/'' @ only) in
      if length route > 1 \<and> endsWith route ''/'' then butlast route
      else if route = [] then ''/'' else route)"

definition workspaceMatches :: "string \<Rightarrow> WorkspaceKey \<Rightarrow> bool" where
  "workspaceMatches pathname key =
     list_ex (\<lambda>matcher. normalizeRoute pathname = matcher \<or> startsWith (normalizeRoute pathname) (matcher @ ''/''))
       (workspaceRouteMatchers key)"

definition resolveWorkspaceKeyFromPath :: "string option \<Rightarrow> WorkspaceKey" where
  "resolveWorkspaceKeyFromPath pathname =
     (if \<not> truthyStr pathname then WsOverview
      else case find (\<lambda>d. workspaceMatches (the pathname) (wd_key d)) workspaceDescriptors of
        Some d \<Rightarrow> wd_key d
      | None \<Rightarrow> WsOverview)"

definition getWorkspaceLocalNavForPath :: "string option \<Rightarrow> ShellNavSection" where
  "getWorkspaceLocalNavForPath pathname = workspaceLocalNavByKey (resolveWorkspaceKeyFromPath pathname)"

interpretation ws: route_matcher normalizeRoute workspaceRouteMatchers workspaceMatches
  by unfold_locales (simp add: workspaceMatches_def under_def [abs_def])

subsection \<open>Breadcrumbs\<close>

record BreadcrumbEntry =
  bc_label :: string
  bc_href :: "string option"

definition titleWord :: "string \<Rightarrow> string" where
  "titleWord w = (case w of [] \<Rightarrow> [] | c # cs \<Rightarrow> upperChar c # cs)"

definition titleCase :: "string \<Rightarrow> string" where
  "titleCase v = joinWith '' '' (map titleWord (filter (\<lambda>w. w \<noteq> []) (splitOn ''-'' v)))"

fun crumbsFrom :: "string \<Rightarrow> string \<Rightarrow> string list \<Rightarrow> BreadcrumbEntry list" where
  "crumbsFrom normalized cursor [] = []"
| "crumbsFrom normalized cursor (s # ss) =
     (let cursor' = cursor @ ''/'' @ s in
      \<lparr>bc_label = titleCase s, bc_href = (if cursor' = normalized then None else Some cursor')\<rparr> #
      crumbsFrom normalized cursor' ss)"

definition buildWorkspaceBreadcrumbs :: "string \<Rightarrow> string \<Rightarrow> string \<Rightarrow> BreadcrumbEntry list" where
  "buildWorkspaceBreadcrumbs pathname rootLabel rootHref =
     (let only = pathOnly pathname;
          normalized = (if startsWith only ''/'' then only else ''/'' @ only);
          segs = filter (\<lambda>s. s \<noteq> []) (splitOn ''/'' normalized) in
      \<lparr>bc_label = rootLabel, bc_href = Some rootHref\<rparr> # crumbsFrom normalized [] segs)"

subsection \<open>The sections of the application shell\<close>

definition overviewSection :: ShellNavSection where
  "overviewSection =
   \<lparr>ss_title = ''Overview'', ss_description = Some ''Command center'', ss_items =
     [\<lparr>sn_href = ''/app/overview'', sn_label = ''Overview'', sn_hint = Some ''Workspace and platform summary'',
       sn_match = None, sn_icon = Some ''overview''\<rparr>]\<rparr>"

definition tenantsSection :: ShellNavSection where
  "tenantsSection =
   \<lparr>ss_title = ''Tenants'', ss_description = Some ''Registry and lifecycle'', ss_items =
     [\<lparr>sn_href = ''/app/tenants'', sn_label = ''Registry'', sn_hint = Some ''Search and open tenant workspaces'',
       sn_match = None, sn_icon = Some ''tenants''\<rparr>,
      \<lparr>sn_href = ''/app/tenants/active'', sn_label = ''Active'', sn_hint = Some ''Live tenants and steady-state monitoring'',
       sn_match = None, sn_icon = Some ''tenants''\<rparr>,
      \<lparr>sn_href = ''/app/tenants/suspensions'', sn_label = ''Suspensions'', sn_hint = Some ''Billing and admin suspension states'',
       sn_match = None, sn_icon = Some ''tenants''\<rparr>]\<rparr>"

definition billingSection :: ShellNavSection where
  "billingSection =
   \<lparr>ss_title = ''Billing'', ss_description = Some ''Invoices and recovery'', ss_items =
     [\<lparr>sn_href = ''/app/billing/invoices'', sn_label = ''Invoices'', sn_hint = Some ''Invoice history and payment resume'',
       sn_match = None, sn_icon = Some ''billing''\<rparr>,
      \<lparr>sn_href = ''/app/billing/recovery'', sn_label = ''Recovery'', sn_hint = Some ''Failed payment follow-up'',
       sn_match = None, sn_icon = Some ''billing''\<rparr>]\<rparr>"

definition supportSection :: ShellNavSection where
  "supportSection =
   \<lparr>ss_title = ''Support'', ss_description = Some ''Queue and escalations'', ss_items =
     [\<lparr>sn_href = ''/app/support/queue'', sn_label = ''Queue'', sn_hint = Some ''Customer-facing triage'',
       sn_match = None, sn_icon = Some ''support''\<rparr>,
      \<lparr>sn_href = ''/app/support/escalations'', sn_label = ''Escalations'', sn_hint = Some ''SLA and handoff context'',
       sn_match = None, sn_icon = Some ''support''\<rparr>]\<rparr>"

definition platformSection :: ShellNavSection where
  "platformSection =
   \<lparr>ss_title = ''Platform'', ss_description = Some ''Health and provisioning'', ss_items =
     [\<lparr>sn_href = ''/app/platform/health'', sn_label = ''Health'', sn_hint = Some ''Core service status'',
       sn_match = None, sn_icon = Some ''platform''\<rparr>,
      \<lparr>sn_href = ''/app/platform/provisioning'', sn_label = ''Provisioning'', sn_hint = Some ''Provisioning queue and retries'',
       sn_match = None, sn_icon = Some ''platform''\<rparr>,
      \<lparr>sn_href = ''/app/platform/incidents'', sn_label = ''Incidents'', sn_hint = Some ''Operational incidents'',
       sn_match = None, sn_icon = Some ''platform''\<rparr>,
      \<lparr>sn_href = ''/app/platform/onboarding'', sn_label = ''Onboarding'', sn_hint = Some ''Activation readiness'',
       sn_match = None, sn_icon = Some ''platform''\<rparr>]\<rparr>"

definition accountSection :: ShellNavSection where
  "accountSection =
   \<lparr>ss_title = ''Account'', ss_description = Some ''Profile and preferences'', ss_items =
     [\<lparr>sn_href = ''/app/account/profile'', sn_label = ''Profile'', sn_hint = Some ''Identity and billing profile'',
       sn_match = None, sn_icon = Some ''account''\<rparr>,
      \<lparr>sn_href = ''/app/account/settings'', sn_label = ''Settings'', sn_hint = Some ''Notifications and contact preferences'',
       sn_match = None, sn_icon = Some ''account''\<rparr>]\<rparr>"

definition adminSection :: ShellNavSection where
  "adminSection =
   \<lparr>ss_title = ''Admin'', ss_description = Some ''Role-gated operations'', ss_items =
     [\<lparr>sn_href = ''/app/admin/control-overview'', sn_label = ''Control overview'', sn_hint = Some ''Operator command center'',
       sn_match = None, sn_icon = Some ''platform''\<rparr>,
      \<lparr>sn_href = ''/app/admin/tenant-control'', sn_label = ''Tenant control'', sn_hint = Some ''Cross-tenant lifecycle actions'',
       sn_match = None, sn_icon = Some ''tenants''\<rparr>,
      \<lparr>sn_href = ''/app/admin/jobs'', sn_label = ''Jobs'', sn_hint = Some ''Cross-tenant job operations'',
       sn_match = None, sn_icon = Some ''platform''\<rparr>,
      \<lparr>sn_href = ''/app/admin/audit'', sn_label = ''Audit'', sn_hint = Some ''Governance and change history'',
       sn_match = None, sn_icon = Some ''platform''\<rparr>,
      \<lparr>sn_href = ''/app/admin/support-tools'', sn_label = ''Support tools'', sn_hint = Some ''Escalation tooling'',
       sn_match = None, sn_icon = Some ''support''\<rparr>,
      \<lparr>sn_href = ''/app/admin/recovery'', sn_label = ''Recovery'', sn_hint = Some ''Dead-letter and remediation'',
       sn_match = None, sn_icon = Some ''platform''\<rparr>,
      \<lparr>sn_href = ''/app/admin/billing-ops'', sn_label = ''Billing ops'', sn_hint = Some ''Dunning and payment interventions'',
       sn_match = None, sn_icon = Some ''billing''\<rparr>,
      \<lparr>sn_href = ''/app/admin/platform-health'', sn_label = ''Platform health'', sn_hint = Some ''Privileged reliability view'',
       sn_match = None, sn_icon = Some ''platform''\<rparr>]\<rparr>"

definition buildAppNavSections :: "bool \<Rightarrow> ShellNavSection list" where
  "buildAppNavSections canSeeAdmin =
     [overviewSection, tenantsSection, billingSection, supportSection, platformSection, accountSection] @
     (if canSeeAdmin then [adminSection] else [])"

subsection \<open>The dashboard's two modes\<close>

datatype DashboardNavMode = OperationsNav | WorkspaceNav

record DashboardNavItem =
  di_href :: string
  di_label :: string
  di_hint :: string
  di_match :: "string list option"

record DashboardNavSection =
  dn_mode :: DashboardNavMode
  dn_title :: string
  dn_description :: string
  dn_items :: "DashboardNavItem list"

definition defaultDashboardNavMode :: DashboardNavMode where
  "defaultDashboardNavMode = WorkspaceNav"

definition dashboardNavSections :: "DashboardNavSection list" where
  "dashboardNavSections =
    [\<lparr>dn_mode = OperationsNav, dn_title = ''Lifecycle routing'', dn_description = ''Track onboarding, provisioning, incidents, and tenant activity from one flow.'',
      dn_items =
      [\<lparr>di_href = ''/app/admin/control-overview'', di_label = ''Workflow hub'',
        di_hint = ''Entry point by operational journey'', di_match = None\<rparr>,
       \<lparr>di_href = ''/app/platform/onboarding'', di_label = ''Payment onboarding'',
        di_hint = ''Awaiting payment confirmations'', di_match = None\<rparr>,
       \<lparr>di_href = ''/app/platform/provisioning'', di_label = ''Provisioning queue'',
        di_hint = ''Deployments and upgrades in progress'', di_match = None\<rparr>,
       \<lparr>di_href = ''/app/platform/incidents'', di_label = ''Incidents'',
        di_hint = ''Provisioning failures and rescue queue'', di_match = None\<rparr>,
       \<lparr>di_href = ''/app/tenants/suspensions'', di_label = ''Suspensions'',
        di_hint = ''Admin and billing suspends'', di_match = None\<rparr>,
       \<lparr>di_href = ''/app/overview/activity'', di_label = ''Jobs timeline'',
        di_hint = ''Recent operational events'', di_match = None\<rparr>]\<rparr>,
     \<lparr>dn_mode = WorkspaceNav, dn_title = ''Overview workspace'', dn_description = ''Workspace snapshot, live activity, and customer-facing health signals.'',
      dn_items =
      [\<lparr>di_href = ''/app/overview'', di_label = ''Overview'',
        di_hint = ''Workspace snapshot and priorities'', di_match = None\<rparr>,
       \<lparr>di_href = ''/app/tenants/active'', di_label = ''Active workspaces'',
        di_hint = ''Live customers and workspace health'', di_match = None\<rparr>,
       \<lparr>di_href = ''/app/overview/activity'', di_label = ''Activity feed'',
        di_hint = ''Recent workspace lifecycle changes'', di_match = None\<rparr>]\<rparr>,
     \<lparr>dn_mode = WorkspaceNav, dn_title = ''Tenants workspace'', dn_description = ''Find tenants, review status, and continue workspace detail journeys.'',
      dn_items =
      [\<lparr>di_href = ''/app/tenants'', di_label = ''Workspace registry'',
        di_hint = ''Search workspaces and open workspace details'', di_match = Some [''/tenants'']\<rparr>]\<rparr>,
     \<lparr>dn_mode = WorkspaceNav, dn_title = ''Billing workspace'', dn_description = ''Customer payment recovery and invoice visibility.'',
      dn_items =
      [\<lparr>di_href = ''/app/billing/recovery'', di_label = ''Billing recovery'',
        di_hint = ''Payment follow-ups and invoice recovery'', di_match = None\<rparr>,
       \<lparr>di_href = ''/app/billing/invoices'', di_label = ''Invoice analytics'',
        di_hint = ''Invoice and status breakdown'', di_match = None\<rparr>,
       \<lparr>di_href = ''/app/billing/invoices'', di_label = ''Invoices'',
        di_hint = ''Review invoices and follow-up actions'', di_match = None\<rparr>]\<rparr>,
     \<lparr>dn_mode = OperationsNav, dn_title = ''Billing routing'', dn_description = ''Collections, dunning actions, and invoice visibility.'',
      dn_items =
      [\<lparr>di_href = ''/app/admin/billing-ops'', di_label = ''Dunning operations'',
        di_hint = ''Retry cycles and billing actions'', di_match = None\<rparr>,
       \<lparr>di_href = ''/app/admin/billing-ops'', di_label = ''Billing follow-ups'',
        di_hint = ''Pending payments and support handoff'', di_match = None\<rparr>]\<rparr>,
     \<lparr>dn_mode = WorkspaceNav, dn_title = ''Support workspace'', dn_description = ''Support case routing, escalation readiness, and customer handoff.'',
      dn_items =
      [\<lparr>di_href = ''/app/support/queue'', di_label = ''Support queue'',
        di_hint = ''Customer support handoff and resolution tracking'', di_match = None\<rparr>,
       \<lparr>di_href = ''/app/support/escalations'', di_label = ''Support overview'',
        di_hint = ''Triage guidance and escalation checks'', di_match = None\<rparr>]\<rparr>,
     \<lparr>dn_mode = OperationsNav, dn_title = ''Support routing'', dn_description = ''SLA management, auditability, and escalation readiness.'',
      dn_items =
      [\<lparr>di_href = ''/app/support/escalations'', di_label = ''Support overview'',
        di_hint = ''SLA pressure and support load'', di_match = None\<rparr>,
       \<lparr>di_href = ''/app/admin/support-tools'', di_label = ''Support queue'',
        di_hint = ''Case ownership and notes'', di_match = None\<rparr>,
       \<lparr>di_href = ''/app/admin/audit'', di_label = ''Audit & policy'',
        di_hint = ''Compliance and operational audit trail'', di_match = None\<rparr>]\<rparr>,
     \<lparr>dn_mode = WorkspaceNav, dn_title = ''Platform workspace'', dn_description = ''Provisioning, incident recovery, onboarding flow, and suspension tracking.'',
      dn_items =
      [\<lparr>di_href = ''/app/platform/onboarding'', di_label = ''Onboarding queue'',
        di_hint = ''Payment onboarding and activation readiness'', di_match = None\<rparr>,
       \<lparr>di_href = ''/app/platform/provisioning'', di_label = ''Provisioning queue'',
        di_hint = ''Deployments and pending upgrades'', di_match = None\<rparr>,
       \<lparr>di_href = ''/app/platform/incidents'', di_label = ''Incidents queue'',
        di_hint = ''Provisioning failures and rescue actions'', di_match = None\<rparr>,
       \<lparr>di_href = ''/app/tenants/suspensions'', di_label = ''Suspensions queue'',
        di_hint = ''Workspace and billing suspension status'', di_match = None\<rparr>]\<rparr>,
     \<lparr>dn_mode = WorkspaceNav, dn_title = ''Account workspace'', dn_description = ''User profile, notification readiness, and account settings.'',
      dn_items =
      [\<lparr>di_href = ''/app/account/profile'', di_label = ''Account summary'',
        di_hint = ''Identity and billing profile'', di_match = None\<rparr>,
       \<lparr>di_href = ''/app/account/settings'', di_label = ''Settings'',
        di_hint = ''Notification and contact preferences'', di_match = None\<rparr>]\<rparr>,
     \<lparr>dn_mode = OperationsNav, dn_title = ''Platform routing'', dn_description = ''Infrastructure health and control-plane readiness.'',
      dn_items =
      [\<lparr>di_href = ''/app/admin/platform-health'', di_label = ''Platform health'',
        di_hint = ''Queues, jobs, and infra checks'', di_match = None\<rparr>]\<rparr>]"

definition normalizeDashboardRoute :: "string \<Rightarrow> string" where
  "normalizeDashboardRoute route =
     (let only = pathOnly route;
          withLeadingSlash = (if startsWith only ''/'' then only else ''/'' @ only) in
      if length withLeadingSlash > 1 \<and> endsWith withLeadingSlash ''/'' then butlast withLeadingSlash
      else if withLeadingSlash = [] then ''/'' else withLeadingSlash)"

definition dashboardRoutes :: "DashboardNavItem \<Rightarrow> string list" where
  "dashboardRoutes item = map normalizeDashboardRoute (di_href item # nullish (di_match item) [])"

definition getRouteMatchScore :: "string \<Rightarrow> DashboardNavItem \<Rightarrow> int" where
  "getRouteMatchScore route item =
     fold (\<lambda>matcher bestScore.
             if route = matcher \<or> startsWith route (matcher @ ''/'') then max bestScore (int (length matcher)) else bestScore)
       (dashboardRoutes item) (-1)"

definition navChoices :: "(DashboardNavMode \<times> DashboardNavItem) list" where
  "navChoices = concat (map (\<lambda>s. map (Pair (dn_mode s)) (dn_items s)) dashboardNavSections)"

definition takeBetter :: "string \<Rightarrow> DashboardNavMode \<times> DashboardNavItem \<Rightarrow>
    DashboardNavMode option \<times> int \<Rightarrow> DashboardNavMode option \<times> int" where
  "takeBetter route choice best =
     (let score = getRouteMatchScore route (snd choice) in
      if score > snd best then (Some (fst choice), score) else best)"

definition inferDashboardNavModeFromRoute :: "string option \<Rightarrow> DashboardNavMode option" where
  "inferDashboardNavModeFromRoute route =
     (if \<not> truthyStr route then None
      else fst (fold (takeBetter (normalizeDashboardRoute (the route))) navChoices (None, -1)))"

definition resolveDashboardNavMode :: "string option \<Rightarrow> DashboardNavMode" where
  "resolveDashboardNavMode pathname = nullish (inferDashboardNavModeFromRoute pathname) defaultDashboardNavMode"

definition getDashboardNavSectionsByMode :: "DashboardNavMode \<Rightarrow> DashboardNavSection list" where
  "getDashboardNavSectionsByMode mode = filter (\<lambda>s. dn_mode s = mode) dashboardNavSections"

subsection \<open>The views of the admin console\<close>

datatype AdminView = AvOverview | AvTenants | AvJobs | AvAudit | AvSupport | AvRecovery

definition ADMIN_VIEWS :: "AdminView list" where
  "ADMIN_VIEWS = [AvOverview, AvTenants, AvJobs, AvAudit, AvSupport, AvRecovery]"

primrec ADMIN_VIEW_ROUTES :: "AdminView \<Rightarrow> string" where
  "ADMIN_VIEW_ROUTES AvOverview = ''/app/admin/control-overview''"
| "ADMIN_VIEW_ROUTES AvTenants = ''/app/admin/tenant-control''"
| "ADMIN_VIEW_ROUTES AvJobs = ''/app/admin/jobs''"
| "ADMIN_VIEW_ROUTES AvAudit = ''/app/admin/audit''"
| "ADMIN_VIEW_ROUTES AvSupport = ''/app/admin/support-tools''"
| "ADMIN_VIEW_ROUTES AvRecovery = ''/app/admin/recovery''"

primrec ADMIN_VIEW_DETAILS :: "AdminView \<Rightarrow> string \<times> string" where
  "ADMIN_VIEW_DETAILS AvOverview = (''Overview'', ''Platform health summary and control shortcuts.'')"
| "ADMIN_VIEW_DETAILS AvTenants = (''Tenants'', ''Review status and run tenant lifecycle interventions.'')"
| "ADMIN_VIEW_DETAILS AvJobs = (''Jobs'', ''Inspect orchestration runs and job logs.'')"
| "ADMIN_VIEW_DETAILS AvAudit = (''Audit'', ''Track administrative actions and export records.'')"
| "ADMIN_VIEW_DETAILS AvSupport = (''Support'', ''Issue short-lived impersonation links for troubleshooting.'')"
| "ADMIN_VIEW_DETAILS AvRecovery = (''Recovery'', ''Handle dead-letter jobs and replay failures.'')"

definition adminViewMatches :: "string \<Rightarrow> AdminView \<Rightarrow> bool" where
  "adminViewMatches pathname v \<longleftrightarrow>
     pathname = ADMIN_VIEW_ROUTES v \<or> startsWith pathname (ADMIN_VIEW_ROUTES v @ ''/'')"

definition inferAdminViewFromPathname :: "string \<Rightarrow> AdminView option" where
  "inferAdminViewFromPathname pathname = find (adminViewMatches pathname) ADMIN_VIEWS"

interpretation admin: route_matcher "\<lambda>p. p" "\<lambda>v. [ADMIN_VIEW_ROUTES v]" adminViewMatches
  by unfold_locales (simp add: adminViewMatches_def under_def)

subsection \<open>The tabs of a tenant\<close>

definition normalizeTenantPath :: "string \<Rightarrow> string" where
  "normalizeTenantPath pathname =
     (let p = rev (dropWhile (\<lambda>c. c = CHR ''/'') (rev pathname)) in if p = [] then ''/'' else p)"

definition tenantRoots :: "string \<Rightarrow> string list" where
  "tenantRoots tenantId = [''/app/tenants/'' @ tenantId, ''/tenants/'' @ tenantId]"

definition isTenantOverviewPath :: "string \<Rightarrow> string \<Rightarrow> bool" where
  "isTenantOverviewPath pathname tenantId =
     (let normalizedPath = normalizeTenantPath pathname in
      list_ex (\<lambda>base. normalizedPath = base \<or> normalizedPath = base @ ''/overview'') (tenantRoots tenantId))"

definition isExactOrChildPath :: "string \<Rightarrow> string \<Rightarrow> bool" where
  "isExactOrChildPath pathname href =
     (let normalizedPathname = normalizeTenantPath pathname; normalizedHref = normalizeTenantPath href in
      normalizedPathname = normalizedHref \<or> startsWith normalizedPathname (normalizedHref @ ''/''))"

interpretation tab: route_matcher normalizeTenantPath "\<lambda>h. [normalizeTenantPath h]" isExactOrChildPath
  by unfold_locales (simp add: isExactOrChildPath_def under_def Let_def)

record TenantNavItem =
  te_label :: string
  te_href :: string
  te_active :: bool

definition TENANT_TABS :: "(string \<times> string) list" where
  "TENANT_TABS = [(''Members'', ''/members''), (''Domains'', ''/domains''), (''Billing'', ''/billing''), (''Jobs'', ''/jobs''),
     (''Audit'', ''/audit''), (''Backups'', ''/backups''), (''Support'', ''/support'')]"

definition tenantNavItems :: "string \<Rightarrow> string \<Rightarrow> TenantNavItem list" where
  "tenantNavItems pathname i =
     (let basePath = ''/app/tenants/'' @ i in
      \<lparr>te_label = ''Overview'', te_href = basePath @ ''/overview'', te_active = isTenantOverviewPath pathname i\<rparr> #
      map (\<lambda>(label, tab). \<lparr>te_label = label, te_href = basePath @ tab, te_active = isExactOrChildPath pathname (basePath @ tab)\<rparr>)
        TENANT_TABS)"

subsection \<open>Facts\<close>

lemma fold_max: "fold (\<lambda>m b. if P m then max b (f m) else b) ms b =
    (if filter P ms = [] then b else max b (Max (f ` set (filter P ms)) :: int))"
proof (induction ms arbitrary: b)
  case (Cons m ms)
  have "Max (insert (f m) (f ` set (filter P ms))) = max (f m) (Max (f ` set (filter P ms)))" if "filter P ms \<noteq> []"
    by (rule Max_insert) (use that in \<open>auto simp del: set_filter\<close>)
  then show ?case
    by (cases "filter P ms = []"; cases "P m") (simp_all add: Cons max.assoc del: set_filter)
qed simp

lemma score_spec:
  "getRouteMatchScore route item =
    (let ms = filter (under route) (dashboardRoutes item) in
     if ms = [] then -1 else Max ((\<lambda>m. int (length m)) ` set ms))"
proof -
  let ?ms = "filter (under route) (dashboardRoutes item)"
  have e: "getRouteMatchScore route item =
      fold (\<lambda>m b. if under route m then max b (int (length m)) else b) (dashboardRoutes item) (-1)"
    by (simp add: getRouteMatchScore_def under_def)
  have "0 \<le> Max ((\<lambda>m. int (length m)) ` set ?ms)" if "?ms \<noteq> []"
    by (subst Max_ge_iff) (use that in \<open>auto simp: neq_Nil_conv simp del: set_filter\<close>)
  then show ?thesis
    using fold_max [of "under route" "\<lambda>m. int (length m)" "dashboardRoutes item" "-1"]
    by (cases "?ms = []") (simp_all add: e Let_def del: set_filter)
qed

lemma score_nonneg: "0 \<le> getRouteMatchScore route item \<longleftrightarrow> list_ex (under route) (dashboardRoutes item)"
proof -
  let ?ms = "filter (under route) (dashboardRoutes item)"
  have "0 \<le> Max ((\<lambda>m. int (length m)) ` set ?ms)" if "?ms \<noteq> []"
    by (subst Max_ge_iff) (use that in \<open>auto simp: neq_Nil_conv simp del: set_filter\<close>)
  moreover have "list_ex (under route) (dashboardRoutes item) \<longleftrightarrow> ?ms \<noteq> []"
    by (auto simp: filter_empty_conv list_ex_iff)
  ultimately show ?thesis by (simp add: score_spec Let_def del: set_filter)
qed

interpretation dash: route_matcher normalizeDashboardRoute dashboardRoutes
    "\<lambda>p item. 0 \<le> getRouteMatchScore (normalizeDashboardRoute p) item"
  by unfold_locales (rule score_nonneg)

text \<open>The loop keeps the first of the best choices seen.\<close>

definition bestSoFar :: "string \<Rightarrow> (DashboardNavMode \<times> DashboardNavItem) list \<Rightarrow> DashboardNavMode option \<times> int \<Rightarrow> bool" where
  "bestSoFar route cs best \<longleftrightarrow>
     (case best of
        (None, b) \<Rightarrow> b = -1 \<and> (\<forall>c \<in> set cs. getRouteMatchScore route (snd c) \<le> -1)
      | (Some m, b) \<Rightarrow> -1 < b \<and> (\<exists>xs i ys. cs = xs @ (m, i) # ys \<and> getRouteMatchScore route i = b \<and>
          (\<forall>c \<in> set xs. getRouteMatchScore route (snd c) < b) \<and> (\<forall>c \<in> set ys. getRouteMatchScore route (snd c) \<le> b)))"

lemma bestSoFar_step: "bestSoFar route cs best \<Longrightarrow> bestSoFar route (cs @ [c]) (takeBetter route c best)"
proof -
  assume b: "bestSoFar route cs best"
  obtain om k where best: "best = (om, k)" by (cases best)
  obtain m i where c: "c = (m, i)" by (cases c)
  show ?thesis
  proof (cases "getRouteMatchScore route i > k")
    case True
    have "\<forall>c \<in> set cs. getRouteMatchScore route (snd c) < getRouteMatchScore route i" and "-1 < getRouteMatchScore route i"
      using b True by (cases om; fastforce simp: bestSoFar_def best)+
    then show ?thesis using True by (auto simp: bestSoFar_def best c takeBetter_def Let_def intro!: exI [of _ cs])
  next
    case False
    then have t: "takeBetter route c best = best" by (simp add: takeBetter_def best c Let_def)
    show ?thesis
    proof (cases om)
      case None
      then show ?thesis using b False t by (auto simp: bestSoFar_def best c)
    next
      case (Some m')
      then obtain xs i' ys where "cs = xs @ (m', i') # ys" "getRouteMatchScore route i' = k" "-1 < k"
        "\<forall>c \<in> set xs. getRouteMatchScore route (snd c) < k" "\<forall>c \<in> set ys. getRouteMatchScore route (snd c) \<le> k"
        using b by (auto simp: bestSoFar_def best)
      then have "cs @ [c] = xs @ (m', i') # (ys @ [c]) \<and> getRouteMatchScore route i' = k \<and>
          (\<forall>c \<in> set xs. getRouteMatchScore route (snd c) < k) \<and> (\<forall>c \<in> set (ys @ [c]). getRouteMatchScore route (snd c) \<le> k)"
        using False c by auto
      then show ?thesis using t Some \<open>-1 < k\<close> by (simp only: bestSoFar_def best) fastforce
    qed
  qed
qed

lemma takeBetter_fold: "bestSoFar route cs (fold (takeBetter route) cs (None, -1))"
proof (induction cs rule: rev_induct)
  case (snoc c cs)
  then show ?case by (simp add: bestSoFar_step)
qed (simp add: bestSoFar_def)

text \<open>
  The dashboard's mode is that of the most specific entry: of the entries that the path
  belongs to, the first with the longest matching route decides, and there is no mode exactly
  when the path belongs to none.
\<close>

theorem dashboard_mode_longest_match:
  "if route = [] then inferDashboardNavModeFromRoute (Some route) = None
   else case inferDashboardNavModeFromRoute (Some route) of
     None \<Rightarrow> list_all (\<lambda>c. \<not> list_ex (under (normalizeDashboardRoute route)) (dashboardRoutes (snd c))) navChoices
   | Some m \<Rightarrow> \<exists>xs i ys. navChoices = xs @ (m, i) # ys \<and>
       (let score = (\<lambda>c. getRouteMatchScore (normalizeDashboardRoute route) (snd c)); best = score (m, i) in
        0 \<le> best \<and> list_all (\<lambda>c. score c < best) xs \<and> list_all (\<lambda>c. score c \<le> best) ys)"
proof (cases "route = []")
  case False
  let ?r = "normalizeDashboardRoute route"
  obtain om best where f: "fold (takeBetter ?r) navChoices (None, -1) = (om, best)" by fastforce
  have i: "inferDashboardNavModeFromRoute (Some route) = om"
    using False f by (simp add: inferDashboardNavModeFromRoute_def)
  have b: "bestSoFar ?r navChoices (om, best)" using takeBetter_fold [where route = ?r and cs = navChoices] f by simp
  show ?thesis
  proof (cases om)
    case None
    have "getRouteMatchScore ?r (snd c) \<le> -1" if "c \<in> set navChoices" for c
      using b that by (auto simp: bestSoFar_def None)
    then have "list_all (\<lambda>c. \<not> 0 \<le> getRouteMatchScore ?r (snd c)) navChoices" by (fastforce simp: list_all_iff)
    then show ?thesis using False i None by (simp add: score_nonneg)
  next
    case (Some m)
    then obtain xs j ys where "navChoices = xs @ (m, j) # ys" "getRouteMatchScore ?r j = best" "-1 < best"
      "\<forall>c \<in> set xs. getRouteMatchScore ?r (snd c) < best" "\<forall>c \<in> set ys. getRouteMatchScore ?r (snd c) \<le> best"
      using b by (auto simp: bestSoFar_def)
    then show ?thesis
      using False i Some by (simp add: Let_def list_all_iff) (rule exI [of _ xs], rule exI [of _ j], rule exI [of _ ys], simp)
  qed
qed (simp add: inferDashboardNavModeFromRoute_def)

definition ALL_KEYS :: "WorkspaceKey list" where
  "ALL_KEYS = [WsOverview, WsTenants, WsBilling, WsSupport, WsPlatform, WsAccount]"

lemma canonical_apart:
  "list_all (\<lambda>k. list_all (\<lambda>j. k = j \<or> list_all (\<lambda>r. startsWith r ''/app/'' \<longrightarrow>
      list_all (\<lambda>r'. \<not> under r r' \<and> \<not> under r' r) (workspaceRouteMatchers j)) (workspaceRouteMatchers k)) ALL_KEYS) ALL_KEYS"
  by code_simp

lemma in_ALL_KEYS: "k \<in> set ALL_KEYS"
  by (cases k) (simp_all add: ALL_KEYS_def)

lemma canonical_apartD:
  assumes "r \<in> set (workspaceRouteMatchers k)" "startsWith r ''/app/''" "j \<noteq> k" "r' \<in> set (workspaceRouteMatchers j)"
  shows "\<not> under r r' \<and> \<not> under r' r"
proof -
  have "k = j \<or> (\<forall>r \<in> set (workspaceRouteMatchers k). startsWith r ''/app/'' \<longrightarrow>
      (\<forall>r' \<in> set (workspaceRouteMatchers j). \<not> under r r' \<and> \<not> under r' r))"
    using canonical_apart [unfolded list_all_iff] in_ALL_KEYS [of k] in_ALL_KEYS [of j] by blast
  with assms show ?thesis by blast
qed

lemma descriptor_of: "\<exists>d \<in> set workspaceDescriptors. wd_key d = k"
  by (cases k) (simp_all add: workspaceDescriptors_def)

text \<open>
  Every path of a workspace of the application leads to that workspace, and to no other: a
  path under one of the \<^verbatim>\<open>/app\<close> routes of a workspace is resolved to its key.
\<close>

theorem canonical_paths_resolve:
  assumes "r \<in> set (workspaceRouteMatchers k)" and "startsWith r ''/app/''" and "under (normalizeRoute p) r" and "p \<noteq> []"
  shows "resolveWorkspaceKeyFromPath (Some p) = k"
proof -
  have k: "workspaceMatches p k" using assms(1,3) by (auto simp: ws.matches_iff list_ex_iff)
  have only: "j = k" if m: "workspaceMatches p j" for j
  proof (rule ccontr)
    assume "j \<noteq> k"
    obtain r' where r': "r' \<in> set (workspaceRouteMatchers j)" "under (normalizeRoute p) r'"
      using m unfolding ws.matches_iff list_ex_iff by blast
    from canonical_apartD [OF assms(1,2) \<open>j \<noteq> k\<close> r'(1)] have "\<not> under r r' \<and> \<not> under r' r" .
    with under_comparable [OF assms(3) r'(2)] show False by blast
  qed
  obtain d where d: "find (\<lambda>d. workspaceMatches p (wd_key d)) workspaceDescriptors = Some d"
    using descriptor_of [of k] k by (cases "find (\<lambda>d. workspaceMatches p (wd_key d)) workspaceDescriptors") (auto simp: find_None_iff)
  then have "wd_key d = k" using only find_SomeD by metis
  then show ?thesis using d assms(4) by (simp add: resolveWorkspaceKeyFromPath_def)
qed

theorem canonical_paths_resolve_witness:
  "resolveWorkspaceKeyFromPath (Some ''/app/billing/recovery/inv-7?tab=2'') = WsBilling"
proof (rule canonical_paths_resolve)
  show "''/app/billing/recovery'' \<in> set (workspaceRouteMatchers WsBilling)" by simp
  show "startsWith ''/app/billing/recovery'' ''/app/''" by code_simp
  show "under (normalizeRoute ''/app/billing/recovery/inv-7?tab=2'') ''/app/billing/recovery''" by code_simp
qed simp

text \<open>
  The legacy paths do not reach their workspaces: the overview's matcher for the dashboard is
  tried first, so that every path under \<^verbatim>\<open>/dashboard\<close> is the overview's.
\<close>

theorem legacy_paths_overview:
  assumes "under (normalizeRoute p) ''/dashboard''"
  shows "resolveWorkspaceKeyFromPath (Some p) = WsOverview"
proof -
  have "workspaceMatches p WsOverview" using assms by (auto simp: ws.matches_iff list_ex_iff)
  then show ?thesis by (simp add: resolveWorkspaceKeyFromPath_def workspaceDescriptors_def)
qed

text \<open>
  A path belongs to an admin view exactly when it is under the view's route; so the page of
  a view shows that view.
\<close>

lemma admin_apart: "list_all (\<lambda>v. list_all (\<lambda>u. u = v \<or> admin.apart u v) ADMIN_VIEWS) ADMIN_VIEWS"
  unfolding admin.apart_def by code_simp

lemma in_ADMIN_VIEWS: "v \<in> set ADMIN_VIEWS"
  by (cases v) (simp_all add: ADMIN_VIEWS_def)

theorem admin_view_of_path:
  "inferAdminViewFromPathname p = Some v \<longleftrightarrow> prefix (segments (ADMIN_VIEW_ROUTES v)) (segments p)"
proof -
  have only: "u = v" if "adminViewMatches p u" "adminViewMatches p v" for u
    using admin.apart_disjoint [of u v p] admin_apart that in_ADMIN_VIEWS by (auto simp: list_all_iff)
  have "inferAdminViewFromPathname p = Some v \<longleftrightarrow> adminViewMatches p v"
  proof
    assume "inferAdminViewFromPathname p = Some v"
    then show "adminViewMatches p v" unfolding inferAdminViewFromPathname_def using find_SomeD by fastforce
  next
    assume v: "adminViewMatches p v"
    then obtain u where u: "find (adminViewMatches p) ADMIN_VIEWS = Some u"
      using in_ADMIN_VIEWS [of v] by (cases "find (adminViewMatches p) ADMIN_VIEWS") (auto simp: find_None_iff)
    then have "u = v" using only v find_SomeD by metis
    with u show "inferAdminViewFromPathname p = Some v" by (simp add: inferAdminViewFromPathname_def)
  qed
  then show ?thesis by (simp add: admin.matches_segments)
qed

text \<open>
  At most one tab of a tenant is marked as the current one, whatever the path and the
  tenant's identifier.
\<close>

lemma under_append: "under (b @ t) (b @ t') \<longleftrightarrow> under t t'"
  by (simp add: under_def startsWith_def)

lemma tabs_facts:
  "list_all (\<lambda>(l, t). t \<noteq> [] \<and> last t \<noteq> CHR ''/'' \<and> \<not> under [] t \<and> \<not> under ''/overview'' t \<and>
     list_all (\<lambda>(l', t'). t = t' \<or> \<not> under t t' \<and> \<not> under t' t) TENANT_TABS) TENANT_TABS"
  by code_simp

lemma tab_facts:
  assumes "(l, t) \<in> set TENANT_TABS"
  shows "t \<noteq> []" "last t \<noteq> CHR ''/''" "\<not> under [] t" "\<not> under ''/overview'' t"
    "(l', t') \<in> set TENANT_TABS \<Longrightarrow> under t t' \<or> under t' t \<Longrightarrow> t = t'"
  using tabs_facts assms by (auto simp: list_all_iff)

lemma tabs_normal:
  assumes "(l, t) \<in> set TENANT_TABS"
  shows "normalizeTenantPath (b @ t) = b @ t"
proof -
  obtain u c where t: "t = u @ [c]" "c \<noteq> CHR ''/''"
    using tab_facts(1,2) [OF assms] by (cases t rule: rev_cases) auto
  then show ?thesis by (simp add: normalizeTenantPath_def Let_def)
qed

lemma tab_active_unique:
  assumes "(l, t) \<in> set TENANT_TABS" "(l', t') \<in> set TENANT_TABS"
    and "isExactOrChildPath p (b @ t)" "isExactOrChildPath p (b @ t')"
  shows "t = t'"
proof -
  have "under t t' \<or> under t' t"
    using assms(3,4) tab.matches_comparable [of p "b @ t" "b @ t'"]
    by (simp add: tabs_normal [OF assms(1)] tabs_normal [OF assms(2)] under_append)
  then show ?thesis using tab_facts(5) [OF assms(1,2)] by blast
qed

lemma overview_not_tab:
  assumes "(l, t) \<in> set TENANT_TABS" "isTenantOverviewPath p i"
  shows "\<not> isExactOrChildPath p (''/app/tenants/'' @ i @ t)"
proof -
  have n: "normalizeTenantPath (''/app/tenants/'' @ i @ t) = ''/app/tenants/'' @ i @ t"
    using tabs_normal [OF assms(1), of "''/app/tenants/'' @ i"] by simp
  consider "normalizeTenantPath p = (''/app/tenants/'' @ i) @ []" | "normalizeTenantPath p = (''/app/tenants/'' @ i) @ ''/overview''"
    | s where "normalizeTenantPath p = ''/tenants/'' @ s"
    using assms(2) by (auto simp: isTenantOverviewPath_def tenantRoots_def Let_def)
  then show ?thesis
  proof cases
    case 3
    then show ?thesis using n by (simp add: isExactOrChildPath_def Let_def startsWith_def)
  next
    case 1
    then have "isExactOrChildPath p (''/app/tenants/'' @ i @ t) \<longleftrightarrow> under [] t"
      using n under_append [of "''/app/tenants/'' @ i" "[]" t] by (simp add: tab.matches_iff)
    then show ?thesis using tab_facts(3) [OF assms(1)] by simp
  next
    case 2
    then have "isExactOrChildPath p (''/app/tenants/'' @ i @ t) \<longleftrightarrow> under ''/overview'' t"
      using n under_append [of "''/app/tenants/'' @ i" "''/overview''" t] by (simp add: tab.matches_iff)
    then show ?thesis using tab_facts(4) [OF assms(1)] by simp
  qed
qed

lemma tabs_labelled: "(l, t) \<in> set TENANT_TABS \<Longrightarrow> (l', t) \<in> set TENANT_TABS \<Longrightarrow> l = l'"
proof -
  have "list_all (\<lambda>(l, t). list_all (\<lambda>(l', t'). t = t' \<longrightarrow> l = l') TENANT_TABS) TENANT_TABS" by code_simp
  then show "(l, t) \<in> set TENANT_TABS \<Longrightarrow> (l', t) \<in> set TENANT_TABS \<Longrightarrow> l = l'" by (auto simp: list_all_iff)
qed

lemma length_filter_unique: "distinct xs \<Longrightarrow> (\<And>x y. x \<in> set xs \<Longrightarrow> y \<in> set xs \<Longrightarrow> P x \<Longrightarrow> P y \<Longrightarrow> x = y) \<Longrightarrow>
    length (filter P xs) \<le> 1"
  by (induction xs) (force simp: filter_empty_conv)+

theorem one_tenant_tab_active:
  "length (filter te_active (tenantNavItems p i)) \<le> 1"
proof -
  let ?b = "''/app/tenants/'' @ i"
  let ?f = "\<lambda>(label, tab). \<lparr>te_label = label, te_href = ?b @ tab, te_active = isExactOrChildPath p (?b @ tab)\<rparr>"
  have 1: "length (filter (\<lambda>(l, t). isExactOrChildPath p (?b @ t)) TENANT_TABS) \<le> 1"
  proof (rule length_filter_unique)
    show "distinct TENANT_TABS" by (simp add: TENANT_TABS_def)
    fix x y assume xy: "x \<in> set TENANT_TABS" "y \<in> set TENANT_TABS"
      "case x of (l, t) \<Rightarrow> isExactOrChildPath p (?b @ t)" "case y of (l, t) \<Rightarrow> isExactOrChildPath p (?b @ t)"
    obtain l t l' t' where p: "x = (l, t)" "y = (l', t')" by (cases x; cases y) blast
    with xy have "t = t'" using tab_active_unique [of l t l' t' p ?b] by simp
    with xy(1,2) p show "x = y" using tabs_labelled [of l t l'] by simp
  qed
  have 2: "te_active \<circ> ?f = (\<lambda>(l, t). isExactOrChildPath p (?b @ t))" by auto
  show ?thesis
  proof (cases "isTenantOverviewPath p i")
    case True
    then have "filter (\<lambda>(l, t). isExactOrChildPath p (?b @ t)) TENANT_TABS = []"
      using overview_not_tab [OF _ True] by (auto simp: filter_empty_conv)
    then show ?thesis using True 2 by (simp add: tenantNavItems_def Let_def filter_map)
  next
    case False
    then show ?thesis using 1 2 by (simp add: tenantNavItems_def Let_def filter_map)
  qed
qed

text \<open>The sidebar has no such rule: two entries are marked on the page of the active tenants.\<close>

theorem sidebar_two_entries_active:
  "map sn_label (filter (isShellNavItemActive ''/app/tenants/active'') (ss_items tenantsSection)) = [''Registry'', ''Active'']"
  by code_simp

text \<open>
  Without the operator's role no entry of the navigation leads to the admin console, and all
  entries lead to pages of the application.
\<close>

theorem admin_entries_hidden:
  "list_all (\<lambda>s. list_all (\<lambda>x. startsWith (sn_href x) ''/app/'' \<and> \<not> under (sn_href x) ''/app/admin'') (ss_items s))
     (buildAppNavSections False) \<and>
   list_all (\<lambda>s. list_all (\<lambda>x. startsWith (sn_href x) ''/app/'') (ss_items s)) (buildAppNavSections True) \<and>
   take (length (buildAppNavSections False)) (buildAppNavSections True) = buildAppNavSections False"
  by code_simp

subsection \<open>The trail of breadcrumbs\<close>

definition routeOf :: "string list \<Rightarrow> string" where
  "routeOf ss = concat (map (\<lambda>s. ''/'' @ s) ss)"

definition plainSegment :: "string \<Rightarrow> bool" where
  "plainSegment s \<longleftrightarrow> s \<noteq> [] \<and> list_all (\<lambda>c. c \<notin> set ''/?#'') s"

lemma routeOf_join: "ss \<noteq> [] \<Longrightarrow> routeOf ss = ''/'' @ joinWith ''/'' ss"
proof (induction ss)
  case (Cons s ss)
  then show ?case by (cases "ss = []") (simp_all add: routeOf_def joinWith_Cons)
qed simp

lemma segments_routeOf:
  assumes "ss \<noteq> []" and "list_all plainSegment ss"
  shows "segments (routeOf ss) = [] # ss"
proof -
  have "segments (joinWith ''/'' ss) = ss"
    unfolding segments_def by (rule splitOn_join) (use assms in \<open>auto simp: list_all_iff plainSegment_def\<close>)
  moreover have "segments ([] @ ''/'' @ joinWith ''/'' ss) = segments [] @ segments (joinWith ''/'' ss)"
    by (rule segments_append)
  moreover have "segments [] = [[]]" by (simp add: segments_def splitOn_def)
  ultimately show ?thesis using routeOf_join [OF assms(1)] by simp
qed

lemma routeOf_plain: "list_all plainSegment ss \<Longrightarrow> pathOnly (routeOf ss) = routeOf ss"
  unfolding pathOnly_def routeOf_def
  by (rule takeWhile_eq_all_conv [THEN iffD2]) (auto simp: list_all_iff plainSegment_def)

lemma crumbsFrom_trail:
  "ss \<noteq> [] \<Longrightarrow> map bc_label (crumbsFrom (cur @ routeOf ss) cur ss) = map titleCase ss \<and>
   map bc_href (crumbsFrom (cur @ routeOf ss) cur ss) =
     map (\<lambda>xs. Some (cur @ routeOf xs)) (butlast (tl (prefixes ss))) @ [None]"
proof (induction ss arbitrary: cur rule: induct_list012)
  case (2 s)
  then show ?case by (simp add: routeOf_def)
next
  case (3 s t ss)
  have r: "cur @ routeOf (s # t # ss) = (cur @ ''/'' @ s) @ routeOf (t # ss)" by (simp add: routeOf_def)
  have ne: "cur @ ''/'' @ s \<noteq> (cur @ ''/'' @ s) @ routeOf (t # ss)" by (simp add: routeOf_def)
  have "butlast (tl (prefixes (s # t # ss))) = [s] # map ((#) s) (butlast (tl (prefixes (t # ss))))"
    by (simp add: map_butlast)
  then show ?case
    using 3(2) [of "cur @ ''/'' @ s"] ne unfolding r crumbsFrom.simps Let_def
    by (simp add: routeOf_def)
qed simp

text \<open>
  The breadcrumbs lead back step by step: for a path of plain segments there is the root and
  one crumb for each segment, named after it, linked to the path up to it, and the last one, the
  page itself, is not a link.
\<close>

theorem breadcrumbs_trail:
  assumes "ss \<noteq> []" and "list_all plainSegment ss"
  shows "let crumbs = buildWorkspaceBreadcrumbs (routeOf ss) label href in
    map bc_label crumbs = label # map titleCase ss \<and>
    map bc_href crumbs = Some href # map (\<lambda>xs. Some (routeOf xs)) (butlast (tl (prefixes ss))) @ [None]"
proof -
  have "startsWith (routeOf ss) ''/''" using assms(1) by (cases ss) (simp_all add: routeOf_def startsWith_def)
  moreover have "filter (\<lambda>s. s \<noteq> []) (splitOn ''/'' (routeOf ss)) = ss"
    using segments_routeOf [OF assms] assms(2) by (auto simp: segments_def list_all_iff plainSegment_def intro: filter_True)
  ultimately show ?thesis
    using crumbsFrom_trail [OF assms(1), of "[]"] routeOf_plain [OF assms(2)]
    by (simp add: buildWorkspaceBreadcrumbs_def Let_def)
qed

theorem breadcrumbs_trail_witness:
  "map bc_href (buildWorkspaceBreadcrumbs (routeOf [''app'', ''tenants'', ''active'']) ''Home'' ''/'') =
    [Some ''/'', Some ''/app'', Some ''/app/tenants'', None]"
proof -
  have "list_all plainSegment [''app'', ''tenants'', ''active'']" by code_simp
  from breadcrumbs_trail [OF _ this, of "''Home''" "''/''"] show ?thesis by (simp add: Let_def routeOf_def)
qed

text \<open>With a slash at the end the page itself becomes a link.\<close>

theorem breadcrumbs_trailing_slash:
  "map bc_href (buildWorkspaceBreadcrumbs ''/app/tenants/'' ''Home'' ''/'') = [Some ''/'', Some ''/app'', Some ''/app/tenants'']"
  by code_simp

end
