(* ===== verification/Workspace_Queue.thy ===== *)
theory Workspace_Queue
  imports Tenant_Repository
begin

section \<open>The workspace queue\<close>

text \<open>
  The domain (\<^verbatim>\<open>domains/tenant-ops/domain/workspaceQueue.ts\<close>), repository and use cases of the
  workspace queue (\<^verbatim>\<open>infrastructure/workspaceQueueRepository.ts\<close>,
  \<^verbatim>\<open>application/workspaceQueueUseCases.ts\<close>) and the state of the page that shows it
  (\<^verbatim>\<open>domains/dashboard/components/WorkspaceQueuePage.tsx\<close>).
\<close>

subsection \<open>Filters for servers without the paged endpoint\<close>

definition normalizeWorkspaceQueueValue :: "string option \<Rightarrow> string" where
  "normalizeWorkspaceQueueValue v = toLowerCase (trim (nullish v []))"

record FallbackFilterOptions =
  ff_statusFilter :: "string list option"
  ff_billingFilter :: "string list option"
  ff_billingFilterMode :: "filter_mode option"
  ff_paymentChannelFilter :: "string list option"

text \<open>The normalised set of a filter, \<open>None\<close> when the filter is missing or empty; and the test of
  an optional field against it.\<close>

definition allowedSet :: "string list option \<Rightarrow> string list option" where
  "allowedSet f =
     (case f of None \<Rightarrow> None | Some [] \<Rightarrow> None
      | Some vs \<Rightarrow> Some (map (\<lambda>v. normalizeWorkspaceQueueValue (Some v)) vs))"

definition fieldAllowed :: "string list option \<Rightarrow> string option \<Rightarrow> bool" where
  "fieldAllowed allowed v =
     (case allowed of None \<Rightarrow> False
      | Some vs \<Rightarrow> truthyStr v \<and> normalizeWorkspaceQueueValue v \<in> set vs)"

definition applyWorkspaceQueueFallbackFilters :: "Tenant list \<Rightarrow> FallbackFilterOptions \<Rightarrow> Tenant list" where
  "applyWorkspaceQueueFallbackFilters tenants options =
     (let allowedStatus = allowedSet (ff_statusFilter options);
          allowedBilling = allowedSet (ff_billingFilter options);
          allowedChannel = allowedSet (ff_paymentChannelFilter options);
          statusMatch = (\<lambda>tenant. case allowedStatus of None \<Rightarrow> False
            | Some vs \<Rightarrow> normalizeWorkspaceQueueValue (Some (tn_status tenant)) \<in> set vs) in
      if allowedStatus \<noteq> None \<and> allowedBilling \<noteq> None \<and>
         nullish (ff_billingFilterMode options) AndMode = OrMode then
        filter (\<lambda>tenant. statusMatch tenant \<or>
          fieldAllowed allowedBilling (tn_billing_status tenant) \<or>
          fieldAllowed allowedChannel (tn_payment_channel tenant)) tenants
      else
        (let f1 = (if allowedStatus \<noteq> None then filter statusMatch tenants else tenants);
             f2 = (if allowedBilling \<noteq> None
                   then filter (\<lambda>tenant. fieldAllowed allowedBilling (tn_billing_status tenant)) f1 else f1) in
         if allowedChannel \<noteq> None
         then filter (\<lambda>tenant. fieldAllowed allowedChannel (tn_payment_channel tenant)) f2 else f2))"

definition applyWorkspaceQueueSearchFallback :: "Tenant list \<Rightarrow> string \<Rightarrow> Tenant list" where
  "applyWorkspaceQueueSearchFallback tenants search =
     (let term = toLowerCase (trim search) in
      if term = [] then tenants
      else filter (\<lambda>tenant. list_ex
             (\<lambda>v. case v of None \<Rightarrow> False | Some s \<Rightarrow> includesStr (toLowerCase s) term)
             [Some (tn_company_name tenant), Some (tn_subdomain tenant), Some (tn_domain tenant),
              tn_payment_channel tenant]) tenants)"

subsection \<open>Metrics\<close>

definition PROVISIONING_QUEUE_STATUSES :: "string list" where
  "PROVISIONING_QUEUE_STATUSES =
     [''pending'', ''provisioning'', ''upgrading'', ''restoring'', ''pending_deletion'']"

definition PROVISIONING_STATUSES :: "string list" where
  "PROVISIONING_STATUSES =
     [''pending'', ''pending_payment'', ''provisioning'', ''upgrading'', ''restoring'', ''pending_deletion'']"

definition SUSPENDED_STATUSES :: "string list" where
  "SUSPENDED_STATUSES = [''suspended'', ''suspended_admin'', ''suspended_billing'']"

definition BILLING_ISSUE_STATUSES :: "string list" where
  "BILLING_ISSUE_STATUSES = [''failed'', ''past_due'', ''unpaid'', ''cancelled'']"

record WorkspaceQueueMetrics =
  qm_totalTenants :: nat
  qm_activeTenants :: nat
  qm_pendingPaymentTenants :: nat
  qm_provisioningQueueTenants :: nat
  qm_suspendedBillingTenants :: nat
  qm_provisioningTenants :: nat
  qm_failedTenants :: nat
  qm_failedBillingTenants :: nat
  qm_billingQueueCount :: nat
  qm_suspendedTenants :: nat
  qm_needsAttentionCount :: nat

definition statusOf :: "Tenant \<Rightarrow> string" where
  "statusOf tenant = normalizeWorkspaceQueueValue (Some (tn_status tenant))"

definition countIf :: "(Tenant \<Rightarrow> bool) \<Rightarrow> Tenant list \<Rightarrow> nat" where
  "countIf P tenants = length (filter P tenants)"

definition billingIssue :: "Tenant \<Rightarrow> bool" where
  "billingIssue tenant \<longleftrightarrow> truthyStr (tn_billing_status tenant) \<and>
     normalizeWorkspaceQueueValue (tn_billing_status tenant) \<in> set BILLING_ISSUE_STATUSES"

definition deriveWorkspaceQueueMetrics :: "Tenant list \<Rightarrow> nat \<Rightarrow> WorkspaceQueueMetrics" where
  "deriveWorkspaceQueueMetrics tenants activeJobs =
     (let activeTenants = countIf (\<lambda>t. statusOf t = ''active'') tenants;
          pendingPaymentTenants = countIf (\<lambda>t. statusOf t = ''pending_payment'') tenants;
          provisioningQueueTenants = countIf (\<lambda>t. statusOf t \<in> set PROVISIONING_QUEUE_STATUSES) tenants;
          suspendedBillingTenants = countIf (\<lambda>t. statusOf t = ''suspended_billing'') tenants;
          provisioningTenants = countIf (\<lambda>t. statusOf t \<in> set PROVISIONING_STATUSES) tenants;
          failedTenants = countIf (\<lambda>t. statusOf t = ''failed'') tenants;
          failedBillingTenants = countIf billingIssue tenants;
          billingQueueCount = pendingPaymentTenants + suspendedBillingTenants + failedBillingTenants;
          suspendedTenants = countIf (\<lambda>t. statusOf t \<in> set SUSPENDED_STATUSES) tenants in
      \<lparr>qm_totalTenants = length tenants, qm_activeTenants = activeTenants,
       qm_pendingPaymentTenants = pendingPaymentTenants,
       qm_provisioningQueueTenants = provisioningQueueTenants,
       qm_suspendedBillingTenants = suspendedBillingTenants, qm_provisioningTenants = provisioningTenants,
       qm_failedTenants = failedTenants, qm_failedBillingTenants = failedBillingTenants,
       qm_billingQueueCount = billingQueueCount, qm_suspendedTenants = suspendedTenants,
       qm_needsAttentionCount = provisioningTenants + failedTenants + activeJobs\<rparr>)"

subsection \<open>Loading\<close>

record LoadWorkspaceQueuePageParams =
  lp_page :: int
  lp_limit :: int
  lp_statusFilter :: "StrOrList option"
  lp_search :: "string option"
  lp_plan :: "string option"
  lp_billingFilter :: "string list option"
  lp_paymentChannelFilter :: "string list option"
  lp_billingFilterMode :: "filter_mode option"

definition loadWorkspaceQueuePage :: "LoadWorkspaceQueuePageParams \<Rightarrow> TenantQueueData io" where
  "loadWorkspaceQueuePage params =
     pageOrAll
       (api_listTenantsPaged (lp_page params) (lp_limit params) (lp_statusFilter params) (lp_search params)
          (lp_plan params) (map_option Many (lp_billingFilter params))
          (map_option Many (lp_paymentChannelFilter params)) (nullish (lp_billingFilterMode params) AndMode))
       (lp_page params)"

record LoadWorkspaceQueueParams =
  lq_page :: int
  lq_limit :: int
  lq_showStatusFilter :: bool
  lq_statusFilter :: "string list option"
  lq_statusFilterValue :: string
  lq_search :: string
  lq_planFilter :: string
  lq_billingFilter :: "string list option"
  lq_paymentChannelFilter :: "string list option"
  lq_billingFilterMode :: "filter_mode option"

record WorkspaceQueueLoadResult =
  wl_visibleTenants :: "Tenant list"
  wl_metricsTenants :: "Tenant list"
  wl_total :: int
  wl_page :: int
  wl_usingServerPagination :: bool

definition resolveWorkspaceQueueStatusFilter :: "bool \<Rightarrow> string list option \<Rightarrow> string \<Rightarrow> StrOrList option" where
  "resolveWorkspaceQueueStatusFilter showStatusFilter statusFilter statusFilterValue =
     (if \<not> showStatusFilter \<and> nullish statusFilter [] \<noteq> [] then map_option Many statusFilter
      else if statusFilterValue = ''all'' then None
      else Some (One statusFilterValue))"

fun fallbackStatus :: "StrOrList option \<Rightarrow> string list option" where
  "fallbackStatus None = None"
| "fallbackStatus (Some (Many vs)) = Some vs"
| "fallbackStatus (Some (One s)) = (if s = [] then None else Some [s])"

definition queueRequest :: "LoadWorkspaceQueueParams \<Rightarrow> LoadWorkspaceQueuePageParams" where
  "queueRequest params =
     \<lparr>lp_page = lq_page params, lp_limit = lq_limit params,
      lp_statusFilter = resolveWorkspaceQueueStatusFilter (lq_showStatusFilter params)
        (lq_statusFilter params) (lq_statusFilterValue params),
      lp_search = orNull (trim (lq_search params)),
      lp_plan = (if lq_planFilter params = ''all'' then None else Some (lq_planFilter params)),
      lp_billingFilter = lq_billingFilter params,
      lp_paymentChannelFilter = lq_paymentChannelFilter params,
      lp_billingFilterMode = Some (nullish (lq_billingFilterMode params) AndMode)\<rparr>"

definition queueFallback :: "LoadWorkspaceQueueParams \<Rightarrow> FallbackFilterOptions" where
  "queueFallback params =
     \<lparr>ff_statusFilter = fallbackStatus (resolveWorkspaceQueueStatusFilter (lq_showStatusFilter params)
        (lq_statusFilter params) (lq_statusFilterValue params)),
      ff_billingFilter = lq_billingFilter params,
      ff_billingFilterMode = Some (nullish (lq_billingFilterMode params) AndMode),
      ff_paymentChannelFilter = lq_paymentChannelFilter params\<rparr>"

definition loadWorkspaceQueue :: "LoadWorkspaceQueueParams \<Rightarrow> WorkspaceQueueLoadResult io" where
  "loadWorkspaceQueue params =
     await (loadWorkspaceQueuePage (queueRequest params)) (\<lambda>loaded.
       if td_usingServerPagination loaded then
         ret \<lparr>wl_visibleTenants = td_tenants loaded, wl_metricsTenants = td_tenants loaded,
              wl_total = td_total loaded, wl_page = td_page loaded, wl_usingServerPagination = True\<rparr>
       else
         (let metricsTenants = applyWorkspaceQueueFallbackFilters (td_tenants loaded) (queueFallback params) in
          ret \<lparr>wl_visibleTenants = applyWorkspaceQueueSearchFallback metricsTenants (lq_search params),
               wl_metricsTenants = metricsTenants, wl_total = td_total loaded, wl_page = td_page loaded,
               wl_usingServerPagination = False\<rparr>))"

definition deriveWorkspaceQueueSnapshot :: "Tenant list \<Rightarrow> nat \<Rightarrow> WorkspaceQueueMetrics" where
  "deriveWorkspaceQueueSnapshot tenants activeJobs = deriveWorkspaceQueueMetrics tenants activeJobs"

definition loadWorkspaceQueueData :: "LoadWorkspaceQueueParams \<Rightarrow> TenantQueueData io" where
  "loadWorkspaceQueueData params = loadWorkspaceQueuePage (queueRequest params)"

definition loadWorkspaceCurrentUserProfile :: "UserProfile io" where
  "loadWorkspaceCurrentUserProfile = fetchCurrentUserProfile"

definition resendWorkspaceVerificationEmail :: "MessageResponse io" where
  "resendWorkspaceVerificationEmail = resendTenantVerificationEmail"

definition createWorkspaceTenant :: "TenantCreatePayload \<Rightarrow> json io" where
  "createWorkspaceTenant payload = createTenantWorkspace payload"

definition retryWorkspaceProvisioning :: "string \<Rightarrow> Job OptionalEndpointResult io" where
  "retryWorkspaceProvisioning tenantId = retryTenantById tenantId"

definition updateWorkspaceTenantPlan :: "string \<Rightarrow> TenantUpdatePayload \<Rightarrow> Tenant OptionalEndpointResult io" where
  "updateWorkspaceTenantPlan tenantId payload = updateTenantWorkspace tenantId payload"

definition loadWorkspaceBillingPortal :: "BillingPortalResponse OptionalEndpointResult io" where
  "loadWorkspaceBillingPortal = fetchWorkspaceBillingPortal"

definition queueWorkspaceBackup :: "string \<Rightarrow> Job io" where
  "queueWorkspaceBackup tenantId = enqueueTenantBackup tenantId"

definition resetWorkspaceTenantAdminPassword :: "string \<Rightarrow> string option \<Rightarrow> ResetAdminPasswordResult io" where
  "resetWorkspaceTenantAdminPassword tenantId newPassword = resetTenantAdminPassword tenantId newPassword"

definition queueWorkspaceTenantDelete :: "string \<Rightarrow> Job io" where
  "queueWorkspaceTenantDelete tenantId = enqueueTenantDelete tenantId"

definition onWorkspaceSessionExpired :: "'l \<Rightarrow> world \<Rightarrow> 'l list \<Rightarrow> 'l list" where
  "onWorkspaceSessionExpired listener = subscribeWorkspaceSessionExpired listener"

definition isWorkspaceQueueSessionExpired :: "exn \<Rightarrow> bool" where
  "isWorkspaceQueueSessionExpired error = isSessionExpiredError error"

definition toWorkspaceQueueErrorMessage :: "exn \<Rightarrow> string \<Rightarrow> string" where
  "toWorkspaceQueueErrorMessage error fallback = getApiErrorMessage error fallback"

subsection \<open>The page\<close>

text \<open>
  The state of \<^verbatim>\<open>WorkspaceQueuePage.tsx\<close>: the jobs seen for each tenant, the filters, the last
  data and error of the query, the notifications it raised and the windows it opened.
\<close>

record QueueConfig =
  qc_title :: string
  qc_adminScope :: bool
  qc_statusFilter :: "string list option"
  qc_billingFilter :: "string list option"
  qc_billingFilterMode :: filter_mode
  qc_paymentChannelFilter :: "string list option"
  qc_handoffLinks :: "(string \<times> string) list"
  qc_showStatusFilter :: bool
  qc_attentionNote :: "string option"

record queue_page =
  wq_jobs :: "(string \<times> Job) list"
  wq_verificationNotice :: "string option"
  wq_page :: int
  wq_statusFilterValue :: string
  wq_planFilter :: string
  wq_search :: string
  wq_billingPortalUrl :: "string option"
  wq_billingPortalError :: "string option"
  wq_data :: "WorkspaceQueueLoadResult option"
  wq_queueError :: "exn option"
  wq_user :: "UserProfile option"
  wq_userError :: "exn option"
  wq_notifications :: "(NotificationType \<times> string \<times> string) list"
  wq_opened :: "string list"

definition QUEUE_LIMIT :: int where "QUEUE_LIMIT = 20"

definition initialQueuePage :: queue_page where
  "initialQueuePage = \<lparr>wq_jobs = [], wq_verificationNotice = None, wq_page = 1, wq_statusFilterValue = ''all'',
     wq_planFilter = ''all'', wq_search = [], wq_billingPortalUrl = None, wq_billingPortalError = None,
     wq_data = None, wq_queueError = None, wq_user = None, wq_userError = None, wq_notifications = [],
     wq_opened = []\<rparr>"

definition queueParams :: "QueueConfig \<Rightarrow> queue_page \<Rightarrow> LoadWorkspaceQueueParams" where
  "queueParams cfg pg = \<lparr>lq_page = wq_page pg, lq_limit = QUEUE_LIMIT,
     lq_showStatusFilter = qc_showStatusFilter cfg, lq_statusFilter = qc_statusFilter cfg,
     lq_statusFilterValue = wq_statusFilterValue pg, lq_search = wq_search pg, lq_planFilter = wq_planFilter pg,
     lq_billingFilter = qc_billingFilter cfg, lq_paymentChannelFilter = qc_paymentChannelFilter cfg,
     lq_billingFilterMode = Some (qc_billingFilterMode cfg)\<rparr>"

definition runQueueQuery :: "QueueConfig \<Rightarrow> queue_page \<Rightarrow> world \<Rightarrow> queue_page \<times> world" where
  "runQueueQuery cfg pg w =
     (case loadWorkspaceQueue (queueParams cfg pg) w of
        (Inr d, w1) \<Rightarrow> (pg\<lparr>wq_data := Some d, wq_queueError := None\<rparr>, w1)
      | (Inl e, w1) \<Rightarrow> (pg\<lparr>wq_queueError := Some e\<rparr>, w1))"

definition visibleTenants :: "queue_page \<Rightarrow> Tenant list" where
  "visibleTenants pg = (case wq_data pg of None \<Rightarrow> [] | Some d \<Rightarrow> wl_visibleTenants d)"

definition queueTotal :: "queue_page \<Rightarrow> int" where
  "queueTotal pg = (case wq_data pg of None \<Rightarrow> 0 | Some d \<Rightarrow> wl_total d)"

text \<open>\<^verbatim>\<open>Math.max(1, Math.ceil(total / limit))\<close>.\<close>

definition totalPages :: "queue_page \<Rightarrow> int" where
  "totalPages pg = max 1 (- ((- queueTotal pg) div QUEUE_LIMIT))"

definition queueErrorText :: "queue_page \<Rightarrow> string option" where
  "queueErrorText pg =
     (case wq_queueError pg of
        Some e \<Rightarrow> Some (toWorkspaceQueueErrorMessage e ''Failed to load tenants'')
      | None \<Rightarrow>
          (case wq_userError pg of
             Some e \<Rightarrow> Some (toWorkspaceQueueErrorMessage e ''Failed to load profile'')
           | None \<Rightarrow> None))"

text \<open>The effects.\<close>

definition followServerPage :: "queue_page \<Rightarrow> queue_page" where
  "followServerPage pg =
     (case wq_data pg of None \<Rightarrow> pg
      | Some d \<Rightarrow> if wl_page d \<noteq> 0 \<and> wl_page d \<noteq> wq_page pg then pg\<lparr>wq_page := wl_page d\<rparr> else pg)"

definition pruneJobs :: "queue_page \<Rightarrow> queue_page" where
  "pruneJobs pg =
     (case wq_data pg of None \<Rightarrow> pg
      | Some d \<Rightarrow>
          pg\<lparr>wq_jobs := filter (\<lambda>(tenantId, job). tenantId \<in> tn_id ` set (wl_visibleTenants d)) (wq_jobs pg)\<rparr>)"

definition clearVerification :: "queue_page \<Rightarrow> queue_page" where
  "clearVerification pg =
     (case wq_user pg of None \<Rightarrow> pg
      | Some u \<Rightarrow> if usr_email_verified u then pg\<lparr>wq_verificationNotice := None\<rparr> else pg)"

definition resetPage :: "queue_page \<Rightarrow> queue_page" where
  "resetPage pg = pg\<lparr>wq_page := 1\<rparr>"

definition clampPage :: "queue_page \<Rightarrow> queue_page" where
  "clampPage pg = (if wq_page pg > totalPages pg then pg\<lparr>wq_page := totalPages pg\<rparr> else pg)"

definition lockStatusFilter :: "QueueConfig \<Rightarrow> queue_page \<Rightarrow> queue_page" where
  "lockStatusFilter cfg pg =
     (case qc_statusFilter cfg of
        Some [s] \<Rightarrow> if \<not> qc_showStatusFilter cfg then pg\<lparr>wq_statusFilterValue := s\<rparr> else pg
      | _ \<Rightarrow> pg)"

definition verifyEmailNotice :: "query \<Rightarrow> queue_page \<Rightarrow> queue_page" where
  "verifyEmailNotice searchParams pg =
     (if queryGet ''verifyEmail'' searchParams = Some ''1''
      then pg\<lparr>wq_verificationNotice := Some ''Please verify your email to unlock tenant creation.''\<rparr> else pg)"

text \<open>Derived values.\<close>

definition activeJobs :: "queue_page \<Rightarrow> nat" where
  "activeJobs pg = length (wq_jobs pg)"

definition queueSnapshot :: "queue_page \<Rightarrow> WorkspaceQueueMetrics" where
  "queueSnapshot pg =
     deriveWorkspaceQueueSnapshot (case wq_data pg of None \<Rightarrow> [] | Some d \<Rightarrow> wl_metricsTenants d) (activeJobs pg)"

definition attentionSummary :: "QueueConfig \<Rightarrow> queue_page \<Rightarrow> string" where
  "attentionSummary cfg pg =
     (let n = qm_needsAttentionCount (queueSnapshot pg) in
      nullish (qc_attentionNote cfg)
        (if n = 0 then ''All clear. No provisioning blockers right now.''
         else natStr n @ '' item(s) need attention in your queue.''))"

definition headerCrumbs :: "QueueConfig \<Rightarrow> (string \<times> string option) list" where
  "headerCrumbs cfg =
     [(if qc_adminScope cfg then (''Admin'', Some ''/app/admin/control-overview'')
       else (''Dashboard'', Some ''/app/overview'')), (qc_title cfg, None)]"

definition billingFollowUpHref :: "QueueConfig \<Rightarrow> string" where
  "billingFollowUpHref cfg = (if qc_adminScope cfg then ''/app/admin/billing-ops'' else ''/app/billing/invoices'')"

definition statusOptions :: "bool \<Rightarrow> string list" where
  "statusOptions isAdminScope =
     (if isAdminScope
      then [''all'', ''active'', ''pending_payment'', ''pending'', ''provisioning'', ''failed'', ''suspended'',
        ''suspended_admin'', ''suspended_billing'', ''upgrading'', ''restoring'', ''pending_deletion'']
      else [''all'', ''active'', ''pending_payment'', ''pending'', ''provisioning'', ''failed'', ''suspended'',
        ''upgrading'', ''restoring''])"

definition actionCenterCards :: "bool \<Rightarrow> WorkspaceQueueMetrics \<Rightarrow> (string \<times> nat) list" where
  "actionCenterCards isAdminScope m =
     (if isAdminScope
      then [(''/app/platform/onboarding'', qm_pendingPaymentTenants m),
        (''/app/platform/provisioning'', qm_provisioningQueueTenants m),
        (''/app/platform/incidents'', qm_failedTenants m),
        (''/app/tenants/suspensions'', qm_suspendedTenants m),
        (''/app/admin/billing-ops'', qm_billingQueueCount m)]
      else [(''/app/billing/invoices'', qm_pendingPaymentTenants m),
        (''/app/tenants'', qm_totalTenants m),
        (''/app/tenants/active'', qm_activeTenants m),
        (''/app/platform/onboarding'', qm_provisioningTenants m)])"

definition visibleHandoffLinks :: "QueueConfig \<Rightarrow> (string \<times> string) list" where
  "visibleHandoffLinks cfg =
     (if qc_handoffLinks cfg = [] then []
      else if qc_adminScope cfg then qc_handoffLinks cfg
      else filter (\<lambda>link. \<not> startsWith (snd link) ''/admin'') (qc_handoffLinks cfg))"

definition showRouteError :: "queue_page \<Rightarrow> bool" where
  "showRouteError pg \<longleftrightarrow> queueErrorText pg \<noteq> None \<and> visibleTenants pg = []"

definition canCreateTenants :: "queue_page \<Rightarrow> bool" where
  "canCreateTenants pg \<longleftrightarrow> (case wq_user pg of None \<Rightarrow> True | Some u \<Rightarrow> usr_email_verified u)"

text \<open>The handlers.\<close>

definition putJob :: "string \<Rightarrow> Job \<Rightarrow> (string \<times> Job) list \<Rightarrow> (string \<times> Job) list" where
  "putJob tenantId job js =
     (if tenantId \<in> fst ` set js then map (\<lambda>(k, j). (k, if k = tenantId then job else j)) js
      else js @ [(tenantId, job)])"

definition setTenantJob :: "string \<Rightarrow> Job \<Rightarrow> queue_page \<Rightarrow> queue_page" where
  "setTenantJob tenantId job pg = pg\<lparr>wq_jobs := putJob tenantId job (wq_jobs pg)\<rparr>"

definition notify :: "NotificationType \<Rightarrow> string \<Rightarrow> string \<Rightarrow> queue_page \<Rightarrow> queue_page" where
  "notify ty title body pg = pg\<lparr>wq_notifications := wq_notifications pg @ [(ty, title, body)]\<rparr>"

definition featureUnavailableMessage :: "string \<Rightarrow> string option \<Rightarrow> string" where
  "featureUnavailableMessage feature detail =
     (let base = feature @ '' isn'' @ [CHR 0xE2, CHR 0x80, CHR 0x99] @ ''t available on your workspace yet.'' in
      if truthyStr detail then base @ '' '' @ the detail else base @ '' Contact support if you need access.'')"

definition portalError :: "string \<Rightarrow> queue_page \<Rightarrow> queue_page" where
  "portalError msg pg = pg\<lparr>wq_billingPortalError := Some msg\<rparr>"

definition onRetryProvisioning :: "QueueConfig \<Rightarrow> string \<Rightarrow> queue_page \<Rightarrow> world \<Rightarrow> queue_page \<times> world" where
  "onRetryProvisioning cfg tenantId pg w =
     (case retryWorkspaceProvisioning tenantId w of
        (Inr Unsupported, w1) \<Rightarrow> (portalError (featureUnavailableMessage ''Retrying provisioning'' None) pg, w1)
      | (Inr (Supported job), w1) \<Rightarrow>
          runQueueQuery cfg
            (notify NSuccess ''Provisioning retried'' ''A new provisioning job has been queued.''
               (setTenantJob tenantId job pg)) w1
      | (Inl e, w1) \<Rightarrow> (portalError (toWorkspaceQueueErrorMessage e ''Failed to retry provisioning.'') pg, w1))"

definition onResumeCheckout :: "QueueConfig \<Rightarrow> string \<Rightarrow> queue_page \<Rightarrow> world \<Rightarrow> queue_page \<times> world" where
  "onResumeCheckout cfg tenantId pg w =
     (case api_renewCheckout tenantId w of
        (Inr Unsupported, w1) \<Rightarrow> (portalError (featureUnavailableMessage ''Resuming checkout'' None) pg, w1)
      | (Inr (Supported d), w1) \<Rightarrow>
          (if \<not> truthyStr (cr_checkout_url d) then
             (portalError ''No checkout URL was returned. Open tenant billing to continue.'' pg, w1)
           else
             runQueueQuery cfg
               (notify NSuccess ''Checkout ready'' ''Opened the latest checkout session in a new tab.''
                  (pg\<lparr>wq_opened := wq_opened pg @ [the (cr_checkout_url d)]\<rparr>)) w1)
      | (Inl e, w1) \<Rightarrow> (portalError (toWorkspaceQueueErrorMessage e ''Failed to resume checkout'') pg, w1))"

definition onResendVerification :: "queue_page \<Rightarrow> world \<Rightarrow> queue_page \<times> world" where
  "onResendVerification pg w =
     (case resendWorkspaceVerificationEmail w of
        (Inr result, w1) \<Rightarrow>
          (pg\<lparr>wq_verificationNotice :=
             Some (orElse (Some (mr_message result)) ''Verification email sent. Check your inbox.'')\<rparr>, w1)
      | (Inl e, w1) \<Rightarrow>
          (pg\<lparr>wq_verificationNotice :=
             Some (toWorkspaceQueueErrorMessage e ''Failed to resend verification email.'')\<rparr>, w1))"

definition loadBillingPortal :: "queue_page \<Rightarrow> world \<Rightarrow> queue_page \<times> world" where
  "loadBillingPortal pg w =
     (let pg1 = pg\<lparr>wq_billingPortalError := None\<rparr> in
      case loadWorkspaceBillingPortal w of
        (Inr Unsupported, w1) \<Rightarrow> (portalError ''The billing portal is temporarily unavailable.'' pg1, w1)
      | (Inr (Supported d), w1) \<Rightarrow>
          (notify NInfo ''Billing workspace ready'' ''A billing workspace link is ready to open in a new tab.''
             (pg1\<lparr>wq_billingPortalUrl := Some (bp_url d)\<rparr>), w1)
      | (Inl e, w1) \<Rightarrow> (portalError (toWorkspaceQueueErrorMessage e ''Unable to open the billing portal.'') pg1, w1))"

definition QUEUE_TERMINAL_JOB_STATUSES :: "string list" where
  "QUEUE_TERMINAL_JOB_STATUSES = [''succeeded'', ''failed'', ''deleted'', ''canceled'', ''cancelled'']"

definition onJobUpdate :: "QueueConfig \<Rightarrow> Job \<Rightarrow> queue_page \<Rightarrow> world \<Rightarrow> queue_page \<times> world" where
  "onJobUpdate cfg job pg w =
     (let pg1 = setTenantJob (jb_tenant_id job) job pg in
      if toLowerCase (jb_status job) \<in> set QUEUE_TERMINAL_JOB_STATUSES then runQueueQuery cfg pg1 w
      else (pg1, w))"

definition onTenantCreated :: "QueueConfig \<Rightarrow> TenantCreateResponse \<Rightarrow> queue_page \<Rightarrow> world \<Rightarrow> queue_page \<times> world" where
  "onTenantCreated cfg result pg w =
     (let pg1 = (case cr_job result of None \<Rightarrow> pg | Some job \<Rightarrow> setTenantJob (tn_id (cr_tenant result)) job pg) in
      runQueueQuery cfg
        (notify NSuccess ''Workspace requested''
           (''Workspace '' @ tn_domain (cr_tenant result) @ '' is queued for setup.'') pg1) w)"

definition previousPage :: "queue_page \<Rightarrow> queue_page" where
  "previousPage pg = (if wq_page pg \<le> 1 then pg else pg\<lparr>wq_page := max 1 (wq_page pg - 1)\<rparr>)"

definition nextPage :: "queue_page \<Rightarrow> queue_page" where
  "nextPage pg = (if wq_page pg \<ge> totalPages pg then pg else pg\<lparr>wq_page := min (totalPages pg) (wq_page pg + 1)\<rparr>)"

subsection \<open>Facts about the filters\<close>

lemma normalizeWorkspaceQueueValue_norm: "normalizeWorkspaceQueueValue v = normText v"
  by (simp add: normalizeWorkspaceQueueValue_def normText_def)

definition given :: "string list option \<Rightarrow> bool" where
  "given f \<longleftrightarrow> nullish f [] \<noteq> []"

definition listed :: "string list option \<Rightarrow> string option \<Rightarrow> bool" where
  "listed f v \<longleftrightarrow> normText v \<in> (\<lambda>x. normText (Some x)) ` set (nullish f [])"

lemma allowedSet_given: "allowedSet f \<noteq> None \<longleftrightarrow> given f"
  by (auto simp: allowedSet_def given_def split: option.split list.split)

lemma allowedSet_listed: "(case allowedSet f of None \<Rightarrow> False | Some vs \<Rightarrow> normalizeWorkspaceQueueValue v \<in> set vs) \<longleftrightarrow> listed f v"
  by (auto simp: allowedSet_def listed_def normalizeWorkspaceQueueValue_norm split: option.split list.split)

lemma fieldAllowed_listed: "fieldAllowed (allowedSet f) v \<longleftrightarrow> truthyStr v \<and> listed f v"
  using allowedSet_listed [of v f] by (auto simp: fieldAllowed_def split: option.splits)

lemma fallback_filters_lemma:
  "applyWorkspaceQueueFallbackFilters ts o' =
    filter (\<lambda>t.
      (let S = listed (ff_statusFilter o') (Some (tn_status t));
           B = truthyStr (tn_billing_status t) \<and> listed (ff_billingFilter o') (tn_billing_status t);
           C = truthyStr (tn_payment_channel t) \<and> listed (ff_paymentChannelFilter o') (tn_payment_channel t) in
       if ff_billingFilterMode o' = Some OrMode \<and> given (ff_statusFilter o') \<and> given (ff_billingFilter o')
       then S \<or> B \<or> C
       else (given (ff_statusFilter o') \<longrightarrow> S) \<and> (given (ff_billingFilter o') \<longrightarrow> B) \<and>
            (given (ff_paymentChannelFilter o') \<longrightarrow> C))) ts"
proof -
  have m: "nullish m AndMode = OrMode \<longleftrightarrow> m = Some OrMode" for m by (cases m) auto
  show ?thesis
    unfolding applyWorkspaceQueueFallbackFilters_def Let_def allowedSet_given allowedSet_listed fieldAllowed_listed m
    by (cases "given (ff_statusFilter o')"; cases "given (ff_billingFilter o')";
        cases "given (ff_paymentChannelFilter o')"; cases "ff_billingFilterMode o' = Some OrMode")
       (simp_all add: conj_assoc cong: filter_cong)
qed


lemma search_subset: "set (applyWorkspaceQueueSearchFallback ts s) \<subseteq> set ts"
  by (auto simp: applyWorkspaceQueueSearchFallback_def Let_def)

lemma search_blank: "trim s = [] \<Longrightarrow> applyWorkspaceQueueSearchFallback ts s = ts"
  by (simp add: applyWorkspaceQueueSearchFallback_def)

lemma search_case: "applyWorkspaceQueueSearchFallback ts (toLowerCase s) = applyWorkspaceQueueSearchFallback ts s"
  by (simp add: applyWorkspaceQueueSearchFallback_def trim_toLowerCase)

subsection \<open>Facts about loading\<close>

lemma pageOrAll_cases:
  assumes "pageOrAll m page w = (Inr d, w')"
  shows "(\<exists>p. m w = (Inr (Supported p), w') \<and> d = \<lparr>td_tenants = pr_data p, td_total = pr_total p, td_page = pr_page p,
      td_usingServerPagination = True\<rparr>) \<or>
    (\<exists>w1 ts. m w = (Inr Unsupported, w1) \<and> api_listTenants w1 = (Inr ts, w') \<and>
      d = \<lparr>td_tenants = ts, td_total = int (length ts), td_page = page, td_usingServerPagination = False\<rparr>)"
proof -
  obtain x w1 where x: "m w = (Inr x, w1)" "(case x of
         Supported d \<Rightarrow> ret \<lparr>td_tenants = pr_data d, td_total = pr_total d, td_page = pr_page d,
           td_usingServerPagination = True\<rparr>
       | Unsupported \<Rightarrow>
           await api_listTenants (\<lambda>tenants.
             ret \<lparr>td_tenants = tenants, td_total = int (length tenants), td_page = page,
               td_usingServerPagination = False\<rparr>)) w1 = (Inr d, w')"
    using assms unfolding pageOrAll_def await_Inr_iff by blast
  then show ?thesis by (cases x) (auto simp: ret_def await_Inr_iff)
qed


definition exampleParams :: "string \<Rightarrow> LoadWorkspaceQueueParams" where
  "exampleParams plan = \<lparr>lq_page = 1, lq_limit = 20, lq_showStatusFilter = True, lq_statusFilter = None,
     lq_statusFilterValue = ''all'', lq_search = [], lq_planFilter = plan, lq_billingFilter = None,
     lq_paymentChannelFilter = None, lq_billingFilterMode = None\<rparr>"

definition tenantRow :: "string \<Rightarrow> string \<Rightarrow> json" where
  "tenantRow plan status = JObj [(''id'', JStr ''t1''), (''owner_id'', JStr ''u1''), (''subdomain'', JStr ''acme''),
     (''domain'', JStr ''acme.test''), (''site_name'', JStr ''acme''), (''company_name'', JStr ''Acme''),
     (''plan'', JStr plan), (''status'', JStr status), (''created_at'', JStr ''-''), (''updated_at'', JStr ''-'')]"

definition oldServer :: world where
  "oldServer = signedIn [(3, jsonResponse 404 JNull), (4, jsonResponse 200 (JArr [tenantRow ''starter'' ''active'']))]"

lemma oldServer_queue:
  "map_sum (\<lambda>_. ()) (\<lambda>r. (map tn_plan (wl_visibleTenants r), wl_total r, wl_usingServerPagination r))
     (fst (loadWorkspaceQueue (exampleParams ''enterprise'') oldServer)) = Inr ([''starter''], 1, False)"
  by code_simp


text \<open>
  Without server paging the plan filter is lost: a queue asked for enterprise tenants shows a
  starter tenant.
\<close>

theorem plan_filter_lost:
  "\<exists>r. fst (loadWorkspaceQueue (exampleParams ''enterprise'') oldServer) = Inr r \<and>
    map tn_plan (wl_visibleTenants r) = [''starter''] \<and> \<not> wl_usingServerPagination r"
  using oldServer_queue
  by (cases "fst (loadWorkspaceQueue (exampleParams ''enterprise'') oldServer)") auto

subsection \<open>Facts about the metrics\<close>

lemma countIf_disjoint:
  "(\<And>t. \<not> (P t \<and> Q t)) \<Longrightarrow> countIf P ts + countIf Q ts = countIf (\<lambda>t. P t \<or> Q t) ts"
  by (induction ts) (auto simp: countIf_def)

lemma countIf_le: "countIf P ts \<le> length ts"
  by (simp add: countIf_def)

lemma countIf_mono: "(\<And>t. P t \<Longrightarrow> Q t) \<Longrightarrow> countIf P ts \<le> countIf Q ts"
  by (induction ts) (auto simp: countIf_def)

text \<open>
  The metrics of the queue are counts of disjoint groups: active, provisioning, failed and
  suspended tenants together are at most all tenants; the tenants being set up are those waiting
  for payment and those in the provisioning queue; and what needs attention is at most the
  tenants and the jobs.
\<close>

theorem queue_metrics_partition:
  "let m = deriveWorkspaceQueueMetrics ts jobs in
   qm_activeTenants m + qm_provisioningTenants m + qm_failedTenants m + qm_suspendedTenants m \<le> qm_totalTenants m \<and>
   qm_provisioningTenants m = qm_pendingPaymentTenants m + qm_provisioningQueueTenants m \<and>
   qm_suspendedBillingTenants m \<le> qm_suspendedTenants m \<and>
   qm_needsAttentionCount m \<le> qm_totalTenants m + jobs"
proof -
  let ?A = "\<lambda>t. statusOf t = ''active''" and ?P = "\<lambda>t. statusOf t \<in> set PROVISIONING_STATUSES"
  let ?F = "\<lambda>t. statusOf t = ''failed''" and ?S = "\<lambda>t. statusOf t \<in> set SUSPENDED_STATUSES"
  have AP: "countIf ?A ts + countIf ?P ts = countIf (\<lambda>t. ?A t \<or> ?P t) ts"
    by (rule countIf_disjoint) (auto simp: PROVISIONING_STATUSES_def)
  have APF: "countIf (\<lambda>t. ?A t \<or> ?P t) ts + countIf ?F ts = countIf (\<lambda>t. (?A t \<or> ?P t) \<or> ?F t) ts"
    by (rule countIf_disjoint) (auto simp: PROVISIONING_STATUSES_def)
  have APFS: "countIf (\<lambda>t. (?A t \<or> ?P t) \<or> ?F t) ts + countIf ?S ts = countIf (\<lambda>t. ((?A t \<or> ?P t) \<or> ?F t) \<or> ?S t) ts"
    by (rule countIf_disjoint) (auto simp: PROVISIONING_STATUSES_def SUSPENDED_STATUSES_def)
  have all: "countIf (\<lambda>t. ((?A t \<or> ?P t) \<or> ?F t) \<or> ?S t) ts \<le> length ts" by (rule countIf_le)
  have "countIf (\<lambda>t. statusOf t = ''pending_payment'') ts + countIf (\<lambda>t. statusOf t \<in> set PROVISIONING_QUEUE_STATUSES) ts
      = countIf (\<lambda>t. statusOf t = ''pending_payment'' \<or> statusOf t \<in> set PROVISIONING_QUEUE_STATUSES) ts"
    by (rule countIf_disjoint) (auto simp: PROVISIONING_QUEUE_STATUSES_def)
  moreover have "(\<lambda>t. statusOf t = ''pending_payment'' \<or> statusOf t \<in> set PROVISIONING_QUEUE_STATUSES) = ?P"
    by (rule ext) (auto simp: PROVISIONING_QUEUE_STATUSES_def PROVISIONING_STATUSES_def)
  ultimately have prov: "countIf (\<lambda>t. statusOf t = ''pending_payment'') ts +
      countIf (\<lambda>t. statusOf t \<in> set PROVISIONING_QUEUE_STATUSES) ts = countIf ?P ts" by simp
  have sb: "countIf (\<lambda>t. statusOf t = ''suspended_billing'') ts \<le> countIf ?S ts"
    by (rule countIf_mono) (simp add: SUSPENDED_STATUSES_def)
  show ?thesis
    using AP APF APFS all prov sb by (simp add: deriveWorkspaceQueueMetrics_def Let_def)
qed

text \<open>
  The billing queue's count can exceed the number of tenants: a tenant that waits for payment
  after a failed one is counted twice.
\<close>

theorem billing_queue_double_count:
  "let m = deriveWorkspaceQueueMetrics [sampleTenant ''pending_payment'' (Some ''failed'') None] 0 in
   qm_billingQueueCount m = 2 \<and> qm_totalTenants m = 1"
  by code_simp

subsection \<open>Facts about the page\<close>

lemma totalPages_pos: "1 \<le> totalPages pg"
  by (simp add: totalPages_def)

lemma totalPages_covers:
  assumes "0 \<le> queueTotal pg"
  shows "queueTotal pg \<le> QUEUE_LIMIT * totalPages pg \<and>
    (totalPages pg = 1 \<or> QUEUE_LIMIT * (totalPages pg - 1) < queueTotal pg)"
proof -
  define q where "q = - ((- queueTotal pg) div 20)"
  have "(- queueTotal pg) div 20 * 20 + (- queueTotal pg) mod 20 = - queueTotal pg"
    "0 \<le> (- queueTotal pg) mod 20" "(- queueTotal pg) mod 20 < 20" by simp_all
  then have "queueTotal pg \<le> 20 * q" "20 * (q - 1) < queueTotal pg" by (simp_all add: q_def)
  then show ?thesis
    using assms by (cases "1 \<le> q") (auto simp: totalPages_def QUEUE_LIMIT_def q_def [symmetric] max_def)
qed

text \<open>
  The page number stays in range: once it has been clamped it lies between 1 and the number
  of pages, the buttons keep it there, and the pages are just enough for all tenants.
\<close>

theorem queue_page_in_range:
  assumes "1 \<le> wq_page pg" and "0 \<le> queueTotal pg"
  shows "let c = clampPage pg in
    list_all (\<lambda>q. 1 \<le> wq_page q \<and> wq_page q \<le> totalPages q \<and> totalPages q = totalPages pg)
      [c, nextPage c, previousPage c] \<and>
    queueTotal pg \<le> QUEUE_LIMIT * totalPages pg \<and>
    QUEUE_LIMIT * (totalPages pg - 1) \<le> queueTotal pg"
proof -
  have t: "totalPages (pg\<lparr>wq_page := k\<rparr>) = totalPages pg" for k pg
    by (simp add: totalPages_def queueTotal_def)
  have "1 \<le> totalPages pg" by (rule totalPages_pos)
  then have "list_all (\<lambda>q. 1 \<le> wq_page q \<and> wq_page q \<le> totalPages q \<and> totalPages q = totalPages pg)
      [clampPage pg, nextPage (clampPage pg), previousPage (clampPage pg)]"
    using assms(1) by (auto simp: clampPage_def nextPage_def previousPage_def t)
  then show ?thesis using totalPages_covers [OF assms(2)] assms(2) by (auto simp: Let_def)
qed

theorem queue_page_in_range_witness:
  "wq_page (clampPage (initialQueuePage\<lparr>wq_page := 7\<rparr>)) = 1"
  using queue_page_in_range [of "initialQueuePage\<lparr>wq_page := 7\<rparr>"]
  by (simp add: Let_def initialQueuePage_def queueTotal_def totalPages_def QUEUE_LIMIT_def)

text \<open>Each tenant has at most one job, through every handler.\<close>

lemma putJob_fst: "fst ` set (putJob k j js) = insert k (fst ` set js)"
  by (force simp: putJob_def)

lemma putJob_distinct: "distinct (map fst js) \<Longrightarrow> distinct (map fst (putJob k j js))"
  by (auto simp: putJob_def comp_def case_prod_beta)

lemma runQueueQuery_jobs [simp]: "wq_jobs (fst (runQueueQuery cfg pg w)) = wq_jobs pg"
  by (simp add: runQueueQuery_def split: prod.split sum.split)

lemma jobs_simps [simp]:
  "wq_jobs (portalError m pg) = wq_jobs pg" "wq_jobs (notify ty ti bo pg) = wq_jobs pg"
  "wq_jobs (setTenantJob t j pg) = putJob t j (wq_jobs pg)"
  by (simp_all add: portalError_def notify_def setTenantJob_def)

lemma one_job_per_tenant:
  assumes "distinct (map fst (wq_jobs pg))"
  shows "distinct (map fst (wq_jobs (fst (onJobUpdate cfg job pg w))))"
    "distinct (map fst (wq_jobs (fst (onRetryProvisioning cfg t pg w))))"
    "distinct (map fst (wq_jobs (fst (onTenantCreated cfg res pg w))))"
    "distinct (map fst (wq_jobs (pruneJobs pg)))"
  using assms putJob_distinct
  by (auto simp: onJobUpdate_def onRetryProvisioning_def onTenantCreated_def pruneJobs_def Let_def
      intro: distinct_map_filter split: option.split prod.split sum.split OptionalEndpointResult.split)

text \<open>
  A job that is finished still counts as needing attention: once the page's job handler is told of the
  success of the only tenant's job, the page says that one item needs attention. (The table is given the handler
  and does not use it, so the page as it stands keeps the job's first status.)
\<close>

theorem finished_job_counted:
  "let job = \<lparr>jb_id = ''j1'', jb_tenant_id = ''t1'', jb_type = ''backup'', jb_status = ''succeeded'', jb_rq_job_id = None,
         jb_logs = [], jb_error = None, jb_created_at = None, jb_started_at = None, jb_finished_at = None\<rparr>;
       d = \<lparr>wl_visibleTenants = [sampleTenant ''active'' None None], wl_metricsTenants = [sampleTenant ''active'' None None],
         wl_total = 1, wl_page = 1, wl_usingServerPagination = True\<rparr>;
       pg = initialQueuePage\<lparr>wq_data := Some d\<rparr> in
   qm_needsAttentionCount (queueSnapshot pg) = 0 \<and>
   qm_needsAttentionCount (queueSnapshot (setTenantJob ''t1'' job pg)) = 1"
  by code_simp

end
