(* ===== verification/Admin_Console.thy ===== *)
theory Admin_Console
  imports Admin_Repository Request_Traffic Navigation Workspace_Queue
begin

section \<open>The admin console\<close>

text \<open>
  \<^verbatim>\<open>useAdminConsoleController.ts\<close>, the state and handlers behind the console's six views, with the
  page buttons of \<^verbatim>\<open>AdminConsolePage.tsx\<close>. A loader is the call it awaits and the update with
  the call's outcome, so that answers can also be taken over in another order than asked.
\<close>

record TenantAdminAction =
  ta_type :: TenantActionType
  ta_tenant :: Tenant
  ta_phrase :: string

record AdminControlLaneLink =
  ln_href :: string
  ln_label :: string
  ln_description :: string
  ln_hint :: string

record admin_console =
  ac_operatorRole :: string
  ac_tenants :: "Tenant list"
  ac_tenantsError :: "string option"
  ac_busyTenantId :: "string option"
  ac_tenantAction :: "TenantAdminAction option"
  ac_tenantActionInput :: string
  ac_tenantActionReason :: string
  ac_tenantPage :: int
  ac_tenantTotal :: int
  ac_requeueJobId :: "string option"
  ac_tenantSearch :: string
  ac_tenantStatusFilter :: string
  ac_tenantPlanFilter :: string
  ac_deadLetters :: "DeadLetterJob list"
  ac_deadLetterSupported :: bool
  ac_deadLetterError :: "string option"
  ac_jobs :: "Job list"
  ac_jobsSupported :: bool
  ac_jobsError :: "string option"
  ac_selectedJob :: "Job option"
  ac_selectedJobSupported :: bool
  ac_auditLog :: "AuditLogEntry list"
  ac_auditSupported :: bool
  ac_auditError :: "string option"
  ac_auditPage :: int
  ac_auditTotal :: int
  ac_auditExportBusy :: bool
  ac_auditExportError :: "string option"
  ac_impersonationEmail :: string
  ac_impersonationReason :: string
  ac_impersonationLink :: "string option"
  ac_impersonationToken :: "string option"
  ac_impersonationBusy :: bool
  ac_impersonationError :: "string option"
  ac_metrics :: "MetricsSummary option"
  ac_metricsSupported :: bool
  ac_metricsError :: "string option"
  ac_lastMetricsKey :: "string option"
  ac_notifications :: "(NotificationType \<times> string \<times> string) list"

definition TENANT_LIMIT :: int where "TENANT_LIMIT = 50"

definition AUDIT_LIMIT :: int where "AUDIT_LIMIT = 50"

definition initialConsole :: admin_console where
  "initialConsole = \<lparr>ac_operatorRole = ''user'', ac_tenants = [], ac_tenantsError = None, ac_busyTenantId = None,
     ac_tenantAction = None, ac_tenantActionInput = [], ac_tenantActionReason = [], ac_tenantPage = 1,
     ac_tenantTotal = 0, ac_requeueJobId = None, ac_tenantSearch = [], ac_tenantStatusFilter = ''all'',
     ac_tenantPlanFilter = ''all'', ac_deadLetters = [], ac_deadLetterSupported = True, ac_deadLetterError = None,
     ac_jobs = [], ac_jobsSupported = True, ac_jobsError = None, ac_selectedJob = None, ac_selectedJobSupported = True,
     ac_auditLog = [], ac_auditSupported = True, ac_auditError = None, ac_auditPage = 1, ac_auditTotal = 0,
     ac_auditExportBusy = False, ac_auditExportError = None, ac_impersonationEmail = [],
     ac_impersonationReason = ''Support troubleshooting'', ac_impersonationLink = None,
     ac_impersonationToken = None, ac_impersonationBusy = False, ac_impersonationError = None, ac_metrics = None,
     ac_metricsSupported = True, ac_metricsError = None, ac_lastMetricsKey = None, ac_notifications = []\<rparr>"

definition canRunAdminOnlyActions :: "admin_console \<Rightarrow> bool" where
  "canRunAdminOnlyActions s \<longleftrightarrow> ac_operatorRole s = ''admin''"

definition currentView :: "AdminView option \<Rightarrow> string \<Rightarrow> AdminView" where
  "currentView forcedView pathname =
     (case forcedView of Some v \<Rightarrow> v | None \<Rightarrow> nullish (inferAdminViewFromPathname pathname) AvOverview)"

definition buildViewHref :: "AdminView \<Rightarrow> string" where
  "buildViewHref view = ADMIN_VIEW_ROUTES view"

definition consoleNotify :: "NotificationType \<Rightarrow> string \<Rightarrow> string \<Rightarrow> admin_console \<Rightarrow> admin_console" where
  "consoleNotify ty title body s = s\<lparr>ac_notifications := ac_notifications s @ [(ty, title, body)]\<rparr>"

subsection \<open>The loaders\<close>

definition tenantQuery :: "admin_console \<Rightarrow> AdminTenantQuery" where
  "tenantQuery s = \<lparr>aq_page = ac_tenantPage s, aq_limit = TENANT_LIMIT,
     aq_status = (if ac_tenantStatusFilter s = ''all'' then None else Some (One (ac_tenantStatusFilter s))),
     aq_search = Some (trim (ac_tenantSearch s)),
     aq_plan = (if ac_tenantPlanFilter s = ''all'' then None else Some (ac_tenantPlanFilter s)),
     aq_billingStatus = None, aq_paymentChannel = None, aq_filterMode = None\<rparr>"

definition tenantsLoaded :: "exn + AdminTenantPage \<Rightarrow> admin_console \<Rightarrow> admin_console" where
  "tenantsLoaded r s =
     (case r of
        Inr loaded \<Rightarrow> s\<lparr>ac_tenants := at_tenants loaded, ac_tenantTotal := at_total loaded, ac_tenantsError := None\<rparr>
      | Inl err \<Rightarrow> s\<lparr>ac_tenantsError := Some (toAdminErrorMessage err ''Failed to load admin tenants''), ac_tenants := []\<rparr>)"

definition loadTenants :: "admin_console handler" where
  "loadTenants s = answered (loadAdminTenantPage (tenantQuery s)) tenantsLoaded s"

definition deadLettersLoaded :: "exn + DeadLetterJob OptionalListResult \<Rightarrow> admin_console \<Rightarrow> admin_console" where
  "deadLettersLoaded r s =
     (case r of
        Inr result \<Rightarrow>
          (if \<not> ol_supported result
           then s\<lparr>ac_deadLetterSupported := False, ac_deadLetters := [], ac_deadLetterError := None\<rparr>
           else s\<lparr>ac_deadLetterSupported := True, ac_deadLetters := ol_data result, ac_deadLetterError := None\<rparr>)
      | Inl err \<Rightarrow> s\<lparr>ac_deadLetterError := Some (toAdminErrorMessage err ''Failed to load dead-letter queue'')\<rparr>)"

definition loadDeadLetters :: "admin_console handler" where
  "loadDeadLetters = answered loadAdminDeadLetterQueue deadLettersLoaded"

definition jobsLoaded :: "exn + Job OptionalListResult \<Rightarrow> admin_console \<Rightarrow> admin_console" where
  "jobsLoaded r s =
     (case r of
        Inr result \<Rightarrow>
          (if \<not> ol_supported result then s\<lparr>ac_jobsSupported := False, ac_jobs := [], ac_jobsError := None\<rparr>
           else s\<lparr>ac_jobsSupported := True, ac_jobs := ol_data result, ac_jobsError := None\<rparr>)
      | Inl err \<Rightarrow> s\<lparr>ac_jobsError := Some (toAdminErrorMessage err ''Failed to load jobs'')\<rparr>)"

definition loadJobs :: "admin_console handler" where
  "loadJobs = answered (loadAdminJobs 100) jobsLoaded"

definition auditLoaded :: "exn + AuditLogResult \<Rightarrow> admin_console \<Rightarrow> admin_console" where
  "auditLoaded r s =
     (case r of
        Inr result \<Rightarrow>
          (if \<not> ar_supported result then s\<lparr>ac_auditSupported := False, ac_auditLog := [], ac_auditError := None\<rparr>
           else s\<lparr>ac_auditSupported := True, ac_auditLog := ar_entries result, ac_auditTotal := ar_total result,
                  ac_auditError := None\<rparr>)
      | Inl err \<Rightarrow> s\<lparr>ac_auditError := Some (toAdminErrorMessage err ''Failed to load audit log'')\<rparr>)"

definition loadAuditLog :: "admin_console handler" where
  "loadAuditLog s = answered (loadAdminAuditLog (ac_auditPage s) AUDIT_LIMIT) auditLoaded s"

definition alertMetrics :: "MetricsSummary \<Rightarrow> admin_console \<Rightarrow> admin_console" where
  "alertMetrics m s =
     (let key = deriveAdminMetricAlertKey m in
      if ac_lastMetricsKey s \<noteq> Some key
      then fold (\<lambda>a. consoleNotify (ma_type a) (ma_title a) (ma_body a)) (deriveAdminMetricAlerts m)
             (s\<lparr>ac_lastMetricsKey := Some key\<rparr>)
      else s)"

definition metricsLoaded :: "exn + (bool \<times> MetricsSummary option) \<Rightarrow> admin_console \<Rightarrow> admin_console" where
  "metricsLoaded r s =
     (case r of
        Inr (isSupported, metrics) \<Rightarrow>
          (if \<not> isSupported then s\<lparr>ac_metricsSupported := False, ac_metrics := None\<rparr>
           else let s1 = s\<lparr>ac_metricsSupported := True, ac_metrics := metrics, ac_metricsError := None\<rparr> in
             (case metrics of None \<Rightarrow> s1 | Some m \<Rightarrow> alertMetrics m s1))
      | Inl err \<Rightarrow> s\<lparr>ac_metricsError := Some (toAdminErrorMessage err ''Failed to load metrics'')\<rparr>)"

definition loadMetrics :: "admin_console handler" where
  "loadMetrics = answered loadAdminMetrics metricsLoaded"

definition jobLogsLoaded :: "exn + (bool \<times> Job option) \<Rightarrow> admin_console \<Rightarrow> admin_console" where
  "jobLogsLoaded r s =
     (case r of
        Inr (isSupported, job) \<Rightarrow>
          (if \<not> isSupported then s\<lparr>ac_selectedJobSupported := False\<rparr>
           else s\<lparr>ac_selectedJobSupported := True, ac_selectedJob := job\<rparr>)
      | Inl err \<Rightarrow> s\<lparr>ac_jobsError := Some (toAdminErrorMessage err ''Failed to load job logs'')\<rparr>)"

definition loadJobLogs :: "string \<Rightarrow> admin_console handler" where
  "loadJobLogs jobId = answered (loadAdminJobLogs jobId) jobLogsLoaded"

subsection \<open>The effects\<close>

definition loadOperatorRole :: "admin_console \<Rightarrow> world \<Rightarrow> exn + admin_console" where
  "loadOperatorRole s w =
     (case getSessionRole w of Inl e \<Rightarrow> Inl e | Inr role \<Rightarrow> Inr (s\<lparr>ac_operatorRole := nullish role ''user''\<rparr>))"

text \<open>What a view loads, one effect after the other.\<close>

definition viewEffects :: "AdminView \<Rightarrow> admin_console handler" where
  "viewEffects view =
     afterwards (onlyWhen (view = AvOverview \<or> view = AvTenants) loadTenants)
    (afterwards (onlyWhen (view = AvOverview \<or> view = AvRecovery) loadDeadLetters)
    (afterwards (onlyWhen (view = AvJobs) loadJobs)
    (afterwards (onlyWhen (view = AvAudit) loadAuditLog)
       (onlyWhen (view = AvOverview) loadMetrics))))"

definition resetTenantPage :: "admin_console \<Rightarrow> admin_console" where
  "resetTenantPage s = s\<lparr>ac_tenantPage := 1\<rparr>"

definition tenantTotalPages :: "admin_console \<Rightarrow> int" where
  "tenantTotalPages s = max 1 (- ((- ac_tenantTotal s) div TENANT_LIMIT))"

definition auditTotalPages :: "admin_console \<Rightarrow> int" where
  "auditTotalPages s = max 1 (- ((- ac_auditTotal s) div AUDIT_LIMIT))"

definition laneHint :: "admin_console \<Rightarrow> AdminView \<Rightarrow> string" where
  "laneHint s view =
     (if view = AvTenants then intStr (ac_tenantTotal s) @ '' tenant records''
      else if view = AvRecovery then natStr (length (ac_deadLetters s)) @ '' dead-letter jobs''
      else if view = AvJobs then ''Inspect execution and logs''
      else if view = AvAudit then ''Review governance trail''
      else ''Issue support links'')"

definition controlLaneLinks :: "admin_console \<Rightarrow> AdminControlLaneLink list" where
  "controlLaneLinks s =
     map (\<lambda>view. \<lparr>ln_href = buildViewHref view, ln_label = fst (ADMIN_VIEW_DETAILS view),
                  ln_description = snd (ADMIN_VIEW_DETAILS view), ln_hint = laneHint s view\<rparr>)
       (filter (\<lambda>view. view \<noteq> AvOverview) ADMIN_VIEWS)"

text \<open>The page buttons of \<^verbatim>\<open>AdminConsolePage.tsx\<close>.\<close>

definition previousTenantPage :: "admin_console \<Rightarrow> admin_console" where
  "previousTenantPage s = s\<lparr>ac_tenantPage := max 1 (ac_tenantPage s - 1)\<rparr>"

definition nextTenantPage :: "admin_console \<Rightarrow> admin_console" where
  "nextTenantPage s = s\<lparr>ac_tenantPage := min (tenantTotalPages s) (ac_tenantPage s + 1)\<rparr>"

definition previousAuditPage :: "admin_console \<Rightarrow> admin_console" where
  "previousAuditPage s = s\<lparr>ac_auditPage := max 1 (ac_auditPage s - 1)\<rparr>"

definition nextAuditPage :: "admin_console \<Rightarrow> admin_console" where
  "nextAuditPage s = s\<lparr>ac_auditPage := min (auditTotalPages s) (ac_auditPage s + 1)\<rparr>"

subsection \<open>The actions\<close>

definition openTenantAction :: "TenantAdminAction \<Rightarrow> admin_console \<Rightarrow> admin_console" where
  "openTenantAction nextAction s =
     s\<lparr>ac_tenantAction := Some nextAction, ac_tenantActionInput := [], ac_tenantActionReason := [],
       ac_tenantsError := None\<rparr>"

definition requeueDeadLetter :: "string \<Rightarrow> admin_console handler" where
  "requeueDeadLetter jobId s w =
     (let s0 = s\<lparr>ac_requeueJobId := Some jobId\<rparr> in
      case requeueDeadLetterById jobId w of
        (Inr isSupported, w1) \<Rightarrow>
          (if \<not> isSupported
           then (s0\<lparr>ac_deadLetterError := Some (featureUnavailableMessage ''Requeueing failed jobs'' None),
                    ac_requeueJobId := None\<rparr>, w1)
           else case loadDeadLetters s0 w1 of
             (s1, w2) \<Rightarrow>
               ((consoleNotify NSuccess ''Dead-letter requeued''
                  (''Job '' @ take 8 jobId @ '' queued for retry.'') (s1\<lparr>ac_deadLetterError := None\<rparr>))
                  \<lparr>ac_requeueJobId := None\<rparr>, w2))
      | (Inl err, w1) \<Rightarrow>
          (s0\<lparr>ac_deadLetterError := Some (toAdminErrorMessage err ''Failed to requeue dead-letter job''),
              ac_requeueJobId := None\<rparr>, w1))"

definition cancelTenantAction :: "admin_console \<Rightarrow> admin_console" where
  "cancelTenantAction s = s\<lparr>ac_tenantAction := None, ac_tenantActionInput := [], ac_tenantActionReason := []\<rparr>"

definition submitTenantAction :: "admin_console handler" where
  "submitTenantAction s w =
     (case ac_tenantAction s of None \<Rightarrow> (s, w)
      | Some a \<Rightarrow>
          (if ac_tenantActionInput s \<noteq> ta_phrase a
           then (s\<lparr>ac_tenantsError := Some ''Confirmation phrase does not match.''\<rparr>, w)
           else
             (let s0 = s\<lparr>ac_busyTenantId := Some (tn_id (ta_tenant a)), ac_tenantsError := None\<rparr>;
                  reason = orNull (trim (ac_tenantActionReason s)) in
              case executeTenantLifecycleAction (ta_type a) (tn_id (ta_tenant a)) reason w of
                (Inr isSupported, w1) \<Rightarrow>
                  (if \<not> isSupported
                   then (s0\<lparr>ac_tenantsError := Some (featureUnavailableMessage
                             (if ta_type a = Suspend then ''Suspending workspaces'' else ''Unsuspending workspaces'') None),
                            ac_busyTenantId := None\<rparr>, w1)
                   else case loadTenants s0 w1 of
                     (s1, w2) \<Rightarrow> ((cancelTenantAction s1)\<lparr>ac_busyTenantId := None\<rparr>, w2))
              | (Inl err, w1) \<Rightarrow>
                  (s0\<lparr>ac_tenantsError := Some (toAdminErrorMessage err
                         (if ta_type a = Suspend then ''Failed to suspend tenant'' else ''Failed to unsuspend tenant'')),
                      ac_busyTenantId := None\<rparr>, w1))))"

definition exportAudit :: "admin_console handler" where
  "exportAudit s w =
     (let s0 = s\<lparr>ac_auditExportBusy := True, ac_auditExportError := None\<rparr> in
      case exportAdminAuditCsv 500 w of
        (Inr _, w1) \<Rightarrow> (s0\<lparr>ac_auditExportBusy := False\<rparr>, w1)
      | (Inl err, w1) \<Rightarrow>
          (s0\<lparr>ac_auditExportError := Some (toAdminErrorMessage err ''Failed to export audit log.''),
              ac_auditExportBusy := False\<rparr>, w1))"

definition linkIssued :: "exn + (bool \<times> ImpersonationLink option) \<Rightarrow> admin_console \<Rightarrow> admin_console" where
  "linkIssued r s =
     (case r of
        Inr (isSupported, link) \<Rightarrow>
          (if \<not> isSupported
           then s\<lparr>ac_impersonationError := Some (featureUnavailableMessage ''Issuing impersonation links'' None)\<rparr>
           else case link of
             None \<Rightarrow> s\<lparr>ac_impersonationError := Some ''Impersonation response missing link payload.''\<rparr>
           | Some l \<Rightarrow> consoleNotify NWarning ''Impersonation link issued''
               (''Token ready for '' @ il_target_email l @ ''. Share securely and expire quickly.'')
               (s\<lparr>ac_impersonationLink := Some (il_url l), ac_impersonationToken := Some (il_token l)\<rparr>))
      | Inl err \<Rightarrow> s\<lparr>ac_impersonationError := Some (toAdminErrorMessage err ''Failed to issue impersonation link.'')\<rparr>)
     \<lparr>ac_impersonationBusy := False\<rparr>"

definition issueImpersonationLink :: "admin_console handler" where
  "issueImpersonationLink s w =
     (let email = toLowerCase (trim (ac_impersonationEmail s)); reason = trim (ac_impersonationReason s) in
      if \<not> canRunAdminOnlyActions s
      then (s\<lparr>ac_impersonationError := Some ''Only admin role can issue impersonation links.''\<rparr>, w)
      else if email = [] \<or> reason = []
      then (s\<lparr>ac_impersonationError := Some ''Provide target email and reason.''\<rparr>, w)
      else answered (issueSupportImpersonationLink email reason) linkIssued
             (s\<lparr>ac_impersonationBusy := True, ac_impersonationError := None\<rparr>) w)"

subsection \<open>Sections that can be missing\<close>

definition deadLetterView :: "admin_console \<Rightarrow> DeadLetterJob list section_view" where
  "deadLetterView s = \<lparr>sv_supported = ac_deadLetterSupported s, sv_data = ac_deadLetters s, sv_error = ac_deadLetterError s\<rparr>"

definition jobsView :: "admin_console \<Rightarrow> Job list section_view" where
  "jobsView s = \<lparr>sv_supported = ac_jobsSupported s, sv_data = ac_jobs s, sv_error = ac_jobsError s\<rparr>"

definition auditView :: "admin_console \<Rightarrow> AuditLogEntry list section_view" where
  "auditView s = \<lparr>sv_supported = ac_auditSupported s, sv_data = ac_auditLog s, sv_error = ac_auditError s\<rparr>"

definition auditAnswer :: "AuditLogResult \<Rightarrow> AuditLogEntry list option" where
  "auditAnswer r = (if ar_supported r then Some (ar_entries r) else None)"

interpretation dead: optional_section listAnswer deadLettersLoaded deadLetterView
  "\<lambda>e. toAdminErrorMessage e ''Failed to load dead-letter queue''"
  by unfold_locales (auto simp: listAnswer_def deadLettersLoaded_def deadLetterView_def split: if_splits)

interpretation jobs: optional_section listAnswer jobsLoaded jobsView
  "\<lambda>e. toAdminErrorMessage e ''Failed to load jobs''"
  by unfold_locales (auto simp: listAnswer_def jobsLoaded_def jobsView_def split: if_splits)

interpretation audit: optional_section auditAnswer auditLoaded auditView
  "\<lambda>e. toAdminErrorMessage e ''Failed to load audit log''"
  by unfold_locales (auto simp: auditAnswer_def auditLoaded_def auditView_def split: if_splits)

text \<open>Answers of the console's loaders, in the order in which they arrive.\<close>

datatype console_answer =
    TenantsAnswer "exn + AdminTenantPage"
  | DeadLettersAnswer "exn + DeadLetterJob OptionalListResult"
  | JobsAnswer "exn + Job OptionalListResult"
  | AuditAnswer "exn + AuditLogResult"
  | MetricsAnswer "exn + (bool \<times> MetricsSummary option)"
  | JobLogsAnswer "exn + (bool \<times> Job option)"

primrec takeAnswer :: "console_answer \<Rightarrow> admin_console \<Rightarrow> admin_console" where
  "takeAnswer (TenantsAnswer r) = tenantsLoaded r"
| "takeAnswer (DeadLettersAnswer r) = deadLettersLoaded r"
| "takeAnswer (JobsAnswer r) = jobsLoaded r"
| "takeAnswer (AuditAnswer r) = auditLoaded r"
| "takeAnswer (MetricsAnswer r) = metricsLoaded r"
| "takeAnswer (JobLogsAnswer r) = jobLogsLoaded r"

lemma fold_consoleNotify:
  "fold (\<lambda>a. consoleNotify (ma_type a) (ma_title a) (ma_body a)) as s =
   s\<lparr>ac_notifications := ac_notifications s @ map (\<lambda>a. (ma_type a, ma_title a, ma_body a)) as\<rparr>"
  by (induction as arbitrary: s) (simp_all add: consoleNotify_def)

definition alertEntries :: "MetricsSummary \<Rightarrow> (NotificationType \<times> string \<times> string) list" where
  "alertEntries m = map (\<lambda>a. (ma_type a, ma_title a, ma_body a)) (deriveAdminMetricAlerts m)"

lemma alertMetrics_eq:
  "alertMetrics m s =
     (if ac_lastMetricsKey s = Some (deriveAdminMetricAlertKey m) then s
      else s\<lparr>ac_lastMetricsKey := Some (deriveAdminMetricAlertKey m),
             ac_notifications := ac_notifications s @ alertEntries m\<rparr>)"
  by (simp add: alertMetrics_def Let_def fold_consoleNotify alertEntries_def)

lemmas view_defs = deadLetterView_def jobsView_def auditView_def

text \<open>Each answer changes its own section only; the logs of a job may set the error of the jobs.\<close>

lemma other_sections:
  "deadLetterView (tenantsLoaded r0 s) = deadLetterView s" "jobsView (tenantsLoaded r0 s) = jobsView s"
  "auditView (tenantsLoaded r0 s) = auditView s"
  "jobsView (deadLettersLoaded r1 s) = jobsView s" "auditView (deadLettersLoaded r1 s) = auditView s"
  "deadLetterView (jobsLoaded r2 s) = deadLetterView s" "auditView (jobsLoaded r2 s) = auditView s"
  "deadLetterView (auditLoaded r3 s) = deadLetterView s" "jobsView (auditLoaded r3 s) = jobsView s"
  "deadLetterView (jobLogsLoaded r5 s) = deadLetterView s" "auditView (jobLogsLoaded r5 s) = auditView s"
  "sv_data (jobsView (jobLogsLoaded r5 s)) = ac_jobs s" "sv_supported (jobsView (jobLogsLoaded r5 s)) = ac_jobsSupported s"
  by (auto simp: view_defs tenantsLoaded_def deadLettersLoaded_def jobsLoaded_def auditLoaded_def jobLogsLoaded_def
      split: sum.split)

lemma metrics_other_sections:
  "deadLetterView (metricsLoaded r s) = deadLetterView s" "jobsView (metricsLoaded r s) = jobsView s"
  "auditView (metricsLoaded r s) = auditView s"
proof -
  have "deadLetterView (metricsLoaded r s) = deadLetterView s \<and> jobsView (metricsLoaded r s) = jobsView s \<and>
      auditView (metricsLoaded r s) = auditView s"
    by (auto simp: metricsLoaded_def alertMetrics_eq view_defs Let_def split: sum.split option.split)
  then show "deadLetterView (metricsLoaded r s) = deadLetterView s" "jobsView (metricsLoaded r s) = jobsView s"
    "auditView (metricsLoaded r s) = auditView s" by auto
qed

definition consoleCoherent :: "admin_console \<Rightarrow> bool" where
  "consoleCoherent s \<longleftrightarrow> coherent (deadLetterView s) \<and> coherent (jobsView s) \<and> coherent (auditView s) \<and>
     (ac_metricsSupported s \<or> ac_metrics s = None)"

lemma metrics_untouched:
  "ac_metrics (takeAnswer a s) = ac_metrics s \<and> ac_metricsSupported (takeAnswer a s) = ac_metricsSupported s"
  if "\<And>r. a \<noteq> MetricsAnswer r"
  using that by (cases a) (auto simp: tenantsLoaded_def deadLettersLoaded_def jobsLoaded_def auditLoaded_def
      jobLogsLoaded_def split: sum.split)

lemma metrics_coherent:
  "ac_metricsSupported s \<or> ac_metrics s = None \<Longrightarrow>
   ac_metricsSupported (metricsLoaded r s) \<or> ac_metrics (metricsLoaded r s) = None"
  by (auto simp: metricsLoaded_def alertMetrics_eq Let_def split: sum.split option.split)

lemma consoleCoherent_step:
  assumes "consoleCoherent s"
  shows "consoleCoherent (takeAnswer a s)"
proof (cases a)
  case (JobLogsAnswer r)
  then show ?thesis
    using assms metrics_untouched [of a s] by (auto simp: consoleCoherent_def coherent_def other_sections view_defs
        jobLogsLoaded_def split: sum.split)
next
  case (MetricsAnswer r)
  then show ?thesis
    using assms metrics_coherent [of s r] by (simp add: consoleCoherent_def metrics_other_sections)
qed (use assms metrics_untouched [of a s] in
    \<open>auto simp: consoleCoherent_def other_sections intro: dead.coherent_absorb jobs.coherent_absorb audit.coherent_absorb\<close>)

text \<open>
  C23: Whatever answers of whatever loaders arrive in whatever order, a section of the admin
  console that is shown as missing has no rows left over from an earlier answer.
\<close>

theorem console_sections_coherent:
  "let s = fold takeAnswer as initialConsole in
   (ac_deadLetterSupported s \<or> ac_deadLetters s = []) \<and> (ac_jobsSupported s \<or> ac_jobs s = []) \<and>
   (ac_auditSupported s \<or> ac_auditLog s = []) \<and> (ac_metricsSupported s \<or> ac_metrics s = None)"
proof -
  have "consoleCoherent (fold takeAnswer as s)" if "consoleCoherent s" for s
    using that by (induction as arbitrary: s) (auto intro: consoleCoherent_step)
  then have "consoleCoherent (fold takeAnswer as initialConsole)"
    by (auto simp: consoleCoherent_def coherent_def view_defs initialConsole_def)
  then show ?thesis by (simp add: consoleCoherent_def coherent_def view_defs Let_def)
qed

subsection \<open>Alerts\<close>

definition problemCounts :: "MetricsSummary \<Rightarrow> int \<times> int \<times> int" where
  "problemCounts m = (ms_failed_tenants m, ms_dead_letter_count m, ms_provisioning_tenants m)"

definition countsPositive :: "MetricsSummary \<Rightarrow> bool" where
  "countsPositive m \<longleftrightarrow> 0 \<le> ms_failed_tenants m \<and> 0 \<le> ms_dead_letter_count m \<and> 0 \<le> ms_provisioning_tenants m"

lemma dash_prefix:
  assumes "a @ ''-'' @ x = b @ ''-'' @ y" and "CHR ''-'' \<notin> set a" and "CHR ''-'' \<notin> set b"
  shows "a = b \<and> x = y"
proof -
  have "takeWhile (\<lambda>c. c \<noteq> CHR ''-'') (a @ ''-'' @ x) = a" "takeWhile (\<lambda>c. c \<noteq> CHR ''-'') (b @ ''-'' @ y) = b"
    using assms(2,3) by (auto simp: takeWhile_append)
  then have "a = b" using assms(1) by simp
  then show ?thesis using assms(1) by simp
qed

lemma alert_key_inject:
  assumes "countsPositive m" and "countsPositive m'"
  shows "deriveAdminMetricAlertKey m = deriveAdminMetricAlertKey m' \<longleftrightarrow> problemCounts m = problemCounts m'"
proof
  assume k: "deriveAdminMetricAlertKey m = deriveAdminMetricAlertKey m'"
  have no: "CHR ''-'' \<notin> set (natStr n)" for n by (rule not_in_natStr) (simp add: isDigit_def)
  have str: "intStr i = natStr (nat i)" if "0 \<le> i" for i using that by (simp add: intStr_def)
  note key = k [unfolded deriveAdminMetricAlertKey_def]
  have 1: "ms_failed_tenants m = ms_failed_tenants m'" and
    2: "intStr (ms_dead_letter_count m) @ ''-'' @ intStr (ms_provisioning_tenants m) =
        intStr (ms_dead_letter_count m') @ ''-'' @ intStr (ms_provisioning_tenants m')"
    using dash_prefix [OF key] assms no str by (auto simp: countsPositive_def)
  then show "problemCounts m = problemCounts m'"
    using dash_prefix [OF 2] assms no str by (auto simp: countsPositive_def problemCounts_def)
qed (simp add: problemCounts_def deriveAdminMetricAlertKey_def)

text \<open>The metrics among the answers, and those whose problem counts differ from the ones before.\<close>

definition loadedMetrics :: "(exn + (bool \<times> MetricsSummary option)) list \<Rightarrow> MetricsSummary list" where
  "loadedMetrics rs = concat (map (\<lambda>r. case r of Inr (True, Some m) \<Rightarrow> [m] | _ \<Rightarrow> []) rs)"

fun changesIn :: "(int \<times> int \<times> int) option \<Rightarrow> MetricsSummary list \<Rightarrow> MetricsSummary list" where
  "changesIn k [] = []"
| "changesIn k (m # ms) =
     (if k = Some (problemCounts m) then changesIn k ms else m # changesIn (Some (problemCounts m)) ms)"

definition keyMatches :: "(int \<times> int \<times> int) option \<Rightarrow> admin_console \<Rightarrow> bool" where
  "keyMatches k s \<longleftrightarrow> (\<forall>m. countsPositive m \<longrightarrow>
     (ac_lastMetricsKey s = Some (deriveAdminMetricAlertKey m) \<longleftrightarrow> k = Some (problemCounts m)))"

lemma keyMatches_set: "countsPositive m \<Longrightarrow> ac_lastMetricsKey s = Some (deriveAdminMetricAlertKey m) \<Longrightarrow>
  keyMatches (Some (problemCounts m)) s"
  using alert_key_inject by (auto simp: keyMatches_def)

lemma alerts_follow_changes:
  assumes "list_all countsPositive (loadedMetrics rs)" and "keyMatches k s"
  shows "ac_notifications (fold metricsLoaded rs s) =
    ac_notifications s @ concat (map alertEntries (changesIn k (loadedMetrics rs)))"
  using assms
proof (induction rs arbitrary: s k)
  case (Cons r rs)
  show ?case
  proof (cases "\<exists>m. r = Inr (True, Some m)")
    case True
    then obtain m where m: "r = Inr (True, Some m)" by blast
    let ?s = "metricsLoaded r s"
    have pos: "countsPositive m" using Cons.prems(1) m by (simp add: loadedMetrics_def)
    have lm: "loadedMetrics (r # rs) = m # loadedMetrics rs" by (simp add: m loadedMetrics_def)
    have key: "ac_lastMetricsKey ?s = Some (deriveAdminMetricAlertKey m)"
      by (simp add: m metricsLoaded_def alertMetrics_eq Let_def)
    have same: "ac_lastMetricsKey s = Some (deriveAdminMetricAlertKey m) \<longleftrightarrow> k = Some (problemCounts m)"
      using Cons.prems(2) pos by (simp add: keyMatches_def)
    have "ac_notifications ?s = ac_notifications s @ (if k = Some (problemCounts m) then [] else alertEntries m)"
      using same by (auto simp: m metricsLoaded_def alertMetrics_eq Let_def)
    moreover have "ac_notifications (fold metricsLoaded rs ?s) =
        ac_notifications ?s @ concat (map alertEntries (changesIn (Some (problemCounts m)) (loadedMetrics rs)))"
      using Cons.IH Cons.prems(1) keyMatches_set [OF pos key] by (simp add: lm)
    ultimately show ?thesis by (simp add: lm)
  next
    case False
    then have "loadedMetrics (r # rs) = loadedMetrics rs" and
      "ac_lastMetricsKey (metricsLoaded r s) = ac_lastMetricsKey s \<and>
       ac_notifications (metricsLoaded r s) = ac_notifications s"
      by (auto simp: loadedMetrics_def metricsLoaded_def Let_def split: sum.splits prod.splits option.splits bool.splits)
    then show ?thesis using Cons.IH [of k "metricsLoaded r s"] Cons.prems by (simp add: keyMatches_def)
  qed
qed (simp add: loadedMetrics_def)

text \<open>
  However often the metrics are reloaded, the console raises the alerts of an answer exactly
  when one of its three problem counts differs from the answer before; failed loads in between
  neither repeat an alert nor lose one.
\<close>

theorem metric_alerts_once:
  assumes "list_all countsPositive (loadedMetrics rs)"
  shows "ac_notifications (fold metricsLoaded rs initialConsole) =
    concat (map alertEntries (changesIn None (loadedMetrics rs)))"
  using alerts_follow_changes [OF assms, of None initialConsole] by (simp add: keyMatches_def initialConsole_def)

definition someMetrics :: "int \<Rightarrow> int \<Rightarrow> MetricsSummary" where
  "someMetrics failed dead = \<lparr>ms_total_tenants = 9, ms_active_tenants = 8, ms_suspended_tenants = 0,
     ms_failed_tenants = failed, ms_provisioning_tenants = 0, ms_pending_payment_tenants = 0, ms_trialing_tenants = 0,
     ms_trial_converted_tenants = 0, ms_trial_expired_past_due_tenants = 0, ms_trial_cancelled_tenants = 0,
     ms_jobs_last_24h = 5, ms_provisioning_success_rate_7d = 97, ms_dead_letter_count = dead, ms_support_open_notes = 0,
     ms_support_breached_notes = 0, ms_support_due_soon_notes = 0\<rparr>"

theorem metric_alerts_once_witness:
  "length (ac_notifications (fold metricsLoaded
     [Inr (True, Some (someMetrics 1 0)), Inl IllTyped, Inr (True, Some (someMetrics 1 0)),
      Inr (True, Some (someMetrics 2 3))] initialConsole)) = 3"
proof -
  let ?rs = "[Inr (True, Some (someMetrics 1 0)), Inl IllTyped, Inr (True, Some (someMetrics 1 0)),
      Inr (True, Some (someMetrics 2 3))]"
  have "list_all countsPositive (loadedMetrics ?rs)"
    by (simp add: loadedMetrics_def countsPositive_def someMetrics_def)
  from metric_alerts_once [OF this] show ?thesis
    by (simp add: loadedMetrics_def problemCounts_def alertEntries_def deriveAdminMetricAlerts_def someMetrics_def)
qed

subsection \<open>Suspending a tenant\<close>

text \<open>The messages that may follow a confirmed action.\<close>

definition confirmedAction :: "admin_console \<Rightarrow> string \<Rightarrow> string \<Rightarrow> bool" where
  "confirmedAction s m p \<longleftrightarrow> m = ''POST'' \<and>
     (\<exists>a reason. ac_tenantAction s = Some a \<and> ac_tenantActionInput s = ta_phrase a \<and>
        p = ''/admin/tenants/'' @ tn_id (ta_tenant a) @
            (if ta_type a = Suspend then ''/suspend'' else ''/unsuspend'') @ reason)"

lemma addressed_lifecycle:
  assumes "\<And>q. P ''POST'' (''/admin/tenants/'' @ tenantId @ (if action = Suspend then ''/suspend'' else ''/unsuspend'') @ q)"
  shows "keeps (addressed P) (executeTenantLifecycleAction action tenantId reason)"
proof -
  have "keeps (addressed P) (api_suspendTenant tenantId reason)" if "action = Suspend"
    unfolding api_suspendTenant_def Let_def by (rule addressed_optional) (use assms that in simp)
  moreover have "keeps (addressed P) (api_unsuspendTenant tenantId reason)" if "action \<noteq> Suspend"
    unfolding api_unsuspendTenant_def Let_def by (rule addressed_optional) (use assms that in simp)
  ultimately show ?thesis
    unfolding executeTenantLifecycleAction_def suspendTenant_def unsuspendTenant_def
    by (intro addressed_intros) auto
qed

lemma addressed_adminTenants:
  assumes "\<And>p. P ''GET'' p"
  shows "keeps (addressed P) (loadAdminTenantPage query)"
  unfolding loadAdminTenantPage_def fetchAdminTenants_def api_listAllTenantsPaged_def api_listAllTenants_def
  by (rule keeps_await [OF transp_addressed])
     (auto intro!: addressed_intros addressed_optional addressed_request assms split: OptionalEndpointResult.split)

lemma addressed_loadTenants: "(\<And>p. P ''GET'' p) \<Longrightarrow> addressed P w (snd (loadTenants s w))"
  unfolding loadTenants_def by (intro addressed_answered addressed_adminTenants)

lemma submitTenantAction_cases:
  assumes "submitTenantAction s w = (s', w')"
  obtains (closed) "ac_tenantAction s = None" "s' = s" "w' = w"
  | (unconfirmed) a where "ac_tenantAction s = Some a" "ac_tenantActionInput s \<noteq> ta_phrase a"
      "ac_tenantAction s' = Some a" "ac_busyTenantId s' = ac_busyTenantId s" "w' = w"
  | (failed) a reason r where "ac_tenantAction s = Some a" "ac_tenantActionInput s = ta_phrase a"
      "executeTenantLifecycleAction (ta_type a) (tn_id (ta_tenant a)) reason w = (r, w')" "r \<noteq> Inr True"
      "ac_tenantAction s' = Some a" "ac_tenantActionInput s' = ta_phrase a" "ac_tenantsError s' \<noteq> None"
      "ac_busyTenantId s' = None"
  | (accepted) a reason w1 s0 where "ac_tenantAction s = Some a" "ac_tenantActionInput s = ta_phrase a"
      "executeTenantLifecycleAction (ta_type a) (tn_id (ta_tenant a)) reason w = (Inr True, w1)"
      "w' = snd (loadTenants s0 w1)" "ac_tenantAction s' = None" "ac_busyTenantId s' = None"
proof (cases "ac_tenantAction s")
  case None
  then have "s' = s \<and> w' = w" using assms by (simp add: submitTenantAction_def)
  then show ?thesis using closed None by blast
next
  case (Some a)
  show ?thesis
  proof (cases "ac_tenantActionInput s = ta_phrase a")
    case False
    then have "s' = s\<lparr>ac_tenantsError := Some ''Confirmation phrase does not match.''\<rparr>" "w' = w"
      using assms Some by (simp_all add: submitTenantAction_def)
    then show ?thesis using unconfirmed [of a] Some False by simp
  next
    case True
    let ?reason = "orNull (trim (ac_tenantActionReason s))"
    let ?s0 = "s\<lparr>ac_busyTenantId := Some (tn_id (ta_tenant a)), ac_tenantsError := None\<rparr>"
    obtain r w1 where r: "executeTenantLifecycleAction (ta_type a) (tn_id (ta_tenant a)) ?reason w = (r, w1)"
      by (cases "executeTenantLifecycleAction (ta_type a) (tn_id (ta_tenant a)) ?reason w")
    show ?thesis
    proof (cases "r = Inr True")
      case True
      obtain s1 w2 where l: "loadTenants ?s0 w1 = (s1, w2)" by (cases "loadTenants ?s0 w1")
      have "s' = (cancelTenantAction s1)\<lparr>ac_busyTenantId := None\<rparr>" "w' = w2"
        using assms Some \<open>ac_tenantActionInput s = ta_phrase a\<close> r l by (simp_all add: submitTenantAction_def Let_def True)
      then show ?thesis
        using accepted [of a ?reason w1 ?s0] Some \<open>ac_tenantActionInput s = ta_phrase a\<close> r l
        by (simp add: True cancelTenantAction_def)
    next
      case False
      have "ac_tenantAction s' = Some a \<and> ac_tenantActionInput s' = ta_phrase a \<and> ac_tenantsError s' \<noteq> None \<and>
          ac_busyTenantId s' = None \<and> w' = w1"
        using assms Some \<open>ac_tenantActionInput s = ta_phrase a\<close> r False
        by (auto simp: submitTenantAction_def Let_def split: sum.splits if_splits)
      then show ?thesis using failed [of a ?reason r] Some \<open>ac_tenantActionInput s = ta_phrase a\<close> r False by simp
    qed
  qed
qed

text \<open>
  The console suspends or reactivates exactly the tenant named in the open dialog, and only
  after its confirmation phrase was typed; every other message is a read. The dialog closes
  exactly when the server has accepted the action, and stays open with an error otherwise.
\<close>

theorem tenant_action_confirmed:
  assumes "submitTenantAction s w = (s', w')" and "ac_tenantAction s = Some a"
  shows "addressed (\<lambda>m p. readsOnly m p \<or> confirmedAction s m p) w w' \<and>
    (if ac_tenantAction s' = None
     then \<exists>reason w1. executeTenantLifecycleAction (ta_type a) (tn_id (ta_tenant a)) reason w = (Inr True, w1) \<and>
       ac_busyTenantId s' = None
     else ac_tenantAction s' = Some a \<and> ac_tenantsError s' \<noteq> None)"
  using assms(1)
proof (cases rule: submitTenantAction_cases)
  case (failed b reason r)
  have "keeps (addressed (\<lambda>m p. readsOnly m p \<or> confirmedAction s m p))
      (executeTenantLifecycleAction (ta_type b) (tn_id (ta_tenant b)) reason)"
    by (rule addressed_lifecycle) (use failed in \<open>auto simp: confirmedAction_def\<close>)
  then show ?thesis using failed assms(2) by (auto dest: keepsD)
next
  case (accepted b reason w1 s0)
  have "keeps (addressed (\<lambda>m p. readsOnly m p \<or> confirmedAction s m p))
      (executeTenantLifecycleAction (ta_type b) (tn_id (ta_tenant b)) reason)"
    by (rule addressed_lifecycle) (use accepted in \<open>auto simp: confirmedAction_def\<close>)
  then have "addressed (\<lambda>m p. readsOnly m p \<or> confirmedAction s m p) w w1"
    using accepted by (auto dest: keepsD)
  moreover have "addressed (\<lambda>m p. readsOnly m p \<or> confirmedAction s m p) w1 w'"
    unfolding accepted(4) by (rule addressed_loadTenants) simp
  ultimately show ?thesis using accepted assms(2) addressed_trans by auto
qed (use assms in \<open>auto simp: addressed_refl submitTenantAction_def\<close>)

definition suspendAcme :: TenantAdminAction where
  "suspendAcme = \<lparr>ta_type = Suspend, ta_tenant = sampleTenant ''active'' None None, ta_phrase = ''ACME''\<rparr>"

definition confirmedConsole :: admin_console where
  "confirmedConsole = (openTenantAction suspendAcme initialConsole)\<lparr>ac_tenantActionInput := ''ACME''\<rparr>"

theorem tenant_action_confirmed_witness:
  "ac_tenantAction confirmedConsole = Some suspendAcme \<and>
   (let s' = fst (submitTenantAction confirmedConsole freshBrowser); w' = snd (submitTenantAction confirmedConsole freshBrowser) in
    addressed (\<lambda>m p. readsOnly m p \<or> confirmedAction confirmedConsole m p) freshBrowser w' \<and>
    (if ac_tenantAction s' = None
     then \<exists>reason w1. executeTenantLifecycleAction Suspend ''t1'' reason freshBrowser = (Inr True, w1) \<and>
       ac_busyTenantId s' = None
     else ac_tenantAction s' = Some suspendAcme \<and> ac_tenantsError s' \<noteq> None))"
proof -
  have o: "ac_tenantAction confirmedConsole = Some suspendAcme" by (simp add: confirmedConsole_def openTenantAction_def)
  have t: "ta_type suspendAcme = Suspend" "tn_id (ta_tenant suspendAcme) = ''t1''"
    by (simp_all add: suspendAcme_def sampleTenant_def)
  show ?thesis
    using tenant_action_confirmed [OF prod.collapse [symmetric] o, of freshBrowser] o by (auto simp only: t Let_def)
qed

subsection \<open>Support links\<close>

text \<open>
  A support link is asked for only by the role admin and with an address and a reason; the
  link and the token on the page are those of an answer of the server, and the page is not left
  busy.
\<close>

theorem support_link_guarded:
  assumes "issueImpersonationLink s w = (s', w')" and "\<not> ac_impersonationBusy s"
  shows "\<not> ac_impersonationBusy s' \<and>
    (if w' = w then True
     else ac_operatorRole s = ''admin'' \<and> trim (ac_impersonationEmail s) \<noteq> [] \<and> trim (ac_impersonationReason s) \<noteq> []) \<and>
    (if ac_impersonationError s' = None
     then \<exists>l w1. api_requestImpersonationLink (toLowerCase (trim (ac_impersonationEmail s)))
            (trim (ac_impersonationReason s)) w = (Inr (Supported l), w1) \<and>
          ac_impersonationLink s' = Some (il_url l) \<and> ac_impersonationToken s' = Some (il_token l)
     else ac_impersonationLink s' = ac_impersonationLink s \<and> ac_impersonationToken s' = ac_impersonationToken s)"
proof -
  let ?email = "toLowerCase (trim (ac_impersonationEmail s))" and ?reason = "trim (ac_impersonationReason s)"
  show ?thesis
  proof (cases "canRunAdminOnlyActions s \<and> ?email \<noteq> [] \<and> ?reason \<noteq> []")
    case False
    then have "\<exists>m. s\<lparr>ac_impersonationError := Some m\<rparr> = s' \<and> w = w'"
      using assms(1) by (cases "canRunAdminOnlyActions s"; cases "?email = []")
        (auto simp: issueImpersonationLink_def Let_def)
    then obtain m where "s' = s\<lparr>ac_impersonationError := Some m\<rparr>" "w' = w" by blast
    then show ?thesis using assms(2) by simp
  next
    case True
    then have g: "ac_operatorRole s = ''admin''" "trim (ac_impersonationEmail s) \<noteq> []" "?reason \<noteq> []"
      by (auto simp: canRunAdminOnlyActions_def)
    obtain r w1 where r: "api_requestImpersonationLink ?email ?reason w = (r, w1)"
      by (cases "api_requestImpersonationLink ?email ?reason w")
    have "issueSupportImpersonationLink ?email ?reason w =
        (case r of Inl e \<Rightarrow> Inl e | Inr Unsupported \<Rightarrow> Inr (False, None) | Inr (Supported l) \<Rightarrow> Inr (True, Some l), w1)"
      using r by (auto simp: issueSupportImpersonationLink_def requestImpersonationLink_def io_simps
          split: sum.split OptionalEndpointResult.split)
    then have "s' = linkIssued (case r of Inl e \<Rightarrow> Inl e | Inr Unsupported \<Rightarrow> Inr (False, None)
          | Inr (Supported l) \<Rightarrow> Inr (True, Some l)) (s\<lparr>ac_impersonationBusy := True, ac_impersonationError := None\<rparr>)"
      using assms(1) True by (simp add: issueImpersonationLink_def Let_def answered_def)
    then show ?thesis
      using g r by (auto simp: linkIssued_def consoleNotify_def split: sum.splits OptionalEndpointResult.splits)
  qed
qed

theorem support_link_guarded_witness:
  "\<not> ac_impersonationBusy (fst (issueImpersonationLink initialConsole freshBrowser)) \<and>
   snd (issueImpersonationLink initialConsole freshBrowser) = freshBrowser \<and>
   ac_impersonationLink (fst (issueImpersonationLink initialConsole freshBrowser)) = None"
  using support_link_guarded [OF prod.collapse [symmetric], of initialConsole freshBrowser]
  by (simp add: initialConsole_def issueImpersonationLink_def canRunAdminOnlyActions_def Let_def)

subsection \<open>Requeueing a job\<close>

text \<open>
  A requeued job is announced and leaves no error, also when the queue could not be reloaded
  after it: the page then shows the old rows without a hint.
\<close>

lemma requeue_outcome:
  assumes "requeueDeadLetter jobId s w = (s', w')"
  shows "ac_requeueJobId s' = None \<and>
    (if fst (requeueDeadLetterById jobId w) = Inr True
     then ac_deadLetterError s' = None \<and> ac_notifications s' = ac_notifications s @
       [(NSuccess, ''Dead-letter requeued'', ''Job '' @ take 8 jobId @ '' queued for retry.'')]
     else ac_deadLetterError s' \<noteq> None \<and> ac_notifications s' = ac_notifications s \<and> ac_deadLetters s' = ac_deadLetters s)"
proof -
  obtain r w1 where r: "requeueDeadLetterById jobId w = (r, w1)" by (cases "requeueDeadLetterById jobId w")
  have n: "ac_notifications (deadLettersLoaded x t) = ac_notifications t" for x t
    by (auto simp: deadLettersLoaded_def split: sum.split)
  show ?thesis
    using assms r by (cases r) (auto simp: requeueDeadLetter_def Let_def loadDeadLetters_def answered_def consoleNotify_def n
        split: if_splits prod.splits)
qed

lemma requeue_hides_reload_error:
  assumes "requeueDeadLetterById jobId w = (Inr True, w1)" and "loadAdminDeadLetterQueue w1 = (Inl e, w2)"
  shows "ac_deadLetterError (fst (requeueDeadLetter jobId s w)) = None \<and>
    ac_deadLetters (fst (requeueDeadLetter jobId s w)) = ac_deadLetters s"
  using assms by (simp add: requeueDeadLetter_def Let_def loadDeadLetters_def answered_def deadLettersLoaded_def
      consoleNotify_def)

subsection \<open>Paging and filters\<close>

text \<open>
  Against a server without the paged endpoint the console gets every tenant, on every page and
  whatever its filters and search say.
\<close>

lemma admin_filters_ignored:
  assumes "api_listAllTenantsPaged (aq_page q) (aq_limit q) (aq_status q) (aq_search q) (aq_plan q) (aq_billingStatus q)
      (aq_paymentChannel q) (nullish (aq_filterMode q) AndMode) w = (Inr Unsupported, w1)"
    and "api_listAllTenants w1 = (Inr ts, w2)"
  shows "\<exists>d. loadAdminTenantPage q w = (Inr d, w2) \<and> at_tenants d = ts \<and> at_total d = int (length ts)"
  using assms by (simp add: loadAdminTenantPage_def fetchAdminTenants_def io_simps)

text \<open>The last page can disappear under the console: its page number is never brought back.\<close>

lemma tenant_page_beyond_last:
  "let s = initialConsole\<lparr>ac_tenantPage := 3, ac_tenantTotal := 101\<rparr>;
       s' = tenantsLoaded (Inr \<lparr>at_tenants = [], at_total = 100, at_page = 3, at_usingServerPagination = True\<rparr>) s in
   ac_tenantPage s = tenantTotalPages s \<and> ac_tenantPage s' > tenantTotalPages s' \<and> ac_tenants s' = []"
  by (simp add: tenantTotalPages_def TENANT_LIMIT_def tenantsLoaded_def initialConsole_def Let_def)

text \<open>
  After a change of a filter the loading effect runs with the old page before the other effect
  sets the page to one, which runs the loading effect again: two requests are under way, and the
  answer that arrives last is shown.
\<close>

definition queriesAfterFilterChange :: "admin_console \<Rightarrow> AdminTenantQuery list" where
  "queriesAfterFilterChange s =
     tenantQuery s # (if ac_tenantPage (resetTenantPage s) \<noteq> ac_tenantPage s then [tenantQuery (resetTenantPage s)] else [])"

lemma filter_change_race:
  assumes "ac_tenantPage s \<noteq> 1"
  shows "map aq_page (queriesAfterFilterChange s) = [ac_tenantPage s, 1] \<and>
    ac_tenants (fold tenantsLoaded [Inr firstPage, Inr oldPage] (resetTenantPage s)) = at_tenants oldPage \<and>
    ac_tenantPage (fold tenantsLoaded [Inr firstPage, Inr oldPage] (resetTenantPage s)) = 1"
  using assms by (simp add: queriesAfterFilterChange_def resetTenantPage_def tenantQuery_def tenantsLoaded_def)

end
