(* ===== verification/Bounded_History.thy ===== *)
theory Bounded_History
  imports Prelude
begin

section \<open>Bounded histories\<close>

text \<open>
  The interface shared by the two places that keep a bounded list of the latest things: the
  notification list (newest first, at most 200) and the log panel (oldest first, at most 300
  lines). \<open>recent\<close> is what the history holds, newest first; adding puts one thing in front and
  lets the oldest go. The interpretations are in the theories Notifications and Job_Log.
\<close>

locale bounded_history =
  fixes add :: "'a \<Rightarrow> 's \<Rightarrow> 's"
    and recent :: "'s \<Rightarrow> 'a list"
    and cap :: nat
  assumes recent_add: "recent (add x s) = take cap (x # recent s)"
begin

lemma recent_adds:
  "length (recent s) \<le> cap \<Longrightarrow> recent (fold add xs s) = take cap (rev xs @ recent s)"
proof (induction xs arbitrary: s)
  case Nil
  then show ?case by simp
next
  case (Cons x xs)
  have "length (recent (add x s)) \<le> cap" by (simp add: recent_add)
  from Cons.IH [OF this] show ?case
    by (simp add: recent_add take_append min_def split: nat_diff_split)
qed

lemma adds_bounded: "length (recent s) \<le> cap \<Longrightarrow> length (recent (fold add xs s)) \<le> cap"
  by (simp add: recent_adds)

lemma latest_kept:
  "length (recent s) \<le> cap \<Longrightarrow> length ys \<le> cap \<Longrightarrow> prefix (rev ys) (recent (fold add (xs @ ys) s))"
  by (simp add: recent_adds take_append)

lemma newest_first: "0 < cap \<Longrightarrow> hd (recent (add x s)) = x"
  by (cases cap) (simp_all add: recent_add)

end

end
