(* ===== verification/Job_Log.thy ===== *)
theory Job_Log
  imports Api_Endpoints Bounded_History
begin

section \<open>The live job log\<close>

text \<open>
  \<^verbatim>\<open>saas-ui/domains/shared/components/JobLogPanel.tsx\<close>: a panel that shows the log of a
  job. It reads the job once, opens a WebSocket that streams the lines, and polls the job with
  exponential back-off while the stream is not live. The panel's state is a record; each
  browser event and each settled request is a step, followed by the commits in which React
  reruns the effects whose dependencies changed. An effect closes over the values of the render
  it belongs to: a chain of polls keeps the status and the stream state it was started with.
\<close>

subsection \<open>Lines\<close>

definition JOB_LOG_LIMIT :: nat where "JOB_LOG_LIMIT = 300"

definition TERMINAL_STATUSES :: "string list" where
  "TERMINAL_STATUSES = [''succeeded'', ''failed'', ''deleted'', ''canceled'', ''cancelled'']"

definition terminalStatus :: "string \<Rightarrow> bool" where
  "terminalStatus s \<longleftrightarrow> toLowerCase s \<in> set TERMINAL_STATUSES"

text \<open>The carriage return that the source's separator may take is removed by \<^verbatim>\<open>trimEnd\<close> as well.\<close>

definition splitLogs :: "string option \<Rightarrow> string list" where
  "splitLogs logs =
     (case logs of None \<Rightarrow> []
      | Some s \<Rightarrow> if s = [] then []
                  else lastN JOB_LOG_LIMIT (filter (\<lambda>l. l \<noteq> []) (map trimEnd (splitOn [CHR 0x0A] s))))"

definition pushLine :: "string \<Rightarrow> string list \<Rightarrow> string list" where
  "pushLine l ls = lastN JOB_LOG_LIMIT (ls @ [l])"

definition appendLine :: "string \<Rightarrow> string list \<Rightarrow> string list" where
  "appendLine line ls = (let trimmed = trimEnd line in if trimmed = [] then ls else pushLine trimmed ls)"

interpretation jl: bounded_history pushLine rev JOB_LOG_LIMIT
  by unfold_locales (simp add: pushLine_def rev_lastN)

subsection \<open>The panel\<close>

datatype stream_state = StreamIdle | StreamConnecting | StreamLive | StreamCompleted | StreamError

record log_props =
  lp_jobId :: "string option"
  lp_logs :: "string option"
  lp_status :: "string option"

type_synonym chain = "string \<times> stream_state"
type_synonym log_view = "log_props \<times> bool \<times> string \<times> stream_state"

record log_panel =
  jl_props :: log_props
  jl_lines :: "string list"
  jl_status :: string
  jl_stream :: stream_state
  jl_tabVisible :: bool
  jl_error :: "string option"
  jl_attempt :: nat
  jl_delay :: int
  jl_timerRef :: "nat option"
  jl_hidden :: bool
  jl_token :: "string option"
  jl_timers :: "(nat \<times> int \<times> chain) list"
  jl_nextTimer :: nat
  jl_polls :: "chain list"
  jl_loading :: bool
  jl_refreshes :: nat
  jl_socket :: bool
  jl_polling :: bool
  jl_updates :: "Job list"
  jl_seen :: "log_view option"

text \<open>
  Beyond the component's own state: whether the document is hidden, the session's token, the
  timers and requests under way, whether the stream and the polling effect have something to
  clean up, the calls of \<^verbatim>\<open>onJobUpdate\<close>, and what the effects saw at the last commit.
\<close>

definition POLLING_BASE_DELAY_MS :: int where "POLLING_BASE_DELAY_MS = 5000"
definition POLLING_MAX_DELAY_MS :: int where "POLLING_MAX_DELAY_MS = 30000"

definition jobShown :: "log_panel \<Rightarrow> bool" where
  "jobShown p \<longleftrightarrow> truthyStr (lp_jobId (jl_props p))"

definition isTerminal :: "log_panel \<Rightarrow> bool" where
  "isTerminal p \<longleftrightarrow> terminalStatus (jl_status p)"

definition watching :: "log_panel \<Rightarrow> bool" where
  "watching p \<longleftrightarrow> jobShown p \<and> \<not> isTerminal p \<and> jl_tabVisible p"

definition resetPollingBackoff :: "log_panel \<Rightarrow> log_panel" where
  "resetPollingBackoff p = p\<lparr>jl_attempt := 0, jl_delay := POLLING_BASE_DELAY_MS\<rparr>"

text \<open>\<open>draw\<close> stands for the random number, an integer drawn from the span of the jitter.\<close>

definition getNextPollingDelay :: "nat \<Rightarrow> log_panel \<Rightarrow> log_panel" where
  "getNextPollingDelay draw p =
     (let exponentialDelay = min (POLLING_BASE_DELAY_MS * 2 ^ jl_attempt p) POLLING_MAX_DELAY_MS;
          jitterSpan = exponentialDelay div 5;
          jitter = (if jitterSpan > 0 then int draw mod (jitterSpan * 2 + 1) - jitterSpan else 0) in
      p\<lparr>jl_attempt := jl_attempt p + 1, jl_delay := max POLLING_BASE_DELAY_MS (exponentialDelay + jitter)\<rparr>)"

definition clearPollTimer :: "log_panel \<Rightarrow> log_panel" where
  "clearPollTimer p =
     (case jl_timerRef p of None \<Rightarrow> p
      | Some i \<Rightarrow> p\<lparr>jl_timers := filter (\<lambda>t. fst t \<noteq> i) (jl_timers p), jl_timerRef := None\<rparr>)"

definition scheduleJobPoll :: "chain \<Rightarrow> log_panel \<Rightarrow> log_panel" where
  "scheduleJobPoll c p =
     (if jl_hidden p then p
      else p\<lparr>jl_timers := jl_timers p @ [(jl_nextTimer p, jl_delay p, c)],
             jl_timerRef := Some (jl_nextTimer p), jl_nextTimer := jl_nextTimer p + 1\<rparr>)"

text \<open>What an answer of the job endpoint does to the panel.\<close>

definition nextStatus :: "Job \<Rightarrow> string" where
  "nextStatus j = orElse (Some (jb_status j)) ''unknown''"

definition showJob :: "Job \<Rightarrow> log_panel \<Rightarrow> log_panel" where
  "showJob j p = p\<lparr>jl_status := nextStatus j,
     jl_lines := (if jb_logs j = [] then jl_lines p else splitLogs (Some (jb_logs j))),
     jl_updates := jl_updates p @ [j]\<rparr>"

definition refreshJob :: "Job \<Rightarrow> log_panel \<Rightarrow> log_panel" where
  "refreshJob j p = showJob j (p\<lparr>jl_stream := (if terminalStatus (nextStatus j) then StreamCompleted else jl_stream p)\<rparr>)"

subsection \<open>Effects\<close>

definition view :: "log_panel \<Rightarrow> log_view" where
  "view p = (jl_props p, jl_tabVisible p, jl_status p, jl_stream p)"

definition wakeEffect :: "log_panel \<Rightarrow> log_panel \<Rightarrow> log_panel" where
  "wakeEffect q p = (if watching q then (resetPollingBackoff p)\<lparr>jl_refreshes := jl_refreshes p + 1\<rparr> else p)"

definition resetEffect :: "log_panel \<Rightarrow> log_panel \<Rightarrow> log_panel" where
  "resetEffect q p =
     clearPollTimer (resetPollingBackoff
       (p\<lparr>jl_lines := splitLogs (lp_logs (jl_props q)), jl_status := nullish (lp_status (jl_props q)) ''unknown'',
          jl_stream := (if jobShown q then StreamConnecting else StreamIdle), jl_error := None\<rparr>))"

definition loadEffect :: "log_panel \<Rightarrow> log_panel \<Rightarrow> log_panel" where
  "loadEffect q p = p\<lparr>jl_loading := jobShown q\<rparr>"

definition streamEffect :: "log_panel \<Rightarrow> log_panel \<Rightarrow> log_panel" where
  "streamEffect q p =
     (if \<not> watching q then p
      else if truthyStr (jl_token p) then p\<lparr>jl_socket := True, jl_stream := StreamConnecting\<rparr>
      else p\<lparr>jl_stream := StreamError, jl_error := Some ''Missing auth token for live stream.''\<rparr>)"

definition pollEffect :: "log_panel \<Rightarrow> log_panel \<Rightarrow> log_panel" where
  "pollEffect q p =
     (if \<not> watching q then p
      else (if jl_stream q \<noteq> StreamLive then scheduleJobPoll (jl_status q, jl_stream q) p else p)\<lparr>jl_polling := True\<rparr>)"

text \<open>
  One commit: the effects with changed dependencies clean up, then run, in the order of the
  source. The dependencies are functions of the view; the stream effect and the waking effect
  have the same.
\<close>

definition streamDeps :: "log_view \<Rightarrow> bool \<times> bool \<times> string option" where
  "streamDeps v = (case v of (ps, vis, st, s) \<Rightarrow> (vis, terminalStatus st, lp_jobId ps))"

definition changed :: "(log_view \<Rightarrow> 'd) \<Rightarrow> log_panel \<Rightarrow> bool" where
  "changed deps p \<longleftrightarrow> (case jl_seen p of None \<Rightarrow> True | Some v \<Rightarrow> deps v \<noteq> deps (view p))"

definition pollDeps :: "log_view \<Rightarrow> (bool \<times> bool \<times> string option) \<times> string \<times> stream_state" where
  "pollDeps v = (streamDeps v, snd (snd v))"

definition runIf :: "bool \<Rightarrow> (log_panel \<Rightarrow> log_panel) \<Rightarrow> log_panel \<Rightarrow> log_panel" where
  "runIf b f p = (if b then f p else p)"

definition closeStream :: "log_panel \<Rightarrow> log_panel" where
  "closeStream p = p\<lparr>jl_socket := False\<rparr>"

definition cleanPolling :: "log_panel \<Rightarrow> log_panel" where
  "cleanPolling p = (if jl_polling p then (clearPollTimer p)\<lparr>jl_polling := False\<rparr> else p)"

definition commit :: "log_panel \<Rightarrow> log_panel" where
  "commit q =
     (let stream = changed streamDeps q; props = changed fst q; job = changed (lp_jobId \<circ> fst) q;
          poll = changed pollDeps q;
          p = q\<lparr>jl_seen := Some (view q)\<rparr>;
          p = runIf poll cleanPolling (runIf stream closeStream p);
          p = runIf stream (wakeEffect q) p;
          p = runIf props (resetEffect q) p;
          p = runIf job (loadEffect q) p;
          p = runIf stream (streamEffect q) p in
      runIf poll (pollEffect q) p)"

fun commits :: "nat \<Rightarrow> log_panel \<Rightarrow> log_panel" where
  "commits 0 p = p"
| "commits (Suc n) p = (if jl_seen p = Some (view p) then p else commits n (commit p))"

text \<open>Three commits are always enough (\<open>commits_settle\<close> below).\<close>

definition render :: "log_panel \<Rightarrow> log_panel" where
  "render p = commits 3 p"

subsection \<open>Events\<close>

datatype log_event =
    SocketOpened
  | SocketMessage string
  | SocketFailed
  | SocketClosed
  | PollTimerDue nat
  | PollSettled nat "exn + Job" nat
  | RefreshSettled "exn + Job"
  | LoadSettled "exn + Job"
  | RefreshClicked
  | TabVisibility bool
  | PropsChanged log_props

definition onSocketMessage :: "string \<Rightarrow> log_panel \<Rightarrow> log_panel" where
  "onSocketMessage text p =
     (if text = ''__DONE__'' then p\<lparr>jl_stream := StreamCompleted, jl_refreshes := jl_refreshes p + 1\<rparr>
      else p\<lparr>jl_lines := appendLine text (jl_lines p)\<rparr>)"

definition onPollTimer :: "nat \<Rightarrow> log_panel \<Rightarrow> log_panel" where
  "onPollTimer i p =
     (case find (\<lambda>t. fst t = i) (jl_timers p) of None \<Rightarrow> p
      | Some (_, _, c) \<Rightarrow> p\<lparr>jl_timers := filter (\<lambda>t. fst t \<noteq> i) (jl_timers p), jl_polls := jl_polls p @ [c]\<rparr>)"

definition onPollSettled :: "nat \<Rightarrow> exn + Job \<Rightarrow> nat \<Rightarrow> log_panel \<Rightarrow> log_panel" where
  "onPollSettled k r draw p =
     (if length (jl_polls p) \<le> k then p
      else let c = jl_polls p ! k;
               p1 = p\<lparr>jl_polls := take k (jl_polls p) @ drop (Suc k) (jl_polls p)\<rparr>;
               p2 = (case r of Inr j \<Rightarrow> refreshJob j p1 | Inl _ \<Rightarrow> p1);
               next = (case r of Inr j \<Rightarrow> nextStatus j | Inl _ \<Rightarrow> fst c);
               p3 = getNextPollingDelay draw p2 in
           if \<not> terminalStatus next \<and> snd c \<noteq> StreamLive then scheduleJobPoll c p3 else p3)"

definition onRefreshSettled :: "exn + Job \<Rightarrow> log_panel \<Rightarrow> log_panel" where
  "onRefreshSettled r p =
     (if jl_refreshes p = 0 then p
      else let p1 = p\<lparr>jl_refreshes := jl_refreshes p - 1\<rparr> in
           case r of Inr j \<Rightarrow> refreshJob j p1 | Inl _ \<Rightarrow> p1)"

definition onLoadSettled :: "exn + Job \<Rightarrow> log_panel \<Rightarrow> log_panel" where
  "onLoadSettled r p =
     (if \<not> jl_loading p then p
      else case r of
        Inr j \<Rightarrow> (showJob j p)\<lparr>jl_loading := False\<rparr>
      | Inl e \<Rightarrow> p\<lparr>jl_loading := False,
          jl_error := (if isSessionExpiredError e then jl_error p
                       else Some (getApiErrorMessage e ''Failed to load job details''))\<rparr>)"

definition onTabVisibility :: "bool \<Rightarrow> log_panel \<Rightarrow> log_panel" where
  "onTabVisibility hidden p =
     (let p1 = p\<lparr>jl_hidden := hidden, jl_tabVisible := \<not> hidden\<rparr> in
      if hidden then clearPollTimer p1 else p1)"

primrec logEvent :: "log_event \<Rightarrow> log_panel \<Rightarrow> log_panel" where
  "logEvent SocketOpened p = (resetPollingBackoff p)\<lparr>jl_stream := StreamLive, jl_error := None\<rparr>"
| "logEvent (SocketMessage text) p = onSocketMessage text p"
| "logEvent SocketFailed p = p\<lparr>jl_stream := StreamError,
     jl_error := Some (nullish (jl_error p) ''Live stream unavailable. Falling back to polling.'')\<rparr>"
| "logEvent SocketClosed p =
     p\<lparr>jl_stream := (if jl_stream p = StreamCompleted then StreamCompleted else StreamError)\<rparr>"
| "logEvent (PollTimerDue i) p = onPollTimer i p"
| "logEvent (PollSettled k r draw) p = onPollSettled k r draw p"
| "logEvent (RefreshSettled r) p = onRefreshSettled r p"
| "logEvent (LoadSettled r) p = onLoadSettled r p"
| "logEvent RefreshClicked p = (if jobShown p then p\<lparr>jl_refreshes := jl_refreshes p + 1\<rparr> else p)"
| "logEvent (TabVisibility hidden) p = onTabVisibility hidden p"
| "logEvent (PropsChanged ps) p = p\<lparr>jl_props := ps\<rparr>"

definition logStep :: "log_event \<Rightarrow> log_panel \<Rightarrow> log_panel" where
  "logStep e p = render (logEvent e p)"

text \<open>The panel at its first render, in a visible document, and after it.\<close>

definition initialPanel :: "log_props \<Rightarrow> string option \<Rightarrow> log_panel" where
  "initialPanel ps token =
     \<lparr>jl_props = ps, jl_lines = splitLogs (lp_logs ps), jl_status = nullish (lp_status ps) ''unknown'',
      jl_stream = StreamIdle, jl_tabVisible = True, jl_error = None, jl_attempt = 0,
      jl_delay = POLLING_BASE_DELAY_MS, jl_timerRef = None, jl_hidden = False, jl_token = token, jl_timers = [],
      jl_nextTimer = 0, jl_polls = [], jl_loading = False, jl_refreshes = 0, jl_socket = False,
      jl_polling = False, jl_updates = [], jl_seen = None\<rparr>"

definition mountPanel :: "log_props \<Rightarrow> string option \<Rightarrow> log_panel" where
  "mountPanel ps token = render (initialPanel ps token)"

definition runLog :: "log_event list \<Rightarrow> log_panel \<Rightarrow> log_panel" where
  "runLog es p = fold logStep es p"

subsection \<open>Commits settle\<close>

lemmas pane_defs = clearPollTimer_def resetPollingBackoff_def scheduleJobPoll_def cleanPolling_def closeStream_def
  wakeEffect_def loadEffect_def pollEffect_def

lemma view_frame [simp]:
  "view (clearPollTimer p) = view p" "view (resetPollingBackoff p) = view p" "view (scheduleJobPoll c p) = view p"
  "view (cleanPolling p) = view p" "view (closeStream p) = view p" "view (wakeEffect q p) = view p"
  "view (loadEffect q p) = view p" "view (pollEffect q p) = view p" "view (p\<lparr>jl_seen := v\<rparr>) = view p"
  by (simp_all add: view_def pane_defs split: option.split)

lemma seen_frame [simp]:
  "jl_seen (clearPollTimer p) = jl_seen p" "jl_seen (resetPollingBackoff p) = jl_seen p"
  "jl_seen (scheduleJobPoll c p) = jl_seen p" "jl_seen (cleanPolling p) = jl_seen p"
  "jl_seen (closeStream p) = jl_seen p" "jl_seen (wakeEffect q p) = jl_seen p" "jl_seen (loadEffect q p) = jl_seen p"
  "jl_seen (pollEffect q p) = jl_seen p" "jl_seen (streamEffect q p) = jl_seen p"
  "jl_seen (resetEffect q p) = jl_seen p"
  by (simp_all add: pane_defs streamEffect_def resetEffect_def split: option.split)

lemma runIf_seen [simp]: "(\<And>p. jl_seen (f p) = jl_seen p) \<Longrightarrow> jl_seen (runIf b f p) = jl_seen p"
  by (simp add: runIf_def)

lemma runIf_view [simp]: "(\<And>p. view (f p) = view p) \<Longrightarrow> view (runIf b f p) = view p"
  by (simp add: runIf_def)

lemma commit_seen [simp]: "jl_seen (commit q) = Some (view q)"
  by (simp add: commit_def Let_def)

lemma fst_view: "fst (view p) = jl_props p"
  by (simp add: view_def)

lemma view_fields: "view p = view q \<longleftrightarrow> jl_props p = jl_props q \<and> jl_tabVisible p = jl_tabVisible q \<and>
    jl_status p = jl_status q \<and> jl_stream p = jl_stream q"
  by (auto simp: view_def)

lemma view_steps:
  "fst (view (streamEffect q p)) = fst (view p)" "fst (snd (view (streamEffect q p))) = fst (snd (view p))"
  "fst (snd (snd (view (streamEffect q p)))) = fst (snd (snd (view p)))"
  "fst (view (resetEffect q p)) = fst (view p)" "fst (snd (view (resetEffect q p))) = fst (snd (view p))"
  by (simp_all add: view_def streamEffect_def resetEffect_def pane_defs split: option.split)

lemma commit_view:
  "fst (view (commit q)) = fst (view q)" "fst (snd (view (commit q))) = fst (snd (view q))"
  "\<not> changed fst q \<Longrightarrow> fst (snd (snd (view (commit q)))) = fst (snd (snd (view q)))"
  "\<not> changed fst q \<Longrightarrow> \<not> changed streamDeps q \<Longrightarrow> view (commit q) = view q"
  by (simp_all add: commit_def Let_def runIf_def view_steps)

lemma streamDeps_parts: "fst v = fst v' \<Longrightarrow> fst (snd v) = fst (snd v') \<Longrightarrow> fst (snd (snd v)) = fst (snd (snd v')) \<Longrightarrow>
    streamDeps v = streamDeps v'"
  by (cases v; cases v') (simp add: streamDeps_def)

theorem commits_settle: "jl_seen (render p) = Some (view (render p))"
proof -
  define q where "q = commit p"
  define r where "r = commit q"
  have q: "\<not> changed fst q" by (simp add: changed_def q_def commit_view)
  have "streamDeps (view (commit q)) = streamDeps (view q)"
    by (rule streamDeps_parts) (simp_all add: commit_view q)
  then have "\<not> changed fst r" "\<not> changed streamDeps r"
    by (simp_all add: changed_def r_def commit_view)
  then have "view (commit r) = view r" by (rule commit_view(4))
  then have "jl_seen (commit r) = Some (view (commit r))" by (simp only: commit_seen)
  then show ?thesis
    unfolding render_def numeral_3_eq_3 commits.simps q_def [symmetric] r_def [symmetric]
    by (simp only: split: if_split) simp
qed

subsection \<open>The panel is never silent\<close>

definition chainAlive :: "chain \<Rightarrow> bool" where
  "chainAlive c \<longleftrightarrow> \<not> terminalStatus (fst c) \<and> snd c \<noteq> StreamLive"

definition sound :: "log_panel \<Rightarrow> bool" where
  "sound p \<longleftrightarrow> jl_hidden p = (\<not> jl_tabVisible p) \<and> (\<forall>t \<in> set (jl_timers p). chainAlive (snd (snd t))) \<and>
     (\<forall>c \<in> set (jl_polls p). chainAlive c)"

definition covered :: "log_panel \<Rightarrow> bool" where
  "covered p \<longleftrightarrow> \<not> watching p \<or> jl_stream p = StreamLive \<or> jl_timers p \<noteq> [] \<or> jl_polls p \<noteq> []"

definition panelOk :: "log_panel \<Rightarrow> bool" where
  "panelOk p \<longleftrightarrow> sound p \<and> (\<exists>v. jl_seen p = Some v \<and> fst v = jl_props p \<and> (view p = v \<longrightarrow> covered p))"

lemma sound_frame [simp]:
  "sound p \<Longrightarrow> sound (clearPollTimer p)" "sound p \<Longrightarrow> sound (resetPollingBackoff p)"
  "sound p \<Longrightarrow> sound (cleanPolling p)" "sound p \<Longrightarrow> sound (closeStream p)" "sound p \<Longrightarrow> sound (wakeEffect q p)"
  "sound p \<Longrightarrow> sound (loadEffect q p)" "sound p \<Longrightarrow> sound (streamEffect q p)" "sound p \<Longrightarrow> sound (resetEffect q p)"
  "sound (p\<lparr>jl_seen := v\<rparr>) = sound p"
  by (auto simp: sound_def pane_defs streamEffect_def resetEffect_def split: option.split)

lemma sound_schedule: "sound p \<Longrightarrow> chainAlive c \<Longrightarrow> sound (scheduleJobPoll c p)"
  by (auto simp: sound_def scheduleJobPoll_def)

lemma sound_pollEffect: "sound p \<Longrightarrow> sound (pollEffect q p)"
proof -
  assume s: "sound p"
  have "sound (scheduleJobPoll (jl_status q, jl_stream q) p)" if "watching q" "jl_stream q \<noteq> StreamLive"
    by (rule sound_schedule [OF s]) (use that in \<open>auto simp: chainAlive_def watching_def isTerminal_def\<close>)
  with s show ?thesis by (auto simp: pollEffect_def sound_def)
qed

lemma sound_commit: "sound q \<Longrightarrow> sound (commit q)"
  by (simp add: commit_def Let_def runIf_def sound_pollEffect)

lemma watching_view: "view p = view q \<Longrightarrow> watching p = watching q"
  by (auto simp: view_fields watching_def jobShown_def isTerminal_def)

lemma pollEffect_timer:
  "watching q \<Longrightarrow> jl_stream q \<noteq> StreamLive \<Longrightarrow> \<not> jl_hidden p \<Longrightarrow> jl_timers (pollEffect q p) \<noteq> []"
  by (simp add: pollEffect_def scheduleJobPoll_def)

lemma hidden_frame [simp]:
  "jl_hidden (clearPollTimer p) = jl_hidden p" "jl_hidden (resetPollingBackoff p) = jl_hidden p"
  "jl_hidden (cleanPolling p) = jl_hidden p" "jl_hidden (closeStream p) = jl_hidden p"
  "jl_hidden (wakeEffect q p) = jl_hidden p" "jl_hidden (loadEffect q p) = jl_hidden p"
  "jl_hidden (streamEffect q p) = jl_hidden p" "jl_hidden (resetEffect q p) = jl_hidden p"
  by (simp_all add: pane_defs streamEffect_def resetEffect_def split: option.split)

lemma commit_timer:
  "changed pollDeps q \<Longrightarrow> watching q \<Longrightarrow> jl_stream q \<noteq> StreamLive \<Longrightarrow> \<not> jl_hidden q \<Longrightarrow> jl_timers (commit q) \<noteq> []"
  by (simp add: commit_def Let_def runIf_def pollEffect_timer)

lemma commit_ok:
  assumes s: "sound q" and c: "changed pollDeps q"
  shows "panelOk (commit q)"
proof -
  have p: "jl_props (commit q) = jl_props q" using commit_view(1) [of q] by (simp add: fst_view)
  have "covered (commit q)" if v: "view (commit q) = view q"
  proof (cases "watching q \<and> jl_stream q \<noteq> StreamLive")
    case True
    then have "\<not> jl_hidden q" using s by (simp add: sound_def watching_def)
    with True c show ?thesis by (simp add: covered_def commit_timer)
  next
    case False
    then show ?thesis using watching_view [OF v] v by (auto simp: covered_def view_fields)
  qed
  with s p show ?thesis by (simp add: panelOk_def sound_commit fst_view)
qed

lemma unsettled_changes: "jl_seen p = Some v \<Longrightarrow> fst v = jl_props p \<Longrightarrow> view p \<noteq> v \<Longrightarrow> changed pollDeps p"
  by (auto simp: changed_def pollDeps_def streamDeps_def view_def split: prod.splits)

lemma commits_ok: "panelOk p \<Longrightarrow> panelOk (commits n p)"
proof (induction n arbitrary: p)
  case (Suc n)
  show ?case
  proof (cases "jl_seen p = Some (view p)")
    case False
    then have "panelOk (commit p)"
      using Suc.prems unsettled_changes by (intro commit_ok) (auto simp: panelOk_def)
    then show ?thesis using False Suc.IH by simp
  qed (use Suc.prems in simp)
qed simp

definition propsFixed :: "log_event \<Rightarrow> bool" where
  "propsFixed e \<longleftrightarrow> (case e of PropsChanged _ \<Rightarrow> False | _ \<Rightarrow> True)"

lemma mount_ok: "panelOk (mountPanel ps token)"
proof -
  let ?p = "initialPanel ps token"
  have i: "sound ?p" "changed pollDeps ?p" "jl_seen ?p = None"
    by (simp_all add: sound_def changed_def initialPanel_def)
  then have "mountPanel ps token = commits 2 (commit ?p)"
    by (simp add: mountPanel_def render_def numeral_3_eq_3 numeral_2_eq_2)
  with commit_ok [OF i(1,2)] show ?thesis by (simp add: commits_ok)
qed

lemma panelOk_seen: "panelOk p \<Longrightarrow> jl_seen p = Some v \<Longrightarrow> view q = v \<Longrightarrow> view p = view q \<longrightarrow> covered p"
  by (auto simp: panelOk_def)

text \<open>An event keeps the panel in order when it leaves its chains sound and, unless it changes the view,
  a poll where one is needed.\<close>

lemma panelOk_intro:
  assumes "panelOk p" "jl_seen p = Some (view p)" "jl_seen p' = jl_seen p" "jl_props p' = jl_props p"
    and "sound p'" and "view p' = view p \<Longrightarrow> covered p'"
  shows "panelOk p'"
  using assms by (auto simp: panelOk_def fst_view)

lemma settled_covered: "panelOk p \<Longrightarrow> jl_seen p = Some (view p) \<Longrightarrow> covered p"
  by (auto simp: panelOk_def)

lemma covered_frame: "covered p \<Longrightarrow> view p' = view p \<Longrightarrow> jl_timers p' = jl_timers p \<Longrightarrow> jl_polls p' = jl_polls p \<Longrightarrow> covered p'"
  using watching_view [of p' p] by (simp add: covered_def view_fields)

lemma sound_other: "sound p \<Longrightarrow> jl_hidden p' = jl_hidden p \<Longrightarrow> jl_tabVisible p' = jl_tabVisible p \<Longrightarrow>
    jl_timers p' = jl_timers p \<Longrightarrow> jl_polls p' = jl_polls p \<Longrightarrow> sound p'"
  by (simp add: sound_def)

lemma quiet_event:
  assumes "panelOk p" "jl_seen p = Some (view p)" "jl_seen p' = jl_seen p" "jl_props p' = jl_props p"
    and "jl_hidden p' = jl_hidden p" "jl_tabVisible p' = jl_tabVisible p" "jl_timers p' = jl_timers p" "jl_polls p' = jl_polls p"
  shows "panelOk p'"
  using assms settled_covered [OF assms(1,2)] covered_frame [of p p'] sound_other [of p p']
  by (intro panelOk_intro [OF assms(1-4)]) (auto simp: panelOk_def)

lemma showJob_fields [simp]:
  "jl_seen (showJob j p) = jl_seen p" "jl_props (showJob j p) = jl_props p" "jl_hidden (showJob j p) = jl_hidden p"
  "jl_tabVisible (showJob j p) = jl_tabVisible p" "jl_timers (showJob j p) = jl_timers p" "jl_polls (showJob j p) = jl_polls p"
  "jl_seen (refreshJob j p) = jl_seen p" "jl_props (refreshJob j p) = jl_props p" "jl_hidden (refreshJob j p) = jl_hidden p"
  "jl_tabVisible (refreshJob j p) = jl_tabVisible p" "jl_timers (refreshJob j p) = jl_timers p"
  "jl_polls (refreshJob j p) = jl_polls p" "jl_status (refreshJob j p) = nextStatus j"
  by (simp_all add: showJob_def refreshJob_def)

lemma panelOk_pollTimer:
  assumes "panelOk p" "jl_seen p = Some (view p)"
  shows "panelOk (onPollTimer i p)"
proof (cases "find (\<lambda>t. fst t = i) (jl_timers p)")
  case (Some t)
  obtain d c where t: "t = (i, d, c)" "t \<in> set (jl_timers p)"
    using find_SomeD [OF Some] by (cases t) auto
  have "sound (onPollTimer i p)"
    using assms(1) t Some by (auto simp: onPollTimer_def sound_def panelOk_def)
  moreover have "covered (onPollTimer i p)" using Some t by (simp add: onPollTimer_def covered_def)
  ultimately show ?thesis
    using Some t by (intro panelOk_intro [OF assms]) (simp_all add: onPollTimer_def)
qed (use assms in \<open>simp add: onPollTimer_def\<close>)

lemma delay_frame [simp]:
  "jl_seen (getNextPollingDelay d p) = jl_seen p" "jl_props (getNextPollingDelay d p) = jl_props p"
  "jl_status (getNextPollingDelay d p) = jl_status p" "jl_polls (getNextPollingDelay d p) = jl_polls p"
  "sound (getNextPollingDelay d p) = sound p" "jl_hidden (getNextPollingDelay d p) = jl_hidden p"
  "jl_tabVisible (getNextPollingDelay d p) = jl_tabVisible p"
  unfolding getNextPollingDelay_def Let_def sound_def by simp_all

lemma schedule_frame [simp]:
  "jl_props (scheduleJobPoll c p) = jl_props p" "jl_status (scheduleJobPoll c p) = jl_status p"
  "jl_tabVisible (scheduleJobPoll c p) = jl_tabVisible p" "\<not> jl_hidden p \<Longrightarrow> jl_timers (scheduleJobPoll c p) \<noteq> []"
  by (simp_all add: scheduleJobPoll_def)

lemma panelOk_pollSettled:
  assumes "panelOk p" "jl_seen p = Some (view p)"
  shows "panelOk (onPollSettled k r d p)"
proof (cases "length (jl_polls p) \<le> k")
  case False
  define c where "c = jl_polls p ! k"
  define p1 where "p1 = p\<lparr>jl_polls := take k (jl_polls p) @ drop (Suc k) (jl_polls p)\<rparr>"
  define p3 where "p3 = getNextPollingDelay d (case r of Inr j \<Rightarrow> refreshJob j p1 | Inl _ \<Rightarrow> p1)"
  define st where "st = (case r of Inr j \<Rightarrow> nextStatus j | Inl _ \<Rightarrow> fst c)"
  have res: "onPollSettled k r d p = (if \<not> terminalStatus st \<and> snd c \<noteq> StreamLive then scheduleJobPoll c p3 else p3)"
    using False by (cases r) (simp_all add: onPollSettled_def c_def p1_def p3_def st_def Let_def)
  have s: "sound p" and alive: "chainAlive c"
    using assms(1) False by (auto simp: panelOk_def sound_def c_def)
  have "sound p1" using s by (auto simp: sound_def p1_def dest: in_set_takeD in_set_dropD)
  then have s3: "sound p3" by (cases r) (simp_all add: p3_def sound_other [of p1])
  have same: "jl_seen p3 = jl_seen p" "jl_props p3 = jl_props p" "jl_hidden p3 = jl_hidden p"
    "jl_tabVisible p3 = jl_tabVisible p" by (cases r; simp add: p3_def p1_def)+
  have "covered (onPollSettled k r d p)"
  proof (cases "terminalStatus st")
    case True
    then obtain j where "r = Inr j" using alive by (cases r) (simp_all add: st_def chainAlive_def)
    then have "jl_status p3 = st" by (simp add: p3_def st_def)
    then show ?thesis using True by (simp add: res covered_def watching_def isTerminal_def)
  next
    case ne: False
    show ?thesis
    proof (cases "jl_hidden p")
      case True
      then show ?thesis using s same by (simp add: res covered_def watching_def sound_def)
    qed (use ne alive same in \<open>simp add: res covered_def chainAlive_def\<close>)
  qed
  moreover have "sound (onPollSettled k r d p)" using s3 alive by (simp add: res sound_schedule)
  ultimately show ?thesis using same by (intro panelOk_intro [OF assms]) (simp_all add: res)
qed (use assms in \<open>simp add: onPollSettled_def\<close>)

lemma panelOk_visibility:
  assumes "panelOk p" "jl_seen p = Some (view p)"
  shows "panelOk (onTabVisibility h p)"
proof -
  have s: "sound p" using assms(1) by (simp add: panelOk_def)
  have "sound (p\<lparr>jl_hidden := h, jl_tabVisible := \<not> h\<rparr>)" using s by (simp add: sound_def)
  then have "sound (onTabVisibility h p)" by (cases h) (simp_all add: onTabVisibility_def Let_def)
  moreover have "covered (onTabVisibility h p)" if "view (onTabVisibility h p) = view p"
  proof (cases h)
    case True
    then show ?thesis
      by (simp add: onTabVisibility_def Let_def covered_def watching_def clearPollTimer_def split: option.split)
  next
    case False
    then show ?thesis
      using settled_covered [OF assms] that by (auto simp: onTabVisibility_def Let_def intro: covered_frame)
  qed
  ultimately show ?thesis
    by (intro panelOk_intro [OF assms])
       (simp_all add: onTabVisibility_def Let_def clearPollTimer_def split: option.split)
qed

lemma panelOk_event:
  assumes "panelOk p" "jl_seen p = Some (view p)" "propsFixed e"
  shows "panelOk (logEvent e p)"
proof (cases e)
  case (PollTimerDue i)
  then show ?thesis using panelOk_pollTimer assms by simp
next
  case (PollSettled k r d)
  then show ?thesis using panelOk_pollSettled assms by simp
next
  case (TabVisibility h)
  then show ?thesis using panelOk_visibility assms by simp
next
  case (PropsChanged ps)
  then show ?thesis using assms by (simp add: propsFixed_def)
qed (intro quiet_event [OF assms(1,2)];
    simp add: onSocketMessage_def onRefreshSettled_def onLoadSettled_def resetPollingBackoff_def Let_def split: sum.split)+

lemma panelOk_step:
  assumes "panelOk p" "jl_seen p = Some (view p)" "propsFixed e"
  shows "panelOk (logStep e p) \<and> jl_seen (logStep e p) = Some (view (logStep e p))"
  using commits_settle [of "logEvent e p"] commits_ok [OF panelOk_event [OF assms]]
  by (simp add: logStep_def render_def)

lemma panelOk_run:
  "panelOk p \<Longrightarrow> jl_seen p = Some (view p) \<Longrightarrow> list_all propsFixed es \<Longrightarrow>
    panelOk (runLog es p) \<and> jl_seen (runLog es p) = Some (view (runLog es p))"
  by (induction es arbitrary: p) (auto simp: runLog_def panelOk_step)


definition logExample :: log_panel where
  "logExample = mountPanel \<lparr>lp_jobId = Some ''job-1'', lp_logs = Some ''queued'', lp_status = Some ''queued''\<rparr> (Some ''a.b.c'')"


text \<open>
  A new log text from the parent can silence the panel: the effect that takes it over clears
  the poll's timer and shows the stream as connecting, and when it was shown so already the
  polling effect does not run again. After the stream failed, two such updates leave a visible
  panel of an unfinished job with no stream, no poll and no timer.
\<close>

definition newLogs :: "string \<Rightarrow> log_event" where
  "newLogs s = PropsChanged \<lparr>lp_jobId = Some ''job-1'', lp_logs = Some s, lp_status = Some ''queued''\<rparr>"

theorem props_update_silences_panel:
  "let p = runLog [SocketFailed, SocketClosed, newLogs ''step 1'', newLogs ''step 2''] logExample in
    watching p \<and> jl_stream p = StreamConnecting \<and> jl_timers p = [] \<and> jl_polls p = []"
  by code_simp

text \<open>
  Polling goes on beside a live stream: a poll under way when the stream opens schedules the
  next one, because it still sees the stream state it was started with, and so does every poll
  after it.
\<close>

definition stillQueued :: Job where
  "stillQueued = \<lparr>jb_id = ''job-1'', jb_tenant_id = ''t1'', jb_type = ''provision'', jb_status = ''queued'', jb_rq_job_id = None,
     jb_logs = ''queued'', jb_error = None, jb_created_at = None, jb_started_at = None, jb_finished_at = None\<rparr>"

definition pollOnce :: "log_panel \<Rightarrow> log_panel" where
  "pollOnce p = (case jl_timers p of (i, _) # _ \<Rightarrow> runLog [PollTimerDue i, PollSettled 0 (Inr stillQueued) 0] p | [] \<Rightarrow> p)"

theorem polling_beside_live_stream:
  "let p = runLog [PollTimerDue 1, SocketOpened, PollSettled 0 (Inr stillQueued) 0] logExample; p' = pollOnce p in
    jl_stream p = StreamLive \<and> length (jl_timers p) = 1 \<and>
    jl_stream p' = StreamLive \<and> length (jl_timers p') = 1 \<and> map jb_status (jl_updates p') = [''queued'', ''queued'']"
  by code_simp

subsection \<open>Bounds\<close>

definition delayOk :: "int \<Rightarrow> bool" where
  "delayOk d \<longleftrightarrow> 5000 \<le> d \<and> d \<le> 36000"

definition panelBounded :: "log_panel \<Rightarrow> bool" where
  "panelBounded p \<longleftrightarrow> length (jl_lines p) \<le> JOB_LOG_LIMIT \<and> delayOk (jl_delay p) \<and>
     (\<forall>t \<in> set (jl_timers p). delayOk (fst (snd t)))"

lemma length_splitLogs: "length (splitLogs l) \<le> JOB_LOG_LIMIT"
  by (simp add: splitLogs_def split: option.split)

lemma length_appendLine: "length ls \<le> JOB_LOG_LIMIT \<Longrightarrow> length (appendLine l ls) \<le> JOB_LOG_LIMIT"
  using jl.adds_bounded [of ls "[trimEnd l]"] by (simp add: appendLine_def Let_def)

lemma base_delayOk [simp]: "delayOk POLLING_BASE_DELAY_MS"
  by (simp add: delayOk_def POLLING_BASE_DELAY_MS_def)

lemma delayOk_next: "delayOk (jl_delay (getNextPollingDelay draw p))"
proof -
  define e where "e = min (5000 * 2 ^ jl_attempt p) (30000 :: int)"
  have "(1::int) \<le> 2 ^ jl_attempt p" by simp
  then have e: "5000 \<le> e" "e \<le> 30000" by (simp_all add: e_def)
  have "int draw mod (e div 5 * 2 + 1) \<le> e div 5 * 2"
    using e pos_mod_bound [of "e div 5 * 2 + 1" "int draw"] by simp
  then have "int draw mod (e div 5 * 2 + 1) - e div 5 \<le> 6000" using e by simp
  moreover have "jl_delay (getNextPollingDelay draw p) =
      max 5000 (e + (if e div 5 > 0 then int draw mod (e div 5 * 2 + 1) - e div 5 else 0))"
    by (simp add: getNextPollingDelay_def Let_def e_def POLLING_BASE_DELAY_MS_def POLLING_MAX_DELAY_MS_def)
  ultimately show ?thesis using e by (simp add: delayOk_def)
qed

lemma bounded_next: "panelBounded p \<Longrightarrow> panelBounded (getNextPollingDelay d p)"
proof -
  assume "panelBounded p"
  moreover have "jl_lines (getNextPollingDelay d p) = jl_lines p" "jl_timers (getNextPollingDelay d p) = jl_timers p"
    unfolding getNextPollingDelay_def Let_def by simp_all
  ultimately show ?thesis using delayOk_next [of d p] by (simp add: panelBounded_def)
qed

lemma bounded_parts:
  "panelBounded p \<Longrightarrow> panelBounded (clearPollTimer p)" "panelBounded p \<Longrightarrow> panelBounded (resetPollingBackoff p)"
  "panelBounded p \<Longrightarrow> panelBounded (scheduleJobPoll c p)" "panelBounded p \<Longrightarrow> panelBounded (cleanPolling p)"
  "panelBounded p \<Longrightarrow> panelBounded (closeStream p)" "panelBounded p \<Longrightarrow> panelBounded (wakeEffect q p)"
  "panelBounded p \<Longrightarrow> panelBounded (loadEffect q p)" "panelBounded p \<Longrightarrow> panelBounded (streamEffect q p)"
  "panelBounded p \<Longrightarrow> panelBounded (pollEffect q p)" "panelBounded p \<Longrightarrow> panelBounded (resetEffect q p)"
  "panelBounded p \<Longrightarrow> panelBounded (showJob j p)" "panelBounded p \<Longrightarrow> panelBounded (refreshJob j p)"
  by (auto simp: panelBounded_def pane_defs streamEffect_def resetEffect_def showJob_def refreshJob_def length_splitLogs
      split: option.split)

lemma bounded_commits: "panelBounded p \<Longrightarrow> panelBounded (commits n p)"
proof (induction n arbitrary: p)
  case (Suc n)
  have "panelBounded (p\<lparr>jl_seen := v\<rparr>)" for v using Suc.prems by (simp add: panelBounded_def)
  then have "panelBounded (commit p)" by (simp add: commit_def Let_def runIf_def bounded_parts)
  then show ?case using Suc by simp
qed simp

lemma bounded_other: "panelBounded p \<Longrightarrow> jl_lines p' = jl_lines p \<Longrightarrow> jl_delay p' = jl_delay p \<Longrightarrow>
    set (jl_timers p') \<subseteq> set (jl_timers p) \<Longrightarrow> panelBounded p'"
  by (auto simp: panelBounded_def)

lemma bounded_pollSettled: "panelBounded p \<Longrightarrow> panelBounded (onPollSettled k r d p)"
proof -
  assume b: "panelBounded p"
  have "panelBounded (p\<lparr>jl_polls := c\<rparr>)" for c by (rule bounded_other [OF b]) simp_all
  with b show ?thesis
    by (cases r) (simp_all add: onPollSettled_def Let_def bounded_parts bounded_next)
qed

lemma bounded_event: "panelBounded p \<Longrightarrow> panelBounded (logEvent e p)"
proof -
  assume b: "panelBounded p"
  note o = bounded_other [OF b]
  show ?thesis
  proof (cases e)
    case SocketOpened
    then show ?thesis using b by (simp add: panelBounded_def resetPollingBackoff_def)
  next
    case (SocketMessage t)
    then show ?thesis using b by (simp add: panelBounded_def onSocketMessage_def length_appendLine)
  next
    case (PollTimerDue i)
    then show ?thesis by (auto simp: onPollTimer_def split: option.split intro!: o)
  next
    case (PollSettled k r d)
    then show ?thesis using b by (simp add: bounded_pollSettled)
  next
    case (RefreshSettled r)
    have "panelBounded (p\<lparr>jl_refreshes := k\<rparr>)" for k by (rule o) simp_all
    then show ?thesis using RefreshSettled b by (simp add: onRefreshSettled_def Let_def bounded_parts split: sum.split)
  next
    case (LoadSettled r)
    have "panelBounded ((showJob j p)\<lparr>jl_loading := False\<rparr>)" for j
      by (rule bounded_other [OF bounded_parts(11) [OF b, of j]]) simp_all
    then show ?thesis using LoadSettled b by (auto simp: onLoadSettled_def split: sum.split intro: o)
  next
    case (TabVisibility h)
    have "panelBounded (p\<lparr>jl_hidden := h, jl_tabVisible := v\<rparr>)" for h v by (rule o) simp_all
    then show ?thesis using TabVisibility by (simp add: onTabVisibility_def Let_def bounded_parts)
  qed (auto intro: o)
qed


end
