(* ===== verification/Billing.thy ===== *)
theory Billing
  imports Api_Endpoints
begin

section \<open>Billing: gates, follow-ups and invoices\<close>

text \<open>
  The billing gate (\<^verbatim>\<open>domains/shared/lib/tenantBillingGate.ts\<close> and its two wrappers), the
  follow-up summary (\<^verbatim>\<open>domains/tenant-ops/domain/followups.ts\<close> and its use case), invoices
  (\<^verbatim>\<open>domains/billing\<close>) and the printing of amounts and dates
  (\<^verbatim>\<open>domains/shared/lib/formatters.ts\<close>). Requests issued together by \<^verbatim>\<open>Promise.all\<close> are run one
  after the other in the order written.
\<close>

subsection \<open>The gate\<close>

definition BILLING_BLOCKED_STATUSES :: "string list" where
  "BILLING_BLOCKED_STATUSES = [''pending_payment'', ''suspended_billing'']"

definition BILLING_DELINQUENT_STATUSES :: "string list" where
  "BILLING_DELINQUENT_STATUSES =
     [''past_due'', ''failed'', ''unpaid'', ''cancelled'', ''paused'', ''pending'']"

definition normalizeBilling :: "string option \<Rightarrow> string" where
  "normalizeBilling v = toLowerCase (trim (nullish v []))"

text \<open>The tenant's status and billing status; \<open>None\<close> for no tenant.\<close>

definition isTenantBillingBlockedStatus :: "(string \<times> string option) option \<Rightarrow> bool" where
  "isTenantBillingBlockedStatus tenant =
     (case tenant of
        None \<Rightarrow> False
      | Some (status, billing_status) \<Rightarrow>
          if normalizeBilling (Some status) \<in> set BILLING_BLOCKED_STATUSES then True
          else normalizeBilling billing_status \<in> set BILLING_DELINQUENT_STATUSES)"

definition billingBlockedActionReason :: "string \<Rightarrow> string" where
  "billingBlockedActionReason action =
     action @ '' is unavailable while billing is not in good standing. Restore payment first.''"

definition isTenantBillingBlocked :: "(string \<times> string option) option \<Rightarrow> bool" where
  "isTenantBillingBlocked tenant = isTenantBillingBlockedStatus tenant"

definition blockedActionReason :: "string \<Rightarrow> string" where
  "blockedActionReason action = billingBlockedActionReason action"

definition isTenantBillingBlockedFromOperations :: "string \<times> string option \<Rightarrow> bool" where
  "isTenantBillingBlockedFromOperations tenant = isTenantBillingBlockedStatus (Some tenant)"

definition blockedActionReasonFromOperations :: "string \<Rightarrow> string" where
  "blockedActionReasonFromOperations action = billingBlockedActionReason action"

definition billingView :: "Tenant \<Rightarrow> string \<times> string option" where
  "billingView t = (tn_status t, tn_billing_status t)"

subsection \<open>Follow-ups\<close>

definition isBillingFollowUpCandidate :: "Tenant \<Rightarrow> bool" where
  "isBillingFollowUpCandidate tenant \<longleftrightarrow>
     tn_status tenant \<in> set [''pending_payment'', ''suspended_billing''] \<or>
     nullish (tn_billing_status tenant) [] \<in> set [''failed'', ''past_due'', ''unpaid'', ''cancelled'']"

record BillingFollowUpSummary =
  fu_channelCounts :: "string \<rightharpoonup> nat"
  fu_statusCounts :: "string \<rightharpoonup> nat"
  fu_billingCounts :: "string \<rightharpoonup> nat"

definition countFollowUp :: "Tenant \<Rightarrow> BillingFollowUpSummary \<Rightarrow> BillingFollowUpSummary" where
  "countFollowUp tenant acc =
     (let channel = nullish (tn_payment_channel tenant) ''unknown'' in
      acc\<lparr>fu_channelCounts := bump channel (fu_channelCounts acc),
          fu_statusCounts := bump (tn_status tenant) (fu_statusCounts acc),
          fu_billingCounts :=
            (if truthyStr (tn_billing_status tenant)
             then bump (the (tn_billing_status tenant)) (fu_billingCounts acc)
             else fu_billingCounts acc)\<rparr>)"

definition summarizeBillingFollowUps :: "Tenant list \<Rightarrow> BillingFollowUpSummary" where
  "summarizeBillingFollowUps tenants =
     fold countFollowUp (filter isBillingFollowUpCandidate tenants)
       \<lparr>fu_channelCounts = Map.empty, fu_statusCounts = Map.empty, fu_billingCounts = Map.empty\<rparr>"

definition loadBillingFollowUpSummary :: "BillingFollowUpSummary io" where
  "loadBillingFollowUpSummary = await api_listTenants (\<lambda>tenants. ret (summarizeBillingFollowUps tenants))"

subsection \<open>Invoices\<close>

text \<open>\<^verbatim>\<open>methodTypes.some((type) => type.includes(text))\<close>.\<close>

definition anyIncludes :: "string list \<Rightarrow> string \<Rightarrow> bool" where
  "anyIncludes types t = list_ex (\<lambda>ty. includesStr ty t) types"

definition paymentChannelFromInvoice :: "BillingInvoice \<Rightarrow> string" where
  "paymentChannelFromInvoice invoice =
     (if bi_collection_method invoice = Some ''platform_erp'' then ''Invoice''
      else
        (let methodTypes = nullish (bi_payment_method_types invoice) [] in
         if anyIncludes methodTypes ''card'' then ''Card''
         else if anyIncludes methodTypes ''mobile_money'' then ''Mobile money''
         else if list_ex (\<lambda>ty. includesStr ty ''bank'' \<or> includesStr ty ''transfer'' \<or>
                includesStr ty ''customer_balance'') methodTypes then ''Bank transfer''
         else if bi_collection_method invoice = Some ''send_invoice'' then ''Invoice''
         else ''Unknown''))"

text \<open>The truth of a metadata value, and the first true one of several keys; a value that is not
  a text has no \<^verbatim>\<open>replace\<close>, which is a type error.\<close>

fun jsTruthy :: "json option \<Rightarrow> bool" where
  "jsTruthy (Some (JStr s)) = (s \<noteq> [])"
| "jsTruthy (Some (JNum n)) = (n \<noteq> 0)"
| "jsTruthy (Some (JBool b)) = b"
| "jsTruthy (Some (JArr _)) = True"
| "jsTruthy (Some (JObj _)) = True"
| "jsTruthy _ = False"

definition providerFromInvoice :: "BillingInvoice \<Rightarrow> exn + string option" where
  "providerFromInvoice invoice =
     (if bi_collection_method invoice = Some ''platform_erp'' then Inr (Some ''ERPNext'')
      else
        (let metadata = nullish (bi_metadata invoice) (JObj []);
             provider = find (\<lambda>k. jsTruthy (getProp metadata k))
               [''payment_provider'', ''mobile_money_provider'', ''provider'', ''gateway''] in
         case provider of
           None \<Rightarrow> Inr None
         | Some k \<Rightarrow>
             (case getProp metadata k of
                Some (JStr s) \<Rightarrow> Inr (Some (replaceChar (CHR ''_'') (CHR '' '') s))
              | _ \<Rightarrow> Inl (JsError ''provider.replace is not a function''))))"

record InvoiceSummary =
  is_overdueCount :: nat
  is_paidCount :: nat
  is_channelCounts :: "string \<rightharpoonup> nat"
  is_collectionCounts :: "string \<rightharpoonup> nat"
  is_providerCounts :: "string \<rightharpoonup> nat"

definition noInvoices :: InvoiceSummary where
  "noInvoices = \<lparr>is_overdueCount = 0, is_paidCount = 0, is_channelCounts = Map.empty,
     is_collectionCounts = Map.empty, is_providerCounts = Map.empty\<rparr>"

definition countInvoice :: "BillingInvoice \<Rightarrow> InvoiceSummary \<Rightarrow> exn + InvoiceSummary" where
  "countInvoice invoice acc =
     (let status = nullish (map_option toLowerCase (bi_status invoice)) [];
          paid = is_paidCount acc + (if status = ''paid'' then 1 else 0);
          overdue = is_overdueCount acc +
            (if status \<in> set [''past_due'', ''unpaid'', ''open'', ''cancelled''] then 1 else 0);
          channel = paymentChannelFromInvoice invoice;
          method = nullish (bi_collection_method invoice) ''unknown'' in
      case providerFromInvoice invoice of
        Inl e \<Rightarrow> Inl e
      | Inr p \<Rightarrow>
          (let provider = nullish p ''Unknown'' in
           Inr \<lparr>is_overdueCount = overdue, is_paidCount = paid,
             is_channelCounts = bump channel (is_channelCounts acc),
             is_collectionCounts = bump method (is_collectionCounts acc),
             is_providerCounts = bump provider (is_providerCounts acc)\<rparr>))"

fun countInvoices :: "BillingInvoice list \<Rightarrow> InvoiceSummary \<Rightarrow> exn + InvoiceSummary" where
  "countInvoices [] acc = Inr acc"
| "countInvoices (i # is) acc =
     (case countInvoice i acc of Inl e \<Rightarrow> Inl e | Inr acc' \<Rightarrow> countInvoices is acc')"

definition summarizeInvoices :: "BillingInvoice list \<Rightarrow> exn + InvoiceSummary" where
  "summarizeInvoices invoices = countInvoices invoices noInvoices"

subsection \<open>The repository and the use cases\<close>

definition fetchBillingPortalUrl :: "string option io" where
  "fetchBillingPortalUrl =
     await api_getBillingPortal (\<lambda>result.
       case result of Unsupported \<Rightarrow> ret None | Supported d \<Rightarrow> ret (Some (bp_url d)))"

definition fetchBillingInvoices :: "(bool \<times> BillingInvoice list) io" where
  "fetchBillingInvoices =
     await api_listBillingInvoices (\<lambda>result.
       case result of Unsupported \<Rightarrow> ret (False, []) | Supported d \<Rightarrow> ret (True, nullish (bl_invoices d) []))"

record BillingWorkspaceSnapshot =
  bw_portalUrl :: "string option"
  bw_invoicesSupported :: bool
  bw_invoices :: "BillingInvoice list"

definition loadBillingWorkspaceSnapshot :: "BillingWorkspaceSnapshot io" where
  "loadBillingWorkspaceSnapshot =
     await (catching fetchBillingPortalUrl (\<lambda>e. ret None)) (\<lambda>portalUrl.
     await fetchBillingInvoices (\<lambda>invoicesResult.
       ret \<lparr>bw_portalUrl = portalUrl, bw_invoicesSupported = fst invoicesResult,
            bw_invoices = snd invoicesResult\<rparr>))"

definition loadBillingInvoicesForDetails :: "BillingInvoice list io" where
  "loadBillingInvoicesForDetails =
     await fetchBillingInvoices (\<lambda>result. if \<not> fst result then ret [] else ret (snd result))"

definition loadBillingInvoiceCatalog :: "(bool \<times> BillingInvoice list) io" where
  "loadBillingInvoiceCatalog = fetchBillingInvoices"

definition toBillingErrorMessage :: "exn \<Rightarrow> string \<Rightarrow> string" where
  "toBillingErrorMessage error fallback = getApiErrorMessage error fallback"

subsection \<open>Printing amounts and dates\<close>

text \<open>
  The locale's formats are parameters: \<open>fmt\<close> prints a time, \<open>None\<close> for a text that is no date;
  \<open>money\<close> prints an amount in hundredths in a currency, \<open>None\<close> for a code it refuses.
\<close>

definition EM_DASH :: string where
  "EM_DASH = [CHR 0xE2, CHR 0x80, CHR 0x94]"

definition formatTimestamp :: "(string \<Rightarrow> string option) \<Rightarrow> string option \<Rightarrow> string" where
  "formatTimestamp fmt v =
     (if \<not> truthyStr v then EM_DASH else nullish (fmt (the v)) (the v))"

definition formatDate :: "(string \<Rightarrow> string option) \<Rightarrow> string option \<Rightarrow> string" where
  "formatDate fmt v =
     (if \<not> truthyStr v then EM_DASH else nullish (fmt (the v)) (the v))"

definition formatAmount :: "(string \<Rightarrow> int \<Rightarrow> string option) \<Rightarrow> int option \<Rightarrow> string \<Rightarrow> string" where
  "formatAmount money v currency =
     (case v of None \<Rightarrow> EM_DASH
      | Some n \<Rightarrow> nullish (money currency (100 * n)) (intStr n @ '' '' @ currency))"

text \<open>\<^verbatim>\<open>major.toFixed(2)\<close> of an amount in hundredths.\<close>

definition fixed2 :: "int \<Rightarrow> string" where
  "fixed2 n =
     (let m = nat (abs n) in
      (if n < 0 then ''-'' else []) @ natStr (m div 100) @ ''.'' @ [digitChar (m mod 100 div 10), digitChar (m mod 10)])"

definition formatMoney :: "(string \<Rightarrow> int \<Rightarrow> string option) \<Rightarrow> int option \<Rightarrow> string option \<Rightarrow> string" where
  "formatMoney money amountInMinorUnits currency =
     (case amountInMinorUnits of None \<Rightarrow> EM_DASH
      | Some n \<Rightarrow>
          (let code = toUpperCase (orElse currency ''USD'') in
           nullish (money code n) (fixed2 n @ '' '' @ code)))"

subsection \<open>Facts\<close>

lemma normalizeBilling_norm: "normalizeBilling v = normText v"
  by (simp add: normalizeBilling_def normText_def)

lemma normalizeBilling_values [simp]:
  "normalizeBilling (Some ''pending_payment'') = ''pending_payment''"
  "normalizeBilling (Some ''suspended_billing'') = ''suspended_billing''"
  "normalizeBilling (Some ''failed'') = ''failed''" "normalizeBilling (Some ''past_due'') = ''past_due''"
  "normalizeBilling (Some ''unpaid'') = ''unpaid''" "normalizeBilling (Some ''cancelled'') = ''cancelled''"
  by (simp_all add: normalizeBilling_def js_defs)

lemma candidate_blocked_lemma:
  assumes "isBillingFollowUpCandidate t"
  shows "isTenantBillingBlockedStatus (Some (billingView t))"
proof (cases "tn_billing_status t")
  case None
  with assms show ?thesis
    by (auto simp: isBillingFollowUpCandidate_def isTenantBillingBlockedStatus_def billingView_def
        BILLING_BLOCKED_STATUSES_def)
next
  case (Some b)
  with assms show ?thesis
    by (auto simp: isBillingFollowUpCandidate_def isTenantBillingBlockedStatus_def billingView_def
        BILLING_BLOCKED_STATUSES_def BILLING_DELINQUENT_STATUSES_def)
qed

text \<open>
  Every tenant on the follow-up list is blocked from the gated operations, by all three
  gates, and the gate does not depend on the case and the spacing of the statuses.
\<close>

theorem followup_candidate_blocked:
  assumes "isBillingFollowUpCandidate t"
  shows "isTenantBillingBlocked (Some (billingView t)) \<and> isTenantBillingBlockedFromOperations (billingView t) \<and>
    isTenantBillingBlockedStatus (Some (normalizeBilling (Some (tn_status t)),
      map_option (\<lambda>b. normalizeBilling (Some b)) (tn_billing_status t)))"
proof -
  have n: "normalizeBilling (map_option (\<lambda>b. normalizeBilling (Some b)) v) = normalizeBilling v" for v
    by (cases v) (simp_all add: normalizeBilling_norm)
  show ?thesis
    using candidate_blocked_lemma [OF assms]
    by (simp add: isTenantBillingBlocked_def isTenantBillingBlockedFromOperations_def
        isTenantBillingBlockedStatus_def billingView_def n del: not_None_eq)
       (simp add: normalizeBilling_norm)
qed

theorem followup_candidate_blocked_witness:
  "isTenantBillingBlocked (Some (billingView (sampleTenant ''active'' (Some ''past_due'') None)))"
  using followup_candidate_blocked [of "sampleTenant ''active'' (Some ''past_due'') None"]
  by (simp add: isBillingFollowUpCandidate_def sampleTenant_def)

text \<open>The counting tables of the follow-ups.\<close>

lemma countFollowUp_tallies:
  assumes "tallies (fu_channelCounts acc) cs" and "tallies (fu_statusCounts acc) ss"
    and "tallies (fu_billingCounts acc) bs"
  shows "tallies (fu_channelCounts (fold countFollowUp ts acc)) (cs @ map (\<lambda>t. nullish (tn_payment_channel t) ''unknown'') ts) \<and>
    tallies (fu_statusCounts (fold countFollowUp ts acc)) (ss @ map tn_status ts) \<and>
    tallies (fu_billingCounts (fold countFollowUp ts acc))
      (bs @ map (the \<circ> tn_billing_status) (filter (truthyStr \<circ> tn_billing_status) ts))"
  using assms
proof (induction ts arbitrary: acc cs ss bs)
  case (Cons t ts)
  let ?b = "if truthyStr (tn_billing_status t) then bs @ [the (tn_billing_status t)] else bs"
  have "tallies (fu_channelCounts (countFollowUp t acc)) (cs @ [nullish (tn_payment_channel t) ''unknown''])"
    "tallies (fu_statusCounts (countFollowUp t acc)) (ss @ [tn_status t])"
    "tallies (fu_billingCounts (countFollowUp t acc)) ?b"
    using Cons.prems by (auto simp: countFollowUp_def Let_def tallies_bump)
  from Cons.IH [OF this] show ?case
    by (cases "truthyStr (tn_billing_status t)") (simp_all add: comp_def)
qed simp

text \<open>
  The follow-up summary counts every candidate once by its channel and once by its status,
  and by its billing status where it has one; only candidates are counted.
\<close>

theorem followup_summary_counts:
  "let cs = filter isBillingFollowUpCandidate ts; s = summarizeBillingFollowUps ts in
   (\<Sum>k\<in>dom (fu_channelCounts s). the (fu_channelCounts s k)) = length cs \<and>
   (\<Sum>k\<in>dom (fu_statusCounts s). the (fu_statusCounts s k)) = length cs \<and>
   (\<Sum>k\<in>dom (fu_billingCounts s). the (fu_billingCounts s k)) =
      length (filter (\<lambda>t. truthyStr (tn_billing_status t)) cs) \<and>
   dom (fu_statusCounts s) = tn_status ` set cs"
proof -
  let ?acc = "\<lparr>fu_channelCounts = Map.empty, fu_statusCounts = Map.empty, fu_billingCounts = Map.empty\<rparr>"
  let ?cs = "filter isBillingFollowUpCandidate ts" and ?s = "summarizeBillingFollowUps ts"
  have t: "tallies (fu_channelCounts ?s) (map (\<lambda>t. nullish (tn_payment_channel t) ''unknown'') ?cs)"
    "tallies (fu_statusCounts ?s) (map tn_status ?cs)"
    "tallies (fu_billingCounts ?s) (map (the \<circ> tn_billing_status) (filter (truthyStr \<circ> tn_billing_status) ?cs))"
    using countFollowUp_tallies [of ?acc "[]" "[]" "[]" ?cs] tallies_Nil [where ?'a = string]
    by (simp_all add: summarizeBillingFollowUps_def)
  from t [THEN tallies_total] tallies_dom [OF t(2)] show ?thesis
    by (simp add: Let_def comp_def)
qed

text \<open>Invoices.\<close>

definition textMetadata :: "BillingInvoice \<Rightarrow> bool" where
  "textMetadata i \<longleftrightarrow>
     (\<forall>k\<in>set [''payment_provider'', ''mobile_money_provider'', ''provider'', ''gateway''].
        \<forall>v. getProp (nullish (bi_metadata i) (JObj [])) k = Some v \<longrightarrow> v = JNull \<or> (\<exists>s. v = JStr s))"

lemma providerFromInvoice_text:
  assumes "textMetadata i"
  shows "\<exists>p. providerFromInvoice i = Inr p"
proof (cases "find (\<lambda>k. jsTruthy (getProp (nullish (bi_metadata i) (JObj [])) k))
    [''payment_provider'', ''mobile_money_provider'', ''provider'', ''gateway'']")
  case None
  then show ?thesis by (simp add: providerFromInvoice_def Let_def)
next
  case (Some k)
  from find_SomeD [OF this]
  have k: "k \<in> set [''payment_provider'', ''mobile_money_provider'', ''provider'', ''gateway'']"
    and t: "jsTruthy (getProp (nullish (bi_metadata i) (JObj [])) k)" by blast+
  obtain v where v: "getProp (nullish (bi_metadata i) (JObj [])) k = Some v"
    using t by (cases "getProp (nullish (bi_metadata i) (JObj [])) k") auto
  with assms k have "v = JNull \<or> (\<exists>s. v = JStr s)" unfolding textMetadata_def by blast
  with v t Some show ?thesis by (auto simp: providerFromInvoice_def Let_def)
qed

lemma countInvoices_tallies:
  assumes "tallies (is_channelCounts acc) cs" and "tallies (is_collectionCounts acc) ms"
    and "\<exists>ps. tallies (is_providerCounts acc) ps \<and> length ps = n" and "is_paidCount acc + is_overdueCount acc \<le> n"
    and "\<forall>i\<in>set is. textMetadata i"
  shows "\<exists>s. countInvoices is acc = Inr s \<and> tallies (is_channelCounts s) (cs @ map paymentChannelFromInvoice is) \<and>
    tallies (is_collectionCounts s) (ms @ map (\<lambda>i. nullish (bi_collection_method i) ''unknown'') is) \<and>
    (\<exists>ps. tallies (is_providerCounts s) ps \<and> length ps = n + length is) \<and>
    is_paidCount s + is_overdueCount s \<le> n + length is"
  using assms
proof (induction "is" arbitrary: acc cs ms n)
  case (Cons i "is")
  obtain p where p: "providerFromInvoice i = Inr p" using Cons.prems(5) providerFromInvoice_text by force
  obtain acc' where a: "countInvoice i acc = Inr acc'" by (simp add: countInvoice_def p Let_def)
  obtain ps where ps: "tallies (is_providerCounts acc) ps" "length ps = n" using Cons.prems(3) by blast
  have a': "acc' = \<lparr>is_overdueCount = is_overdueCount acc' , is_paidCount = is_paidCount acc',
      is_channelCounts = bump (paymentChannelFromInvoice i) (is_channelCounts acc),
      is_collectionCounts = bump (nullish (bi_collection_method i) ''unknown'') (is_collectionCounts acc),
      is_providerCounts = bump (nullish p ''Unknown'') (is_providerCounts acc)\<rparr>"
    and le: "is_paidCount acc' + is_overdueCount acc' \<le> Suc (is_paidCount acc + is_overdueCount acc)"
    using a p by (auto simp: countInvoice_def Let_def)
  have "tallies (is_providerCounts acc') (ps @ [nullish p ''Unknown''])"
    using ps(1) by (subst a', simp add: tallies_bump)
  moreover have "tallies (is_channelCounts acc') (cs @ [paymentChannelFromInvoice i])"
    "tallies (is_collectionCounts acc') (ms @ [nullish (bi_collection_method i) ''unknown''])"
    using Cons.prems(1,2) by (subst a', simp add: tallies_bump)+
  ultimately have c: "tallies (is_channelCounts acc') (cs @ [paymentChannelFromInvoice i])"
    "tallies (is_collectionCounts acc') (ms @ [nullish (bi_collection_method i) ''unknown''])"
    "\<exists>ps. tallies (is_providerCounts acc') ps \<and> length ps = Suc n"
    "is_paidCount acc' + is_overdueCount acc' \<le> Suc n"
    using ps(2) Cons.prems(4) le by auto
  from Cons.IH [OF c] Cons.prems(5) a show ?case by auto
qed auto

text \<open>
  The invoice summary is complete: for invoices whose provider metadata are texts it
  succeeds, counts each invoice once by channel, once by collection method and once by provider,
  and counts none both as paid and as overdue.
\<close>

theorem invoice_summary_counts:
  assumes "\<forall>i\<in>set invoices. textMetadata i"
  shows "\<exists>s. summarizeInvoices invoices = Inr s \<and>
    (\<Sum>k\<in>dom (is_channelCounts s). the (is_channelCounts s k)) = length invoices \<and>
    (\<Sum>k\<in>dom (is_collectionCounts s). the (is_collectionCounts s k)) = length invoices \<and>
    (\<Sum>k\<in>dom (is_providerCounts s). the (is_providerCounts s k)) = length invoices \<and>
    is_paidCount s + is_overdueCount s \<le> length invoices \<and>
    dom (is_channelCounts s) \<subseteq> {''Invoice'', ''Card'', ''Mobile money'', ''Bank transfer'', ''Unknown''}"
proof -
  obtain s ps where s: "countInvoices invoices noInvoices = Inr s"
    "tallies (is_channelCounts s) (map paymentChannelFromInvoice invoices)"
    "tallies (is_collectionCounts s) (map (\<lambda>i. nullish (bi_collection_method i) ''unknown'') invoices)"
    "tallies (is_providerCounts s) ps" "length ps = length invoices"
    "is_paidCount s + is_overdueCount s \<le> length invoices"
    using countInvoices_tallies [of noInvoices "[]" "[]" 0 invoices] assms tallies_Nil
    by (fastforce simp: noInvoices_def)
  have "paymentChannelFromInvoice i \<in> {''Invoice'', ''Card'', ''Mobile money'', ''Bank transfer'', ''Unknown''}" for i
    by (simp add: paymentChannelFromInvoice_def Let_def)
  then have "dom (is_channelCounts s) \<subseteq> {''Invoice'', ''Card'', ''Mobile money'', ''Bank transfer'', ''Unknown''}"
    unfolding tallies_dom [OF s(2)] set_map image_subset_iff by blast
  with s tallies_total show ?thesis
    by (intro exI [of _ s]) (simp add: summarizeInvoices_def tallies_total)
qed

definition sampleInvoice :: BillingInvoice where
  "sampleInvoice = \<lparr>bi_id = ''i1'', bi_status = Some ''Paid'', bi_amount_due = Some 0, bi_amount_paid = Some 500,
     bi_currency = Some ''TZS'', bi_collection_method = Some ''charge_automatically'',
     bi_payment_method_types = Some [''card''], bi_metadata = Some (JObj [(''gateway'', JStr ''dpo_pay'')]),
     bi_hosted_invoice_url = None, bi_invoice_pdf = None, bi_created_at = None\<rparr>"

theorem invoice_summary_counts_witness:
  "\<exists>s. summarizeInvoices [sampleInvoice] = Inr s \<and>
    (\<Sum>k\<in>dom (is_channelCounts s). the (is_channelCounts s k)) = length [sampleInvoice] \<and>
    (\<Sum>k\<in>dom (is_collectionCounts s). the (is_collectionCounts s k)) = length [sampleInvoice] \<and>
    (\<Sum>k\<in>dom (is_providerCounts s). the (is_providerCounts s k)) = length [sampleInvoice] \<and>
    is_paidCount s + is_overdueCount s \<le> length [sampleInvoice] \<and>
    dom (is_channelCounts s) \<subseteq> {''Invoice'', ''Card'', ''Mobile money'', ''Bank transfer'', ''Unknown''}"
  by (rule invoice_summary_counts) (auto simp: sampleInvoice_def textMetadata_def)

text \<open>
  The billing page loads whenever the invoices do: a failing portal costs only its link, and
  the page fails exactly when the request for the invoices fails.
\<close>

theorem billing_snapshot_needs_invoices:
  "(\<exists>snap. fst (loadBillingWorkspaceSnapshot w) = Inr snap) \<longleftrightarrow>
   (\<exists>r. fst (api_listBillingInvoices (snd (catching fetchBillingPortalUrl (\<lambda>e. ret None) w))) = Inr r)"
proof -
  obtain p w1 where p: "catching fetchBillingPortalUrl (\<lambda>e. ret None) w = (Inr p, w1)"
    by (cases "fetchBillingPortalUrl w"; cases "fst (fetchBillingPortalUrl w)")
       (auto simp: catching_def ret_def)
  show ?thesis
    by (cases "api_listBillingInvoices w1"; cases "fst (api_listBillingInvoices w1)")
       (auto simp: loadBillingWorkspaceSnapshot_def fetchBillingInvoices_def await_def p ret_def
         split: OptionalEndpointResult.splits)
qed

end
