(* ===== verification/Tenant_Display.thy ===== *)
theory Tenant_Display
  imports Admin_Repository Job_Log Billing
begin

section \<open>How tenants and jobs are shown\<close>

text \<open>
  \<^verbatim>\<open>saas-ui/domains/shared/lib/tenantDisplayUtils.ts\<close>: the colours, hints and tones of a tenant's
  status, the chip of its plan, and the test whether a job is finished. A colour is a
  constructor, the styling beside it the list of its properties.
\<close>

definition TERMINAL_JOB_STATUSES :: "string list" where
  "TERMINAL_JOB_STATUSES = [''succeeded'', ''failed'', ''deleted'', ''canceled'', ''cancelled'']"

definition isTerminalJobStatus :: "string option \<Rightarrow> bool" where
  "isTerminalJobStatus status \<longleftrightarrow> toLowerCase (orElse status []) \<in> set TERMINAL_JOB_STATUSES"

definition hasActiveJob :: "Job list option \<Rightarrow> bool" where
  "hasActiveJob jobs = (case jobs of None \<Rightarrow> False
     | Some js \<Rightarrow> list_ex (\<lambda>job. \<not> isTerminalJobStatus (Some (jb_status job))) js)"

datatype TenantRowTone = RowDefault | RowWarn | RowError

datatype chip_color = ChipSuccess | ChipError | ChipWarning | ChipInfo | ChipDefault | ChipPrimary

type_synonym sx = "(string \<times> string) list"

record status_chip =
  ch_color :: chip_color
  ch_sx :: "sx option"

definition getTenantStatusChip :: "string \<Rightarrow> status_chip" where
  "getTenantStatusChip status =
     (let normalized = toLowerCase status in
      if normalized = ''active'' then \<lparr>ch_color = ChipSuccess, ch_sx = None\<rparr>
      else if normalized \<in> set [''failed'', ''deleted''] then \<lparr>ch_color = ChipError, ch_sx = None\<rparr>
      else if normalized \<in> set [''pending'', ''pending_payment'', ''provisioning'', ''deleting'', ''upgrading'', ''restoring'',
          ''pending_deletion'']
      then \<lparr>ch_color = ChipWarning, ch_sx = None\<rparr>
      else if normalized \<in> set [''suspended'', ''suspended_admin'', ''suspended_billing'']
      then \<lparr>ch_color = ChipWarning, ch_sx = Some [(''bgcolor'', ''#ffedd5''), (''color'', ''#9a3412'')]\<rparr>
      else \<lparr>ch_color = ChipInfo, ch_sx = Some [(''bgcolor'', ''#e0f2fe''), (''color'', ''#0369a1'')]\<rparr>)"

definition getTenantStatusHint :: "string \<Rightarrow> bool \<Rightarrow> string" where
  "getTenantStatusHint status isAdmin =
     (let normalized = toLowerCase status in
      if normalized = ''active''
      then (if isAdmin then ''Serving daily operations'' else ''Serving daily workspace activity'')
      else if normalized = ''pending_payment'' then ''Waiting for checkout confirmation''
      else if normalized = ''pending'' \<or> normalized = ''provisioning'' then ''Setup in progress''
      else if normalized = ''upgrading'' then ''Upgrade running''
      else if normalized = ''restoring'' then ''Restore in progress''
      else if normalized = ''pending_deletion'' then ''Deletion scheduled''
      else if normalized = ''failed''
      then (if isAdmin then ''Needs operator follow-up'' else ''Needs support follow-up'')
      else if normalized = ''suspended_admin'' then (if isAdmin then ''Paused by admin'' else ''Access paused'')
      else if normalized = ''suspended_billing'' then ''Paused for billing''
      else if normalized = ''suspended'' then ''Access paused''
      else if normalized = ''deleted'' then ''Archived''
      else ''Status under review'')"

definition getTenantRowTone :: "string \<Rightarrow> TenantRowTone" where
  "getTenantRowTone status =
     (let normalized = toLowerCase status in
      if normalized = ''failed'' then RowError
      else if normalized \<in> set [''pending'', ''pending_payment'', ''provisioning'', ''upgrading'', ''restoring'', ''pending_deletion'']
      then RowWarn else RowDefault)"

definition getTenantRowToneSx :: "string \<Rightarrow> string option" where
  "getTenantRowToneSx status =
     (case getTenantRowTone status of RowError \<Rightarrow> Some ''rgba(254, 242, 242, 1)''
      | RowWarn \<Rightarrow> Some ''rgba(255, 251, 235, 0.65)'' | RowDefault \<Rightarrow> None)"

record plan_chip =
  pc_label :: string
  pc_color :: chip_color
  pc_sx :: "sx option"

definition getPlanChip :: "string \<Rightarrow> plan_chip" where
  "getPlanChip plan =
     (let normalized = toLowerCase plan in
      if normalized = ''enterprise''
      then \<lparr>pc_label = ''Enterprise'', pc_color = ChipDefault, pc_sx = Some [(''bgcolor'', ''#e2e8f0''), (''color'', ''#334155'')]\<rparr>
      else if normalized = ''business''
      then \<lparr>pc_label = ''Business'', pc_color = ChipPrimary,
             pc_sx = Some [(''bgcolor'', ''rgba(13,106,106,0.15)''), (''color'', ''primary.main'')]\<rparr>
      else if normalized = ''starter''
      then \<lparr>pc_label = ''Starter'', pc_color = ChipWarning, pc_sx = Some [(''bgcolor'', ''#fef3c7''), (''color'', ''#92400e'')]\<rparr>
      else \<lparr>pc_label = orElse (Some plan) EM_DASH, pc_color = ChipDefault, pc_sx = None\<rparr>)"

subsection \<open>One classification everywhere\<close>

text \<open>The panel of the live log and the tables of jobs agree on what a finished job is.\<close>

lemma terminal_everywhere: "isTerminalJobStatus (Some s) \<longleftrightarrow> terminalStatus s"
  by (cases s) (auto simp: isTerminalJobStatus_def terminalStatus_def TERMINAL_JOB_STATUSES_def TERMINAL_STATUSES_def
      orElse_def)

lemma hasActiveJob_iff: "hasActiveJob (Some js) \<longleftrightarrow> (\<exists>j\<in>set js. \<not> terminalStatus (jb_status j))"
  by (auto simp: hasActiveJob_def terminal_everywhere list_ex_iff)

text \<open>
  The row tone, the chip and the counts of the admin console classify a status alike: a
  row is marked as a warning exactly when the console counts the tenant as being provisioned,
  as an error exactly when it counts it as failed; a marked row has a chip of the same urgency,
  and a hint is shown that is not the one for an unknown status.
\<close>

theorem status_display_agrees:
  "let c = deriveAdminTenantCounts [t]; s = tn_status t in
   (getTenantRowTone s = RowWarn \<longleftrightarrow> tc_provisioningCount c = 1) \<and>
   (getTenantRowTone s = RowError \<longleftrightarrow> tc_failedCount c = 1) \<and>
   (tc_suspendedCount c = 1 \<longleftrightarrow> ch_sx (getTenantStatusChip s) = Some [(''bgcolor'', ''#ffedd5''), (''color'', ''#9a3412'')]) \<and>
   (tc_activeCount c = 1 \<longleftrightarrow> ch_color (getTenantStatusChip s) = ChipSuccess) \<and>
   (case getTenantRowTone s of
      RowWarn \<Rightarrow> ch_color (getTenantStatusChip s) = ChipWarning \<and> getTenantStatusHint s a \<noteq> ''Status under review''
    | RowError \<Rightarrow> ch_color (getTenantStatusChip s) = ChipError \<and> getTenantStatusHint s a \<noteq> ''Status under review''
    | RowDefault \<Rightarrow> getTenantRowToneSx s = None)"
proof -
  define n where "n = toLowerCase (tn_status t)"
  note d = deriveAdminTenantCounts_def countTenant_def getTenantRowTone_def getTenantStatusChip_def getTenantRowToneSx_def
    getTenantStatusHint_def SUSPENDED_STATUSES_admin_def PROVISIONING_STATUSES_admin_def n_def [symmetric] Let_def
  have "n \<in> set [''active'', ''failed'', ''deleted'', ''pending'', ''pending_payment'', ''provisioning'', ''deleting'',
      ''upgrading'', ''restoring'', ''pending_deletion'', ''suspended'', ''suspended_admin'', ''suspended_billing''] \<or>
    n \<notin> set [''active'', ''failed'', ''deleted'', ''pending'', ''pending_payment'', ''provisioning'', ''deleting'',
      ''upgrading'', ''restoring'', ''pending_deletion'', ''suspended'', ''suspended_admin'', ''suspended_billing'']" by blast
  then show ?thesis
  proof
    assume "n \<in> set [''active'', ''failed'', ''deleted'', ''pending'', ''pending_payment'', ''provisioning'', ''deleting'',
      ''upgrading'', ''restoring'', ''pending_deletion'', ''suspended'', ''suspended_admin'', ''suspended_billing'']"
    then show ?thesis by (auto simp: d)
  next
    assume "n \<notin> set [''active'', ''failed'', ''deleted'', ''pending'', ''pending_payment'', ''provisioning'', ''deleting'',
      ''upgrading'', ''restoring'', ''pending_deletion'', ''suspended'', ''suspended_admin'', ''suspended_billing'']"
    then show ?thesis by (auto simp: d)
  qed
qed

end
