(* ===== verification/Admin_Views.thy ===== *)
theory Admin_Views
  imports Admin_Console Tenant_Display
begin

section \<open>The views of the admin console\<close>

text \<open>
  What the six views of \<^verbatim>\<open>admin-console/_components\<close> show, as text: the rows of their tables, the
  content of a section, the labels of buttons and whether they are disabled; and the state and
  handlers that two of the views keep for themselves. Layout and styling are left out.
\<close>

subsection \<open>Recovery, audit and jobs\<close>

definition deadLetterRow :: "(string \<Rightarrow> string option) \<Rightarrow> string option \<Rightarrow> DeadLetterJob \<Rightarrow> string list" where
  "deadLetterRow fmt requeueJobId job =
     [dl_id job, dl_func_name job, formatTimestamp fmt (dl_enqueued_at job), take 120 (JSON_stringify (dl_args job)),
      if requeueJobId = Some (dl_id job) then ''Requeueing...'' else ''Requeue'']"

definition recoveryContent :: "(string \<Rightarrow> string option) \<Rightarrow> admin_console \<Rightarrow> string list section_content" where
  "recoveryContent fmt s =
     sectionContent ''Failed-job recovery'' ''No dead-letter jobs.'' (deadLetterRow fmt (ac_requeueJobId s)) (deadLetterView s)"

definition auditRow :: "(string \<Rightarrow> string option) \<Rightarrow> AuditLogEntry \<Rightarrow> string list" where
  "auditRow fmt entry =
     [formatTimestamp fmt (Some (al_created_at entry)),
      orElse (al_actor_email entry) (orElse (al_actor_id entry) (al_actor_role entry)),
      al_action entry,
      al_resource entry @
        (if truthyStr (al_resource_id entry) then '' ('' @ take 6 (the (al_resource_id entry)) @ ''...)'' else []),
      orElse (al_ip_address entry) EM_DASH]"

definition auditContent :: "(string \<Rightarrow> string option) \<Rightarrow> admin_console \<Rightarrow> string list section_content" where
  "auditContent fmt s = sectionContent ''Audit log'' ''No audit entries yet.'' (auditRow fmt) (auditView s)"

definition jobRow :: "(string \<Rightarrow> string option) \<Rightarrow> Job \<Rightarrow> string list" where
  "jobRow fmt job = [jb_id job, jb_tenant_id job, jb_type job, jb_status job, formatTimestamp fmt (jb_created_at job)]"

definition jobsContent :: "(string \<Rightarrow> string option) \<Rightarrow> admin_console \<Rightarrow> string list section_content" where
  "jobsContent fmt s =
     sectionContent ''Job history''
       ''No jobs found. Trigger provisioning or maintenance actions to populate this feed.'' (jobRow fmt) (jobsView s)"

text \<open>Below the jobs: the live log panel of the chosen job, or its stored log as plain text.\<close>

datatype job_logs = NoLogs | LivePanel string string string | PlainLog string string

definition selectedLogs :: "(string \<Rightarrow> string option) \<Rightarrow> admin_console \<Rightarrow> job_logs" where
  "selectedLogs fmt s =
     (case (jobsContent fmt s, ac_selectedJob s) of
        (RowsShown _, Some job) \<Rightarrow>
          (if ac_selectedJobSupported s then LivePanel (jb_id job) (jb_logs job) (jb_status job)
           else PlainLog (jb_id job) (orElse (Some (jb_logs job)) ''No logs available.''))
      | _ \<Rightarrow> NoLogs)"

record pager =
  pg_caption :: string
  pg_previousDisabled :: bool
  pg_nextDisabled :: bool

definition auditPager :: "admin_console \<Rightarrow> pager" where
  "auditPager s = \<lparr>pg_caption = ''Page '' @ intStr (ac_auditPage s) @ '' of '' @ intStr (auditTotalPages s) @ '' '' @
       [CHR 0xE2, CHR 0x80, CHR 0xA2] @ '' '' @ intStr (ac_auditTotal s) @ '' events'',
     pg_previousDisabled = (ac_auditPage s \<le> 1), pg_nextDisabled = (ac_auditPage s \<ge> auditTotalPages s)\<rparr>"

definition tenantPager :: "admin_console \<Rightarrow> pager" where
  "tenantPager s = \<lparr>pg_caption = ''Page '' @ intStr (ac_tenantPage s) @ '' of '' @ intStr (tenantTotalPages s) @ '' '' @
       [CHR 0xE2, CHR 0x80, CHR 0xA2] @ '' '' @ intStr (ac_tenantTotal s) @ '' tenants'',
     pg_previousDisabled = (ac_tenantPage s \<le> 1), pg_nextDisabled = (ac_tenantPage s \<ge> tenantTotalPages s)\<rparr>"

subsection \<open>Support and the confirmation dialog\<close>

definition supportButton :: "admin_console \<Rightarrow> string \<times> bool" where
  "supportButton s =
     (if ac_impersonationBusy s then ''Issuing...'' else if canRunAdminOnlyActions s then ''Issue link'' else ''Admin only'',
      ac_impersonationBusy s \<or> \<not> canRunAdminOnlyActions s)"

definition actionButton :: "admin_console \<Rightarrow> (string \<times> bool) option" where
  "actionButton s =
     (case ac_tenantAction s of None \<Rightarrow> None
      | Some a \<Rightarrow>
          let busy = (ac_busyTenantId s = Some (tn_id (ta_tenant a))) in
          Some (if busy then (if ta_type a = Suspend then ''Suspending...'' else ''Reactivating...'')
                else if ta_type a = Suspend then ''Confirm suspend'' else ''Confirm unsuspend'',
                busy \<or> ac_tenantActionInput s \<noteq> ta_phrase a))"

subsection \<open>The overview\<close>

datatype tone = ToneDefault | ToneGood | ToneWarn

record metric_card =
  mc_label :: string
  mc_value :: int
  mc_hint :: string
  mc_tone :: tone

definition metricCard :: "string \<Rightarrow> int \<Rightarrow> string \<Rightarrow> tone \<Rightarrow> metric_card" where
  "metricCard label v hint t = \<lparr>mc_label = label, mc_value = v, mc_hint = hint, mc_tone = t\<rparr>"

definition warnIf :: "bool \<Rightarrow> tone \<Rightarrow> tone" where
  "warnIf b t = (if b then ToneWarn else t)"

definition metricCards :: "MetricsSummary \<Rightarrow> metric_card list" where
  "metricCards m =
     [metricCard ''Total tenants'' (ms_total_tenants m) ''All customer environments'' ToneDefault,
      metricCard ''Active tenants'' (ms_active_tenants m) ''Currently operational'' ToneGood,
      metricCard ''Provisioning queue'' (ms_provisioning_tenants m) ''Pending + provisioning'' ToneWarn,
      metricCard ''Pending payment'' (ms_pending_payment_tenants m) ''Awaiting payment confirmation'' ToneWarn,
      metricCard ''Failed tenants'' (ms_failed_tenants m) ''Needs operator action'' (warnIf (ms_failed_tenants m \<noteq> 0) ToneDefault),
      metricCard ''Dead-letter jobs'' (ms_dead_letter_count m) ''Recovery queue depth''
        (warnIf (ms_dead_letter_count m \<noteq> 0) ToneDefault),
      metricCard ''Jobs 24h'' (ms_jobs_last_24h m) ''Activity in the last 24h'' ToneDefault,
      metricCard ''Provisioning success (7d)'' (ms_provisioning_success_rate_7d m) ''Percent succeeded''
        (warnIf (ms_provisioning_success_rate_7d m < 95) ToneGood)]"

datatype metrics_panel = MetricsMissing string | MetricsError string | MetricsShown "metric_card list" | MetricsLoading string

definition metricsPanel :: "admin_console \<Rightarrow> metrics_panel" where
  "metricsPanel s =
     (if \<not> ac_metricsSupported s then MetricsMissing ''Platform metrics''
      else if truthyStr (ac_metricsError s) then MetricsError (the (ac_metricsError s))
      else case ac_metrics s of Some m \<Rightarrow> MetricsShown (metricCards m) | None \<Rightarrow> MetricsLoading ''Loading metrics...'')"

definition consoleCounts :: "admin_console \<Rightarrow> AdminTenantCounts" where
  "consoleCounts s = deriveAdminTenantCounts (ac_tenants s)"

definition attentionNeeded :: "admin_console \<Rightarrow> bool" where
  "attentionNeeded s \<longleftrightarrow> tc_failedCount (consoleCounts s) \<noteq> 0 \<or> tc_suspendedCount (consoleCounts s) \<noteq> 0 \<or>
     length (ac_deadLetters s) \<noteq> 0"

definition attentionLabel :: "admin_console \<Rightarrow> string" where
  "attentionLabel s = (if attentionNeeded s then ''Intervention recommended'' else ''Platform healthy'')"

definition attentionLane :: "admin_console \<Rightarrow> (string \<times> int) list" where
  "attentionLane s =
     [(''Active tenants'', int (tc_activeCount (consoleCounts s))), (''Setup queue'', int (tc_provisioningCount (consoleCounts s))),
      (''Failed'', int (tc_failedCount (consoleCounts s))), (''Dead letters'', int (length (ac_deadLetters s)))]"

definition countCards :: "admin_console \<Rightarrow> metric_card list" where
  "countCards s =
     (let c = consoleCounts s in
      [metricCard ''Total tenants'' (ac_tenantTotal s) ''All managed customer environments'' ToneDefault,
       metricCard ''Suspended'' (int (tc_suspendedCount c)) ''Access paused pending review''
         (warnIf (tc_suspendedCount c \<noteq> 0) ToneDefault),
       metricCard ''Provisioning'' (int (tc_provisioningCount c)) ''Still onboarding or awaiting payment''
         (warnIf (tc_provisioningCount c \<noteq> 0) ToneDefault),
       metricCard ''Failed'' (int (tc_failedCount c)) ''Requires immediate operator follow-up''
         (warnIf (tc_failedCount c \<noteq> 0) ToneGood)])"

text \<open>The operations of the overview, behind a confirmation.\<close>

datatype OpsAction = RunDunning | DryRunDunning | RebuildAssets | SyncTls

record ops_panel =
  op_confirmAction :: "OpsAction option"
  op_busy :: bool
  op_message :: "string option"
  op_error :: "string option"

definition initialOps :: ops_panel where
  "initialOps = \<lparr>op_confirmAction = None, op_busy = False, op_message = None, op_error = None\<rparr>"

primrec opsCall :: "OpsAction \<Rightarrow> MessageResponse OptionalEndpointResult io" where
  "opsCall RunDunning = api_runBillingDunningCycle False"
| "opsCall DryRunDunning = api_runBillingDunningCycle True"
| "opsCall RebuildAssets = api_rebuildPlatformAssets"
| "opsCall SyncTls = api_syncTenantTLS False"

definition opsSettled :: "exn + MessageResponse OptionalEndpointResult \<Rightarrow> ops_panel \<Rightarrow> ops_panel" where
  "opsSettled r s =
     (case r of
        Inr Unsupported \<Rightarrow> s\<lparr>op_error := Some (featureUnavailableMessage ''This admin operation'' None), op_busy := False\<rparr>
      | Inr (Supported m) \<Rightarrow>
          s\<lparr>op_message := Some (orElse (Some (mr_message m)) ''Admin operation queued successfully.''),
            op_confirmAction := None, op_busy := False\<rparr>
      | Inl err \<Rightarrow> s\<lparr>op_error := Some (getApiErrorMessage err ''Admin operation failed.''), op_busy := False\<rparr>)"

definition runOpsAction :: "ops_panel handler" where
  "runOpsAction s w =
     (case op_confirmAction s of None \<Rightarrow> (s, w)
      | Some action \<Rightarrow>
          answered (opsCall action) opsSettled (s\<lparr>op_busy := True, op_message := None, op_error := None\<rparr>) w)"

subsection \<open>The tenants\<close>

record tenants_view =
  tv_impersonationTenant :: "Tenant option"
  tv_busy :: bool
  tv_error :: "string option"
  tv_notice :: "string option"
  tv_opened :: "string list"

definition initialTenantsView :: tenants_view where
  "initialTenantsView = \<lparr>tv_impersonationTenant = None, tv_busy = False, tv_error = None, tv_notice = None, tv_opened = []\<rparr>"

definition askImpersonation :: "Tenant \<Rightarrow> tenants_view \<Rightarrow> tenants_view" where
  "askImpersonation tenant s = s\<lparr>tv_impersonationTenant := Some tenant, tv_error := None, tv_notice := None\<rparr>"

definition ownerLinkIssued :: "string \<Rightarrow> exn + ImpersonationLink OptionalEndpointResult \<Rightarrow> tenants_view \<Rightarrow> tenants_view" where
  "ownerLinkIssued targetEmail r s =
     (case r of
        Inr Unsupported \<Rightarrow> s\<lparr>tv_error := Some (featureUnavailableMessage ''Issuing impersonation links'' None), tv_busy := False\<rparr>
      | Inr (Supported l) \<Rightarrow>
          s\<lparr>tv_opened := tv_opened s @ [il_url l],
            tv_notice := Some (''Impersonation link opened for '' @ targetEmail @ ''.''),
            tv_impersonationTenant := None, tv_busy := False\<rparr>
      | Inl err \<Rightarrow> s\<lparr>tv_error := Some (getApiErrorMessage err ''Failed to create impersonation link.''), tv_busy := False\<rparr>)"

definition issueTenantImpersonation :: "tenants_view handler" where
  "issueTenantImpersonation s w =
     (case tv_impersonationTenant s of None \<Rightarrow> (s, w)
      | Some tenant \<Rightarrow>
          (let targetEmail = orElse (tn_owner_email tenant) [] in
           if targetEmail = []
           then (s\<lparr>tv_error := Some ''Tenant owner email is not available in this admin response.''\<rparr>, w)
           else answered
             (api_requestImpersonationLink targetEmail (''Support troubleshooting for tenant '' @ tn_id tenant))
             (ownerLinkIssued targetEmail) (s\<lparr>tv_busy := True, tv_error := None, tv_notice := None\<rparr>) w))"

definition adminTenantRow :: "(string \<Rightarrow> string option) \<Rightarrow> bool \<Rightarrow> Tenant \<Rightarrow> string list" where
  "adminTenantRow fmt canRun tenant =
     [tn_company_name tenant, tn_domain tenant, tn_id tenant, tn_plan tenant, orElse (tn_chosen_app tenant) ''auto'',
      tn_status tenant, orElse (tn_payment_provider tenant) ''n/a'', formatTimestamp fmt (Some (tn_created_at tenant)),
      ''Details''] @ (if canRun then [''Impersonate owner''] else []) @
     [''Suspend, unsuspend, and billing recovery live on tenant details.'']"

definition adminTenantRows :: "(string \<Rightarrow> string option) \<Rightarrow> admin_console \<Rightarrow> string list list" where
  "adminTenantRows fmt s = map (adminTenantRow fmt (canRunAdminOnlyActions s)) (ac_tenants s)"

definition tenantsFooter :: "admin_console \<Rightarrow> string option" where
  "tenantsFooter s = (if ac_tenants s = [] \<and> \<not> truthyStr (ac_tenantsError s) then Some ''No tenants found.'' else None)"

subsection \<open>What the tables show\<close>

text \<open>
  The recovery and the audit table show the rows of the last answer of the server and no
  older ones: after a failed load the error is shown instead of the rows.
\<close>

theorem tables_show_last_answer:
  assumes "qs \<noteq> []" and "as \<noteq> []"
  shows "(case recoveryContent fmt (fold deadLettersLoaded qs s) of
      RowsShown rows \<Rightarrow> \<exists>x. last qs = Inr x \<and> ol_supported x \<and> map hd rows = map dl_id (ol_data x)
    | _ \<Rightarrow> True) \<and>
    (case auditContent fmt (fold auditLoaded as s) of
      RowsShown rows \<Rightarrow> \<exists>x. last as = Inr x \<and> ar_supported x \<and> rows = map (auditRow fmt) (ar_entries x)
    | _ \<Rightarrow> True)"
proof -
  let ?q = "fold deadLettersLoaded qs s" and ?a = "fold auditLoaded as s"
  have 1: "\<exists>x. last qs = Inr x \<and> ol_supported x \<and> map hd rows = map dl_id (ol_data x)"
    if "recoveryContent fmt ?q = RowsShown rows" for rows
    using dead.rows_are_last [OF assms(1) _ that [unfolded recoveryContent_def]]
    by (auto simp: listAnswer_def deadLetterRow_def split: if_splits)
  have 2: "\<exists>x. last as = Inr x \<and> ar_supported x \<and> rows = map (auditRow fmt) (ar_entries x)"
    if "auditContent fmt ?a = RowsShown rows" for rows
    using audit.rows_are_last [OF assms(2) _ that [unfolded auditContent_def]]
    by (auto simp: auditAnswer_def split: if_splits)
  show ?thesis using 1 2 by (auto split: section_content.split)
qed

theorem tables_show_last_answer_witness:
  "recoveryContent Some (fold deadLettersLoaded [Inr \<lparr>ol_supported = True, ol_data = []\<rparr>] initialConsole) = EmptyText ''No dead-letter jobs.'' \<and>
   (case auditContent Some (fold auditLoaded [Inl IllTyped] initialConsole) of RowsShown rows \<Rightarrow> False | _ \<Rightarrow> True)"
  using tables_show_last_answer [of "[Inr \<lparr>ol_supported = True, ol_data = []\<rparr>]" "[Inl IllTyped]" Some initialConsole]
  by (auto simp: recoveryContent_def sectionContent_def deadLetterView_def deadLettersLoaded_def split: section_content.splits)

text \<open>
  The error of a job's log is kept with the list of jobs: one log that cannot be loaded takes
  the whole table away until the list is loaded again.
\<close>

lemma job_log_failure_hides_jobs:
  "let s = jobsLoaded (Inr \<lparr>ol_supported = True, ol_data = [jobNow ''a'' ''running'']\<rparr>) initialConsole in
    (\<exists>rows. jobsContent fmt s = RowsShown rows) \<and>
    jobsContent fmt (jobLogsLoaded (Inl e) s) = ErrorText (toAdminErrorMessage e ''Failed to load job logs'')"
  by (simp add: jobsContent_def sectionContent_def jobsView_def jobsLoaded_def jobLogsLoaded_def
      initialConsole_def Let_def)

text \<open>On a server without the endpoint for a job's log the button has no visible effect.\<close>

lemma job_logs_missing_silent:
  "let s = jobsLoaded (Inr \<lparr>ol_supported = True, ol_data = [jobNow ''a'' ''running'']\<rparr>) initialConsole in
   jobsContent fmt (jobLogsLoaded (Inr (False, None)) s) = jobsContent fmt s \<and>
   selectedLogs fmt (jobLogsLoaded (Inr (False, None)) s) = NoLogs"
  by (simp add: selectedLogs_def jobsContent_def sectionContent_def jobsView_def jobsLoaded_def jobLogsLoaded_def
      initialConsole_def Let_def)

text \<open>
  The label of the attention lane counts the tenants of the loaded page only: it can say that
  the platform is healthy beside metrics that report failed tenants.
\<close>

lemma platform_healthy_beside_failures:
  "let s = metricsLoaded (Inr (True, Some (someMetrics 3 0)))
        (tenantsLoaded (Inr \<lparr>at_tenants = [sampleTenant ''active'' None None], at_total = 51, at_page = 1,
           at_usingServerPagination = True\<rparr>) initialConsole) in
   attentionLabel s = ''Platform healthy'' \<and>
   (case metricsPanel s of MetricsShown cards \<Rightarrow> map mc_tone (filter (\<lambda>c. mc_label c = ''Failed tenants'') cards) = [ToneWarn]
    | _ \<Rightarrow> False)"
  by code_simp

subsection \<open>Guarded operations\<close>

primrec opsPath :: "OpsAction \<Rightarrow> string" where
  "opsPath RunDunning = ''/admin/billing/dunning/run?dry_run=false''"
| "opsPath DryRunDunning = ''/admin/billing/dunning/run?dry_run=true''"
| "opsPath RebuildAssets = ''/admin/maintenance/assets/build''"
| "opsPath SyncTls = ''/admin/maintenance/tls/sync?prime_certs=false''"

lemma addressed_opsCall:
  assumes "P ''POST'' (opsPath action)"
  shows "keeps (addressed P) (opsCall action)"
proof -
  have e: "encodeURIComponent (boolStr False) = ''false''" "encodeURIComponent (boolStr True) = ''true''" by code_simp+
  show ?thesis
    using assms by (cases action)
      (auto simp: api_runBillingDunningCycle_def api_rebuildPlatformAssets_def api_syncTenantTLS_def e intro!: addressed_optional)
qed

text \<open>
  An operation of the overview sends messages only for the operation that is being
  confirmed; the confirmation closes exactly when the server has accepted it, with a message,
  and otherwise stays open with an error; the panel is not left busy.
\<close>

theorem ops_action_confirmed:
  assumes "runOpsAction s w = (s', w')" and "op_confirmAction s = Some action"
  shows "addressed (\<lambda>m p. m = ''POST'' \<and> p = opsPath action) w w' \<and> \<not> op_busy s' \<and>
    (if op_confirmAction s' = None
     then (\<exists>m. fst (opsCall action w) = Inr (Supported m)) \<and> truthyStr (op_message s') \<and> op_error s' = None
     else op_confirmAction s' = Some action \<and> op_message s' = None \<and> op_error s' \<noteq> None)"
proof -
  obtain r where r: "opsCall action w = (r, w')" and
    s': "s' = opsSettled r (s\<lparr>op_busy := True, op_message := None, op_error := None\<rparr>)"
    using assms by (auto simp: runOpsAction_def answered_def split: prod.splits)
  have "addressed (\<lambda>m p. m = ''POST'' \<and> p = opsPath action) w w'"
    by (rule keepsD [OF addressed_opsCall r]) simp
  then show ?thesis
    using assms(2) r by (auto simp: s' opsSettled_def orElse_def split: sum.split OptionalEndpointResult.split)
qed

theorem ops_action_confirmed_witness:
  "let s' = fst (runOpsAction (initialOps\<lparr>op_confirmAction := Some SyncTls\<rparr>) freshBrowser) in
   op_confirmAction s' = Some SyncTls \<and> op_error s' \<noteq> None"
proof -
  let ?s = "initialOps\<lparr>op_confirmAction := Some SyncTls\<rparr>"
  have "op_confirmAction (fst (runOpsAction ?s freshBrowser)) \<noteq> None" by code_simp
  then show ?thesis
    using ops_action_confirmed [OF prod.collapse [symmetric], of ?s SyncTls freshBrowser] by (auto simp: Let_def)
qed

text \<open>
  From the list of tenants a support link is asked only for the owner of the chosen tenant,
  whose id is in the reason; what is opened is the link of the answer.
\<close>

theorem owner_link_opens_answer:
  assumes "issueTenantImpersonation s w = (s', w')" and "tv_impersonationTenant s = Some t" and "\<not> tv_busy s"
  shows "\<not> tv_busy s' \<and>
    (if tv_opened s' = tv_opened s then tv_error s' \<noteq> None \<and> tv_impersonationTenant s' = Some t
     else \<exists>l email. tn_owner_email t = Some email \<and> email \<noteq> [] \<and>
       api_requestImpersonationLink email (''Support troubleshooting for tenant '' @ tn_id t) w = (Inr (Supported l), w') \<and>
       tv_opened s' = tv_opened s @ [il_url l] \<and> tv_impersonationTenant s' = None)"
proof (cases "orElse (tn_owner_email t) [] = []")
  case True
  then show ?thesis using assms by (auto simp: issueTenantImpersonation_def)
next
  case False
  then obtain email where e: "tn_owner_email t = Some email" "email \<noteq> []" "orElse (tn_owner_email t) [] = email"
    by (auto simp: orElse_def split: if_splits option.splits)
  then show ?thesis
    using assms by (auto simp: issueTenantImpersonation_def answered_def ownerLinkIssued_def
        split: prod.splits sum.splits OptionalEndpointResult.splits)
qed

theorem owner_link_opens_answer_witness:
  "tv_error (fst (issueTenantImpersonation (askImpersonation (sampleTenant ''active'' None None) initialTenantsView)
     freshBrowser)) \<noteq> None"
proof -
  let ?t = "sampleTenant ''active'' None None"
  let ?s = "askImpersonation ?t initialTenantsView"
  have "tv_opened (fst (issueTenantImpersonation ?s freshBrowser)) = tv_opened ?s" by code_simp
  then show ?thesis
    using owner_link_opens_answer [OF prod.collapse [symmetric], of ?s ?t freshBrowser]
    by (simp add: askImpersonation_def initialTenantsView_def)
qed

end
