(* ===== verification/Route_Guard.thy ===== *)
theory Route_Guard
  imports Session
begin

section \<open>The route guards\<close>

text \<open>
  The admin access policy (\<^verbatim>\<open>saas-ui/domains/auth/domain/adminRouteAccessPolicy.ts\<close>) and the
  edge middleware (\<^verbatim>\<open>saas-ui/middleware.ts\<close>), which sees every request under \<^verbatim>\<open>/app\<close> and on the
  public sign-in routes before a page is served.
\<close>

subsection \<open>The admin access policy\<close>

text \<open>\<open>hasBuffer\<close> is the test for Node's \<^verbatim>\<open>Buffer\<close>, whose decoder never throws.\<close>

definition decodeBase64Url :: "bool \<Rightarrow> string \<Rightarrow> string option" where
  "decodeBase64Url hasBuffer v =
     (let normalized = replaceChar (CHR ''_'') (CHR ''/'') (replaceChar (CHR ''-'') (CHR ''+'') v);
          padded = normalized @ replicate ((4 - length normalized mod 4) mod 4) (CHR ''='') in
      if hasBuffer then Some (bufferFromBase64 padded) else atob padded)"

definition parseSessionToken :: "bool \<Rightarrow> string option \<Rightarrow> json option" where
  "parseSessionToken hasBuffer token =
     (if \<not> truthyStr token then None
      else (case splitOn ''.'' (the token) of
              _ # payload # _ \<Rightarrow>
                if payload = [] then None
                else Option.bind (decodeBase64Url hasBuffer payload) JSON_parse
            | _ \<Rightarrow> None))"

definition hasLiveSession :: "json option \<Rightarrow> int \<Rightarrow> bool" where
  "hasLiveSession payload nowMs =
     (case payloadExp payload of
        None \<Rightarrow> False
      | Some e \<Rightarrow> if e = 0 then False else e * 1000 > nowMs)"

definition isAdminSession :: "json option \<Rightarrow> bool" where
  "isAdminSession payload \<longleftrightarrow>
     payloadStr ''role'' payload = Some ''admin'' \<or> payloadStr ''role'' payload = Some ''support''"

definition buildLoginRedirectPath :: "string \<Rightarrow> bool \<Rightarrow> string" where
  "buildLoginRedirectPath nextPath sessionExpired =
     (let params = [(''next'', nextPath)];
          params' = (if sessionExpired then querySet ''sessionExpired'' ''1'' params else params) in
      ''/login?'' @ queryStr params')"

datatype DenyReason = SessionExpired | Unauthenticated | AdminRequired

datatype AdminRouteAccessDecision =
    Allow
  | Deny (denyStatus: nat) (denyReason: DenyReason) (redirectPath: string)

definition decideAdminRouteAccess ::
  "json option \<Rightarrow> bool \<Rightarrow> string \<Rightarrow> int \<Rightarrow> AdminRouteAccessDecision" where
  "decideAdminRouteAccess payload hadToken nextPath nowMs =
     (if \<not> hasLiveSession payload nowMs then
        Deny 401 (if hadToken then SessionExpired else Unauthenticated)
          (buildLoginRedirectPath nextPath hadToken)
      else if \<not> isAdminSession payload then
        Deny 403 AdminRequired ''/app/overview?reason=admin-required''
      else Allow)"

subsection \<open>The middleware\<close>

definition TOKEN_COOKIE :: string where "TOKEN_COOKIE = ''erp_saas_token''"
definition ROLE_COOKIE :: string where "ROLE_COOKIE = ''erp_saas_role''"
definition USER_COOKIE :: string where "USER_COOKIE = ''erp_saas_user''"
definition DEFAULT_WORKSPACE_REDIRECT :: string where
  "DEFAULT_WORKSPACE_REDIRECT = ''/app/overview''"

record NextRequest =
  rqPathname :: string
  rqSearch :: string
  rqQuery :: query
  rqCookies :: "string \<rightharpoonup> string"

text \<open>A response either continues to the page or redirects to a reference relative to the
  request's URL, both with a list of deleted cookies, or is the 403 page.\<close>

datatype NextResponse =
    Next "string list"
  | RedirectTo string "string list"
  | Forbidden

definition decodePayload :: "string \<Rightarrow> json option" where
  "decodePayload token =
     (case splitOn ''.'' token of
        _ # payload # _ \<Rightarrow>
          if payload = [] then None
          else
            (let normalized = replaceChar (CHR ''_'') (CHR ''/'') (replaceChar (CHR ''-'') (CHR ''+'') payload);
                 padded = normalized @ replicate ((4 - length normalized mod 4) mod 4) (CHR ''='') in
             Option.bind (atob padded) JSON_parse)
      | _ \<Rightarrow> None)"

definition isProtected :: "string \<Rightarrow> bool" where
  "isProtected pathname \<longleftrightarrow> pathname = ''/app'' \<or> startsWith pathname ''/app/''"

definition isAdminRoute :: "string \<Rightarrow> bool" where
  "isAdminRoute pathname \<longleftrightarrow> pathname = ''/app/admin'' \<or> startsWith pathname ''/app/admin/''"

definition isAdminOperatorRole :: "string option \<Rightarrow> bool" where
  "isAdminOperatorRole role \<longleftrightarrow> role = Some ''admin'' \<or> role = Some ''support''"

definition isPublicAuthRoute :: "string \<Rightarrow> bool" where
  "isPublicAuthRoute pathname \<longleftrightarrow>
     pathname \<in> set [''/login'', ''/signup'', ''/forgot-password'', ''/reset-password'', ''/verify-email'']"

definition safeRedirectPath :: "string option \<Rightarrow> string" where
  "safeRedirectPath v =
     (if \<not> truthyStr v \<or> \<not> startsWith (the v) ''/'' \<or> startsWith (the v) ''//''
      then DEFAULT_WORKSPACE_REDIRECT else the v)"

definition buildLoginUrl :: "NextRequest \<Rightarrow> bool \<Rightarrow> string" where
  "buildLoginUrl request sessionExpired =
     (let params = querySet ''next'' (rqPathname request @ rqSearch request) [];
          params' = (if sessionExpired then querySet ''sessionExpired'' ''1'' params else params) in
      ''/login?'' @ queryStr params')"

definition tokenExpired :: "json option \<Rightarrow> int \<Rightarrow> bool" where
  "tokenExpired payload nowMs =
     (case payloadExp payload of None \<Rightarrow> False | Some e \<Rightarrow> e \<noteq> 0 \<and> e * 1000 \<le> nowMs)"

definition middleware :: "NextRequest \<Rightarrow> int \<Rightarrow> NextResponse" where
  "middleware request nowMs =
     (let pathname = rqPathname request;
          token = rqCookies request TOKEN_COOKIE in
      if pathname = ''/verify-email'' then Next []
      else if isPublicAuthRoute pathname then
        (if queryGet ''logout'' (rqQuery request) = Some ''1'' then Next []
         else if \<not> truthyStr token then Next []
         else if tokenExpired (decodePayload (the token)) nowMs then
           Next [TOKEN_COOKIE, ROLE_COOKIE, USER_COOKIE]
         else RedirectTo (safeRedirectPath (queryGet ''next'' (rqQuery request))) [])
      else if \<not> isProtected pathname then Next []
      else if \<not> truthyStr token then RedirectTo (buildLoginUrl request False) []
      else
        (let payload = decodePayload (the token) in
         if tokenExpired payload nowMs then
           RedirectTo (buildLoginUrl request True) [TOKEN_COOKIE, ROLE_COOKIE, USER_COOKIE]
         else
           (let role = (case rqCookies request ROLE_COOKIE of
                          Some r \<Rightarrow> Some r | None \<Rightarrow> payloadStr ''role'' payload) in
            if isAdminRoute pathname \<and> \<not> isAdminOperatorRole role then Forbidden
            else Next [])))"

text \<open>A request with the cookies of a session, for the examples.\<close>

definition pageRequest :: "string \<Rightarrow> (string \<rightharpoonup> string) \<Rightarrow> NextRequest" where
  "pageRequest p cs = \<lparr>rqPathname = p, rqSearch = [], rqQuery = [], rqCookies = cs\<rparr>"

lemma no_segment_payload: "CHR ''.'' \<notin> set t \<Longrightarrow> decodePayload t = None"
  using splitOn_join [of "''.''" "CHR ''.''" "[]" "[t]"] by (simp add: decodePayload_def)

lemma no_payload_not_expired: "\<not> tokenExpired None t"
  by (simp add: tokenExpired_def payloadExp_def)

lemma decodePayload_parseToken: "decodePayload t = parseToken t"
  by (auto simp: decodePayload_def parseToken_def tokenSegment_def Let_def
      split: list.splits option.splits)

lemma isAdminRoute_protected: "isAdminRoute p \<Longrightarrow> isProtected p"
  by (auto simp: isAdminRoute_def isProtected_def startsWith_def prefix_def)

lemma protected_not_public: "isProtected p \<Longrightarrow> \<not> isPublicAuthRoute p \<and> p \<noteq> ''/verify-email''"
  by (auto simp: isPublicAuthRoute_def isProtected_def startsWith_def)





text \<open>
  A signed-in browser that the middleware sends from a public page to the workspace is let
  in there: the redirect target, when it is a page under \<^verbatim>\<open>/app\<close>, is served or forbidden, never
  sent back to the sign-in page.
\<close>

theorem public_redirect_settles:
  assumes "isPublicAuthRoute (rqPathname rq)" and "middleware rq t = RedirectTo ref ds"
    and "rqPathname rq' = p" and "isProtected p" and "rqCookies rq' = rqCookies rq"
  shows "middleware rq' t = (if isAdminRoute p \<and>
    \<not> isAdminOperatorRole (case rqCookies rq ROLE_COOKIE of Some r \<Rightarrow> Some r
        | None \<Rightarrow> payloadStr ''role'' (decodePayload (the (rqCookies rq TOKEN_COOKIE))))
    then Forbidden else Next [])"
  using assms protected_not_public [OF assms(4)]
  by (cases "rqCookies rq TOKEN_COOKIE")
     (auto simp: middleware_def Let_def split: if_splits option.splits)

theorem public_redirect_settles_witness:
  "middleware (pageRequest ''/app/overview'' [TOKEN_COOKIE \<mapsto> ''t'']) 5 = Next []"
  using public_redirect_settles [of "pageRequest ''/login'' [TOKEN_COOKIE \<mapsto> ''t'']" 5 "''/app/overview''" "[]"
      "pageRequest ''/app/overview'' [TOKEN_COOKIE \<mapsto> ''t'']" "''/app/overview''"]
  by (simp add: pageRequest_def isProtected_def isAdminRoute_def startsWith_def no_segment_payload
      no_payload_not_expired middleware_def isPublicAuthRoute_def queryGet_def safeRedirectPath_def
      DEFAULT_WORKSPACE_REDIRECT_def)

lemma default_redirect_shape:
  "startsWith DEFAULT_WORKSPACE_REDIRECT ''/''" "\<not> startsWith DEFAULT_WORKSPACE_REDIRECT ''//''"
  "plainRef DEFAULT_WORKSPACE_REDIRECT"
  by (simp_all add: DEFAULT_WORKSPACE_REDIRECT_def startsWith_def plainRef_def)

text \<open>The two copies of the redirect check are one function.\<close>

lemma safeRedirectPath_eq: "safeRedirectPath v = safePostLoginRedirect v DEFAULT_POST_LOGIN_REDIRECT"
  by (simp add: safeRedirectPath_def safePostLoginRedirect_def DEFAULT_WORKSPACE_REDIRECT_def
      DEFAULT_POST_LOGIN_REDIRECT_def)

text \<open>
  C5: After sign-in the browser stays on the site for every requested path without backslashes
  and control characters: both checks return a reference that the URL standard resolves to the
  same host, and they return the same one.
\<close>

theorem redirect_on_site:
  assumes "\<And>s. v = Some s \<Longrightarrow> plainRef s"
  shows "resolvesOnSite (safeRedirectPath v) \<and>
    safeRedirectPath v = safePostLoginRedirect v DEFAULT_POST_LOGIN_REDIRECT"
proof -
  have "plainRef (safeRedirectPath v)"
    using assms default_redirect_shape(3) by (cases v) (auto simp: safeRedirectPath_def)
  moreover have "startsWith (safeRedirectPath v) ''/''" "\<not> startsWith (safeRedirectPath v) ''//''"
    using default_redirect_shape by (auto simp: safeRedirectPath_def)
  ultimately show ?thesis by (simp add: on_site_plain safeRedirectPath_eq)
qed

theorem redirect_on_site_witness:
  "resolvesOnSite (safeRedirectPath (Some ''/app/tenants?status=active'')) \<and>
    safeRedirectPath (Some ''/app/tenants?status=active'') =
      safePostLoginRedirect (Some ''/app/tenants?status=active'') DEFAULT_POST_LOGIN_REDIRECT"
  by (rule redirect_on_site) (auto simp: plainRef_def)

text \<open>
  The check lets a backslash through: a signed-in browser opening
  \<^verbatim>\<open>/login?next=/\evil.example\<close> is redirected by the middleware to a reference that the URL
  standard resolves to another host.
\<close>

theorem open_redirect_backslash:
  "let rq = \<lparr>rqPathname = ''/login'', rqSearch = ''?next=/%5Cevil.example'',
              rqQuery = [(''next'', CHR ''/'' # CHR 0x5C # ''evil.example'')],
              rqCookies = [TOKEN_COOKIE \<mapsto> ''t'']\<rparr> in
   middleware rq t = RedirectTo (CHR ''/'' # CHR 0x5C # ''evil.example'') [] \<and>
   \<not> resolvesOnSite (CHR ''/'' # CHR 0x5C # ''evil.example'')"
  by (simp add: middleware_def Let_def isPublicAuthRoute_def queryGet_def decodePayload_def js_defs
      tokenExpired_def payloadExp_def safeRedirectPath_def resolvesOnSite_def urlInput_def
      c0OrSpace_def urlSlash_def)

text \<open>
  The admin access policy is the stricter guard: a session it allows passes the middleware
  on every admin route, when the role cookie, if there is one, holds the token's role.
\<close>

theorem policy_implies_middleware:
  assumes "decideAdminRouteAccess (decodePayload tok) had next t = Allow"
    and "isAdminRoute (rqPathname rq)" and "rqCookies rq TOKEN_COOKIE = Some tok" and "tok \<noteq> []"
    and "rqCookies rq ROLE_COOKIE = None \<or>
      rqCookies rq ROLE_COOKIE = payloadStr ''role'' (decodePayload tok)"
  shows "middleware rq t = Next []"
proof -
  have live: "hasLiveSession (decodePayload tok) t" and adm: "isAdminSession (decodePayload tok)"
    using assms(1) by (auto simp: decideAdminRouteAccess_def split: if_splits)
  have "\<not> tokenExpired (decodePayload tok) t"
    using live by (auto simp: hasLiveSession_def tokenExpired_def split: option.splits if_splits)
  moreover have "isAdminOperatorRole (case rqCookies rq ROLE_COOKIE of Some r \<Rightarrow> Some r
      | None \<Rightarrow> payloadStr ''role'' (decodePayload tok))"
    using adm assms(5) by (auto simp: isAdminSession_def isAdminOperatorRole_def split: option.split)
  ultimately show ?thesis
    using assms isAdminRoute_protected [OF assms(2)] protected_not_public
    by (auto simp: middleware_def Let_def)
qed

theorem policy_implies_middleware_witness:
  "middleware (pageRequest ''/app/admin/jobs'' [TOKEN_COOKIE \<mapsto> hourToken, ROLE_COOKIE \<mapsto> ''admin'']) 1700000000123 = Next []"
proof (rule policy_implies_middleware)
  show "decideAdminRouteAccess (decodePayload hourToken) True ''/app/admin/jobs'' 1700000000123 = Allow"
    by (simp add: decodePayload_parseToken parse_hourToken decideAdminRouteAccess_def hasLiveSession_def
        payloadExp_def isAdminSession_def payloadStr_def)
qed (simp_all add: pageRequest_def isAdminRoute_def startsWith_def TOKEN_COOKIE_def ROLE_COOKIE_def
    decodePayload_parseToken parse_hourToken payloadStr_def hourToken_nonempty)

text \<open>
  The middleware is the weaker guard: a request with an undecodable token and a role cookie
  that says admin is served an admin page at any time, while the policy denies the same token.
\<close>

theorem middleware_trusts_role_cookie:
  "middleware \<lparr>rqPathname = ''/app/admin/jobs'', rqSearch = [], rqQuery = [],
     rqCookies = [TOKEN_COOKIE \<mapsto> ''x'', ROLE_COOKIE \<mapsto> ''admin'']\<rparr> t = Next [] \<and>
   decideAdminRouteAccess (parseSessionToken hasBuffer (Some ''x'')) True ''/app/admin/jobs'' t \<noteq> Allow"
  by (simp add: middleware_def Let_def isPublicAuthRoute_def isProtected_def isAdminRoute_def
      decodePayload_def js_defs tokenExpired_def payloadExp_def isAdminOperatorRole_def
      decideAdminRouteAccess_def parseSessionToken_def hasLiveSession_def TOKEN_COOKIE_def ROLE_COOKIE_def)

subsection \<open>The decoders agree\<close>

lemma parseSessionToken_parseToken:
  "parseSessionToken False (Some t) = (if t = [] then None else parseToken t)"
  by (auto simp: parseSessionToken_def parseToken_def tokenSegment_def decodeBase64Url_def Let_def
      split: list.splits option.splits)

lemma parseSessionToken_minted:
  assumes "CHR ''.'' \<notin> set hdr" and "CHR ''.'' \<notin> set sig"
  shows "parseSessionToken hasBuffer (Some (mintToken hdr p sig)) = Some p"
proof -
  obtain rest where r: "splitOn ''.'' (mintToken hdr p sig) = hdr # b64urlEncode (JSON_stringify p) # rest"
    "b64urlEncode (JSON_stringify p) \<noteq> []"
    using tokenSegment_split [OF assms] by blast
  moreover have "mintToken hdr p sig \<noteq> []" by (simp add: mintToken_def)
  ultimately show ?thesis
    using atob_padded_b64url [of "JSON_stringify p"] buffer_padded_b64url [of "JSON_stringify p"]
    by (auto simp: parseSessionToken_def decodeBase64Url_def Let_def padB64_def normalizeB64url_def)
qed

end
