(* ===== verification/Site_Redirects.thy ===== *)
theory Site_Redirects
  imports Navigation Route_Guard
begin

section \<open>Redirects and pages of the site\<close>

text \<open>
  The redirects of \<^verbatim>\<open>saas-ui/next.config.js\<close>, which keep links to the former routes working, the
  pages of \<^verbatim>\<open>saas-ui/app\<close> (a page is the \<^verbatim>\<open>page.tsx\<close> of a directory) and the pages that only
  redirect. The framework tries the redirects first, in the order of the file, then the middleware,
  then the pages: those without parameters, those with, and the catch-all last. A path is the list
  of its segments, none empty (the framework drops a trailing slash before anything else). Segments
  of a redirect's source are compared without regard to case, as the framework compares them; those
  of a page as they are.
\<close>

subsection \<open>Patterns\<close>

datatype PathPart =
    Lit string
  | Param string
  | OneOf string "string list"

record PathPattern =
  pp_parts :: "PathPart list"
  pp_rest :: "string option"

type_synonym bindings = "(string \<times> string list) list"

definition pathSegments :: "string \<Rightarrow> string list" where
  "pathSegments path = filter (\<lambda>s. s \<noteq> []) (segments path)"

text \<open>\<^verbatim>\<open>:name\<close>, \<^verbatim>\<open>:name(a|b)\<close> or a literal; a last \<^verbatim>\<open>:name*\<close> stands for the rest of the path.\<close>

definition pathPart :: "string \<Rightarrow> PathPart" where
  "pathPart s =
     (if startsWith s '':'' then
        (let name = takeWhile (\<lambda>c. c \<noteq> CHR ''('') (tl s);
             alternatives = dropWhile (\<lambda>c. c \<noteq> CHR ''('') (tl s) in
         if alternatives = [] then Param name
         else OneOf name (splitOn ''|'' (butlast (tl alternatives))))
      else Lit s)"

definition restName :: "string list \<Rightarrow> string option" where
  "restName ss =
     (if ss \<noteq> [] \<and> startsWith (last ss) '':'' \<and> endsWith (last ss) ''*'' then Some (butlast (tl (last ss))) else None)"

definition pathPattern :: "string \<Rightarrow> PathPattern" where
  "pathPattern path =
     (let ss = pathSegments path; rest = restName ss in
      \<lparr>pp_parts = map pathPart (if rest = None then ss else butlast ss), pp_rest = rest\<rparr>)"

text \<open>\<open>norm\<close> is what the comparison ignores: the case of letters, or nothing.\<close>

definition matchPart :: "(string \<Rightarrow> string) \<Rightarrow> PathPart \<Rightarrow> string \<Rightarrow> bindings option" where
  "matchPart norm p s =
     (case p of
        Lit l \<Rightarrow> if norm s = norm l then Some [] else None
      | Param n \<Rightarrow> Some [(n, [s])]
      | OneOf n ls \<Rightarrow> if norm s \<in> set (map norm ls) then Some [(n, [s])] else None)"

fun matchParts :: "(string \<Rightarrow> string) \<Rightarrow> PathPart list \<Rightarrow> string list \<Rightarrow> (bindings \<times> string list) option" where
  "matchParts norm [] path = Some ([], path)"
| "matchParts norm (p # ps) [] = None"
| "matchParts norm (p # ps) (s # path) =
     (case matchPart norm p s of
        None \<Rightarrow> None
      | Some b \<Rightarrow> map_option (\<lambda>(b', rest). (b @ b', rest)) (matchParts norm ps path))"

definition matchPattern :: "(string \<Rightarrow> string) \<Rightarrow> PathPattern \<Rightarrow> string list \<Rightarrow> bindings option" where
  "matchPattern norm pat path =
     (case matchParts norm (pp_parts pat) path of
        None \<Rightarrow> None
      | Some (b, rest) \<Rightarrow>
          (case pp_rest pat of
             None \<Rightarrow> if rest = [] then Some b else None
           | Some n \<Rightarrow> Some (b @ [(n, rest)])))"

definition bound :: "bindings \<Rightarrow> string \<Rightarrow> string list" where
  "bound b n = (case map_of b n of None \<Rightarrow> [] | Some ss \<Rightarrow> ss)"

definition fillPart :: "bindings \<Rightarrow> PathPart \<Rightarrow> string list" where
  "fillPart b p = (case p of Lit l \<Rightarrow> [l] | Param n \<Rightarrow> bound b n | OneOf n _ \<Rightarrow> bound b n)"

definition fillPattern :: "bindings \<Rightarrow> PathPattern \<Rightarrow> string list" where
  "fillPattern b pat =
     concat (map (fillPart b) (pp_parts pat)) @ (case pp_rest pat of None \<Rightarrow> [] | Some n \<Rightarrow> bound b n)"

subsection \<open>The redirects\<close>

record Redirect =
  rd_source :: PathPattern
  rd_has :: "(string \<times> string) list"
  rd_destination :: PathPattern

definition redirectTo :: "string \<Rightarrow> string \<Rightarrow> Redirect" where
  "redirectTo source destination =
     \<lparr>rd_source = pathPattern source, rd_has = [], rd_destination = pathPattern destination\<rparr>"

definition redirectWhen :: "string \<Rightarrow> string \<times> string \<Rightarrow> string \<Rightarrow> Redirect" where
  "redirectWhen source has destination =
     \<lparr>rd_source = pathPattern source, rd_has = [has], rd_destination = pathPattern destination\<rparr>"

definition redirects :: "Redirect list" where
  "redirects =
  [
   redirectTo ''/auth'' ''/login'',
   redirectTo ''/auth/:path*'' ''/:path*'',
   redirectTo ''/dashboard'' ''/app/overview'',
   redirectTo ''/dashboard/overview'' ''/app/overview'',
   redirectTo ''/dashboard/activity'' ''/app/overview/activity'',
   redirectTo ''/dashboard/registry'' ''/app/tenants'',
   redirectTo ''/dashboard/active'' ''/app/tenants/active'',
   redirectTo ''/dashboard/suspensions'' ''/app/tenants/suspensions'',
   redirectTo ''/dashboard/billing'' ''/app/billing/invoices'',
   redirectTo ''/dashboard/billing-details'' ''/app/billing/invoices'',
   redirectTo ''/dashboard/billing-recovery'' ''/app/billing/recovery'',
   redirectTo ''/dashboard/billing-ops'' ''/app/billing/recovery'',
   redirectTo ''/dashboard/audit'' ''/app/overview/activity'',
   redirectTo ''/dashboard/support'' ''/app/support/queue'',
   redirectTo ''/dashboard/support-overview'' ''/app/support/escalations'',
   redirectTo ''/dashboard/platform-health'' ''/app/platform/health'',
   redirectTo ''/dashboard/provisioning'' ''/app/platform/provisioning'',
   redirectTo ''/dashboard/incidents'' ''/app/platform/incidents'',
   redirectTo ''/dashboard/onboarding'' ''/app/platform/onboarding'',
   redirectTo ''/dashboard/account'' ''/app/account/profile'',
   redirectTo ''/dashboard/settings'' ''/app/account/settings'',
   redirectTo ''/billing'' ''/app/billing/invoices'',
   redirectTo ''/onboarding'' ''/app/platform/onboarding'',
   redirectTo ''/tenants'' ''/app/tenants'',
   redirectTo ''/tenants/:tenantId'' ''/app/tenants/:tenantId/overview'',
   redirectTo ''/tenants/:tenantId/:tab(overview|members|domains|billing|jobs|audit|backups|support)'' ''/app/tenants/:tenantId/:tab'',
   redirectTo ''/admin/control/overview'' ''/app/admin/control-overview'',
   redirectTo ''/admin/control/tenants'' ''/app/admin/tenant-control'',
   redirectTo ''/admin/control/jobs'' ''/app/admin/jobs'',
   redirectTo ''/admin/control/audit'' ''/app/admin/audit'',
   redirectTo ''/admin/control/support'' ''/app/admin/support-tools'',
   redirectTo ''/admin/control/recovery'' ''/app/admin/recovery'',
   redirectTo ''/admin/billing-ops'' ''/app/admin/billing-ops'',
   redirectTo ''/admin/audit'' ''/app/admin/audit'',
   redirectTo ''/admin/support'' ''/app/admin/support-tools'',
   redirectTo ''/admin/support-overview'' ''/app/admin/support-tools'',
   redirectTo ''/admin/billing'' ''/app/admin/billing-ops'',
   redirectTo ''/admin/activity'' ''/app/admin/jobs'',
   redirectTo ''/admin/incidents'' ''/app/admin/recovery'',
   redirectTo ''/admin/provisioning'' ''/app/admin/jobs'',
   redirectTo ''/admin/onboarding'' ''/app/admin/tenant-control'',
   redirectTo ''/admin/suspensions'' ''/app/admin/tenant-control'',
   redirectTo ''/admin/platform-health'' ''/app/admin/platform-health'',
   redirectWhen ''/admin'' (''view'', ''overview'') ''/app/admin/control-overview'',
   redirectWhen ''/admin'' (''view'', ''tenants'') ''/app/admin/tenant-control'',
   redirectWhen ''/admin'' (''view'', ''jobs'') ''/app/admin/jobs'',
   redirectWhen ''/admin'' (''view'', ''audit'') ''/app/admin/audit'',
   redirectWhen ''/admin'' (''view'', ''support'') ''/app/admin/support-tools'',
   redirectWhen ''/admin'' (''view'', ''recovery'') ''/app/admin/recovery'',
   redirectTo ''/admin'' ''/app/admin/control-overview''
  ]"

text \<open>Of a key the query repeats, the framework looks at the last value.\<close>

definition queryHas :: "query \<Rightarrow> string \<times> string \<Rightarrow> bool" where
  "queryHas q kv \<longleftrightarrow> queryGet (fst kv) (rev q) = Some (snd kv)"

definition applyRedirect :: "string list \<Rightarrow> query \<Rightarrow> Redirect \<Rightarrow> string list option" where
  "applyRedirect path q r =
     (if list_all (queryHas q) (rd_has r)
      then map_option (\<lambda>b. fillPattern b (rd_destination r)) (matchPattern toLowerCase (rd_source r) path)
      else None)"

fun firstRedirect :: "string list \<Rightarrow> query \<Rightarrow> Redirect list \<Rightarrow> string list option" where
  "firstRedirect path q [] = None"
| "firstRedirect path q (r # rs) =
     (case applyRedirect path q r of None \<Rightarrow> firstRedirect path q rs | Some d \<Rightarrow> Some d)"

definition siteRedirect :: "string list \<Rightarrow> query \<Rightarrow> string list option" where
  "siteRedirect path q = firstRedirect path q redirects"

text \<open>Requests of the client to \<^verbatim>\<open>/api\<close> go to the back end, whose address the environment may set.\<close>

definition apiProxyTarget :: "string option \<Rightarrow> string" where
  "apiProxyTarget env = (if truthyStr env then the env else ''http://api:8000'')"

definition apiRewrite :: "string option \<Rightarrow> string list \<Rightarrow> string option" where
  "apiRewrite env path =
     map_option (\<lambda>b. apiProxyTarget env @ routeOf (fillPattern b (pathPattern ''/api/:path*'')))
       (matchPattern toLowerCase (pathPattern ''/api/:path*'') path)"

subsection \<open>The pages\<close>

definition pageDirectories :: "string list" where
  "pageDirectories =
  [
   ''(app-shell)/app'',
   ''(app-shell)/app/account'',
   ''(app-shell)/app/account/profile'',
   ''(app-shell)/app/account/settings'',
   ''(app-shell)/app/admin'',
   ''(app-shell)/app/admin/audit'',
   ''(app-shell)/app/admin/billing-ops'',
   ''(app-shell)/app/admin/control-overview'',
   ''(app-shell)/app/admin/jobs'',
   ''(app-shell)/app/admin/platform-health'',
   ''(app-shell)/app/admin/recovery'',
   ''(app-shell)/app/admin/support-tools'',
   ''(app-shell)/app/admin/tenant-control'',
   ''(app-shell)/app/billing'',
   ''(app-shell)/app/billing/invoices'',
   ''(app-shell)/app/billing/recovery'',
   ''(app-shell)/app/overview'',
   ''(app-shell)/app/overview/activity'',
   ''(app-shell)/app/platform'',
   ''(app-shell)/app/platform/health'',
   ''(app-shell)/app/platform/incidents'',
   ''(app-shell)/app/platform/onboarding'',
   ''(app-shell)/app/platform/provisioning'',
   ''(app-shell)/app/support'',
   ''(app-shell)/app/support/escalations'',
   ''(app-shell)/app/support/queue'',
   ''(app-shell)/app/tenants'',
   ''(app-shell)/app/tenants/active'',
   ''(app-shell)/app/tenants/suspensions'',
   ''(auth)/forgot-password'',
   ''(auth)/impersonate'',
   ''(auth)/login'',
   ''(auth)/reset-password'',
   ''(auth)/signup'',
   ''(auth)/verify-email'',
   ''(onboarding)/onboarding'',
   ''(shared)'',
   ''(app-shell)/app/tenants/[tenantId]'',
   ''(app-shell)/app/tenants/[tenantId]/audit'',
   ''(app-shell)/app/tenants/[tenantId]/backups'',
   ''(app-shell)/app/tenants/[tenantId]/billing'',
   ''(app-shell)/app/tenants/[tenantId]/domains'',
   ''(app-shell)/app/tenants/[tenantId]/jobs'',
   ''(app-shell)/app/tenants/[tenantId]/members'',
   ''(app-shell)/app/tenants/[tenantId]/overview'',
   ''(app-shell)/app/tenants/[tenantId]/support'',
   ''(app-shell)/app/[...slug]''
  ]"

text \<open>A directory in parentheses is not part of the path, one in brackets a parameter.\<close>

definition directoryPart :: "string \<Rightarrow> PathPart" where
  "directoryPart s = (if startsWith s ''['' then Param (butlast (tl s)) else Lit s)"

definition directoryPattern :: "string \<Rightarrow> PathPattern" where
  "directoryPattern dir =
     (let ss = filter (\<lambda>s. \<not> startsWith s ''('') (pathSegments dir) in
      if ss \<noteq> [] \<and> startsWith (last ss) ''[...'' then
        \<lparr>pp_parts = map directoryPart (butlast ss), pp_rest = Some (butlast (drop 4 (last ss)))\<rparr>
      else \<lparr>pp_parts = map directoryPart ss, pp_rest = None\<rparr>)"

text \<open>What a page does with the parameters of its path.\<close>

datatype PageAnswer =
    Shows string
  | MovesTo "string list"
  | PageMissing

definition AppCatchAllRoute :: PageAnswer where
  "AppCatchAllRoute = PageMissing"

definition AdminRootPage :: PageAnswer where
  "AdminRootPage = MovesTo (pathSegments ''/app/admin/control-overview'')"

definition BillingRootPage :: PageAnswer where
  "BillingRootPage = MovesTo (pathSegments ''/app/billing/invoices'')"

definition SupportRootPage :: PageAnswer where
  "SupportRootPage = MovesTo (pathSegments ''/app/support/queue'')"

definition PlatformRootPage :: PageAnswer where
  "PlatformRootPage = MovesTo (pathSegments ''/app/platform/health'')"

definition AccountRootPage :: PageAnswer where
  "AccountRootPage = MovesTo (pathSegments ''/app/account/profile'')"

definition TenantRootPage :: "bindings \<Rightarrow> PageAnswer" where
  "TenantRootPage params = MovesTo (pathSegments ''/app/tenants'' @ bound params ''tenantId'' @ [''overview''])"

definition pageModules :: "(string \<times> (bindings \<Rightarrow> PageAnswer)) list" where
  "pageModules =
    [(''(app-shell)/app/[...slug]'', \<lambda>_. AppCatchAllRoute),
     (''(app-shell)/app/account'', \<lambda>_. AccountRootPage),
     (''(app-shell)/app/admin'', \<lambda>_. AdminRootPage),
     (''(app-shell)/app/billing'', \<lambda>_. BillingRootPage),
     (''(app-shell)/app/platform'', \<lambda>_. PlatformRootPage),
     (''(app-shell)/app/support'', \<lambda>_. SupportRootPage),
     (''(app-shell)/app/tenants/[tenantId]'', TenantRootPage)]"

definition pageAnswer :: "string \<Rightarrow> bindings \<Rightarrow> PageAnswer" where
  "pageAnswer dir params =
     (case map_of pageModules dir of Some page \<Rightarrow> page params | None \<Rightarrow> Shows dir)"

text \<open>A catch-all takes at least one segment.\<close>

definition matchDirectory :: "string list \<Rightarrow> string \<Rightarrow> bindings option" where
  "matchDirectory path dir =
     (let pat = directoryPattern dir in
      if pp_rest pat \<noteq> None \<and> length path \<le> length (pp_parts pat) then None
      else matchPattern (\<lambda>s. s) pat path)"

fun firstPage :: "string list \<Rightarrow> string list \<Rightarrow> PageAnswer" where
  "firstPage path [] = PageMissing"
| "firstPage path (dir # dirs) =
     (case matchDirectory path dir of None \<Rightarrow> firstPage path dirs | Some b \<Rightarrow> pageAnswer dir b)"

definition pageAt :: "string list \<Rightarrow> PageAnswer" where
  "pageAt path = firstPage path pageDirectories"

subsection \<open>Following a link\<close>

text \<open>The site's answer to a path: a redirect of the configuration, else the page's.\<close>

definition siteAnswer :: "string list \<Rightarrow> query \<Rightarrow> PageAnswer" where
  "siteAnswer path q = (case siteRedirect path q of Some d \<Rightarrow> MovesTo d | None \<Rightarrow> pageAt path)"

text \<open>The browser follows at most \<open>n\<close> redirects; a page's own redirect drops the query.\<close>

fun follow :: "nat \<Rightarrow> string list \<Rightarrow> query \<Rightarrow> PageAnswer option" where
  "follow n path q =
     (case siteAnswer path q of
        MovesTo d \<Rightarrow>
          (case n of
             0 \<Rightarrow> None
           | Suc m \<Rightarrow> follow m d (if siteRedirect path q = None then [] else q))
      | answer \<Rightarrow> Some answer)"

declare follow.simps [simp del]

subsection \<open>Facts\<close>

lemma firstRedirect_SomeD:
  "firstRedirect path q rs = Some d \<Longrightarrow> \<exists>r \<in> set rs. applyRedirect path q r = Some d"
  by (induction rs) (auto split: option.splits)

lemma firstRedirect_None:
  "list_all (\<lambda>r. applyRedirect path q r = None) rs \<Longrightarrow> firstRedirect path q rs = None"
  by (induction rs) auto

text \<open>Every redirect but the two of \<^verbatim>\<open>/auth\<close> leads from outside \<^verbatim>\<open>/app\<close> into it.\<close>

fun leadingLit :: "PathPart list \<Rightarrow> string option" where
  "leadingLit (Lit s # _) = Some s"
| "leadingLit _ = None"

lemma leadingLit_SomeD: "leadingLit ps = Some s \<Longrightarrow> \<exists>qs. ps = Lit s # qs"
  by (cases ps rule: leadingLit.cases) auto

definition legacyRule :: "Redirect \<Rightarrow> bool" where
  "legacyRule r \<longleftrightarrow>
     leadingLit (pp_parts (rd_destination r)) = Some ''app'' \<and>
     (case leadingLit (pp_parts (rd_source r)) of
        None \<Rightarrow> False
      | Some s \<Rightarrow> toLowerCase s \<notin> set [''app'', ''auth'', ''login''])"

definition legacyRules :: "Redirect list" where
  "legacyRules = drop 2 redirects"

lemma redirects_split:
  "redirects = redirectTo ''/auth'' ''/login'' # redirectTo ''/auth/:path*'' ''/:path*'' # legacyRules"
  by (simp add: redirects_def legacyRules_def)

lemma legacyRules_legacy: "list_all legacyRule legacyRules"
  by code_simp

lemma matchParts_LitD:
  "matchParts norm (Lit l # ps) path = Some b \<Longrightarrow> \<exists>s rest. path = s # rest \<and> norm s = norm l"
  by (cases path) (auto simp: matchPart_def split: if_splits)

lemma legacyRule_applied:
  assumes "legacyRule r" and "applyRedirect path q r = Some d"
  shows "path \<noteq> [] \<and> toLowerCase (hd path) \<notin> {''app'', ''auth'', ''login''} \<and> (\<exists>rest. d = ''app'' # rest)"
proof -
  obtain s ps ds where p: "pp_parts (rd_source r) = Lit s # ps" "pp_parts (rd_destination r) = Lit ''app'' # ds"
    and s: "toLowerCase s \<notin> {''app'', ''auth'', ''login''}"
    using assms(1) by (auto simp: legacyRule_def split: option.splits dest!: leadingLit_SomeD)
  obtain b where m: "matchPattern toLowerCase (rd_source r) path = Some b" and d: "d = fillPattern b (rd_destination r)"
    using assms(2) by (auto simp: applyRedirect_def split: if_splits)
  then obtain t rest where "path = t # rest" "toLowerCase t = toLowerCase s"
    using p(1) by (auto simp: matchPattern_def split: option.splits dest!: matchParts_LitD)
  then show ?thesis using s d p(2) by (simp add: fillPattern_def fillPart_def)
qed

lemma auth_redirects:
  "applyRedirect path q (redirectTo ''/auth'' ''/login'') =
     (if length path = 1 \<and> toLowerCase (hd path) = ''auth'' then Some [''login''] else None)"
  "applyRedirect path q (redirectTo ''/auth/:path*'' ''/:path*'') =
     (if path \<noteq> [] \<and> toLowerCase (hd path) = ''auth'' then Some (tl path) else None)"
proof -
  have p: "pathPattern ''/auth'' = \<lparr>pp_parts = [Lit ''auth''], pp_rest = None\<rparr>"
    "pathPattern ''/login'' = \<lparr>pp_parts = [Lit ''login''], pp_rest = None\<rparr>"
    "pathPattern ''/auth/:path*'' = \<lparr>pp_parts = [Lit ''auth''], pp_rest = Some ''path''\<rparr>"
    "pathPattern ''/:path*'' = \<lparr>pp_parts = [], pp_rest = Some ''path''\<rparr>"
    "toLowerCase ''auth'' = ''auth''" by code_simp+
  show "applyRedirect path q (redirectTo ''/auth'' ''/login'') =
     (if length path = 1 \<and> toLowerCase (hd path) = ''auth'' then Some [''login''] else None)"
    "applyRedirect path q (redirectTo ''/auth/:path*'' ''/:path*'') =
     (if path \<noteq> [] \<and> toLowerCase (hd path) = ''auth'' then Some (tl path) else None)"
    by (cases path; simp add: applyRedirect_def redirectTo_def p matchPattern_def matchPart_def
        fillPattern_def fillPart_def bound_def)+
qed

lemma siteRedirect_auth:
  "toLowerCase s = ''auth'' \<Longrightarrow> siteRedirect (s # path) q = Some (if path = [] then [''login''] else path)"
  by (simp add: siteRedirect_def redirects_split auth_redirects)

lemma siteRedirect_legacyD:
  assumes "siteRedirect path q = Some d" and "path = [] \<or> toLowerCase (hd path) \<noteq> ''auth''"
  shows "\<exists>r \<in> set legacyRules. applyRedirect path q r = Some d"
  by (rule firstRedirect_SomeD)
     (use assms in \<open>simp add: siteRedirect_def redirects_split auth_redirects split: if_splits\<close>)

lemma siteRedirect_cases:
  assumes "siteRedirect path q = Some d"
  obtains (auth) s rest where "path = s # rest" "toLowerCase s = ''auth''" "d = (if rest = [] then [''login''] else rest)"
  | (legacy) rest where "path \<noteq> []" "toLowerCase (hd path) \<notin> {''app'', ''auth'', ''login''}" "d = ''app'' # rest"
proof (cases "path \<noteq> [] \<and> toLowerCase (hd path) = ''auth''")
  case True
  then obtain s rest where "path = s # rest" "toLowerCase s = ''auth''" by (cases path) auto
  then show thesis using assms auth by (simp add: siteRedirect_auth)
next
  case False
  then obtain r where "r \<in> set legacyRules" "applyRedirect path q r = Some d"
    using siteRedirect_legacyD [OF assms] by auto
  then show thesis using legacyRule_applied [of r path q d] legacyRules_legacy legacy by (auto simp: list_all_iff)
qed

lemma siteRedirect_noneI:
  "path = [] \<or> toLowerCase (hd path) \<in> {''app'', ''login''} \<Longrightarrow> siteRedirect path q = None"
  by (cases "siteRedirect path q") (auto elim!: siteRedirect_cases)

lemma siteRedirect_rest [simp]:
  "siteRedirect [] q = None" "siteRedirect (''app'' # path) q = None" "siteRedirect [''login''] q = None"
proof -
  have "toLowerCase ''app'' = ''app''" "toLowerCase ''login'' = ''login''" by code_simp+
  then show "siteRedirect [] q = None" "siteRedirect (''app'' # path) q = None" "siteRedirect [''login''] q = None"
    by (simp_all add: siteRedirect_noneI)
qed

text \<open>Apart from the two of a tenant, the redirects have fixed destinations, which are pages.\<close>

fun literals :: "PathPart list \<Rightarrow> string list option" where
  "literals [] = Some []"
| "literals (Lit s # ps) = map_option ((#) s) (literals ps)"
| "literals _ = None"

lemma literals_fill: "literals ps = Some d \<Longrightarrow> concat (map (fillPart b) ps) = d"
  by (induction ps arbitrary: d rule: literals.induct) (auto simp: fillPart_def)

definition fixedTarget :: "Redirect \<Rightarrow> string list option" where
  "fixedTarget r = (if pp_rest (rd_destination r) = None then literals (pp_parts (rd_destination r)) else None)"

lemma fixedTarget_applied:
  "fixedTarget r = Some t \<Longrightarrow> applyRedirect path q r = Some d \<Longrightarrow> d = t"
  by (auto simp: fixedTarget_def applyRedirect_def fillPattern_def literals_fill split: if_splits)

definition inApp :: "PageAnswer \<Rightarrow> bool" where
  "inApp a = (case a of Shows dir \<Rightarrow> startsWith dir ''(app-shell)/app/'' | _ \<Rightarrow> False)"

lemma legacyRules_fixed:
  "list_all (\<lambda>r. case fixedTarget r of
       Some d \<Rightarrow> inApp (pageAt d)
     | None \<Rightarrow> r \<in> set [redirectTo ''/tenants/:tenantId'' ''/app/tenants/:tenantId/overview'',
         redirectTo ''/tenants/:tenantId/:tab(overview|members|domains|billing|jobs|audit|backups|support)''
           ''/app/tenants/:tenantId/:tab'']) legacyRules"
  by code_simp

text \<open>Only redirects with as many segments, or a rest, and with the same first literal apply.\<close>

definition fits :: "string \<Rightarrow> nat \<Rightarrow> Redirect \<Rightarrow> bool" where
  "fits s n r \<longleftrightarrow>
     (pp_rest (rd_source r) \<noteq> None \<or> length (pp_parts (rd_source r)) = n) \<and>
     (case leadingLit (pp_parts (rd_source r)) of None \<Rightarrow> True | Some l \<Rightarrow> toLowerCase l = s)"

lemma matchParts_length:
  "matchParts norm ps path = Some (b, rest) \<Longrightarrow> length path = length ps + length rest"
  by (induction norm ps path arbitrary: b rest rule: matchParts.induct) (auto split: option.splits)

lemma matchPatternD:
  assumes "matchPattern norm pat path = Some b"
  shows "pp_rest pat \<noteq> None \<or> length (pp_parts pat) = length path"
    and "pp_parts pat = Lit l # qs \<Longrightarrow> norm (hd path) = norm l"
proof -
  obtain b' rest where m: "matchParts norm (pp_parts pat) path = Some (b', rest)"
    and r: "pp_rest pat = None \<Longrightarrow> rest = []"
    using assms by (auto simp: matchPattern_def split: option.splits if_splits)
  show "pp_rest pat \<noteq> None \<or> length (pp_parts pat) = length path"
    using matchParts_length [OF m] r by auto
  show "pp_parts pat = Lit l # qs \<Longrightarrow> norm (hd path) = norm l"
    using m by (auto dest: matchParts_LitD)
qed

lemma not_fits: "\<not> fits (toLowerCase s) (Suc (length path)) r \<Longrightarrow> applyRedirect (s # path) q r = None"
  using matchPatternD [of toLowerCase "rd_source r" "s # path"]
  by (cases "matchPattern toLowerCase (rd_source r) (s # path)")
     (auto simp: fits_def applyRedirect_def split: option.splits dest!: leadingLit_SomeD)

lemma firstRedirect_fits:
  "firstRedirect (s # path) q rs = firstRedirect (s # path) q (filter (fits (toLowerCase s) (Suc (length path))) rs)"
  by (induction rs) (auto simp: not_fits split: option.splits)

lemma siteRedirect_fits:
  "toLowerCase s = l \<Longrightarrow> Suc (length path) = n \<Longrightarrow> filter (fits l n) redirects = rs \<Longrightarrow>
     siteRedirect (s # path) q = firstRedirect (s # path) q rs"
  unfolding siteRedirect_def using firstRedirect_fits by metis

definition tenantRedirect :: Redirect where
  "tenantRedirect = \<lparr>rd_source = \<lparr>pp_parts = [Lit ''tenants'', Param ''tenantId''], pp_rest = None\<rparr>, rd_has = [],
     rd_destination = \<lparr>pp_parts = [Lit ''app'', Lit ''tenants'', Param ''tenantId'', Lit ''overview''], pp_rest = None\<rparr>\<rparr>"

definition tabNames :: "string list" where
  "tabNames = ''overview'' # map (\<lambda>(label, tab). tl tab) TENANT_TABS"

definition tabRedirect :: Redirect where
  "tabRedirect = \<lparr>rd_source = \<lparr>pp_parts = [Lit ''tenants'', Param ''tenantId'', OneOf ''tab'' tabNames], pp_rest = None\<rparr>, rd_has = [],
     rd_destination = \<lparr>pp_parts = [Lit ''app'', Lit ''tenants'', Param ''tenantId'', Param ''tab''], pp_rest = None\<rparr>\<rparr>"

lemma tenant_redirects:
  "filter (fits ''tenants'' 2) redirects = [tenantRedirect]"
  "filter (fits ''tenants'' 3) redirects = [tabRedirect]"
  by code_simp+

lemma lower_tabs: "map toLowerCase tabNames = tabNames"
  by code_simp

lemma siteRedirect_tenant:
  "siteRedirect [''tenants'', i] q = Some [''app'', ''tenants'', i, ''overview'']"
proof -
  have "toLowerCase ''tenants'' = ''tenants''" by code_simp
  from siteRedirect_fits [OF this _ tenant_redirects(1), of "[i]" q] show ?thesis
    by (simp add: tenantRedirect_def applyRedirect_def matchPattern_def matchPart_def fillPattern_def fillPart_def bound_def)
qed

lemma siteRedirect_tab:
  "siteRedirect [''tenants'', i, tab] q =
     (if toLowerCase tab \<in> set tabNames then Some [''app'', ''tenants'', i, tab] else None)"
proof -
  have l: "toLowerCase ''tenants'' = ''tenants''" by code_simp
  have t: "toLowerCase ` set tabNames = set tabNames" using lower_tabs by (metis set_map)
  from siteRedirect_fits [OF l _ tenant_redirects(2), of "[i, tab]" q] show ?thesis
    by (simp add: tabRedirect_def applyRedirect_def matchPattern_def matchPart_def fillPattern_def fillPart_def bound_def t)
qed

text \<open>The pages of four segments are a tenant's.\<close>

definition deep :: "string \<Rightarrow> bool" where
  "deep dir \<longleftrightarrow> pp_rest (directoryPattern dir) \<noteq> None \<or> length (pp_parts (directoryPattern dir)) = 4"

lemma firstPage_filter:
  "list_all (\<lambda>dir. P dir \<or> matchDirectory path dir = None) dirs \<Longrightarrow> firstPage path dirs = firstPage path (filter P dirs)"
  by (induction dirs) (auto split: option.splits)

lemma matchDirectory_deep: "matchDirectory path dir = Some b \<Longrightarrow> length path = 4 \<Longrightarrow> deep dir"
  using matchPatternD(1) [of "\<lambda>s. s" "directoryPattern dir" path b]
  by (auto simp: deep_def matchDirectory_def Let_def split: if_splits)

definition tabDirectory :: "string \<Rightarrow> string" where
  "tabDirectory tab = ''(app-shell)/app/tenants/[tenantId]/'' @ tab"

lemma deep_directories:
  "filter deep pageDirectories = map tabDirectory
     [''audit'', ''backups'', ''billing'', ''domains'', ''jobs'', ''members'', ''overview'', ''support''] @ [''(app-shell)/app/[...slug]'']"
  by code_simp

lemma deep_patterns:
  "list_all (\<lambda>tab. directoryPattern (tabDirectory tab) =
       \<lparr>pp_parts = [Lit ''app'', Lit ''tenants'', Param ''tenantId'', Lit tab], pp_rest = None\<rparr> \<and>
       map_of pageModules (tabDirectory tab) = None) tabNames"
  "directoryPattern ''(app-shell)/app/[...slug]'' = \<lparr>pp_parts = [Lit ''app''], pp_rest = Some ''slug''\<rparr>"
  by code_simp+

lemma tabNames_eq:
  "tabNames = [''overview'', ''members'', ''domains'', ''billing'', ''jobs'', ''audit'', ''backups'', ''support'']"
  by code_simp

lemma matchDirectory_tab:
  "t \<in> set tabNames \<Longrightarrow> matchDirectory [''app'', ''tenants'', i, tab] (tabDirectory t) =
     (if tab = t then Some [(''tenantId'', [i])] else None)"
  using deep_patterns(1) by (simp add: list_all_iff matchDirectory_def matchPattern_def matchPart_def)

lemma pageAnswer_tab: "t \<in> set tabNames \<Longrightarrow> pageAnswer (tabDirectory t) b = Shows (tabDirectory t)"
  using deep_patterns(1) by (simp add: list_all_iff pageAnswer_def)

lemma pageAt_tab:
  "pageAt [''app'', ''tenants'', i, tab] = (if tab \<in> set tabNames then Shows (tabDirectory tab) else PageMissing)"
proof -
  have "pageAt [''app'', ''tenants'', i, tab] = firstPage [''app'', ''tenants'', i, tab] (filter deep pageDirectories)"
    unfolding pageAt_def by (rule firstPage_filter) (auto simp: list_all_iff dest: matchDirectory_deep)
  moreover have "firstPage [''app'', ''tenants'', i, tab] [''(app-shell)/app/[...slug]''] = PageMissing"
    by (simp add: matchDirectory_def deep_patterns(2) matchPattern_def matchPart_def pageAnswer_def pageModules_def AppCatchAllRoute_def)
  ultimately show ?thesis
    by (simp add: deep_directories matchDirectory_tab pageAnswer_tab tabNames_eq)
qed


lemma tenant_rules:
  "redirectTo ''/tenants/:tenantId'' ''/app/tenants/:tenantId/overview'' = tenantRedirect"
  "redirectTo ''/tenants/:tenantId/:tab(overview|members|domains|billing|jobs|audit|backups|support)''
     ''/app/tenants/:tenantId/:tab'' = tabRedirect"
  by code_simp+

lemma matchParts_Cons_iff:
  "matchParts norm (p # ps) path = Some (b, rest) \<longleftrightarrow>
     (\<exists>s path' b1 b2. path = s # path' \<and> matchPart norm p s = Some b1 \<and>
        matchParts norm ps path' = Some (b2, rest) \<and> b = b1 @ b2)"
  by (cases path) (auto split: option.splits)

lemma matchPart_iffs:
  "matchPart norm (Lit l) s = Some b \<longleftrightarrow> norm s = norm l \<and> b = []"
  "matchPart norm (Param n) s = Some b \<longleftrightarrow> b = [(n, [s])]"
  "matchPart norm (OneOf n ls) s = Some b \<longleftrightarrow> norm s \<in> set (map norm ls) \<and> b = [(n, [s])]"
  by (auto simp: matchPart_def)

lemma matchPattern_iff:
  "pp_rest pat = None \<Longrightarrow> matchPattern norm pat path = Some b \<longleftrightarrow> matchParts norm (pp_parts pat) path = Some (b, [])"
  by (auto simp: matchPattern_def split: option.splits if_splits)

lemma tenant_rules_applied:
  "applyRedirect path q tenantRedirect = Some d \<Longrightarrow> \<exists>i. d = [''app'', ''tenants'', i, ''overview'']"
  "applyRedirect path q tabRedirect = Some d \<Longrightarrow>
     \<exists>s i tab. path = [s, i, tab] \<and> toLowerCase tab \<in> set (map toLowerCase tabNames) \<and> d = [''app'', ''tenants'', i, tab]"
  by (auto simp: tenantRedirect_def tabRedirect_def applyRedirect_def matchPattern_iff matchParts_Cons_iff matchPart_iffs
      fillPattern_def fillPart_def bound_def)

lemma inApp_tab: "tab \<in> set tabNames \<Longrightarrow> inApp (pageAt [''app'', ''tenants'', i, tab])"
  by (simp add: pageAt_tab inApp_def tabDirectory_def startsWith_def)

lemma legacyRule_opens:
  assumes "r \<in> set legacyRules" and "applyRedirect path q r = Some d" and "map toLowerCase path = path"
  shows "inApp (pageAt d)"
proof (cases "fixedTarget r")
  case None
  then consider "r = tenantRedirect" | "r = tabRedirect"
    using legacyRules_fixed assms(1) by (force simp: list_all_iff tenant_rules)
  then obtain i tab where d: "d = [''app'', ''tenants'', i, tab]" and tab: "tab \<in> set tabNames"
  proof cases
    case 1
    then show thesis using assms(2) that by (auto dest!: tenant_rules_applied simp: tabNames_eq)
  next
    case 2
    then show thesis using assms(2,3) that by (auto dest!: tenant_rules_applied simp: lower_tabs)
  qed
  then show ?thesis by (simp add: inApp_tab)
next
  case (Some t)
  then show ?thesis
    using fixedTarget_applied [OF Some assms(2)] legacyRules_fixed assms(1) by (force simp: list_all_iff)
qed

text \<open>No page redirects to a page that redirects.\<close>

lemma firstPage_MovesD:
  "firstPage path dirs = MovesTo d \<Longrightarrow>
     \<exists>dir b. matchDirectory path dir = Some b \<and> pageAnswer dir b = MovesTo d"
  by (induction dirs) (auto split: option.splits)

lemma page_targets:
  "inApp (pageAt [''app'', ''admin'', ''control-overview''])" "inApp (pageAt [''app'', ''billing'', ''invoices''])"
  "inApp (pageAt [''app'', ''support'', ''queue''])" "inApp (pageAt [''app'', ''platform'', ''health''])"
  "inApp (pageAt [''app'', ''account'', ''profile''])"
  by code_simp+

lemma target_segments:
  "pathSegments ''/app/admin/control-overview'' = [''app'', ''admin'', ''control-overview'']"
  "pathSegments ''/app/billing/invoices'' = [''app'', ''billing'', ''invoices'']"
  "pathSegments ''/app/support/queue'' = [''app'', ''support'', ''queue'']"
  "pathSegments ''/app/platform/health'' = [''app'', ''platform'', ''health'']"
  "pathSegments ''/app/account/profile'' = [''app'', ''account'', ''profile'']"
  "pathSegments ''/app/tenants'' = [''app'', ''tenants'']"
  by code_simp+

lemma tenant_root:
  assumes "matchDirectory path ''(app-shell)/app/tenants/[tenantId]'' = Some b"
  shows "\<exists>i. b = [(''tenantId'', [i])]"
proof -
  have "directoryPattern ''(app-shell)/app/tenants/[tenantId]'' =
      \<lparr>pp_parts = [Lit ''app'', Lit ''tenants'', Param ''tenantId''], pp_rest = None\<rparr>" by code_simp
  then show ?thesis
    using assms by (auto simp: matchDirectory_def matchPattern_iff matchParts_Cons_iff matchPart_iffs)
qed

lemma page_moves:
  assumes "pageAt path = MovesTo d"
  shows "inApp (pageAt d) \<and> (\<exists>rest. d = ''app'' # rest)"
proof -
  obtain dir b where m: "matchDirectory path dir = Some b" and a: "pageAnswer dir b = MovesTo d"
    using firstPage_MovesD assms by (metis pageAt_def)
  show ?thesis
  proof (cases "dir = ''(app-shell)/app/tenants/[tenantId]''")
    case True
    then obtain i where "d = [''app'', ''tenants'', i, ''overview'']"
      using a tenant_root [of path b] m
      by (auto simp: pageAnswer_def pageModules_def TenantRootPage_def bound_def target_segments)
    then show ?thesis by (simp add: inApp_tab tabNames_eq)
  next
    case False
    then show ?thesis
      using a page_targets
      by (auto simp: pageAnswer_def pageModules_def AppCatchAllRoute_def AccountRootPage_def AdminRootPage_def
          BillingRootPage_def PlatformRootPage_def SupportRootPage_def target_segments split: if_splits)
  qed
qed

lemma inApp_stops: "inApp a \<Longrightarrow> a \<noteq> MovesTo d"
  by (auto simp: inApp_def)

lemma follow_stop: "(\<And>d. siteAnswer path q \<noteq> MovesTo d) \<Longrightarrow> \<exists>answer. follow n path q = Some answer"
  by (cases "siteAnswer path q") (auto simp: follow.simps)

lemma follow_page:
  assumes "siteRedirect path q = None"
  shows "\<exists>answer. follow (Suc n) path q = Some answer"
proof (cases "pageAt path")
  case (MovesTo d)
  then have "\<exists>answer. follow n d [] = Some answer"
    using page_moves [OF MovesTo] by (intro follow_stop) (auto simp: siteAnswer_def inApp_stops)
  then show ?thesis using MovesTo assms by (simp add: follow.simps [of "Suc n"] siteAnswer_def)
qed (use assms in \<open>simp_all add: follow.simps siteAnswer_def\<close>)

lemma follow_settles: "length path + 2 \<le> n \<Longrightarrow> \<exists>answer. follow n path q = Some answer"
proof (induction n arbitrary: path)
  case (Suc n)
  show ?case
  proof (cases "siteRedirect path q")
    case None
    then show ?thesis by (rule follow_page)
  next
    case (Some d)
    then obtain m where m: "n = Suc m" using Suc.prems by (cases n; cases path) auto
    from Some have "\<exists>answer. follow n d q = Some answer"
    proof (cases rule: siteRedirect_cases)
      case (auth s rest)
      then show ?thesis using Suc m follow_page [of "[''login'']" q m] by (cases "rest = []") auto
    next
      case (legacy rest)
      then show ?thesis using follow_page [of d q m] m by simp
    qed
    then show ?thesis using Some by (simp add: follow.simps [of "Suc n"] siteAnswer_def)
  qed
qed simp

subsection \<open>Properties\<close>

text \<open>
  Following a link ends. Whatever the path and its query, a browser that follows at most two
  redirects more than the path has segments reaches an answer that is no redirect: the
  \<^verbatim>\<open>/auth\<close> redirect takes a segment away each time, every other redirect of the configuration
  leads into \<^verbatim>\<open>/app\<close>, which none leaves, and no page redirects to a page that redirects.
\<close>

theorem links_settle:
  "\<exists>answer. follow (length path + 2) path q = Some answer"
  using follow_settles [of path "length path + 2" q] by simp


definition adminViewKey :: "AdminView \<Rightarrow> string" where
  "adminViewKey v =
     (case v of AvOverview \<Rightarrow> ''overview'' | AvTenants \<Rightarrow> ''tenants'' | AvJobs \<Rightarrow> ''jobs''
      | AvAudit \<Rightarrow> ''audit'' | AvSupport \<Rightarrow> ''support'' | AvRecovery \<Rightarrow> ''recovery'')"

definition viewAsked :: "query \<Rightarrow> AdminView" where
  "viewAsked q =
     (case List.find (\<lambda>v. queryHas q (''view'', adminViewKey v)) ADMIN_VIEWS of None \<Rightarrow> AvOverview | Some v \<Rightarrow> v)"

definition adminRule :: "(string \<times> string) list \<Rightarrow> AdminView \<Rightarrow> Redirect" where
  "adminRule has v = \<lparr>rd_source = \<lparr>pp_parts = [Lit ''admin''], pp_rest = None\<rparr>, rd_has = has,
     rd_destination = \<lparr>pp_parts = map Lit (pathSegments (ADMIN_VIEW_ROUTES v)), pp_rest = None\<rparr>\<rparr>"

lemma admin_redirects:
  "filter (fits ''admin'' 1) redirects =
     map (\<lambda>v. adminRule [(''view'', adminViewKey v)] v) ADMIN_VIEWS @ [adminRule [] AvOverview]"
  by code_simp

lemma fill_literals: "concat (map (fillPart b \<circ> Lit) ss) = ss"
  by (induction ss) (simp_all add: fillPart_def)

lemma adminRule_applied:
  "applyRedirect [''admin''] q (adminRule has v) =
     (if list_all (queryHas q) has then Some (pathSegments (ADMIN_VIEW_ROUTES v)) else None)"
  by (simp add: applyRedirect_def adminRule_def matchPattern_def matchPart_def fillPattern_def fill_literals)

lemma firstPage_ShowsD:
  "firstPage path dirs = Shows d \<Longrightarrow> d \<in> set dirs \<and> (\<exists>b. matchDirectory path d = Some b)"
  by (induction dirs)
     (auto simp: pageAnswer_def pageModules_def AppCatchAllRoute_def AccountRootPage_def AdminRootPage_def BillingRootPage_def
        PlatformRootPage_def SupportRootPage_def TenantRootPage_def split: option.splits if_splits)

lemma siteRedirect_onboarding: "siteRedirect [''onboarding''] q = Some [''app'', ''platform'', ''onboarding'']"
proof -
  have "toLowerCase ''onboarding'' = ''onboarding''" by code_simp
  moreover have "filter (fits ''onboarding'' 1) redirects =
      [\<lparr>rd_source = \<lparr>pp_parts = [Lit ''onboarding''], pp_rest = None\<rparr>, rd_has = [],
        rd_destination = \<lparr>pp_parts = map Lit [''app'', ''platform'', ''onboarding''], pp_rest = None\<rparr>\<rparr>]" by code_simp
  ultimately show ?thesis
    by (subst siteRedirect_fits) (auto simp: applyRedirect_def matchPattern_def matchPart_def fillPattern_def fillPart_def)
qed

lemma onboarding_path:
  assumes "pageAt path = Shows ''(onboarding)/onboarding''"
  shows "path = [''onboarding'']"
proof -
  have "directoryPattern ''(onboarding)/onboarding'' = \<lparr>pp_parts = [Lit ''onboarding''], pp_rest = None\<rparr>" by code_simp
  then show ?thesis
    using assms unfolding pageAt_def
    by (auto simp: matchDirectory_def matchPattern_iff matchParts_Cons_iff matchPart_iffs dest!: firstPage_ShowsD)
qed

lemma answer_not_onboarding: "siteAnswer path q \<noteq> Shows ''(onboarding)/onboarding''"
  using onboarding_path [of path] siteRedirect_onboarding [of q] by (auto simp: siteAnswer_def split: option.splits)

subsection \<open>The middleware's matcher\<close>

definition middlewareConfig :: "string list" where
  "middlewareConfig = [''/app/:path*'', ''/login'', ''/signup'', ''/forgot-password'', ''/reset-password'', ''/verify-email'']"

definition middlewareMatches :: "string list \<Rightarrow> bool" where
  "middlewareMatches path \<longleftrightarrow> list_ex (\<lambda>m. matchPattern (\<lambda>s. s) (pathPattern m) path \<noteq> None) middlewareConfig"

lemma directory_heads:
  "list_all (\<lambda>dir. let ps = pp_parts (directoryPattern dir) in
      if startsWith dir ''(app-shell)/'' then leadingLit ps = Some ''app''
      else ps = [] \<and> pp_rest (directoryPattern dir) = None \<or> (case leadingLit ps of None \<Rightarrow> False | Some s \<Rightarrow> \<not> startsWith s ''app''))
    pageDirectories"
  by code_simp

lemma matches_app: "middlewareMatches (''app'' # rest)"
proof -
  have "pathPattern ''/app/:path*'' = \<lparr>pp_parts = [Lit ''app''], pp_rest = Some ''path''\<rparr>" by code_simp
  then show ?thesis by (simp add: middlewareMatches_def middlewareConfig_def matchPattern_def matchPart_def)
qed

lemma routeOf_Cons: "routeOf (s # ss) = ''/'' @ s @ routeOf ss"
  by (simp add: routeOf_def)

lemma app_protected: "isProtected (routeOf (''app'' # rest))"
  by (cases rest) (simp_all add: routeOf_Cons isProtected_def startsWith_def routeOf_def)

lemma routeOf_slash: "routeOf ss = c # cs \<Longrightarrow> c = CHR ''/''"
  by (cases ss) (auto simp: routeOf_def)

lemma other_unprotected: "\<not> startsWith s ''app'' \<Longrightarrow> \<not> isProtected (routeOf (s # rest))"
  by (auto simp: routeOf_Cons isProtected_def startsWith_def prefix_def append_eq_Cons_conv Cons_eq_append_conv
      dest!: routeOf_slash)


text \<open>
  The six views of the former admin console open the routes the console now gives them: a link to
  \<^verbatim>\<open>/admin\<close> moves to the route of the view its query names, to the overview's when it names none or
  another, and that route is inferred to be the view's.
\<close>

theorem admin_view_links:
  "siteRedirect [''admin''] q = Some (pathSegments (ADMIN_VIEW_ROUTES (viewAsked q))) \<and>
   inferAdminViewFromPathname (ADMIN_VIEW_ROUTES (viewAsked q)) = Some (viewAsked q)"
proof
  have l: "toLowerCase ''admin'' = ''admin''" by code_simp
  show "siteRedirect [''admin''] q = Some (pathSegments (ADMIN_VIEW_ROUTES (viewAsked q)))"
    by (subst siteRedirect_fits [OF l _ admin_redirects])
       (simp_all add: viewAsked_def ADMIN_VIEWS_def adminRule_applied)
  show "inferAdminViewFromPathname (ADMIN_VIEW_ROUTES (viewAsked q)) = Some (viewAsked q)"
    by (cases "viewAsked q") (simp_all, code_simp+)
qed

text \<open>
  The former links to a tenant, the pages of a tenant and the entries of its navigation agree: a link
  redirects exactly when its tab is, up to case, one of the eight names; the page of a tab exists exactly
  when it is one of them; and the navigation's entries lead to these pages, in this order.
\<close>

theorem tenant_tabs_agree:
  "siteRedirect [''tenants'', i, tab] q =
     (if toLowerCase tab \<in> set tabNames then Some [''app'', ''tenants'', i, tab] else None) \<and>
   pageAt [''app'', ''tenants'', i, tab] = (if tab \<in> set tabNames then Shows (tabDirectory tab) else PageMissing) \<and>
   map te_href (tenantNavItems path i) = map (\<lambda>t. routeOf [''app'', ''tenants'', i, t]) tabNames"
proof (intro conjI)
  show "map te_href (tenantNavItems path i) = map (\<lambda>t. routeOf [''app'', ''tenants'', i, t]) tabNames"
    by (simp add: tenantNavItems_def TENANT_TABS_def tabNames_eq routeOf_def)
qed (fact siteRedirect_tab, fact pageAt_tab)

text \<open>
  The page on which a customer signs up for a workspace cannot be reached: although it exists at
  \<^verbatim>\<open>/onboarding\<close>, where the payment provider sends the customer back, no link shows it, however many
  redirects are followed, because the redirect of \<^verbatim>\<open>/onboarding\<close> comes first.
\<close>

theorem onboarding_unreachable:
  "pageAt [''onboarding''] = Shows ''(onboarding)/onboarding'' \<and>
   follow n path q \<noteq> Some (Shows ''(onboarding)/onboarding'')"
proof
  show "pageAt [''onboarding''] = Shows ''(onboarding)/onboarding''" by code_simp
  show "follow n path q \<noteq> Some (Shows ''(onboarding)/onboarding'')"
  proof (induction n arbitrary: path q)
    case 0
    then show ?case using answer_not_onboarding [of path q] by (auto simp: follow.simps split: PageAnswer.splits)
  next
    case (Suc n)
    then show ?case using answer_not_onboarding [of path q] by (auto simp: follow.simps [of "Suc n"] split: PageAnswer.splits)
  qed
qed

text \<open>
  The middleware guards exactly the pages of the shell: a path that shows a page passes the test for
  protected paths, and the middleware's matcher, exactly when the page is one of \<^verbatim>\<open>app/(app-shell)\<close>.
\<close>

theorem guard_covers_shell:
  assumes "pageAt path = Shows dir"
  shows "isProtected (routeOf path) = startsWith dir ''(app-shell)/'' \<and>
    (isProtected (routeOf path) \<longrightarrow> middlewareMatches path)"
proof -
  let ?pat = "directoryPattern dir"
  obtain b where d: "dir \<in> set pageDirectories" and m: "matchDirectory path dir = Some b"
    using assms firstPage_ShowsD by (metis pageAt_def)
  from m have p: "matchPattern (\<lambda>s. s) ?pat path = Some b" by (auto simp: matchDirectory_def Let_def split: if_splits)
  have heads: "if startsWith dir ''(app-shell)/'' then leadingLit (pp_parts ?pat) = Some ''app''
      else pp_parts ?pat = [] \<and> pp_rest ?pat = None \<or>
        (case leadingLit (pp_parts ?pat) of None \<Rightarrow> False | Some s \<Rightarrow> \<not> startsWith s ''app'')"
    using directory_heads d by (simp add: list_all_iff Let_def)
  show ?thesis
  proof (cases "leadingLit (pp_parts ?pat)")
    case None
    then have "pp_parts ?pat = []" "pp_rest ?pat = None" "\<not> startsWith dir ''(app-shell)/''"
      using heads by (auto split: if_splits)
    moreover from this have "path = []" using matchPatternD(1) [OF p] by simp
    ultimately show ?thesis by (simp add: routeOf_def isProtected_def startsWith_def)
  next
    case (Some s)
    then obtain qs where "pp_parts ?pat = Lit s # qs" using leadingLit_SomeD by blast
    then obtain rest where "path = s # rest"
      using p by (auto simp: matchPattern_def matchParts_Cons_iff matchPart_iffs split: option.splits)
    then show ?thesis
      using heads Some by (auto simp: app_protected matches_app other_unprotected split: if_splits)
  qed
qed

theorem guard_covers_shell_witness:
  "isProtected (routeOf [''app'', ''tenants'', ''t1'', ''jobs'']) \<and> middlewareMatches [''app'', ''tenants'', ''t1'', ''jobs'']"
  using guard_covers_shell [of "[''app'', ''tenants'', ''t1'', ''jobs'']" "tabDirectory ''jobs''"]
  by (simp add: pageAt_tab tabNames_eq) (simp add: tabDirectory_def startsWith_def)

text \<open>
  A former link keeps its place through the sign-in: where a signed-out visitor follows one, the page it moves
  to sends the visitor to the sign-in page, whose \<^verbatim>\<open>next\<close> names that page.
\<close>

theorem legacy_link_signed_out:
  assumes "siteRedirect path q = Some d" and "toLowerCase (hd path) \<noteq> ''auth''"
    and "rqPathname rq = routeOf d" and "rqCookies rq TOKEN_COOKIE = None"
  shows "middleware rq t = RedirectTo (''/login?'' @ queryStr (querySet ''next'' (routeOf d @ rqSearch rq) [])) []"
proof -
  obtain rest where "d = ''app'' # rest"
    using siteRedirect_cases [OF assms(1)] assms(2) by (metis list.sel(1))
  then have "isProtected (rqPathname rq)" using assms(3) app_protected by simp
  from this protected_not_public [OF this] show ?thesis
    using assms(3,4) by (simp add: middleware_def Let_def buildLoginUrl_def)
qed

theorem legacy_link_signed_out_witness:
  "middleware (pageRequest (routeOf [''app'', ''tenants'', ''t1'', ''jobs'']) Map.empty) 5 =
     RedirectTo (''/login?'' @ queryStr (querySet ''next'' (routeOf [''app'', ''tenants'', ''t1'', ''jobs'']) [])) []"
proof -
  have "toLowerCase ''tenants'' \<noteq> ''auth''" "toLowerCase ''jobs'' = ''jobs''" by code_simp+
  then show ?thesis
    using legacy_link_signed_out [of "[''tenants'', ''t1'', ''jobs'']" "[]" "[''app'', ''tenants'', ''t1'', ''jobs'']"
        "pageRequest (routeOf [''app'', ''tenants'', ''t1'', ''jobs'']) Map.empty" 5]
    by (simp add: siteRedirect_tab tabNames_eq pageRequest_def)
qed

end
