(* ===== verification/Admin_Page.thy ===== *)
theory Admin_Page
  imports Admin_Views Site_Redirects
begin

section \<open>The page of the operators' console\<close>

text \<open>
  \<^verbatim>\<open>domains/admin-ops/components/admin-console/AdminConsolePage.tsx\<close> and the six routes under
  \<^verbatim>\<open>app/(app-shell)/app/admin\<close> that show it: which part of the console's state (theory Admin_Console)
  a view shows, and which of the controller's operations its controls call.
\<close>

subsection \<open>What the page shows\<close>

datatype console_part =
    OverviewPart "metric_card list" metrics_panel string "(string \<times> int) list" "AdminControlLaneLink list"
  | JobsPart "string list section_content" job_logs
  | TenantsPart "string list list" "string option" pager "string option"
  | AuditPart "string list section_content" pager "string \<times> bool" "string option"
  | SupportPart "string \<times> bool" "string option" "string option" "string option"
  | RecoveryPart "string list section_content"

record console_view =
  cv_chip :: string
  cv_buttons :: "(string \<times> string \<times> bool) list"
  cv_part :: console_part
  cv_dialog :: "(string \<times> bool) option"

definition exportButton :: "admin_console \<Rightarrow> string \<times> bool" where
  "exportButton s = (if ac_auditExportBusy s then ''Exporting...'' else ''Export CSV'', ac_auditExportBusy s)"

definition consolePart :: "(string \<Rightarrow> string option) \<Rightarrow> AdminView \<Rightarrow> admin_console \<Rightarrow> console_part" where
  "consolePart fmt v s =
     (case v of
        AvOverview \<Rightarrow> OverviewPart (countCards s) (metricsPanel s) (attentionLabel s) (attentionLane s) (controlLaneLinks s)
      | AvJobs \<Rightarrow> JobsPart (jobsContent fmt s) (selectedLogs fmt s)
      | AvTenants \<Rightarrow> TenantsPart (adminTenantRows fmt s) (tenantsFooter s) (tenantPager s) (ac_tenantsError s)
      | AvAudit \<Rightarrow> AuditPart (auditContent fmt s) (auditPager s) (exportButton s) (ac_auditExportError s)
      | AvSupport \<Rightarrow> SupportPart (supportButton s) (ac_impersonationError s) (ac_impersonationLink s) (ac_impersonationToken s)
      | AvRecovery \<Rightarrow> RecoveryPart (recoveryContent fmt s))"

definition AdminConsolePage ::
  "(string \<Rightarrow> string option) \<Rightarrow> AdminView option \<Rightarrow> string \<Rightarrow> admin_console \<Rightarrow> console_view" where
  "AdminConsolePage fmt forcedView pathname s =
     (let current = currentView forcedView pathname in
      \<lparr>cv_chip = ''View: '' @ fst (ADMIN_VIEW_DETAILS current),
       cv_buttons = map (\<lambda>view. (fst (ADMIN_VIEW_DETAILS view), buildViewHref view, current = view)) ADMIN_VIEWS,
       cv_part = consolePart fmt current s,
       cv_dialog = actionButton s\<rparr>)"

text \<open>The pages of the routes, each forcing a view.\<close>

type_synonym console_page = "(string \<Rightarrow> string option) \<Rightarrow> string \<Rightarrow> admin_console \<Rightarrow> console_view"

definition AdminAuditPage :: console_page where
  "AdminAuditPage fmt = AdminConsolePage fmt (Some AvAudit)"

definition AdminControlOverviewPage :: console_page where
  "AdminControlOverviewPage fmt = AdminConsolePage fmt (Some AvOverview)"

definition AdminJobsPage :: console_page where
  "AdminJobsPage fmt = AdminConsolePage fmt (Some AvJobs)"

definition AdminRecoveryPage :: console_page where
  "AdminRecoveryPage fmt = AdminConsolePage fmt (Some AvRecovery)"

definition AdminSupportToolsPage :: console_page where
  "AdminSupportToolsPage fmt = AdminConsolePage fmt (Some AvSupport)"

definition AdminTenantControlPage :: console_page where
  "AdminTenantControlPage fmt = AdminConsolePage fmt (Some AvTenants)"

definition consoleRoutes :: "(string \<times> AdminView \<times> console_page) list" where
  "consoleRoutes =
     [(''audit'', AvAudit, AdminAuditPage),
      (''control-overview'', AvOverview, AdminControlOverviewPage),
      (''jobs'', AvJobs, AdminJobsPage),
      (''recovery'', AvRecovery, AdminRecoveryPage),
      (''support-tools'', AvSupport, AdminSupportToolsPage),
      (''tenant-control'', AvTenants, AdminTenantControlPage)]"

subsection \<open>What the page can do\<close>

text \<open>
  The calls of the controller the page hands to its views and its dialog, and the effects that run
  when a view is shown. The controller's \<^verbatim>\<open>openTenantAction\<close> is not among them.
\<close>

datatype console_event =
    ShowView AdminView
  | RefreshMetrics
  | RefreshJobs
  | InspectJobLogs string
  | RefreshTenants
  | SearchTenants string
  | FilterTenantStatus string
  | FilterTenantPlan string
  | PreviousTenants
  | NextTenants
  | ExportAuditLog
  | RefreshAudit
  | PreviousAudit
  | NextAudit
  | TypeImpersonationEmail string
  | TypeImpersonationReason string
  | IssueSupportLink
  | RefreshDeadLetters
  | RequeueDeadLetter string
  | TypeActionInput string
  | TypeActionReason string
  | CancelAction
  | ConfirmAction

primrec consoleEvent :: "console_event \<Rightarrow> admin_console handler" where
  "consoleEvent (ShowView v) = viewEffects v"
| "consoleEvent RefreshMetrics = loadMetrics"
| "consoleEvent RefreshJobs = loadJobs"
| "consoleEvent (InspectJobLogs jobId) = loadJobLogs jobId"
| "consoleEvent RefreshTenants = loadTenants"
| "consoleEvent (SearchTenants v) = staying (\<lambda>s. resetTenantPage (s\<lparr>ac_tenantSearch := v\<rparr>))"
| "consoleEvent (FilterTenantStatus v) = staying (\<lambda>s. resetTenantPage (s\<lparr>ac_tenantStatusFilter := v\<rparr>))"
| "consoleEvent (FilterTenantPlan v) = staying (\<lambda>s. resetTenantPage (s\<lparr>ac_tenantPlanFilter := v\<rparr>))"
| "consoleEvent PreviousTenants = staying previousTenantPage"
| "consoleEvent NextTenants = staying nextTenantPage"
| "consoleEvent ExportAuditLog = exportAudit"
| "consoleEvent RefreshAudit = loadAuditLog"
| "consoleEvent PreviousAudit = staying previousAuditPage"
| "consoleEvent NextAudit = staying nextAuditPage"
| "consoleEvent (TypeImpersonationEmail v) = staying (\<lambda>s. s\<lparr>ac_impersonationEmail := v\<rparr>)"
| "consoleEvent (TypeImpersonationReason v) = staying (\<lambda>s. s\<lparr>ac_impersonationReason := v\<rparr>)"
| "consoleEvent IssueSupportLink = issueImpersonationLink"
| "consoleEvent RefreshDeadLetters = loadDeadLetters"
| "consoleEvent (RequeueDeadLetter jobId) = requeueDeadLetter jobId"
| "consoleEvent (TypeActionInput v) = staying (\<lambda>s. s\<lparr>ac_tenantActionInput := v\<rparr>)"
| "consoleEvent (TypeActionReason v) = staying (\<lambda>s. s\<lparr>ac_tenantActionReason := v\<rparr>)"
| "consoleEvent CancelAction = staying cancelTenantAction"
| "consoleEvent ConfirmAction = submitTenantAction"

text \<open>The states a mounted page can reach, with the world beside them.\<close>

inductive console_reaches :: "world \<Rightarrow> admin_console \<Rightarrow> world \<Rightarrow> bool" for w0 where
  mounted: "loadOperatorRole initialConsole w0 = Inr s \<Longrightarrow> console_reaches w0 s w0"
| event: "console_reaches w0 s w \<Longrightarrow> consoleEvent e s w = (s', w') \<Longrightarrow> console_reaches w0 s' w'"

subsection \<open>Facts\<close>

lemma consoleNotify_action [simp]: "ac_tenantAction (consoleNotify ty ti bo s) = ac_tenantAction s"
  by (simp add: consoleNotify_def)

lemma alerts_action [simp]: "ac_tenantAction (fold (\<lambda>a. consoleNotify (f a) (g a) (h a)) as s) = ac_tenantAction s"
  by (induction as arbitrary: s) simp_all

lemma loaded_action [simp]:
  "ac_tenantAction (tenantsLoaded r1 s) = ac_tenantAction s" "ac_tenantAction (deadLettersLoaded r2 s) = ac_tenantAction s"
  "ac_tenantAction (jobsLoaded r3 s) = ac_tenantAction s" "ac_tenantAction (auditLoaded r4 s) = ac_tenantAction s"
  "ac_tenantAction (metricsLoaded r5 s) = ac_tenantAction s" "ac_tenantAction (jobLogsLoaded r6 s) = ac_tenantAction s"
  "ac_tenantAction (linkIssued r7 s) = ac_tenantAction s"
  by (auto simp: tenantsLoaded_def deadLettersLoaded_def jobsLoaded_def auditLoaded_def metricsLoaded_def jobLogsLoaded_def
      linkIssued_def alertMetrics_def Let_def split: sum.split prod.split option.split)

lemma loads_action [simp]:
  "ac_tenantAction (fst (loadTenants s w)) = ac_tenantAction s" "ac_tenantAction (fst (loadDeadLetters s w)) = ac_tenantAction s"
  "ac_tenantAction (fst (loadJobs s w)) = ac_tenantAction s" "ac_tenantAction (fst (loadAuditLog s w)) = ac_tenantAction s"
  "ac_tenantAction (fst (loadMetrics s w)) = ac_tenantAction s" "ac_tenantAction (fst (loadJobLogs j s w)) = ac_tenantAction s"
  by (simp_all add: loadTenants_def loadDeadLetters_def loadJobs_def loadAuditLog_def loadMetrics_def loadJobLogs_def fst_answered)

lemma onlyWhen_action:
  "(\<And>s w. ac_tenantAction (fst (f s w)) = ac_tenantAction s) \<Longrightarrow>
     ac_tenantAction (fst (onlyWhen b f s w)) = ac_tenantAction s"
  by (simp add: onlyWhen_def)

lemma viewEffects_action [simp]: "ac_tenantAction (fst (viewEffects v s w)) = ac_tenantAction s"
  by (simp add: viewEffects_def fst_afterwards onlyWhen_action)

lemma event_keeps_closed:
  assumes "ac_tenantAction s = None"
  shows "ac_tenantAction (fst (consoleEvent e s w)) = None"
proof (cases e)
  case (RequeueDeadLetter jobId)
  have "ac_tenantAction s1 = None" if "loadDeadLetters s0 w1 = (s1, w2)" "ac_tenantAction s0 = None" for s0 w1 s1 w2
    using that loads_action(2) [of s0 w1] by simp
  then show ?thesis using RequeueDeadLetter assms
    by (auto simp: requeueDeadLetter_def Let_def split: prod.split sum.split)
qed (use assms in \<open>auto simp: staying_def resetTenantPage_def previousTenantPage_def nextTenantPage_def previousAuditPage_def
    nextAuditPage_def cancelTenantAction_def submitTenantAction_def exportAudit_def issueImpersonationLink_def Let_def
    fst_answered split: prod.split sum.split\<close>)

lemma console_closed: "console_reaches w0 s w \<Longrightarrow> ac_tenantAction s = None"
proof (induction rule: console_reaches.induct)
  case (mounted s)
  then show ?case by (auto simp: loadOperatorRole_def initialConsole_def split: sum.splits)
next
  case (event s w e s' w')
  then show ?case using event_keeps_closed [of s e w] by simp
qed

text \<open>
  C24: The operators' console never suspends a tenant (its table refers to the tenant's own page): in every state
  the page can reach, by any of its controls and any answers of the server, no action of a tenant is open, the
  dialog is not shown, and confirming sends nothing. The operation that opens the dialog has no caller.
\<close>

theorem console_never_suspends:
  assumes "console_reaches w0 s w"
  shows "cv_dialog (AdminConsolePage fmt forced p s) = None \<and> consoleEvent ConfirmAction s w = (s, w)"
  using console_closed [OF assms] by (simp add: AdminConsolePage_def actionButton_def submitTenantAction_def Let_def)

theorem console_never_suspends_witness:
  "cv_dialog (AdminConsolePage (\<lambda>_. None) None ''/app/admin/tenant-control'' (initialConsole\<lparr>ac_operatorRole := ''user''\<rparr>)) = None"
proof -
  have "loadOperatorRole initialConsole freshBrowser = Inr (initialConsole\<lparr>ac_operatorRole := ''user''\<rparr>)" by code_simp
  from console_never_suspends [OF console_reaches.mounted [OF this]] show ?thesis by blast
qed

text \<open>
  The six routes show the view their path stands for: whether the view is forced or inferred, one button is lit,
  and it leads to the page that is shown.
\<close>

lemma one_button_lit:
  "filter (\<lambda>(l, href, lit). lit) (cv_buttons (AdminConsolePage fmt forced p s)) =
     [(fst (ADMIN_VIEW_DETAILS (currentView forced p)), buildViewHref (currentView forced p), True)]"
  by (cases "currentView forced p") (simp_all add: AdminConsolePage_def ADMIN_VIEWS_def Let_def)

lemma forced_view: "currentView None p = v \<Longrightarrow> AdminConsolePage fmt (Some v) p s = AdminConsolePage fmt None p s"
  by (auto simp: AdminConsolePage_def currentView_def)

theorem console_routes_agree:
  "list_all (\<lambda>(dir, v, page). let path = ''/app/admin/'' @ dir in
       page fmt path s = AdminConsolePage fmt None path s \<and>
       map (\<lambda>(l, href, lit). href) (filter (\<lambda>(l, href, lit). lit) (cv_buttons (page fmt path s))) = [path]) consoleRoutes"
proof -
  have c: "map (\<lambda>dir. currentView None (''/app/admin/'' @ dir))
      [''audit'', ''control-overview'', ''jobs'', ''recovery'', ''support-tools'', ''tenant-control''] =
      [AvAudit, AvOverview, AvJobs, AvRecovery, AvSupport, AvTenants]" by code_simp
  then show ?thesis
    by (simp add: consoleRoutes_def Let_def one_button_lit AdminAuditPage_def AdminControlOverviewPage_def AdminJobsPage_def
        AdminRecoveryPage_def AdminSupportToolsPage_def AdminTenantControlPage_def forced_view buildViewHref_def)
qed

end
