(* ===== verification/Onboarding_Flow.thy ===== *)
theory Onboarding_Flow
  imports Api_Endpoints
begin

section \<open>Onboarding: the flow and its use cases\<close>

text \<open>
  \<^verbatim>\<open>saas-ui/domains/onboarding\<close>: the domain (\<^verbatim>\<open>domain/onboardingFlow.ts\<close>: steps, tenant statuses,
  subdomain names, progress), the repository (\<^verbatim>\<open>infrastructure/onboardingRepository.ts\<close>) and the
  use cases (\<^verbatim>\<open>application/onboardingUseCases.ts\<close>). The page that runs them is in
  \<open>Onboarding_Page\<close>.
\<close>

subsection \<open>Steps\<close>

datatype OnboardingStep = Details | Plan | Payment | Waiting | Success

definition onboardingFlow :: "OnboardingStep list" where
  "onboardingFlow = [Details, Plan, Payment, Waiting, Success]"

fun stepName :: "OnboardingStep \<Rightarrow> string" where
  "stepName Details = ''details''"
| "stepName Plan = ''plan''"
| "stepName Payment = ''payment''"
| "stepName Waiting = ''waiting''"
| "stepName Success = ''success''"

text \<open>\<^verbatim>\<open>isOnboardingStep\<close> with the step it has found.\<close>

definition toStep :: "string \<Rightarrow> OnboardingStep option" where
  "toStep v = find (\<lambda>s. stepName s = v) onboardingFlow"

definition isOnboardingStep :: "string \<Rightarrow> bool" where
  "isOnboardingStep v \<longleftrightarrow> v \<in> stepName ` set onboardingFlow"

fun flowLabels :: "OnboardingStep \<Rightarrow> string" where
  "flowLabels Details = ''1. Business details''"
| "flowLabels Plan = ''2. Choose operating level''"
| "flowLabels Payment = ''3. Confirm payment''"
| "flowLabels Waiting = ''4. Provisioning''"
| "flowLabels Success = ''5. Go live''"

text \<open>The order of the flow, by position.\<close>

fun stepIndex :: "OnboardingStep \<Rightarrow> nat" where
  "stepIndex Details = 0"
| "stepIndex Plan = 1"
| "stepIndex Payment = 2"
| "stepIndex Waiting = 3"
| "stepIndex Success = 4"

lemma stepIndex_inject [simp]: "stepIndex s = stepIndex t \<longleftrightarrow> s = t"
  by (cases s; cases t) simp_all

instantiation OnboardingStep :: linorder
begin

definition less_eq_OnboardingStep :: "OnboardingStep \<Rightarrow> OnboardingStep \<Rightarrow> bool" where
  "less_eq_OnboardingStep s t \<longleftrightarrow> stepIndex s \<le> stepIndex t"

definition less_OnboardingStep :: "OnboardingStep \<Rightarrow> OnboardingStep \<Rightarrow> bool" where
  "less_OnboardingStep s t \<longleftrightarrow> stepIndex s < stepIndex t"

instance
  by standard (auto simp: less_eq_OnboardingStep_def less_OnboardingStep_def)

end

lemma onboardingFlow_sorted: "sorted onboardingFlow \<and> distinct onboardingFlow"
  by (simp add: onboardingFlow_def less_eq_OnboardingStep_def)

lemma toStep_stepName [simp]: "toStep (stepName s) = Some s"
  by (cases s) (simp_all add: toStep_def onboardingFlow_def)

lemma toStep_Some: "toStep v = Some s \<longleftrightarrow> v = stepName s"
  by (cases s) (auto simp: toStep_def onboardingFlow_def)

lemma isOnboardingStep_toStep: "isOnboardingStep v \<longleftrightarrow> toStep v \<noteq> None"
  by (auto simp: isOnboardingStep_def toStep_def onboardingFlow_def)

subsection \<open>Tenant statuses\<close>

definition ONBOARDING_WAITING_STATUSES :: "string list" where
  "ONBOARDING_WAITING_STATUSES =
     [''pending'', ''provisioning'', ''failed'', ''upgrading'', ''restoring'', ''deleting'',
      ''pending_deletion'', ''suspended'', ''suspended_admin'', ''suspended_billing'', ''deleted'']"

definition TERMINAL_TENANT_STATUSES :: "string list" where
  "TERMINAL_TENANT_STATUSES =
     [''active'', ''failed'', ''deleted'', ''suspended'', ''suspended_admin'', ''suspended_billing'',
      ''pending_deletion'']"

definition normalizeTenantStatus :: "string option \<Rightarrow> string" where
  "normalizeTenantStatus status = toLowerCase (trim (nullish status []))"

definition progressForStatus :: "string option \<Rightarrow> int" where
  "progressForStatus status =
     (let normalized = normalizeTenantStatus status in
      if normalized = ''pending_payment'' then 20
      else if normalized = ''pending'' then 45
      else if normalized = ''provisioning'' then 75
      else if normalized \<in> set [''upgrading'', ''restoring''] then 90
      else if normalized \<in> set [''active'', ''failed'', ''pending_deletion'', ''deleting'', ''deleted'',
        ''suspended'', ''suspended_admin'', ''suspended_billing''] then 100
      else 35)"

definition statusLabel :: "string option \<Rightarrow> string" where
  "statusLabel status =
     (let normalized = normalizeTenantStatus status in
      case map_of
        [(''pending_payment'', ''Awaiting payment confirmation''),
         (''pending'', ''Queued for provisioning''),
         (''provisioning'', ''Provisioning in progress''),
         (''upgrading'', ''Upgrade in progress''),
         (''restoring'', ''Restore in progress''),
         (''deleting'', ''Deletion in progress''),
         (''pending_deletion'', ''Deletion scheduled''),
         (''active'', ''Workspace is ready''),
         (''failed'', ''Provisioning failed''),
         (''suspended'', ''Workspace suspended''),
         (''suspended_admin'', ''Workspace suspended by admin''),
         (''suspended_billing'', ''Workspace suspended for billing''),
         (''deleted'', ''Workspace deleted'')] normalized of
        Some label \<Rightarrow> label
      | None \<Rightarrow> if normalized = [] then ''Starting'' else normalized)"

definition progressHintFromLogs :: "string option \<Rightarrow> string option" where
  "progressHintFromLogs logs =
     (if \<not> truthyStr logs then None
      else
        (let normalized = toLowerCase (the logs) in
         if includesStr normalized ''migration'' then Some ''Applying database migrations''
         else if includesStr normalized ''install'' then Some ''Installing selected apps''
         else if includesStr normalized ''create site'' \<or> includesStr normalized ''creating site''
           then Some ''Creating workspace''
         else if includesStr normalized ''restore'' then Some ''Restoring workspace data''
         else if includesStr normalized ''backup'' then Some ''Preparing backup restore''
         else if includesStr normalized ''start'' \<or> includesStr normalized ''boot'' then Some ''Starting services''
         else if includesStr normalized ''sync'' then Some ''Synchronizing workspace data''
         else None))"

definition progressStateLabel :: "string option \<Rightarrow> string option \<Rightarrow> string" where
  "progressStateLabel status logs =
     (let normalized = normalizeTenantStatus status; logHint = progressHintFromLogs logs in
      if normalized = ''pending_payment'' then ''Waiting for payment confirmation''
      else if normalized = ''pending'' then nullish logHint ''Queued for provisioning''
      else if normalized = ''provisioning'' then nullish logHint ''Provisioning the workspace''
      else if normalized = ''upgrading'' then nullish logHint ''Applying an upgrade''
      else if normalized = ''restoring'' then nullish logHint ''Restoring the workspace''
      else if normalized = ''deleting'' then ''Deleting the workspace''
      else if normalized = ''pending_deletion'' then ''Deletion scheduled''
      else if normalized = ''active'' then ''Workspace is ready''
      else if normalized = ''failed'' then
        (if truthyStr logHint then ''Provisioning failed while '' @ toLowerCase (the logHint)
         else ''Provisioning failed'')
      else if normalized = ''suspended'' then ''Workspace is suspended''
      else if normalized = ''suspended_admin'' then ''Workspace suspended by admin''
      else if normalized = ''suspended_billing'' then ''Workspace suspended for billing''
      else if normalized = ''deleted'' then ''Workspace deleted''
      else nullish logHint (if normalized \<noteq> [] then ''Status: '' @ normalized else ''Starting setup''))"

definition deriveStepFromTenant :: "string \<Rightarrow> string option \<Rightarrow> OnboardingStep" where
  "deriveStepFromTenant tenantStatus checkoutUrl =
     (let status = normalizeTenantStatus (Some tenantStatus) in
      if status = ''active'' then Success
      else if status = ''pending_payment'' then (if truthyStr checkoutUrl then Payment else Waiting)
      else if status \<in> set ONBOARDING_WAITING_STATUSES then Waiting
      else Details)"

subsection \<open>Tenant records and answers of the server\<close>

record TenantRecord =
  tr_id :: string
  tr_subdomain :: string
  tr_domain :: string
  tr_company_name :: string
  tr_plan :: string
  tr_chosen_app :: "string option"
  tr_status :: string

definition isTenantRecord :: "json \<Rightarrow> bool" where
  "isTenantRecord v \<longleftrightarrow> isRecord v \<and>
     (\<forall>k \<in> set [''id'', ''subdomain'', ''domain'', ''company_name'', ''plan'', ''status''].
        asStr (getProp v k) \<noteq> None) \<and>
     (getProp v ''chosen_app'' = None \<or> getProp v ''chosen_app'' = Some JNull \<or>
      asStr (getProp v ''chosen_app'') \<noteq> None)"

definition as_TenantRecord :: "json \<Rightarrow> TenantRecord option" where
  "as_TenantRecord j = do {
     x0 \<leftarrow> reqStr j ''id'';
     x1 \<leftarrow> reqStr j ''subdomain'';
     x2 \<leftarrow> reqStr j ''domain'';
     x3 \<leftarrow> reqStr j ''company_name'';
     x4 \<leftarrow> reqStr j ''plan'';
     x5 \<leftarrow> optStr j ''chosen_app'';
     x6 \<leftarrow> reqStr j ''status'';
     Some \<lparr>tr_id = x0, tr_subdomain = x1, tr_domain = x2, tr_company_name = x3, tr_plan = x4,
       tr_chosen_app = x5, tr_status = x6\<rparr> }"

definition recordOfTenant :: "Tenant \<Rightarrow> TenantRecord" where
  "recordOfTenant t = \<lparr>tr_id = tn_id t, tr_subdomain = tn_subdomain t, tr_domain = tn_domain t,
     tr_company_name = tn_company_name t, tr_plan = tn_plan t, tr_chosen_app = tn_chosen_app t,
     tr_status = tn_status t\<rparr>"

text \<open>The answer to a creation, with the tenant, the address of the checkout and the job.\<close>

record OnboardingCreateResponse =
  oc_tenant :: TenantRecord
  oc_checkout_url :: "string option"
  oc_job :: "json option"

definition isTenantCreateResponse :: "json \<Rightarrow> bool" where
  "isTenantCreateResponse v \<longleftrightarrow> isRecord v \<and>
     (case getProp v ''tenant'' of None \<Rightarrow> False | Some t \<Rightarrow> isTenantRecord t)"

definition normalizeTenantCreateResponse :: "json \<Rightarrow> OnboardingCreateResponse option" where
  "normalizeTenantCreateResponse payload =
     (if isTenantCreateResponse payload then
        map_option (\<lambda>t. \<lparr>oc_tenant = t, oc_checkout_url = asStr (getProp payload ''checkout_url''),
          oc_job = (case getProp payload ''job'' of Some JNull \<Rightarrow> None | x \<Rightarrow> x)\<rparr>)
          (Option.bind (getProp payload ''tenant'') as_TenantRecord)
      else
        map_option (\<lambda>t. \<lparr>oc_tenant = t, oc_checkout_url = None, oc_job = None\<rparr>) (as_TenantRecord payload))"

subsection \<open>Subdomain names\<close>

definition subdomainChar :: "char \<Rightarrow> bool" where
  "subdomainChar c \<longleftrightarrow>
     (let n = of_char c :: nat in 97 \<le> n \<and> n \<le> 122 \<or> 48 \<le> n \<and> n \<le> 57 \<or> n = 45)"

definition stripHyphens :: "string \<Rightarrow> string" where
  "stripHyphens s = rev (dropWhile (\<lambda>c. c = CHR ''-'') (rev (dropWhile (\<lambda>c. c = CHR ''-'') s)))"

definition sanitizeSubdomain :: "string \<Rightarrow> string" where
  "sanitizeSubdomain input = take 63 (stripHyphens (filter subdomainChar (toLowerCase input)))"

definition buildInvalidSubdomainAvailability :: "string \<Rightarrow> string \<Rightarrow> SubdomainAvailability" where
  "buildInvalidSubdomainAvailability cleanSubdomain message =
     \<lparr>sa_subdomain = cleanSubdomain, sa_domain = None, sa_available = False,
      sa_reason = Some ''invalid'', sa_message = message\<rparr>"

subsection \<open>The repository\<close>

text \<open>\<^verbatim>\<open>err instanceof Error ? err.message : fallback\<close>.\<close>

fun errorText :: "exn \<Rightarrow> string \<Rightarrow> string" where
  "errorText (ApiRequestError m _ _ _ _) fallback = m"
| "errorText (JsError m) fallback = m"
| "errorText IllTyped fallback = fallback"

definition fetchCurrentUser :: "UserProfile io" where
  "fetchCurrentUser = api_getCurrentUser"

definition fetchTenant :: "string \<Rightarrow> TenantRecord io" where
  "fetchTenant tenantId = await (api_getTenant tenantId) (\<lambda>t. ret (recordOfTenant t))"

definition checkSubdomainAvailability :: "string \<Rightarrow> SubdomainAvailability io" where
  "checkSubdomainAvailability subdomain = api_checkSubdomainAvailability subdomain"

definition createTenantCheckout :: "TenantCreatePayload \<Rightarrow> json io" where
  "createTenantCheckout input = api_createTenant input"

definition renewTenantCheckout :: "string \<Rightarrow> TenantCreateResponse OptionalEndpointResult io" where
  "renewTenantCheckout tenantId = api_renewCheckout tenantId"

definition retryTenantProvisioning :: "string \<Rightarrow> Job OptionalEndpointResult io" where
  "retryTenantProvisioning tenantId = api_retryTenant tenantId"

definition resendVerificationEmail :: "MessageResponse io" where
  "resendVerificationEmail = api_resendVerification"

definition fetchTenantReadiness :: "string \<Rightarrow> TenantReadiness OptionalEndpointResult io" where
  "fetchTenantReadiness tenantId = api_getTenantReadiness tenantId"

subsection \<open>The use cases\<close>

record RestoredOnboardingState =
  rs_tenant :: TenantRecord
  rs_step :: OnboardingStep
  rs_progress :: int

definition restorePersistedTenant :: "string \<Rightarrow> string option \<Rightarrow> RestoredOnboardingState io" where
  "restorePersistedTenant tenantId checkoutUrl =
     await (fetchTenant tenantId) (\<lambda>tenant.
       ret \<lparr>rs_tenant = tenant, rs_step = deriveStepFromTenant (tr_status tenant) checkoutUrl,
            rs_progress = progressForStatus (Some (tr_status tenant))\<rparr>)"

record PersistedOnboardingState =
  po_step :: OnboardingStep
  po_subdomain :: string
  po_companyName :: string
  po_plan :: string
  po_chosenApp :: string
  po_tenantId :: "string option"
  po_checkoutUrl :: "string option"
  po_jobId :: "string option"

definition toStringValue :: "json option \<Rightarrow> string \<Rightarrow> string" where
  "toStringValue v fallback = nullish (asStr v) fallback"

definition parsePersistedOnboardingState :: "string option \<Rightarrow> PersistedOnboardingState option" where
  "parsePersistedOnboardingState raw =
     (if \<not> truthyStr raw then None
      else
        (case JSON_parse (the raw) of
           None \<Rightarrow> None
         | Some parsed \<Rightarrow>
             (if \<not> isRecord parsed then None
              else
                (let maybeStep = toStringValue (getProp parsed ''step'') ''details'' in
                 Some \<lparr>po_step = (if isOnboardingStep maybeStep then the (toStep maybeStep) else Details),
                   po_subdomain = toStringValue (getProp parsed ''subdomain'') [],
                   po_companyName = toStringValue (getProp parsed ''companyName'') [],
                   po_plan = toStringValue (getProp parsed ''plan'') ''starter'',
                   po_chosenApp = toStringValue (getProp parsed ''chosenApp'') ''erpnext'',
                   po_tenantId = asStr (getProp parsed ''tenantId''),
                   po_checkoutUrl = asStr (getProp parsed ''checkoutUrl''),
                   po_jobId = asStr (getProp parsed ''jobId'')\<rparr>))))"

text \<open>What the page stores: \<^verbatim>\<open>JSON.stringify(state)\<close>.\<close>

definition json_PersistedOnboardingState :: "PersistedOnboardingState \<Rightarrow> json" where
  "json_PersistedOnboardingState s = JObj
     [(''step'', JStr (stepName (po_step s))), (''subdomain'', JStr (po_subdomain s)),
      (''companyName'', JStr (po_companyName s)), (''plan'', JStr (po_plan s)),
      (''chosenApp'', JStr (po_chosenApp s)), (''tenantId'', jstrOpt (po_tenantId s)),
      (''checkoutUrl'', jstrOpt (po_checkoutUrl s)), (''jobId'', jstrOpt (po_jobId s))]"

definition validateSubdomain :: "string \<Rightarrow> SubdomainAvailability io" where
  "validateSubdomain cleanSubdomain =
     (if cleanSubdomain = [] then
        ret (buildInvalidSubdomainAvailability cleanSubdomain ''Enter a subdomain to verify availability.'')
      else if length cleanSubdomain < 3 then
        ret (buildInvalidSubdomainAvailability cleanSubdomain ''Subdomain must be at least 3 characters.'')
      else
        catching
          (await (checkSubdomainAvailability cleanSubdomain) (\<lambda>availability.
             ret (availability\<lparr>
               sa_subdomain := orElse (Some (sa_subdomain availability)) cleanSubdomain,
               sa_message := orElse (Some (sa_message availability))
                 (if sa_available availability then ''Subdomain is available.''
                  else ''Subdomain is unavailable. Please choose another one.'')\<rparr>)))
          (\<lambda>err. ret (buildInvalidSubdomainAvailability cleanSubdomain
                       (errorText err ''Could not validate subdomain''))))"

record SubmitTenantOnboardingInput =
  si_subdomain :: string
  si_companyName :: string
  si_plan :: string
  si_chosenApp :: string

record SubmitTenantOnboardingResult =
  sr_tenant :: TenantRecord
  sr_checkoutUrl :: "string option"
  sr_step :: OnboardingStep
  sr_progress :: int
  sr_jobId :: "string option"

definition submitPayload :: "SubmitTenantOnboardingInput \<Rightarrow> TenantCreatePayload" where
  "submitPayload input =
     (let shouldIncludeChosenApp = (toLowerCase (si_plan input) = ''business'') in
      \<lparr>cp_subdomain = si_subdomain input, cp_company_name = trim (si_companyName input),
       cp_plan = si_plan input,
       cp_chosen_app = (if shouldIncludeChosenApp then Some (si_chosenApp input) else None)\<rparr>)"

definition submitOutcome :: "OnboardingCreateResponse \<Rightarrow> SubmitTenantOnboardingResult" where
  "submitOutcome response =
     (let checkoutUrl = oc_checkout_url response;
          status = tr_status (oc_tenant response);
          derivedStep = deriveStepFromTenant status checkoutUrl in
      \<lparr>sr_tenant = oc_tenant response, sr_checkoutUrl = checkoutUrl,
       sr_step = (if derivedStep = Details then (if truthyStr checkoutUrl then Payment else Waiting)
                  else derivedStep),
       sr_progress = progressForStatus (Some (normalizeTenantStatus (Some status))),
       sr_jobId = (case oc_job response of None \<Rightarrow> None | Some j \<Rightarrow> asStr (getProp j ''id''))\<rparr>)"

definition submitTenantOnboarding ::
  "SubmitTenantOnboardingInput \<Rightarrow> SubmitTenantOnboardingResult io" where
  "submitTenantOnboarding input =
     await (createTenantCheckout (submitPayload input)) (\<lambda>payload.
       (case normalizeTenantCreateResponse payload of
          None \<Rightarrow> throw IllTyped
        | Some response \<Rightarrow> ret (submitOutcome response)))"

definition loadCurrentUserProfile :: "UserProfile io" where
  "loadCurrentUserProfile = fetchCurrentUser"

definition sendVerificationEmailAgain :: "MessageResponse io" where
  "sendVerificationEmailAgain = resendVerificationEmail"

definition renewCheckoutLink :: "string \<Rightarrow> TenantCreateResponse OptionalEndpointResult io" where
  "renewCheckoutLink tenantId = renewTenantCheckout tenantId"

definition retryProvisioning :: "string \<Rightarrow> Job OptionalEndpointResult io" where
  "retryProvisioning tenantId = retryTenantProvisioning tenantId"

record TenantStatusReport =
  st_tenant :: TenantRecord
  st_status :: string
  st_progress :: int

definition loadTenantStatus :: "string \<Rightarrow> TenantStatusReport io" where
  "loadTenantStatus tenantId =
     await (fetchTenant tenantId) (\<lambda>tenant.
       (let status = normalizeTenantStatus (Some (tr_status tenant)) in
        ret \<lparr>st_tenant = tenant, st_status = status, st_progress = progressForStatus (Some status)\<rparr>))"

definition loadWorkspaceReadiness :: "string \<Rightarrow> TenantReadiness OptionalEndpointResult io" where
  "loadWorkspaceReadiness tenantId = fetchTenantReadiness tenantId"

subsection \<open>The step tracker\<close>

text \<open>\<^verbatim>\<open>ui/OnboardingStepTracker.tsx\<close>: a step is shown as reached when its position is at most the
  active one's.\<close>

fun indexOf :: "'a list \<Rightarrow> 'a \<Rightarrow> int" where
  "indexOf [] x = - 1"
| "indexOf (y # ys) x = (if x = y then 0 else if indexOf ys x = - 1 then - 1 else indexOf ys x + 1)"

definition OnboardingStepTracker ::
  "OnboardingStep list \<Rightarrow> (OnboardingStep \<Rightarrow> string) \<Rightarrow> OnboardingStep \<Rightarrow> (string \<times> bool) list" where
  "OnboardingStepTracker steps labels activeStep =
     (let activeIndex = indexOf steps activeStep in
      map (\<lambda>(index, item). (labels item, int index \<le> activeIndex)) (enumerate 0 steps))"

lemma step_tracker:
  "OnboardingStepTracker onboardingFlow flowLabels active = map (\<lambda>s. (flowLabels s, s \<le> active)) onboardingFlow"
  by (cases active) (simp_all add: OnboardingStepTracker_def onboardingFlow_def less_eq_OnboardingStep_def)

subsection \<open>Statuses, steps and progress\<close>

lemma normalizeTenantStatus_norm: "normalizeTenantStatus status = normText status"
  by (simp add: normalizeTenantStatus_def normText_def)

lemma normalizeTenantStatus_idem [simp]:
  "normalizeTenantStatus (Some (normalizeTenantStatus v)) = normalizeTenantStatus v"
  by (simp add: normalizeTenantStatus_norm)

lemma progressForStatus_norm [simp]:
  "progressForStatus (Some (normalizeTenantStatus v)) = progressForStatus v"
  by (simp add: progressForStatus_def)

lemma terminal_cases:
  "s \<in> set TERMINAL_TENANT_STATUSES \<Longrightarrow> s = ''active'' \<or> s \<in> set ONBOARDING_WAITING_STATUSES"
  by (auto simp: TERMINAL_TENANT_STATUSES_def ONBOARDING_WAITING_STATUSES_def)

lemma progress_bounds: "20 \<le> progressForStatus s \<and> progressForStatus s \<le> 100"
  by (simp add: progressForStatus_def Let_def)

text \<open>
  The step shown and the progress agree with the tenant's status, whatever its case and
  spacing: the flow is finished exactly for an active tenant; a status the polling stops at is
  shown at 100 percent and never back at the form; and only a status the platform does not have
  leads back to the form, at 35 percent.
\<close>

theorem step_progress_consistent:
  "(deriveStepFromTenant s url = Success \<longleftrightarrow> normalizeTenantStatus (Some s) = ''active'') \<and>
   (normalizeTenantStatus (Some s) \<in> set TERMINAL_TENANT_STATUSES \<longrightarrow>
      progressForStatus (Some s) = 100 \<and> deriveStepFromTenant s url \<in> {Waiting, Success}) \<and>
   (deriveStepFromTenant s url = Details \<longrightarrow> progressForStatus (Some s) = 35) \<and>
   (deriveStepFromTenant s url = Payment \<longrightarrow> progressForStatus (Some s) = 20 \<and> truthyStr url)"
  by (simp add: deriveStepFromTenant_def progressForStatus_def Let_def TERMINAL_TENANT_STATUSES_def
      ONBOARDING_WAITING_STATUSES_def)

theorem step_progress_consistent_witness:
  "progressForStatus (Some '' Failed '') = 100 \<and> deriveStepFromTenant '' Failed '' None \<in> {Waiting, Success}"
proof -
  have "normalizeTenantStatus (Some '' Failed '') \<in> set TERMINAL_TENANT_STATUSES" by code_simp
  then show ?thesis using step_progress_consistent [of "'' Failed ''" None] by blast
qed

subsection \<open>Subdomain names\<close>

lemma stripHyphens_append:
  "\<exists>a b. s = a @ stripHyphens s @ b"
proof -
  obtain a where a: "s = a @ dropWhile (\<lambda>c. c = CHR ''-'') s"
    by (metis takeWhile_dropWhile_id)
  obtain b where "rev (dropWhile (\<lambda>c. c = CHR ''-'') s) = b @ dropWhile (\<lambda>c. c = CHR ''-'') (rev (dropWhile (\<lambda>c. c = CHR ''-'') s))"
    by (metis takeWhile_dropWhile_id)
  then have "dropWhile (\<lambda>c. c = CHR ''-'') s = stripHyphens s @ rev b"
    unfolding stripHyphens_def by (metis rev_append rev_rev_ident)
  with a show ?thesis by metis
qed

lemma set_stripHyphens: "set (stripHyphens s) \<subseteq> set s"
  using stripHyphens_append [of s] by (metis Un_iff set_append subsetI)

lemma stripHyphens_last: "stripHyphens s = [] \<or> last (stripHyphens s) \<noteq> CHR ''-''"
  using dropWhile_takeWhile_rev_hd [of "\<lambda>c. c = CHR ''-''" "rev (dropWhile (\<lambda>c. c = CHR ''-'') s)"]
  by (auto simp: stripHyphens_def last_rev)

lemma stripHyphens_hd: "stripHyphens s = [] \<or> hd (stripHyphens s) \<noteq> CHR ''-''"
proof -
  let ?d = "dropWhile (\<lambda>c. c = CHR ''-'') s"
  have h: "?d = [] \<or> hd ?d \<noteq> CHR ''-''" by (rule dropWhile_takeWhile_rev_hd)
  obtain b where b: "?d = stripHyphens s @ b"
    by (metis stripHyphens_def takeWhile_dropWhile_id rev_append rev_rev_ident)
  show ?thesis
  proof (cases "stripHyphens s")
    case (Cons c cs)
    with b h show ?thesis by auto
  qed simp
qed

text \<open>
  A cleaned subdomain has at most 63 characters, all of them lower-case letters, digits or
  hyphens, does not begin with a hyphen, and does not end with one unless the cut at 63
  characters falls right behind a hyphen; and a name that is already clean is kept as it is.
\<close>

theorem sanitizeSubdomain_label:
  "length (sanitizeSubdomain s) \<le> 63 \<and> list_all subdomainChar (sanitizeSubdomain s) \<and>
   (sanitizeSubdomain s \<noteq> [] \<longrightarrow> hd (sanitizeSubdomain s) \<noteq> CHR ''-'') \<and>
   (sanitizeSubdomain s \<noteq> [] \<and> length (sanitizeSubdomain s) < 63 \<longrightarrow> last (sanitizeSubdomain s) \<noteq> CHR ''-'') \<and>
   (list_all subdomainChar t \<and> length t \<le> 63 \<and> stripHyphens t = t \<longrightarrow> sanitizeSubdomain t = t)"
proof (intro conjI impI)
  let ?f = "filter subdomainChar (toLowerCase s)"
  show "length (sanitizeSubdomain s) \<le> 63" by (simp add: sanitizeSubdomain_def)
  have "set (sanitizeSubdomain s) \<subseteq> set ?f"
    unfolding sanitizeSubdomain_def using set_take_subset set_stripHyphens by (metis order_trans)
  then show "list_all subdomainChar (sanitizeSubdomain s)" by (auto simp: list_all_iff)
  show "hd (sanitizeSubdomain s) \<noteq> CHR ''-''" if "sanitizeSubdomain s \<noteq> []"
    using that stripHyphens_hd [of ?f] by (auto simp: sanitizeSubdomain_def hd_take)
  show "last (sanitizeSubdomain s) \<noteq> CHR ''-''" if "sanitizeSubdomain s \<noteq> [] \<and> length (sanitizeSubdomain s) < 63"
    using that stripHyphens_last [of ?f] by (auto simp: sanitizeSubdomain_def)
next
  assume t: "list_all subdomainChar t \<and> length t \<le> 63 \<and> stripHyphens t = t"
  have l: "lowerChar c = c" if "subdomainChar c" for c
    using that by (auto simp: lowerChar_def subdomainChar_def Let_def)
  have "toLowerCase t = t"
    unfolding toLowerCase_def by (rule map_idI) (use t l in \<open>auto simp: list_all_iff\<close>)
  moreover have "filter subdomainChar t = t" using t by (auto simp: list_all_iff intro: filter_True)
  ultimately show "sanitizeSubdomain t = t" using t by (simp add: sanitizeSubdomain_def)
qed

theorem sanitizeSubdomain_label_witness:
  "sanitizeSubdomain ''acme-co'' = ''acme-co''"
proof -
  have "list_all subdomainChar ''acme-co'' \<and> length ''acme-co'' \<le> 63 \<and> stripHyphens ''acme-co'' = ''acme-co''"
    by code_simp
  then show ?thesis using sanitizeSubdomain_label [of "[]" "''acme-co''"] by blast
qed

text \<open>
  The cut comes last, so a long name can end with a hyphen, which is not a valid label of a
  host name, and cleaning the result again changes it.
\<close>

theorem sanitizeSubdomain_cut_hyphen:
  "let s = replicate 62 (CHR ''a'') @ ''-bc''; c = sanitizeSubdomain s in
   last c = CHR ''-'' \<and> length c = 63 \<and> sanitizeSubdomain c \<noteq> c"
  by code_simp

subsection \<open>The stored state\<close>

lemma persisted_parse:
  "parsePersistedOnboardingState (Some (JSON_stringify (json_PersistedOnboardingState s))) = Some s"
proof -
  have o: "asStr (Some (jstrOpt v)) = v" for v by (cases v) (simp_all add: jstrOpt_def)
  show ?thesis
    by (simp add: parsePersistedOnboardingState_def del: JSON_stringify.simps)
       (simp add: json_PersistedOnboardingState_def toStringValue_def o Let_def isOnboardingStep_toStep)
qed

text \<open>
  C10: What the page stores it restores: parsing the stored text gives back the step, the form,
  the tenant, the checkout address and the job, for every state.
\<close>

theorem persisted_roundtrip:
  "parsePersistedOnboardingState (Some (JSON_stringify (json_PersistedOnboardingState s))) = Some s"
  by (rule persisted_parse)

subsection \<open>The use cases\<close>

text \<open>
  The availability check always settles: a short name is answered without a request, a
  failed request becomes an unavailable name with the error's text, and a name is available
  only when the server said so.
\<close>

theorem validateSubdomain_total:
  "\<exists>a. fst (validateSubdomain s w) = Inr a \<and>
     (length s < 3 \<longrightarrow> snd (validateSubdomain s w) = w \<and> \<not> sa_available a) \<and>
     (sa_available a \<longrightarrow> (\<exists>av. fst (api_checkSubdomainAvailability s w) = Inr av \<and> sa_available av))"
  by (auto simp: validateSubdomain_def checkSubdomainAvailability_def io_simps
      buildInvalidSubdomainAvailability_def split: prod.split sum.split)

theorem validateSubdomain_total_witness:
  "\<exists>a. fst (validateSubdomain ''ab'' freshBrowser) = Inr a \<and> \<not> sa_available a"
  using validateSubdomain_total [of "''ab''" freshBrowser] by auto

text \<open>
  A submitted onboarding never falls back to the form: it goes on to the payment, with a
  checkout address to open, to the waiting page, or, for a tenant that is already active, to the
  end; the chosen app is part of the payload only on the business plan.
\<close>

theorem submit_moves_on:
  assumes "submitTenantOnboarding input w = (Inr res, w')"
  shows "sr_step res \<in> {Payment, Waiting, Success} \<and>
    (sr_step res = Payment \<longrightarrow> truthyStr (sr_checkoutUrl res)) \<and>
    (sr_step res = Success \<longrightarrow> normalizeTenantStatus (Some (tr_status (sr_tenant res))) = ''active'') \<and>
    20 \<le> sr_progress res \<and> sr_progress res \<le> 100 \<and>
    (cp_chosen_app (submitPayload input) \<noteq> None \<longleftrightarrow> toLowerCase (si_plan input) = ''business'')"
proof -
  obtain response where r: "res = submitOutcome response"
  proof -
    obtain payload w1 where p: "(case normalizeTenantCreateResponse payload of None \<Rightarrow> throw IllTyped
        | Some response \<Rightarrow> ret (submitOutcome response)) w1 = (Inr res, w')"
      using assms unfolding submitTenantOnboarding_def await_Inr_iff by blast
    show ?thesis
    proof (cases "normalizeTenantCreateResponse payload")
      case (Some response)
      then show ?thesis using that p by (auto simp: ret_def)
    qed (use p in \<open>simp add: throw_def\<close>)
  qed
  have "cp_chosen_app (submitPayload input) \<noteq> None \<longleftrightarrow> toLowerCase (si_plan input) = ''business''"
    by (simp add: submitPayload_def)
  then show ?thesis
    by (simp add: r submitOutcome_def Let_def deriveStepFromTenant_def progress_bounds)
qed

definition tenantJson :: "string \<Rightarrow> json" where
  "tenantJson status = JObj [(''id'', JStr ''t1''), (''subdomain'', JStr ''acme''), (''domain'', JStr ''acme.test''),
     (''company_name'', JStr ''Acme''), (''plan'', JStr ''starter''), (''status'', JStr status)]"

definition submitExample :: SubmitTenantOnboardingInput where
  "submitExample = \<lparr>si_subdomain = ''acme'', si_companyName = ''Acme'', si_plan = ''starter'', si_chosenApp = ''erpnext''\<rparr>"

definition submitWorld :: world where
  "submitWorld = signedIn [(9, jsonResponse 201 (JObj [(''tenant'', tenantJson ''pending_payment''),
     (''checkout_url'', JStr ''https://pay.test/1'')]))]"

lemma submit_example: "map_sum (\<lambda>_. ()) sr_step (fst (submitTenantOnboarding submitExample submitWorld)) = Inr Payment"
  by code_simp

theorem submit_moves_on_witness:
  "\<exists>res. fst (submitTenantOnboarding submitExample submitWorld) = Inr res \<and> truthyStr (sr_checkoutUrl res)"
proof -
  obtain res where r: "fst (submitTenantOnboarding submitExample submitWorld) = Inr res" "sr_step res = Payment"
    using submit_example by (cases "fst (submitTenantOnboarding submitExample submitWorld)") auto
  then have "submitTenantOnboarding submitExample submitWorld =
      (Inr res, snd (submitTenantOnboarding submitExample submitWorld))"
    by (metis prod.collapse)
  from submit_moves_on [OF this] r show ?thesis by blast
qed

end
