(* ===== verification/Auth_Pages.thy ===== *)
theory Auth_Pages
  imports Onboarding_Flow
begin

section \<open>Signing in, signing up and keeping the session\<close>

text \<open>
  \<^verbatim>\<open>saas-ui/domains/auth/infrastructure/authRepository.ts\<close> and
  \<^verbatim>\<open>application/authUseCases.ts\<close>, the background refresh of
  \<^verbatim>\<open>shared/components/SessionManager.tsx\<close>, the error handler of \<^verbatim>\<open>shared/query/queryClient.ts\<close>,
  and the pages of \<^verbatim>\<open>app/(auth)\<close>: sign-in, sign-up, password reset, e-mail verification and the
  hand-over of a support session. A page is a record of its state; a handler is one run of its
  asynchronous function. The router's last target is part of the state.
\<close>

subsection \<open>Repository\<close>

type_synonym AuthToken = TokenPair

definition auth_signup :: "string \<Rightarrow> string \<Rightarrow> string option \<Rightarrow> UserProfile io" where
  "auth_signup email password phone = api_signup email password phone"

definition auth_login :: "string \<Rightarrow> string \<Rightarrow> AuthToken io" where
  "auth_login email password = api_login email password"

definition auth_verifyEmail :: "string \<Rightarrow> MessageResponse io" where
  "auth_verifyEmail token = api_verifyEmail token"

definition auth_forgotPassword :: "string \<Rightarrow> MessageResponse io" where
  "auth_forgotPassword email = api_forgotPassword email"

definition auth_resetPassword :: "string \<Rightarrow> string \<Rightarrow> MessageResponse io" where
  "auth_resetPassword token newPassword = api_resetPassword token newPassword"

definition auth_authHealth :: "MessageResponse OptionalEndpointResult io" where
  "auth_authHealth = api_authHealth"

definition auth_billingHealth :: "MessageResponse OptionalEndpointResult io" where
  "auth_billingHealth = api_billingHealth"

definition refreshSessionToken :: "AuthToken io" where
  "refreshSessionToken = api_refreshToken"

definition auth_exchangeImpersonationToken :: "string \<Rightarrow> AuthToken io" where
  "auth_exchangeImpersonationToken token = api_exchangeImpersonationToken token"

definition subscribeAuthSessionExpired :: "'l \<Rightarrow> world \<Rightarrow> 'l list \<Rightarrow> 'l list" where
  "subscribeAuthSessionExpired listener w ls = onSessionExpired listener w ls"

subsection \<open>Use cases\<close>

datatype HealthStatus = HealthChecking | HealthOk | HealthUnsupported | HealthUnavailable

record ServiceHealth =
  sh_status :: HealthStatus
  sh_message :: string

record AuthHealthSnapshot =
  ah_auth :: ServiceHealth
  ah_billing :: ServiceHealth

record LoginInput =
  li_email :: string
  li_phone :: "string option"
  li_password :: string
  li_nextPath :: "string option"
  li_persistToken :: "bool option"

record LoginResult =
  lr_token :: AuthToken
  lr_redirectPath :: string

definition resolveServiceHealth :: "MessageResponse OptionalEndpointResult io \<Rightarrow> ServiceHealth io" where
  "resolveServiceHealth serviceCall =
     catching
       (await serviceCall (\<lambda>result. case result of
          Unsupported \<Rightarrow> ret \<lparr>sh_status = HealthUnsupported, sh_message = ''unsupported''\<rparr>
        | Supported d \<Rightarrow> ret \<lparr>sh_status = HealthOk, sh_message = normalizeHealthMessage (Some (mr_message d)) ''ok''\<rparr>))
       (\<lambda>_. ret \<lparr>sh_status = HealthUnavailable, sh_message = ''unavailable''\<rparr>)"

definition loadAuthHealth :: "ServiceHealth io" where
  "loadAuthHealth = resolveServiceHealth auth_authHealth"

definition loadBillingHealth :: "ServiceHealth io" where
  "loadBillingHealth = resolveServiceHealth auth_billingHealth"

definition loadAuthHealthSnapshot :: "AuthHealthSnapshot io" where
  "loadAuthHealthSnapshot =
     await loadAuthHealth (\<lambda>a. await loadBillingHealth (\<lambda>b. ret \<lparr>ah_auth = a, ah_billing = b\<rparr>))"

definition persistLogin :: "LoginInput \<Rightarrow> AuthToken \<Rightarrow> LoginResult io" where
  "persistLogin input token =
     await (modify (if li_persistToken input \<noteq> Some False then saveToken (tp_access_token token) else id))
       (\<lambda>_. ret \<lparr>lr_token = token,
                 lr_redirectPath = safePostLoginRedirect (li_nextPath input) DEFAULT_POST_LOGIN_REDIRECT\<rparr>)"

definition loginWithPassword :: "LoginInput \<Rightarrow> LoginResult io" where
  "loginWithPassword input =
     await (auth_login (sanitizeAuthEmail (li_email input)) (li_password input)) (persistLogin input)"

definition signupAndLogin :: "LoginInput \<Rightarrow> LoginResult io" where
  "signupAndLogin input =
     (let email = sanitizeAuthEmail (li_email input) in
      await (auth_signup email (li_password input) (li_phone input)) (\<lambda>_.
      await (auth_login email (li_password input)) (persistLogin input)))"

definition requestPasswordReset :: "string \<Rightarrow> string io" where
  "requestPasswordReset email =
     await (auth_forgotPassword (sanitizeAuthEmail email)) (\<lambda>response.
       ret (normalizeHealthMessage (Some (mr_message response)) ''If the account exists, reset instructions were sent.''))"

definition submitPasswordReset :: "string \<Rightarrow> string \<Rightarrow> string io" where
  "submitPasswordReset token newPassword =
     await (auth_resetPassword (trim token) newPassword) (\<lambda>response.
       ret (normalizeHealthMessage (Some (mr_message response)) ''Password reset successful. You can sign in now.''))"

definition confirmEmailVerification :: "string \<Rightarrow> string io" where
  "confirmEmailVerification token =
     await (auth_verifyEmail (trim token)) (\<lambda>response.
       ret (normalizeHealthMessage (Some (mr_message response)) ''Email verified successfully. You can now continue.''))"

definition refreshAuthSession :: "AuthToken option io" where
  "refreshAuthSession = catching (await refreshSessionToken (\<lambda>t. ret (Some t))) (\<lambda>_. ret None)"

definition consumeImpersonationToken :: "string \<Rightarrow> bool \<Rightarrow> AuthToken io" where
  "consumeImpersonationToken token persistToken =
     await (auth_exchangeImpersonationToken (trim token)) (\<lambda>t.
     await (modify (if persistToken then saveToken (tp_access_token t) else id)) (\<lambda>_. ret t))"

definition onAuthSessionExpired :: "'l \<Rightarrow> world \<Rightarrow> 'l list \<Rightarrow> 'l list" where
  "onAuthSessionExpired listener w ls = subscribeAuthSessionExpired listener w ls"

definition toAuthErrorMessage :: "exn \<Rightarrow> string \<Rightarrow> string" where
  "toAuthErrorMessage e fallback = getApiErrorMessage e fallback"

subsection \<open>The session manager\<close>

definition parseTokenPayload :: "string option \<Rightarrow> json option" where
  "parseTokenPayload token =
     (if \<not> truthyStr token then None
      else case tokenSegment (the token) of
        None \<Rightarrow> None
      | Some payload \<Rightarrow>
          (case atob (padB64 (normalizeB64url payload)) of None \<Rightarrow> None | Some txt \<Rightarrow> JSON_parse txt))"

definition REFRESH_WINDOW_MS :: int where
  "REFRESH_WINDOW_MS = 10 * 60 * 1000"

definition keepOrClear :: "AuthToken option \<Rightarrow> world \<Rightarrow> world" where
  "keepOrClear result =
     (case result of
        Some t \<Rightarrow> if tp_access_token t \<noteq> [] then saveToken (tp_access_token t) else clearToken
      | None \<Rightarrow> clearToken)"

text \<open>One tick of the manager; \<open>refreshing\<close> says that another one is under way.\<close>

definition maybeRefresh :: "bool \<Rightarrow> unit io" where
  "maybeRefresh refreshing =
     await (liftResult getToken) (\<lambda>token.
       (let e = payloadExp (parseTokenPayload token) in
        if \<not> truthyNum e then ret ()
        else await (asks now) (\<lambda>t.
          if REFRESH_WINDOW_MS < the e * 1000 - t then ret ()
          else if refreshing then ret ()
          else await refreshAuthSession (\<lambda>result. modify (keepOrClear result)))))"

definition sessionExpiredRoute :: "world \<Rightarrow> string" where
  "sessionExpiredRoute w = ''/login?reason=session-expired&next='' @ encodeURIComponent (locPathname w)"

definition handleQueryError :: "exn \<Rightarrow> world \<Rightarrow> string option" where
  "handleQueryError e w =
     (if \<not> hasWindow w \<or> \<not> isSessionExpiredError e then None else Some ''/login?reason=session-expired'')"

subsection \<open>The pages\<close>

text \<open>What the pages have in common, and what each adds. \<open>ap_route\<close> is where the router was sent.\<close>

record auth_page =
  ap_busy :: bool
  ap_error :: "string option"
  ap_notice :: "string option"
  ap_apiHealth :: string
  ap_authHealth :: string
  ap_billingHealth :: string
  ap_route :: "string option"

record login_page = auth_page +
  lg_email :: string
  lg_password :: string

record signup_page = auth_page +
  sg_email :: string
  sg_phone :: string
  sg_password :: string

record reset_page = auth_page +
  rs_token :: string
  rs_newPassword :: string
  rs_confirmPassword :: string

record verify_page = auth_page +
  ve_token :: string

record forgot_page = auth_page +
  fg_email :: string

datatype handover_status = HandoverIdle | HandoverRunning | HandoverDone | HandoverError

record handover_page =
  im_status :: handover_status
  im_error :: "string option"
  im_route :: "string option"

definition checkApiHealth :: "string io" where
  "checkApiHealth =
     catching (await (fetch \<lparr>reqUrl = ''/api/health'', fmethod = ''GET'', fheaders = [], fbody = None\<rparr>)
                (\<lambda>r. ret (if rok r then ''ok'' else ''unavailable'')))
       (\<lambda>_. ret ''unavailable'')"

definition loadHealth :: "'p auth_page_scheme \<Rightarrow> 'p auth_page_scheme io" where
  "loadHealth pg =
     await checkApiHealth (\<lambda>a. await loadAuthHealthSnapshot (\<lambda>h.
       ret (pg\<lparr>ap_apiHealth := a, ap_authHealth := sh_message (ah_auth h), ap_billingHealth := sh_message (ah_billing h)\<rparr>)))"

text \<open>
  A submission: \<open>busy\<close> and the old messages are set first, the promise is settled, \<open>done\<close> or the
  error's text is shown, and \<open>busy\<close> is reset whatever happened.
\<close>

definition submitting :: "string \<Rightarrow> 'a io \<Rightarrow> ('a \<Rightarrow> 'p auth_page_scheme \<Rightarrow> 'p auth_page_scheme) \<Rightarrow>
    'p auth_page_scheme \<Rightarrow> 'p auth_page_scheme io" where
  "submitting fallback call done pg w =
     (case call w of
        (Inr x, w') \<Rightarrow> (Inr ((done x pg)\<lparr>ap_busy := False\<rparr>), w')
      | (Inl e, w') \<Rightarrow> (Inr (pg\<lparr>ap_error := Some (errorText e fallback), ap_busy := False\<rparr>), w'))"

definition loginNextPath :: "query \<Rightarrow> string" where
  "loginNextPath q = safePostLoginRedirect (queryGet ''next'' q) DEFAULT_POST_LOGIN_REDIRECT"

definition flagged :: "string \<Rightarrow> query \<Rightarrow> bool" where
  "flagged k q \<longleftrightarrow> queryGet k q = Some ''1''"

definition loginEffect :: "query \<Rightarrow> login_page \<Rightarrow> world \<Rightarrow> login_page \<times> world" where
  "loginEffect q pg w =
     (if flagged ''logout'' q then (pg\<lparr>ap_notice := Some ''You have been logged out.''\<rparr>, clearToken w)
      else if flagged ''sessionExpired'' q
        then (pg\<lparr>ap_notice := Some ''Your session expired. Please sign in again.''\<rparr>, clearToken w)
      else
        (let pg1 = (if flagged ''verified'' q then pg\<lparr>ap_notice := Some ''Email verified successfully. You can continue.''\<rparr>
                    else if flagged ''verifyEmail'' q
                      then pg\<lparr>ap_notice := Some ''Please verify your email before creating a workspace.''\<rparr>
                    else pg) in
         case getToken w of
           Inr t \<Rightarrow> (if truthyStr t then pg1\<lparr>ap_route := Some (loginNextPath q)\<rparr> else pg1, w)
         | Inl _ \<Rightarrow> (pg1, w)))"

definition submitLogin :: "query \<Rightarrow> login_page \<Rightarrow> login_page io" where
  "submitLogin q pg =
     submitting ''Login failed''
       (loginWithPassword \<lparr>li_email = lg_email pg, li_phone = None, li_password = lg_password pg,
          li_nextPath = Some (loginNextPath q), li_persistToken = None\<rparr>)
       (\<lambda>r p. p\<lparr>ap_route := Some (lr_redirectPath r)\<rparr>)
       (pg\<lparr>ap_busy := True, ap_error := None\<rparr>)"

definition homeWhenSignedIn :: "'p auth_page_scheme \<Rightarrow> 'p auth_page_scheme io" where
  "homeWhenSignedIn pg =
     await (liftResult getToken) (\<lambda>t.
       if truthyStr t then ret (pg\<lparr>ap_route := Some ''/app/overview''\<rparr>) else loadHealth pg)"

definition submitSignup :: "signup_page \<Rightarrow> signup_page io" where
  "submitSignup pg =
     submitting ''Unable to create your account''
       (signupAndLogin \<lparr>li_email = sg_email pg, li_phone = Some (sg_phone pg), li_password = sg_password pg,
          li_nextPath = None, li_persistToken = Some True\<rparr>)
       (\<lambda>_ p. p\<lparr>ap_notice := Some ''Account created. Please verify your email from your inbox before creating a workspace.'',
               ap_route := Some ''/app/overview?verifyEmail=1''\<rparr>)
       (pg\<lparr>ap_busy := True, ap_error := None, ap_notice := None\<rparr>)"

definition submitReset :: "reset_page \<Rightarrow> reset_page io" where
  "submitReset pg0 =
     (let pg = pg0\<lparr>ap_error := None, ap_notice := None\<rparr> in
      if trim (rs_token pg) = [] then ret (pg\<lparr>ap_error := Some ''Reset token is required.''\<rparr>)
      else if length (rs_newPassword pg) < 8
        then ret (pg\<lparr>ap_error := Some ''Password must be at least 8 characters.''\<rparr>)
      else if rs_newPassword pg \<noteq> rs_confirmPassword pg then ret (pg\<lparr>ap_error := Some ''Passwords do not match.''\<rparr>)
      else submitting ''Unable to reset password.''
             (submitPasswordReset (rs_token pg) (rs_newPassword pg))
             (\<lambda>message p. p\<lparr>ap_notice := Some message, rs_newPassword := [], rs_confirmPassword := []\<rparr>)
             (pg\<lparr>ap_busy := True\<rparr>))"

definition verifyEffect :: "string \<Rightarrow> verify_page \<Rightarrow> verify_page io" where
  "verifyEffect initialToken pg =
     (if initialToken = [] then ret pg
      else submitting ''Unable to verify email.'' (confirmEmailVerification initialToken)
             (\<lambda>message p. p\<lparr>ap_notice := Some message\<rparr>) (pg\<lparr>ap_busy := True, ap_error := None\<rparr>))"

definition submitVerify :: "verify_page \<Rightarrow> verify_page io" where
  "submitVerify pg =
     submitting ''Unable to verify email.'' (confirmEmailVerification (ve_token pg))
       (\<lambda>message p. p\<lparr>ap_notice := Some message\<rparr>) (pg\<lparr>ap_busy := True, ap_error := None, ap_notice := None\<rparr>)"

definition submitForgot :: "forgot_page \<Rightarrow> forgot_page io" where
  "submitForgot pg =
     submitting ''Unable to process password reset request.'' (requestPasswordReset (fg_email pg))
       (\<lambda>message p. p\<lparr>ap_notice := Some message\<rparr>) (pg\<lparr>ap_busy := True, ap_error := None, ap_notice := None\<rparr>)"

definition handoverEffect :: "query \<Rightarrow> handover_page \<Rightarrow> world \<Rightarrow> handover_page \<times> world" where
  "handoverEffect q pg w =
     (let token = map_option trim (queryGet ''token'' q) in
      if \<not> truthyStr token then (pg\<lparr>im_status := HandoverError, im_error := Some ''Missing impersonation token.''\<rparr>, w)
      else case consumeImpersonationToken (the token) True w of
        (Inr _, w') \<Rightarrow>
          (pg\<lparr>im_status := HandoverDone, im_error := None, im_route := Some ''/app/overview?impersonation=active''\<rparr>, w')
      | (Inl e, w') \<Rightarrow>
          (pg\<lparr>im_status := HandoverError,
              im_error := Some (toAuthErrorMessage e ''Failed to consume impersonation token.'')\<rparr>, w'))"

subsection \<open>Facts\<close>

lemma parseTokenPayload_parseToken: "t \<noteq> [] \<Longrightarrow> parseTokenPayload (Some t) = parseToken t"
  by (simp add: parseTokenPayload_def parseToken_def padB64_def normalizeB64url_def Let_def cong: option.case_cong)

lemma persistLogin_result:
  "persistLogin input token w =
     (Inr \<lparr>lr_token = token, lr_redirectPath = safePostLoginRedirect (li_nextPath input) DEFAULT_POST_LOGIN_REDIRECT\<rparr>,
      if li_persistToken input \<noteq> Some False then saveToken (tp_access_token token) w else w)"
  by (simp add: persistLogin_def io_simps)

lemma request_keeps_store:
  "request view path init key w = (r, w') \<Longrightarrow> hasWindow w \<and> wfJar w \<Longrightarrow> hasWindow w' \<and> wfJar w'"
  using keepsD [OF keeps_request] by (fastforce simp: extends_def)


definition blankLogin :: login_page where
  "blankLogin = \<lparr>ap_busy = False, ap_error = None, ap_notice = None, ap_apiHealth = ''checking'', ap_authHealth = ''checking'',
     ap_billingHealth = ''checking'', ap_route = None, lg_email = ''a@b.co'', lg_password = ''secret12''\<rparr>"

definition loginWorld :: world where
  "loginWorld = freshBrowser\<lparr>inbox := [(5, jsonResponse 200 (JObj [(''access_token'', JStr ''x'')]))]\<rparr>"

lemma login_example:
  "ap_route (projr (fst (submitLogin [(''next'', ''/app/billing'')] blankLogin loginWorld))) = Some ''/app/billing''"
  by code_simp


lemma maybeRefresh_due:
  assumes "getToken w = Inr (Some t)" and "t \<noteq> []" and "payloadExp (parseToken t) = Some e" and "e \<noteq> 0"
  shows "snd (maybeRefresh False w) =
    (if REFRESH_WINDOW_MS < e * 1000 - now w then w
     else case refreshSessionToken w of (Inr p, w1) \<Rightarrow> keepOrClear (Some p) w1 | (Inl _, w1) \<Rightarrow> keepOrClear None w1)"
  using assms
  by (simp add: maybeRefresh_def liftResult_def parseTokenPayload_parseToken truthyNum_def refreshAuthSession_def io_simps Let_def
      split: prod.split sum.split)

text \<open>
  C20: The session manager's tick: a session with more than ten minutes left is left alone; of
  every other the tick makes the session of the refreshed token, or none when the refresh fails,
  for whatever reason.
\<close>

theorem session_tick_outcome:
  assumes "hasWindow w" and "wfJar w" and "getToken w = Inr (Some t)" and "t \<noteq> []"
    and "payloadExp (parseToken t) = Some e" and "e \<noteq> 0" and "refreshSessionToken w = (r, w1)"
  shows "if 600000 < e * 1000 - now w then snd (maybeRefresh False w) = w
    else getToken (snd (maybeRefresh False w)) =
      (case r of Inr p \<Rightarrow> Inr (orNull (tp_access_token p)) | Inl _ \<Rightarrow> Inr None)"
proof -
  have w1: "hasWindow w1 \<and> wfJar w1"
    using assms(1,2,7) by (auto simp: refreshSessionToken_def api_refreshToken_def dest: request_keeps_store)
  have "getToken (keepOrClear (Some p) w1) = Inr (orNull (tp_access_token p))" for p
    using session.get_save [OF w1, of "tp_access_token p"] session.get_clear [OF w1]
    by (simp add: keepOrClear_def orNull_def)
  moreover have "getToken (keepOrClear None w1) = Inr None"
    using session.get_clear [OF w1] by (simp add: keepOrClear_def)
  ultimately show ?thesis
    using maybeRefresh_due [OF assms(3-6)] assms(7) by (simp add: REFRESH_WINDOW_MS_def split: sum.split)
qed

definition fiveMinutesLeft :: world where
  "fiveMinutesLeft = freshBrowser\<lparr>localStorage := [TOKEN_KEY \<mapsto> hourToken], now := 1700003600000 - 300000,
     inbox := [(5, NetworkError)]\<rparr>"

lemma fiveMinutesLeft_facts:
  "hasWindow fiveMinutesLeft" "wfJar fiveMinutesLeft" "getToken fiveMinutesLeft = Inr (Some hourToken)"
  "payloadExp (parseToken hourToken) = Some 1700003600" "now fiveMinutesLeft = 1700003300000"
  by (simp_all add: fiveMinutesLeft_def freshBrowser_def wfJar_def getToken_def readEntry_def parse_hourToken payloadExp_def)

lemma refresh_offline:
  assumes "getToken w = Inr t" and "inbox w = (d, NetworkError) # rest"
  shows "fst (refreshSessionToken w) = Inl (JsError ''Failed to fetch'') \<and> events (snd (refreshSessionToken w)) = events w"
  using assms
  by (simp add: refreshSessionToken_def api_refreshToken_def request_def liftResult_def freshToken_def
      canAttemptRefresh_def REFRESH_EXEMPT_PATHS_def performFetch_def fetch_def pathOnly_def js_defs io_simps Let_def split: if_split)

theorem session_tick_outcome_witness:
  "getToken (snd (maybeRefresh False fiveMinutesLeft)) = Inr None"
proof -
  have r: "refreshSessionToken fiveMinutesLeft = (Inl (JsError ''Failed to fetch''), snd (refreshSessionToken fiveMinutesLeft))"
    using refresh_offline [OF fiveMinutesLeft_facts(3)]
    by (cases "refreshSessionToken fiveMinutesLeft") (auto simp: fiveMinutesLeft_def)
  show ?thesis
    using session_tick_outcome [OF fiveMinutesLeft_facts(1-3) hourToken_nonempty fiveMinutesLeft_facts(4) _ r]
    by (simp add: fiveMinutesLeft_facts(5))
qed

text \<open>
  A connection lost at the wrong moment signs the user out: with a token that is valid for
  minutes, one failed request of the background refresh removes the session, and no
  session-expired event is sent that would lead to the sign-in page.
\<close>

theorem offline_tick_signs_out:
  assumes "hasWindow w" and "wfJar w" and "getToken w = Inr (Some t)" and "t \<noteq> []"
    and "payloadExp (parseToken t) = Some e" and "now w < e * 1000" and "e * 1000 - now w \<le> 600000" and "e \<noteq> 0"
    and "inbox w = (d, NetworkError) # rest"
  shows "getToken (snd (maybeRefresh False w)) = Inr None \<and> events (snd (maybeRefresh False w)) = events w"
proof -
  obtain w1 where r: "refreshSessionToken w = (Inl (JsError ''Failed to fetch''), w1)" "events w1 = events w"
    using refresh_offline [OF assms(3,9)] by (cases "refreshSessionToken w") auto
  have "getToken (snd (maybeRefresh False w)) = Inr None"
    using session_tick_outcome [OF assms(1-5,8) r(1)] assms(7) by simp
  then show ?thesis
    using maybeRefresh_due [OF assms(3-5,8)] r assms(7) by (simp add: REFRESH_WINDOW_MS_def keepOrClear_def)
qed

theorem offline_tick_signs_out_witness:
  "getToken (snd (maybeRefresh False fiveMinutesLeft)) = Inr None \<and> events (snd (maybeRefresh False fiveMinutesLeft)) = []"
  using offline_tick_signs_out [OF fiveMinutesLeft_facts(1-3) hourToken_nonempty fiveMinutesLeft_facts(4), of 5 "[]"]
  by (simp add: fiveMinutesLeft_facts(5)) (simp add: fiveMinutesLeft_def freshBrowser_def)

text \<open>
  The sign-in page does not understand why it was opened: the session manager and the query
  client send an expired session there with a reason, and the page looks for another parameter,
  so that its notice about the expired session is never shown on these ways.
\<close>

theorem expired_notice_lost:
  "ap_notice (fst (loginEffect [(''reason'', ''session-expired''), (''next'', p)] pg w)) = ap_notice pg \<and>
   ap_notice (fst (loginEffect [(''sessionExpired'', ''1''), (''next'', p)] pg w)) =
     Some ''Your session expired. Please sign in again.'' \<and>
   sessionExpiredRoute w = ''/login?reason=session-expired&next='' @ encodeURIComponent (locPathname w)"
  by (simp add: loginEffect_def flagged_def queryGet_def Let_def sessionExpiredRoute_def split: sum.split)

text \<open>
  A new password is sent only when the form is complete: with a token, with at least eight
  characters and typed twice alike; in every other case nothing is sent and the reason is shown.
\<close>

theorem reset_needs_complete_form:
  "if trim (rs_token pg) \<noteq> [] \<and> 8 \<le> length (rs_newPassword pg) \<and> rs_newPassword pg = rs_confirmPassword pg
   then \<exists>pg'. fst (submitReset pg w) = Inr pg' \<and> \<not> ap_busy pg' \<and> (ap_error pg' = None) \<noteq> (ap_notice pg' = None)
   else snd (submitReset pg w) = w \<and> (\<exists>pg' m. fst (submitReset pg w) = Inr pg' \<and> ap_error pg' = Some m)"
  by (auto simp: submitReset_def Let_def ret_def submitting_def split: prod.split sum.split)

end
