(* ===== verification/Platform_Health.thy ===== *)
theory Platform_Health
  imports Auth_Pages Tenant_Display Admin_Console
begin

section \<open>Health of the platform\<close>

text \<open>
  The operators' page \<^verbatim>\<open>admin/platform-health\<close> with \<^verbatim>\<open>domains/platform-ops\<close>, and the customers' page
  \<^verbatim>\<open>platform/health\<close> with \<^verbatim>\<open>domains/dashboard/application/dashboardUseCases.ts\<close>. The snapshots ask
  several endpoints at once; the model asks them one after the other.
\<close>

subsection \<open>The snapshot of the operators\<close>

record ApiHealth =
  hl_status :: "string option"
  hl_service :: "string option"
  hl_checks :: "(string \<times> string) list option"

fun strings_of :: "(string \<times> json) list \<Rightarrow> (string \<times> string) list option" where
  "strings_of [] = Some []"
| "strings_of ((k, JStr v) # fs) = map_option (Cons (k, v)) (strings_of fs)"
| "strings_of _ = None"

definition as_checks :: "json \<Rightarrow> (string \<times> string) list option" where
  "as_checks j = (case j of JObj fs \<Rightarrow> strings_of fs | _ \<Rightarrow> None)"

definition as_ApiHealth :: "json \<Rightarrow> ApiHealth option" where
  "as_ApiHealth j = do {
     x0 \<leftarrow> optStr j ''status'';
     x1 \<leftarrow> optStr j ''service'';
     x2 \<leftarrow> optVal as_checks j ''checks'';
     Some \<lparr>hl_status = x0, hl_service = x1, hl_checks = x2\<rparr> }"

definition healthRequest :: fetch_req where
  "healthRequest = \<lparr>reqUrl = ''/api/health'', fmethod = ''GET'', fheaders = [], fbody = None\<rparr>"

definition fetchApiHealth :: "(ApiHealth option \<times> bool) io" where
  "fetchApiHealth = await (fetch healthRequest) (\<lambda>response.
     if \<not> rok response then ret (None, False)
     else await (liftResult (\<lambda>w. case jsonBody response of
            None \<Rightarrow> Inl (JsError ''Unexpected token'')
          | Some j \<Rightarrow> (case as_ApiHealth j of None \<Rightarrow> Inl IllTyped | Some h \<Rightarrow> Inr h)))
       (\<lambda>data. ret (Some data, True)))"

definition fetchAdminJobs_platform :: "int \<Rightarrow> Job list OptionalEndpointResult io" where
  "fetchAdminJobs_platform limit = api_listAdminJobs limit"

definition fetchTenantList :: "Tenant list io" where
  "fetchTenantList = api_listTenants"

definition fetchAuthHealth_platform :: "MessageResponse OptionalEndpointResult io" where
  "fetchAuthHealth_platform = api_authHealth"

definition fetchBillingHealth_platform :: "MessageResponse OptionalEndpointResult io" where
  "fetchBillingHealth_platform = api_billingHealth"

definition rebuildAssets :: "MessageResponse OptionalEndpointResult io" where
  "rebuildAssets = api_rebuildPlatformAssets"

definition syncTenantTls :: "bool \<Rightarrow> MessageResponse OptionalEndpointResult io" where
  "syncTenantTls primeCerts = api_syncTenantTLS primeCerts"

definition fetchTenantRuntimeConsistency :: "TenantRuntimeConsistencyReport OptionalEndpointResult io" where
  "fetchTenantRuntimeConsistency = api_getTenantRuntimeConsistency"

record PlatformHealthSnapshot =
  ph_health :: "ApiHealth option"
  ph_healthAvailable :: bool
  ph_jobs :: "Job list"
  ph_tenants :: "Tenant list"
  ph_authHealth :: string
  ph_billingHealth :: string
  ph_consistency :: "TenantRuntimeConsistencyReport option"

text \<open>\<^verbatim>\<open>Promise.allSettled\<close>: every call is made and its outcome is a value.\<close>

definition settled :: "'a io \<Rightarrow> (exn + 'a) io" where
  "settled call w = (case call w of (r, w1) \<Rightarrow> (Inr r, w1))"

definition healthText :: "exn + MessageResponse OptionalEndpointResult \<Rightarrow> string" where
  "healthText r = (case r of Inr (Supported m) \<Rightarrow> mr_message m | _ \<Rightarrow> ''unsupported'')"

definition loadPlatformHealthSnapshot :: "PlatformHealthSnapshot io" where
  "loadPlatformHealthSnapshot =
     await (settled fetchApiHealth) (\<lambda>health.
     await (settled (fetchAdminJobs_platform 80)) (\<lambda>jobs.
     await (settled fetchTenantList) (\<lambda>tenants.
     await (settled fetchAuthHealth_platform) (\<lambda>authHealth.
     await (settled fetchBillingHealth_platform) (\<lambda>billingHealth.
     await (settled fetchTenantRuntimeConsistency) (\<lambda>consistency.
       ret \<lparr>ph_health = (case health of Inr (h, _) \<Rightarrow> h | Inl _ \<Rightarrow> None),
            ph_healthAvailable = (case health of Inr (_, a) \<Rightarrow> a | Inl _ \<Rightarrow> False),
            ph_jobs = (case jobs of Inr (Supported js) \<Rightarrow> js | _ \<Rightarrow> []),
            ph_tenants = (case tenants of Inr ts \<Rightarrow> ts | Inl _ \<Rightarrow> []),
            ph_authHealth = healthText authHealth, ph_billingHealth = healthText billingHealth,
            ph_consistency = (case consistency of Inr (Supported c) \<Rightarrow> Some c | _ \<Rightarrow> None)\<rparr>))))))"

datatype MaintenanceAction = Assets | Tls | TlsPrime

definition maintenanceCall :: "MaintenanceAction \<Rightarrow> MessageResponse OptionalEndpointResult io" where
  "maintenanceCall action = (if action = Assets then rebuildAssets else syncTenantTls (action = TlsPrime))"

definition runPlatformMaintenanceAction :: "MaintenanceAction \<Rightarrow> (bool \<times> string) io" where
  "runPlatformMaintenanceAction action =
     await (maintenanceCall action) (\<lambda>result.
       ret (case result of
          Unsupported \<Rightarrow> (False, ''Maintenance actions aren'' @ [CHR 0xE2, CHR 0x80, CHR 0x99] @ ''t available on this deployment.'')
        | Supported m \<Rightarrow> (True, mr_message m)))"

definition getPlatformOpsErrorMessage :: "exn \<Rightarrow> string \<Rightarrow> string" where
  "getPlatformOpsErrorMessage err fallback = getApiErrorMessage err fallback"

subsection \<open>The page of the operators\<close>

text \<open>The titles, subtitles and texts of the maintenance actions.\<close>

primrec MAINTENANCE_LABELS :: "MaintenanceAction \<Rightarrow> string \<times> string \<times> string" where
  "MAINTENANCE_LABELS Assets =
     (''Rebuild ERP assets'', ''Recompiles bundled assets when customers report 404s on workspace UI.'',
      ''This will rebuild ERP assets across the platform. Customer workspaces may briefly show stale assets until the rebuild completes.'')"
| "MAINTENANCE_LABELS Tls =
     (''Sync tenant TLS routes'', ''Refreshes proxy/TLS routing for all tenant subdomains.'',
      ''This refreshes TLS routing across all tenant subdomains. Routing changes are usually instant.'')"
| "MAINTENANCE_LABELS TlsPrime =
     (''Prime tenant certificates'', ''Pre-warms TLS certificates for tenant subdomains to avoid first-hit delays.'',
      ''This pre-warms TLS certificates for tenant subdomains. It is safe to run anytime but may take several minutes.'')"

definition runtimeClassificationLabel :: "string \<Rightarrow> string" where
  "runtimeClassificationLabel c =
     (if c = ''runtime_expected_missing'' then ''Expected runtime missing''
      else if c = ''pending_without_runtime'' then ''Pending without runtime''
      else if c = ''pending_payment_without_runtime'' then ''Pending payment without runtime''
      else if c = ''deleted_with_runtime'' then ''Deleted row still has runtime''
      else replaceChar (CHR ''_'') (CHR '' '') c)"

record health_page =
  hp_operatorRole :: string
  hp_health :: "ApiHealth option"
  hp_healthError :: "string option"
  hp_jobs :: "Job list"
  hp_tenants :: "Tenant list"
  hp_loading :: bool
  hp_billingHealth :: string
  hp_authHealth :: string
  hp_maintenanceMessage :: "string option"
  hp_maintenanceError :: "string option"
  hp_maintenanceBusy :: bool
  hp_confirmAction :: "MaintenanceAction option"
  hp_consistency :: "TenantRuntimeConsistencyReport option"

definition initialHealthPage :: health_page where
  "initialHealthPage = \<lparr>hp_operatorRole = ''user'', hp_health = None, hp_healthError = None, hp_jobs = [], hp_tenants = [],
     hp_loading = False, hp_billingHealth = ''checking'', hp_authHealth = ''checking'', hp_maintenanceMessage = None,
     hp_maintenanceError = None, hp_maintenanceBusy = False, hp_confirmAction = None, hp_consistency = None\<rparr>"

definition readOperatorRole :: "world \<Rightarrow> health_page \<Rightarrow> exn + health_page" where
  "readOperatorRole w s =
     (case getSessionRole w of Inl e \<Rightarrow> Inl e | Inr role \<Rightarrow> Inr (s\<lparr>hp_operatorRole := nullish role ''user''\<rparr>))"

definition canMaintain :: "health_page \<Rightarrow> bool" where
  "canMaintain s \<longleftrightarrow> hp_operatorRole s = ''admin''"

definition snapshotLoaded :: "exn + PlatformHealthSnapshot \<Rightarrow> health_page \<Rightarrow> health_page" where
  "snapshotLoaded r s =
     (case r of
        Inr p \<Rightarrow> s\<lparr>hp_health := ph_health p, hp_jobs := ph_jobs p, hp_tenants := ph_tenants p, hp_authHealth := ph_authHealth p,
          hp_billingHealth := ph_billingHealth p, hp_consistency := ph_consistency p,
          hp_healthError := (if \<not> ph_healthAvailable p
            then Some (''API health checks aren'' @ [CHR 0xE2, CHR 0x80, CHR 0x99] @ ''t responding right now.'') else hp_healthError s),
          hp_loading := False\<rparr>
      | Inl err \<Rightarrow> s\<lparr>hp_healthError := Some (getPlatformOpsErrorMessage err ''Failed to load platform health.''), hp_loading := False\<rparr>)"

definition loadHealthPage :: "health_page handler" where
  "loadHealthPage s = answered loadPlatformHealthSnapshot snapshotLoaded (s\<lparr>hp_loading := True, hp_healthError := None\<rparr>)"

definition maintenanceSettled :: "exn + (bool \<times> string) \<Rightarrow> health_page \<Rightarrow> health_page" where
  "maintenanceSettled r s =
     (case r of
        Inr (isSupported, message) \<Rightarrow>
          (if isSupported then s\<lparr>hp_maintenanceMessage := Some message\<rparr> else s\<lparr>hp_maintenanceError := Some message\<rparr>)
            \<lparr>hp_confirmAction := None, hp_maintenanceBusy := False\<rparr>
      | Inl err \<Rightarrow> s\<lparr>hp_maintenanceError := Some (getPlatformOpsErrorMessage err ''Maintenance action failed.''),
          hp_maintenanceBusy := False\<rparr>)"

definition runMaintenance :: "MaintenanceAction \<Rightarrow> health_page handler" where
  "runMaintenance action s w =
     (if \<not> canMaintain s then (s\<lparr>hp_maintenanceError := Some ''Only admin role can run maintenance actions.''\<rparr>, w)
      else answered (runPlatformMaintenanceAction action) maintenanceSettled
        (s\<lparr>hp_maintenanceBusy := True, hp_maintenanceError := None, hp_maintenanceMessage := None\<rparr>) w)"

definition confirmMaintenance :: "health_page handler" where
  "confirmMaintenance s w = (case hp_confirmAction s of None \<Rightarrow> (s, w) | Some action \<Rightarrow> runMaintenance action s w)"

definition askMaintenance :: "MaintenanceAction \<Rightarrow> health_page \<Rightarrow> health_page" where
  "askMaintenance action s = (if hp_maintenanceBusy s then s else s\<lparr>hp_confirmAction := Some action\<rparr>)"

definition cancelMaintenance :: "health_page \<Rightarrow> health_page" where
  "cancelMaintenance s = (if hp_maintenanceBusy s then s else s\<lparr>hp_confirmAction := None\<rparr>)"

definition jobsWithStatus :: "string \<Rightarrow> health_page \<Rightarrow> Job list" where
  "jobsWithStatus status s = filter (\<lambda>job. toLowerCase (jb_status job) = status) (hp_jobs s)"

definition suspendedTenants :: "health_page \<Rightarrow> nat" where
  "suspendedTenants s = length (filter (\<lambda>t. includesStr (toLowerCase (tn_status t)) ''suspended'') (hp_tenants s))"

definition runtimeGapCount :: "health_page \<Rightarrow> nat" where
  "runtimeGapCount s =
     (case hp_consistency s of None \<Rightarrow> 0 | Some r \<Rightarrow> length (rr_entries r) + length (rr_runtime_only_sites r))"

definition gapChip :: "health_page \<Rightarrow> string \<times> string" where
  "gapChip s =
     (let n = runtimeGapCount s in
      (natStr n @ '' reconciliation signal'' @ (if n = 1 then [] else ''s''), if n > 0 then ''warning'' else ''success''))"

definition healthCards :: "health_page \<Rightarrow> (string \<times> string \<times> string) list" where
  "healthCards s =
     [(''API status'', nullish (Option.bind (hp_health s) hl_status) ''unknown'',
        nullish (Option.bind (hp_health s) hl_service) ''Control plane API''),
      (''Auth health'', hp_authHealth s, ''/api/auth/health''),
      (''Billing health'', hp_billingHealth s, ''/api/billing/health''),
      (''Suspended tenants'', natStr (suspendedTenants s), ''Billing or admin suspensions'')]"

definition queueCards :: "health_page \<Rightarrow> (string \<times> nat) list" where
  "queueCards s = map (\<lambda>(l, st). (l, length (jobsWithStatus st s)))
     [(''Queued'', ''queued''), (''Running'', ''running''), (''Failed'', ''failed'')]"

definition failedJobLines :: "(string \<Rightarrow> string option) \<Rightarrow> health_page \<Rightarrow> string list list" where
  "failedJobLines fmt s =
     (if jobsWithStatus ''failed'' s = [] then [[''No failed jobs in the last 80 operations.'']]
      else map (\<lambda>job. [formatTimestamp fmt (jb_created_at job), jb_type job, nullish (jb_error job) ''Failed job''])
        (take 5 (jobsWithStatus ''failed'' s)))"

definition consistencyEntry :: "(string \<Rightarrow> string option) \<Rightarrow> TenantRuntimeConsistencyEntry \<Rightarrow> string list" where
  "consistencyEntry fmt e =
     (let dot = '' '' @ [CHR 0xC2, CHR 0xB7] @ '' '' in
      [re_domain e,
       runtimeClassificationLabel (re_classification e) @ dot @ ''status='' @ re_status e @ dot @ ''subscription='' @
         nullish (re_subscription_status e) ''n/a'' @ dot @ ''plan='' @ nullish (re_plan e) ''n/a'',
       if re_runtime_exists e then ''runtime found'' else ''runtime missing'',
       ''Owner: '' @ nullish (re_owner_email e) EM_DASH,
       ''Last job: '' @ nullish (re_last_job_type e) EM_DASH @
         (if truthyStr (re_last_job_status e) then '' ('' @ the (re_last_job_status e) @ '')'' else []),
       ''Last job at: '' @ formatTimestamp fmt (re_last_job_at e)])"

datatype consistency_panel = ReportMissing string | ReportShown "(string \<times> int) list" "string list list" "string list"

definition consistencyPanel :: "(string \<Rightarrow> string option) \<Rightarrow> health_page \<Rightarrow> consistency_panel" where
  "consistencyPanel fmt s =
     (case hp_consistency s of None \<Rightarrow> ReportMissing ''Tenant runtime consistency report''
      | Some r \<Rightarrow> ReportShown
          [(''Expected missing'', rr_runtime_expected_missing r), (''Pending no runtime'', rr_pending_without_runtime r),
           (''Pending payment'', rr_pending_payment_without_runtime r), (''Deleted w/ runtime'', rr_deleted_with_runtime r),
           (''Runtime-only'', rr_runtime_sites_without_db_entry r)]
          (if rr_entries r = [] then [[''No tenant-runtime mismatches detected right now.'']]
           else map (consistencyEntry fmt) (rr_entries r))
          (rr_runtime_only_sites r))"

definition serviceChecks :: "health_page \<Rightarrow> (string \<times> string) list" where
  "serviceChecks s =
     (case Option.bind (hp_health s) hl_checks of Some cs \<Rightarrow> cs | None \<Rightarrow> [(''No infrastructure checks returned.'', [])])"

definition maintenanceButtons :: "health_page \<Rightarrow> (string \<times> string) list option" where
  "maintenanceButtons s =
     (if canMaintain s then Some (map (\<lambda>a. (fst (MAINTENANCE_LABELS a), fst (snd (MAINTENANCE_LABELS a)))) [Assets, Tls, TlsPrime])
      else None)"

subsection \<open>The page of the customers\<close>

datatype DashboardEndpointState = EndpointOk | EndpointUnsupported | EndpointUnavailable

record DashboardEndpointHealth =
  eh_state :: DashboardEndpointState
  eh_message :: string

definition fetchDashboardMetrics :: "MetricsSummary OptionalEndpointResult io" where
  "fetchDashboardMetrics = api_getAdminMetrics"

definition fetchAuthHealth_dashboard :: "MessageResponse OptionalEndpointResult io" where
  "fetchAuthHealth_dashboard = api_authHealth"

definition fetchBillingHealth_dashboard :: "MessageResponse OptionalEndpointResult io" where
  "fetchBillingHealth_dashboard = api_billingHealth"

definition unsupportedHealth :: DashboardEndpointHealth where
  "unsupportedHealth = \<lparr>eh_state = EndpointUnsupported, eh_message = ''unsupported''\<rparr>"

definition unavailableHealth :: DashboardEndpointHealth where
  "unavailableHealth = \<lparr>eh_state = EndpointUnavailable, eh_message = ''unavailable''\<rparr>"

definition loadDashboardMetricsSnapshot :: "MetricsSummary option io" where
  "loadDashboardMetricsSnapshot =
     catching (await fetchDashboardMetrics (\<lambda>result.
         case result of Unsupported \<Rightarrow> ret None | Supported d \<Rightarrow> ret (Some d)))
       (\<lambda>_. ret None)"

definition endpointHealth :: "MessageResponse OptionalEndpointResult io \<Rightarrow> DashboardEndpointHealth io" where
  "endpointHealth call =
     catching (await call (\<lambda>result.
         case result of Unsupported \<Rightarrow> ret unsupportedHealth
         | Supported m \<Rightarrow> ret \<lparr>eh_state = EndpointOk, eh_message = mr_message m\<rparr>))
       (\<lambda>_. ret unavailableHealth)"

definition loadDashboardServiceHealthSnapshot :: "(DashboardEndpointHealth \<times> DashboardEndpointHealth) io" where
  "loadDashboardServiceHealthSnapshot =
     await (endpointHealth fetchAuthHealth_dashboard) (\<lambda>a.
     await (endpointHealth fetchBillingHealth_dashboard) (\<lambda>b. ret (a, b)))"

datatype HealthTone = GoodTone | WarningTone | ErrorTone

definition toneFor :: "DashboardEndpointState \<Rightarrow> HealthTone" where
  "toneFor st = (if st = EndpointOk then GoodTone else if st = EndpointUnavailable then ErrorTone else WarningTone)"

definition healthRow :: "string \<Rightarrow> DashboardEndpointHealth \<Rightarrow> string \<times> string \<times> HealthTone" where
  "healthRow title h =
     (title,
      if eh_state h = EndpointOk then ''Operational'' else if eh_state h = EndpointUnavailable then ''Disrupted'' else ''Limited'',
      toneFor (eh_state h))"

record status_page =
  sg_auth :: DashboardEndpointHealth
  sg_billing :: DashboardEndpointHealth
  sg_loading :: bool
  sg_error :: "string option"

definition initialStatus :: status_page where
  "initialStatus = \<lparr>sg_auth = unsupportedHealth, sg_billing = unsupportedHealth, sg_loading = False, sg_error = None\<rparr>"

definition statusLoaded :: "exn + (DashboardEndpointHealth \<times> DashboardEndpointHealth) \<Rightarrow> status_page \<Rightarrow> status_page" where
  "statusLoaded r s =
     (case r of
        Inr (a, b) \<Rightarrow> s\<lparr>sg_auth := a, sg_billing := b, sg_loading := False\<rparr>
      | Inl _ \<Rightarrow> s\<lparr>sg_error := Some ''Unable to refresh status right now.'', sg_loading := False\<rparr>)"

definition loadStatus :: "status_page handler" where
  "loadStatus s = answered loadDashboardServiceHealthSnapshot statusLoaded (s\<lparr>sg_loading := True, sg_error := None\<rparr>)"

definition overall :: "status_page \<Rightarrow> HealthTone \<times> string" where
  "overall s =
     (if eh_state (sg_auth s) = EndpointOk \<and> eh_state (sg_billing s) = EndpointOk
      then (GoodTone, ''All systems operational'')
      else if eh_state (sg_auth s) = EndpointUnavailable \<or> eh_state (sg_billing s) = EndpointUnavailable
      then (ErrorTone, ''Service disruption detected'')
      else (WarningTone, ''Limited visibility''))"

definition statusRows :: "status_page \<Rightarrow> (string \<times> string \<times> HealthTone) list" where
  "statusRows s = [healthRow ''Sign-in & account access'' (sg_auth s), healthRow ''Billing & payments'' (sg_billing s)]"

subsection \<open>What the pages say\<close>

lemma settled_Inr: "\<exists>w'. settled call w = (Inr (fst (call w)), w')"
  by (simp add: settled_def split: prod.splits)

lemma settled_apply: "settled call w = (Inr (fst (call w)), snd (call w))"
  by (simp add: settled_def split: prod.splits)

text \<open>
  The operators' snapshot never fails: whatever the six endpoints do, the page is loaded, with
  an error exactly when the health of the API itself could not be read; its message about a
  failed load is never needed.
\<close>

theorem health_snapshot_total:
  "(\<exists>p. fst (loadPlatformHealthSnapshot w) = Inr p \<and> ph_healthAvailable p = (\<exists>h. fst (fetchApiHealth w) = Inr (h, True))) \<and>
   (let s' = fst (loadHealthPage s w) in
    \<not> hp_loading s' \<and> (hp_healthError s' = None \<longleftrightarrow> (\<exists>h. fst (fetchApiHealth w) = Inr (h, True))))"
proof -
  have "\<exists>p. fst (loadPlatformHealthSnapshot w) = Inr p \<and> ph_healthAvailable p = (\<exists>h. fst (fetchApiHealth w) = Inr (h, True))"
    by (auto simp: loadPlatformHealthSnapshot_def await_def settled_apply ret_def split: sum.splits prod.splits)
  then show ?thesis
    by (auto simp: loadHealthPage_def fst_answered snapshotLoaded_def Let_def)
qed

lemma endpointHealth_apply:
  assumes "call w = (a, w1)"
  obtains h where "endpointHealth call w = (Inr h, w1)"
    "eh_state h = (case a of Inr (Supported _) \<Rightarrow> EndpointOk | Inr Unsupported \<Rightarrow> EndpointUnsupported | Inl _ \<Rightarrow> EndpointUnavailable)"
proof (cases a)
  case (Inl e)
  then show ?thesis using that [of unavailableHealth] assms
    by (simp add: endpointHealth_def catching_def await_def ret_def unavailableHealth_def)
next
  case (Inr r)
  show ?thesis
  proof (cases r)
    case (Supported m)
    then show ?thesis using that [of "\<lparr>eh_state = EndpointOk, eh_message = mr_message m\<rparr>"] assms Inr
      by (simp add: endpointHealth_def catching_def await_def ret_def)
  next
    case Unsupported
    then show ?thesis using that [of unsupportedHealth] assms Inr
      by (simp add: endpointHealth_def catching_def await_def ret_def unsupportedHealth_def)
  qed
qed

text \<open>
  The customers' page is honest about its two services: it calls the systems operational
  exactly when both have answered, speaks of a disruption exactly when a call has failed, and
  its rows agree with the heading.
\<close>

theorem service_status_honest:
  assumes "fetchAuthHealth_dashboard w = (a, w1)" and "fetchBillingHealth_dashboard w1 = (b, w2)"
    and "loadStatus s w = (s', w')"
  shows "w' = w2 \<and> \<not> sg_loading s' \<and> sg_error s' = None \<and>
    (fst (overall s') = GoodTone \<longleftrightarrow> (\<exists>x y. a = Inr (Supported x) \<and> b = Inr (Supported y))) \<and>
    (fst (overall s') = ErrorTone \<longleftrightarrow> (\<exists>e. a = Inl e \<or> b = Inl e)) \<and>
    (fst (overall s') = ErrorTone \<longleftrightarrow> list_ex (\<lambda>(_, _, t). t = ErrorTone) (statusRows s')) \<and>
    (fst (overall s') = GoodTone \<longleftrightarrow> list_all (\<lambda>(_, _, t). t = GoodTone) (statusRows s'))"
proof -
  obtain h where h: "endpointHealth fetchAuthHealth_dashboard w = (Inr h, w1)"
    "eh_state h = (case a of Inr (Supported _) \<Rightarrow> EndpointOk | Inr Unsupported \<Rightarrow> EndpointUnsupported | Inl _ \<Rightarrow> EndpointUnavailable)"
    using endpointHealth_apply [of fetchAuthHealth_dashboard w a w1] assms(1) by blast
  obtain k where k: "endpointHealth fetchBillingHealth_dashboard w1 = (Inr k, w2)"
    "eh_state k = (case b of Inr (Supported _) \<Rightarrow> EndpointOk | Inr Unsupported \<Rightarrow> EndpointUnsupported | Inl _ \<Rightarrow> EndpointUnavailable)"
    using endpointHealth_apply [of fetchBillingHealth_dashboard w1 b w2] assms(2) by blast
  have "s' = s\<lparr>sg_loading := False, sg_error := None, sg_auth := h, sg_billing := k\<rparr> \<and> w' = w2"
    using assms(3) by (auto simp: loadStatus_def answered_def loadDashboardServiceHealthSnapshot_def await_def h(1) k(1) ret_def statusLoaded_def)
  then show ?thesis
    using h(2) k(2)
    by (cases a; cases b) (auto simp: overall_def statusRows_def healthRow_def toneFor_def split: OptionalEndpointResult.splits)
qed

theorem service_status_honest_witness:
  "fst (overall (fst (loadStatus initialStatus freshBrowser))) = ErrorTone"
proof -
  obtain a w1 where a: "fetchAuthHealth_dashboard freshBrowser = (a, w1)" by (metis prod.collapse)
  obtain b w2 where b: "fetchBillingHealth_dashboard w1 = (b, w2)" by (metis prod.collapse)
  obtain s' w' where s': "loadStatus initialStatus freshBrowser = (s', w')" by (metis prod.collapse)
  have "case fst (fetchAuthHealth_dashboard freshBrowser) of Inl e \<Rightarrow> True | _ \<Rightarrow> False" by code_simp
  then have "\<exists>e. a = Inl e" using a by (auto split: sum.splits)
  then show ?thesis using service_status_honest [OF a b s'] s' by auto
qed

subsection \<open>Maintenance\<close>

primrec maintenancePath :: "MaintenanceAction \<Rightarrow> string" where
  "maintenancePath Assets = ''/admin/maintenance/assets/build''"
| "maintenancePath Tls = ''/admin/maintenance/tls/sync?prime_certs='' @ encodeURIComponent (boolStr False)"
| "maintenancePath TlsPrime = ''/admin/maintenance/tls/sync?prime_certs='' @ encodeURIComponent (boolStr True)"

lemma addressed_maintenance:
  "keeps (addressed (\<lambda>m p. m = ''POST'' \<and> p = maintenancePath action)) (maintenanceCall action)"
  unfolding maintenanceCall_def rebuildAssets_def syncTenantTls_def api_rebuildPlatformAssets_def api_syncTenantTLS_def
  by (cases action) (auto intro!: addressed_optional)

text \<open>
  A maintenance action is sent only by the role admin, only when it is the one being confirmed,
  and nothing else is sent; the dialog closes, with the server's message or the word that the
  action is not available, exactly when the server has answered.
\<close>

theorem maintenance_confirmed:
  assumes "confirmMaintenance s w = (s', w')" and "hp_confirmAction s = Some action"
  shows "(if canMaintain s
     then addressed (\<lambda>m p. m = ''POST'' \<and> p = maintenancePath action) w w' \<and>
       (case fst (maintenanceCall action w) of
          Inl e \<Rightarrow> hp_confirmAction s' = Some action \<and> hp_maintenanceError s' \<noteq> None
        | Inr (Supported m) \<Rightarrow> hp_confirmAction s' = None \<and> hp_maintenanceMessage s' = Some (mr_message m)
        | Inr Unsupported \<Rightarrow> hp_confirmAction s' = None \<and> hp_maintenanceError s' \<noteq> None) \<and> \<not> hp_maintenanceBusy s'
     else w' = w \<and> hp_maintenanceError s' \<noteq> None \<and> hp_confirmAction s' = Some action)"
proof (cases "canMaintain s")
  case True
  obtain r where r: "runPlatformMaintenanceAction action w = (r, w')"
    and s': "s' = maintenanceSettled r (s\<lparr>hp_maintenanceBusy := True, hp_maintenanceError := None, hp_maintenanceMessage := None\<rparr>)"
    using assms True by (auto simp: confirmMaintenance_def runMaintenance_def answered_def split: prod.splits)
  have k: "keeps (addressed (\<lambda>m p. m = ''POST'' \<and> p = maintenancePath action)) (runPlatformMaintenanceAction action)"
    unfolding runPlatformMaintenanceAction_def by (intro addressed_intros addressed_maintenance)
  obtain c w0 where c: "maintenanceCall action w = (c, w0)" by (cases "maintenanceCall action w")
  have "r = (case c of Inl e \<Rightarrow> Inl e
      | Inr Unsupported \<Rightarrow> Inr (False, ''Maintenance actions aren'' @ [CHR 0xE2, CHR 0x80, CHR 0x99] @ ''t available on this deployment.'')
      | Inr (Supported m) \<Rightarrow> Inr (True, mr_message m))"
    using r c by (cases c) (auto simp: runPlatformMaintenanceAction_def await_def ret_def split: OptionalEndpointResult.splits)
  then show ?thesis using True keepsD [OF k r] assms(2)
    by (auto simp: c s' maintenanceSettled_def split: sum.splits OptionalEndpointResult.splits)
qed (use assms in \<open>auto simp: confirmMaintenance_def runMaintenance_def\<close>)

theorem maintenance_confirmed_witness:
  "hp_maintenanceError (fst (confirmMaintenance (askMaintenance Tls initialHealthPage) freshBrowser)) \<noteq> None \<and>
   snd (confirmMaintenance (askMaintenance Tls initialHealthPage) freshBrowser) = freshBrowser"
proof -
  let ?s = "askMaintenance Tls initialHealthPage"
  obtain s' w' where s': "confirmMaintenance ?s freshBrowser = (s', w')" by (metis prod.collapse)
  have "hp_confirmAction ?s = Some Tls" "\<not> canMaintain ?s"
    by (simp_all add: askMaintenance_def initialHealthPage_def canMaintain_def)
  then show ?thesis using maintenance_confirmed [OF s'] s' by auto
qed

text \<open>
  What the operators' page makes of outages: a failed list of jobs is shown as no failed jobs,
  and a service that fails as one that is not supported.
\<close>

lemma outage_shown_as_quiet:
  assumes "fst (loadPlatformHealthSnapshot w) = Inr p" and "ph_jobs p = []"
  shows "failedJobLines fmt (fst (loadHealthPage s w)) = [[''No failed jobs in the last 80 operations.'']]"
    and "healthText (Inl e) = ''unsupported''"
  using assms by (simp_all add: loadHealthPage_def fst_answered snapshotLoaded_def failedJobLines_def jobsWithStatus_def healthText_def)

end
