(* ===== verification/Tenant_Hooks.thy ===== *)
theory Tenant_Hooks
  imports Tenant_Display Request_Traffic
begin

section \<open>The data hooks of the tenant pages\<close>

text \<open>
  \<^verbatim>\<open>useTenantSectionData.ts\<close>. A query of the query library is its last data and its last error; by
  the library's documentation a fetch that succeeds replaces the data and clears the error, and
  one that fails sets the error beside the data that is there. What a hook returns is a function
  of these two. Invalidating an active query fetches it.
\<close>

record 'd query_state =
  qs_data :: "'d option"
  qs_error :: "exn option"

definition noData :: "'d query_state" where
  "noData = \<lparr>qs_data = None, qs_error = None\<rparr>"

definition querySettled :: "exn + 'd \<Rightarrow> 'd query_state \<Rightarrow> 'd query_state" where
  "querySettled r q =
     (case r of Inr d \<Rightarrow> \<lparr>qs_data = Some d, qs_error = None\<rparr> | Inl e \<Rightarrow> q\<lparr>qs_error := Some e\<rparr>)"

definition isPending :: "'d query_state \<Rightarrow> bool" where
  "isPending q \<longleftrightarrow> qs_data q = None \<and> qs_error q = None"

subsection \<open>Keys\<close>

datatype tenant_query_key =
    AllKey
  | TenantKey string
  | CurrentUserKey
  | MembersKey string
  | SummaryKey string
  | RecentJobsKey string int nat
  | SubscriptionKey string
  | AuditKey string int int

primrec tenantDetailQueryKeys :: "tenant_query_key \<Rightarrow> string list" where
  "tenantDetailQueryKeys AllKey = [''tenant-detail'']"
| "tenantDetailQueryKeys (TenantKey i) = [''tenant-detail'', ''tenant'', i]"
| "tenantDetailQueryKeys CurrentUserKey = [''tenant-detail'', ''current-user'']"
| "tenantDetailQueryKeys (MembersKey i) = [''tenant-detail'', ''members'', i]"
| "tenantDetailQueryKeys (SummaryKey i) = [''tenant-detail'', ''summary'', i]"
| "tenantDetailQueryKeys (RecentJobsKey i limit maxItems) =
     [''tenant-detail'', ''recent-jobs'', i, intStr limit, natStr maxItems]"
| "tenantDetailQueryKeys (SubscriptionKey i) = [''tenant-detail'', ''subscription'', i]"
| "tenantDetailQueryKeys (AuditKey i page limit) = [''tenant-detail'', ''audit'', i, intStr page, intStr limit]"

lemma intStr_inject: "intStr i = intStr j \<Longrightarrow> i = j"
proof -
  assume e: "intStr i = intStr j"
  have no: "CHR ''-'' \<notin> set (natStr n)" for n by (rule not_in_natStr) (simp add: isDigit_def)
  have "(CHR ''-'' \<in> set (intStr k)) \<longleftrightarrow> k < 0" for k using no by (simp add: intStr_def)
  then have "i < 0 \<longleftrightarrow> j < 0" using e by metis
  then show "i = j" using e by (auto simp: intStr_def split: if_splits)
qed

text \<open>Two queries share their cached data only if they ask for the same thing.\<close>

lemma query_keys_distinct: "tenantDetailQueryKeys k = tenantDetailQueryKeys k' \<longleftrightarrow> k = k'"
  by (cases k; cases k') (auto dest: intStr_inject)

subsection \<open>The hooks\<close>

definition mapTenantDetailError :: "exn \<Rightarrow> string \<Rightarrow> string" where
  "mapTenantDetailError error fallback =
     (if isTenantDetailSessionExpired error then ''Session expired. Please log in again.''
      else toTenantDetailErrorMessage error fallback)"

lemma tenant_messages_nonempty [simp]:
  "fallback \<noteq> [] \<Longrightarrow> toTenantDetailErrorMessage e fallback \<noteq> []"
  "fallback \<noteq> [] \<Longrightarrow> mapTenantDetailError e fallback \<noteq> []"
  by (simp_all add: toTenantDetailErrorMessage_def mapTenantDetailError_def)

record tenant_context =
  tx_tenant :: "Tenant option"
  tx_error :: "string option"

definition useTenantRouteContext :: "Tenant query_state \<Rightarrow> tenant_context" where
  "useTenantRouteContext q =
     \<lparr>tx_tenant = qs_data q, tx_error = map_option (\<lambda>e. mapTenantDetailError e ''Failed to load tenant'') (qs_error q)\<rparr>"

definition refetchTenant :: "string \<Rightarrow> Tenant query_state handler" where
  "refetchTenant ident q = onlyWhen (ident \<noteq> []) (answered (loadTenantDetail ident) querySettled) q"

definition loadTenant :: "string \<Rightarrow> Tenant query_state handler" where
  "loadTenant ident = afterwards (refetchTenant ident) (refetchTenant ident)"

definition useTenantCurrentUserData :: "UserProfile query_state \<Rightarrow> UserProfile option" where
  "useTenantCurrentUserData q = qs_data q"

definition refetchRecentJobs :: "string \<Rightarrow> int \<Rightarrow> nat \<Rightarrow> (bool \<times> Job list) query_state handler" where
  "refetchRecentJobs ident limit maxItems =
     onlyWhen (ident \<noteq> []) (answered (loadTenantRecentJobs ident limit maxItems) querySettled)"

definition refreshRecentJobs :: "string \<Rightarrow> int \<Rightarrow> nat \<Rightarrow> (bool \<times> Job list) query_state handler" where
  "refreshRecentJobs ident limit maxItems =
     afterwards (refetchRecentJobs ident limit maxItems) (refetchRecentJobs ident limit maxItems)"

definition useTenantRecentJobsData :: "(bool \<times> Job list) query_state \<Rightarrow> Job list section_view" where
  "useTenantRecentJobsData q =
     \<lparr>sv_supported = (case qs_data q of None \<Rightarrow> True | Some d \<Rightarrow> fst d),
      sv_data = (case qs_data q of None \<Rightarrow> [] | Some d \<Rightarrow> snd d),
      sv_error = map_option (\<lambda>e. toTenantDetailErrorMessage e ''Failed to load recent jobs'') (qs_error q)\<rparr>"

text \<open>The interval at which the recent jobs are fetched again, in milliseconds, if at all.\<close>

definition recentJobsInterval :: "(bool \<times> Job list) query_state \<Rightarrow> nat option" where
  "recentJobsInterval q = (if hasActiveJob (map_option snd (qs_data q)) then Some 5000 else None)"

definition useTenantSummaryData :: "TenantSummary OptionalEndpointResult query_state \<Rightarrow> TenantSummary option \<times> string option" where
  "useTenantSummaryData q =
     ((case qs_data q of Some (Supported s) \<Rightarrow> Some s | _ \<Rightarrow> None),
      (case qs_error q of Some e \<Rightarrow> Some (toTenantDetailErrorMessage e ''Failed to load tenant summary'')
       | None \<Rightarrow> (case qs_data q of Some Unsupported \<Rightarrow> Some ''Tenant summary endpoint not available.'' | _ \<Rightarrow> None)))"

definition refetchMembers :: "string \<Rightarrow> TenantMember list OptionalEndpointResult query_state handler" where
  "refetchMembers ident = onlyWhen (ident \<noteq> []) (answered (loadTenantMembers ident) querySettled)"

definition refreshMembers :: "string \<Rightarrow> TenantMember list OptionalEndpointResult query_state handler" where
  "refreshMembers ident = afterwards (refetchMembers ident) (refetchMembers ident)"

definition useTenantMembersData :: "TenantMember list OptionalEndpointResult query_state \<Rightarrow> TenantMember list section_view" where
  "useTenantMembersData q =
     \<lparr>sv_supported = (case qs_data q of None \<Rightarrow> True | Some d \<Rightarrow> supported d),
      sv_data = (case qs_data q of Some (Supported ms) \<Rightarrow> ms | _ \<Rightarrow> []),
      sv_error = map_option (\<lambda>e. toTenantDetailErrorMessage e ''Failed to load team members'') (qs_error q)\<rparr>"

record subscription_view =
  sb_subscription :: "TenantSubscription option"
  sb_supported :: bool
  sb_error :: "string option"

definition refetchSubscription :: "string \<Rightarrow> TenantSubscription OptionalEndpointResult query_state handler" where
  "refetchSubscription ident = onlyWhen (ident \<noteq> []) (answered (loadTenantSubscription ident) querySettled)"

definition loadSubscription :: "string \<Rightarrow> TenantSubscription OptionalEndpointResult query_state handler" where
  "loadSubscription ident = afterwards (refetchSubscription ident) (refetchSubscription ident)"

definition useTenantSubscriptionData :: "TenantSubscription OptionalEndpointResult query_state \<Rightarrow> subscription_view" where
  "useTenantSubscriptionData q =
     \<lparr>sb_subscription = (case qs_data q of Some (Supported s) \<Rightarrow> Some s | _ \<Rightarrow> None),
      sb_supported = (case qs_data q of None \<Rightarrow> True | Some d \<Rightarrow> supported d),
      sb_error = map_option (\<lambda>e. mapTenantDetailError e ''Failed to load subscription details'') (qs_error q)\<rparr>"

definition refetchAudit :: "string \<Rightarrow> int \<Rightarrow> int \<Rightarrow> AuditLogEntry PaginatedResult OptionalEndpointResult query_state handler" where
  "refetchAudit ident page limit = onlyWhen (ident \<noteq> []) (answered (loadTenantAuditEvents ident page limit) querySettled)"

definition loadAudit :: "string \<Rightarrow> int \<Rightarrow> int \<Rightarrow> AuditLogEntry PaginatedResult OptionalEndpointResult query_state handler" where
  "loadAudit ident page limit = afterwards (refetchAudit ident page limit) (refetchAudit ident page limit)"

definition useTenantAuditData ::
  "AuditLogEntry PaginatedResult OptionalEndpointResult query_state \<Rightarrow> AuditLogEntry list section_view \<times> int" where
  "useTenantAuditData q =
     (\<lparr>sv_supported = (case qs_data q of None \<Rightarrow> True | Some d \<Rightarrow> supported d),
       sv_data = (case qs_data q of Some (Supported p) \<Rightarrow> pr_data p | _ \<Rightarrow> []),
       sv_error = map_option (\<lambda>e. mapTenantDetailError e ''Failed to load activity log'') (qs_error q)\<rparr>,
      (case qs_data q of Some (Supported p) \<Rightarrow> pr_total p | _ \<Rightarrow> 0))"

subsection \<open>The loads only read\<close>

lemma addressed_reads:
  assumes "\<And>p. P ''GET'' p"
  shows "keeps (addressed P) (loadTenantDetail ident)"
    and "keeps (addressed P) (loadTenantSubscription ident)"
    and "keeps (addressed P) (loadTenantRecentJobs ident limit n)"
    and "keeps (addressed P) (loadTenantSupportNotes ident)"
    and "keeps (addressed P) loadTenantCurrentUser"
  unfolding loadTenantDetail_def fetchTenantById_def api_getTenant_def loadTenantSubscription_def
    fetchTenantSubscription_def api_getTenantSubscription_def loadTenantRecentJobs_def fetchTenantJobs_def
    api_listAdminJobs_def loadTenantSupportNotes_def fetchTenantSupportNotes_def api_listSupportNotes_def
    loadTenantCurrentUser_def fetchCurrentUserProfile_def api_getCurrentUser_def
  by (auto intro!: addressed_request addressed_optional addressed_intros simp: assms split: OptionalEndpointResult.split)

lemma addressed_loads:
  assumes "\<And>p. P ''GET'' p"
  shows "addressed P w (snd (loadTenant ident t w))"
    and "addressed P w (snd (loadSubscription ident u w))"
    and "addressed P w (snd (refreshRecentJobs ident limit n q w))"
  unfolding loadTenant_def refetchTenant_def loadSubscription_def refetchSubscription_def refreshRecentJobs_def
    refetchRecentJobs_def
  by (intro addressed_afterwards addressed_onlyWhen addressed_answered addressed_reads assms)+

subsection \<open>The hooks are sections\<close>

definition endpointAnswer :: "'d OptionalEndpointResult \<Rightarrow> 'd option" where
  "endpointAnswer r = (case r of Supported d \<Rightarrow> Some d | Unsupported \<Rightarrow> None)"

text \<open>The recent jobs of an answer without the endpoint are always empty.\<close>

definition recentAnswer :: "bool \<times> Job list \<Rightarrow> Job list option" where
  "recentAnswer r = (if fst r then Some (snd r) else None)"

interpretation members_hook: optional_section endpointAnswer querySettled useTenantMembersData
  "\<lambda>e. toTenantDetailErrorMessage e ''Failed to load team members''"
  by unfold_locales (auto simp: endpointAnswer_def querySettled_def useTenantMembersData_def split: OptionalEndpointResult.splits)

interpretation audit_hook: optional_section "\<lambda>r. map_option pr_data (endpointAnswer r)" querySettled "\<lambda>q. fst (useTenantAuditData q)"
  "\<lambda>e. mapTenantDetailError e ''Failed to load activity log''"
  by unfold_locales (auto simp: endpointAnswer_def querySettled_def useTenantAuditData_def split: OptionalEndpointResult.splits)

lemma recent_jobs_answer: "loadTenantRecentJobs ident limit maxItems w = (Inr d, w') \<Longrightarrow> fst d \<or> snd d = []"
  by (auto simp: loadTenantRecentJobs_def io_simps split: prod.splits sum.splits OptionalEndpointResult.splits)

subsection \<open>The recent jobs\<close>

text \<open>
  The recent jobs of a tenant are the first few of its own jobs among those the server
  lists, in the server's order; jobs of other tenants never appear. They are fetched again every
  five seconds exactly while one of them is not finished.
\<close>

theorem recent_jobs_of_tenant:
  assumes "loadTenantRecentJobs ident limit maxItems w = (Inr d, w')"
  shows "(\<exists>r. fst (fetchTenantJobs limit w) = Inr r \<and> fst d = supported r \<and>
      snd d = take maxItems (filter (\<lambda>j. jb_tenant_id j = ident) (case r of Supported js \<Rightarrow> js | Unsupported \<Rightarrow> []))) \<and>
    length (snd d) \<le> maxItems \<and> list_all (\<lambda>j. jb_tenant_id j = ident) (snd d) \<and>
    (recentJobsInterval (querySettled (Inr d) q) = Some 5000 \<longleftrightarrow> (\<exists>j\<in>set (snd d). \<not> terminalStatus (jb_status j)))"
proof -
  obtain r w1 where r: "fetchTenantJobs limit w = (Inr r, w1)"
    using assms by (auto simp: loadTenantRecentJobs_def await_Inr_iff)
  have d: "fst d = supported r"
    "snd d = take maxItems (filter (\<lambda>j. jb_tenant_id j = ident) (case r of Supported js \<Rightarrow> js | Unsupported \<Rightarrow> []))"
    using assms r by (auto simp: loadTenantRecentJobs_def io_simps split: OptionalEndpointResult.splits)
  moreover have "list_all (\<lambda>j. jb_tenant_id j = ident) (snd d)"
    unfolding d by (auto simp: list_all_iff dest: in_set_takeD)
  moreover have "recentJobsInterval (querySettled (Inr d) q) = Some 5000 \<longleftrightarrow> (\<exists>j\<in>set (snd d). \<not> terminalStatus (jb_status j))"
    by (simp add: recentJobsInterval_def querySettled_def hasActiveJob_iff)
  ultimately show ?thesis using r by simp
qed

theorem recent_jobs_of_tenant_witness:
  "recentJobsInterval (querySettled (Inr (False, [])) noData) = None \<and>
   (\<exists>r. fst (fetchTenantJobs 40 (signedIn [(1, jsonResponse 404 JNull)])) = Inr r \<and> supported r = False)"
proof -
  let ?w = "signedIn [(1, jsonResponse 404 JNull)]"
  have "fst (loadTenantRecentJobs ''t1'' 40 5 ?w) = Inr (False, [])" by code_simp
  then have "loadTenantRecentJobs ''t1'' 40 5 ?w = (Inr (False, []), snd (loadTenantRecentJobs ''t1'' 40 5 ?w))"
    by (metis prod.collapse)
  from recent_jobs_of_tenant [OF this, of noData] show ?thesis
    by (auto simp: recentJobsInterval_def querySettled_def hasActiveJob_def split: if_splits)
qed

end
