(* ===== verification/Tenant_Backups.thy ===== *)
theory Tenant_Backups
  imports Tenant_Hooks Workspace_Queue "HOL-Library.Multiset"
begin

section \<open>The pages of a tenant: layout, backups and jobs\<close>

text \<open>
  What the pages under \<^verbatim>\<open>app/tenants/[tenantId]\<close> share, the page of the backups with the restore
  dialog, and the pages of the jobs and of the activity log. Styling is left out; the state, the
  handlers and the text of the tables are modelled.
\<close>

text \<open>A section that is loading, or its content.\<close>

datatype 'row page_content = LoadingText string | Content "'row section_content"

definition pageContent :: "bool \<Rightarrow> string \<Rightarrow> 'row section_content \<Rightarrow> 'row page_content" where
  "pageContent loading message content = (if loading then LoadingText message else Content content)"

definition billingBlocked :: "Tenant option \<Rightarrow> bool" where
  "billingBlocked tenant \<longleftrightarrow> isTenantBillingBlocked (map_option billingView tenant)"

definition tenantContext :: "Tenant option \<Rightarrow> string" where
  "tenantContext tenant = (case tenant of Some t \<Rightarrow> tn_company_name t @ '' ('' @ tn_domain t @ '')''
     | None \<Rightarrow> ''Loading tenant context...'')"

text \<open>The trail of \<^verbatim>\<open>TenantWorkspacePageLayout.tsx\<close>: labels with their links.\<close>

definition layoutCrumbs :: "string \<Rightarrow> string \<Rightarrow> string \<Rightarrow> (string \<times> string option) list" where
  "layoutCrumbs tenantId title context =
     [(''Workspaces'', Some ''/app/tenants''),
      (orElse (Some (hd (splitOn '' ('' context))) ''Workspace'', Some (''/app/tenants/'' @ tenantId @ ''/overview'')),
      (title, None)]"

subsection \<open>Backups\<close>

definition resolveBackupDownload :: "BackupManifestEntry \<Rightarrow> string option" where
  "resolveBackupDownload entry =
     (case bm_download_url entry of
        Some direct \<Rightarrow> if trim direct \<noteq> [] then Some direct
          else (case bm_file_path entry of Some path \<Rightarrow> if trim path \<noteq> [] then Some path else None | None \<Rightarrow> None)
      | None \<Rightarrow> (case bm_file_path entry of Some path \<Rightarrow> if trim path \<noteq> [] then Some path else None | None \<Rightarrow> None))"

record backups_page =
  bk_backups :: "BackupManifestEntry list"
  bk_supported :: bool
  bk_error :: "string option"
  bk_loading :: bool
  bk_queueBusy :: bool
  bk_queueNotice :: "string option"
  bk_queueError :: "string option"
  bk_restoreTarget :: "BackupManifestEntry option"
  bk_restoreConfirm :: string
  bk_restoreBusy :: bool
  bk_restoreError :: "string option"
  bk_restoreNotice :: "string option"
  bk_restoreJobId :: "string option"

definition initialBackups :: backups_page where
  "initialBackups = \<lparr>bk_backups = [], bk_supported = True, bk_error = None, bk_loading = True, bk_queueBusy = False,
     bk_queueNotice = None, bk_queueError = None, bk_restoreTarget = None, bk_restoreConfirm = [], bk_restoreBusy = False,
     bk_restoreError = None, bk_restoreNotice = None, bk_restoreJobId = None\<rparr>"

definition backupsLoaded :: "exn + BackupManifestEntry list OptionalEndpointResult \<Rightarrow> backups_page \<Rightarrow> backups_page" where
  "backupsLoaded r s =
     (case r of
        Inr Unsupported \<Rightarrow> s\<lparr>bk_supported := False, bk_backups := [], bk_error := None, bk_loading := False\<rparr>
      | Inr (Supported bs) \<Rightarrow> s\<lparr>bk_supported := True, bk_backups := bs, bk_error := None, bk_loading := False\<rparr>
      | Inl err \<Rightarrow> s\<lparr>bk_error := Some (toTenantDetailErrorMessage err ''Failed to load backup history''), bk_loading := False\<rparr>)"

definition loadBackupsData :: "string \<Rightarrow> backups_page handler" where
  "loadBackupsData ident s =
     onlyWhen (ident \<noteq> []) (\<lambda>s. answered (loadTenantBackupManifest ident) backupsLoaded (s\<lparr>bk_loading := True\<rparr>)) s"

text \<open>
  \<^verbatim>\<open>sortedBackups\<close>: a stable sort by \<^verbatim>\<open>localeCompare\<close>, newest first. The order of the browser's
  locale is a parameter: \<open>collate a b\<close> says that \<open>a\<close> is not after \<open>b\<close>.
\<close>

definition createdText :: "BackupManifestEntry \<Rightarrow> string" where
  "createdText b = nullish (bm_created_at b) []"

fun insertBackup :: "(string \<Rightarrow> string \<Rightarrow> bool) \<Rightarrow> BackupManifestEntry \<Rightarrow> BackupManifestEntry list \<Rightarrow> BackupManifestEntry list" where
  "insertBackup collate b [] = [b]"
| "insertBackup collate b (c # cs) =
     (if collate (createdText c) (createdText b) then b # c # cs else c # insertBackup collate b cs)"

definition sortedBackups :: "(string \<Rightarrow> string \<Rightarrow> bool) \<Rightarrow> BackupManifestEntry list \<Rightarrow> BackupManifestEntry list" where
  "sortedBackups collate bs = foldr (insertBackup collate) bs []"

definition queueBackup :: "string \<Rightarrow> backups_page handler" where
  "queueBackup ident s =
     onlyWhen (ident \<noteq> [])
       (\<lambda>s. attemptCall (queueTenantBackupJob ident)
          (\<lambda>_. staying (\<lambda>s. s\<lparr>bk_queueNotice := Some ''Backup job queued successfully.''\<rparr>))
          (\<lambda>err s. s\<lparr>bk_queueError := Some (toTenantDetailErrorMessage err ''Failed to queue backup'')\<rparr>)
          (\<lambda>s. s\<lparr>bk_queueBusy := False\<rparr>)
          (s\<lparr>bk_queueBusy := True, bk_queueNotice := None, bk_queueError := None\<rparr>)) s"

definition openRestore :: "BackupManifestEntry \<Rightarrow> backups_page \<Rightarrow> backups_page" where
  "openRestore entry s =
     s\<lparr>bk_restoreTarget := Some entry, bk_restoreConfirm := [], bk_restoreError := None, bk_restoreNotice := None\<rparr>"

definition cancelRestore :: "backups_page \<Rightarrow> backups_page" where
  "cancelRestore s = s\<lparr>bk_restoreTarget := None, bk_restoreConfirm := []\<rparr>"

definition restoreId :: "backups_page \<Rightarrow> string" where
  "restoreId s = orElse (Option.bind (bk_restoreTarget s) bm_id) []"

definition confirmRestore :: "string \<Rightarrow> backups_page handler" where
  "confirmRestore ident s w =
     (if ident = [] \<or> restoreId s = [] then (s, w)
      else if toUpperCase (trim (bk_restoreConfirm s)) \<noteq> ''RESTORE''
      then (s\<lparr>bk_restoreError := Some ''Type RESTORE to confirm this destructive restore.''\<rparr>, w)
      else attempt (restoreTenantFromBackup ident (restoreId s))
        (\<lambda>s. s\<lparr>bk_restoreError := Some (featureUnavailableMessage ''Restoring backups'' None)\<rparr>)
        (\<lambda>job. staying (\<lambda>s. s\<lparr>bk_restoreNotice := Some ''Restore job queued successfully.'', bk_restoreJobId := Some (jb_id job),
            bk_restoreTarget := None, bk_restoreConfirm := []\<rparr>))
        (\<lambda>err s. s\<lparr>bk_restoreError := Some (toTenantDetailErrorMessage err ''Failed to queue restore'')\<rparr>)
        (\<lambda>s. s\<lparr>bk_restoreBusy := False\<rparr>)
        (s\<lparr>bk_restoreBusy := True, bk_restoreError := None, bk_restoreNotice := None\<rparr>) w)"

definition restoreDisabled :: "Tenant option \<Rightarrow> backups_page \<Rightarrow> BackupManifestEntry \<Rightarrow> bool" where
  "restoreDisabled tenant s entry \<longleftrightarrow> billingBlocked tenant \<or> orElse (bm_id entry) [] = [] \<or> bk_restoreBusy s"

definition backupRow :: "(string \<Rightarrow> string option) \<Rightarrow> BackupManifestEntry \<Rightarrow> string list \<times> string option" where
  "backupRow fmt entry =
     (let link = resolveBackupDownload entry in
      ([formatTimestamp fmt (bm_created_at entry),
        nullish (bm_file_path entry) (if link \<noteq> None then ''Download backup'' else ''Unavailable''),
        (case bm_file_size_bytes entry of Some n \<Rightarrow> intStr n @ '' bytes'' | None \<Rightarrow> EM_DASH),
        formatTimestamp fmt (bm_expires_at entry)], link))"

definition backupsView :: "backups_page \<Rightarrow> BackupManifestEntry list section_view" where
  "backupsView s = \<lparr>sv_supported = bk_supported s, sv_data = bk_backups s, sv_error = bk_error s\<rparr>"

definition backupsContent ::
  "(string \<Rightarrow> string \<Rightarrow> bool) \<Rightarrow> (string \<Rightarrow> string option) \<Rightarrow> backups_page \<Rightarrow> (string list \<times> string option) page_content" where
  "backupsContent collate fmt s =
     pageContent (bk_loading s) ''Loading backup history...''
       (sectionContent ''Backups'' ''No backup records yet. Queue a backup from this page when you need a restore point.''
          (backupRow fmt) ((backupsView s)\<lparr>sv_data := sortedBackups collate (bk_backups s)\<rparr>))"

subsection \<open>Jobs and activity\<close>

record jobs_page =
  jp_jobs :: "Job list"
  jp_supported :: bool
  jp_error :: "string option"
  jp_loading :: bool

definition initialJobs :: jobs_page where
  "initialJobs = \<lparr>jp_jobs = [], jp_supported = True, jp_error = None, jp_loading = True\<rparr>"

definition recentJobsLoaded :: "exn + (bool \<times> Job list) \<Rightarrow> jobs_page \<Rightarrow> jobs_page" where
  "recentJobsLoaded r s =
     (case r of
        Inr (isSupported, js) \<Rightarrow>
          (if \<not> isSupported then s\<lparr>jp_supported := False, jp_jobs := [], jp_error := None, jp_loading := False\<rparr>
           else s\<lparr>jp_supported := True, jp_jobs := js, jp_error := None, jp_loading := False\<rparr>)
      | Inl err \<Rightarrow> s\<lparr>jp_error := Some (toTenantDetailErrorMessage err ''Failed to load recent jobs''), jp_loading := False\<rparr>)"

definition loadRecentJobsData :: "string \<Rightarrow> jobs_page handler" where
  "loadRecentJobsData ident s =
     onlyWhen (ident \<noteq> []) (\<lambda>s. answered (loadTenantRecentJobs ident 40 10) recentJobsLoaded (s\<lparr>jp_loading := True\<rparr>)) s"

definition activeRecentJob :: "Job list \<Rightarrow> Job option" where
  "activeRecentJob js = find (\<lambda>job. \<not> isTerminalJobStatus (Some (jb_status job))) js"

definition liveJobId :: "string option \<Rightarrow> jobs_page \<Rightarrow> string option" where
  "liveJobId selectedJobId s = (if truthyStr selectedJobId then selectedJobId else map_option jb_id (activeRecentJob (jp_jobs s)))"

definition followingNote :: "string option \<Rightarrow> jobs_page \<Rightarrow> string option" where
  "followingNote selectedJobId s =
     (case activeRecentJob (jp_jobs s) of
        Some job \<Rightarrow> if \<not> truthyStr selectedJobId
          then Some (''Auto-following latest active job: '' @ jb_type job @ '' ('' @ jb_status job @ '')'') else None
      | None \<Rightarrow> None)"

definition recentJobsView :: "jobs_page \<Rightarrow> Job list section_view" where
  "recentJobsView s = \<lparr>sv_supported = jp_supported s, sv_data = jp_jobs s, sv_error = jp_error s\<rparr>"

definition tenantJobRow :: "(string \<Rightarrow> string option) \<Rightarrow> string \<Rightarrow> Job \<Rightarrow> string list" where
  "tenantJobRow fmt ident job =
     [jb_type job, jb_status job, formatTimestamp fmt (jb_created_at job), ''/app/tenants/'' @ ident @ ''/jobs?job='' @ jb_id job]"

definition tenantJobsContent :: "(string \<Rightarrow> string option) \<Rightarrow> string \<Rightarrow> jobs_page \<Rightarrow> string list page_content" where
  "tenantJobsContent fmt ident s =
     pageContent (jp_loading s) ''Loading jobs...''
       (sectionContent ''Job history'' ''No jobs yet for this tenant.'' (tenantJobRow fmt ident) (recentJobsView s))"

text \<open>The activity log with its page, which is part of the query's key.\<close>

definition ACTIVITY_LIMIT :: int where "ACTIVITY_LIMIT = 25"

definition activityTotalPages :: "int \<Rightarrow> int" where
  "activityTotalPages auditTotal = max 1 (- ((- auditTotal) div ACTIVITY_LIMIT))"

definition activityRow :: "(string \<Rightarrow> string option) \<Rightarrow> AuditLogEntry \<Rightarrow> string list" where
  "activityRow fmt entry =
     [formatTimestamp fmt (Some (al_created_at entry)),
      orElse (al_actor_email entry) (orElse (al_actor_id entry) (al_actor_role entry)), al_action entry,
      orElse (al_ip_address entry) EM_DASH]"

definition activityContent ::
  "(string \<Rightarrow> string option) \<Rightarrow> AuditLogEntry PaginatedResult OptionalEndpointResult query_state \<Rightarrow> string list section_content" where
  "activityContent fmt q =
     sectionContent ''Activity log'' ''No activity recorded yet.'' (activityRow fmt) (fst (useTenantAuditData q))"

definition previousActivityPage :: "int \<Rightarrow> int" where
  "previousActivityPage page = max 1 (page - 1)"

definition nextActivityPage :: "int \<Rightarrow> int \<Rightarrow> int" where
  "nextActivityPage auditTotal page = min (activityTotalPages auditTotal) (page + 1)"

definition canGo :: "int \<Rightarrow> int \<Rightarrow> bool \<times> bool" where
  "canGo auditTotal page = (page > 1, page < activityTotalPages auditTotal)"

subsection \<open>The sections of the pages\<close>

interpretation backups: optional_section endpointAnswer backupsLoaded backupsView
  "\<lambda>e. toTenantDetailErrorMessage e ''Failed to load backup history''"
  by unfold_locales (auto simp: endpointAnswer_def backupsLoaded_def backupsView_def split: OptionalEndpointResult.splits)

interpretation recent_jobs: optional_section recentAnswer recentJobsLoaded recentJobsView
  "\<lambda>e. toTenantDetailErrorMessage e ''Failed to load recent jobs''"
  by unfold_locales (auto simp: recentAnswer_def recentJobsLoaded_def recentJobsView_def split: prod.splits if_splits)

subsection \<open>Newest first\<close>

lemma mset_insertBackup [simp]: "mset (insertBackup collate b cs) = add_mset b (mset cs)"
  by (induction cs) auto

lemma mset_sortedBackups: "mset (sortedBackups collate bs) = mset bs"
  by (induction bs) (simp_all add: sortedBackups_def)

lemma set_insertBackup [simp]: "set (insertBackup collate b cs) = insert b (set cs)"
  by (induction cs) auto

definition newestFirst :: "(string \<Rightarrow> string \<Rightarrow> bool) \<Rightarrow> BackupManifestEntry list \<Rightarrow> bool" where
  "newestFirst collate = sorted_wrt (\<lambda>b c. collate (createdText c) (createdText b))"

lemma newestFirst_insert:
  assumes "totalp collate" and "reflp collate" and "transp collate" and "newestFirst collate cs"
  shows "newestFirst collate (insertBackup collate b cs)"
  using assms(4)
proof (induction cs)
  case (Cons c cs)
  show ?case
  proof (cases "collate (createdText c) (createdText b)")
    case True
    then show ?thesis using Cons.prems assms(3) by (auto simp: newestFirst_def dest: transpD)
  next
    case False
    then have "collate (createdText b) (createdText c)" using assms(1,2) by (metis reflpD totalpD)
    then show ?thesis using Cons False by (auto simp: newestFirst_def)
  qed
qed (simp add: newestFirst_def)

text \<open>Rows of the same time keep their order.\<close>

lemma insertBackup_stable:
  assumes "reflp collate"
  shows "filter (\<lambda>c. createdText c = t) (insertBackup collate b cs) = filter (\<lambda>c. createdText c = t) (b # cs)"
  using assms by (induction cs) (auto dest: reflpD)

text \<open>
  Whatever order of texts the browser's locale defines, the list of backups shows every
  entry exactly once, newest first by that order, and entries of the same time in the order of
  the answer.
\<close>

theorem backups_newest_first:
  assumes "totalp collate" and "reflp collate" and "transp collate"
  shows "mset (sortedBackups collate bs) = mset bs \<and> newestFirst collate (sortedBackups collate bs) \<and>
    filter (\<lambda>c. createdText c = t) (sortedBackups collate bs) = filter (\<lambda>c. createdText c = t) bs"
proof -
  have "newestFirst collate (sortedBackups collate bs)"
    using newestFirst_insert [OF assms]
    by (induction bs) (simp_all add: sortedBackups_def newestFirst_def)
  moreover have "filter (\<lambda>c. createdText c = t) (sortedBackups collate bs) = filter (\<lambda>c. createdText c = t) bs"
    by (induction bs) (simp_all add: sortedBackups_def insertBackup_stable [OF assms(2)])
  ultimately show ?thesis by (simp add: mset_sortedBackups)
qed

definition backupAt :: "string \<Rightarrow> string \<Rightarrow> BackupManifestEntry" where
  "backupAt ident created = \<lparr>bm_id = Some ident, bm_tenant_id = Some ''t1'', bm_job_id = None, bm_file_path = Some ''a.sql.gz'',
     bm_file_size_bytes = Some 9, bm_created_at = Some created, bm_expires_at = None, bm_s3_key = None,
     bm_download_url = None\<rparr>"

theorem backups_newest_first_witness:
  "newestFirst (\<lambda>a b. length a \<le> length b) (sortedBackups (\<lambda>a b. length a \<le> length b) [backupAt ''b1'' ''2'', backupAt ''b2'' ''10'']) \<and>
   map bm_id (sortedBackups (\<lambda>a b. length a \<le> length b) [backupAt ''b1'' ''2'', backupAt ''b2'' ''10'']) = [Some ''b2'', Some ''b1'']"
proof -
  have "totalp (\<lambda>a b :: string. length a \<le> length b)" "reflp (\<lambda>a b :: string. length a \<le> length b)"
    "transp (\<lambda>a b :: string. length a \<le> length b)"
    by (auto simp: totalp_on_def reflp_def transp_def)
  from backups_newest_first [OF this, of "[backupAt ''b1'' ''2'', backupAt ''b2'' ''10'']"]
  show ?thesis by (simp add: sortedBackups_def createdText_def backupAt_def)
qed

subsection \<open>Restoring\<close>

text \<open>
  A restore is asked for only in the dialog of a backup with an identifier and after RESTORE
  was typed, only for this tenant and that backup, and never with more than the renewal of the
  token beside it; the dialog closes with the job to follow exactly when the server has queued
  one, and otherwise stays open with an error.
\<close>

theorem restore_confirmed:
  assumes "confirmRestore ident s w = (s', w')" and "bk_restoreTarget s = Some b" and "orElse (bm_id b) [] \<noteq> []"
    and "ident \<noteq> []" and "\<not> bk_restoreBusy s"
  shows "(if toUpperCase (trim (bk_restoreConfirm s)) = ''RESTORE''
      then addressed (\<lambda>m p. m = ''POST'' \<and> p = ''/tenants/'' @ ident @ ''/restore'') w w' else w' = w) \<and>
    \<not> bk_restoreBusy s' \<and>
    (if bk_restoreTarget s' = None
     then \<exists>job. restoreTenantFromBackup ident (the (bm_id b)) w = (Inr (Supported job), w') \<and>
       bk_restoreJobId s' = Some (jb_id job) \<and> bk_restoreError s' = None
     else bk_restoreTarget s' = Some b \<and> bk_restoreError s' \<noteq> None \<and> bk_restoreJobId s' = bk_restoreJobId s)"
proof -
  have b: "restoreId s = the (bm_id b)" "restoreId s \<noteq> []"
    using assms(2,3) by (auto simp: restoreId_def orElse_def split: option.splits if_splits)
  show ?thesis
  proof (cases "toUpperCase (trim (bk_restoreConfirm s)) = ''RESTORE''")
    case False
    then show ?thesis using assms b by (auto simp: confirmRestore_def)
  next
    case True
    have k: "keeps (addressed (\<lambda>m p. m = ''POST'' \<and> p = ''/tenants/'' @ ident @ ''/restore'')) (restoreTenantFromBackup ident (restoreId s))"
      unfolding restoreTenantFromBackup_def restoreTenantByBackup_def api_restoreTenant_def
      by (rule addressed_optional) simp
    note c = assms(1) [unfolded confirmRestore_def]
    from c True b(2) assms(4) have a: "attempt (restoreTenantFromBackup ident (restoreId s))
        (\<lambda>s. s\<lparr>bk_restoreError := Some (featureUnavailableMessage ''Restoring backups'' None)\<rparr>)
        (\<lambda>job. staying (\<lambda>s. s\<lparr>bk_restoreNotice := Some ''Restore job queued successfully.'', bk_restoreJobId := Some (jb_id job),
            bk_restoreTarget := None, bk_restoreConfirm := []\<rparr>))
        (\<lambda>err s. s\<lparr>bk_restoreError := Some (toTenantDetailErrorMessage err ''Failed to queue restore'')\<rparr>)
        (\<lambda>s. s\<lparr>bk_restoreBusy := False\<rparr>)
        (s\<lparr>bk_restoreBusy := True, bk_restoreError := None, bk_restoreNotice := None\<rparr>) w = (s', w')" by simp
    have "addressed (\<lambda>m p. m = ''POST'' \<and> p = ''/tenants/'' @ ident @ ''/restore'') w w'"
      by (rule addressed_attemptD [OF a k addressed_staying])
    then show ?thesis
      by (cases rule: attempt_cases [OF a]) (use True assms(2) b in \<open>auto simp: staying_def simp del: append_Cons\<close>)
  qed
qed

theorem restore_confirmed_witness:
  "bk_restoreError (fst (confirmRestore ''t1'' (openRestore (backupAt ''b1'' ''2'') initialBackups) freshBrowser)) \<noteq> None \<and>
   snd (confirmRestore ''t1'' (openRestore (backupAt ''b1'' ''2'') initialBackups) freshBrowser) = freshBrowser"
proof -
  let ?s = "openRestore (backupAt ''b1'' ''2'') initialBackups"
  have p: "bk_restoreTarget ?s = Some (backupAt ''b1'' ''2'')" "orElse (bm_id (backupAt ''b1'' ''2'')) [] \<noteq> []"
    "\<not> bk_restoreBusy ?s" "toUpperCase (trim (bk_restoreConfirm ?s)) \<noteq> ''RESTORE''"
    by (simp_all add: openRestore_def backupAt_def orElse_def initialBackups_def js_defs)
  show ?thesis
    using restore_confirmed [OF prod.collapse [symmetric] p(1,2) _ p(3), of "''t1''" freshBrowser] p
    by (auto simp: confirmRestore_def split: if_splits)
qed

text \<open>The trail cuts a company's name at its first parenthesis.\<close>

lemma crumb_cuts_company:
  "map fst (layoutCrumbs ''t1'' ''Backups'' (tenantContext (Some ((sampleTenant ''active'' None None)\<lparr>tn_company_name := ''Acme (TZ) Ltd''\<rparr>))))
    = [''Workspaces'', ''Acme'', ''Backups'']"
  by code_simp

end
