(* ===== verification/Tenant_Team.thy ===== *)
theory Tenant_Team
  imports Tenant_Backups
begin

section \<open>The pages of a tenant: domains and members\<close>

text \<open>
  \<^verbatim>\<open>domains/page.tsx\<close> keeps its list itself; \<^verbatim>\<open>members/page.tsx\<close> has it from the query hook and
  changes it with mutations. The error of an action is shown in place of the list.
\<close>

subsection \<open>Custom domains\<close>

record domains_page =
  dp_domains :: "DomainMapping list"
  dp_supported :: bool
  dp_error :: "string option"
  dp_loading :: bool
  dp_input :: string
  dp_adding :: bool
  dp_verifyingId :: "string option"
  dp_removingId :: "string option"

definition initialDomains :: domains_page where
  "initialDomains = \<lparr>dp_domains = [], dp_supported = True, dp_error = None, dp_loading = True, dp_input = [],
     dp_adding = False, dp_verifyingId = None, dp_removingId = None\<rparr>"

definition domainsLoaded :: "exn + DomainMapping list OptionalEndpointResult \<Rightarrow> domains_page \<Rightarrow> domains_page" where
  "domainsLoaded r s =
     (case r of
        Inr Unsupported \<Rightarrow> s\<lparr>dp_supported := False, dp_domains := [], dp_error := None, dp_loading := False\<rparr>
      | Inr (Supported ds) \<Rightarrow> s\<lparr>dp_supported := True, dp_domains := ds, dp_error := None, dp_loading := False\<rparr>
      | Inl err \<Rightarrow> s\<lparr>dp_error := Some (toTenantDetailErrorMessage err ''Failed to load custom domains''), dp_loading := False\<rparr>)"

definition loadDomainsData :: "string \<Rightarrow> domains_page handler" where
  "loadDomainsData ident s =
     onlyWhen (ident \<noteq> []) (\<lambda>s. answered (loadTenantDomains ident) domainsLoaded (s\<lparr>dp_loading := True\<rparr>)) s"

definition domainError :: "string \<Rightarrow> domains_page \<Rightarrow> domains_page" where
  "domainError message s = s\<lparr>dp_error := Some message\<rparr>"

definition addDomain :: "string \<Rightarrow> domains_page handler" where
  "addDomain ident s =
     onlyWhen (ident \<noteq> [])
       (\<lambda>s. attempt (createTenantDomain ident (trim (dp_input s)))
          (domainError (featureUnavailableMessage ''Adding custom domains'' None))
          (\<lambda>_ s. loadDomainsData ident (s\<lparr>dp_input := []\<rparr>))
          (\<lambda>err. domainError (toTenantDetailErrorMessage err ''Failed to add domain''))
          (\<lambda>s. s\<lparr>dp_adding := False\<rparr>)
          (s\<lparr>dp_adding := True, dp_error := None\<rparr>)) s"

definition verifyDomain :: "string \<Rightarrow> DomainMapping \<Rightarrow> domains_page handler" where
  "verifyDomain ident d s =
     onlyWhen (ident \<noteq> [])
       (\<lambda>s. attempt (verifyTenantDomain ident (dm_id d) (Some (dm_verification_token d)))
          (domainError (featureUnavailableMessage ''Domain verification'' None))
          (\<lambda>_. loadDomainsData ident)
          (\<lambda>err. domainError (toTenantDetailErrorMessage err ''Failed to verify domain''))
          (\<lambda>s. s\<lparr>dp_verifyingId := None\<rparr>)
          (s\<lparr>dp_verifyingId := Some (dm_id d), dp_error := None\<rparr>)) s"

definition removeDomain :: "string \<Rightarrow> DomainMapping \<Rightarrow> domains_page handler" where
  "removeDomain ident d s =
     onlyWhen (ident \<noteq> [])
       (\<lambda>s. attempt (deleteTenantDomain ident (dm_id d))
          (domainError (featureUnavailableMessage ''Removing custom domains'' None))
          (\<lambda>_. loadDomainsData ident)
          (\<lambda>err. domainError (toTenantDetailErrorMessage err ''Failed to remove domain''))
          (\<lambda>s. s\<lparr>dp_removingId := None\<rparr>)
          (s\<lparr>dp_removingId := Some (dm_id d), dp_error := None\<rparr>)) s"

text \<open>The buttons: label and whether disabled.\<close>

definition addButton :: "Tenant option \<Rightarrow> domains_page \<Rightarrow> string \<times> bool" where
  "addButton tenant s = (if dp_adding s then ''Adding...'' else ''Add domain'',
     billingBlocked tenant \<or> dp_adding s \<or> trim (dp_input s) = [])"

definition verifyButton :: "Tenant option \<Rightarrow> DomainMapping \<Rightarrow> domains_page \<Rightarrow> string \<times> bool" where
  "verifyButton tenant d s = (if dp_verifyingId s = Some (dm_id d) then ''Verifying...'' else ''Verify'',
     billingBlocked tenant \<or> dm_status d = ''verified'' \<or> dp_verifyingId s = Some (dm_id d))"

definition removeButton :: "Tenant option \<Rightarrow> DomainMapping \<Rightarrow> domains_page \<Rightarrow> string \<times> bool" where
  "removeButton tenant d s = (if dp_removingId s = Some (dm_id d) then ''Removing...'' else ''Remove'',
     billingBlocked tenant \<or> dp_removingId s = Some (dm_id d))"

definition domainRow :: "(string \<Rightarrow> string option) \<Rightarrow> DomainMapping \<Rightarrow> string list" where
  "domainRow fmt d = [dm_domain d, dm_status d, formatTimestamp fmt (Some (dm_created_at d)),
     formatTimestamp fmt (dm_verified_at d), dm_verification_token d]"

definition domainsView :: "domains_page \<Rightarrow> DomainMapping list section_view" where
  "domainsView s = \<lparr>sv_supported = dp_supported s, sv_data = dp_domains s, sv_error = dp_error s\<rparr>"

definition domainsContent :: "(string \<Rightarrow> string option) \<Rightarrow> domains_page \<Rightarrow> string list page_content" where
  "domainsContent fmt s =
     pageContent (dp_loading s) ''Loading custom domains...''
       (sectionContent ''Custom domains'' ''No custom domains added yet.'' (domainRow fmt) (domainsView s))"

interpretation domains: optional_section endpointAnswer domainsLoaded domainsView
  "\<lambda>e. toTenantDetailErrorMessage e ''Failed to load custom domains''"
  by unfold_locales (auto simp: endpointAnswer_def domainsLoaded_def domainsView_def split: OptionalEndpointResult.splits)

subsection \<open>Members\<close>

definition memberRoles :: "string list" where
  "memberRoles = [''owner'', ''admin'', ''billing'', ''technical'']"

record members_page =
  mp_members :: "TenantMember list OptionalEndpointResult query_state"
  mp_tenant :: "Tenant query_state"
  mp_actionError :: "string option"
  mp_inviteEmail :: string
  mp_inviteRole :: string
  mp_inviting :: bool
  mp_updatingId :: "string option"
  mp_removingId :: "string option"

definition initialMembers :: members_page where
  "initialMembers = \<lparr>mp_members = noData, mp_tenant = noData, mp_actionError = None, mp_inviteEmail = [],
     mp_inviteRole = ''admin'', mp_inviting = False, mp_updatingId = None, mp_removingId = None\<rparr>"

text \<open>Queries of the page are fetched in the page's state.\<close>

definition onMembers :: "TenantMember list OptionalEndpointResult query_state handler \<Rightarrow> members_page handler" where
  "onMembers = within mp_members (\<lambda>q s. s\<lparr>mp_members := q\<rparr>)"

definition onTenant :: "Tenant query_state handler \<Rightarrow> members_page handler" where
  "onTenant = within mp_tenant (\<lambda>q s. s\<lparr>mp_tenant := q\<rparr>)"

definition refreshMembersPage :: "string \<Rightarrow> members_page handler" where
  "refreshMembersPage ident = onMembers (refreshMembers ident)"

definition invalidateMembersAndRoute :: "string \<Rightarrow> members_page handler" where
  "invalidateMembersAndRoute ident s =
     onlyWhen (ident \<noteq> [])
       (afterwards (onMembers (refetchMembers ident))
         (afterwards (onTenant (refetchTenant ident)) (refreshMembersPage ident))) s"

definition memberError :: "string \<Rightarrow> members_page \<Rightarrow> members_page" where
  "memberError message s = s\<lparr>mp_actionError := Some message\<rparr>"

definition inviteMember :: "string \<Rightarrow> members_page handler" where
  "inviteMember ident s =
     onlyWhen (ident \<noteq> [])
       (\<lambda>s. attempt (inviteTenantMember ident (trim (mp_inviteEmail s)) (mp_inviteRole s))
          (memberError (featureUnavailableMessage ''Inviting team members'' None))
          (\<lambda>_ s. invalidateMembersAndRoute ident (s\<lparr>mp_inviteEmail := []\<rparr>))
          (\<lambda>err. memberError (toTenantDetailErrorMessage err ''Failed to invite member''))
          (\<lambda>s. s\<lparr>mp_inviting := False\<rparr>)
          (s\<lparr>mp_inviting := True, mp_actionError := None\<rparr>)) s"

definition updateMember :: "string \<Rightarrow> TenantMember \<Rightarrow> string \<Rightarrow> members_page handler" where
  "updateMember ident member nextRole s =
     onlyWhen (ident \<noteq> [])
       (\<lambda>s. attempt (updateTenantMemberRole ident (tm_id member) nextRole)
          (memberError (featureUnavailableMessage ''Updating member roles'' None))
          (\<lambda>_. invalidateMembersAndRoute ident)
          (\<lambda>err. memberError (toTenantDetailErrorMessage err ''Failed to update member role''))
          (\<lambda>s. s\<lparr>mp_updatingId := None\<rparr>)
          (s\<lparr>mp_updatingId := Some (tm_id member), mp_actionError := None\<rparr>)) s"

definition removeMember :: "string \<Rightarrow> TenantMember \<Rightarrow> members_page handler" where
  "removeMember ident member s =
     onlyWhen (ident \<noteq> [])
       (\<lambda>s. attempt (removeTenantMember ident (tm_id member))
          (memberError (featureUnavailableMessage ''Removing team members'' None))
          (\<lambda>_. invalidateMembersAndRoute ident)
          (\<lambda>err. memberError (toTenantDetailErrorMessage err ''Failed to remove member''))
          (\<lambda>s. s\<lparr>mp_removingId := None\<rparr>)
          (s\<lparr>mp_removingId := Some (tm_id member), mp_actionError := None\<rparr>)) s"

definition membersView :: "members_page \<Rightarrow> TenantMember list section_view" where
  "membersView s =
     (let v = useTenantMembersData (mp_members s) in
      v\<lparr>sv_error := (case mp_actionError s of Some e \<Rightarrow> Some e | None \<Rightarrow> sv_error v)\<rparr>)"

text \<open>A row: the member, and what can be done with it; owners have no controls.\<close>

datatype member_control = OwnerChip | RoleSelect string bool | RemoveMember string bool

definition memberRow :: "(string \<Rightarrow> string option) \<Rightarrow> Tenant option \<Rightarrow> members_page \<Rightarrow> TenantMember \<Rightarrow> string list \<times> member_control list" where
  "memberRow fmt tenant s member =
     ([orElse (tm_user_email member) (tm_user_id member), formatTimestamp fmt (Some (tm_created_at member))],
      if tm_role member = ''owner'' then [OwnerChip]
      else [RoleSelect (tm_role member) (billingBlocked tenant \<or> mp_updatingId s = Some (tm_id member)),
            RemoveMember (if mp_removingId s = Some (tm_id member) then ''Removing...'' else ''Remove'')
              (billingBlocked tenant \<or> mp_removingId s = Some (tm_id member))])"

definition inviteButton :: "Tenant option \<Rightarrow> members_page \<Rightarrow> string \<times> bool" where
  "inviteButton tenant s = (if mp_inviting s then ''Inviting...'' else ''Invite'',
     billingBlocked tenant \<or> mp_inviting s \<or> trim (mp_inviteEmail s) = [])"

definition membersContent :: "(string \<Rightarrow> string option) \<Rightarrow> Tenant option \<Rightarrow> members_page \<Rightarrow> (string list \<times> member_control list) page_content" where
  "membersContent fmt tenant s =
     pageContent (isPending (mp_members s)) ''Loading team members...''
       (sectionContent ''Team management'' ''No team members yet.'' (memberRow fmt tenant s) (membersView s))"

subsection \<open>Domains: outcomes\<close>

definition domainWrite :: "string \<Rightarrow> string \<Rightarrow> string \<Rightarrow> bool" where
  "domainWrite ident m p \<longleftrightarrow> startsWith p (''/tenants/'' @ ident @ ''/domains'')"

lemma startsWith_append [simp]: "startsWith (xs @ ys) xs"
  by (simp add: startsWith_def)

lemma addressed_domains:
  "keeps (addressed (domainWrite ident)) (loadTenantDomains ident)"
  "keeps (addressed (domainWrite ident)) (createTenantDomain ident d)"
  "keeps (addressed (domainWrite ident)) (verifyTenantDomain ident i t)"
  "keeps (addressed (domainWrite ident)) (deleteTenantDomain ident i)"
proof -
  have w: "domainWrite ident m (''/tenants/'' @ ident @ ''/domains'' @ rest)" for m rest
    using startsWith_append [of "''/tenants/'' @ ident @ ''/domains''" rest] by (simp add: domainWrite_def)
  note d = loadTenantDomains_def fetchTenantDomains_def api_listTenantDomains_def createTenantDomain_def
    createTenantDomainMapping_def api_createTenantDomain_def verifyTenantDomain_def verifyTenantDomainMapping_def
    api_verifyTenantDomain_def deleteTenantDomain_def deleteTenantDomainMapping_def api_deleteTenantDomain_def
  show "keeps (addressed (domainWrite ident)) (loadTenantDomains ident)"
    unfolding d by (rule addressed_optional) (use w [of _ "[]"] in simp)
  show "keeps (addressed (domainWrite ident)) (createTenantDomain ident d)"
    unfolding d by (rule addressed_optional) (use w [of _ "[]"] in simp)
  show "keeps (addressed (domainWrite ident)) (verifyTenantDomain ident i t)"
    unfolding d by (rule addressed_optional) (use w [of _ "''/'' @ encodeURIComponent i @ ''/verify''"] in simp)
  show "keeps (addressed (domainWrite ident)) (deleteTenantDomain ident i)"
    unfolding d by (rule addressed_optional) (use w [of _ "''/'' @ encodeURIComponent i"] in simp)
qed

lemma addressed_loadDomains: "addressed (domainWrite ident) w (snd (loadDomainsData ident s w))"
  by (cases "ident = []") (auto simp: loadDomainsData_def addressed_refl intro: addressed_answered addressed_domains)

text \<open>The three actions have one form.\<close>

datatype domain_action = AddDomain | VerifyDomain DomainMapping | RemoveDomain DomainMapping

primrec domainAct :: "string \<Rightarrow> domain_action \<Rightarrow> domains_page handler" where
  "domainAct ident AddDomain = addDomain ident"
| "domainAct ident (VerifyDomain d) = verifyDomain ident d"
| "domainAct ident (RemoveDomain d) = removeDomain ident d"

definition domainsIdle :: "domains_page \<Rightarrow> bool" where
  "domainsIdle s \<longleftrightarrow> \<not> dp_adding s \<and> dp_verifyingId s = None \<and> dp_removingId s = None"

lemma domainsLoaded_idle [simp]: "domainsIdle (domainsLoaded r s) = domainsIdle s"
  "dp_adding (domainsLoaded r s) = dp_adding s" "dp_verifyingId (domainsLoaded r s) = dp_verifyingId s"
  "dp_removingId (domainsLoaded r s) = dp_removingId s"
  by (auto simp: domainsLoaded_def domainsIdle_def split: sum.split OptionalEndpointResult.split)

text \<open>
  Adding, verifying and removing a custom domain send messages only about the domains of
  this tenant and leave nothing busy; and when the action has not succeeded, or the list could
  not be loaded again after it, an error is left for the page to show.
\<close>

theorem domain_actions_settle:
  assumes "domainsIdle s" and "domainAct ident a s w = (s', w')" and "ident \<noteq> []"
  shows "addressed (domainWrite ident) w w' \<and> domainsIdle s' \<and>
    (if dp_error s' = None then \<exists>w1. w' = snd (loadTenantDomains ident w1) \<and> (\<exists>r. fst (loadTenantDomains ident w1) = Inr r)
     else True)"
proof -
  have key: "addressed (domainWrite ident) w w' \<and> domainsIdle s' \<and>
      (dp_error s' = None \<longrightarrow> (\<exists>w1. w' = snd (loadTenantDomains ident w1) \<and> (\<exists>r. fst (loadTenantDomains ident w1) = Inr r)))"
    if h: "attempt call (domainError m) (\<lambda>x s. loadDomainsData ident (g s)) (\<lambda>e. domainError (f e)) lastly s0 w = (s', w')"
      and call: "keeps (addressed (domainWrite ident)) call"
      and idle: "\<And>s1. dp_adding s1 = dp_adding s0 \<and> dp_verifyingId s1 = dp_verifyingId s0 \<and> dp_removingId s1 = dp_removingId s0 \<Longrightarrow>
        domainsIdle (lastly s1)"
      and keep: "\<And>s1. dp_error (lastly s1) = dp_error s1"
      and g: "\<And>s1. dp_adding (g s1) = dp_adding s1 \<and> dp_verifyingId (g s1) = dp_verifyingId s1 \<and> dp_removingId (g s1) = dp_removingId s1"
    for call :: "'a OptionalEndpointResult io" and m f lastly s0 g
  proof -
    have "addressed (domainWrite ident) w w'"
      by (rule addressed_attemptD [OF h call]) (rule addressed_loadDomains)
    moreover from h have "domainsIdle s' \<and>
        (dp_error s' = None \<longrightarrow> (\<exists>w1. w' = snd (loadTenantDomains ident w1) \<and> (\<exists>r. fst (loadTenantDomains ident w1) = Inr r)))"
    proof (cases rule: attempt_cases)
      case missing
      then show ?thesis using idle keep by (simp add: domainError_def)
    next
      case (failed e)
      then show ?thesis using idle keep by (simp add: domainError_def)
    next
      case (ok x w1 s1)
      obtain r where r: "loadTenantDomains ident w1 = (r, w')" "s1 = domainsLoaded r ((g s0)\<lparr>dp_loading := True\<rparr>)"
        using ok(2) assms(3) by (auto simp: loadDomainsData_def answered_def split: prod.splits)
      have "domainsIdle s'" unfolding ok(3) by (rule idle) (use g r(2) in simp)
      moreover have "\<exists>x. r = Inr x" if "dp_error s' = None"
        using that by (cases r) (auto simp: ok(3) keep r(2) domainsLoaded_def)
      ultimately show ?thesis using r(1) by (metis fst_conv snd_conv)
    qed
    ultimately show ?thesis by blast
  qed
  note i = assms(1) [unfolded domainsIdle_def]
  show ?thesis
  proof (cases a)
    case AddDomain
    from assms(2,3) have "attempt (createTenantDomain ident (trim (dp_input s)))
          (domainError (featureUnavailableMessage ''Adding custom domains'' None))
          (\<lambda>_ s. loadDomainsData ident (s\<lparr>dp_input := []\<rparr>))
          (\<lambda>err. domainError (toTenantDetailErrorMessage err ''Failed to add domain''))
          (\<lambda>s. s\<lparr>dp_adding := False\<rparr>)
          (s\<lparr>dp_adding := True, dp_error := None\<rparr>) w = (s', w')" by (simp add: AddDomain addDomain_def)
    from key [OF this addressed_domains(2)] i show ?thesis by (auto simp: domainsIdle_def)
  next
    case (VerifyDomain d)
    from assms(2,3) have "attempt (verifyTenantDomain ident (dm_id d) (Some (dm_verification_token d)))
          (domainError (featureUnavailableMessage ''Domain verification'' None))
          (\<lambda>_ s. loadDomainsData ident ((\<lambda>s. s) s))
          (\<lambda>err. domainError (toTenantDetailErrorMessage err ''Failed to verify domain''))
          (\<lambda>s. s\<lparr>dp_verifyingId := None\<rparr>)
          (s\<lparr>dp_verifyingId := Some (dm_id d), dp_error := None\<rparr>) w = (s', w')" by (simp add: VerifyDomain verifyDomain_def)
    from key [OF this addressed_domains(3)] i show ?thesis by (auto simp: domainsIdle_def)
  next
    case (RemoveDomain d)
    from assms(2,3) have "attempt (deleteTenantDomain ident (dm_id d))
          (domainError (featureUnavailableMessage ''Removing custom domains'' None))
          (\<lambda>_ s. loadDomainsData ident ((\<lambda>s. s) s))
          (\<lambda>err. domainError (toTenantDetailErrorMessage err ''Failed to remove domain''))
          (\<lambda>s. s\<lparr>dp_removingId := None\<rparr>)
          (s\<lparr>dp_removingId := Some (dm_id d), dp_error := None\<rparr>) w = (s', w')" by (simp add: RemoveDomain removeDomain_def)
    from key [OF this addressed_domains(4)] i show ?thesis by (auto simp: domainsIdle_def)
  qed
qed

theorem domain_actions_settle_witness:
  "domainsIdle (fst (addDomain ''t1'' (initialDomains\<lparr>dp_input := ''erp.acme.example''\<rparr>) freshBrowser))"
  using domain_actions_settle [of "initialDomains\<lparr>dp_input := ''erp.acme.example''\<rparr>" "''t1''" AddDomain freshBrowser]
  by (simp add: domainsIdle_def initialDomains_def) (metis prod.collapse)

subsection \<open>Members: outcomes\<close>

text \<open>
  Refreshing the page reloads the list but keeps the error of a failed action, which is shown in
  place of the list and of every control that would clear it: the page stays on the error until
  it is opened anew.
\<close>

lemma refresh_keeps_action_error: "mp_actionError (fst (refreshMembersPage ident s w)) = mp_actionError s"
  by (simp add: refreshMembersPage_def onMembers_def fst_within)

lemma members_error_sticks:
  assumes "mp_actionError s = Some e" and "e \<noteq> []"
    and "fold (\<lambda>_ p. refreshMembersPage ident (fst p) (snd p)) refreshes (s, w) = (s', w')"
  shows "sv_error (membersView s') = Some e \<and> sectionContent f t row (membersView s') \<noteq> RowsShown rows"
proof -
  have "mp_actionError s' = Some e"
    using assms(1,3) by (induction refreshes arbitrary: s w) (auto, metis fst_conv refresh_keeps_action_error surj_pair)
  then show ?thesis using assms(2) by (simp add: membersView_def Let_def sectionContent_rows)
qed

definition memberWrite :: "string \<Rightarrow> string \<Rightarrow> string \<Rightarrow> bool" where
  "memberWrite ident m p \<longleftrightarrow> m = ''GET'' \<or> startsWith p (''/tenants/'' @ ident @ ''/members'')"

lemma addressed_membersCalls:
  "keeps (addressed (memberWrite ident)) (loadTenantMembers ident)"
  "keeps (addressed (memberWrite ident)) (loadTenantDetail ident)"
  "keeps (addressed (memberWrite ident)) (inviteTenantMember ident email role)"
  "keeps (addressed (memberWrite ident)) (updateTenantMemberRole ident i role)"
  "keeps (addressed (memberWrite ident)) (removeTenantMember ident i)"
proof -
  have w: "memberWrite ident m (''/tenants/'' @ ident @ ''/members'' @ rest)" for m rest
    using startsWith_append [of "''/tenants/'' @ ident @ ''/members''" rest] by (simp add: memberWrite_def)
  have g: "memberWrite ident ''GET'' p" for p by (simp add: memberWrite_def)
  note d = loadTenantMembers_def fetchTenantMembers_def api_listTenantMembers_def loadTenantDetail_def fetchTenantById_def
    api_getTenant_def inviteTenantMember_def inviteTenantWorkspaceMember_def api_inviteTenantMember_def
    updateTenantMemberRole_def updateTenantWorkspaceMemberRole_def api_updateTenantMemberRole_def
    removeTenantMember_def removeTenantWorkspaceMember_def api_removeTenantMember_def
  show "keeps (addressed (memberWrite ident)) (loadTenantMembers ident)"
    unfolding d by (rule addressed_optional) (simp add: g)
  show "keeps (addressed (memberWrite ident)) (loadTenantDetail ident)"
    unfolding d by (rule addressed_request) (simp add: g)
  show "keeps (addressed (memberWrite ident)) (inviteTenantMember ident email role)"
    unfolding d by (rule addressed_optional) (use w [of _ "[]"] in simp)
  show "keeps (addressed (memberWrite ident)) (updateTenantMemberRole ident i role)"
    unfolding d by (rule addressed_optional) (use w [of _ "''/'' @ encodeURIComponent i"] in simp)
  show "keeps (addressed (memberWrite ident)) (removeTenantMember ident i)"
    unfolding d by (rule addressed_optional) (use w [of _ "''/'' @ encodeURIComponent i"] in simp)
qed

lemma snd_onMembers: "snd (onMembers h s w) = snd (h (mp_members s) w)"
  and snd_onTenant: "snd (onTenant h' s w) = snd (h' (mp_tenant s) w)"
  by (simp_all add: onMembers_def onTenant_def snd_within)

lemma addressed_refetch:
  "addressed (memberWrite ident) w (snd (refetchMembers ident q w))"
  "addressed (memberWrite ident) w (snd (refetchTenant ident t w))"
  unfolding refetchMembers_def refetchTenant_def
  by (intro addressed_onlyWhen addressed_answered addressed_membersCalls)+

lemma addressed_refreshMembersPage: "addressed (memberWrite ident) w (snd (refreshMembersPage ident s w))"
  unfolding refreshMembersPage_def snd_onMembers refreshMembers_def
  by (intro addressed_afterwards addressed_refetch)

lemma addressed_invalidate: "addressed (memberWrite ident) w (snd (invalidateMembersAndRoute ident s w))"
  unfolding invalidateMembersAndRoute_def
  by (intro addressed_onlyWhen addressed_afterwards addressed_refreshMembersPage)
     (simp_all add: snd_onMembers snd_onTenant addressed_refetch)

datatype member_action = Invite | SetRole TenantMember string | Remove TenantMember

primrec memberAct :: "string \<Rightarrow> member_action \<Rightarrow> members_page handler" where
  "memberAct ident Invite = inviteMember ident"
| "memberAct ident (SetRole m role) = updateMember ident m role"
| "memberAct ident (Remove m) = removeMember ident m"

lemma actionError_invalidate: "mp_actionError (fst (invalidateMembersAndRoute ident s w)) = mp_actionError s"
proof -
  have "mp_actionError (fst (onMembers h s w)) = mp_actionError s" "mp_actionError (fst (onTenant h' s w)) = mp_actionError s"
    for h h' s w by (simp_all add: onMembers_def onTenant_def fst_within)
  then show ?thesis
    by (cases "ident = []") (simp_all add: invalidateMembersAndRoute_def fst_afterwards refreshMembersPage_def)
qed

text \<open>
  Inviting a member, changing a role and removing a member write only to the members of this
  tenant; the page keeps an error of the action exactly when the server has not carried it out.
\<close>

theorem member_actions_write_members:
  assumes "memberAct ident a s w = (s', w')" and "ident \<noteq> []"
  shows "addressed (memberWrite ident) w w' \<and>
    (mp_actionError s' = None \<longleftrightarrow>
      (case a of
         Invite \<Rightarrow> \<exists>m. fst (inviteTenantMember ident (trim (mp_inviteEmail s)) (mp_inviteRole s) w) = Inr (Supported m)
       | SetRole m role \<Rightarrow> \<exists>x. fst (updateTenantMemberRole ident (tm_id m) role w) = Inr (Supported x)
       | Remove m \<Rightarrow> \<exists>x. fst (removeTenantMember ident (tm_id m) w) = Inr (Supported x)))"
proof -
  have key: "addressed (memberWrite ident) w w' \<and> (mp_actionError s' = None \<longleftrightarrow> (\<exists>x. fst (call w) = Inr (Supported x)))"
    if h: "attempt call (memberError m) (\<lambda>x s. invalidateMembersAndRoute ident (g s)) (\<lambda>e. memberError (f e)) lastly s0 w = (s', w')"
      and call: "keeps (addressed (memberWrite ident)) call"
      and keep: "\<And>s1. mp_actionError (lastly s1) = mp_actionError s1" "\<And>s1. mp_actionError (g s1) = mp_actionError s1"
      and none: "mp_actionError s0 = None"
    for call :: "'a OptionalEndpointResult io" and m f lastly s0 g
  proof -
    have "addressed (memberWrite ident) w w'"
      by (rule addressed_attemptD [OF h call]) (rule addressed_invalidate)
    moreover from h have "mp_actionError s' = None \<longleftrightarrow> (\<exists>x. fst (call w) = Inr (Supported x))"
    proof (cases rule: attempt_cases)
      case (ok x w1 s1)
      have "mp_actionError s1 = None"
        using actionError_invalidate [of ident "g s0" w1] ok(2) keep(2) none by simp
      then show ?thesis using ok keep(1) by simp
    qed (simp_all add: memberError_def keep)
    ultimately show ?thesis by blast
  qed
  show ?thesis
  proof (cases a)
    case Invite
    from assms have "attempt (inviteTenantMember ident (trim (mp_inviteEmail s)) (mp_inviteRole s))
          (memberError (featureUnavailableMessage ''Inviting team members'' None))
          (\<lambda>_ s. invalidateMembersAndRoute ident (s\<lparr>mp_inviteEmail := []\<rparr>))
          (\<lambda>err. memberError (toTenantDetailErrorMessage err ''Failed to invite member''))
          (\<lambda>s. s\<lparr>mp_inviting := False\<rparr>)
          (s\<lparr>mp_inviting := True, mp_actionError := None\<rparr>) w = (s', w')" by (simp add: Invite inviteMember_def)
    from key [OF this addressed_membersCalls(3)] show ?thesis by (simp add: Invite)
  next
    case (SetRole m role)
    from assms have "attempt (updateTenantMemberRole ident (tm_id m) role)
          (memberError (featureUnavailableMessage ''Updating member roles'' None))
          (\<lambda>_ s. invalidateMembersAndRoute ident ((\<lambda>s. s) s))
          (\<lambda>err. memberError (toTenantDetailErrorMessage err ''Failed to update member role''))
          (\<lambda>s. s\<lparr>mp_updatingId := None\<rparr>)
          (s\<lparr>mp_updatingId := Some (tm_id m), mp_actionError := None\<rparr>) w = (s', w')" by (simp add: SetRole updateMember_def)
    from key [OF this addressed_membersCalls(4)] show ?thesis by (simp add: SetRole)
  next
    case (Remove m)
    from assms have "attempt (removeTenantMember ident (tm_id m))
          (memberError (featureUnavailableMessage ''Removing team members'' None))
          (\<lambda>_ s. invalidateMembersAndRoute ident ((\<lambda>s. s) s))
          (\<lambda>err. memberError (toTenantDetailErrorMessage err ''Failed to remove member''))
          (\<lambda>s. s\<lparr>mp_removingId := None\<rparr>)
          (s\<lparr>mp_removingId := Some (tm_id m), mp_actionError := None\<rparr>) w = (s', w')" by (simp add: Remove removeMember_def)
    from key [OF this addressed_membersCalls(5)] show ?thesis by (simp add: Remove)
  qed
qed

theorem member_actions_write_members_witness:
  "mp_actionError (fst (inviteMember ''t1'' (initialMembers\<lparr>mp_inviteEmail := ''ann@acme.example''\<rparr>) freshBrowser)) \<noteq> None"
proof -
  let ?s = "initialMembers\<lparr>mp_inviteEmail := ''ann@acme.example''\<rparr>"
  have "case fst (inviteTenantMember ''t1'' (trim (mp_inviteEmail ?s)) (mp_inviteRole ?s) freshBrowser) of
      Inr (Supported x) \<Rightarrow> False | _ \<Rightarrow> True" by code_simp
  then show ?thesis
    using member_actions_write_members [of "''t1''" Invite ?s freshBrowser]
    by (auto split: sum.splits OptionalEndpointResult.splits) (metis prod.collapse)+
qed

end
