(* ===== verification/Subscription.thy ===== *)
theory Subscription
  imports Api_Endpoints
begin

section \<open>The plan catalogue\<close>

text \<open>
  \<^verbatim>\<open>saas-ui/domains/subscription\<close> (\<^verbatim>\<open>domain/planCatalog.ts\<close>, its use case and repository) and the
  option lists of \<^verbatim>\<open>domains/onboarding/components/PlanSelector.tsx\<close>. The currency format of the
  platform's locale data is the parameter \<open>currency\<close> of the definitions that print a price.
\<close>

record PlanCatalogItem =
  pc_id :: string
  pc_slug :: string
  pc_label :: string
  pc_monthlyPriceLabel :: string
  pc_monthlyPriceTzs :: int
  pc_description :: string
  pc_backupRetentionLabel :: string
  pc_supportLabel :: string
  pc_entitlements :: "string list"
  pc_selectableEntitlements :: "string list"
  pc_highlight :: "string option"

definition fallbackDescriptions :: "string \<Rightarrow> string option" where
  "fallbackDescriptions = map_of
     [(''starter'', ''Best when one team needs sales, stock, and invoicing moving this week.''),
      (''business'', ''For growing operations coordinating branches, field teams, or mobile-first workflows.''),
      (''enterprise'', ''For complex governance, multi-company rollout, and guided migration planning.'')]"

definition fallbackHighlights :: "string \<Rightarrow> string option" where
  "fallbackHighlights = map_of [(''business'', ''Best for growth'')]"

definition normalizePlanCatalog :: "(int \<Rightarrow> string) \<Rightarrow> PlanDetail \<Rightarrow> PlanCatalogItem" where
  "normalizePlanCatalog currency plan =
     (let slug = toLowerCase (pd_slug plan) in
      \<lparr>pc_id = pd_id plan, pc_slug = slug, pc_label = pd_display_name plan,
       pc_monthlyPriceLabel =
         (if pd_monthly_price_tzs plan > 0 then currency (pd_monthly_price_tzs plan) @ ''/month''
          else ''Custom pricing''),
       pc_monthlyPriceTzs = pd_monthly_price_tzs plan,
       pc_description = nullish (fallbackDescriptions slug) ''Plan for regulated, growing business operations.'',
       pc_backupRetentionLabel = intStr (pd_backup_retention_days plan) @ ''-day backups'',
       pc_supportLabel = replaceChar (CHR ''_'') (CHR '' '') (pd_support_channel plan),
       pc_entitlements = map pe_app_slug (pd_entitlements plan),
       pc_selectableEntitlements = map pe_app_slug (filter pe_selectable (pd_entitlements plan)),
       pc_highlight = fallbackHighlights slug\<rparr>)"

definition fallbackPlanCatalog :: "PlanCatalogItem list" where
  "fallbackPlanCatalog =
     [\<lparr>pc_id = ''starter'', pc_slug = ''starter'', pc_label = ''Starter'',
       pc_monthlyPriceLabel = ''TZS 125,000/month'', pc_monthlyPriceTzs = 125000,
       pc_description = the (fallbackDescriptions ''starter''),
       pc_backupRetentionLabel = ''7-day backups'', pc_supportLabel = ''email'',
       pc_entitlements = [''erpnext''], pc_selectableEntitlements = [], pc_highlight = None\<rparr>,
      \<lparr>pc_id = ''business'', pc_slug = ''business'', pc_label = ''Business'',
       pc_monthlyPriceLabel = ''TZS 380,000/month'', pc_monthlyPriceTzs = 380000,
       pc_description = the (fallbackDescriptions ''business''),
       pc_backupRetentionLabel = ''30-day backups'', pc_supportLabel = ''priority email'',
       pc_entitlements = [''erpnext'', ''crm'', ''hrms'', ''helpdesk'', ''lending'', ''payments''],
       pc_selectableEntitlements = [''crm'', ''hrms'', ''helpdesk'', ''lending'', ''payments''],
       pc_highlight = Some ''Best for growth''\<rparr>,
      \<lparr>pc_id = ''enterprise'', pc_slug = ''enterprise'', pc_label = ''Enterprise'',
       pc_monthlyPriceLabel = ''Custom pricing'', pc_monthlyPriceTzs = 0,
       pc_description = the (fallbackDescriptions ''enterprise''),
       pc_backupRetentionLabel = ''90-day backups'', pc_supportLabel = ''whatsapp + SLA'',
       pc_entitlements = [''erpnext'', ''crm'', ''hrms'', ''helpdesk'', ''lending'', ''payments'', ''lms'',
         ''frappe_whatsapp'', ''posawesome''],
       pc_selectableEntitlements = [], pc_highlight = None\<rparr>]"

definition listPublicPlans :: "PlanDetail list io" where
  "listPublicPlans = api_listPlans"

definition loadPublicPlanCatalog :: "(int \<Rightarrow> string) \<Rightarrow> PlanCatalogItem list io" where
  "loadPublicPlanCatalog currency =
     catching
       (await listPublicPlans (\<lambda>plans.
          if plans = [] then ret fallbackPlanCatalog
          else ret (map (normalizePlanCatalog currency) plans)))
       (\<lambda>e. ret fallbackPlanCatalog)"

subsection \<open>Options of the selector\<close>

record PlanOption =
  op_id :: string
  op_label :: string
  op_price :: string
  op_description :: string
  op_backupRetention :: string
  op_highlight :: "string option"
  op_controlTag :: string

record BusinessAppOption =
  ba_id :: string
  ba_label :: string
  ba_description :: string
  ba_profile :: string

definition PLAN_OPTIONS :: "PlanOption list" where
  "PLAN_OPTIONS =
     [\<lparr>op_id = ''starter'', op_label = ''Starter'', op_price = ''TZS 125,000/month'',
       op_description = ''Best when one team needs sales, stock, and invoicing moving this week.'',
       op_backupRetention = ''7-day backups'', op_highlight = None, op_controlTag = ''Daily essentials''\<rparr>,
      \<lparr>op_id = ''business'', op_label = ''Business'', op_price = ''TZS 380,000/month'',
       op_description = ''For growing operations coordinating branches, field teams, or mobile-first workflows.'',
       op_backupRetention = ''30-day backups'', op_highlight = Some ''Best for growth'',
       op_controlTag = ''Growth controls''\<rparr>,
      \<lparr>op_id = ''enterprise'', op_label = ''Enterprise'', op_price = ''Custom pricing'',
       op_description = ''For complex governance, multi-company rollout, and guided migration planning.'',
       op_backupRetention = ''90-day backups'', op_highlight = None,
       op_controlTag = ''Enterprise governance''\<rparr>]"

definition BUSINESS_APP_OPTIONS :: "BusinessAppOption list" where
  "BUSINESS_APP_OPTIONS =
     [\<lparr>ba_id = ''erpnext'', ba_label = ''Core Operations'',
       ba_description = ''Track stock, purchasing, sales, and core finance in one daily workspace.'',
       ba_profile = ''Operations''\<rparr>,
      \<lparr>ba_id = ''crm'', ba_label = ''CRM'',
       ba_description = ''Keep follow-ups and deal stages clear for sales teams on the move.'',
       ba_profile = ''Sales''\<rparr>,
      \<lparr>ba_id = ''hrms'', ba_label = ''HRMS'',
       ba_description = ''Manage attendance, leave, and payroll cycles with fewer manual handoffs.'',
       ba_profile = ''People''\<rparr>,
      \<lparr>ba_id = ''helpdesk'', ba_label = ''Helpdesk'',
       ba_description = ''Route customer requests quickly so small support teams can keep SLAs visible.'',
       ba_profile = ''Support''\<rparr>,
      \<lparr>ba_id = ''lending'', ba_label = ''Lending'',
       ba_description = ''Run approvals and repayment tracking for lending operations with audit clarity.'',
       ba_profile = ''Finance''\<rparr>,
      \<lparr>ba_id = ''payments'', ba_label = ''Payments'',
       ba_description = ''Keep collections and reconciliation work structured for daily cashflow visibility.'',
       ba_profile = ''Collections''\<rparr>]"

definition getPlanMeta :: "string \<Rightarrow> PlanOption option" where
  "getPlanMeta plan = find (\<lambda>option. toLowerCase (op_id option) = toLowerCase plan) PLAN_OPTIONS"

definition mapPlanCatalogToOptions :: "PlanCatalogItem list \<Rightarrow> PlanOption list" where
  "mapPlanCatalogToOptions catalog =
     map (\<lambda>plan. \<lparr>op_id = pc_slug plan, op_label = pc_label plan, op_price = pc_monthlyPriceLabel plan,
        op_description = pc_description plan, op_backupRetention = pc_backupRetentionLabel plan,
        op_highlight = pc_highlight plan, op_controlTag = pc_supportLabel plan\<rparr>) catalog"

definition capitalize :: "string \<Rightarrow> string" where
  "capitalize part = toUpperCase (take 1 part) @ drop 1 part"

definition mapSelectableEntitlementsToBusinessApps ::
  "string list \<Rightarrow> BusinessAppOption list \<Rightarrow> BusinessAppOption list" where
  "mapSelectableEntitlementsToBusinessApps selectableEntitlements fallback =
     (if selectableEntitlements = [] then fallback
      else
        map (\<lambda>appSlug.
          case find (\<lambda>item. ba_id item = appSlug) fallback of
            Some fallbackOption \<Rightarrow> fallbackOption
          | None \<Rightarrow>
              (let label = joinWith '' '' (map capitalize (splitOn ''_'' appSlug)) in
               \<lparr>ba_id = appSlug, ba_label = label,
                ba_description = label @ '' focus pack for business workflows.'',
                ba_profile = ''Business''\<rparr>))
          selectableEntitlements)"

definition resolvedPlanOptions :: "PlanOption list \<Rightarrow> PlanOption list" where
  "resolvedPlanOptions planOptions = (if planOptions \<noteq> [] then planOptions else PLAN_OPTIONS)"

definition selectedApp :: "string \<Rightarrow> BusinessAppOption list \<Rightarrow> BusinessAppOption" where
  "selectedApp chosenApp businessAppOptions =
     (let resolvedBusinessAppOptions =
            (if businessAppOptions \<noteq> [] then businessAppOptions else BUSINESS_APP_OPTIONS) in
      if chosenApp = [] then hd resolvedBusinessAppOptions
      else (case find (\<lambda>option. ba_id option = chosenApp) resolvedBusinessAppOptions of
              Some option \<Rightarrow> option | None \<Rightarrow> hd resolvedBusinessAppOptions))"

subsection \<open>Facts\<close>

lemma selectedApp_listed:
  "selectedApp chosen options \<in> set (if options \<noteq> [] then options else BUSINESS_APP_OPTIONS)"
proof -
  have f: "find P xs = Some x \<Longrightarrow> x \<in> set xs" for P :: "BusinessAppOption \<Rightarrow> bool" and xs x
    by (auto simp: find_Some_iff)
  have "BUSINESS_APP_OPTIONS \<noteq> []" by (simp add: BUSINESS_APP_OPTIONS_def)
  then show ?thesis
    by (auto simp: selectedApp_def Let_def split: option.split dest: f)
qed

lemma business_app_ids:
  "map ba_id (mapSelectableEntitlementsToBusinessApps es fallback) =
    (if es = [] then map ba_id fallback else es)"
proof (cases "es = []")
  case True
  then show ?thesis by (simp add: mapSelectableEntitlementsToBusinessApps_def)
next
  case False
  have "ba_id (case find (\<lambda>item. ba_id item = e) fallback of Some x \<Rightarrow> x
      | None \<Rightarrow> let label = joinWith '' '' (map capitalize (splitOn ''_'' e)) in
          \<lparr>ba_id = e, ba_label = label, ba_description = label @ '' focus pack for business workflows.'',
           ba_profile = ''Business''\<rparr>) = e" for e
    by (auto simp: find_Some_iff Let_def split: option.split)
  with False show ?thesis
    by (simp add: mapSelectableEntitlementsToBusinessApps_def comp_def)
qed

text \<open>
  The plan catalogue always loads and is never empty: it is the server's plans, one item
  for each in the same order with lower-case slugs, when the server lists any, and the built-in
  catalogue when the list is empty or the request fails; and what can be selected of an item is
  part of what it contains.
\<close>

theorem loadPublicPlanCatalog_total:
  "\<exists>c. fst (loadPublicPlanCatalog currency w) = Inr c \<and> c \<noteq> [] \<and>
     (case fst (api_listPlans w) of
        Inl e \<Rightarrow> c = fallbackPlanCatalog
      | Inr plans \<Rightarrow> if plans = [] then c = fallbackPlanCatalog
          else map pc_slug c = map (toLowerCase \<circ> pd_slug) plans) \<and>
     list_all (\<lambda>p. set (pc_selectableEntitlements p) \<subseteq> set (pc_entitlements p)) c"
proof -
  have norm: "map pc_slug (map (normalizePlanCatalog currency) ps) = map (toLowerCase \<circ> pd_slug) ps"
    "list_all (\<lambda>p. set (pc_selectableEntitlements p) \<subseteq> set (pc_entitlements p)) (map (normalizePlanCatalog currency) ps)"
    for ps by (auto simp: normalizePlanCatalog_def Let_def list_all_iff)
  have fb: "list_all (\<lambda>p. set (pc_selectableEntitlements p) \<subseteq> set (pc_entitlements p)) fallbackPlanCatalog"
    "fallbackPlanCatalog \<noteq> []" by (simp_all add: fallbackPlanCatalog_def)
  show ?thesis
    using norm fb
    by (cases "api_listPlans w")
       (auto simp: loadPublicPlanCatalog_def listPublicPlans_def await_def catching_def ret_def split: sum.split)
qed

end
