(* ===== verification/Tenant_Billing.thy ===== *)
theory Tenant_Billing
  imports Tenant_Team Subscription Onboarding_Flow
begin

section \<open>The pages of a tenant: billing\<close>

text \<open>
  \<^verbatim>\<open>billing/page.tsx\<close> with \<^verbatim>\<open>TenantSubscriptionSection.tsx\<close>: the choice of a plan behind a
  confirmation, the renewal of a payment link, and the cards of the subscription. The choice is
  set from the tenant only when the page is mounted.
\<close>

record billing_page =
  bp_tenant :: "Tenant query_state"
  bp_subscription :: "TenantSubscription OptionalEndpointResult query_state"
  bp_planChoice :: string
  bp_planAppChoice :: string
  bp_planBusy :: bool
  bp_planNotice :: "string option"
  bp_planError :: "string option"
  bp_plans :: "PlanCatalogItem list"
  bp_plansError :: "string option"
  bp_confirmPlanOpen :: bool
  bp_retryBusy :: bool
  bp_retryError :: "string option"
  bp_opened :: "string list"

text \<open>
  The page as it is mounted; the queries may already have data of an earlier page. The links the
  page opens in new tabs are recorded in \<open>bp_opened\<close>.
\<close>

definition mountBilling ::
  "Tenant query_state \<Rightarrow> TenantSubscription OptionalEndpointResult query_state \<Rightarrow> billing_page" where
  "mountBilling t u =
     \<lparr>bp_tenant = t, bp_subscription = u,
      bp_planChoice = (case qs_data t of Some x \<Rightarrow> tn_plan x | None \<Rightarrow> ''starter''),
      bp_planAppChoice = orElse (Option.bind (qs_data t) tn_chosen_app)
        (orElse (case BUSINESS_APP_OPTIONS of [] \<Rightarrow> None | b # _ \<Rightarrow> Some (ba_id b)) ''crm''),
      bp_planBusy = False, bp_planNotice = None, bp_planError = None, bp_plans = fallbackPlanCatalog,
      bp_plansError = None, bp_confirmPlanOpen = False, bp_retryBusy = False, bp_retryError = None, bp_opened = []\<rparr>"

definition plansLoaded :: "exn + PlanCatalogItem list \<Rightarrow> billing_page \<Rightarrow> billing_page" where
  "plansLoaded r s =
     (case r of Inr loaded \<Rightarrow> s\<lparr>bp_plans := loaded, bp_plansError := None\<rparr>
      | Inl err \<Rightarrow> s\<lparr>bp_plansError := Some (toTenantDetailErrorMessage err ''Failed to load plan pricing.'')\<rparr>)"

definition plansEffect :: "(int \<Rightarrow> string) \<Rightarrow> billing_page handler" where
  "plansEffect currency = answered (loadPublicPlanCatalog currency) plansLoaded"

definition billingTenant :: "string \<Rightarrow> billing_page handler" where
  "billingTenant ident = within bp_tenant (\<lambda>q s. s\<lparr>bp_tenant := q\<rparr>) (loadTenant ident)"

definition billingSubscription :: "string \<Rightarrow> billing_page handler" where
  "billingSubscription ident = within bp_subscription (\<lambda>q s. s\<lparr>bp_subscription := q\<rparr>) (loadSubscription ident)"

definition refreshBilling :: "string \<Rightarrow> billing_page handler" where
  "refreshBilling ident = afterwards (billingSubscription ident) (billingTenant ident)"

definition planNamed :: "string \<Rightarrow> PlanCatalogItem list \<Rightarrow> PlanCatalogItem option" where
  "planNamed name ps = find (\<lambda>p. pc_slug p = name \<or> pc_id p = name) ps"

definition currentPlan :: "billing_page \<Rightarrow> PlanCatalogItem option" where
  "currentPlan s = (case qs_data (bp_tenant s) of Some t \<Rightarrow> planNamed (tn_plan t) (bp_plans s) | None \<Rightarrow> None)"

definition chosenPlan :: "billing_page \<Rightarrow> PlanCatalogItem option" where
  "chosenPlan s = planNamed (bp_planChoice s) (bp_plans s)"

definition isDowngrade :: "billing_page \<Rightarrow> bool" where
  "isDowngrade s =
     (case (currentPlan s, chosenPlan s) of
        (Some current, Some chosen) \<Rightarrow> pc_monthlyPriceTzs chosen < pc_monthlyPriceTzs current
      | _ \<Rightarrow> False)"

definition subscriptionStatus :: "subscription_view \<Rightarrow> string" where
  "subscriptionStatus v = toLowerCase (case sb_subscription v of Some u \<Rightarrow> sub_status u | None \<Rightarrow> [])"

definition showPaymentRetry :: "billing_page \<Rightarrow> bool" where
  "showPaymentRetry s =
     (let v = useTenantSubscriptionData (bp_subscription s) in
      sb_supported v \<and> subscriptionStatus v \<in> set [''past_due'', ''pending''])"

definition choosePlan :: "string \<Rightarrow> billing_page \<Rightarrow> billing_page" where
  "choosePlan plan s = s\<lparr>bp_planChoice := plan\<rparr>"

definition chooseApp :: "string \<Rightarrow> billing_page \<Rightarrow> billing_page" where
  "chooseApp app s = s\<lparr>bp_planAppChoice := app\<rparr>"

definition openPlanConfirm :: "billing_page \<Rightarrow> billing_page" where
  "openPlanConfirm s = (if bp_planBusy s then s else s\<lparr>bp_confirmPlanOpen := True\<rparr>)"

text \<open>The dialog cannot be left, and its button not pressed, while it is busy.\<close>

definition cancelPlanConfirm :: "billing_page \<Rightarrow> billing_page" where
  "cancelPlanConfirm s = (if bp_planBusy s then s else s\<lparr>bp_confirmPlanOpen := False\<rparr>)"

definition planApp :: "billing_page \<Rightarrow> string option" where
  "planApp s = (if bp_planChoice s = ''business'' then Some (bp_planAppChoice s) else None)"

definition submitPlanChange :: "string \<Rightarrow> billing_page handler" where
  "submitPlanChange ident s w =
     (case qs_data (bp_tenant s) of None \<Rightarrow> (s, w)
      | Some t \<Rightarrow>
          attempt (updateTenantPlanDetails (tn_id t) (bp_planChoice s) (planApp s))
            (\<lambda>s. s\<lparr>bp_planError := Some (featureUnavailableMessage ''Changing your plan'' None)\<rparr>)
            (\<lambda>_ s. afterwards (billingTenant ident) (billingSubscription ident)
               (s\<lparr>bp_planNotice := Some ''Tenant plan updated successfully.'', bp_confirmPlanOpen := False\<rparr>))
            (\<lambda>err s. s\<lparr>bp_planError := Some (errorText err ''Failed to update tenant plan.'')\<rparr>)
            (\<lambda>s. s\<lparr>bp_planBusy := False\<rparr>)
            (s\<lparr>bp_planBusy := True, bp_planNotice := None, bp_planError := None\<rparr>) w)"

definition paymentLink :: "TenantCreateResponse \<Rightarrow> billing_page \<Rightarrow> billing_page" where
  "paymentLink x s =
     (if truthyStr (cr_checkout_url x)
      then s\<lparr>bp_opened := bp_opened s @ [the (cr_checkout_url x)], bp_planNotice := Some ''Payment link opened in a new tab.''\<rparr>
      else s\<lparr>bp_planNotice := Some ''Payment link generated.''\<rparr>)"

definition retryPayment :: "string \<Rightarrow> billing_page handler" where
  "retryPayment ident s w =
     (case qs_data (bp_tenant s) of None \<Rightarrow> (s, w)
      | Some t \<Rightarrow>
          attempt (renewTenantCheckoutDetail (tn_id t))
            (\<lambda>s. s\<lparr>bp_retryError := Some (featureUnavailableMessage ''Renewing the payment link'' None)\<rparr>)
            (\<lambda>x s. billingSubscription ident (paymentLink x s))
            (\<lambda>err s. s\<lparr>bp_retryError := Some (toTenantDetailErrorMessage err ''Failed to generate payment link.'')\<rparr>)
            (\<lambda>s. s\<lparr>bp_retryBusy := False\<rparr>)
            (s\<lparr>bp_retryBusy := True, bp_retryError := None\<rparr>) w)"

subsection \<open>What the page shows\<close>

definition MIDDLE_DOT :: string where
  "MIDDLE_DOT = [CHR 0xC2, CHR 0xB7]"

definition planCaption :: "billing_page \<Rightarrow> string" where
  "planCaption s =
     ''Current plan: '' @ (case qs_data (bp_tenant s) of Some t \<Rightarrow> tn_plan t | None \<Rightarrow> EM_DASH) @
     (case Option.bind (qs_data (bp_tenant s)) tn_chosen_app of
        Some app \<Rightarrow> if app \<noteq> [] then '' '' @ MIDDLE_DOT @ '' Focus app: '' @ app else []
      | None \<Rightarrow> [])"

definition planMenu :: "(int \<Rightarrow> string) \<Rightarrow> billing_page \<Rightarrow> (string \<times> string) list" where
  "planMenu price s =
     map (\<lambda>p. (pc_slug p, pc_label p @ '' '' @ EM_DASH @ '' TZS '' @ price (pc_monthlyPriceTzs p) @ ''/mo'')) (bp_plans s)"

definition appMenu :: "billing_page \<Rightarrow> (string \<times> string) list" where
  "appMenu s = (if bp_planChoice s = ''business'' then map (\<lambda>b. (ba_id b, ba_label b)) BUSINESS_APP_OPTIONS else [])"

definition planButton :: "billing_page \<Rightarrow> string \<times> bool" where
  "planButton s = (if bp_planBusy s then ''Updating...'' else ''Update tenant plan'', bp_planBusy s)"

definition planAlerts :: "billing_page \<Rightarrow> string list" where
  "planAlerts s =
     [e. e \<leftarrow> [orElse (bp_plansError s) [],
        if isDowngrade s then ''Downgrading may reduce backup retention and remove access to some features.'' else [],
        orElse (bp_planNotice s) [], orElse (bp_planError s) []], e \<noteq> []]"

text \<open>The cards of the subscription: a heading with its two lines.\<close>

datatype subscription_section =
  SubscriptionMissing string | SubscriptionCards "(string \<times> string \<times> string) list" | SubscriptionLoading string

definition subscriptionCards :: "(string \<Rightarrow> string option) \<Rightarrow> TenantSubscription \<Rightarrow> (string \<times> string \<times> string) list" where
  "subscriptionCards fmt u =
     [(''Plan'', pd_display_name (sub_plan u), ''Isolation: '' @ pd_isolation_model (sub_plan u)),
      (''Status'', sub_status u, ''Provider: '' @ nullish (sub_payment_provider u) EM_DASH),
      (''Billing period'',
        formatTimestamp fmt (sub_current_period_start u) @ '' '' @ [CHR 0xE2, CHR 0x86, CHR 0x92] @ '' '' @
          formatTimestamp fmt (sub_current_period_end u),
        ''Next renewal: '' @ formatTimestamp fmt (sub_current_period_end u)),
      (''Selected app'', nullish (sub_selected_app u) EM_DASH, ''Support: '' @ pd_support_channel (sub_plan u)),
      (''Trial ends'', formatTimestamp fmt (sub_trial_ends_at u), []),
      (''Cancelled at'', formatTimestamp fmt (sub_cancelled_at u), [])]"

definition subscriptionSection :: "(string \<Rightarrow> string option) \<Rightarrow> subscription_view \<Rightarrow> string option \<times> subscription_section" where
  "subscriptionSection fmt v =
     (if truthyStr (sb_error v) then sb_error v else None,
      if \<not> sb_supported v then SubscriptionMissing ''Subscription details''
      else case sb_subscription v of Some u \<Rightarrow> SubscriptionCards (subscriptionCards fmt u)
        | None \<Rightarrow> SubscriptionLoading ''Loading subscription details...'')"

subsection \<open>The actions\<close>

lemma addressed_billing:
  assumes "\<And>p. P ''GET'' p"
  shows "addressed P w (snd (billingTenant ident s w))" and "addressed P w (snd (billingSubscription ident s w))"
  unfolding billingTenant_def billingSubscription_def
  by (intro addressed_within addressed_loads assms)+

lemma addressed_planCalls:
  "P ''PATCH'' (''/tenants/'' @ i) \<Longrightarrow> keeps (addressed P) (updateTenantPlanDetails i plan app)"
  "P ''POST'' (''/tenants/'' @ i @ ''/checkout/renew'') \<Longrightarrow> keeps (addressed P) (renewTenantCheckoutDetail i)"
  unfolding updateTenantPlanDetails_def updateTenantWorkspace_def api_updateTenant_def renewTenantCheckoutDetail_def
    renewTenantCheckoutLink_def api_renewCheckout_def
  by (rule addressed_optional, simp)+

text \<open>The loads touch nothing but their query.\<close>

lemma billing_loads:
  "fst (billingTenant ident s w) = s\<lparr>bp_tenant := fst (loadTenant ident (bp_tenant s) w)\<rparr>"
  "fst (billingSubscription ident s w) = s\<lparr>bp_subscription := fst (loadSubscription ident (bp_subscription s) w)\<rparr>"
  by (simp_all add: billingTenant_def billingSubscription_def fst_within)

text \<open>
  A change of plan sends, apart from reads, only the update of the tenant shown, with the
  plan chosen and with an app exactly for the plan business; the dialog closes, with a notice,
  exactly when the server has accepted it, and stays open with an error otherwise.
\<close>

theorem plan_change_confirmed:
  assumes "submitPlanChange ident s w = (s', w')" and "qs_data (bp_tenant s) = Some t" and "bp_confirmPlanOpen s"
  shows "addressed (\<lambda>m p. readsOnly m p \<or> m = ''PATCH'' \<and> p = ''/tenants/'' @ tn_id t) w w' \<and> \<not> bp_planBusy s' \<and>
    (if bp_planError s' = None
     then (\<exists>x. fst (updateTenantPlanDetails (tn_id t) (bp_planChoice s) (planApp s) w) = Inr (Supported x)) \<and>
       \<not> bp_confirmPlanOpen s' \<and> bp_planNotice s' \<noteq> None
     else bp_confirmPlanOpen s' \<and> bp_planNotice s' = None \<and> bp_tenant s' = bp_tenant s)"
proof -
  let ?P = "\<lambda>m p. readsOnly m p \<or> m = ''PATCH'' \<and> p = ''/tenants/'' @ tn_id t"
  from assms(1,2) have a: "attempt (updateTenantPlanDetails (tn_id t) (bp_planChoice s) (planApp s))
      (\<lambda>s. s\<lparr>bp_planError := Some (featureUnavailableMessage ''Changing your plan'' None)\<rparr>)
      (\<lambda>_ s. afterwards (billingTenant ident) (billingSubscription ident)
         (s\<lparr>bp_planNotice := Some ''Tenant plan updated successfully.'', bp_confirmPlanOpen := False\<rparr>))
      (\<lambda>err s. s\<lparr>bp_planError := Some (errorText err ''Failed to update tenant plan.'')\<rparr>)
      (\<lambda>s. s\<lparr>bp_planBusy := False\<rparr>)
      (s\<lparr>bp_planBusy := True, bp_planNotice := None, bp_planError := None\<rparr>) w = (s', w')"
    by (simp add: submitPlanChange_def)
  have "addressed ?P w w'"
    by (rule addressed_attemptD [OF a]) (intro addressed_planCalls addressed_afterwards addressed_billing; simp)+
  moreover from a have "\<not> bp_planBusy s' \<and> (if bp_planError s' = None
     then (\<exists>x. fst (updateTenantPlanDetails (tn_id t) (bp_planChoice s) (planApp s) w) = Inr (Supported x)) \<and>
       \<not> bp_confirmPlanOpen s' \<and> bp_planNotice s' \<noteq> None
     else bp_confirmPlanOpen s' \<and> bp_planNotice s' = None \<and> bp_tenant s' = bp_tenant s)"
  proof (cases rule: attempt_cases)
    case (ok x w1 s1)
    from ok(2) have "s1 = fst (afterwards (billingTenant ident) (billingSubscription ident)
         (s\<lparr>bp_planBusy := True, bp_planError := None, bp_planNotice := Some ''Tenant plan updated successfully.'',
            bp_confirmPlanOpen := False\<rparr>) w1)" by simp
    then show ?thesis using ok by (simp add: fst_afterwards billing_loads)
  qed (simp_all add: assms(3))
  ultimately show ?thesis by blast
qed

theorem plan_change_confirmed_witness:
  "let s = openPlanConfirm (mountBilling \<lparr>qs_data = Some (sampleTenant ''active'' None None), qs_error = None\<rparr> noData);
       s' = fst (submitPlanChange ''t1'' s freshBrowser) in
   bp_confirmPlanOpen s' \<and> \<not> bp_planBusy s' \<and> bp_planError s' \<noteq> None"
proof -
  let ?t = "sampleTenant ''active'' None None"
  let ?s = "openPlanConfirm (mountBilling \<lparr>qs_data = Some ?t, qs_error = None\<rparr> noData)"
  have o: "qs_data (bp_tenant ?s) = Some ?t" "bp_confirmPlanOpen ?s" by (simp_all add: openPlanConfirm_def mountBilling_def)
  have c: "case fst (updateTenantPlanDetails ''t1'' (bp_planChoice ?s) (planApp ?s) freshBrowser) of
      Inr (Supported x) \<Rightarrow> False | _ \<Rightarrow> True" by code_simp
  obtain s' w' where s': "submitPlanChange ''t1'' ?s freshBrowser = (s', w')" by (metis prod.collapse)
  have "tn_id ?t = ''t1''" by (simp add: sampleTenant_def)
  then have "bp_confirmPlanOpen s' \<and> \<not> bp_planBusy s' \<and> bp_planError s' \<noteq> None"
    using plan_change_confirmed [OF s' o] c by (auto split: if_splits)
  then show ?thesis using s' by (simp add: Let_def)
qed

text \<open>
  Renewing the payment opens at most one new tab, and the address it opens is the one of the
  server's answer; the page is not left busy, and has an error exactly when there was no answer.
\<close>

theorem payment_link_opened:
  assumes "retryPayment ident s w = (s', w')" and "qs_data (bp_tenant s) = Some t"
  shows "\<not> bp_retryBusy s' \<and>
    (case fst (renewTenantCheckoutDetail (tn_id t) w) of
       Inr (Supported x) \<Rightarrow> bp_retryError s' = None \<and>
         bp_opened s' = bp_opened s @ (if truthyStr (cr_checkout_url x) then [the (cr_checkout_url x)] else [])
     | _ \<Rightarrow> bp_retryError s' \<noteq> None \<and> bp_opened s' = bp_opened s)"
proof -
  from assms have a: "attempt (renewTenantCheckoutDetail (tn_id t))
      (\<lambda>s. s\<lparr>bp_retryError := Some (featureUnavailableMessage ''Renewing the payment link'' None)\<rparr>)
      (\<lambda>x s. billingSubscription ident (paymentLink x s))
      (\<lambda>err s. s\<lparr>bp_retryError := Some (toTenantDetailErrorMessage err ''Failed to generate payment link.'')\<rparr>)
      (\<lambda>s. s\<lparr>bp_retryBusy := False\<rparr>)
      (s\<lparr>bp_retryBusy := True, bp_retryError := None\<rparr>) w = (s', w')"
    by (simp add: retryPayment_def)
  then show ?thesis
  proof (cases rule: attempt_cases)
    case (ok x w1 s1)
    from ok(2) have "s1 = fst (billingSubscription ident (paymentLink x (s\<lparr>bp_retryBusy := True, bp_retryError := None\<rparr>)) w1)"
      by simp
    then show ?thesis using ok by (simp add: billing_loads paymentLink_def)
  qed simp_all
qed

theorem payment_link_opened_witness:
  "bp_opened (fst (retryPayment ''t1''
     (mountBilling \<lparr>qs_data = Some (sampleTenant ''active'' None None), qs_error = None\<rparr> noData) freshBrowser)) = []"
proof -
  let ?t = "sampleTenant ''active'' None None"
  let ?s = "mountBilling \<lparr>qs_data = Some ?t, qs_error = None\<rparr> noData"
  have o: "qs_data (bp_tenant ?s) = Some ?t" "bp_opened ?s = []" "tn_id ?t = ''t1''"
    by (simp_all add: mountBilling_def sampleTenant_def)
  have c: "case fst (renewTenantCheckoutDetail ''t1'' freshBrowser) of Inr (Supported x) \<Rightarrow> False | _ \<Rightarrow> True" by code_simp
  obtain s' w' where s': "retryPayment ''t1'' ?s freshBrowser = (s', w')" by (metis prod.collapse)
  then show ?thesis using payment_link_opened [OF s' o(1)] c o(2,3)
    by (simp split: sum.splits OptionalEndpointResult.splits)
qed

subsection \<open>Two shortcomings of the choice\<close>

text \<open>
  The page is mounted before its tenant is known, and nothing moves the choice to the tenant's
  plan when it arrives: a confirmation without a choice asks for the plan starter whatever the
  tenant's plan is. Without the choice the business app is likewise the first of the list.
\<close>

lemma plan_choice_not_loaded:
  assumes "s = mountBilling noData noData"
  shows "bp_planChoice (fst (billingTenant ident s w)) = ''starter'' \<and>
    bp_planChoice (fst (refreshBilling ident s w)) = ''starter''"
  by (simp add: assms billing_loads refreshBilling_def fst_afterwards mountBilling_def noData_def)

text \<open>
  A plan with custom pricing has the price nothing in the catalogue, so that choosing the largest
  plan is announced as a downgrade and leaving it is not.
\<close>

lemma enterprise_shown_as_downgrade:
  "isDowngrade (choosePlan ''enterprise'' (mountBilling \<lparr>qs_data = Some (sampleTenant ''active'' None None), qs_error = None\<rparr> noData)) \<and>
   \<not> isDowngrade (choosePlan ''starter'' (mountBilling
     \<lparr>qs_data = Some ((sampleTenant ''active'' None None)\<lparr>tn_plan := ''enterprise''\<rparr>), qs_error = None\<rparr> noData))"
  by code_simp

end
