(* ===== verification/Tenant_Support.thy ===== *)
theory Tenant_Support
  imports Tenant_Billing
begin

section \<open>The pages of a tenant: support notes\<close>

text \<open>
  \<^verbatim>\<open>support/page.tsx\<close>: internal notes about a tenant, for the role admin, with the state of their
  service level. How the browser reads a date is a parameter: \<open>parseDate\<close> gives the milliseconds
  of a text, \<open>None\<close> for an invalid date, and \<open>isoText\<close> prints them.
\<close>

record support_page =
  sp_currentUser :: "UserProfile option"
  sp_notes :: "SupportNote list"
  sp_supported :: bool
  sp_error :: "string option"
  sp_loading :: bool
  sp_category :: string
  sp_text :: string
  sp_owner :: string
  sp_contact :: string
  sp_dueAt :: string
  sp_status :: string
  sp_filter :: string
  sp_saving :: bool

definition initialSupport :: support_page where
  "initialSupport = \<lparr>sp_currentUser = None, sp_notes = [], sp_supported = True, sp_error = None, sp_loading = True,
     sp_category = ''note'', sp_text = [], sp_owner = [], sp_contact = [], sp_dueAt = [], sp_status = ''open'',
     sp_filter = ''all'', sp_saving = False\<rparr>"

definition supportAdmin :: "support_page \<Rightarrow> bool" where
  "supportAdmin s \<longleftrightarrow> map_option usr_role (sp_currentUser s) = Some ''admin''"

definition currentUserLoaded :: "exn + UserProfile \<Rightarrow> support_page \<Rightarrow> support_page" where
  "currentUserLoaded r s = s\<lparr>sp_currentUser := (case r of Inr user \<Rightarrow> Some user | Inl _ \<Rightarrow> None)\<rparr>"

definition notesLoaded :: "exn + SupportNote list OptionalEndpointResult \<Rightarrow> support_page \<Rightarrow> support_page" where
  "notesLoaded r s =
     (case r of
        Inr Unsupported \<Rightarrow> s\<lparr>sp_supported := False, sp_notes := [], sp_error := None, sp_loading := False\<rparr>
      | Inr (Supported ns) \<Rightarrow> s\<lparr>sp_supported := True, sp_notes := ns, sp_error := None, sp_loading := False\<rparr>
      | Inl err \<Rightarrow> s\<lparr>sp_error := Some (toTenantDetailErrorMessage err ''Failed to load support notes''), sp_loading := False\<rparr>)"

definition loadSupportNotesData :: "string \<Rightarrow> support_page handler" where
  "loadSupportNotesData ident s w =
     (if ident = [] \<or> \<not> supportAdmin s then (s\<lparr>sp_loading := False\<rparr>, w)
      else answered (loadTenantSupportNotes ident) notesLoaded (s\<lparr>sp_loading := True\<rparr>) w)"

text \<open>
  Mounting the page loads the user and, which does nothing without one, the notes; the notes are
  loaded again when the user's role has changed.
\<close>

definition supportEffects :: "string \<Rightarrow> support_page handler" where
  "supportEffects ident s w =
     (let role = (\<lambda>s. map_option usr_role (sp_currentUser s)) in
      case afterwards (loadSupportNotesData ident) (answered loadTenantCurrentUser currentUserLoaded) s w of
        (s1, w1) \<Rightarrow> onlyWhen (role s1 \<noteq> role s) (loadSupportNotesData ident) s1 w1)"

definition nonBlank :: "string \<Rightarrow> string option" where
  "nonBlank s = orNull (trim s)"

definition buildSupportNoteExtras :: "(string \<Rightarrow> int option) \<Rightarrow> (int \<Rightarrow> string) \<Rightarrow> support_page \<Rightarrow> SupportNoteExtras" where
  "buildSupportNoteExtras parseDate isoText s =
     \<lparr>se_owner_name = nonBlank (sp_owner s), se_owner_contact = nonBlank (sp_contact s),
      se_sla_due_at = (if sp_dueAt s = [] then None else map_option isoText (parseDate (sp_dueAt s))),
      se_status = nonBlank (sp_status s)\<rparr>"

definition getSlaState :: "(string \<Rightarrow> int option) \<Rightarrow> int \<Rightarrow> SupportNote \<Rightarrow> string" where
  "getSlaState parseDate nowMs note =
     (if truthyStr (sn_sla_state note) then the (sn_sla_state note)
      else if sn_status note = Some ''resolved'' then ''resolved''
      else if \<not> truthyStr (sn_sla_due_at note) then ''unscheduled''
      else case parseDate (the (sn_sla_due_at note)) of
        None \<Rightarrow> ''unscheduled''
      | Some due \<Rightarrow>
          if due < nowMs then ''breached''
          else if due - nowMs \<le> 24 * (1000 * 60 * 60) then ''due_soon''
          else ''on_track'')"

definition filteredSupportNotes :: "(string \<Rightarrow> int option) \<Rightarrow> int \<Rightarrow> string \<Rightarrow> SupportNote list \<Rightarrow> SupportNote list" where
  "filteredSupportNotes parseDate nowMs f notes =
     (if f = ''all'' then notes
      else if f \<in> set [''breached'', ''due_soon'', ''on_track'', ''unscheduled'']
      then filter (\<lambda>note. getSlaState parseDate nowMs note = f) notes
      else filter (\<lambda>note. nullish (sn_status note) ''open'' = f) notes)"

definition FILTER_OPTIONS :: "string list" where
  "FILTER_OPTIONS = [''all'', ''open'', ''monitoring'', ''resolved'', ''due_soon'', ''breached'']"

definition chooseFilter :: "string \<Rightarrow> support_page \<Rightarrow> support_page" where
  "chooseFilter option s = s\<lparr>sp_filter := option\<rparr>"

text \<open>The fields of the form.\<close>

datatype note_field = NoteCategory | NoteText | NoteOwner | NoteContact | NoteDueAt | NoteStatus

primrec typeNote :: "note_field \<Rightarrow> string \<Rightarrow> support_page \<Rightarrow> support_page" where
  "typeNote NoteCategory v s = s\<lparr>sp_category := v\<rparr>"
| "typeNote NoteText v s = s\<lparr>sp_text := v\<rparr>"
| "typeNote NoteOwner v s = s\<lparr>sp_owner := v\<rparr>"
| "typeNote NoteContact v s = s\<lparr>sp_contact := v\<rparr>"
| "typeNote NoteDueAt v s = s\<lparr>sp_dueAt := v\<rparr>"
| "typeNote NoteStatus v s = s\<lparr>sp_status := v\<rparr>"

definition saveNoteDisabled :: "support_page \<Rightarrow> bool" where
  "saveNoteDisabled s \<longleftrightarrow> sp_saving s \<or> trim (sp_text s) = []"

definition saveNote :: "(string \<Rightarrow> int option) \<Rightarrow> (int \<Rightarrow> string) \<Rightarrow> string \<Rightarrow> support_page handler" where
  "saveNote parseDate isoText ident s =
     onlyWhen (ident \<noteq> [])
       (\<lambda>s. attempt (createTenantSupportNote ident (sp_category s) (trim (sp_text s)) (Some (buildSupportNoteExtras parseDate isoText s)))
          (\<lambda>s. s\<lparr>sp_error := Some (featureUnavailableMessage ''Support notes'' None)\<rparr>)
          (\<lambda>_ s. loadSupportNotesData ident (s\<lparr>sp_text := []\<rparr>))
          (\<lambda>err s. s\<lparr>sp_error := Some (toTenantDetailErrorMessage err ''Failed to save note'')\<rparr>)
          (\<lambda>s. s\<lparr>sp_saving := False\<rparr>)
          (s\<lparr>sp_saving := True, sp_error := None\<rparr>)) s"

definition toggledStatus :: "SupportNote \<Rightarrow> string" where
  "toggledStatus note = (if sn_status note = Some ''resolved'' then ''open'' else ''resolved'')"

definition toggleNote :: "string \<Rightarrow> SupportNote \<Rightarrow> support_page handler" where
  "toggleNote ident note s =
     onlyWhen (sn_id note \<noteq> [])
       (\<lambda>s. attempt (updateTenantSupportNote (sn_id note) (JObj [(''status'', JStr (toggledStatus note))]))
          (\<lambda>s. s\<lparr>sp_supported := False\<rparr>)
          (\<lambda>_. loadSupportNotesData ident)
          (\<lambda>err s. s\<lparr>sp_error := Some (toTenantDetailErrorMessage err ''Failed to update support note'')\<rparr>)
          (\<lambda>s. s\<lparr>sp_saving := False\<rparr>)
          (s\<lparr>sp_saving := True\<rparr>)) s"

subsection \<open>What the page shows\<close>

text \<open>\<^verbatim>\<open>replace\<close> of a text of one character changes its first occurrence.\<close>

definition replaceFirst :: "char \<Rightarrow> char \<Rightarrow> string \<Rightarrow> string" where
  "replaceFirst c d s =
     takeWhile (\<lambda>x. x \<noteq> c) s @ (case dropWhile (\<lambda>x. x \<noteq> c) s of [] \<Rightarrow> [] | _ # r \<Rightarrow> d # r)"

definition BULLET :: string where
  "BULLET = [CHR 0xE2, CHR 0x80, CHR 0xA2]"

definition noteCard :: "(string \<Rightarrow> string option) \<Rightarrow> (string \<Rightarrow> int option) \<Rightarrow> int \<Rightarrow> SupportNote \<Rightarrow> string list" where
  "noteCard fmt parseDate nowMs note =
     [sn_category note, formatTimestamp fmt (Some (sn_created_at note)),
      ''Status: '' @ nullish (sn_status note) ''open'',
      ''SLA: '' @ replaceFirst (CHR ''_'') (CHR '' '') (getSlaState parseDate nowMs note),
      sn_note note,
      ''Owner: '' @ orElse (sn_owner_name note) EM_DASH @ '' '' @
        (if truthyStr (sn_owner_contact note) then BULLET @ '' '' @ the (sn_owner_contact note) else []),
      ''SLA due: '' @ (if truthyStr (sn_sla_due_at note) then formatTimestamp fmt (sn_sla_due_at note) else EM_DASH),
      orElse (sn_author_email note) (orElse (Some (sn_author_role note)) ''admin'') @ '' '' @ BULLET @ '' '' @ sn_author_role note,
      if sn_status note = Some ''resolved'' then ''Reopen'' else ''Mark resolved'']"

definition supportView :: "support_page \<Rightarrow> SupportNote list section_view" where
  "supportView s = \<lparr>sv_supported = sp_supported s, sv_data = sp_notes s, sv_error = sp_error s\<rparr>"

definition supportContent ::
  "(string \<Rightarrow> string option) \<Rightarrow> (string \<Rightarrow> int option) \<Rightarrow> int \<Rightarrow> support_page \<Rightarrow> string list page_content" where
  "supportContent fmt parseDate nowMs s =
     (if \<not> supportAdmin s then Content (ErrorText ''Support notes are visible to platform admins only.'')
      else pageContent (sp_loading s) ''Loading support notes...''
        (sectionContent ''Support notes'' ''No support notes yet.'' (noteCard fmt parseDate nowMs)
          ((supportView s)\<lparr>sv_data := filteredSupportNotes parseDate nowMs (sp_filter s) (sp_notes s)\<rparr>)))"

interpretation support_notes: optional_section endpointAnswer notesLoaded supportView
  "\<lambda>e. toTenantDetailErrorMessage e ''Failed to load support notes''"
  by unfold_locales (auto simp: endpointAnswer_def notesLoaded_def supportView_def split: OptionalEndpointResult.splits)

subsection \<open>The service level\<close>

text \<open>How far a note is from its time: the states in the order time brings them.\<close>

definition slaRank :: "string \<Rightarrow> nat" where
  "slaRank s = (if s = ''on_track'' then 0 else if s = ''due_soon'' then 1 else 2)"

text \<open>
  As time passes the service level of a note only moves from on track over due soon to
  breached: it is breached exactly after its time and due soon exactly in the last day before;
  a resolved note, a note without a readable time and a note the server has judged stay as they
  are.
\<close>

theorem sla_state_progress:
  assumes "now1 \<le> now2" and "\<not> truthyStr (sn_sla_state note)"
  shows "if sn_status note \<noteq> Some ''resolved'' \<and> truthyStr (sn_sla_due_at note) \<and> parseDate (the (sn_sla_due_at note)) \<noteq> None
    then (let due = the (parseDate (the (sn_sla_due_at note))); st = (\<lambda>t. getSlaState parseDate t note) in
      slaRank (st now1) \<le> slaRank (st now2) \<and>
      (st now1 = ''breached'' \<longleftrightarrow> due < now1) \<and>
      (st now1 = ''due_soon'' \<longleftrightarrow> now1 \<le> due \<and> due \<le> now1 + 86400000) \<and>
      (st now1 = ''on_track'' \<longleftrightarrow> now1 + 86400000 < due))
    else getSlaState parseDate now1 note \<in> {''resolved'', ''unscheduled''} \<and>
      getSlaState parseDate now2 note = getSlaState parseDate now1 note"
proof (cases "sn_status note \<noteq> Some ''resolved'' \<and> truthyStr (sn_sla_due_at note)")
  case True
  show ?thesis
  proof (cases "parseDate (the (sn_sla_due_at note))")
    case (Some due)
    then have st: "getSlaState parseDate t note =
        (if due < t then ''breached'' else if due - t \<le> 86400000 then ''due_soon'' else ''on_track'')" for t
      using True assms(2) by (simp add: getSlaState_def)
    show ?thesis using True Some assms(1) by (simp add: st slaRank_def)
  qed (use True assms(2) in \<open>simp add: getSlaState_def\<close>)
qed (use assms(2) in \<open>auto simp: getSlaState_def\<close>)

definition dueNote :: SupportNote where
  "dueNote = \<lparr>sn_id = ''n1'', sn_tenant_id = ''t1'', sn_author_id = None, sn_author_role = ''admin'', sn_author_email = None,
     sn_category = ''incident'', sn_owner_name = None, sn_owner_contact = None, sn_sla_due_at = Some ''noon'',
     sn_status = None, sn_resolved_at = None, sn_sla_state = None, sn_sla_last_evaluated_at = None,
     sn_note = ''Call back'', sn_created_at = ''morning'', sn_updated_at = ''morning''\<rparr>"

theorem sla_state_progress_witness:
  "getSlaState (\<lambda>_. Some 100) 101 dueNote = ''breached'' \<and> getSlaState (\<lambda>_. Some 100) 100 dueNote = ''due_soon''"
  using sla_state_progress [of 100 101 dueNote "\<lambda>_. Some 100"] sla_state_progress [of 101 101 dueNote "\<lambda>_. Some 100"]
  by (simp add: dueNote_def Let_def)

text \<open>The filters by service level partition the notes the server has not judged and that are not resolved.\<close>

lemma sla_filters_partition:
  assumes "list_all (\<lambda>n. \<not> truthyStr (sn_sla_state n) \<and> sn_status n \<noteq> Some ''resolved'') ns"
  shows "length ns =
    (\<Sum>f\<leftarrow>[''breached'', ''due_soon'', ''on_track'', ''unscheduled'']. length (filteredSupportNotes parseDate t f ns))"
  using assms
proof (induction ns)
  case (Cons n ns)
  have "getSlaState parseDate t n \<in> {''breached'', ''due_soon'', ''on_track'', ''unscheduled''}"
    using Cons.prems by (auto simp: getSlaState_def split: option.split)
  then show ?case using Cons by (auto simp: filteredSupportNotes_def)
qed (simp add: filteredSupportNotes_def)

subsection \<open>Writing notes\<close>

lemma addressed_loadNotes:
  assumes "\<And>p. P ''GET'' p"
  shows "addressed P w (snd (loadSupportNotesData ident s w))"
  by (simp add: loadSupportNotesData_def addressed_refl addressed_answered addressed_reads assms)

lemma addressed_noteCalls:
  "P ''POST'' ''/admin/support-notes'' \<Longrightarrow> keeps (addressed P) (createTenantSupportNote i c t x)"
  "P ''PATCH'' (''/admin/support-notes/'' @ encodeURIComponent n) \<Longrightarrow> keeps (addressed P) (updateTenantSupportNote n j)"
  unfolding createTenantSupportNote_def createTenantSupportNoteRecord_def api_createSupportNote_def
    updateTenantSupportNote_def updateTenantSupportNoteRecord_def api_updateSupportNote_def
  by (rule addressed_optional, simp)+

lemma loadNotes_text: "sp_text (fst (loadSupportNotesData ident s w)) = sp_text s"
  by (auto simp: loadSupportNotesData_def fst_answered notesLoaded_def split: sum.split OptionalEndpointResult.split)

text \<open>
  Saving a note sends it, with its text trimmed, for this tenant, and otherwise only reads;
  the text is kept, beside an error, exactly when the server has not taken the note.
\<close>

theorem note_text_kept_on_failure:
  assumes "saveNote parseDate isoText ident s w = (s', w')" and "ident \<noteq> []" and "\<not> saveNoteDisabled s"
  shows "addressed (\<lambda>m p. readsOnly m p \<or> m = ''POST'' \<and> p = ''/admin/support-notes'') w w' \<and> \<not> sp_saving s' \<and>
    (if \<exists>n. fst (createTenantSupportNote ident (sp_category s) (trim (sp_text s))
        (Some (buildSupportNoteExtras parseDate isoText s)) w) = Inr (Supported n)
     then sp_text s' = [] else sp_text s' = sp_text s \<and> sp_text s' \<noteq> [] \<and> truthyStr (sp_error s'))"
proof -
  let ?P = "\<lambda>m p. readsOnly m p \<or> m = ''POST'' \<and> p = ''/admin/support-notes''"
  let ?call = "createTenantSupportNote ident (sp_category s) (trim (sp_text s)) (Some (buildSupportNoteExtras parseDate isoText s))"
  from assms(1,2) have a: "attempt ?call
      (\<lambda>s. s\<lparr>sp_error := Some (featureUnavailableMessage ''Support notes'' None)\<rparr>)
      (\<lambda>_ s. loadSupportNotesData ident (s\<lparr>sp_text := []\<rparr>))
      (\<lambda>err s. s\<lparr>sp_error := Some (toTenantDetailErrorMessage err ''Failed to save note'')\<rparr>)
      (\<lambda>s. s\<lparr>sp_saving := False\<rparr>)
      (s\<lparr>sp_saving := True, sp_error := None\<rparr>) w = (s', w')"
    by (simp add: saveNote_def)
  have t: "sp_text s \<noteq> []" using assms(3) by (auto simp: saveNoteDisabled_def trim_def trimStart_def trimEnd_def)
  have "addressed ?P w w'"
    by (rule addressed_attemptD [OF a]) (intro addressed_noteCalls addressed_loadNotes; simp)+
  moreover from a have "\<not> sp_saving s' \<and> (if \<exists>n. fst (?call w) = Inr (Supported n)
     then sp_text s' = [] else sp_text s' = sp_text s \<and> sp_text s' \<noteq> [] \<and> truthyStr (sp_error s'))"
  proof (cases rule: attempt_cases)
    case (ok x w1 s1)
    have "sp_text s1 = []"
      using loadNotes_text [of ident "s\<lparr>sp_saving := True, sp_error := None, sp_text := []\<rparr>" w1] ok(2) by simp
    then show ?thesis using ok by simp
  qed (use t in \<open>simp_all add: featureUnavailableMessage_def Let_def\<close>)
  ultimately show ?thesis by blast
qed

theorem note_text_kept_on_failure_witness:
  "sp_text (fst (saveNote (\<lambda>_. None) (\<lambda>_. []) ''t1'' (initialSupport\<lparr>sp_text := ''Call back''\<rparr>) freshBrowser)) = ''Call back''"
proof -
  let ?s = "initialSupport\<lparr>sp_text := ''Call back''\<rparr>"
  have d: "\<not> saveNoteDisabled ?s" by code_simp
  have c: "case fst (createTenantSupportNote ''t1'' (sp_category ?s) (trim (sp_text ?s))
      (Some (buildSupportNoteExtras (\<lambda>_. None) (\<lambda>_. []) ?s)) freshBrowser) of Inr (Supported x) \<Rightarrow> False | _ \<Rightarrow> True" by code_simp
  obtain s' w' where s': "saveNote (\<lambda>_. None) (\<lambda>_. []) ''t1'' ?s freshBrowser = (s', w')" by (metis prod.collapse)
  then show ?thesis using note_text_kept_on_failure [OF s' _ d] c by (auto split: if_splits)
qed

text \<open>
  A server that does not know the update of a note makes the page call all notes missing, with
  the notes still in its state: they come back only with a reload.
\<close>

lemma unsupported_update_hides_notes:
  assumes "updateTenantSupportNote (sn_id note) (JObj [(''status'', JStr (toggledStatus note))]) w = (Inr Unsupported, w')"
    and "sn_id note \<noteq> []" and "supportAdmin s" and "\<not> sp_loading s" and "sp_notes s \<noteq> []"
  shows "let s' = fst (toggleNote ident note s w) in
    sp_notes s' = sp_notes s \<and> \<not> coherent (supportView s') \<and>
    supportContent fmt parseDate t s' = Content (MissingFeature ''Support notes'')"
  using assms by (simp add: toggleNote_def attempt_def Let_def coherent_def supportView_def supportContent_def supportAdmin_def
      pageContent_def sectionContent_def)

end
