(* ===== verification/Tenant_Overview.thy ===== *)
theory Tenant_Overview
  imports Tenant_Support
begin

section \<open>The pages of a tenant: overview\<close>

text \<open>
  \<^verbatim>\<open>overview/page.tsx\<close>: the state of a tenant with its next step, the recovery of a payment, and the
  operations of the role admin: retry, suspend, unsuspend, reset of the administrator's password
  and deletion behind confirmations.
\<close>

definition nextActionByStatus :: "string \<Rightarrow> string" where
  "nextActionByStatus status =
     (let normalized = toLowerCase status in
      if normalized = ''active'' then ''Workspace is live. Confirm users can log in and run first transactions.''
      else if normalized = ''pending_payment'' then ''Complete payment to continue automatic provisioning.''
      else if normalized = ''pending'' \<or> normalized = ''provisioning''
      then ''Provisioning is running. Keep this page open for status updates.''
      else if normalized = ''upgrading'' then ''Upgrade in progress. Avoid configuration changes until it completes.''
      else if normalized = ''restoring'' then ''Restore running. Monitor job logs for completion.''
      else if normalized = ''pending_deletion'' then ''Deletion queued. Coordinate with support if this was unintentional.''
      else if normalized = ''failed'' then ''Provisioning failed. Review related job logs and retry from dashboard.''
      else if normalized = ''suspended_admin'' then ''Suspended by admin action. Contact support for reactivation.''
      else if normalized = ''suspended_billing'' then ''Suspended for billing. Resolve payment to restore service.''
      else if normalized = ''suspended'' then ''Access is suspended. Coordinate with admin team before reactivation.''
      else ''Review tenant state and choose the next operational action.'')"

definition PAYMENT_RECOVERY_STATUSES :: "string list" where
  "PAYMENT_RECOVERY_STATUSES = [''pending'', ''pending_payment'', ''suspended_billing'']"

definition PAYMENT_RECOVERY_INVOICE_STATUSES :: "string list" where
  "PAYMENT_RECOVERY_INVOICE_STATUSES = [''open'', ''past_due'', ''unpaid'', ''uncollectible'']"

definition PAYMENT_RECOVERY_SUBSCRIPTION_STATUSES :: "string list" where
  "PAYMENT_RECOVERY_SUBSCRIPTION_STATUSES = [''pending'', ''past_due'', ''paused'']"

record overview_page =
  ov_tenant :: "Tenant query_state"
  ov_jobs :: "(bool \<times> Job list) query_state"
  ov_retrying :: bool
  ov_resumingCheckout :: bool
  ov_actionReason :: string
  ov_actionBusy :: bool
  ov_actionError :: "string option"
  ov_actionNotice :: "string option"
  ov_recoveryError :: "string option"
  ov_recoveryNotice :: "string option"
  ov_newPassword :: string
  ov_resetBusy :: bool
  ov_resetError :: "string option"
  ov_passwordResult :: "ResetAdminPasswordResult option"
  ov_passwordExpiry :: "int option"
  ov_passwordNow :: int
  ov_copyState :: string
  ov_deleteConfirm :: string
  ov_deleteBusy :: bool
  ov_deleteError :: "string option"
  ov_deleteNotice :: "string option"
  ov_confirmSuspendOpen :: bool
  ov_confirmUnsuspendOpen :: bool
  ov_confirmDeleteOpen :: bool
  ov_opened :: "string list"

definition mountOverview :: "int \<Rightarrow> Tenant query_state \<Rightarrow> (bool \<times> Job list) query_state \<Rightarrow> overview_page" where
  "mountOverview nowMs t jobs =
     \<lparr>ov_tenant = t, ov_jobs = jobs, ov_retrying = False, ov_resumingCheckout = False, ov_actionReason = [],
      ov_actionBusy = False, ov_actionError = None, ov_actionNotice = None, ov_recoveryError = None,
      ov_recoveryNotice = None, ov_newPassword = [], ov_resetBusy = False, ov_resetError = None,
      ov_passwordResult = None, ov_passwordExpiry = None, ov_passwordNow = nowMs, ov_copyState = ''idle'',
      ov_deleteConfirm = [], ov_deleteBusy = False, ov_deleteError = None, ov_deleteNotice = None,
      ov_confirmSuspendOpen = False, ov_confirmUnsuspendOpen = False, ov_confirmDeleteOpen = False, ov_opened = []\<rparr>"

definition isTenantAdmin :: "UserProfile option \<Rightarrow> bool" where
  "isTenantAdmin user \<longleftrightarrow> map_option usr_role user = Some ''admin''"

definition overviewTenant :: "string \<Rightarrow> overview_page handler" where
  "overviewTenant ident = within ov_tenant (\<lambda>q s. s\<lparr>ov_tenant := q\<rparr>) (loadTenant ident)"

definition overviewJobs :: "string \<Rightarrow> overview_page handler" where
  "overviewJobs ident = within ov_jobs (\<lambda>q s. s\<lparr>ov_jobs := q\<rparr>) (refreshRecentJobs ident 40 5)"

definition retryProvisioning_overview :: "string \<Rightarrow> overview_page handler" where
  "retryProvisioning_overview ident s =
     onlyWhen (ident \<noteq> [])
       (\<lambda>s. attempt (retryTenantProvisioningAction ident)
          (\<lambda>s. s\<lparr>ov_actionError := Some (featureUnavailableMessage ''Retrying provisioning'' None)\<rparr>)
          (\<lambda>_ s. afterwards (overviewTenant ident) (overviewJobs ident)
             (s\<lparr>ov_actionNotice := Some ''Provisioning retry queued.''\<rparr>))
          (\<lambda>err s. s\<lparr>ov_actionError := Some (toTenantDetailErrorMessage err ''Failed to retry provisioning'')\<rparr>)
          (\<lambda>s. s\<lparr>ov_retrying := False\<rparr>)
          (s\<lparr>ov_retrying := True\<rparr>)) s"

subsection \<open>Recovering a payment\<close>

definition tenantStatusOf :: "overview_page \<Rightarrow> string" where
  "tenantStatusOf s = toLowerCase (case qs_data (ov_tenant s) of Some t \<Rightarrow> tn_status t | None \<Rightarrow> [])"

definition invoiceStatusOf :: "TenantSummary option \<Rightarrow> string" where
  "invoiceStatusOf summary = toLowerCase (nullish (Option.bind (Option.bind summary ts_last_invoice) bi_status) [])"

definition showPaymentRecovery :: "string \<Rightarrow> string \<Rightarrow> string \<Rightarrow> bool" where
  "showPaymentRecovery tenantStatus subStatus invoiceStatus \<longleftrightarrow>
     tenantStatus \<in> set PAYMENT_RECOVERY_STATUSES \<or>
     subStatus \<in> set PAYMENT_RECOVERY_SUBSCRIPTION_STATUSES \<or>
     invoiceStatus \<in> set PAYMENT_RECOVERY_INVOICE_STATUSES"

definition checkoutResumed :: "TenantCreateResponse \<Rightarrow> overview_page \<Rightarrow> overview_page" where
  "checkoutResumed x s =
     (if truthyStr (cr_checkout_url x)
      then s\<lparr>ov_opened := ov_opened s @ [the (cr_checkout_url x)], ov_recoveryNotice := Some ''Checkout link opened in a new tab.''\<rparr>
      else s\<lparr>ov_recoveryNotice := Some ''Checkout link refreshed.''\<rparr>)"

definition resumeCheckout :: "string \<Rightarrow> overview_page handler" where
  "resumeCheckout ident s =
     onlyWhen (ident \<noteq> [])
       (\<lambda>s. attempt (renewTenantCheckoutDetail ident)
          (\<lambda>s. s\<lparr>ov_recoveryError := Some (featureUnavailableMessage ''Renewing the payment link'' None)\<rparr>)
          (\<lambda>x s. overviewTenant ident (checkoutResumed x s))
          (\<lambda>err s. s\<lparr>ov_recoveryError := Some (toTenantDetailErrorMessage err ''Unable to resume checkout.'')\<rparr>)
          (\<lambda>s. s\<lparr>ov_resumingCheckout := False\<rparr>)
          (s\<lparr>ov_resumingCheckout := True, ov_recoveryError := None, ov_recoveryNotice := None\<rparr>)) s"

text \<open>What the alert about a payment offers: its button, or a link to the tenant's billing.\<close>

datatype payment_offer = ResumeButton string bool | BillingLink string string

definition paymentOffer :: "string \<Rightarrow> string \<Rightarrow> string \<Rightarrow> bool \<Rightarrow> payment_offer option" where
  "paymentOffer ident tenantStatus subStatus resuming =
     (if tenantStatus = ''suspended_billing'' \<or> tenantStatus = ''pending_payment'' \<or> subStatus = ''past_due''
      then Some (if tenantStatus = ''pending_payment'' then ResumeButton ''Complete payment'' resuming
        else if subStatus = ''past_due'' then ResumeButton ''Update payment'' resuming
        else BillingLink ''Resolve billing'' (''/app/tenants/'' @ ident @ ''/billing''))
      else None)"

subsection \<open>The trial\<close>

text \<open>
  The end of the trial in milliseconds, \<open>None\<close> for a date the browser cannot read; the days left
  are rounded up.
\<close>

definition trialDaysRemaining :: "int \<Rightarrow> int \<Rightarrow> int" where
  "trialDaysRemaining nowMs ends = - ((nowMs - ends) div 86400000)"

definition trialSeverity :: "int option \<Rightarrow> string" where
  "trialSeverity days =
     (case days of None \<Rightarrow> ''error''
      | Some d \<Rightarrow> if d < 0 then ''error'' else if d \<le> 3 then ''error'' else if d \<le> 7 then ''warning'' else ''info'')"

definition trialBanner :: "(string \<Rightarrow> int option) \<Rightarrow> int \<Rightarrow> subscription_view \<Rightarrow> (string \<times> string) option" where
  "trialBanner parseDate nowMs v =
     (case Option.bind (sb_subscription v) sub_trial_ends_at of
        None \<Rightarrow> None
      | Some text \<Rightarrow>
          (if text = [] \<or> subscriptionStatus v \<noteq> ''trialing'' then None
           else case parseDate text of None \<Rightarrow> None
             | Some ends \<Rightarrow>
                 (let d = trialDaysRemaining nowMs ends in
                  Some (trialSeverity (Some d),
                    if d \<ge> 0
                    then ''Your trial ends in '' @ intStr d @ '' day'' @ (if d \<noteq> 1 then ''s'' else []) @
                      ''. Upgrade to keep your workspace.''
                    else ''Your trial has ended. Upgrade now.''))))"

subsection \<open>Suspending and deleting\<close>

definition suspendReason :: "overview_page \<Rightarrow> string option" where
  "suspendReason s = nonBlank (ov_actionReason s)"

definition actionFailed :: "string \<Rightarrow> overview_page \<Rightarrow> overview_page" where
  "actionFailed message s = s\<lparr>ov_actionError := Some message\<rparr>"

definition handleSuspend :: "string \<Rightarrow> overview_page handler" where
  "handleSuspend ident s w =
     (case qs_data (ov_tenant s) of None \<Rightarrow> (s, w)
      | Some t \<Rightarrow> onlyWhen (tn_id t \<noteq> [])
          (\<lambda>s. attempt (suspendTenantAccess (tn_id t) (suspendReason s))
             (actionFailed (featureUnavailableMessage ''Suspending the workspace'' None))
             (\<lambda>_ s. overviewTenant ident
                (s\<lparr>ov_actionNotice := Some ''Tenant suspended successfully.'', ov_confirmSuspendOpen := False\<rparr>))
             (\<lambda>err. actionFailed (toTenantDetailErrorMessage err ''Failed to suspend tenant.''))
             (\<lambda>s. s\<lparr>ov_actionBusy := False\<rparr>)
             (s\<lparr>ov_actionBusy := True, ov_actionError := None, ov_actionNotice := None\<rparr>)) s w)"

definition handleUnsuspend :: "string \<Rightarrow> overview_page handler" where
  "handleUnsuspend ident s w =
     (case qs_data (ov_tenant s) of None \<Rightarrow> (s, w)
      | Some t \<Rightarrow> onlyWhen (tn_id t \<noteq> [])
          (\<lambda>s. attempt (unsuspendTenantAccess (tn_id t) (suspendReason s))
             (actionFailed (featureUnavailableMessage ''Unsuspending the workspace'' None))
             (\<lambda>_ s. overviewTenant ident
                (s\<lparr>ov_actionNotice := Some ''Tenant unsuspended successfully.'', ov_confirmUnsuspendOpen := False\<rparr>))
             (\<lambda>err. actionFailed (toTenantDetailErrorMessage err ''Failed to unsuspend tenant.''))
             (\<lambda>s. s\<lparr>ov_actionBusy := False\<rparr>)
             (s\<lparr>ov_actionBusy := True, ov_actionError := None, ov_actionNotice := None\<rparr>)) s w)"

definition openSuspend :: "overview_page \<Rightarrow> overview_page" where
  "openSuspend s = (if ov_actionBusy s then s else s\<lparr>ov_confirmSuspendOpen := True\<rparr>)"

definition openUnsuspend :: "overview_page \<Rightarrow> overview_page" where
  "openUnsuspend s =
     (if ov_actionBusy s \<or> tenantStatusOf s = ''suspended_billing'' then s else s\<lparr>ov_confirmUnsuspendOpen := True\<rparr>)"

definition cancelSuspend :: "overview_page \<Rightarrow> overview_page" where
  "cancelSuspend s = (if ov_actionBusy s then s else s\<lparr>ov_confirmSuspendOpen := False\<rparr>)"

definition cancelUnsuspend :: "overview_page \<Rightarrow> overview_page" where
  "cancelUnsuspend s = (if ov_actionBusy s then s else s\<lparr>ov_confirmUnsuspendOpen := False\<rparr>)"

definition typeReason :: "string \<Rightarrow> overview_page \<Rightarrow> overview_page" where
  "typeReason text s = s\<lparr>ov_actionReason := text\<rparr>"

definition typePassword :: "string \<Rightarrow> overview_page \<Rightarrow> overview_page" where
  "typePassword text s = s\<lparr>ov_newPassword := text\<rparr>"

definition unsuspendLabel :: "overview_page \<Rightarrow> string" where
  "unsuspendLabel s = (if tenantStatusOf s = ''suspended_billing'' then ''Resolve billing'' else ''Unsuspend tenant'')"

definition deletePhrase :: "overview_page \<Rightarrow> string" where
  "deletePhrase s = toUpperCase (case qs_data (ov_tenant s) of Some t \<Rightarrow> tn_subdomain t | None \<Rightarrow> [])"

definition typeDelete :: "string \<Rightarrow> overview_page \<Rightarrow> overview_page" where
  "typeDelete text s = s\<lparr>ov_deleteConfirm := toUpperCase text\<rparr>"

definition openDelete :: "overview_page \<Rightarrow> overview_page" where
  "openDelete s = (if ov_deleteBusy s \<or> ov_deleteConfirm s \<noteq> deletePhrase s then s else s\<lparr>ov_confirmDeleteOpen := True\<rparr>)"

definition cancelDelete :: "overview_page \<Rightarrow> overview_page" where
  "cancelDelete s = (if ov_deleteBusy s then s else s\<lparr>ov_confirmDeleteOpen := False\<rparr>)"

definition handleDelete :: "string \<Rightarrow> overview_page handler" where
  "handleDelete ident s w =
     (case qs_data (ov_tenant s) of None \<Rightarrow> (s, w)
      | Some t \<Rightarrow> onlyWhen (tn_id t \<noteq> [])
          (\<lambda>s. attemptCall (queueTenantDeleteJob (tn_id t))
             (\<lambda>_ s. afterwards (overviewTenant ident) (overviewJobs ident)
                (s\<lparr>ov_deleteNotice := Some ''Workspace deletion queued successfully.'', ov_deleteConfirm := [],
                   ov_confirmDeleteOpen := False\<rparr>))
             (\<lambda>err s. s\<lparr>ov_deleteError := Some (toTenantDetailErrorMessage err ''Failed to queue workspace deletion.'')\<rparr>)
             (\<lambda>s. s\<lparr>ov_deleteBusy := False\<rparr>)
             (s\<lparr>ov_deleteBusy := True, ov_deleteError := None, ov_deleteNotice := None\<rparr>)) s w)"

subsection \<open>The password of the administrator\<close>

text \<open>
  A new password is shown in a dialog with a countdown as a reminder; only the button that
  confirms it was saved closes the dialog. The effect on the result runs with every new answer.
\<close>

definition resetAnswered :: "exn + ResetAdminPasswordResult \<Rightarrow> overview_page \<Rightarrow> overview_page" where
  "resetAnswered r s =
     (case r of
        Inr result \<Rightarrow> s\<lparr>ov_passwordResult := Some result, ov_newPassword := [], ov_resetBusy := False\<rparr>
      | Inl err \<Rightarrow> s\<lparr>ov_resetError := Some (toTenantDetailErrorMessage err ''Failed to reset admin password.''), ov_resetBusy := False\<rparr>)"

definition passwordEffect :: "int \<Rightarrow> overview_page \<Rightarrow> overview_page" where
  "passwordEffect nowMs s =
     (case ov_passwordResult s of None \<Rightarrow> s\<lparr>ov_passwordExpiry := None\<rparr>
      | Some _ \<Rightarrow> s\<lparr>ov_passwordExpiry := Some (nowMs + 30000), ov_passwordNow := nowMs\<rparr>)"

definition resetPassword :: "overview_page handler" where
  "resetPassword s w =
     (case qs_data (ov_tenant s) of None \<Rightarrow> (s, w)
      | Some t \<Rightarrow> answered (resetTenantAdministratorPassword (tn_id t) (orNull (ov_newPassword s))) resetAnswered
          (s\<lparr>ov_resetBusy := True, ov_resetError := None, ov_actionNotice := None\<rparr>) w)"

definition regeneratePassword :: "overview_page handler" where
  "regeneratePassword s w =
     (case qs_data (ov_tenant s) of None \<Rightarrow> (s, w)
      | Some t \<Rightarrow> answered (resetTenantAdministratorPassword (tn_id t) (orNull (ov_newPassword s))) resetAnswered
          (s\<lparr>ov_resetBusy := True, ov_resetError := None, ov_copyState := ''idle''\<rparr>) w)"

definition copyPassword :: "bool \<Rightarrow> overview_page \<Rightarrow> overview_page" where
  "copyPassword ok s = s\<lparr>ov_copyState := (if ok then ''copied'' else ''error'')\<rparr>"

definition passwordSaved :: "overview_page \<Rightarrow> overview_page" where
  "passwordSaved s = s\<lparr>ov_passwordResult := None, ov_copyState := ''idle'', ov_passwordExpiry := None\<rparr>"

definition passwordTick :: "int \<Rightarrow> overview_page \<Rightarrow> overview_page" where
  "passwordTick nowMs s = (if ov_passwordResult s = None then s else s\<lparr>ov_passwordNow := nowMs\<rparr>)"

definition remainingSeconds :: "overview_page \<Rightarrow> int" where
  "remainingSeconds s =
     (case ov_passwordExpiry s of None \<Rightarrow> 0
      | Some e \<Rightarrow> if e = 0 then 0 else max 0 (- ((ov_passwordNow s - e) div 1000)))"

text \<open>The events of the dialog; the answer of a reset comes with the time of its effect.\<close>

datatype password_event = PasswordTick | PasswordCopied bool | PasswordAnswer "exn + ResetAdminPasswordResult" | PasswordSaved

primrec passwordStep :: "int \<Rightarrow> password_event \<Rightarrow> overview_page \<Rightarrow> overview_page" where
  "passwordStep t PasswordTick s = passwordTick t s"
| "passwordStep t (PasswordCopied ok) s = copyPassword ok s"
| "passwordStep t (PasswordAnswer r) s =
     (case r of Inr _ \<Rightarrow> passwordEffect t (resetAnswered r s) | Inl _ \<Rightarrow> resetAnswered r s)"
| "passwordStep t PasswordSaved s = passwordEffect t (passwordSaved s)"

subsection \<open>What the page shows\<close>

definition overviewCards :: "Tenant \<Rightarrow> (string \<times> string) list" where
  "overviewCards t =
     [(''Status'', tn_status t), (''Plan'', tn_plan t), (''Primary domain'', tn_domain t),
      (''Payment channel'', nullish (tn_payment_channel t) EM_DASH)]"

definition overviewButtons :: "overview_page \<Rightarrow> (string \<times> bool) list" where
  "overviewButtons s =
     (''Open workspace'', False) #
     (if tenantStatusOf s = ''failed'' then [(if ov_retrying s then ''Retrying...'' else ''Retry provisioning'', ov_retrying s)] else [])"

definition recoveryLine :: "Tenant \<Rightarrow> subscription_view \<Rightarrow> TenantSummary option \<Rightarrow> string" where
  "recoveryLine t v summary =
     ''Tenant status: '' @ tn_status t @ '' '' @ MIDDLE_DOT @ '' Subscription: '' @
     (case sb_subscription v of Some u \<Rightarrow> sub_status u | None \<Rightarrow> if sb_supported v then EM_DASH else ''unsupported'') @
     '' '' @ MIDDLE_DOT @ '' Latest invoice: '' @
     nullish (Option.bind (Option.bind summary ts_last_invoice) bi_status) EM_DASH"

definition recentOperation :: "(string \<Rightarrow> string option) \<Rightarrow> string \<Rightarrow> Job \<Rightarrow> string list" where
  "recentOperation fmt ident job =
     [jb_type job, formatTimestamp fmt (jb_created_at job),
      ''Status: '' @ jb_status job @ (if isTerminalJobStatus (Some (jb_status job)) then [] else '' '' @ MIDDLE_DOT @ '' in progress''),
      ''/app/tenants/'' @ ident @ ''/jobs?job='' @ jb_id job]"

definition recentOperations :: "(string \<Rightarrow> string option) \<Rightarrow> string \<Rightarrow> (bool \<times> Job list) query_state \<Rightarrow> string list section_content" where
  "recentOperations fmt ident q =
     (let v = useTenantRecentJobsData q in
      if truthyStr (sv_error v) then ErrorText (the (sv_error v))
      else sectionContent ''Job history'' ''No recent jobs yet.'' (recentOperation fmt ident) v)"

definition latestActivity :: "(string \<Rightarrow> string option) \<Rightarrow> TenantSummary option \<Rightarrow> (bool \<times> Job list) query_state \<Rightarrow> string list" where
  "latestActivity fmt summary q =
     (case Option.bind summary ts_last_audit of
        Some a \<Rightarrow> [al_action a, formatTimestamp fmt (Some (al_created_at a))]
      | None \<Rightarrow> (case activeRecentJob (sv_data (useTenantRecentJobsData q)) of
          Some job \<Rightarrow> [''Latest active job: '' @ jb_type job]
        | None \<Rightarrow> [''No activity logged yet.'']))"

subsection \<open>Where the actions write\<close>

text \<open>
  The writes that concern one tenant: its own resource and what is below it, at the tenant's and
  at the operator's address.
\<close>

definition tenantWrite :: "string \<Rightarrow> string \<Rightarrow> string \<Rightarrow> bool" where
  "tenantWrite i m p \<longleftrightarrow> m = ''GET'' \<or> p = ''/tenants/'' @ i \<or> startsWith p (''/tenants/'' @ i @ ''/'') \<or>
     startsWith p (''/admin/tenants/'' @ i @ ''/'')"

lemma tenantWrite_simps [simp]:
  "tenantWrite i ''GET'' p" "tenantWrite i m (''/tenants/'' @ i)"
proof -
  show "tenantWrite i ''GET'' p" "tenantWrite i m (''/tenants/'' @ i)" by (simp_all add: tenantWrite_def)
qed

lemma tenantWrite_below: "tenantWrite i m (''/tenants/'' @ i @ ''/'' @ rest)" "tenantWrite i m (''/admin/tenants/'' @ i @ ''/'' @ rest)"
  using startsWith_append [of "''/tenants/'' @ i @ ''/''" rest] startsWith_append [of "''/admin/tenants/'' @ i @ ''/''" rest]
  by (simp_all add: tenantWrite_def)

lemma addressed_overviewCalls:
  "keeps (addressed (tenantWrite i)) (retryTenantProvisioningAction i)"
  "keeps (addressed (tenantWrite i)) (renewTenantCheckoutDetail i)"
  "keeps (addressed (tenantWrite i)) (suspendTenantAccess i reason)"
  "keeps (addressed (tenantWrite i)) (unsuspendTenantAccess i reason)"
  "keeps (addressed (tenantWrite i)) (queueTenantDeleteJob i)"
  "keeps (addressed (tenantWrite i)) (resetTenantAdministratorPassword i pw)"
  "keeps (addressed (tenantWrite i)) (updateTenantPlanDetails i plan app)"
proof -
  note d = retryTenantProvisioningAction_def retryTenantById_def api_retryTenant_def suspendTenantAccess_def
    suspendTenantWorkspace_def api_suspendTenant_def unsuspendTenantAccess_def unsuspendTenantWorkspace_def
    api_unsuspendTenant_def queueTenantDeleteJob_def enqueueTenantDelete_def api_deleteTenant_def
    resetTenantAdministratorPassword_def resetTenantAdminPassword_def api_resetAdminPassword_def Let_def
  let ?q = "if truthyStr reason then ''?reason='' @ encodeURIComponent (the reason) else []"
  show "keeps (addressed (tenantWrite i)) (retryTenantProvisioningAction i)"
    unfolding d by (rule addressed_optional) (use tenantWrite_below(1) [of i _ "''retry''"] in simp)
  show "keeps (addressed (tenantWrite i)) (renewTenantCheckoutDetail i)"
    by (rule addressed_planCalls) (use tenantWrite_below(1) [of i _ "''checkout/renew''"] in simp)
  show "keeps (addressed (tenantWrite i)) (suspendTenantAccess i reason)"
    unfolding d by (rule addressed_optional) (use tenantWrite_below(2) [of i _ "''suspend'' @ ?q"] in simp)
  show "keeps (addressed (tenantWrite i)) (unsuspendTenantAccess i reason)"
    unfolding d by (rule addressed_optional) (use tenantWrite_below(2) [of i _ "''unsuspend'' @ ?q"] in simp)
  show "keeps (addressed (tenantWrite i)) (queueTenantDeleteJob i)"
    unfolding d by (rule addressed_request) (use tenantWrite_simps(2) [of i] in simp)
  show "keeps (addressed (tenantWrite i)) (resetTenantAdministratorPassword i pw)"
    unfolding d by (rule addressed_request) (use tenantWrite_below(1) [of i _ "''reset-admin-password''"] in simp)
  show "keeps (addressed (tenantWrite i)) (updateTenantPlanDetails i plan app)"
    by (rule addressed_planCalls) (use tenantWrite_simps(2) [of i] in simp)
qed

lemma addressed_overviewLoads:
  "addressed (tenantWrite i) w (snd (overviewTenant ident s w))"
  "addressed (tenantWrite i) w (snd (overviewJobs ident s w))"
  unfolding overviewTenant_def overviewJobs_def by (intro addressed_within addressed_loads; simp)+

datatype overview_action =
  RetryProvisioning | ResumeCheckout | SuspendTenant | UnsuspendTenant | DeleteTenant | ResetPassword | RegeneratePassword

primrec overviewAct :: "string \<Rightarrow> overview_action \<Rightarrow> overview_page handler" where
  "overviewAct ident RetryProvisioning = retryProvisioning_overview ident"
| "overviewAct ident ResumeCheckout = resumeCheckout ident"
| "overviewAct ident SuspendTenant = handleSuspend ident"
| "overviewAct ident UnsuspendTenant = handleUnsuspend ident"
| "overviewAct ident DeleteTenant = handleDelete ident"
| "overviewAct ident ResetPassword = resetPassword"
| "overviewAct ident RegeneratePassword = regeneratePassword"

lemma overview_writes_tenant:
  assumes "\<And>t. qs_data (ov_tenant s) = Some t \<Longrightarrow> tn_id t = ident"
  shows "addressed (tenantWrite ident) w (snd (overviewAct ident a s w))"
proof (cases a)
  case RetryProvisioning
  show ?thesis unfolding RetryProvisioning overviewAct.simps retryProvisioning_overview_def
    by (intro addressed_onlyWhen addressed_attempt addressed_overviewCalls addressed_afterwards addressed_overviewLoads)
next
  case ResumeCheckout
  show ?thesis unfolding ResumeCheckout overviewAct.simps resumeCheckout_def
    by (intro addressed_onlyWhen addressed_attempt addressed_overviewCalls addressed_overviewLoads)
next
  case SuspendTenant
  show ?thesis unfolding SuspendTenant overviewAct.simps handleSuspend_def
    by (cases "qs_data (ov_tenant s)")
      (auto simp: addressed_refl assms intro!: addressed_onlyWhen addressed_attempt addressed_overviewCalls addressed_overviewLoads)
next
  case UnsuspendTenant
  show ?thesis unfolding UnsuspendTenant overviewAct.simps handleUnsuspend_def
    by (cases "qs_data (ov_tenant s)")
      (auto simp: addressed_refl assms intro!: addressed_onlyWhen addressed_attempt addressed_overviewCalls addressed_overviewLoads)
next
  case DeleteTenant
  show ?thesis unfolding DeleteTenant overviewAct.simps handleDelete_def
    by (cases "qs_data (ov_tenant s)")
      (auto simp: addressed_refl assms intro!: addressed_onlyWhen addressed_attemptCall addressed_overviewCalls
        addressed_afterwards addressed_overviewLoads)
next
  case ResetPassword
  show ?thesis unfolding ResetPassword overviewAct.simps resetPassword_def
    by (cases "qs_data (ov_tenant s)") (auto simp: addressed_refl assms intro!: addressed_answered addressed_overviewCalls)
next
  case RegeneratePassword
  show ?thesis unfolding RegeneratePassword overviewAct.simps regeneratePassword_def
    by (cases "qs_data (ov_tenant s)") (auto simp: addressed_refl assms intro!: addressed_answered addressed_overviewCalls)
qed

text \<open>
  Every action of the overview, whoever presses it, writes only to the tenant of the page: its
  other messages are reads and the renewal of the token.
\<close>

theorem overview_writes_its_tenant:
  assumes "qs_data (ov_tenant s) = Some t" and "tn_id t = ident" and "overviewAct ident a s w = (s', w')"
  shows "addressed (tenantWrite ident) w w'"
  using overview_writes_tenant [of s ident w a] assms by auto

subsection \<open>Suspending\<close>

text \<open>
  Suspending and unsuspending from the overview go to the shown tenant with the reason that was
  typed; the dialog closes, with a notice, exactly when the server has carried the action out, and
  stays open with an error otherwise; the page is not left busy.
\<close>

theorem suspend_outcome:
  assumes "overviewAct ident (if up then UnsuspendTenant else SuspendTenant) s w = (s', w')"
    and "qs_data (ov_tenant s) = Some t" and "tn_id t \<noteq> []"
    and "dialog = (if up then ov_confirmUnsuspendOpen else ov_confirmSuspendOpen)" and "dialog s"
  shows "\<not> ov_actionBusy s' \<and>
    (if \<exists>m. fst ((if up then unsuspendTenantAccess else suspendTenantAccess) (tn_id t) (suspendReason s) w) = Inr (Supported m)
     then ov_actionError s' = None \<and> ov_actionNotice s' \<noteq> None \<and> \<not> dialog s'
     else ov_actionError s' \<noteq> None \<and> ov_actionNotice s' = None \<and> dialog s')"
proof (cases up)
  case True
  from assms(1-3) True have "attempt (unsuspendTenantAccess (tn_id t) (suspendReason s))
      (actionFailed (featureUnavailableMessage ''Unsuspending the workspace'' None))
      (\<lambda>_ s. overviewTenant ident
        (s\<lparr>ov_actionNotice := Some ''Tenant unsuspended successfully.'', ov_confirmUnsuspendOpen := False\<rparr>))
      (\<lambda>err. actionFailed (toTenantDetailErrorMessage err ''Failed to unsuspend tenant.''))
      (\<lambda>s. s\<lparr>ov_actionBusy := False\<rparr>)
      (s\<lparr>ov_actionBusy := True, ov_actionError := None, ov_actionNotice := None\<rparr>) w = (s', w')"
    by (simp add: handleUnsuspend_def suspendReason_def)
  then show ?thesis
  proof (cases rule: attempt_cases)
    case (ok x w1 s1)
    then show ?thesis using True assms(4,5) by (auto simp: overviewTenant_def within_def split: prod.splits)
  qed (use True assms(4,5) in \<open>simp_all add: actionFailed_def\<close>)
next
  case False
  from assms(1-3) False have "attempt (suspendTenantAccess (tn_id t) (suspendReason s))
      (actionFailed (featureUnavailableMessage ''Suspending the workspace'' None))
      (\<lambda>_ s. overviewTenant ident
        (s\<lparr>ov_actionNotice := Some ''Tenant suspended successfully.'', ov_confirmSuspendOpen := False\<rparr>))
      (\<lambda>err. actionFailed (toTenantDetailErrorMessage err ''Failed to suspend tenant.''))
      (\<lambda>s. s\<lparr>ov_actionBusy := False\<rparr>)
      (s\<lparr>ov_actionBusy := True, ov_actionError := None, ov_actionNotice := None\<rparr>) w = (s', w')"
    by (simp add: handleSuspend_def suspendReason_def)
  then show ?thesis
  proof (cases rule: attempt_cases)
    case (ok x w1 s1)
    then show ?thesis using False assms(4,5) by (auto simp: overviewTenant_def within_def split: prod.splits)
  qed (use False assms(4,5) in \<open>simp_all add: actionFailed_def\<close>)
qed

definition shownOverview :: overview_page where
  "shownOverview = mountOverview 0 \<lparr>qs_data = Some (sampleTenant ''active'' None None), qs_error = None\<rparr> noData"

lemma shownOverview_facts:
  "qs_data (ov_tenant shownOverview) = Some (sampleTenant ''active'' None None)" "tn_id (sampleTenant ''active'' None None) = ''t1''"
  by (simp_all add: shownOverview_def mountOverview_def sampleTenant_def)

theorem overview_writes_its_tenant_witness:
  "addressed (tenantWrite ''t1'') freshBrowser (snd (overviewAct ''t1'' DeleteTenant shownOverview freshBrowser))"
  using overview_writes_its_tenant [OF shownOverview_facts(1,2) surjective_pairing] .

theorem suspend_outcome_witness:
  "let s' = fst (overviewAct ''t1'' SuspendTenant (openSuspend shownOverview) freshBrowser) in
   ov_actionError s' \<noteq> None \<and> ov_confirmSuspendOpen s'"
proof -
  let ?s = "openSuspend shownOverview"
  have o: "qs_data (ov_tenant ?s) = Some (sampleTenant ''active'' None None)" "ov_confirmSuspendOpen ?s"
    by (simp_all add: openSuspend_def shownOverview_def mountOverview_def)
  have c: "case fst (suspendTenantAccess ''t1'' (suspendReason ?s) freshBrowser) of Inr (Supported x) \<Rightarrow> False | _ \<Rightarrow> True" by code_simp
  obtain s' w' where s': "overviewAct ''t1'' (if False then UnsuspendTenant else SuspendTenant) ?s freshBrowser = (s', w')"
    by (metis prod.collapse)
  from suspend_outcome [OF s' o(1) _ refl] o(2) c show ?thesis
    using s' by (auto simp: shownOverview_facts(2) Let_def split: if_splits)
qed

subsection \<open>The password stays until it is saved\<close>

definition lastAnswer :: "ResetAdminPasswordResult \<Rightarrow> password_event list \<Rightarrow> ResetAdminPasswordResult" where
  "lastAnswer p es = fold (\<lambda>e p. case e of PasswordAnswer (Inr q) \<Rightarrow> q | _ \<Rightarrow> p) es p"

definition countdownOk :: "int \<Rightarrow> overview_page \<Rightarrow> bool" where
  "countdownOk t s \<longleftrightarrow> ov_passwordNow s \<le> t \<and>
     (case ov_passwordExpiry s of Some e \<Rightarrow> e - 30000 \<le> ov_passwordNow s | None \<Rightarrow> False)"

lemma passwordStep_keeps:
  assumes "ov_passwordResult s = Some p" and "countdownOk t0 s" and "t0 \<le> t" and "e \<noteq> PasswordSaved"
  shows "ov_passwordResult (passwordStep t e s) = Some (lastAnswer p [e]) \<and> countdownOk t (passwordStep t e s)"
  using assms
  by (cases e) (auto simp: passwordTick_def copyPassword_def resetAnswered_def passwordEffect_def lastAnswer_def countdownOk_def
      split: sum.split option.splits)

lemma countdown_range: "countdownOk t s \<Longrightarrow> 0 \<le> remainingSeconds s \<and> remainingSeconds s \<le> 30"
  by (auto simp: countdownOk_def remainingSeconds_def split: option.splits)

text \<open>
  C26: Once a new password is shown it stays, whatever ticks, copies and further resets follow, until
  the button that confirms it was saved: what is shown is the last password the server has set,
  and the countdown lies between nothing and thirty seconds.
\<close>

theorem password_kept_until_saved:
  assumes "PasswordSaved \<notin> set (map snd es)" and "sorted (t0 # map fst es)"
    and "s = fold (\<lambda>(t, e). passwordStep t e) es (passwordStep t0 (PasswordAnswer (Inr p)) s0)"
  shows "ov_passwordResult s = Some (lastAnswer p (map snd es)) \<and> 0 \<le> remainingSeconds s \<and> remainingSeconds s \<le> 30"
proof -
  have "ov_passwordResult (fold (\<lambda>(t, e). passwordStep t e) es s1) = Some (lastAnswer p (map snd es)) \<and>
      countdownOk (last (t0 # map fst es)) (fold (\<lambda>(t, e). passwordStep t e) es s1)"
    if "ov_passwordResult s1 = Some p" "countdownOk t0 s1" for s1
    using that assms(1,2)
  proof (induction es arbitrary: s1 p t0)
    case (Cons te es)
    obtain t e where te: "te = (t, e)" by (cases te)
    have k: "ov_passwordResult (passwordStep t e s1) = Some (lastAnswer p [e]) \<and> countdownOk t (passwordStep t e s1)"
      using passwordStep_keeps Cons.prems te by auto
    show ?case using Cons.IH [of "passwordStep t e s1" "lastAnswer p [e]" t] k Cons.prems te by (auto simp: lastAnswer_def)
  qed (simp add: lastAnswer_def)
  moreover have "ov_passwordResult (passwordStep t0 (PasswordAnswer (Inr p)) s0) = Some p"
    "countdownOk t0 (passwordStep t0 (PasswordAnswer (Inr p)) s0)"
    by (simp_all add: resetAnswered_def passwordEffect_def countdownOk_def)
  ultimately show ?thesis using countdown_range unfolding assms(3) by blast
qed

theorem password_kept_until_saved_witness:
  "ov_passwordResult (fold (\<lambda>(t, e). passwordStep t e) [(1000, PasswordTick), (2000, PasswordAnswer (Inl IllTyped)), (90000, PasswordTick)]
     (passwordStep 0 (PasswordAnswer (Inr \<lparr>rp_tenant_id = ''t1'', rp_domain = ''acme.test'', rp_administrator_user = ''Administrator'',
        rp_admin_password = ''pw'', rp_message = []\<rparr>)) shownOverview)) \<noteq> None"
  using password_kept_until_saved [OF _ _ refl, of "[(1000, PasswordTick), (2000, PasswordAnswer (Inl IllTyped)), (90000, PasswordTick)]" 0]
  by simp

subsection \<open>Payments and the trial\<close>

text \<open>
  Whenever the page warns about a payment the recovery section is there as well, and the
  warning offers a way on: the button that renews the payment link, or the tenant's billing page.
\<close>

theorem payment_warning_recoverable:
  "case paymentOffer ident ts us resuming of
     None \<Rightarrow> ts \<noteq> ''suspended_billing'' \<and> ts \<noteq> ''pending_payment'' \<and> us \<noteq> ''past_due''
   | Some (ResumeButton label d) \<Rightarrow> showPaymentRecovery ts us invoice \<and> d = resuming \<and> (ts = ''pending_payment'' \<or> us = ''past_due'')
   | Some (BillingLink label href) \<Rightarrow> showPaymentRecovery ts us invoice \<and> ts = ''suspended_billing'' \<and>
       href = ''/app/tenants/'' @ ident @ ''/billing''"
  by (auto simp: paymentOffer_def showPaymentRecovery_def PAYMENT_RECOVERY_STATUSES_def
      PAYMENT_RECOVERY_SUBSCRIPTION_STATUSES_def)

text \<open>The days of the banner are the days left, rounded up.\<close>

lemma trial_days_round_up:
  "trialDaysRemaining nowMs ends * 86400000 \<ge> ends - nowMs \<and> (trialDaysRemaining nowMs ends - 1) * 86400000 < ends - nowMs"
proof -
  define d :: int where "d = nowMs - ends"
  define q where "q = d div 86400000"
  obtain r where m: "d = q * 86400000 + r" "0 \<le> r" "r < 86400000"
  proof
    show "d = q * 86400000 + d mod 86400000" "0 \<le> d mod 86400000" "d mod 86400000 < 86400000"
      by (simp_all add: q_def div_mult_mod_eq)
  qed
  have "ends - nowMs = - d" "trialDaysRemaining nowMs ends = - q" by (simp_all add: trialDaysRemaining_def d_def q_def)
  then show ?thesis using m by simp
qed

text \<open>For a day after its end a trial is announced as ending in zero days.\<close>

lemma ended_trial_announced:
  assumes "ends < nowMs" and "nowMs < ends + 86400000" and "parseDate date = Some ends" and "date \<noteq> []"
    and "sb_subscription v = Some u" and "sub_trial_ends_at u = Some date" and "toLowerCase (sub_status u) = ''trialing''"
  shows "trialBanner parseDate nowMs v = Some (''error'', ''Your trial ends in 0 days. Upgrade to keep your workspace.'')"
proof -
  have "trialDaysRemaining nowMs ends = 0" using assms(1,2) by (simp add: trialDaysRemaining_def)
  moreover have "intStr 0 = ''0''" by code_simp
  ultimately show ?thesis
    using assms(3-7) by (simp add: trialBanner_def subscriptionStatus_def trialSeverity_def)
qed

subsection \<open>Shortcomings of the actions\<close>

text \<open>
  The phrase is checked when the dialog is opened, not when it is confirmed, and the dialog has the
  field again: with the phrase deleted there the deletion is still sent.
\<close>

definition alteredDelete :: overview_page where
  "alteredDelete = typeDelete ''no'' (openDelete (typeDelete ''acme'' shownOverview))"

lemma delete_phrase_not_rechecked:
  "ov_confirmDeleteOpen alteredDelete \<and> ov_deleteConfirm alteredDelete \<noteq> deletePhrase alteredDelete \<and>
   map (\<lambda>r. (fmethod r, reqUrl r)) (sent (snd (handleDelete ''t1'' alteredDelete freshBrowser))) = [(''DELETE'', ''/api/tenants/t1'')]"
  by code_simp

text \<open>
  A retry does not clear the error of the action before it: after a retry that was accepted the
  page shows the old error beside the notice.
\<close>

lemma retry_keeps_old_error:
  assumes "retryProvisioning_overview ident s w = (s', w')" and "ident \<noteq> []" and "ov_actionError s = Some e"
    and "fst (retryTenantProvisioningAction ident w) = Inr (Supported j)"
  shows "ov_actionError s' = Some e \<and> ov_actionNotice s' = Some ''Provisioning retry queued.''"
  using assms
  by (auto simp: retryProvisioning_overview_def attempt_def afterwards_def overviewTenant_def overviewJobs_def within_def
      split: prod.splits)

end
