(* ===== verification/Tenant_Workspace.thy ===== *)
theory Tenant_Workspace
  imports Tenant_Overview
begin

section \<open>The pages of a tenant together\<close>

text \<open>
  The actions of the tenant's pages, composed: overview, plan and payment, domains, members and
  backups. The locale states what each page promises, that its actions write only below the
  tenant they are for; its lemma carries this to every sequence of actions on any of the pages.
\<close>

subsection \<open>Runs\<close>

fun runActs :: "('a \<Rightarrow> 's handler) \<Rightarrow> 'a list \<Rightarrow> 's handler" where
  "runActs act [] s w = (s, w)"
| "runActs act (a # as) s w = (case act a s w of (s1, w1) \<Rightarrow> runActs act as s1 w1)"

text \<open>A condition on the state before every action of a run.\<close>

fun holdsAlong :: "('s \<Rightarrow> bool) \<Rightarrow> ('a \<Rightarrow> 's handler) \<Rightarrow> 'a list \<Rightarrow> 's \<Rightarrow> world \<Rightarrow> bool" where
  "holdsAlong P act [] s w \<longleftrightarrow> True"
| "holdsAlong P act (a # as) s w \<longleftrightarrow> P s \<and> (case act a s w of (s1, w1) \<Rightarrow> holdsAlong P act as s1 w1)"

locale tenant_section =
  fixes act :: "string \<Rightarrow> 'a \<Rightarrow> 's handler"
    and belongs :: "string \<Rightarrow> 's \<Rightarrow> bool"
  assumes writes: "belongs i s \<Longrightarrow> i \<noteq> [] \<Longrightarrow> addressed (tenantWrite i) w (snd (act i a s w))"
begin

lemma run_writes:
  assumes "i \<noteq> []" and "holdsAlong (belongs i) (act i) as s w"
  shows "addressed (tenantWrite i) w (snd (runActs (act i) as s w))"
  using assms(2)
proof (induction as arbitrary: s w)
  case (Cons a as)
  obtain s1 w1 where a: "act i a s w = (s1, w1)" by (cases "act i a s w")
  have "addressed (tenantWrite i) w w1" using writes [of i s w a] Cons.prems assms(1) by (simp add: a)
  moreover have "addressed (tenantWrite i) w1 (snd (runActs (act i) as s1 w1))"
    using Cons.IH [of s1 w1] Cons.prems by (simp add: a)
  ultimately show ?case by (simp add: a addressed_trans)
qed (simp add: addressed_refl)

end

subsection \<open>Each page\<close>

datatype billing_action = SubmitPlan | RetryPayment

primrec billingAct :: "string \<Rightarrow> billing_action \<Rightarrow> billing_page handler" where
  "billingAct ident SubmitPlan = submitPlanChange ident"
| "billingAct ident RetryPayment = retryPayment ident"

datatype backup_action = QueueBackup | ConfirmRestore | ReloadBackups

primrec backupAct :: "string \<Rightarrow> backup_action \<Rightarrow> backups_page handler" where
  "backupAct ident QueueBackup = queueBackup ident"
| "backupAct ident ConfirmRestore = confirmRestore ident"
| "backupAct ident ReloadBackups = loadBackupsData ident"

text \<open>The tenant a page shows, if any, is the one its path names.\<close>

definition showsTenant :: "string \<Rightarrow> Tenant query_state \<Rightarrow> bool" where
  "showsTenant i q \<longleftrightarrow> (case qs_data q of None \<Rightarrow> True | Some t \<Rightarrow> tn_id t = i)"

lemma showsTenantD: "showsTenant i q \<Longrightarrow> qs_data q = Some t \<Longrightarrow> tn_id t = i"
  by (simp add: showsTenant_def)

lemma domainWrite_below: "domainWrite i m p \<Longrightarrow> tenantWrite i m p"
  by (auto simp: domainWrite_def tenantWrite_def startsWith_def prefix_def)

lemma memberWrite_below: "memberWrite i m p \<Longrightarrow> tenantWrite i m p"
  by (auto simp: memberWrite_def tenantWrite_def startsWith_def prefix_def)

lemma domainAct_addressed: "addressed (domainWrite i) w (snd (domainAct i a s w))"
  by (cases a) (auto simp: addDomain_def verifyDomain_def removeDomain_def addressed_refl Let_def
      intro!: addressed_onlyWhen addressed_attempt addressed_domains addressed_loadDomains)

lemma memberAct_addressed: "addressed (memberWrite i) w (snd (memberAct i a s w))"
  by (cases a) (auto simp: inviteMember_def updateMember_def removeMember_def addressed_refl Let_def
      intro!: addressed_onlyWhen addressed_attempt addressed_membersCalls addressed_invalidate)

lemma addressed_backupCalls:
  "keeps (addressed (tenantWrite i)) (queueTenantBackupJob i)"
  "keeps (addressed (tenantWrite i)) (restoreTenantFromBackup i b)"
  "keeps (addressed (tenantWrite i)) (loadTenantBackupManifest i)"
proof -
  note d = queueTenantBackupJob_def enqueueTenantBackup_def api_backupTenant_def restoreTenantFromBackup_def
    restoreTenantByBackup_def api_restoreTenant_def
  show "keeps (addressed (tenantWrite i)) (queueTenantBackupJob i)"
    unfolding d by (rule addressed_request) (use tenantWrite_below(1) [of i _ "''backup''"] in simp)
  show "keeps (addressed (tenantWrite i)) (restoreTenantFromBackup i b)"
    unfolding d by (rule addressed_optional) (use tenantWrite_below(1) [of i _ "''restore''"] in simp)
  show "keeps (addressed (tenantWrite i)) (loadTenantBackupManifest i)"
    unfolding loadTenantBackupManifest_def fetchTenantBackups_def api_listTenantBackups_def
    by (rule addressed_optional) simp
qed

lemma backupAct_addressed: "addressed (tenantWrite i) w (snd (backupAct i a s w))"
  by (cases a) (auto simp: queueBackup_def confirmRestore_def loadBackupsData_def addressed_refl
      intro!: addressed_onlyWhen addressed_attempt addressed_attemptCall addressed_answered addressed_backupCalls
        addressed_staying)

lemma billingAct_addressed:
  assumes "showsTenant i (bp_tenant s)"
  shows "addressed (tenantWrite i) w (snd (billingAct i a s w))"
proof (cases "qs_data (bp_tenant s)")
  case (Some t)
  then have t: "tn_id t = i" using assms by (rule showsTenantD [rotated])
  show ?thesis
    by (cases a) (auto simp: submitPlanChange_def retryPayment_def Some t
        intro!: addressed_attempt addressed_afterwards addressed_billing addressed_overviewCalls)
qed (cases a; simp add: submitPlanChange_def retryPayment_def addressed_refl)

interpretation overview_section: tenant_section overviewAct "\<lambda>i s. showsTenant i (ov_tenant s)"
  by unfold_locales (rule overview_writes_tenant, erule (1) showsTenantD)

interpretation billing_section: tenant_section billingAct "\<lambda>i s. showsTenant i (bp_tenant s)"
  by unfold_locales (rule billingAct_addressed)

interpretation domain_section: tenant_section domainAct "\<lambda>i s. True"
  by unfold_locales (rule addressed_mono [OF domainAct_addressed domainWrite_below])

interpretation member_section: tenant_section memberAct "\<lambda>i s. True"
  by unfold_locales (rule addressed_mono [OF memberAct_addressed memberWrite_below])

interpretation backup_section: tenant_section backupAct "\<lambda>i s. True"
  by unfold_locales (rule backupAct_addressed)

subsection \<open>All pages\<close>

record tenant_workspace =
  tw_overview :: overview_page
  tw_billing :: billing_page
  tw_domains :: domains_page
  tw_members :: members_page
  tw_backups :: backups_page

datatype workspace_action =
    OnOverview overview_action | OnBilling billing_action | OnDomains domain_action | OnMembers member_action
  | OnBackups backup_action

primrec workspaceAct :: "string \<Rightarrow> workspace_action \<Rightarrow> tenant_workspace handler" where
  "workspaceAct ident (OnOverview a) = within tw_overview (\<lambda>q s. s\<lparr>tw_overview := q\<rparr>) (overviewAct ident a)"
| "workspaceAct ident (OnBilling a) = within tw_billing (\<lambda>q s. s\<lparr>tw_billing := q\<rparr>) (billingAct ident a)"
| "workspaceAct ident (OnDomains a) = within tw_domains (\<lambda>q s. s\<lparr>tw_domains := q\<rparr>) (domainAct ident a)"
| "workspaceAct ident (OnMembers a) = within tw_members (\<lambda>q s. s\<lparr>tw_members := q\<rparr>) (memberAct ident a)"
| "workspaceAct ident (OnBackups a) = within tw_backups (\<lambda>q s. s\<lparr>tw_backups := q\<rparr>) (backupAct ident a)"

definition workspaceBelongs :: "string \<Rightarrow> tenant_workspace \<Rightarrow> bool" where
  "workspaceBelongs i s \<longleftrightarrow> showsTenant i (ov_tenant (tw_overview s)) \<and> showsTenant i (bp_tenant (tw_billing s))"

interpretation workspace: tenant_section workspaceAct workspaceBelongs
proof
  fix i s w a
  assume "workspaceBelongs i s" "i \<noteq> []"
  then show "addressed (tenantWrite i) w (snd (workspaceAct i a s w))"
    by (cases a) (auto simp: workspaceBelongs_def intro!: addressed_within overview_section.writes billing_section.writes
        domain_section.writes member_section.writes backup_section.writes)
qed


definition openedWorkspace :: tenant_workspace where
  "openedWorkspace = \<lparr>tw_overview = shownOverview,
     tw_billing = mountBilling \<lparr>qs_data = Some (sampleTenant ''active'' None None), qs_error = None\<rparr> noData,
     tw_domains = initialDomains, tw_members = initialMembers, tw_backups = initialBackups\<rparr>"


end
