(* ===== verification/App_Shell.thy ===== *)
theory App_Shell
  imports Auth_Pages Navigation Route_Guard
begin

section \<open>The shell of the application\<close>

text \<open>
  \<^verbatim>\<open>saas-ui/app/(app-shell)/app/_components/AppShell.tsx\<close>: the frame around every page of the
  application. It shows its content only after it has made sure of a session, and it guards
  the admin pages once more. A run of its effect is one function; the route the router was sent
  to is part of the state.
\<close>

record app_shell =
  sl_checked :: bool
  sl_authorized :: bool
  sl_canSeeAdmin :: bool
  sl_route :: "string option"

definition initialShell :: app_shell where
  "initialShell = \<lparr>sl_checked = False, sl_authorized = False, sl_canSeeAdmin = False, sl_route = None\<rparr>"

definition hasValidToken :: "string option \<Rightarrow> int \<Rightarrow> bool" where
  "hasValidToken token nowMs =
     (case payloadExp (parseTokenPayload token) of None \<Rightarrow> False | Some e \<Rightarrow> e * 1000 > nowMs)"

definition buildShellLoginUrl :: "string \<Rightarrow> string" where
  "buildShellLoginUrl pathname =
     (let nextPath = (if startsWith pathname ''/app'' then pathname else ''/app/overview'') in
      ''/login?next='' @ encodeURIComponent nextPath)"

definition finishShell :: "bool \<Rightarrow> bool \<Rightarrow> app_shell \<Rightarrow> app_shell" where
  "finishShell nextAuthorized nextCanSeeAdmin s =
     s\<lparr>sl_authorized := nextAuthorized, sl_canSeeAdmin := nextCanSeeAdmin, sl_checked := True\<rparr>"

definition ensureSession :: "bool \<Rightarrow> string \<Rightarrow> app_shell \<Rightarrow> app_shell io" where
  "ensureSession hasBuffer pathname s =
     await (liftResult getToken) (\<lambda>token.
     await (asks now) (\<lambda>t.
       if hasValidToken token t then ret (finishShell True (isAdminSession (parseSessionToken hasBuffer token)) s)
       else
         await refreshAuthSession (\<lambda>refreshed.
           case refreshed of
             Some p \<Rightarrow>
               if tp_access_token p \<noteq> [] then
                 await (modify (saveToken (tp_access_token p))) (\<lambda>_.
                   ret (finishShell True (isAdminSession (parseSessionToken hasBuffer (Some (tp_access_token p)))) s))
               else
                 await (modify clearToken) (\<lambda>_. ret (finishShell False False (s\<lparr>sl_route := Some (buildShellLoginUrl pathname)\<rparr>)))
           | None \<Rightarrow>
               await (modify clearToken) (\<lambda>_. ret (finishShell False False (s\<lparr>sl_route := Some (buildShellLoginUrl pathname)\<rparr>))))))"

definition guardRoute :: "bool \<Rightarrow> string \<Rightarrow> app_shell \<Rightarrow> app_shell io" where
  "guardRoute hasBuffer pathname s =
     (if \<not> sl_checked s \<or> \<not> sl_authorized s then ret s
      else if pathname = ''/app'' then ret (s\<lparr>sl_route := Some ''/app/overview''\<rparr>)
      else if startsWith pathname ''/app/admin'' then
        await (liftResult getToken) (\<lambda>token.
        await (asks now) (\<lambda>t.
          ret (case decideAdminRouteAccess (parseSessionToken hasBuffer token) (truthyStr token) pathname t of
                 Allow \<Rightarrow> s
               | Deny _ _ _ \<Rightarrow> s\<lparr>sl_route := Some ''/app/overview?reason=admin-required''\<rparr>)))
      else ret s)"

definition showsContent :: "app_shell \<Rightarrow> bool" where
  "showsContent s \<longleftrightarrow> sl_checked s \<and> sl_authorized s"

definition shellSections :: "app_shell \<Rightarrow> ShellNavSection list" where
  "shellSections s = buildAppNavSections (sl_canSeeAdmin s)"

subsection \<open>Facts\<close>

lemma refreshAuthSession_total: "\<exists>r w1. refreshAuthSession w = (Inr r, w1)"
  by (cases "refreshSessionToken w"; cases "fst (refreshSessionToken w)") (auto simp: refreshAuthSession_def io_simps)

lemma refreshAuthSession_keeps_store:
  "refreshAuthSession w = (r, w1) \<Longrightarrow> hasWindow w \<and> wfJar w \<Longrightarrow> hasWindow w1 \<and> wfJar w1"
proof -
  assume a: "refreshAuthSession w = (r, w1)" "hasWindow w \<and> wfJar w"
  have "w1 = snd (refreshSessionToken w)"
    using a(1) by (cases "refreshSessionToken w"; cases "fst (refreshSessionToken w)") (auto simp: refreshAuthSession_def io_simps)
  then show ?thesis
    using request_keeps_store [of _ _ _ _ w "fst (refreshSessionToken w)" w1] a(2)
    by (metis prod.collapse refreshSessionToken_def api_refreshToken_def)
qed

definition noSession :: "string \<Rightarrow> app_shell \<Rightarrow> app_shell" where
  "noSession pathname s = finishShell False False (s\<lparr>sl_route := Some (buildShellLoginUrl pathname)\<rparr>)"

lemma ensureSession_cases:
  assumes "getToken w = Inr token"
  obtains
    (live) "hasValidToken token (now w)"
      "ensureSession hasBuffer pathname s w = (Inr (finishShell True (isAdminSession (parseSessionToken hasBuffer token)) s), w)"
  | (refreshed) p w1 where "\<not> hasValidToken token (now w)" "refreshAuthSession w = (Inr (Some p), w1)" "tp_access_token p \<noteq> []"
      "ensureSession hasBuffer pathname s w =
        (Inr (finishShell True (isAdminSession (parseSessionToken hasBuffer (Some (tp_access_token p)))) s),
         saveToken (tp_access_token p) w1)"
  | (lost) r w1 where "\<not> hasValidToken token (now w)" "refreshAuthSession w = (Inr r, w1)"
      "ensureSession hasBuffer pathname s w = (Inr (noSession pathname s), clearToken w1)"
proof (cases "hasValidToken token (now w)")
  case True
  then show ?thesis using live assms by (simp add: ensureSession_def liftResult_def io_simps)
next
  case False
  obtain r w1 where r: "refreshAuthSession w = (Inr r, w1)" using refreshAuthSession_total by blast
  note e = ensureSession_def liftResult_def io_simps noSession_def
  show ?thesis
  proof (cases r)
    case None
    then show ?thesis using lost False r assms by (simp add: e)
  next
    case (Some p)
    then show ?thesis
      using refreshed lost False r assms by (cases "tp_access_token p = []") (simp_all add: e)
  qed
qed


definition operatorWorld :: world where
  "operatorWorld = freshBrowser\<lparr>localStorage := [TOKEN_KEY \<mapsto> hourToken]\<rparr>"

lemma operatorWorld_facts:
  "hasWindow operatorWorld" "wfJar operatorWorld" "getToken operatorWorld = Inr (Some hourToken)"
  "hasValidToken (Some hourToken) (now operatorWorld)"
  by (simp_all add: operatorWorld_def freshBrowser_def wfJar_def getToken_def readEntry_def hasValidToken_def payloadExp_def
      parseTokenPayload_parseToken [OF hourToken_nonempty] parse_hourToken)

lemma operator_live:
  "ensureSession hasBuffer p s operatorWorld =
    (Inr (finishShell True (isAdminSession (parseSessionToken hasBuffer (Some hourToken))) s), operatorWorld)"
  using ensureSession_cases [OF operatorWorld_facts(3), of hasBuffer p s] operatorWorld_facts(4) by metis




end
