(* ===== verification/Notifications.thy ===== *)
theory Notifications
  imports Types Session Bounded_History
begin

section \<open>Notifications\<close>

text \<open>
  \<^verbatim>\<open>saas-ui/domains/shared/components/NotificationsProvider.tsx\<close>: the list of notifications that is
  kept in the local storage, and the toasts that disappear after some seconds. The list's
  operations are state updates followed by the effect that stores the new list; the toasts live
  in a second state, with the interval that sweeps them as an explicit next deadline.
\<close>

definition STORAGE_KEY :: string where
  "STORAGE_KEY = ''erp-saas:notifications:v1''"

definition NOTIFICATION_LIMIT :: nat where
  "NOTIFICATION_LIMIT = 200"

subsection \<open>The stored form\<close>

primrec notificationTypeName :: "NotificationType \<Rightarrow> string" where
  "notificationTypeName NSuccess = ''success''"
| "notificationTypeName NWarning = ''warning''"
| "notificationTypeName NError = ''error''"
| "notificationTypeName NInfo = ''info''"

definition toNotificationType :: "string \<Rightarrow> NotificationType option" where
  "toNotificationType s = find (\<lambda>t. notificationTypeName t = s) [NSuccess, NWarning, NError, NInfo]"

definition json_NotificationItem :: "NotificationItem \<Rightarrow> json" where
  "json_NotificationItem n = JObj
     [(''type'', JStr (notificationTypeName (ni_type n))), (''title'', JStr (ni_title n)), (''body'', JStr (ni_body n)),
      (''id'', JStr (ni_id n)), (''created_at'', JStr (ni_created_at n)), (''read'', JBool (ni_read n))]"

definition as_NotificationItem :: "json \<Rightarrow> NotificationItem option" where
  "as_NotificationItem j = do {
     i \<leftarrow> reqStr j ''id'';
     s \<leftarrow> reqStr j ''type'';
     ty \<leftarrow> toNotificationType s;
     ti \<leftarrow> reqStr j ''title'';
     b \<leftarrow> reqStr j ''body'';
     c \<leftarrow> reqStr j ''created_at'';
     r \<leftarrow> reqBool j ''read'';
     Some \<lparr>ni_id = i, ni_type = ty, ni_title = ti, ni_body = b, ni_created_at = c, ni_read = r\<rparr> }"

lemma as_json_NotificationItem [simp]: "as_NotificationItem (json_NotificationItem n) = Some n"
  by (cases "ni_type n")
     (simp_all add: as_NotificationItem_def json_NotificationItem_def toNotificationType_def field_defs)

definition loadNotifications :: "world \<Rightarrow> exn + NotificationItem list" where
  "loadNotifications w =
     (if \<not> hasWindow w then Inr []
      else case localStorage w STORAGE_KEY of
        None \<Rightarrow> Inr []
      | Some raw \<Rightarrow>
          if raw = [] then Inr []
          else case JSON_parse raw of
            Some (JArr vs) \<Rightarrow> (case readAll as_NotificationItem vs of Some ns \<Rightarrow> Inr ns | None \<Rightarrow> Inl IllTyped)
          | _ \<Rightarrow> Inr [])"

definition persistNotifications :: "NotificationItem list \<Rightarrow> world \<Rightarrow> world" where
  "persistNotifications ns w =
     (if \<not> hasWindow w then w
      else storageSet STORAGE_KEY (JSON_stringify (JArr (map json_NotificationItem (take NOTIFICATION_LIMIT ns)))) w)"

lemma load_persist:
  assumes "hasWindow w"
  shows "loadNotifications (persistNotifications ns w) = Inr (take NOTIFICATION_LIMIT ns)"
proof -
  let ?vs = "map json_NotificationItem (take NOTIFICATION_LIMIT ns)"
  have "readAll as_NotificationItem ?vs = Some (take NOTIFICATION_LIMIT ns)" by (rule readAll_map) simp
  then show ?thesis
    using assms by (simp add: loadNotifications_def persistNotifications_def storageSet_def del: JSON_stringify.simps)
qed

lemma hasWindow_persist [simp]: "hasWindow (persistNotifications ns w) = hasWindow w"
  by (simp add: persistNotifications_def storageSet_def)

lemma persist_persist [simp]: "persistNotifications ns (persistNotifications ms w) = persistNotifications ns w"
  by (simp add: persistNotifications_def storageSet_def del: JSON_stringify.simps)

subsection \<open>The list and its operations\<close>

text \<open>
  Mounting runs the two effects of the first render, which still has the empty list: the stored
  list is read, then the empty one is stored; the second render stores what was read. In React's
  strict mode, which \<^verbatim>\<open>next.config.js\<close> switches on, a development build runs the effects of the
  first render twice.
\<close>

definition mountEffects :: "world \<Rightarrow> (exn + NotificationItem list) \<times> world" where
  "mountEffects w = (loadNotifications w, persistNotifications [] w)"

definition storeLoaded :: "(exn + NotificationItem list) \<times> world \<Rightarrow> (exn + NotificationItem list) \<times> world" where
  "storeLoaded p = (case p of (Inr ns, w) \<Rightarrow> (Inr ns, persistNotifications ns w) | (Inl e, w) \<Rightarrow> (Inl e, w))"

definition mountNotifications :: "world \<Rightarrow> (exn + NotificationItem list) \<times> world" where
  "mountNotifications w = storeLoaded (mountEffects w)"

definition mountNotificationsStrict :: "world \<Rightarrow> (exn + NotificationItem list) \<times> world" where
  "mountNotificationsStrict w = storeLoaded (mountEffects (snd (mountEffects w)))"

definition notification :: "NotificationType \<Rightarrow> string \<Rightarrow> string \<Rightarrow> string \<Rightarrow> string \<Rightarrow> int \<Rightarrow> NotificationItem" where
  "notification ty title body random stamp t =
     \<lparr>ni_id = intStr t @ ''-'' @ random, ni_type = ty, ni_title = title, ni_body = body, ni_created_at = stamp,
      ni_read = False\<rparr>"

definition prependItem :: "NotificationItem \<Rightarrow> NotificationItem list \<Rightarrow> NotificationItem list" where
  "prependItem n ns = take NOTIFICATION_LIMIT (n # ns)"

definition markRead :: "string \<Rightarrow> NotificationItem list \<Rightarrow> NotificationItem list" where
  "markRead i = map (\<lambda>n. if ni_id n = i then n\<lparr>ni_read := True\<rparr> else n)"

definition markAllRead :: "NotificationItem list \<Rightarrow> NotificationItem list" where
  "markAllRead = map (\<lambda>n. n\<lparr>ni_read := True\<rparr>)"

definition clearAll :: "NotificationItem list \<Rightarrow> NotificationItem list" where
  "clearAll ns = []"

definition unreadCount :: "NotificationItem list \<Rightarrow> nat" where
  "unreadCount ns = length (filter (\<lambda>n. \<not> ni_read n) ns)"

text \<open>The identifier's random part and the ISO form of the time are inputs of the event.\<close>

datatype notice_event =
    AddNotification NotificationType string string string string
  | MarkRead string
  | MarkAllRead
  | ClearAll

primrec notice :: "notice_event \<Rightarrow> world \<Rightarrow> NotificationItem list \<Rightarrow> NotificationItem list" where
  "notice (AddNotification ty ti b r stamp) w ns = prependItem (notification ty ti b r stamp (now w)) ns"
| "notice (MarkRead i) w ns = markRead i ns"
| "notice MarkAllRead w ns = markAllRead ns"
| "notice ClearAll w ns = clearAll ns"

definition notifyStep :: "notice_event \<Rightarrow> NotificationItem list \<times> world \<Rightarrow> NotificationItem list \<times> world" where
  "notifyStep e s = (case s of (ns, w) \<Rightarrow> let ns' = notice e w ns in (ns', persistNotifications ns' w))"

subsection \<open>Facts about the list\<close>

interpretation nl: bounded_history prependItem "\<lambda>ns. ns" NOTIFICATION_LIMIT
  by unfold_locales (simp add: prependItem_def)

lemma length_marks [simp]: "length (markRead i ns) = length ns" "length (markAllRead ns) = length ns"
  by (simp_all add: markRead_def markAllRead_def)

lemma notice_bounded: "length ns \<le> NOTIFICATION_LIMIT \<Longrightarrow> length (notice e w ns) \<le> NOTIFICATION_LIMIT"
  using nl.adds_bounded [of ns "[x]" for x] by (cases e) (auto simp: clearAll_def)

definition storedIs :: "NotificationItem list \<times> world \<Rightarrow> bool" where
  "storedIs s \<longleftrightarrow> (case s of (ns, w) \<Rightarrow>
     hasWindow w \<and> length ns \<le> NOTIFICATION_LIMIT \<and> loadNotifications w = Inr ns)"

lemma storedIs_step: "storedIs s \<Longrightarrow> storedIs (notifyStep e s)"
  by (cases s) (auto simp: storedIs_def notifyStep_def Let_def notice_bounded load_persist)

lemma storedIs_steps: "storedIs s \<Longrightarrow> storedIs (fold notifyStep es s)"
  by (induction es arbitrary: s) (auto simp: storedIs_step)

lemma mount_load: "hasWindow w \<Longrightarrow> fst (mountNotifications w) = loadNotifications w"
  by (simp add: mountNotifications_def mountEffects_def storeLoaded_def split: sum.split)

text \<open>
  C16: Notifications survive a reload: after any sequence of added, read and cleared
  notifications, mounting the provider again shows exactly the list it had, with what was read,
  and storing it again changes nothing.
\<close>

theorem notifications_survive_reload:
  assumes "hasWindow w" and "mountNotifications w = (Inr ns, w1)" and "length ns \<le> NOTIFICATION_LIMIT"
    and "fold notifyStep es (ns, w1) = (ns', w')"
  shows "fst (mountNotifications w') = Inr ns' \<and> length ns' \<le> NOTIFICATION_LIMIT \<and>
    fst (mountNotifications (snd (mountNotifications w'))) = Inr ns'"
proof -
  have "storedIs (ns, w1)"
    using assms(1-3) by (auto simp: storedIs_def mountNotifications_def mountEffects_def storeLoaded_def load_persist
        split: sum.splits)
  then have s: "storedIs (ns', w')" using storedIs_steps assms(4) by metis
  then have 1: "fst (mountNotifications w') = Inr ns'" by (simp add: storedIs_def mount_load)
  then have "mountNotifications w' = (Inr ns', persistNotifications ns' w')"
    by (auto simp: mountNotifications_def mountEffects_def storeLoaded_def split: sum.splits)
  with 1 s show ?thesis by (simp add: storedIs_def mount_load load_persist)
qed

definition noticeExample :: "notice_event list" where
  "noticeExample = [AddNotification NInfo ''Job queued'' ''Backup'' ''ab12'' ''2023-11-14T22:13:20.123Z'',
     AddNotification NError ''Job failed'' ''Backup'' ''cd34'' ''2023-11-14T22:13:20.123Z'',
     MarkRead ''1700000000123-ab12'']"

theorem notifications_survive_reload_witness:
  "fst (mountNotifications (snd (fold notifyStep noticeExample ([], persistNotifications [] freshBrowser)))) =
     Inr (fst (fold notifyStep noticeExample ([], persistNotifications [] freshBrowser)))"
proof -
  have 1: "hasWindow freshBrowser" by (simp add: freshBrowser_def)
  have 2: "mountNotifications freshBrowser = (Inr [], persistNotifications [] freshBrowser)"
    by (simp add: mountNotifications_def mountEffects_def storeLoaded_def loadNotifications_def freshBrowser_def
        persistNotifications_def storageSet_def)
  show ?thesis
    using notifications_survive_reload [OF 1 2, of noticeExample] by (simp add: NOTIFICATION_LIMIT_def)
qed

text \<open>
  A development build forgets all notifications at every reload: strict mode runs the first
  render's effects twice, and the second reading finds the empty list the first run stored.
\<close>

theorem strict_mode_forgets:
  "mountNotificationsStrict (persistNotifications ns freshBrowser) = (Inr [], persistNotifications [] freshBrowser)"
  using load_persist [of freshBrowser "[]"]
  by (simp add: mountNotificationsStrict_def mountEffects_def storeLoaded_def freshBrowser_def)

text \<open>
  The bell counts right: a new notification is shown first, unread, above the latest ones in
  the order they came; reading one lowers the count by the unread ones with its identifier, and
  reading all or clearing leaves none.
\<close>

theorem unread_count_correct:
  "take 1 (notice (AddNotification ty ti b r stamp) w ns) = [notification ty ti b r stamp (now w)] \<and>
   unreadCount (notice (AddNotification ty ti b r stamp) w ns) =
     Suc (unreadCount (take (NOTIFICATION_LIMIT - 1) ns)) \<and>
   unreadCount (notice (MarkRead i) w ns) + length (filter (\<lambda>n. ni_id n = i \<and> \<not> ni_read n) ns) = unreadCount ns \<and>
   unreadCount (notice MarkAllRead w ns) = 0 \<and> notice ClearAll w ns = []"
proof -
  have "unreadCount (markRead i ns) + length (filter (\<lambda>n. ni_id n = i \<and> \<not> ni_read n) ns) = unreadCount ns"
    by (induction ns) (auto simp: unreadCount_def markRead_def)
  moreover have "filter (\<lambda>n. \<not> ni_read n) (markAllRead ns) = []"
    by (auto simp: markAllRead_def filter_empty_conv)
  ultimately show ?thesis
    by (simp add: prependItem_def NOTIFICATION_LIMIT_def unreadCount_def notification_def clearAll_def numeral_eq_Suc)
qed

subsection \<open>Toasts\<close>

text \<open>
  A toast is shown until a sweep finds it expired. The interval of the sweep is set up again
  whenever the number of toasts changes, also by a new toast.
\<close>

record toast =
  ts_item :: NotificationItem
  ts_expiresAt :: int

record toaster =
  tt_toasts :: "toast list"
  tt_tick :: "int option"

definition TOAST_LIFE :: int where "TOAST_LIFE = 4000"
definition SWEEP_INTERVAL :: int where "SWEEP_INTERVAL = 500"

definition showToast :: "int \<Rightarrow> NotificationItem \<Rightarrow> toaster \<Rightarrow> toaster" where
  "showToast t n s = \<lparr>tt_toasts = tt_toasts s @ [\<lparr>ts_item = n, ts_expiresAt = t + TOAST_LIFE\<rparr>],
     tt_tick = Some (t + SWEEP_INTERVAL)\<rparr>"

definition sweepToasts :: "int \<Rightarrow> toaster \<Rightarrow> toaster" where
  "sweepToasts t s =
     (let ts = filter (\<lambda>x. t < ts_expiresAt x) (tt_toasts s) in
      \<lparr>tt_toasts = ts, tt_tick = (if ts = [] then None else Some (t + SWEEP_INTERVAL))\<rparr>)"

text \<open>Time passes up to \<open>t\<close>: every sweep that is due happens.\<close>

function passTime :: "int \<Rightarrow> toaster \<Rightarrow> toaster" where
  "passTime t s = (case tt_tick s of None \<Rightarrow> s | Some k \<Rightarrow> if t < k then s else passTime t (sweepToasts k s))"
  by pat_completeness auto

termination passTime
  by (relation "measure (\<lambda>(t, s). case tt_tick s of None \<Rightarrow> 0 | Some k \<Rightarrow> nat (t + 1 - k))")
     (auto simp: sweepToasts_def Let_def SWEEP_INTERVAL_def)

declare passTime.simps [simp del]

lemma passTime_keeps: "x \<in> set (tt_toasts s) \<Longrightarrow> t < ts_expiresAt x \<Longrightarrow> x \<in> set (tt_toasts (passTime t s))"
proof (induction t s rule: passTime.induct)
  case (1 t s)
  show ?case
  proof (cases "tt_tick s")
    case None
    then show ?thesis using 1 by (simp add: passTime.simps [of t s])
  next
    case (Some k)
    show ?thesis
    proof (cases "t < k")
      case False
      then have "x \<in> set (tt_toasts (sweepToasts k s))" using 1 by (auto simp: sweepToasts_def Let_def)
      then show ?thesis using 1 Some False by (simp add: passTime.simps [of t s])
    qed (use 1 Some in \<open>simp add: passTime.simps [of t s]\<close>)
  qed
qed

lemma passTime_clears:
  assumes "\<And>x. x \<in> set (tt_toasts s) \<Longrightarrow> ts_expiresAt x \<le> e"
    and "tt_tick s = None \<Longrightarrow> tt_toasts s = []"
    and "\<And>k. tt_tick s = Some k \<Longrightarrow> k < e + SWEEP_INTERVAL" and "e + SWEEP_INTERVAL \<le> t"
  shows "tt_toasts (passTime t s) = []"
  using assms
proof (induction t s rule: passTime.induct)
  case (1 t s)
  show ?case
  proof (cases "tt_tick s")
    case None
    then show ?thesis using 1 by (simp add: passTime.simps [of t s])
  next
    case (Some k)
    then have k: "\<not> t < k" using 1 by fastforce
    have old: "ts_expiresAt x \<le> e" if "x \<in> set (tt_toasts s)" for x using 1 that by blast
    have "tt_toasts (passTime t (sweepToasts k s)) = []"
      by (rule 1(1) [OF Some k]) (use old 1(5) in \<open>force simp: sweepToasts_def Let_def filter_empty_conv split: if_splits\<close>)+
    then show ?thesis using Some k by (simp add: passTime.simps [of t s])
  qed
qed

text \<open>
  A toast is shown for four seconds and, when no other toast follows it, for less than four
  and a half: it is there at every moment before its end, and gone half a second after it.
\<close>

theorem toast_lifetime:
  assumes "tt_toasts s = []"
  shows "(t' < t + TOAST_LIFE \<longrightarrow> map ts_item (tt_toasts (passTime t' (showToast t n s))) = [n]) \<and>
    (t + TOAST_LIFE + SWEEP_INTERVAL \<le> t' \<longrightarrow> tt_toasts (passTime t' (showToast t n s)) = [])"
proof (intro conjI impI)
  let ?s = "showToast t n s" and ?x = "\<lparr>ts_item = n, ts_expiresAt = t + TOAST_LIFE\<rparr>"
  have only: "tt_toasts ?s = [?x]" using assms by (simp add: showToast_def)
  have shrink: "length (tt_toasts (passTime t' s)) \<le> length (tt_toasts s)" for s
  proof (induction t' s rule: passTime.induct)
    case (1 t s)
    show ?case
    proof (cases "tt_tick s")
      case (Some k)
      have "length (tt_toasts (sweepToasts k s)) \<le> length (tt_toasts s)" by (simp add: sweepToasts_def Let_def)
      then show ?thesis using 1 Some by (cases "t < k") (fastforce simp: passTime.simps [of t s])+
    qed (simp add: passTime.simps [of t s])
  qed
  show "map ts_item (tt_toasts (passTime t' ?s)) = [n]" if "t' < t + TOAST_LIFE"
  proof -
    have "?x \<in> set (tt_toasts (passTime t' ?s))" by (rule passTime_keeps) (use only that in auto)
    moreover have "length (tt_toasts (passTime t' ?s)) \<le> 1" using shrink [of ?s] only by simp
    ultimately show ?thesis by (cases "tt_toasts (passTime t' ?s)") auto
  qed
  show "tt_toasts (passTime t' ?s) = []" if "t + TOAST_LIFE + SWEEP_INTERVAL \<le> t'"
    by (rule passTime_clears [where e = "t + TOAST_LIFE"])
       (use that assms in \<open>auto simp: showToast_def TOAST_LIFE_def SWEEP_INTERVAL_def\<close>)
qed

theorem toast_lifetime_witness:
  "tt_toasts (passTime 4600 (showToast 0 (notification NInfo ''Saved'' ''Done'' ''ab12'' ''stamp'' 0)
     \<lparr>tt_toasts = [], tt_tick = None\<rparr>)) = []"
  using toast_lifetime [of "\<lparr>tt_toasts = [], tt_tick = None\<rparr>" 4600 0]
  by (simp add: TOAST_LIFE_def SWEEP_INTERVAL_def)

text \<open>
  New toasts keep the old ones: while a new toast appears every 499 milliseconds the sweep
  never happens, so that after any number of them all are still shown, however long ago the
  first expired.
\<close>

primrec toastStream :: "NotificationItem \<Rightarrow> nat \<Rightarrow> toaster" where
  "toastStream n 0 = \<lparr>tt_toasts = [], tt_tick = None\<rparr>"
| "toastStream n (Suc k) = passTime (499 * int (Suc k)) (showToast (499 * int k) n (toastStream n k))"

theorem toasts_starve_sweep:
  "length (tt_toasts (toastStream n k)) = k"
proof (induction k)
  case (Suc k)
  have "passTime (499 * int (Suc k)) (showToast (499 * int k) n s) = showToast (499 * int k) n s" for s
    by (simp add: passTime.simps showToast_def SWEEP_INTERVAL_def)
  then show ?case using Suc by (simp add: showToast_def)
qed simp

end
