(* ===== verification/Shell_Frame.thy ===== *)
theory Shell_Frame
  imports App_Shell Notifications Site_Redirects Billing
begin

section \<open>The frame around the pages\<close>

text \<open>
  What surrounds the pages: the headers of the shell and of the public site
  (\<^verbatim>\<open>AppTopHeader.tsx\<close>, \<^verbatim>\<open>app/(shared)/layout.tsx\<close>), the navigation of the workspaces
  (\<^verbatim>\<open>DashboardNav.tsx\<close>, \<^verbatim>\<open>WorkspaceLocalNav.tsx\<close>, \<^verbatim>\<open>WorkspaceSidebar.tsx\<close>), the links of a tenant's pages
  (\<^verbatim>\<open>TenantSectionLinks.tsx\<close>), the bell of the notifications, the strip of service states, breadcrumbs and
  the confirmation dialog, and the customers' shell \<^verbatim>\<open>UserShell.tsx\<close>, which decides on a session as
  \<^verbatim>\<open>AppShell.tsx\<close> does.
\<close>

subsection \<open>The customers' shell\<close>

record user_shell =
  us_checked :: bool
  us_authorized :: bool
  us_route :: "string option"

definition initialUserShell :: user_shell where
  "initialUserShell = \<lparr>us_checked = False, us_authorized = False, us_route = None\<rparr>"

definition hasValidToken_user :: "string option \<Rightarrow> int \<Rightarrow> bool" where
  "hasValidToken_user token nowMs =
     (if \<not> truthyStr token then False
      else case tokenSegment (the token) of
        None \<Rightarrow> False
      | Some payload \<Rightarrow>
          (case Option.bind (atob (padB64 (normalizeB64url payload))) JSON_parse of
             None \<Rightarrow> False
           | Some decoded \<Rightarrow> (case asNum (getProp decoded ''exp'') of None \<Rightarrow> False | Some e \<Rightarrow> e * 1000 > nowMs)))"

definition userLoginUrl :: "string \<Rightarrow> string" where
  "userLoginUrl pathname = ''/login?next='' @ encodeURIComponent (if pathname = [] then ''/app/overview'' else pathname)"

definition ensureUserSession :: "string \<Rightarrow> user_shell \<Rightarrow> user_shell io" where
  "ensureUserSession pathname s =
     await (liftResult getToken) (\<lambda>token.
     await (asks now) (\<lambda>t.
       if hasValidToken_user token t then ret (s\<lparr>us_authorized := True, us_checked := True\<rparr>)
       else
         await refreshAuthSession (\<lambda>refreshed.
           if truthyStr (map_option tp_access_token refreshed) then
             await (modify (saveToken (tp_access_token (the refreshed)))) (\<lambda>_.
               ret (s\<lparr>us_authorized := True, us_checked := True\<rparr>))
           else
             await (modify clearToken) (\<lambda>_.
               ret (s\<lparr>us_authorized := False, us_checked := True, us_route := Some (userLoginUrl pathname)\<rparr>)))))"

record page_heading =
  ph_overline :: string
  ph_title :: string
  ph_subtitle :: string
  ph_breadcrumbs :: "(string \<times> string option) list"

definition APP_NON_QUEUE_HEADERS :: "(string \<times> page_heading) list" where
  "APP_NON_QUEUE_HEADERS =
     (let home = (''Overview'', Some ''/app/overview'') in
      [(''/app/overview'', \<lparr>ph_overline = ''Overview'', ph_title = ''Workspace command center'',
         ph_subtitle = ''Workspace dashboards and customer-safe operational checkpoints.'',
         ph_breadcrumbs = [(''Overview'', None)]\<rparr>),
       (''/app/account/profile'', \<lparr>ph_overline = ''Account'', ph_title = ''Account workspace'',
         ph_subtitle = ''Profile, billing identity, and account readiness details.'',
         ph_breadcrumbs = [home, (''Account'', None), (''Profile'', None)]\<rparr>),
       (''/app/overview/activity'', \<lparr>ph_overline = ''Overview'', ph_title = ''Workspace activity'',
         ph_subtitle = ''Recent tenant-facing lifecycle and billing activity.'',
         ph_breadcrumbs = [home, (''Activity'', None)]\<rparr>),
       (''/app/billing/invoices'', \<lparr>ph_overline = ''Billing'', ph_title = ''Billing workspace'',
         ph_subtitle = ''Customer billing review and payment follow-up controls.'',
         ph_breadcrumbs = [home, (''Billing'', None), (''Invoices'', None)]\<rparr>),
       (''/app/billing/recovery'', \<lparr>ph_overline = ''Billing'', ph_title = ''Billing recovery'',
         ph_subtitle = ''Recovery steps for failed or pending payment states.'',
         ph_breadcrumbs = [home, (''Billing'', None), (''Recovery'', None)]\<rparr>),
       (''/app/platform/health'', \<lparr>ph_overline = ''Platform'', ph_title = ''Platform health'',
         ph_subtitle = ''Customer-safe health checks for key platform services.'',
         ph_breadcrumbs = [home, (''Platform'', None), (''Health'', None)]\<rparr>),
       (''/app/account/settings'', \<lparr>ph_overline = ''Account'', ph_title = ''Workspace settings'',
         ph_subtitle = ''Notification, contact, and communication preferences.'',
         ph_breadcrumbs = [home, (''Account'', None), (''Settings'', None)]\<rparr>),
       (''/app/support/escalations'', \<lparr>ph_overline = ''Support'', ph_title = ''Support overview'',
         ph_subtitle = ''Support guidance, readiness, and channel selection.'',
         ph_breadcrumbs = [home, (''Support'', None), (''Escalations'', None)]\<rparr>)])"

text \<open>Nothing before the check has ended well; then the heading of the path, if it has one, and the page.\<close>

definition userShellHeading :: "string \<Rightarrow> user_shell \<Rightarrow> page_heading option option" where
  "userShellHeading pathname s =
     (if \<not> us_checked s \<or> \<not> us_authorized s then None else Some (map_of APP_NON_QUEUE_HEADERS pathname))"

subsection \<open>Navigation\<close>

definition globalWorkspaceSection :: ShellNavSection where
  "globalWorkspaceSection =
     \<lparr>ss_title = ''Workspaces'', ss_description = Some ''Primary navigation'',
      ss_items = map (\<lambda>d. \<lparr>sn_href = wd_href d, sn_label = wd_label d, sn_hint = None,
          sn_match = (if wd_key d = WsTenants then Some [''/dashboard/active'', ''/tenants'', ''/dashboard/registry''] else None),
          sn_icon = Some (wd_icon d)\<rparr>) workspaceDescriptors\<rparr>"

definition adminWorkspaceSection :: ShellNavSection where
  "adminWorkspaceSection =
     \<lparr>ss_title = ''Admin'', ss_description = Some ''Privileged operations'',
      ss_items = [\<lparr>sn_href = ''/app/admin/control-overview'', sn_label = ''Admin'', sn_hint = None,
        sn_match = Some [''/app/admin'', ''/admin''], sn_icon = Some ''platform''\<rparr>]\<rparr>"

definition dashboardSections :: "string option \<Rightarrow> ShellNavSection list" where
  "dashboardSections role =
     (if role = Some ''admin'' \<or> role = Some ''support'' then [globalWorkspaceSection, adminWorkspaceSection]
      else [globalWorkspaceSection])"

text \<open>The icons by their names in the library of icons.\<close>

definition resolveNavIcon :: "string option \<Rightarrow> string" where
  "resolveNavIcon icon =
     (if icon = Some ''overview'' then ''DashboardOutlined''
      else if icon = Some ''tenants'' then ''BusinessOutlined''
      else if icon = Some ''billing'' then ''ReceiptLongOutlined''
      else if icon = Some ''support'' then ''SupportAgentOutlined''
      else if icon = Some ''platform'' then ''SettingsSuggestOutlined''
      else if icon = Some ''account'' then ''ManageAccountsOutlined''
      else ''ChevronRightOutlined'')"

record sidebar_entry =
  sb_href :: string
  sb_icon :: string
  sb_label :: string
  sb_hint :: "string option"
  sb_selected :: bool

record sidebar_section =
  sb_title :: "string option"
  sb_description :: "string option"
  sb_entries :: "sidebar_entry list"

definition workspaceSidebar :: "ShellNavSection list \<Rightarrow> string \<Rightarrow> bool \<Rightarrow> sidebar_section list" where
  "workspaceSidebar sections pathname compact =
     map (\<lambda>section. \<lparr>sb_title = (if compact then None else Some (ss_title section)),
        sb_description = (if compact \<or> \<not> truthyStr (ss_description section) then None else ss_description section),
        sb_entries = map (\<lambda>item. \<lparr>sb_href = sn_href item, sb_icon = resolveNavIcon (sn_icon item), sb_label = sn_label item,
            sb_hint = (if compact then None else sn_hint item), sb_selected = isShellNavItemActive pathname item\<rparr>)
          (ss_items section)\<rparr>) sections"

definition LOCAL_NAV_WORKSPACE_KEYS :: "WorkspaceKey list" where
  "LOCAL_NAV_WORKSPACE_KEYS = [WsTenants, WsBilling, WsSupport, WsPlatform]"

record local_nav =
  lv_title :: string
  lv_tabs :: "(string \<times> string) list"
  lv_value :: "string option"
  lv_description :: "string option"

definition workspaceLocalNav :: "string \<Rightarrow> local_nav option" where
  "workspaceLocalNav pathname =
     (if resolveWorkspaceKeyFromPath (Some pathname) \<notin> set LOCAL_NAV_WORKSPACE_KEYS then None
      else
        (let section = getWorkspaceLocalNavForPath (Some pathname);
             first = (case ss_items section of [] \<Rightarrow> None | item # _ \<Rightarrow> Some item);
             active = (case List.find (isShellNavItemActive pathname) (ss_items section) of Some i \<Rightarrow> Some i | None \<Rightarrow> first) in
         Some \<lparr>lv_title = ss_title section, lv_tabs = map (\<lambda>item. (sn_label item, sn_href item)) (ss_items section),
           lv_value = map_option sn_href active,
           lv_description = (if truthyStr (ss_description section) then ss_description section else None)\<rparr>))"

subsection \<open>The header of the shell\<close>

definition resolveWorkspaceLabel :: "string \<Rightarrow> string" where
  "resolveWorkspaceLabel pathname =
     (if startsWith pathname ''/app/admin'' then ''Admin''
      else if startsWith pathname ''/app/tenants'' then ''Workspaces''
      else if startsWith pathname ''/app/billing'' then ''Billing''
      else if startsWith pathname ''/app/support'' then ''Support''
      else if startsWith pathname ''/app/platform'' then ''Platform''
      else if startsWith pathname ''/app/account'' then ''Account''
      else ''Overview'')"

definition accountMenu :: "(string \<times> string) list" where
  "accountMenu = [(''Account'', ''/app/account/profile''), (''Settings'', ''/app/account/settings''), (''Sign out'', ''/login?logout=1'')]"

subsection \<open>The links of a tenant's pages\<close>

record TenantSectionNavItem =
  sx_route :: string
  sx_label :: string
  sx_href :: string
  sx_active :: bool

definition sectionRoutes :: "(string \<times> string) list" where
  "sectionRoutes = [([], ''Overview''), (''billing'', ''Subscription''), (''jobs'', ''Jobs''), (''backups'', ''Backups''),
     (''domains'', ''Domains''), (''members'', ''Team''), (''audit'', ''Activity log''), (''support'', ''Support notes'')]"

definition buildTenantSectionNavItems :: "string \<Rightarrow> string \<Rightarrow> TenantSectionNavItem list" where
  "buildTenantSectionNavItems pathname tenantId =
     (let basePath = ''/app/tenants/'' @ tenantId in
      map (\<lambda>(route, label).
        let href = (if route \<noteq> [] then basePath @ ''/'' @ route else basePath) in
        \<lparr>sx_route = route, sx_label = label, sx_href = href,
         sx_active = (if route \<noteq> [] then isExactOrChildPath pathname href else isTenantOverviewPath pathname tenantId)\<rparr>)
        sectionRoutes)"

definition tenantTabs :: "(string \<times> string) list" where
  "tenantTabs = [(''Overview'', ''overview''), (''Members'', ''members''), (''Domains'', ''domains''), (''Billing'', ''billing''),
     (''Jobs'', ''jobs''), (''Audit'', ''audit''), (''Backups'', ''backups''), (''Support'', ''support'')]"

text \<open>The tabs of the scaffold, of which the one of its own section is lit.\<close>

definition scaffoldTabs :: "string \<Rightarrow> string \<Rightarrow> (string \<times> string \<times> bool) list" where
  "scaffoldTabs tenantId section =
     map (\<lambda>(label, s). (label, ''/app/tenants/'' @ tenantId @ ''/'' @ s, s = section)) tenantTabs"

subsection \<open>Breadcrumbs and the confirmation dialog\<close>

text \<open>The crumbs with their links: an entry without a reference, and the last one, are plain text.\<close>

definition breadcrumbLinks :: "(string \<times> string option) list \<Rightarrow> (string \<times> string option) list" where
  "breadcrumbLinks items =
     map (\<lambda>(i, label, href). (label, if \<not> truthyStr href \<or> i = length items - 1 then None else href)) (enumerate 0 items)"

record confirm_dialog =
  cd_dismissable :: bool
  cd_cancel :: "string \<times> bool"
  cd_confirm :: "string \<times> bool"

definition ConfirmActionDialog :: "string \<Rightarrow> bool \<Rightarrow> confirm_dialog" where
  "ConfirmActionDialog confirmLabel busy =
     \<lparr>cd_dismissable = (\<not> busy), cd_cancel = (''Cancel'', busy),
      cd_confirm = (if busy then ''Working...'' else confirmLabel, busy)\<rparr>"

subsection \<open>The bell\<close>

record notification_bell =
  nb_badge :: "nat option"
  nb_panel :: "(bool \<times> string \<times> string \<times> string) list option"

definition notificationBell ::
  "(string \<Rightarrow> string option) \<Rightarrow> bool \<Rightarrow> NotificationItem list \<Rightarrow> notification_bell" where
  "notificationBell fmt isOpen ns =
     \<lparr>nb_badge = (if unreadCount ns \<noteq> 0 then Some (unreadCount ns) else None),
      nb_panel = (if isOpen
        then Some (map (\<lambda>n. (ni_read n, formatTimestamp fmt (Some (ni_created_at n)), ni_title n, ni_body n)) ns)
        else None)\<rparr>"

datatype bell_event = ToggleBell | CloseBell | MarkAllClicked | ClearClicked | ItemClicked string

definition bellEvent :: "bell_event \<Rightarrow> bool \<times> NotificationItem list \<times> world \<Rightarrow> bool \<times> NotificationItem list \<times> world" where
  "bellEvent e s =
     (case s of (isOpen, ns) \<Rightarrow>
        case e of
          ToggleBell \<Rightarrow> (\<not> isOpen, ns)
        | CloseBell \<Rightarrow> (False, ns)
        | MarkAllClicked \<Rightarrow> (isOpen, notifyStep MarkAllRead ns)
        | ClearClicked \<Rightarrow> (isOpen, notifyStep ClearAll ns)
        | ItemClicked i \<Rightarrow> (isOpen, notifyStep (MarkRead i) ns))"

subsection \<open>The strip of service states\<close>

definition MIDDLE_DOT_strip :: string where
  "MIDDLE_DOT_strip = [CHR 0xC2, CHR 0xB7]"

datatype HealthValue = HvChecking | HvOk | HvUnsupported | HvUnavailable

definition chipColor :: "HealthValue \<Rightarrow> string" where
  "chipColor v =
     (case v of HvOk \<Rightarrow> ''success'' | HvUnsupported \<Rightarrow> ''warning'' | HvUnavailable \<Rightarrow> ''error'' | HvChecking \<Rightarrow> ''default'')"

definition responseOk :: "response \<Rightarrow> bool" where
  "responseOk r \<longleftrightarrow> 200 \<le> rstatus r \<and> rstatus r \<le> 299"

definition toHealthFromResponse :: "response \<Rightarrow> HealthValue" where
  "toHealthFromResponse r =
     (if responseOk r then HvOk else if rstatus r = 404 \<or> rstatus r = 501 then HvUnsupported else HvUnavailable)"

record status_strip =
  ts_api :: HealthValue
  ts_auth :: HealthValue
  ts_billing :: HealthValue

definition initialStrip :: status_strip where
  "initialStrip = \<lparr>ts_api = HvChecking, ts_auth = HvChecking, ts_billing = HvChecking\<rparr>"

definition stripRequest :: "string \<Rightarrow> fetch_req" where
  "stripRequest url = \<lparr>reqUrl = url, fmethod = ''GET'', fheaders = [], fbody = None\<rparr>"

definition settledHealth :: "(response \<Rightarrow> HealthValue) \<Rightarrow> exn + response \<Rightarrow> HealthValue" where
  "settledHealth ok r = (case r of Inl _ \<Rightarrow> HvUnavailable | Inr x \<Rightarrow> ok x)"

definition loadStrip :: "status_strip \<Rightarrow> world \<Rightarrow> status_strip \<times> world" where
  "loadStrip s w =
     (let (api, w1) = fetch (stripRequest ''/api/health'') w;
          (auth, w2) = fetch (stripRequest ''/api/auth/health'') w1;
          (billing, w3) = fetch (stripRequest ''/api/billing/health'') w2 in
      (s\<lparr>ts_api := settledHealth (\<lambda>r. if responseOk r then HvOk else HvUnavailable) api,
         ts_auth := settledHealth toHealthFromResponse auth,
         ts_billing := settledHealth toHealthFromResponse billing\<rparr>, w3))"

definition healthName :: "HealthValue \<Rightarrow> string" where
  "healthName v =
     (case v of HvChecking \<Rightarrow> ''checking'' | HvOk \<Rightarrow> ''ok'' | HvUnsupported \<Rightarrow> ''unsupported'' | HvUnavailable \<Rightarrow> ''unavailable'')"

text \<open>\<open>env\<close> and \<open>version\<close> are the build's variables, when they are set.\<close>

definition statusStrip :: "string option \<Rightarrow> string option \<Rightarrow> string option \<Rightarrow> status_strip \<Rightarrow> string \<times> (string \<times> string) list" where
  "statusStrip appEnv nodeEnv version s =
     (''Biashara Cloud '' @ MIDDLE_DOT_strip @ '' '' @ nullish appEnv (nullish nodeEnv ''development'') @ '' '' @ MIDDLE_DOT_strip @ '' v'' @
        nullish version ''dev'',
      [(''API '' @ healthName (ts_api s), chipColor (ts_api s)), (''Auth '' @ healthName (ts_auth s), chipColor (ts_auth s)),
       (''Billing '' @ healthName (ts_billing s), chipColor (ts_billing s))])"

subsection \<open>The header of the public site\<close>

definition parseToken_shared :: "string option \<Rightarrow> json option" where
  "parseToken_shared token =
     (if \<not> truthyStr token then None
      else case tokenSegment (the token) of
        None \<Rightarrow> None
      | Some payload \<Rightarrow> JSON_parse (bufferFromBase64 (padB64 (normalizeB64url payload))))"

definition isExpired_shared :: "json option \<Rightarrow> int \<Rightarrow> bool" where
  "isExpired_shared payload nowMs =
     (if \<not> truthyNum (payloadExp payload) then False else the (payloadExp payload) * 1000 \<le> nowMs)"

record shared_header =
  sh_links :: "(string \<times> string) list"
  sh_bell :: bool
  sh_user :: "string option"

definition SharedLayout :: "(string \<rightharpoonup> string) \<Rightarrow> int \<Rightarrow> shared_header" where
  "SharedLayout cookies nowMs =
     (let token = cookies ''erp_saas_token''; payload = parseToken_shared token;
          authenticated = (truthyStr token \<and> \<not> isExpired_shared payload nowMs);
          role = payloadStr ''role'' payload;
          userLabel = (case payloadStr ''email'' payload of Some e \<Rightarrow> Some e | None \<Rightarrow> payloadStr ''sub'' payload) in
      if authenticated
      then \<lparr>sh_links = [(''Onboarding'', ''/app/platform/onboarding''), (''Dashboard'', ''/app/overview''),
          (''Billing'', ''/app/billing/invoices'')] @
          (if role = Some ''admin'' \<or> role = Some ''support'' then [(''Admin'', ''/app/admin/control-overview'')] else []) @
          [(''Logout'', ''/login?logout=1'')],
        sh_bell = True,
        sh_user = Some (if truthyStr userLabel
          then the userLabel @ (if truthyStr role then '' ('' @ the role @ '')'' else []) else ''Signed in'')\<rparr>
      else \<lparr>sh_links = [(''Sign in'', ''/login''), (''Start now'', ''/signup'')], sh_bell = False, sh_user = None\<rparr>)"

subsection \<open>Facts\<close>

lemma parseToken_buffer: "parseToken_shared token = parseSessionToken True token"
  by (auto simp: parseToken_shared_def parseSessionToken_def tokenSegment_def decodeBase64Url_def padB64_def normalizeB64url_def
      Let_def split: list.splits)

lemma expired_shared: "isExpired_shared p t = tokenExpired p t"
  by (auto simp: isExpired_shared_def tokenExpired_def truthyNum_def split: option.split)

lemma validToken_user: "hasValidToken_user token t = hasValidToken token t"
  by (auto simp: hasValidToken_user_def hasValidToken_def parseTokenPayload_def payloadExp_def Option.bind_def
      split: option.splits)

definition forgetAdmin :: "app_shell \<Rightarrow> user_shell" where
  "forgetAdmin s = \<lparr>us_checked = sl_checked s, us_authorized = sl_authorized s, us_route = sl_route s\<rparr>"

text \<open>
  The two shells decide alike: on a page under \<^verbatim>\<open>/app\<close> the customers' shell ends its check with the same
  verdict, the same way to the sign-in page and the same session in the browser as the shell of the
  application, of which it only lacks the test for operators.
\<close>

theorem shells_agree:
  "ensureUserSession (''/app'' @ rest) (forgetAdmin s) w =
     (let (r, w') = ensureSession hasBuffer (''/app'' @ rest) s w in (map_sum (\<lambda>e. e) forgetAdmin r, w'))"
proof (cases "getToken w")
  case (Inl e)
  then show ?thesis by (simp add: ensureUserSession_def ensureSession_def liftResult_def io_simps)
next
  case (Inr token)
  note d = ensureUserSession_def ensureSession_def liftResult_def io_simps validToken_user forgetAdmin_def finishShell_def
    userLoginUrl_def buildShellLoginUrl_def
  obtain r w1 where r: "refreshAuthSession w = (Inr r, w1)" using refreshAuthSession_total by blast
  show ?thesis
  proof (cases "hasValidToken token (now w)")
    case True
    then show ?thesis using Inr by (simp add: d)
  next
    case False
    then show ?thesis using Inr r
      by (cases r; cases "tp_access_token (the r) = []") (simp_all add: d startsWith_def)
  qed
qed

definition tokenCookie :: "string \<Rightarrow> string \<rightharpoonup> string" where
  "tokenCookie tok = [TOKEN_COOKIE \<mapsto> tok]"



text \<open>
  Signing out works from every page: the link of both headers is let through by the middleware whatever the session,
  and the page it opens drops the token, for every cookie and store.
\<close>

theorem sign_out_ends_session:
  assumes "hasWindow w" and "wfJar w"
  shows "middleware \<lparr>rqPathname = ''/login'', rqSearch = ''?logout=1'', rqQuery = [(''logout'', ''1'')], rqCookies = cs\<rparr> t = Next [] \<and>
    getToken (snd (loginEffect [(''logout'', ''1'')] pg w)) = Inr None"
  using session.get_clear [of w] assms
  by (simp add: loginEffect_def flagged_def queryGet_def middleware_def isPublicAuthRoute_def Let_def)

theorem sign_out_ends_session_witness:
  "getToken (snd (loginEffect [(''logout'', ''1'')] pg freshBrowser)) = Inr None"
  using sign_out_ends_session [of freshBrowser] by (simp add: freshBrowser_def wfJar_def)

definition tabOf :: "string \<Rightarrow> string \<Rightarrow> string" where
  "tabOf tenantId href = drop (length (''/app/tenants/'' @ tenantId @ ''/'')) href"

text \<open>
  The two navigations of a tenant agree: the links of the page layout and the entries of the entity's
  navigation have the same tabs, and light the same one on every path.
\<close>

theorem section_links_agree:
  "set (map (\<lambda>x. (if sx_route x = [] then ''overview'' else sx_route x, sx_active x)) (buildTenantSectionNavItems p i)) =
   set (map (\<lambda>x. (tabOf i (te_href x), te_active x)) (tenantNavItems p i))"
  by (simp add: buildTenantSectionNavItems_def sectionRoutes_def tenantNavItems_def TENANT_TABS_def tabOf_def Let_def insert_commute)

definition headerLabel :: "WorkspaceKey \<Rightarrow> string" where
  "headerLabel k =
     (case k of WsOverview \<Rightarrow> ''Overview'' | WsTenants \<Rightarrow> ''Workspaces'' | WsBilling \<Rightarrow> ''Billing'' | WsSupport \<Rightarrow> ''Support''
      | WsPlatform \<Rightarrow> ''Platform'' | WsAccount \<Rightarrow> ''Account'')"

definition shellPages :: "string list" where
  "shellPages = map (drop (length ''(app-shell)''))
     (filter (\<lambda>d. startsWith d ''(app-shell)'' \<and> map_of pageModules d = None \<and> \<not> list_ex (\<lambda>c. c = CHR ''['') d) pageDirectories)"

text \<open>
  The label in the header names the workspace the navigation resolves, on every page of the shell without
  parameters that is shown, apart from the operators' pages, which are no workspace; and each heading of the customers' shell
  belongs to a page.
\<close>

theorem header_label_agrees:
  "list_all (\<lambda>p. resolveWorkspaceLabel p =
       (if startsWith p ''/app/admin'' then ''Admin'' else headerLabel (resolveWorkspaceKeyFromPath (Some p)))) shellPages"
  by code_simp

lemma headings_of_pages: "list_all (\<lambda>(path, h). path \<in> set shellPages) APP_NON_QUEUE_HEADERS"
  by code_simp

text \<open>
  The tabs of a workspace always have one of them chosen. The rail, whose entries but one have a single route,
  lights none on four of the pages.
\<close>

lemma local_nav_chosen:
  "workspaceLocalNav p = Some v \<Longrightarrow> lv_value v \<in> Some ` snd ` set (lv_tabs v)"
proof -
  assume a: "workspaceLocalNav p = Some v"
  let ?s = "getWorkspaceLocalNavForPath (Some p)"
  obtain i items where s: "ss_items ?s = i # items"
    by (cases "resolveWorkspaceKeyFromPath (Some p)") (simp_all add: getWorkspaceLocalNavForPath_def)
  show ?thesis
  proof (cases "List.find (isShellNavItemActive p) (ss_items ?s)")
    case None
    then show ?thesis using a s by (auto simp: workspaceLocalNav_def Let_def split: if_splits)
  next
    case (Some j)
    then have "j \<in> set (ss_items ?s)" by (auto simp: find_Some_iff)
    then show ?thesis using a Some by (auto simp: workspaceLocalNav_def Let_def image_image split: if_splits)
  qed
qed

theorem rail_lights_none:
  "list_all (\<lambda>p. list_all (\<lambda>item. \<not> isShellNavItemActive p item) (ss_items globalWorkspaceSection))
     [''/app/billing/recovery'', ''/app/support/escalations'', ''/app/platform/health'', ''/app/account/settings'']"
  by code_simp

text \<open>The bell's badge is the number of unread entries it lists, and none is left after marking all.\<close>

lemma bell_badge:
  "nb_panel (notificationBell fmt True ns) = Some rows \<Longrightarrow>
     nullish (nb_badge (notificationBell fmt True ns)) 0 = length (filter (\<lambda>(read, _). \<not> read) rows)"
  "nb_badge (notificationBell fmt b (fst (snd (bellEvent MarkAllClicked (b, ns, w))))) = None"
  by (auto simp: notificationBell_def unreadCount_def bellEvent_def notifyStep_def markAllRead_def Let_def filter_map comp_def)

lemma fetch_sent: "sent (snd (fetch r w)) = sent w @ [r]"
  by (simp add: fetch_def Let_def split: list.split prod.split fetch_outcome.split)

text \<open>The strip ends with a state for every service, whatever the network does, after three requests.\<close>

theorem strip_settles:
  "let (s, w') = loadStrip initialStrip w in
   list_all (\<lambda>v. v \<noteq> HvChecking) [ts_api s, ts_auth s, ts_billing s] \<and> ts_api s \<noteq> HvUnsupported \<and>
   map reqUrl (drop (length (sent w)) (sent w')) = [''/api/health'', ''/api/auth/health'', ''/api/billing/health'']"
proof -
  obtain a w1 where 1: "fetch (stripRequest ''/api/health'') w = (a, w1)" by fastforce
  obtain b w2 where 2: "fetch (stripRequest ''/api/auth/health'') w1 = (b, w2)" by fastforce
  obtain c w3 where 3: "fetch (stripRequest ''/api/billing/health'') w2 = (c, w3)" by fastforce
  have "sent w3 = sent w @ map stripRequest [''/api/health'', ''/api/auth/health'', ''/api/billing/health'']"
    using fetch_sent [of "stripRequest ''/api/health''" w] fetch_sent [of "stripRequest ''/api/auth/health''" w1]
      fetch_sent [of "stripRequest ''/api/billing/health''" w2] 1 2 3 by simp
  moreover have "settledHealth toHealthFromResponse r \<noteq> HvChecking"
    "settledHealth (\<lambda>r. if responseOk r then HvOk else HvUnavailable) r \<notin> {HvChecking, HvUnsupported}" for r
    by (auto simp: settledHealth_def toHealthFromResponse_def split: sum.split)
  ultimately show ?thesis by (simp add: loadStrip_def 1 2 3) (simp add: stripRequest_def)
qed

end
