(* ===== verification/Overview_Page.thy ===== *)
theory Overview_Page
  imports Tenant_Workspace Shell_Frame
begin

section \<open>The overview of a tenant as it is shown\<close>

text \<open>
  What \<^verbatim>\<open>overview/page.tsx\<close> shows of the state of the theory Tenant_Overview, section by section with the
  buttons, the dialogs and what they carry, and the runs of the page: a step is a control that the page
  shows enabled, a fresh answer of a query, or the clock of the password. The texts the user reads are modelled,
  the layout is not.
\<close>

subsection \<open>What the page reads beside its own state\<close>

text \<open>
  \<open>od_extra\<close> is \<^verbatim>\<open>String(field ?? "")\<close> of a field the server may send with a subscription and that its type does not
  declare, empty for a field that is not there.
\<close>

record overview_data =
  od_user :: "UserProfile option"
  od_summary :: "TenantSummary OptionalEndpointResult query_state"
  od_subscription :: "TenantSubscription OptionalEndpointResult query_state"
  od_extra :: "string \<Rightarrow> string"

record browser_texts =
  bt_date :: "string \<Rightarrow> string option"
  bt_money :: "string \<Rightarrow> int \<Rightarrow> string option"
  bt_parseDate :: "string \<Rightarrow> int option"
  bt_now :: int
  bt_pathname :: string

definition subscriptionExtra :: "overview_data \<Rightarrow> string \<Rightarrow> string" where
  "subscriptionExtra d name =
     (if sb_subscription (useTenantSubscriptionData (od_subscription d)) = None then [] else od_extra d name)"

definition summaryOf :: "overview_data \<Rightarrow> TenantSummary option" where
  "summaryOf d = fst (useTenantSummaryData (od_summary d))"

definition subStatusOf :: "overview_data \<Rightarrow> string" where
  "subStatusOf d = subscriptionStatus (useTenantSubscriptionData (od_subscription d))"

text \<open>An alert is shown for a text that is there and not empty.\<close>

definition shownText :: "string option \<Rightarrow> string option" where
  "shownText x = (if truthyStr x then x else None)"

subsection \<open>The alert about a payment and the recovery card\<close>

definition paymentAlert :: "string \<Rightarrow> overview_data \<Rightarrow> overview_page \<Rightarrow> Tenant \<Rightarrow> (string \<times> payment_offer) option" where
  "paymentAlert ident d s t =
     map_option (Pair (if subscriptionExtra d ''reason_label'' \<noteq> [] then subscriptionExtra d ''reason_label''
         else if subscriptionExtra d ''next_action'' \<noteq> [] then subscriptionExtra d ''next_action''
         else nextActionByStatus (tn_status t)))
       (paymentOffer ident (tenantStatusOf s) (subStatusOf d) (ov_resumingCheckout s))"

record recovery_card =
  rc_line :: string
  rc_due :: "string option"
  rc_resume :: "(string \<times> bool) option"
  rc_links :: "(string \<times> string) list"
  rc_subscriptionError :: "string option"
  rc_notice :: "string option"
  rc_error :: "string option"

definition recoveryCard ::
  "browser_texts \<Rightarrow> string \<Rightarrow> overview_data \<Rightarrow> overview_page \<Rightarrow> Tenant \<Rightarrow> recovery_card option" where
  "recoveryCard b ident d s t =
     (let v = useTenantSubscriptionData (od_subscription d); summary = summaryOf d in
      if showPaymentRecovery (tenantStatusOf s) (subStatusOf d) (invoiceStatusOf summary)
      then Some \<lparr>rc_line = recoveryLine t v summary,
        rc_due = map_option (\<lambda>i. ''Invoice due: '' @ formatAmount (bt_money b) (bi_amount_due i) (nullish (bi_currency i) ''TZS''))
          (Option.bind summary ts_last_invoice),
        rc_resume = (if tenantStatusOf s \<in> set [''pending'', ''pending_payment'']
          then Some (if ov_resumingCheckout s then ''Opening checkout...'' else ''Resume checkout'', ov_resumingCheckout s)
          else None),
        rc_links = [(''Open billing portal'', ''/app/billing/invoices''),
          (''Open tenant billing'', ''/app/tenants/'' @ ident @ ''/billing'')],
        rc_subscriptionError = shownText (sb_error v),
        rc_notice = shownText (ov_recoveryNotice s),
        rc_error = shownText (ov_recoveryError s)\<rparr>
      else None)"

subsection \<open>The operations of the role admin\<close>

record password_dialog =
  pd_lines :: "string list"
  pd_password :: string
  pd_copy :: "string option"
  pd_reminder :: string
  pd_regenerate :: "string \<times> bool"

definition passwordDialog :: "overview_page \<Rightarrow> password_dialog option" where
  "passwordDialog s =
     map_option (\<lambda>r. \<lparr>
       pd_lines = [''Save this password now. The dialog will stay open until you confirm it is saved.'',
         ''Tenant: '' @ rp_domain r, ''User: '' @ rp_administrator_user r],
       pd_password = rp_admin_password r,
       pd_copy = (if ov_copyState s = ''copied'' then Some ''Copied''
         else if ov_copyState s = ''error'' then Some ''Copy failed'' else None),
       pd_reminder = ''Visual save reminder: '' @ intStr (remainingSeconds s) @ ''s'',
       pd_regenerate = (if ov_resetBusy s then ''Regenerating...'' else ''Regenerate'', ov_resetBusy s)\<rparr>)
     (ov_passwordResult s)"

record delete_card =
  dc_phrase :: string
  dc_typed :: string
  dc_button :: "string \<times> bool"
  dc_notice :: "string option"
  dc_error :: "string option"

definition deleteCard :: "overview_page \<Rightarrow> delete_card" where
  "deleteCard s =
     \<lparr>dc_phrase = (if deletePhrase s = [] then EM_DASH else deletePhrase s),
      dc_typed = ov_deleteConfirm s,
      dc_button = (if ov_deleteBusy s then ''Queuing...'' else ''Delete workspace'',
        ov_deleteBusy s \<or> ov_deleteConfirm s \<noteq> deletePhrase s),
      dc_notice = shownText (ov_deleteNotice s),
      dc_error = shownText (ov_deleteError s)\<rparr>"

record operator_card =
  oc_blocked :: "string option"
  oc_reason :: string
  oc_suspend :: "string \<times> bool"
  oc_unsuspend :: "string \<times> bool"
  oc_unsuspendTitle :: "string option"
  oc_password :: string
  oc_reset :: "string \<times> bool"
  oc_resetError :: "string option"
  oc_dialog :: "password_dialog option"
  oc_deletion :: delete_card

definition operatorCard :: "overview_page \<Rightarrow> operator_card" where
  "operatorCard s =
     (let billingSuspended = (tenantStatusOf s = ''suspended_billing'');
          blocked = (if billingSuspended then Some (blockedActionReason ''Tenant unsuspend'') else None) in
      \<lparr>oc_blocked = blocked,
       oc_reason = ov_actionReason s,
       oc_suspend = (''Suspend tenant'', ov_actionBusy s),
       oc_unsuspend = (unsuspendLabel s, ov_actionBusy s \<or> billingSuspended),
       oc_unsuspendTitle = blocked,
       oc_password = ov_newPassword s,
       oc_reset = (if ov_resetBusy s then ''Resetting...'' else ''Reset admin login'', ov_resetBusy s),
       oc_resetError = shownText (ov_resetError s),
       oc_dialog = passwordDialog s,
       oc_deletion = deleteCard s\<rparr>)"

text \<open>The three confirmations: title, text, buttons, and the field with its label.\<close>

record confirmation =
  cn_title :: string
  cn_body :: string
  cn_buttons :: confirm_dialog
  cn_field :: "(string \<times> string) option"

definition suspendDialog :: "overview_page \<Rightarrow> confirmation option" where
  "suspendDialog s =
     (if ov_confirmSuspendOpen s
      then Some \<lparr>cn_title = ''Suspend workspace'',
        cn_body = ''This will immediately block user access. Enter a reason if it should be shown to the tenant owner.'',
        cn_buttons = ConfirmActionDialog ''Suspend workspace'' (ov_actionBusy s),
        cn_field = Some (''Reason'', ov_actionReason s)\<rparr>
      else None)"

definition unsuspendDialog :: "overview_page \<Rightarrow> confirmation option" where
  "unsuspendDialog s =
     (if ov_confirmUnsuspendOpen s
      then Some \<lparr>cn_title = ''Unsuspend workspace'',
        cn_body = ''This will restore workspace access unless billing policy blocks the action.'',
        cn_buttons = ConfirmActionDialog ''Unsuspend workspace'' (ov_actionBusy s), cn_field = None\<rparr>
      else None)"

definition deleteDialog :: "overview_page \<Rightarrow> confirmation option" where
  "deleteDialog s =
     (if ov_confirmDeleteOpen s
      then Some \<lparr>cn_title = ''Delete workspace'',
        cn_body = ''This queues destructive workspace deletion. Confirm the tenant subdomain before continuing.'',
        cn_buttons = ConfirmActionDialog ''Delete workspace'' (ov_deleteBusy s),
        cn_field = Some (''Type '' @ (if deletePhrase s = [] then ''confirmation text'' else deletePhrase s), ov_deleteConfirm s)\<rparr>
      else None)"

subsection \<open>The page\<close>

record overview_view =
  ow_crumbs :: "(string \<times> string option) list"
  ow_tabs :: "TenantSectionNavItem list"
  ow_trial :: "(string \<times> string \<times> string) option"
  ow_payment :: "(string \<times> payment_offer) option"
  ow_company :: string
  ow_workspace :: string
  ow_buttons :: "(string \<times> bool) list"
  ow_cards :: "(string \<times> string) list"
  ow_next :: string
  ow_recovery :: "recovery_card option"
  ow_copied :: string
  ow_operations :: "string + operator_card"
  ow_notice :: "string option"
  ow_error :: "string option"
  ow_summaryError :: "string option"
  ow_jobs :: "string list section_content"
  ow_latest :: "string list"
  ow_dialogs :: "confirmation option \<times> confirmation option \<times> confirmation option"
  ow_footer :: "string option"

datatype overview_screen = IdMissing string | TenantPending bool string | OverviewShown overview_view

definition overviewShown :: "browser_texts \<Rightarrow> string \<Rightarrow> overview_data \<Rightarrow> overview_page \<Rightarrow> Tenant \<Rightarrow> overview_view" where
  "overviewShown b ident d s t =
     \<lparr>ow_crumbs = layoutCrumbs ident ''Overview'' (tenantContext (Some t)),
      ow_tabs = buildTenantSectionNavItems (bt_pathname b) ident,
      ow_trial = map_option (\<lambda>(severity, text). (severity, text, ''/app/tenants/'' @ ident @ ''/billing''))
        (trialBanner (bt_parseDate b) (bt_now b) (useTenantSubscriptionData (od_subscription d))),
      ow_payment = paymentAlert ident d s t,
      ow_company = tn_company_name t,
      ow_workspace = ''https://'' @ tn_domain t,
      ow_buttons = overviewButtons s,
      ow_cards = overviewCards t,
      ow_next = ''Next step: '' @ nextActionByStatus (tn_status t),
      ow_recovery = recoveryCard b ident d s t,
      ow_copied = tn_domain t,
      ow_operations = (if isTenantAdmin (od_user d) then Inr (operatorCard s)
        else Inl ''Admin-only operational actions are hidden for your role.''),
      ow_notice = shownText (ov_actionNotice s),
      ow_error = shownText (ov_actionError s),
      ow_summaryError = shownText (snd (useTenantSummaryData (od_summary d))),
      ow_jobs = recentOperations (bt_date b) ident (ov_jobs s),
      ow_latest = latestActivity (bt_date b) (summaryOf d) (ov_jobs s),
      ow_dialogs = (suspendDialog s, unsuspendDialog s, deleteDialog s),
      ow_footer = shownText (tx_error (useTenantRouteContext (ov_tenant s)))\<rparr>"

definition TenantOverviewPage :: "browser_texts \<Rightarrow> string \<Rightarrow> overview_data \<Rightarrow> overview_page \<Rightarrow> overview_screen" where
  "TenantOverviewPage b ident d s =
     (if ident = [] then IdMissing ''Tenant id is missing from route.''
      else case qs_data (ov_tenant s) of
        None \<Rightarrow> (case tx_error (useTenantRouteContext (ov_tenant s)) of
            Some e \<Rightarrow> TenantPending (e \<noteq> []) e
          | None \<Rightarrow> TenantPending False ''Loading tenant...'')
      | Some t \<Rightarrow> OverviewShown (overviewShown b ident d s t))"

subsection \<open>The controls\<close>

datatype overview_event =
    Press overview_action | TypeReason string | TypePassword string | TypePhrase string
  | AskSuspend | LeaveSuspend | AskUnsuspend | LeaveUnsuspend | AskDelete | LeaveDelete
  | CopyPassword bool | SavedPassword

definition confirmEnabled :: "confirmation option \<Rightarrow> bool" where
  "confirmEnabled c = (case c of None \<Rightarrow> False | Some x \<Rightarrow> \<not> snd (cd_confirm (cn_buttons x)))"

definition leaveEnabled :: "confirmation option \<Rightarrow> bool" where
  "leaveEnabled c = (case c of None \<Rightarrow> False | Some x \<Rightarrow> cd_dismissable (cn_buttons x))"

definition operatorCan :: "(operator_card \<Rightarrow> bool) \<Rightarrow> overview_view \<Rightarrow> bool" where
  "operatorCan P v = (case ow_operations v of Inl _ \<Rightarrow> False | Inr c \<Rightarrow> P c)"

definition resumeOffered :: "overview_view \<Rightarrow> bool" where
  "resumeOffered v \<longleftrightarrow>
     (case ow_payment v of Some (_, ResumeButton _ d) \<Rightarrow> \<not> d | _ \<Rightarrow> False) \<or>
     (case Option.bind (ow_recovery v) rc_resume of Some (_, d) \<Rightarrow> \<not> d | None \<Rightarrow> False)"

primrec actionOffered :: "overview_view \<Rightarrow> overview_action \<Rightarrow> bool" where
  "actionOffered v RetryProvisioning = ((''Retry provisioning'', False) \<in> set (ow_buttons v))"
| "actionOffered v ResumeCheckout = resumeOffered v"
| "actionOffered v SuspendTenant = confirmEnabled (fst (ow_dialogs v))"
| "actionOffered v UnsuspendTenant = confirmEnabled (fst (snd (ow_dialogs v)))"
| "actionOffered v DeleteTenant = confirmEnabled (snd (snd (ow_dialogs v)))"
| "actionOffered v ResetPassword = operatorCan (\<lambda>c. \<not> snd (oc_reset c)) v"
| "actionOffered v RegeneratePassword =
     operatorCan (\<lambda>c. case oc_dialog c of None \<Rightarrow> False | Some p \<Rightarrow> \<not> snd (pd_regenerate p)) v"

primrec offered :: "overview_view \<Rightarrow> overview_event \<Rightarrow> bool" where
  "offered v (Press a) = actionOffered v a"
| "offered v (TypeReason x) = (operatorCan (\<lambda>_. True) v \<or> fst (ow_dialogs v) \<noteq> None)"
| "offered v (TypePassword x) = operatorCan (\<lambda>_. True) v"
| "offered v (TypePhrase x) = (operatorCan (\<lambda>_. True) v \<or> snd (snd (ow_dialogs v)) \<noteq> None)"
| "offered v AskSuspend = operatorCan (\<lambda>c. \<not> snd (oc_suspend c)) v"
| "offered v LeaveSuspend = leaveEnabled (fst (ow_dialogs v))"
| "offered v AskUnsuspend = operatorCan (\<lambda>c. \<not> snd (oc_unsuspend c)) v"
| "offered v LeaveUnsuspend = leaveEnabled (fst (snd (ow_dialogs v)))"
| "offered v AskDelete = operatorCan (\<lambda>c. \<not> snd (dc_button (oc_deletion c))) v"
| "offered v LeaveDelete = leaveEnabled (snd (snd (ow_dialogs v)))"
| "offered v (CopyPassword ok) = operatorCan (\<lambda>c. oc_dialog c \<noteq> None) v"
| "offered v SavedPassword = operatorCan (\<lambda>c. oc_dialog c \<noteq> None) v"

text \<open>
  An action with the effect that its answer starts: a new password, which is a reset that leaves no error, starts the
  reminder.
\<close>

definition pressed :: "int \<Rightarrow> string \<Rightarrow> overview_action \<Rightarrow> overview_page handler" where
  "pressed nowMs ident a s w =
     (let (s1, w1) = overviewAct ident a s w in
      (if (a = ResetPassword \<or> a = RegeneratePassword) \<and> qs_data (ov_tenant s) \<noteq> None \<and> ov_resetError s1 = None
       then passwordEffect nowMs s1 else s1, w1))"

primrec overviewEvent :: "int \<Rightarrow> string \<Rightarrow> overview_event \<Rightarrow> overview_page handler" where
  "overviewEvent nowMs ident (Press a) = pressed nowMs ident a"
| "overviewEvent nowMs ident (TypeReason x) = staying (typeReason x)"
| "overviewEvent nowMs ident (TypePassword x) = staying (typePassword x)"
| "overviewEvent nowMs ident (TypePhrase x) = staying (typeDelete x)"
| "overviewEvent nowMs ident AskSuspend = staying openSuspend"
| "overviewEvent nowMs ident LeaveSuspend = staying cancelSuspend"
| "overviewEvent nowMs ident AskUnsuspend = staying openUnsuspend"
| "overviewEvent nowMs ident LeaveUnsuspend = staying cancelUnsuspend"
| "overviewEvent nowMs ident AskDelete = staying openDelete"
| "overviewEvent nowMs ident LeaveDelete = staying cancelDelete"
| "overviewEvent nowMs ident (CopyPassword ok) = staying (copyPassword ok)"
| "overviewEvent nowMs ident SavedPassword = staying (\<lambda>s. passwordEffect nowMs (passwordSaved s))"

text \<open>
  The runs of the page for one user. A step is a control the page shows enabled, with whatever the other queries hold
  at that time, a fresh answer of the two queries of the state, or the clock.
\<close>

inductive overview_reaches :: "string \<Rightarrow> UserProfile option \<Rightarrow> world \<Rightarrow> overview_page \<Rightarrow> world \<Rightarrow> bool"
  for ident u w0 where
  mounted: "overview_reaches ident u w0 (mountOverview nowMs t js) w0"
| answered: "overview_reaches ident u w0 s w \<Longrightarrow> overview_reaches ident u w0 (s\<lparr>ov_tenant := t, ov_jobs := js\<rparr>) w"
| ticked: "overview_reaches ident u w0 s w \<Longrightarrow> overview_reaches ident u w0 (passwordTick nowMs s) w"
| used: "overview_reaches ident u w0 s w \<Longrightarrow> TenantOverviewPage b ident d s = OverviewShown v \<Longrightarrow> od_user d = u \<Longrightarrow>
    offered v e \<Longrightarrow> overviewEvent (bt_now b) ident e s w = (s', w') \<Longrightarrow> overview_reaches ident u w0 s' w'"

subsection \<open>Who can operate\<close>

text \<open>What anyone may send about the tenant from this page: reads, a retry, and a new payment link.\<close>

definition customerWrite :: "string \<Rightarrow> string \<Rightarrow> string \<Rightarrow> bool" where
  "customerWrite i m p \<longleftrightarrow> m = ''GET'' \<or> p = ''/tenants/'' @ i @ ''/retry'' \<or> p = ''/tenants/'' @ i @ ''/checkout/renew''"

definition plainState :: "overview_page \<Rightarrow> bool" where
  "plainState s \<longleftrightarrow> \<not> ov_confirmSuspendOpen s \<and> \<not> ov_confirmUnsuspendOpen s \<and> \<not> ov_confirmDeleteOpen s \<and>
     ov_passwordResult s = None"

lemma overviewLoads_plain:
  "plainState (fst (overviewTenant ident s w)) = plainState s" "plainState (fst (overviewJobs ident s w)) = plainState s"
  by (simp_all add: overviewTenant_def overviewJobs_def fst_within plainState_def)

lemma customer_loads:
  "addressed (customerWrite i) w (snd (overviewTenant ident s w))"
  "addressed (customerWrite i) w (snd (overviewJobs ident s w))"
  unfolding overviewTenant_def overviewJobs_def by (intro addressed_within addressed_loads; simp add: customerWrite_def)+

lemma attempt_keeps:
  assumes "\<And>s. P (missing s) = P s" and "\<And>x s w. P (fst (ok x s w)) = P s" and "\<And>e s. P (failed e s) = P s"
    and "\<And>s. P (lastly s) = P s"
  shows "P (fst (attempt call missing ok failed lastly s w)) = P s"
proof -
  obtain s' w' where a: "attempt call missing ok failed lastly s w = (s', w')" by (cases "attempt call missing ok failed lastly s w")
  then show ?thesis
  proof (cases rule: attempt_cases)
    case (ok x w1 s1)
    then show ?thesis using a assms(2) [of x s w1] assms(4) by simp
  qed (simp_all add: a assms)
qed

lemma onlyWhen_keeps: "(\<And>s w. P (fst (h s w)) = P s) \<Longrightarrow> P (fst (onlyWhen b h s w)) = P s"
  by (simp add: onlyWhen_def)

lemma customer_actions:
  assumes "a = RetryProvisioning \<or> a = ResumeCheckout"
  shows "addressed (customerWrite i) w (snd (overviewAct i a s w))"
    and "plainState (fst (overviewAct i a s w)) = plainState s"
proof -
  have retry: "keeps (addressed (customerWrite i)) (retryTenantProvisioningAction i)"
    unfolding retryTenantProvisioningAction_def retryTenantById_def api_retryTenant_def
    by (rule addressed_optional) (simp add: customerWrite_def)
  have renew: "keeps (addressed (customerWrite i)) (renewTenantCheckoutDetail i)"
    by (rule addressed_planCalls) (simp add: customerWrite_def)
  show "addressed (customerWrite i) w (snd (overviewAct i a s w))"
    using assms
    by (auto simp: retryProvisioning_overview_def resumeCheckout_def
        intro!: addressed_onlyWhen addressed_attempt retry renew addressed_afterwards customer_loads)
  have upd: "plainState (s\<lparr>ov_retrying := b\<rparr>) = plainState s" "plainState (s\<lparr>ov_actionNotice := n\<rparr>) = plainState s"
    "plainState (s\<lparr>ov_actionError := n\<rparr>) = plainState s" "plainState (s\<lparr>ov_resumingCheckout := b\<rparr>) = plainState s"
    "plainState (s\<lparr>ov_resumingCheckout := b, ov_recoveryError := n, ov_recoveryNotice := n'\<rparr>) = plainState s"
    "plainState (s\<lparr>ov_recoveryError := n\<rparr>) = plainState s"
    "plainState (checkoutResumed x s) = plainState s" for s b n n' x
    by (simp_all add: plainState_def checkoutResumed_def)
  have "plainState (fst (retryProvisioning_overview i s w)) = plainState s"
    unfolding retryProvisioning_overview_def
    by (rule onlyWhen_keeps, subst attempt_keeps [where P = plainState])
      (simp_all add: upd fst_afterwards overviewLoads_plain)
  moreover have "plainState (fst (resumeCheckout i s w)) = plainState s"
    unfolding resumeCheckout_def
    by (rule onlyWhen_keeps, subst attempt_keeps [where P = plainState]) (simp_all add: upd overviewLoads_plain)
  ultimately show "plainState (fst (overviewAct i a s w)) = plainState s" using assms by auto
qed

lemma TenantOverviewPage_shown:
  "TenantOverviewPage b ident d s = OverviewShown v \<longleftrightarrow>
     ident \<noteq> [] \<and> (\<exists>t. qs_data (ov_tenant s) = Some t \<and> v = overviewShown b ident d s t)"
  by (auto simp: TenantOverviewPage_def split: option.split)

lemma viewer_offered:
  assumes "TenantOverviewPage b ident d s = OverviewShown v" and "\<not> isTenantAdmin (od_user d)" and "plainState s" and "offered v e"
  shows "e = Press RetryProvisioning \<or> e = Press ResumeCheckout"
proof -
  from assms(1) obtain t where v: "v = overviewShown b ident d s t" by (auto simp: TenantOverviewPage_shown)
  have c: "\<not> operatorCan P v" for P using assms(2) by (simp add: v overviewShown_def operatorCan_def)
  have ds: "ow_dialogs v = (None, None, None)"
    using assms(3) by (simp add: v overviewShown_def plainState_def suspendDialog_def unsuspendDialog_def deleteDialog_def)
  show ?thesis
  proof (cases e)
    case (Press a)
    then show ?thesis using assms(4) c ds by (cases a) (simp_all add: confirmEnabled_def)
  qed (use assms(4) c ds in \<open>simp_all add: leaveEnabled_def\<close>)
qed

lemma viewer_plain:
  assumes "overview_reaches ident u w0 s w" and "\<not> isTenantAdmin u"
  shows "addressed (customerWrite ident) w0 w \<and> plainState s"
  using assms(1)
proof induction
  case (used s w b d v e s' w')
  then have "e = Press RetryProvisioning \<or> e = Press ResumeCheckout" using viewer_offered assms(2) by blast
  then obtain a where a: "a = RetryProvisioning \<or> a = ResumeCheckout" "e = Press a" by blast
  then have "overviewAct ident a s w = (s', w')" using used.hyps by (auto simp: pressed_def Let_def split: prod.splits)
  then show ?case using customer_actions(1) [OF a(1), of ident w s] customer_actions(2) [OF a(1), of ident s w] used.IH by (auto intro: addressed_trans)
qed (simp_all add: addressed_refl plainState_def mountOverview_def passwordTick_def)

text \<open>
  C35: Whoever is not in the role admin cannot operate a tenant from its overview: whatever controls the page shows
  enabled are used, in any order and with any data of the queries, the messages sent are reads, the renewal of the
  session, the retry of a failed provisioning and the renewal of the payment link of this tenant, and no dialog for an
  operation and no password ever appears.
\<close>

theorem viewer_cannot_operate:
  assumes "overview_reaches ident u w0 s w" and "\<not> isTenantAdmin u"
  shows "addressed (customerWrite ident) w0 w \<and> plainState s"
  using viewer_plain [OF assms] .

text \<open>A failed tenant on the page of a guest, for the examples.\<close>

definition sampleTexts :: browser_texts where
  "sampleTexts = \<lparr>bt_date = \<lambda>_. None, bt_money = \<lambda>_ _. None, bt_parseDate = \<lambda>_. None, bt_now = 5, bt_pathname = []\<rparr>"

definition guestData :: overview_data where
  "guestData = \<lparr>od_user = None, od_summary = noData, od_subscription = noData, od_extra = \<lambda>_. []\<rparr>"

definition failedOverview :: overview_page where
  "failedOverview = mountOverview 0 \<lparr>qs_data = Some (sampleTenant ''failed'' None None), qs_error = None\<rparr> noData"

lemma failed_page:
  "TenantOverviewPage sampleTexts ''t1'' guestData failedOverview =
     OverviewShown (overviewShown sampleTexts ''t1'' guestData failedOverview (sampleTenant ''failed'' None None))"
  "actionOffered (overviewShown sampleTexts ''t1'' guestData failedOverview (sampleTenant ''failed'' None None)) RetryProvisioning"
  by (simp add: TenantOverviewPage_def failedOverview_def mountOverview_def) (simp add: overviewShown_def, code_simp)

lemma failed_reached: "overview_reaches ''t1'' (od_user guestData) w failedOverview w"
  unfolding failedOverview_def by (rule overview_reaches.mounted)

theorem viewer_cannot_operate_witness:
  "addressed (customerWrite ''t1'') freshBrowser
     (snd (overviewEvent 5 ''t1'' (Press RetryProvisioning) failedOverview freshBrowser))"
proof -
  obtain s' w' where e: "overviewEvent 5 ''t1'' (Press RetryProvisioning) failedOverview freshBrowser = (s', w')"
    by (cases "overviewEvent 5 ''t1'' (Press RetryProvisioning) failedOverview freshBrowser")
  have "overview_reaches ''t1'' None freshBrowser s' w'"
    using overview_reaches.used [OF failed_reached failed_page(1) refl, of "Press RetryProvisioning" freshBrowser s' w']
      failed_page(2) e by (simp add: guestData_def sampleTexts_def)
  then show ?thesis using viewer_cannot_operate [of "''t1''" None freshBrowser s' w'] e
    by (simp add: isTenantAdmin_def del: overviewEvent.simps)
qed

subsection \<open>Failures are shown\<close>

definition refusal :: "string \<Rightarrow> string \<Rightarrow> exn + 'a OptionalEndpointResult \<Rightarrow> string option" where
  "refusal feature fallback r =
     (case r of Inl e \<Rightarrow> Some (toTenantDetailErrorMessage e fallback)
      | Inr Unsupported \<Rightarrow> Some (featureUnavailableMessage feature None)
      | Inr (Supported _) \<Rightarrow> None)"

definition callFailure :: "string \<Rightarrow> exn + 'a \<Rightarrow> string option" where
  "callFailure fallback r = (case r of Inl e \<Rightarrow> Some (toTenantDetailErrorMessage e fallback) | Inr _ \<Rightarrow> None)"

text \<open>What an action has to report when the server does not carry it out.\<close>

definition overviewFailure :: "string \<Rightarrow> overview_action \<Rightarrow> overview_page \<Rightarrow> world \<Rightarrow> string option" where
  "overviewFailure ident a s w =
     (case qs_data (ov_tenant s) of None \<Rightarrow> None
      | Some t \<Rightarrow>
         (case a of
            RetryProvisioning \<Rightarrow> refusal ''Retrying provisioning'' ''Failed to retry provisioning''
              (fst (retryTenantProvisioningAction ident w))
          | ResumeCheckout \<Rightarrow> refusal ''Renewing the payment link'' ''Unable to resume checkout.''
              (fst (renewTenantCheckoutDetail ident w))
          | SuspendTenant \<Rightarrow> if tn_id t = [] then None
              else refusal ''Suspending the workspace'' ''Failed to suspend tenant.''
                (fst (suspendTenantAccess (tn_id t) (suspendReason s) w))
          | UnsuspendTenant \<Rightarrow> if tn_id t = [] then None
              else refusal ''Unsuspending the workspace'' ''Failed to unsuspend tenant.''
                (fst (unsuspendTenantAccess (tn_id t) (suspendReason s) w))
          | DeleteTenant \<Rightarrow> if tn_id t = [] then None
              else callFailure ''Failed to queue workspace deletion.'' (fst (queueTenantDeleteJob (tn_id t) w))
          | _ \<Rightarrow> callFailure ''Failed to reset admin password.''
              (fst (resetTenantAdministratorPassword (tn_id t) (orNull (ov_newPassword s)) w))))"

definition shownErrors :: "overview_view \<Rightarrow> string list" where
  "shownErrors v =
     List.map_filter (\<lambda>e. e)
       ([ow_error v, ow_summaryError v, ow_footer v, Option.bind (ow_recovery v) rc_error,
         Option.bind (ow_recovery v) rc_subscriptionError] @
        (case ow_operations v of Inl _ \<Rightarrow> [] | Inr c \<Rightarrow> [oc_resetError c, dc_error (oc_deletion c)]))"

lemma shownErrors_iff:
  "m \<in> set (shownErrors v) \<longleftrightarrow>
     Some m \<in> {ow_error v, ow_summaryError v, ow_footer v, Option.bind (ow_recovery v) rc_error,
         Option.bind (ow_recovery v) rc_subscriptionError} \<or>
     (\<exists>c. ow_operations v = Inr c \<and> (oc_resetError c = Some m \<or> dc_error (oc_deletion c) = Some m))"
proof -
  have f: "x \<in> set (List.map_filter (\<lambda>e. e) es) \<longleftrightarrow> Some x \<in> set es" for x :: string and es
    by (induction es) (auto simp: map_filter_simps split: option.split)
  show ?thesis unfolding shownErrors_def f by (cases "ow_operations v") auto
qed

lemma shownText_nonempty: "m \<noteq> [] \<Longrightarrow> shownText (Some m) = Some m"
  by (simp add: shownText_def truthyStr_def)

lemma message_nonempty: "fallback \<noteq> [] \<Longrightarrow> toTenantDetailErrorMessage e fallback \<noteq> []"
  by (cases e) (auto simp: toTenantDetailErrorMessage_def)

lemma failed_state:
  assumes "overviewFailure ident a s w = Some m" and "ident \<noteq> []"
  shows "m \<noteq> [] \<and> fst (overviewEvent t ident (Press a) s w) =
    (case a of
       RetryProvisioning \<Rightarrow> s\<lparr>ov_actionError := Some m, ov_retrying := False\<rparr>
     | ResumeCheckout \<Rightarrow> s\<lparr>ov_resumingCheckout := False, ov_recoveryError := Some m, ov_recoveryNotice := None\<rparr>
     | SuspendTenant \<Rightarrow> s\<lparr>ov_actionBusy := False, ov_actionError := Some m, ov_actionNotice := None\<rparr>
     | UnsuspendTenant \<Rightarrow> s\<lparr>ov_actionBusy := False, ov_actionError := Some m, ov_actionNotice := None\<rparr>
     | DeleteTenant \<Rightarrow> s\<lparr>ov_deleteBusy := False, ov_deleteError := Some m, ov_deleteNotice := None\<rparr>
     | ResetPassword \<Rightarrow> s\<lparr>ov_resetBusy := False, ov_resetError := Some m, ov_actionNotice := None\<rparr>
     | RegeneratePassword \<Rightarrow> s\<lparr>ov_resetBusy := False, ov_resetError := Some m, ov_copyState := ''idle''\<rparr>)"
proof -
  from assms(1) obtain t where t: "qs_data (ov_tenant s) = Some t" by (auto simp: overviewFailure_def split: option.splits)
  note d = overviewFailure_def t refusal_def callFailure_def pressed_def attempt_def attemptCall_def answered_def onlyWhen_def
    actionFailed_def featureUnavailableMessage_def message_nonempty
  show ?thesis
  proof (cases a)
    case RetryProvisioning
    then show ?thesis using assms
      by (auto simp: d retryProvisioning_overview_def split: prod.splits sum.splits OptionalEndpointResult.splits)
  next
    case ResumeCheckout
    then show ?thesis using assms
      by (auto simp: d resumeCheckout_def split: prod.splits sum.splits OptionalEndpointResult.splits)
  next
    case SuspendTenant
    then show ?thesis using assms
      by (auto simp: d handleSuspend_def suspendReason_def split: prod.splits sum.splits OptionalEndpointResult.splits if_splits)
  next
    case UnsuspendTenant
    then show ?thesis using assms
      by (auto simp: d handleUnsuspend_def suspendReason_def split: prod.splits sum.splits OptionalEndpointResult.splits if_splits)
  next
    case DeleteTenant
    then have "tn_id t \<noteq> [] \<and> callFailure ''Failed to queue workspace deletion.'' (fst (queueTenantDeleteJob (tn_id t) w)) = Some m"
      using assms(1) by (simp add: overviewFailure_def t split: if_splits)
    then obtain e w1 where "tn_id t \<noteq> []" "queueTenantDeleteJob (tn_id t) w = (Inl e, w1)"
        "m = toTenantDetailErrorMessage e ''Failed to queue workspace deletion.''"
      by (cases "queueTenantDeleteJob (tn_id t) w") (auto simp: callFailure_def split: sum.splits)
    then show ?thesis
      by (simp add: DeleteTenant pressed_def handleDelete_def t onlyWhen_def attemptCall_def message_nonempty)
  next
    case ResetPassword
    then show ?thesis using assms
      by (auto simp: d resetPassword_def resetAnswered_def split: prod.splits sum.splits)
  next
    case RegeneratePassword
    then show ?thesis using assms
      by (auto simp: d regeneratePassword_def resetAnswered_def split: prod.splits sum.splits)
  qed
qed


lemma resume_recovery:
  assumes "resumeOffered (overviewShown b ident d s t)"
  shows "showPaymentRecovery (tenantStatusOf s) (subStatusOf d) (invoiceStatusOf (summaryOf d))"
proof (cases "paymentOffer ident (tenantStatusOf s) (subStatusOf d) (ov_resumingCheckout s)")
  case None
  then show ?thesis using assms
    by (auto simp: resumeOffered_def overviewShown_def paymentAlert_def recoveryCard_def Let_def split: if_splits)
next
  case (Some offer)
  then show ?thesis
    by (auto simp: paymentOffer_def showPaymentRecovery_def PAYMENT_RECOVERY_STATUSES_def
        PAYMENT_RECOVERY_SUBSCRIPTION_STATUSES_def split: if_splits)
qed



end
