(* ===== verification/Operator_Pages.thy ===== *)
theory Operator_Pages
  imports Admin_Page Platform_Health Overview_Page
begin

section \<open>The operators' pages as they are shown\<close>

text \<open>
  What \<^verbatim>\<open>admin/platform-health/page.tsx\<close> and the six views of \<^verbatim>\<open>admin-console/_components\<close> show of the states
  of the theories Platform_Health, Admin_Console and Admin_Views, the controls they offer, and the runs of
  these pages: a step is a control that the page shows enabled, or an effect of the view that is shown. The texts
  the user reads and the colours that carry a meaning are modelled, the layout is not.
\<close>

subsection \<open>The health of the platform\<close>

datatype HealthCardTone = NeutralCard | WarningCard | ErrorCard | SuccessCard

text \<open>The colour of the text and of the background.\<close>

primrec cardPalette :: "HealthCardTone \<Rightarrow> string \<times> string" where
  "cardPalette ErrorCard = (''error.main'', ''error.light'')"
| "cardPalette WarningCard = (''warning.dark'', ''warning.light'')"
| "cardPalette SuccessCard = (''success.dark'', ''success.light'')"
| "cardPalette NeutralCard = (''text.primary'', ''background.paper'')"

record health_card =
  hk_label :: string
  hk_value :: string
  hk_hint :: "string option"
  hk_palette :: "string \<times> string"

definition MetricCard :: "string \<Rightarrow> string \<Rightarrow> string option \<Rightarrow> HealthCardTone \<Rightarrow> health_card" where
  "MetricCard label v hint t =
     \<lparr>hk_label = label, hk_value = v, hk_hint = shownText hint, hk_palette = cardPalette t\<rparr>"

definition statusCards :: "health_page \<Rightarrow> health_card list" where
  "statusCards s =
     map2 (\<lambda>(label, v, hint) t. MetricCard label v (Some hint) t) (healthCards s)
       [NeutralCard, NeutralCard, NeutralCard, WarningCard]"

definition queueHealth :: "health_page \<Rightarrow> health_card list" where
  "queueHealth s =
     map2 (\<lambda>(label, n) t. MetricCard label (natStr n) None t) (queueCards s)
       [NeutralCard, NeutralCard, if length (jobsWithStatus ''failed'' s) > 0 then ErrorCard else SuccessCard]"

text \<open>The report on the runtimes: its cards, its entries and the sites without a row, or the notice that it is missing.\<close>

definition reportPanel ::
  "(string \<Rightarrow> string option) \<Rightarrow> health_page \<Rightarrow> string + (health_card list \<times> string list list \<times> string list)" where
  "reportPanel fmt s =
     (case consistencyPanel fmt s of
        ReportMissing feature \<Rightarrow> Inl (featureUnavailableMessage feature None)
      | ReportShown counts entries sites \<Rightarrow>
          Inr (map2 (\<lambda>(label, n) t. MetricCard label (intStr n) None t) counts
                 [WarningCard, NeutralCard, NeutralCard, ErrorCard, NeutralCard], entries, sites))"

text \<open>A button of the maintenance section: its title, its subtitle, and whether it is disabled.\<close>

definition maintenanceSection :: "health_page \<Rightarrow> string + (string \<times> string \<times> bool) list" where
  "maintenanceSection s =
     (case maintenanceButtons s of
        None \<Rightarrow> Inl ''Read-only maintenance view for support role.''
      | Some labels \<Rightarrow> Inr (map (\<lambda>(title, subtitle). (title, subtitle, hp_maintenanceBusy s)) labels))"

definition maintenanceDialog :: "health_page \<Rightarrow> confirmation option" where
  "maintenanceDialog s =
     map_option (\<lambda>a. case MAINTENANCE_LABELS a of (title, _, confirmBody) \<Rightarrow>
       \<lparr>cn_title = title, cn_body = confirmBody, cn_buttons = ConfirmActionDialog title (hp_maintenanceBusy s),
        cn_field = None\<rparr>) (hp_confirmAction s)"

record health_view =
  hv_refresh :: "string \<times> bool"
  hv_error :: "string option"
  hv_cards :: "health_card list"
  hv_gaps :: "string \<times> string"
  hv_report :: "string + (health_card list \<times> string list list \<times> string list)"
  hv_queue :: "health_card list"
  hv_failed :: "string list list"
  hv_checks :: "(string \<times> string) list"
  hv_maintenance :: "string + (string \<times> string \<times> bool) list"
  hv_notice :: "string option"
  hv_maintenanceError :: "string option"
  hv_dialog :: "confirmation option"

definition PlatformHealthPage :: "(string \<Rightarrow> string option) \<Rightarrow> health_page \<Rightarrow> health_view" where
  "PlatformHealthPage fmt s =
     \<lparr>hv_refresh = (if hp_loading s then ''Refreshing'' @ [CHR 0xE2, CHR 0x80, CHR 0xA6] else ''Refresh'', hp_loading s),
      hv_error = shownText (hp_healthError s),
      hv_cards = statusCards s,
      hv_gaps = gapChip s,
      hv_report = reportPanel fmt s,
      hv_queue = queueHealth s,
      hv_failed = failedJobLines fmt s,
      hv_checks = serviceChecks s,
      hv_maintenance = maintenanceSection s,
      hv_notice = shownText (hp_maintenanceMessage s),
      hv_maintenanceError = shownText (hp_maintenanceError s),
      hv_dialog = maintenanceDialog s\<rparr>"

datatype health_event = RefreshHealth | AskMaintenance MaintenanceAction | ConfirmMaintenance | LeaveMaintenance

primrec healthOffers :: "health_view \<Rightarrow> health_event \<Rightarrow> bool" where
  "healthOffers v RefreshHealth = (\<not> snd (hv_refresh v))"
| "healthOffers v (AskMaintenance a) =
     (case hv_maintenance v of Inl _ \<Rightarrow> False
      | Inr buttons \<Rightarrow> (fst (MAINTENANCE_LABELS a), fst (snd (MAINTENANCE_LABELS a)), False) \<in> set buttons)"
| "healthOffers v ConfirmMaintenance = confirmEnabled (hv_dialog v)"
| "healthOffers v LeaveMaintenance = leaveEnabled (hv_dialog v)"

primrec healthEvent :: "health_event \<Rightarrow> health_page handler" where
  "healthEvent RefreshHealth = loadHealthPage"
| "healthEvent (AskMaintenance a) = staying (askMaintenance a)"
| "healthEvent ConfirmMaintenance = confirmMaintenance"
| "healthEvent LeaveMaintenance = staying cancelMaintenance"

text \<open>The page reads the role and loads the snapshot when it is mounted.\<close>

inductive health_reaches :: "world \<Rightarrow> health_page \<Rightarrow> world \<Rightarrow> bool" for w0 where
  mounted: "readOperatorRole w0 initialHealthPage = Inr s \<Longrightarrow> loadHealthPage s w0 = (s', w') \<Longrightarrow> health_reaches w0 s' w'"
| used: "health_reaches w0 s w \<Longrightarrow> healthOffers (PlatformHealthPage fmt s) e \<Longrightarrow> healthEvent e s w = (s', w') \<Longrightarrow>
    health_reaches w0 s' w'"

subsection \<open>The overview of the console\<close>

text \<open>The colours of a card, and the panel of the overview.\<close>

primrec toneSx :: "tone \<Rightarrow> (string \<times> string) list" where
  "toneSx ToneGood = [(''borderColor'', ''success.light''), (''backgroundColor'', ''rgba(34,197,94,0.08)'')]"
| "toneSx ToneWarn = [(''borderColor'', ''warning.light''), (''backgroundColor'', ''rgba(245,158,11,0.08)'')]"
| "toneSx ToneDefault = []"

definition opsButtons :: "(string \<times> OpsAction) list" where
  "opsButtons = [(''Run dunning cycle'', RunDunning), (''Dry run dunning'', DryRunDunning),
     (''Rebuild platform assets'', RebuildAssets), (''Sync TLS certificates'', SyncTls)]"

definition opsDialog :: "ops_panel \<Rightarrow> confirmation option" where
  "opsDialog p =
     (if op_confirmAction p = None then None
      else Some \<lparr>cn_title = ''Confirm admin operation'',
        cn_body = ''This starts a privileged operational workflow. The action is logged and may affect tenant billing or runtime infrastructure.'',
        cn_buttons = ConfirmActionDialog ''Run operation'' (op_busy p), cn_field = None\<rparr>)"

record overview_console =
  cw_attention :: "string \<times> string"
  cw_lane :: "(string \<times> int) list"
  cw_metrics :: metrics_panel
  cw_operations :: "(string \<times> OpsAction) list"
  cw_opsMessage :: "string option"
  cw_opsError :: "string option"
  cw_counts :: "metric_card list"
  cw_lanes :: "AdminControlLaneLink list"
  cw_opsDialog :: "confirmation option"

definition AdminOverviewView :: "admin_console \<Rightarrow> ops_panel \<Rightarrow> overview_console" where
  "AdminOverviewView s p =
     \<lparr>cw_attention = (attentionLabel s, if attentionNeeded s then ''warning'' else ''success''),
      cw_lane = attentionLane s,
      cw_metrics = metricsPanel s,
      cw_operations = opsButtons,
      cw_opsMessage = shownText (op_message p),
      cw_opsError = shownText (op_error p),
      cw_counts = countCards s,
      cw_lanes = controlLaneLinks s,
      cw_opsDialog = opsDialog p\<rparr>"

subsection \<open>The tenants of the console\<close>

text \<open>The entries of the two menus: the value and what is shown for it.\<close>

definition STATUS_MENU :: "(string \<times> string) list" where
  "STATUS_MENU =
     [(''all'', ''All statuses''), (''active'', ''Active''), (''pending_payment'', ''Pending payment''), (''pending'', ''Pending''),
      (''provisioning'', ''Provisioning''), (''failed'', ''Failed''), (''suspended'', ''Suspended (all)''),
      (''suspended_admin'', ''Suspended (admin)''), (''suspended_billing'', ''Suspended (billing)'')]"

definition PLAN_MENU :: "(string \<times> string) list" where
  "PLAN_MENU = [(''all'', ''All plans''), (''starter'', ''Starter''), (''business'', ''Business''), (''enterprise'', ''Enterprise'')]"

definition ownerDialog :: "tenants_view \<Rightarrow> confirmation option" where
  "ownerDialog v =
     (if tv_impersonationTenant v = None then None
      else Some \<lparr>cn_title = ''Impersonate tenant owner'',
        cn_body = ''This will grant temporary access as the tenant owner. This action is logged and should only be used for active support troubleshooting.'',
        cn_buttons = ConfirmActionDialog ''Create link'' (tv_busy v), cn_field = None\<rparr>)"

record tenants_panel =
  tnp_error :: "string option"
  tnp_linkNotice :: "string option"
  tnp_linkError :: "string option"
  tnp_search :: string
  tnp_status :: "string \<times> (string \<times> string) list"
  tnp_plan :: "string \<times> (string \<times> string) list"
  tnp_columns :: "string list"
  tnp_rows :: "string list list"
  tnp_owners :: "Tenant list"
  tnp_empty :: "string option"
  tnp_pager :: pager
  tnp_dialog :: "confirmation option"

text \<open>\<open>tnp_owners\<close> are the tenants whose row has the button that asks for a link.\<close>

definition AdminTenantsView :: "(string \<Rightarrow> string option) \<Rightarrow> admin_console \<Rightarrow> tenants_view \<Rightarrow> tenants_panel" where
  "AdminTenantsView fmt s v =
     \<lparr>tnp_error = shownText (ac_tenantsError s),
      tnp_linkNotice = shownText (tv_notice v),
      tnp_linkError = shownText (tv_error v),
      tnp_search = ac_tenantSearch s,
      tnp_status = (ac_tenantStatusFilter s, STATUS_MENU),
      tnp_plan = (ac_tenantPlanFilter s, PLAN_MENU),
      tnp_columns = [''Company'', ''Plan/focus'', ''Health'', ''Provider'', ''Created'', ''Actions''],
      tnp_rows = adminTenantRows fmt s,
      tnp_owners = (if canRunAdminOnlyActions s then ac_tenants s else []),
      tnp_empty = tenantsFooter s,
      tnp_pager = tenantPager s,
      tnp_dialog = ownerDialog v\<rparr>"

subsection \<open>The other views of the console\<close>

record table_view =
  tb_title :: string
  tb_buttons :: "(string \<times> bool) list"
  tb_alert :: "string option"
  tb_columns :: "string list"
  tb_content :: "string list section_content"

definition AdminJobsView :: "(string \<Rightarrow> string option) \<Rightarrow> admin_console \<Rightarrow> table_view \<times> job_logs" where
  "AdminJobsView fmt s =
     (\<lparr>tb_title = ''Execution monitor'', tb_buttons = [(''Refresh'', False)], tb_alert = None,
       tb_columns = [''Job ID'', ''Tenant ID'', ''Flow'', ''Health'', ''Created'', []], tb_content = jobsContent fmt s\<rparr>,
      selectedLogs fmt s)"

definition AdminAuditView :: "(string \<Rightarrow> string option) \<Rightarrow> admin_console \<Rightarrow> table_view \<times> pager" where
  "AdminAuditView fmt s =
     (\<lparr>tb_title = ''Admin audit log'', tb_buttons = [exportButton s, (''Refresh'', False)],
       tb_alert = shownText (ac_auditExportError s),
       tb_columns = [''Time'', ''Actor'', ''Action'', ''Resource'', ''IP''], tb_content = auditContent fmt s\<rparr>,
      auditPager s)"

definition AdminRecoveryView :: "(string \<Rightarrow> string option) \<Rightarrow> admin_console \<Rightarrow> table_view" where
  "AdminRecoveryView fmt s =
     \<lparr>tb_title = ''Recovery queue (dead-letter)'', tb_buttons = [(''Refresh'', False)], tb_alert = None,
      tb_columns = [''ID'', ''Worker function'', ''Queued'', ''Args'', ''Action''], tb_content = recoveryContent fmt s\<rparr>"

record support_panel =
  sup_email :: string
  sup_reason :: string
  sup_button :: "string \<times> bool"
  sup_note :: "string option"
  sup_error :: "string option"
  sup_link :: "(string \<times> string option) option"

definition AdminSupportView :: "admin_console \<Rightarrow> support_panel" where
  "AdminSupportView s =
     \<lparr>sup_email = ac_impersonationEmail s,
      sup_reason = ac_impersonationReason s,
      sup_button = supportButton s,
      sup_note = (if canRunAdminOnlyActions s then None
        else Some ''Support role is read-only for impersonation. Ask an admin to issue links.''),
      sup_error = shownText (ac_impersonationError s),
      sup_link = map_option (\<lambda>link. (link, map_option (\<lambda>token. ''Token: '' @ token) (shownText (ac_impersonationToken s))))
        (shownText (ac_impersonationLink s))\<rparr>"

text \<open>The dialog about an action on a tenant, which no control of the console opens.\<close>

record action_modal =
  am_title :: string
  am_phrase :: string
  am_company :: string
  am_fields :: "string \<times> string"
  am_confirm :: "string \<times> bool"

definition TenantActionModal :: "admin_console \<Rightarrow> action_modal option" where
  "TenantActionModal s =
     (case (ac_tenantAction s, actionButton s) of
        (Some a, Some button) \<Rightarrow>
          Some \<lparr>am_title = (if ta_type a = Suspend then ''Suspend tenant'' else ''Unsuspend tenant''),
            am_phrase = ''To confirm, type '' @ ta_phrase a @ ''.'', am_company = tn_company_name (ta_tenant a),
            am_fields = (ac_tenantActionInput s, ac_tenantActionReason s), am_confirm = button\<rparr>
      | _ \<Rightarrow> None)"

subsection \<open>The page of the console with the state of its views\<close>

record operator_console =
  pc_console :: admin_console
  pc_ops :: ops_panel
  pc_tenants :: tenants_view

datatype operator_screen =
    OverviewScreen overview_console | JobsScreen "table_view \<times> job_logs" | TenantsScreen tenants_panel
  | AuditScreen "table_view \<times> pager" | SupportScreen support_panel | RecoveryScreen table_view

definition operatorScreen :: "(string \<Rightarrow> string option) \<Rightarrow> AdminView \<Rightarrow> operator_console \<Rightarrow> operator_screen" where
  "operatorScreen fmt v s =
     (let c = pc_console s in
      case v of
        AvOverview \<Rightarrow> OverviewScreen (AdminOverviewView c (pc_ops s))
      | AvJobs \<Rightarrow> JobsScreen (AdminJobsView fmt c)
      | AvTenants \<Rightarrow> TenantsScreen (AdminTenantsView fmt c (pc_tenants s))
      | AvAudit \<Rightarrow> AuditScreen (AdminAuditView fmt c)
      | AvSupport \<Rightarrow> SupportScreen (AdminSupportView c)
      | AvRecovery \<Rightarrow> RecoveryScreen (AdminRecoveryView fmt c))"

definition rowsOf :: "table_view \<Rightarrow> string list list" where
  "rowsOf v = (case tb_content v of RowsShown rows \<Rightarrow> rows | _ \<Rightarrow> [])"

datatype operator_event =
    Console console_event
  | AskOps OpsAction | ConfirmOps | LeaveOps
  | AskOwnerLink Tenant | ConfirmOwnerLink | LeaveOwnerLink

text \<open>
  Which calls of the controller a control of the screen makes. The effects of the view are no control; the modal adds
  the last four.
\<close>

primrec consoleOffers :: "operator_screen \<Rightarrow> action_modal option \<Rightarrow> console_event \<Rightarrow> bool" where
  "consoleOffers scr m (ShowView v) = False"
| "consoleOffers scr m RefreshMetrics = (case scr of OverviewScreen _ \<Rightarrow> True | _ \<Rightarrow> False)"
| "consoleOffers scr m RefreshJobs = (case scr of JobsScreen _ \<Rightarrow> True | _ \<Rightarrow> False)"
| "consoleOffers scr m (InspectJobLogs jobId) =
     (case scr of JobsScreen v \<Rightarrow> jobId \<in> hd ` set (rowsOf (fst v)) | _ \<Rightarrow> False)"
| "consoleOffers scr m RefreshTenants = (case scr of TenantsScreen _ \<Rightarrow> True | _ \<Rightarrow> False)"
| "consoleOffers scr m (SearchTenants x) = (case scr of TenantsScreen _ \<Rightarrow> True | _ \<Rightarrow> False)"
| "consoleOffers scr m (FilterTenantStatus x) =
     (case scr of TenantsScreen v \<Rightarrow> x \<in> fst ` set (snd (tnp_status v)) | _ \<Rightarrow> False)"
| "consoleOffers scr m (FilterTenantPlan x) =
     (case scr of TenantsScreen v \<Rightarrow> x \<in> fst ` set (snd (tnp_plan v)) | _ \<Rightarrow> False)"
| "consoleOffers scr m PreviousTenants =
     (case scr of TenantsScreen v \<Rightarrow> \<not> pg_previousDisabled (tnp_pager v) | _ \<Rightarrow> False)"
| "consoleOffers scr m NextTenants = (case scr of TenantsScreen v \<Rightarrow> \<not> pg_nextDisabled (tnp_pager v) | _ \<Rightarrow> False)"
| "consoleOffers scr m ExportAuditLog =
     (case scr of AuditScreen v \<Rightarrow> (''Export CSV'', False) \<in> set (tb_buttons (fst v)) | _ \<Rightarrow> False)"
| "consoleOffers scr m RefreshAudit = (case scr of AuditScreen _ \<Rightarrow> True | _ \<Rightarrow> False)"
| "consoleOffers scr m PreviousAudit = (case scr of AuditScreen v \<Rightarrow> \<not> pg_previousDisabled (snd v) | _ \<Rightarrow> False)"
| "consoleOffers scr m NextAudit = (case scr of AuditScreen v \<Rightarrow> \<not> pg_nextDisabled (snd v) | _ \<Rightarrow> False)"
| "consoleOffers scr m (TypeImpersonationEmail x) = (case scr of SupportScreen _ \<Rightarrow> True | _ \<Rightarrow> False)"
| "consoleOffers scr m (TypeImpersonationReason x) = (case scr of SupportScreen _ \<Rightarrow> True | _ \<Rightarrow> False)"
| "consoleOffers scr m IssueSupportLink = (case scr of SupportScreen v \<Rightarrow> \<not> snd (sup_button v) | _ \<Rightarrow> False)"
| "consoleOffers scr m RefreshDeadLetters = (case scr of RecoveryScreen _ \<Rightarrow> True | _ \<Rightarrow> False)"
| "consoleOffers scr m (RequeueDeadLetter jobId) =
     (case scr of RecoveryScreen v \<Rightarrow> \<exists>row \<in> set (rowsOf v). hd row = jobId \<and> last row = ''Requeue'' | _ \<Rightarrow> False)"
| "consoleOffers scr m (TypeActionInput x) = (m \<noteq> None)"
| "consoleOffers scr m (TypeActionReason x) = (m \<noteq> None)"
| "consoleOffers scr m CancelAction = (m \<noteq> None)"
| "consoleOffers scr m ConfirmAction = (case m of Some v \<Rightarrow> \<not> snd (am_confirm v) | None \<Rightarrow> False)"

primrec screenOffers :: "operator_screen \<Rightarrow> action_modal option \<Rightarrow> operator_event \<Rightarrow> bool" where
  "screenOffers scr m (Console e) = consoleOffers scr m e"
| "screenOffers scr m (AskOps a) = (case scr of OverviewScreen v \<Rightarrow> a \<in> snd ` set (cw_operations v) | _ \<Rightarrow> False)"
| "screenOffers scr m ConfirmOps = (case scr of OverviewScreen v \<Rightarrow> confirmEnabled (cw_opsDialog v) | _ \<Rightarrow> False)"
| "screenOffers scr m LeaveOps = (case scr of OverviewScreen v \<Rightarrow> leaveEnabled (cw_opsDialog v) | _ \<Rightarrow> False)"
| "screenOffers scr m (AskOwnerLink t) = (case scr of TenantsScreen v \<Rightarrow> t \<in> set (tnp_owners v) | _ \<Rightarrow> False)"
| "screenOffers scr m ConfirmOwnerLink = (case scr of TenantsScreen v \<Rightarrow> confirmEnabled (tnp_dialog v) | _ \<Rightarrow> False)"
| "screenOffers scr m LeaveOwnerLink = (case scr of TenantsScreen v \<Rightarrow> leaveEnabled (tnp_dialog v) | _ \<Rightarrow> False)"

definition inConsole :: "admin_console handler \<Rightarrow> operator_console handler" where
  "inConsole = within pc_console (\<lambda>c s. s\<lparr>pc_console := c\<rparr>)"

definition inOps :: "ops_panel handler \<Rightarrow> operator_console handler" where
  "inOps = within pc_ops (\<lambda>p s. s\<lparr>pc_ops := p\<rparr>)"

definition inTenants :: "tenants_view handler \<Rightarrow> operator_console handler" where
  "inTenants = within pc_tenants (\<lambda>v s. s\<lparr>pc_tenants := v\<rparr>)"

primrec operatorEvent :: "operator_event \<Rightarrow> operator_console handler" where
  "operatorEvent (Console e) = inConsole (consoleEvent e)"
| "operatorEvent (AskOps a) = inOps (staying (\<lambda>p. p\<lparr>op_confirmAction := Some a\<rparr>))"
| "operatorEvent ConfirmOps = inOps runOpsAction"
| "operatorEvent LeaveOps = inOps (staying (\<lambda>p. p\<lparr>op_confirmAction := None\<rparr>))"
| "operatorEvent (AskOwnerLink t) = inTenants (staying (askImpersonation t))"
| "operatorEvent ConfirmOwnerLink = inTenants issueTenantImpersonation"
| "operatorEvent LeaveOwnerLink = inTenants (staying (\<lambda>v. v\<lparr>tv_impersonationTenant := None\<rparr>))"

text \<open>
  The runs of the page that shows one view. It reads the role when it is mounted; the effects of the view load its data
  then, and again when a filter or the number of the page has changed.
\<close>

inductive operator_reaches :: "AdminView \<Rightarrow> world \<Rightarrow> operator_console \<Rightarrow> world \<Rightarrow> bool" for v w0 where
  mounted: "loadOperatorRole initialConsole w0 = Inr c \<Longrightarrow>
    operator_reaches v w0 \<lparr>pc_console = c, pc_ops = initialOps, pc_tenants = initialTenantsView\<rparr> w0"
| effects: "operator_reaches v w0 s w \<Longrightarrow> operatorEvent (Console (ShowView v)) s w = (s', w') \<Longrightarrow>
    operator_reaches v w0 s' w'"
| used: "operator_reaches v w0 s w \<Longrightarrow>
    screenOffers (operatorScreen fmt v s) (TenantActionModal (pc_console s)) e \<Longrightarrow> operatorEvent e s w = (s', w') \<Longrightarrow>
    operator_reaches v w0 s' w'"

subsection \<open>The health page of a support role\<close>

text \<open>Only reads go out, and the renewals of the session.\<close>

definition onlyReads :: "world \<Rightarrow> world \<Rightarrow> bool" where
  "onlyReads w w' \<longleftrightarrow> apiBase w' = apiBase w \<and>
     sends (\<lambda>r. fmethod r = ''GET'' \<or> fmethod r = ''POST'' \<and> reqUrl r = apiBase w @ ''/auth/refresh'') w w'"

lemma onlyReads_refl: "onlyReads w w"
  using reflp_sends by (simp add: onlyReads_def reflpD)

lemma onlyReads_trans: "onlyReads w w1 \<Longrightarrow> onlyReads w1 w2 \<Longrightarrow> onlyReads w w2"
  unfolding onlyReads_def using sends_trans by fastforce

lemma transp_onlyReads: "transp onlyReads"
  by (rule transpI) (rule onlyReads_trans)

lemma reflp_onlyReads: "reflp onlyReads"
  by (simp add: reflp_def onlyReads_refl)

lemma addressed_onlyReads: "addressed (\<lambda>m p. m = ''GET'') w w' \<Longrightarrow> onlyReads w w'"
  unfolding addressed_def onlyReads_def isRefresh_def by (auto elim!: sends_mono)

lemma keeps_onlyReads: "keeps (addressed (\<lambda>m p. m = ''GET'')) call \<Longrightarrow> keeps onlyReads call"
  by (simp add: keeps_def addressed_onlyReads)

lemma keeps_settled: "keeps R call \<Longrightarrow> keeps R (settled call)"
  by (simp add: keeps_def settled_apply)

lemmas onlyReads_intros =
  keeps_ret [OF reflp_onlyReads] keeps_liftResult [OF reflp_onlyReads] keeps_await [OF transp_onlyReads] keeps_settled

lemma onlyReads_snapshot: "keeps onlyReads loadPlatformHealthSnapshot"
proof -
  have "keeps onlyReads (fetch healthRequest)"
    using sends_fetch [of "\<lambda>r. fmethod r = ''GET'' \<or> fmethod r = ''POST'' \<and> reqUrl r = _ @ ''/auth/refresh''" healthRequest]
    by (simp add: keeps_def onlyReads_def apiBase_fetch healthRequest_def)
  then have "keeps onlyReads fetchApiHealth"
    unfolding fetchApiHealth_def by (intro onlyReads_intros keeps_if)
  moreover have "keeps onlyReads (fetchAdminJobs_platform n)" "keeps onlyReads fetchTenantList"
    "keeps onlyReads fetchAuthHealth_platform" "keeps onlyReads fetchBillingHealth_platform"
    "keeps onlyReads fetchTenantRuntimeConsistency" for n
    unfolding fetchAdminJobs_platform_def api_listAdminJobs_def fetchTenantList_def api_listTenants_def fetchAuthHealth_platform_def
      api_authHealth_def fetchBillingHealth_platform_def api_billingHealth_def fetchTenantRuntimeConsistency_def
      api_getTenantRuntimeConsistency_def
    by (rule keeps_onlyReads, intro addressed_optional addressed_request, simp)+
  ultimately show ?thesis unfolding loadPlatformHealthSnapshot_def by (intro onlyReads_intros)
qed

lemma loadHealthPage_keeps:
  "onlyReads w (snd (loadHealthPage s w))"
  "hp_operatorRole (fst (loadHealthPage s w)) = hp_operatorRole s"
  "hp_confirmAction (fst (loadHealthPage s w)) = hp_confirmAction s"
  using onlyReads_snapshot
  by (auto simp: loadHealthPage_def snd_answered fst_answered keeps_def snapshotLoaded_def split: sum.split)

definition readOnlyHealth :: "health_page \<Rightarrow> bool" where
  "readOnlyHealth s \<longleftrightarrow> hp_operatorRole s \<noteq> ''admin'' \<and> hp_confirmAction s = None"

lemma readOnly_offers:
  assumes "readOnlyHealth s" and "healthOffers (PlatformHealthPage fmt s) e"
  shows "e = RefreshHealth"
  using assms by (cases e) (auto simp: readOnlyHealth_def PlatformHealthPage_def maintenanceSection_def maintenanceButtons_def
      canMaintain_def maintenanceDialog_def confirmEnabled_def leaveEnabled_def)

lemma health_read_only:
  assumes "health_reaches w0 s w" and "getSessionRole w0 \<noteq> Inr (Some ''admin'')"
  shows "onlyReads w0 w \<and> readOnlyHealth s"
  using assms(1)
proof induction
  case (mounted s s' w')
  from mounted(1) have "hp_operatorRole s \<noteq> ''admin''" "hp_confirmAction s = None"
    using assms(2) by (auto simp: readOperatorRole_def initialHealthPage_def nullish_def split: sum.splits option.splits)
  then show ?case using mounted(2) loadHealthPage_keeps [where w = w0 and s = s] by (auto simp: readOnlyHealth_def)
next
  case (used s w fmt e s' w')
  then have "e = RefreshHealth" using readOnly_offers by blast
  then show ?case using used loadHealthPage_keeps [where w = w and s = s] onlyReads_trans by (auto simp: readOnlyHealth_def)
qed

text \<open>
  Whoever is not in the role admin only reads on the operators' health page, in every run of its controls: no
  maintenance action is offered, and none is ever being confirmed.
\<close>

theorem health_page_reads:
  assumes "health_reaches w0 s w" and "getSessionRole w0 \<noteq> Inr (Some ''admin'')"
  shows "onlyReads w0 w \<and> hv_maintenance (PlatformHealthPage fmt s) = Inl ''Read-only maintenance view for support role.'' \<and>
    hv_dialog (PlatformHealthPage fmt s) = None"
  using health_read_only [OF assms]
  by (simp add: readOnlyHealth_def PlatformHealthPage_def maintenanceSection_def maintenanceButtons_def canMaintain_def
      maintenanceDialog_def)

theorem health_page_reads_witness:
  "onlyReads freshBrowser (snd (loadHealthPage initialHealthPage freshBrowser))"
proof -
  have r: "readOperatorRole freshBrowser initialHealthPage = Inr initialHealthPage" "getSessionRole freshBrowser \<noteq> Inr (Some ''admin'')"
    by code_simp+
  obtain s w where sw: "loadHealthPage initialHealthPage freshBrowser = (s, w)" by (metis prod.collapse)
  show ?thesis using health_page_reads [OF health_reaches.mounted [OF r(1) sw] r(2)] sw by simp
qed

subsection \<open>What the loads of the console leave alone\<close>

text \<open>The role, the open action, and what the next query is made of.\<close>

definition consoleKeys :: "admin_console \<Rightarrow> string \<times> TenantAdminAction option \<times> int \<times> int \<times> string \<times> string" where
  "consoleKeys s = (ac_operatorRole s, ac_tenantAction s, ac_tenantPage s, ac_auditPage s, ac_tenantStatusFilter s, ac_tenantPlanFilter s)"

lemma notify_keys [simp]: "consoleKeys (consoleNotify ty ti bo s) = consoleKeys s"
  by (simp add: consoleNotify_def consoleKeys_def)

lemma alerts_keys [simp]: "consoleKeys (fold (\<lambda>a. consoleNotify (f a) (g a) (h a)) as s) = consoleKeys s"
  by (induction as arbitrary: s) simp_all

lemma update_keys [simp]:
  "consoleKeys (s\<lparr>ac_tenants := x1\<rparr>) = consoleKeys s" "consoleKeys (s\<lparr>ac_tenantTotal := x2\<rparr>) = consoleKeys s"
  "consoleKeys (s\<lparr>ac_tenantsError := x3\<rparr>) = consoleKeys s" "consoleKeys (s\<lparr>ac_requeueJobId := x4\<rparr>) = consoleKeys s"
  "consoleKeys (s\<lparr>ac_tenantSearch := x5\<rparr>) = consoleKeys s" "consoleKeys (s\<lparr>ac_deadLetters := x6\<rparr>) = consoleKeys s"
  "consoleKeys (s\<lparr>ac_deadLetterSupported := x7\<rparr>) = consoleKeys s" "consoleKeys (s\<lparr>ac_deadLetterError := x8\<rparr>) = consoleKeys s"
  "consoleKeys (s\<lparr>ac_jobs := x9\<rparr>) = consoleKeys s" "consoleKeys (s\<lparr>ac_jobsSupported := x10\<rparr>) = consoleKeys s"
  "consoleKeys (s\<lparr>ac_jobsError := x11\<rparr>) = consoleKeys s" "consoleKeys (s\<lparr>ac_selectedJob := x12\<rparr>) = consoleKeys s"
  "consoleKeys (s\<lparr>ac_selectedJobSupported := x13\<rparr>) = consoleKeys s" "consoleKeys (s\<lparr>ac_auditLog := x14\<rparr>) = consoleKeys s"
  "consoleKeys (s\<lparr>ac_auditSupported := x15\<rparr>) = consoleKeys s" "consoleKeys (s\<lparr>ac_auditError := x16\<rparr>) = consoleKeys s"
  "consoleKeys (s\<lparr>ac_auditTotal := x17\<rparr>) = consoleKeys s" "consoleKeys (s\<lparr>ac_auditExportBusy := x18\<rparr>) = consoleKeys s"
  "consoleKeys (s\<lparr>ac_auditExportError := x19\<rparr>) = consoleKeys s" "consoleKeys (s\<lparr>ac_impersonationEmail := x20\<rparr>) = consoleKeys s"
  "consoleKeys (s\<lparr>ac_impersonationReason := x21\<rparr>) = consoleKeys s" "consoleKeys (s\<lparr>ac_impersonationLink := x22\<rparr>) = consoleKeys s"
  "consoleKeys (s\<lparr>ac_impersonationToken := x23\<rparr>) = consoleKeys s" "consoleKeys (s\<lparr>ac_impersonationBusy := x24\<rparr>) = consoleKeys s"
  "consoleKeys (s\<lparr>ac_impersonationError := x25\<rparr>) = consoleKeys s" "consoleKeys (s\<lparr>ac_metrics := x26\<rparr>) = consoleKeys s"
  "consoleKeys (s\<lparr>ac_metricsSupported := x27\<rparr>) = consoleKeys s" "consoleKeys (s\<lparr>ac_metricsError := x28\<rparr>) = consoleKeys s"
  "consoleKeys (s\<lparr>ac_lastMetricsKey := x29\<rparr>) = consoleKeys s" "consoleKeys (s\<lparr>ac_tenantActionInput := x30\<rparr>) = consoleKeys s"
  "consoleKeys (s\<lparr>ac_tenantActionReason := x31\<rparr>) = consoleKeys s" "consoleKeys (s\<lparr>ac_busyTenantId := x32\<rparr>) = consoleKeys s"
  by (simp_all add: consoleKeys_def)

lemma loaded_keys [simp]:
  "consoleKeys (tenantsLoaded r1 s) = consoleKeys s" "consoleKeys (deadLettersLoaded r2 s) = consoleKeys s"
  "consoleKeys (jobsLoaded r3 s) = consoleKeys s" "consoleKeys (auditLoaded r4 s) = consoleKeys s"
  "consoleKeys (metricsLoaded r5 s) = consoleKeys s" "consoleKeys (jobLogsLoaded r6 s) = consoleKeys s"
  "consoleKeys (linkIssued r7 s) = consoleKeys s"
  by (auto simp: tenantsLoaded_def deadLettersLoaded_def jobsLoaded_def auditLoaded_def metricsLoaded_def jobLogsLoaded_def
      linkIssued_def alertMetrics_def Let_def split: sum.split prod.split option.split)

lemma loads_keys [simp]:
  "consoleKeys (fst (loadTenants s w)) = consoleKeys s" "consoleKeys (fst (loadDeadLetters s w)) = consoleKeys s"
  "consoleKeys (fst (loadJobs s w)) = consoleKeys s" "consoleKeys (fst (loadAuditLog s w)) = consoleKeys s"
  "consoleKeys (fst (loadMetrics s w)) = consoleKeys s" "consoleKeys (fst (loadJobLogs j s w)) = consoleKeys s"
  by (simp_all add: loadTenants_def loadDeadLetters_def loadJobs_def loadAuditLog_def loadMetrics_def loadJobLogs_def fst_answered)

lemma requeue_keys: "consoleKeys (fst (requeueDeadLetter jobId s w)) = consoleKeys s"
proof -
  have l: "consoleKeys s1 = consoleKeys s0" if "loadDeadLetters s0 w1 = (s1, w2)" for s0 w1 s1 w2
    using that loads_keys(2) [of s0 w1] by simp
  show ?thesis by (auto simp: requeueDeadLetter_def Let_def dest: l split: prod.split sum.split)
qed

lemma effects_keys: "consoleKeys (fst (viewEffects v s w)) = consoleKeys s"
  by (simp add: viewEffects_def fst_afterwards onlyWhen_keeps [where P = consoleKeys])

text \<open>The events that are no typing and no turning of a page leave the keys alone.\<close>

fun keysAfter :: "console_event \<Rightarrow> admin_console \<Rightarrow> string \<times> TenantAdminAction option \<times> int \<times> int \<times> string \<times> string" where
  "keysAfter (SearchTenants x) s = consoleKeys (s\<lparr>ac_tenantPage := 1\<rparr>)"
| "keysAfter (FilterTenantStatus x) s = consoleKeys (s\<lparr>ac_tenantStatusFilter := x, ac_tenantPage := 1\<rparr>)"
| "keysAfter (FilterTenantPlan x) s = consoleKeys (s\<lparr>ac_tenantPlanFilter := x, ac_tenantPage := 1\<rparr>)"
| "keysAfter PreviousTenants s = consoleKeys (previousTenantPage s)"
| "keysAfter NextTenants s = consoleKeys (nextTenantPage s)"
| "keysAfter PreviousAudit s = consoleKeys (previousAuditPage s)"
| "keysAfter NextAudit s = consoleKeys (nextAuditPage s)"
| "keysAfter e s = consoleKeys s"

lemma event_keys:
  assumes "ac_tenantAction s = None"
  shows "consoleKeys (fst (consoleEvent e s w)) = keysAfter e s"
proof -
  have "consoleKeys (fst (submitTenantAction s w)) = consoleKeys s" "consoleKeys (cancelTenantAction s) = consoleKeys s"
    using assms by (simp_all add: submitTenantAction_def cancelTenantAction_def consoleKeys_def)
  moreover have "consoleKeys (fst (issueImpersonationLink s w)) = consoleKeys s" "consoleKeys (fst (exportAudit s w)) = consoleKeys s"
    by (auto simp: issueImpersonationLink_def exportAudit_def Let_def fst_answered split: prod.split sum.split)
  moreover have "consoleKeys (resetTenantPage (s\<lparr>ac_tenantSearch := x\<rparr>)) = keysAfter (SearchTenants x) s"
    "consoleKeys (resetTenantPage (s\<lparr>ac_tenantStatusFilter := x\<rparr>)) = keysAfter (FilterTenantStatus x) s"
    "consoleKeys (resetTenantPage (s\<lparr>ac_tenantPlanFilter := x\<rparr>)) = keysAfter (FilterTenantPlan x) s" for x
    by (simp_all add: resetTenantPage_def consoleKeys_def)
  ultimately show ?thesis by (cases e) (simp_all add: effects_keys requeue_keys staying_def)
qed

lemma event_role:
  assumes "ac_tenantAction s = None"
  shows "ac_operatorRole (fst (consoleEvent e s w)) = ac_operatorRole s"
  using event_keys [OF assms, of e w]
  by (cases e) (simp_all add: consoleKeys_def previousTenantPage_def nextTenantPage_def previousAuditPage_def nextAuditPage_def)

subsection \<open>The messages of the console\<close>

lemma addressed_fetch_at:
  assumes "reqUrl rq = apiBase w @ p" and "P (fmethod rq) p"
  shows "addressed P w (snd (fetch rq w))"
  using sends_fetch [of "\<lambda>r. \<exists>p. reqUrl r = apiBase w @ p \<and> (isRefresh (fmethod r) p \<or> P (fmethod r) p)" rq] assms
  by (auto simp: addressed_def apiBase_fetch keeps_def)

lemma addressed_export:
  assumes "\<And>p. P ''GET'' p"
  shows "keeps (addressed P) (exportAdminAuditCsv limit)"
proof -
  have "addressed P w (snd (downloadAuditLogCsv limit w))" for w
  proof (cases "getToken w")
    case (Inl e)
    then show ?thesis by (simp add: downloadAuditLogCsv_def await_def liftResult_def addressed_refl)
  next
    case (Inr token)
    define rq where "rq = \<lparr>reqUrl = auditExportUrl limit w, fmethod = ''GET'', fheaders = authorize token [], fbody = None\<rparr>"
    have f: "addressed P w (snd (fetch rq w))"
      by (rule addressed_fetch_at [where p = "''/admin/audit-log/export?limit='' @ encodeURIComponent (intStr limit)"])
        (simp_all add: rq_def auditExportUrl_def assms)
    obtain r w1 where r: "fetch rq w = (r, w1)" by (cases "fetch rq w")
    have same: "addressed P w1 w'" if "sent w' = sent w1" "apiBase w' = apiBase w1" for w'
      using that by (rule addressed_same)
    have "addressed P w1 (snd (downloadAuditLogCsv limit w))"
      using Inr r
      by (cases r) (auto simp: downloadAuditLogCsv_def await_def liftResult_def asks_def rq_def modify_def throw_def Let_def
          notifySessionExpired_def dispatch_def addressed_refl intro!: same)
    then show ?thesis using f r addressed_trans by simp
  qed
  then show ?thesis by (simp add: exportAdminAuditCsv_def downloadAuditCsv_def keeps_def)
qed

lemma addressed_consoleLoads:
  assumes "\<And>p. P ''GET'' p"
  shows "addressed P w (snd (loadDeadLetters s w))" and "addressed P w (snd (loadJobs s w))"
    and "addressed P w (snd (loadAuditLog s w))" and "addressed P w (snd (loadMetrics s w))"
    and "addressed P w (snd (loadJobLogs j s w))" and "addressed P w (snd (exportAudit s w))"
proof -
  note d = loadAdminDeadLetterQueue_def fetchDeadLetterJobs_def api_listDeadLetterJobs_def loadAdminJobs_def fetchAdminJobs_def
    api_listAdminJobs_def loadAdminAuditLog_def fetchAuditLog_def api_listAuditLog_def loadAdminMetrics_def fetchAdminMetrics_def
    api_getAdminMetrics_def loadAdminJobLogs_def fetchAdminJobLogs_def api_getAdminJobLogs_def
  have k: "keeps (addressed P) loadAdminDeadLetterQueue"
    "keeps (addressed P) (loadAdminJobs n)"
    "keeps (addressed P) (loadAdminAuditLog i n)" "keeps (addressed P) loadAdminMetrics" "keeps (addressed P) (loadAdminJobLogs j)"
    for n i
    unfolding d by (intro addressed_intros addressed_optional, simp add: assms)+
  show "addressed P w (snd (loadDeadLetters s w))" "addressed P w (snd (loadJobs s w))"
    "addressed P w (snd (loadAuditLog s w))" "addressed P w (snd (loadMetrics s w))" "addressed P w (snd (loadJobLogs j s w))"
    unfolding loadDeadLetters_def loadJobs_def loadAuditLog_def loadMetrics_def loadJobLogs_def
    by (rule addressed_answered, rule k)+
  have "addressed P w (snd (exportAdminAuditCsv 500 w))" using addressed_export assms by (simp add: keeps_def)
  then show "addressed P w (snd (exportAudit s w))" by (auto simp: exportAudit_def Let_def split: prod.splits sum.split)
qed

lemma addressed_consoleEvent:
  assumes "\<And>p. P ''GET'' p" and "ac_tenantAction s = None" and "e = IssueSupportLink \<Longrightarrow> \<not> canRunAdminOnlyActions s"
    and "\<And>jobId. e = RequeueDeadLetter jobId \<Longrightarrow> P ''POST'' (''/admin/jobs/dead-letter/'' @ encodeURIComponent jobId @ ''/requeue'')"
  shows "addressed P w (snd (consoleEvent e s w))"
proof (cases e)
  case (ShowView v)
  show ?thesis unfolding ShowView consoleEvent.simps viewEffects_def
    by (intro addressed_afterwards addressed_onlyWhen addressed_loadTenants addressed_consoleLoads assms(1))
next
  case (RequeueDeadLetter jobId)
  have k: "keeps (addressed P) (requeueDeadLetterById jobId)"
    unfolding requeueDeadLetterById_def requeueDeadLetterJob_def api_requeueDeadLetterJob_def
    by (intro addressed_intros addressed_optional) (simp only: init_methods assms(4) [OF RequeueDeadLetter])
  obtain r w1 where r: "requeueDeadLetterById jobId w = (r, w1)" by (cases "requeueDeadLetterById jobId w")
  have a: "addressed P w w1" by (rule keepsD [OF k r])
  have b: "addressed P w1 w2" if "loadDeadLetters s0 w1 = (s1, w2)" for s0 s1 w2
    using addressed_consoleLoads(1) [of P w1 s0] assms(1) that by simp
  show ?thesis using RequeueDeadLetter r a addressed_trans [OF a b]
    by (auto simp: requeueDeadLetter_def Let_def split: prod.split sum.split)
qed (use assms in \<open>auto simp: staying_def submitTenantAction_def issueImpersonationLink_def Let_def addressed_refl
    intro!: addressed_loadTenants addressed_consoleLoads\<close>)

text \<open>
  What the view of a page can send for a role other than admin: reads, the requeue of a failed job from the recovery
  queue, and the operations of the overview.
\<close>

definition supportWrite :: "AdminView \<Rightarrow> string \<Rightarrow> string \<Rightarrow> bool" where
  "supportWrite v m p \<longleftrightarrow> m = ''GET'' \<or> m = ''POST'' \<and>
     (v = AvRecovery \<and> (\<exists>jobId. p = ''/admin/jobs/dead-letter/'' @ encodeURIComponent jobId @ ''/requeue'') \<or>
      v = AvOverview \<and> p \<in> range opsPath)"

definition supportState :: "operator_console \<Rightarrow> bool" where
  "supportState s \<longleftrightarrow> ac_operatorRole (pc_console s) \<noteq> ''admin'' \<and> ac_tenantAction (pc_console s) = None \<and>
     tv_impersonationTenant (pc_tenants s) = None"

lemma support_offers:
  assumes "supportState s" and "screenOffers (operatorScreen fmt v s) (TenantActionModal (pc_console s)) e"
  shows "e \<noteq> Console IssueSupportLink" and "e = Console (RequeueDeadLetter j) \<Longrightarrow> v = AvRecovery"
    and "e = ConfirmOps \<Longrightarrow> v = AvOverview" and "e \<noteq> AskOwnerLink t" and "e \<noteq> ConfirmOwnerLink"
  using assms
  by (auto simp: supportState_def operatorScreen_def Let_def AdminSupportView_def supportButton_def canRunAdminOnlyActions_def
      AdminTenantsView_def ownerDialog_def confirmEnabled_def split: AdminView.splits)

lemma support_ops: "addressed (supportWrite AvOverview) w (snd (runOpsAction p w))"
  by (auto simp: runOpsAction_def addressed_refl supportWrite_def
      intro!: addressed_answered addressed_opsCall split: option.split)

lemma support_event:
  assumes "supportState s"
    and "e = Console (ShowView v) \<or> screenOffers (operatorScreen fmt v s) (TenantActionModal (pc_console s)) e"
  shows "addressed (supportWrite v) w (snd (operatorEvent e s w)) \<and> supportState (fst (operatorEvent e s w))"
proof -
  have role: "\<not> canRunAdminOnlyActions (pc_console s)" "ac_tenantAction (pc_console s) = None"
    using assms(1) by (simp_all add: supportState_def canRunAdminOnlyActions_def)
  note offers = support_offers [OF assms(1), of fmt v e]
  show ?thesis
  proof (cases e)
    case (Console c)
    have "addressed (supportWrite v) w (snd (consoleEvent c (pc_console s) w))"
      by (rule addressed_consoleEvent) (use role assms(2) offers Console in \<open>auto simp: supportWrite_def\<close>)
    then show ?thesis using assms(1) Console event_role [OF role(2)] event_keeps_closed [OF role(2)]
      by (simp add: inConsole_def fst_within snd_within supportState_def)
  next
    case ConfirmOps
    then show ?thesis using assms offers(3) support_ops [of w "pc_ops s"]
      by (simp add: inOps_def fst_within snd_within supportState_def)
  next
    case (AskOwnerLink t)
    then show ?thesis using offers(4) assms(2) by blast
  next
    case ConfirmOwnerLink
    then show ?thesis using offers(5) assms(2) by blast
  qed (use assms(1) in \<open>simp_all add: inOps_def inTenants_def fst_within snd_within staying_def supportState_def addressed_refl\<close>)
qed

lemma role_read:
  assumes "loadOperatorRole initialConsole w0 = Inr c" and "getSessionRole w0 \<noteq> Inr (Some ''admin'')"
  shows "supportState \<lparr>pc_console = c, pc_ops = initialOps, pc_tenants = initialTenantsView\<rparr>"
  using assms by (auto simp: loadOperatorRole_def supportState_def initialConsole_def initialTenantsView_def nullish_def
      split: sum.splits option.splits)

text \<open>
  C39: Whoever is not in the role admin can do no more in the operators' console than the views offer to every role: in
  every run of a page's controls and loads, with any answers, the messages are reads, the renewal of the session, the
  requeue of a failed job, from the recovery view only, and the operations of the overview, from the overview only; no
  tenant is being suspended and no link to an owner's account is asked for.
\<close>

theorem console_of_support:
  assumes "operator_reaches v w0 s w" and "getSessionRole w0 \<noteq> Inr (Some ''admin'')"
  shows "addressed (supportWrite v) w0 w \<and> supportState s"
  using assms(1)
proof induction
  case (mounted c)
  then show ?case using role_read assms(2) by (simp add: addressed_refl)
next
  case (effects s w s' w')
  then show ?case using support_event [of s "Console (ShowView v)" v "\<lambda>_. None" w] addressed_trans by auto
next
  case (used s w fmt e s' w')
  then show ?case using support_event [of s e v fmt w] addressed_trans by auto
qed

text \<open>A browser with the session of the role support, for the examples.\<close>

definition supportBrowser :: world where
  "supportBrowser = freshBrowser\<lparr>localStorage := (localStorage freshBrowser)(ROLE_KEY \<mapsto> ''support'')\<rparr>"

definition supportConsole :: operator_console where
  "supportConsole = \<lparr>pc_console = initialConsole\<lparr>ac_operatorRole := ''support''\<rparr>, pc_ops = initialOps, pc_tenants = initialTenantsView\<rparr>"

lemma support_mounted:
  "operator_reaches v supportBrowser supportConsole supportBrowser" "getSessionRole supportBrowser \<noteq> Inr (Some ''admin'')"
proof -
  have "loadOperatorRole initialConsole supportBrowser = Inr (initialConsole\<lparr>ac_operatorRole := ''support''\<rparr>)" by code_simp
  then show "operator_reaches v supportBrowser supportConsole supportBrowser"
    unfolding supportConsole_def by (rule operator_reaches.mounted)
  show "getSessionRole supportBrowser \<noteq> Inr (Some ''admin'')" by code_simp
qed

theorem console_of_support_witness:
  "addressed (supportWrite AvRecovery) supportBrowser
     (snd (operatorEvent (Console (ShowView AvRecovery)) supportConsole supportBrowser))"
proof -
  obtain s' w' where e: "operatorEvent (Console (ShowView AvRecovery)) supportConsole supportBrowser = (s', w')"
    by (metis prod.collapse)
  show ?thesis
    using console_of_support [OF operator_reaches.effects [OF support_mounted(1) e] support_mounted(2)] e
    by (simp del: operatorEvent.simps)
qed

subsection \<open>The operations of the overview\<close>

lemma runOps_idle: "\<not> op_busy p \<Longrightarrow> \<not> op_busy (fst (runOpsAction p w))"
  by (auto simp: runOpsAction_def fst_answered opsSettled_def split: option.split sum.split OptionalEndpointResult.split)

lemma ops_idle: "operator_reaches v w0 s w \<Longrightarrow> \<not> op_busy (pc_ops s)"
proof (induction rule: operator_reaches.induct)
  case (effects s w s' w')
  then show ?case by (auto simp: inConsole_def within_def split: prod.splits)
next
  case (used s w fmt e s' w')
  have "\<not> op_busy (pc_ops (fst (operatorEvent e s w)))"
    using used.IH by (cases e) (simp_all add: inConsole_def inOps_def inTenants_def fst_within staying_def runOps_idle)
  then show ?case unfolding used.hyps(3) by simp
qed (simp add: initialOps_def)

text \<open>
  The operations of the overview, unlike the same actions on the health page, are offered whatever the role: each of
  them can be asked for and confirmed, and is then sent.
\<close>

theorem operations_offered_to_all:
  assumes "operator_reaches AvOverview w0 s w" and "operatorEvent (AskOps a) s w = (s1, w1)"
  shows "screenOffers (operatorScreen fmt AvOverview s) (TenantActionModal (pc_console s)) (AskOps a) \<and>
    operator_reaches AvOverview w0 s1 w1 \<and>
    screenOffers (operatorScreen fmt AvOverview s1) (TenantActionModal (pc_console s1)) ConfirmOps \<and>
    w1 = w \<and> snd (operatorEvent ConfirmOps s1 w1) = snd (opsCall a w)"
proof -
  have o: "screenOffers (operatorScreen f AvOverview s) (TenantActionModal (pc_console s)) (AskOps a)" for f
    by (cases a) (simp_all add: operatorScreen_def Let_def AdminOverviewView_def opsButtons_def)
  have s1: "w1 = w" "s1 = s\<lparr>pc_ops := pc_ops s\<lparr>op_confirmAction := Some a\<rparr>\<rparr>"
    using assms(2) by (auto simp: inOps_def within_def staying_def)
  have "screenOffers (operatorScreen fmt AvOverview s1) (TenantActionModal (pc_console s1)) ConfirmOps"
    using ops_idle [OF assms(1)]
    by (simp add: s1 operatorScreen_def Let_def AdminOverviewView_def opsDialog_def confirmEnabled_def ConfirmActionDialog_def)
  then show ?thesis using o operator_reaches.used [OF assms(1) o assms(2)] s1
    by (simp add: inOps_def snd_within runOpsAction_def snd_answered)
qed

text \<open>A session of support: the console offers the dunning cycle, the health page no maintenance.\<close>

theorem operations_offered_to_all_witness:
  "getSessionRole supportBrowser = Inr (Some ''support'') \<and>
   screenOffers (operatorScreen (\<lambda>_. None) AvOverview supportConsole) (TenantActionModal (pc_console supportConsole)) (AskOps RunDunning) \<and>
   snd (operatorEvent ConfirmOps (fst (operatorEvent (AskOps RunDunning) supportConsole supportBrowser)) supportBrowser) =
     snd (opsCall RunDunning supportBrowser)"
proof -
  have r: "getSessionRole supportBrowser = Inr (Some ''support'')" by code_simp
  obtain s1 w1 where e: "operatorEvent (AskOps RunDunning) supportConsole supportBrowser = (s1, w1)" by (metis prod.collapse)
  show ?thesis using operations_offered_to_all [OF support_mounted(1) e, of "\<lambda>_. None"] e r
    by (auto simp del: operatorEvent.simps screenOffers.simps)
qed

subsection \<open>The queries of the console\<close>

definition validQuery :: "admin_console \<Rightarrow> bool" where
  "validQuery s \<longleftrightarrow> 1 \<le> ac_tenantPage s \<and> 1 \<le> ac_auditPage s \<and>
     ac_tenantStatusFilter s \<in> fst ` set STATUS_MENU \<and> ac_tenantPlanFilter s \<in> fst ` set PLAN_MENU"

lemma validQuery_keys: "consoleKeys s' = consoleKeys s \<Longrightarrow> validQuery s' = validQuery s"
  by (simp add: validQuery_def consoleKeys_def)

lemma offered_keys_valid:
  assumes "validQuery c" and "consoleKeys c' = keysAfter e c"
    and "e = ShowView v \<or> consoleOffers (operatorScreen fmt v s) m e"
  shows "validQuery c'"
proof -
  have total: "1 \<le> tenantTotalPages c" "1 \<le> auditTotalPages c"
    by (simp_all add: tenantTotalPages_def auditTotalPages_def)
  have "\<exists>t. keysAfter e c = consoleKeys t \<and> validQuery t"
  proof (cases e)
    case (FilterTenantStatus x)
    then show ?thesis using assms(1,3)
      by (intro exI [of _ "c\<lparr>ac_tenantStatusFilter := x, ac_tenantPage := 1\<rparr>"])
        (auto simp: validQuery_def operatorScreen_def AdminTenantsView_def Let_def split: AdminView.splits)
  next
    case (FilterTenantPlan x)
    then show ?thesis using assms(1,3)
      by (intro exI [of _ "c\<lparr>ac_tenantPlanFilter := x, ac_tenantPage := 1\<rparr>"])
        (auto simp: validQuery_def operatorScreen_def AdminTenantsView_def Let_def split: AdminView.splits)
  qed (use assms(1) total in \<open>force simp: validQuery_def previousTenantPage_def nextTenantPage_def previousAuditPage_def
      nextAuditPage_def\<close>)+
  then show ?thesis using assms(2) validQuery_keys by metis
qed

text \<open>
  In every run of a page of the console the next query for its tenants and its audit log asks for a page from 1 on, and
  for a status and a plan of the menus.
\<close>

theorem console_queries_valid:
  assumes "operator_reaches v w0 s w"
  shows "validQuery (pc_console s) \<and> ac_tenantAction (pc_console s) = None \<and> 1 \<le> aq_page (tenantQuery (pc_console s)) \<and>
    aq_status (tenantQuery (pc_console s)) \<in> {None} \<union> Some ` One ` fst ` set STATUS_MENU"
proof -
  have "validQuery (pc_console s) \<and> ac_tenantAction (pc_console s) = None"
    using assms
  proof induction
    case (mounted c)
    then show ?case
      by (auto simp: loadOperatorRole_def initialConsole_def validQuery_def STATUS_MENU_def PLAN_MENU_def split: sum.splits)
  next
    case (effects s w s' w')
    then have s': "pc_console s' = fst (viewEffects v (pc_console s) w)"
      by (auto simp: inConsole_def within_def split: prod.splits)
    then show ?case using effects.IH validQuery_keys [OF effects_keys] by simp
  next
    case (used s w fmt e s' w')
    show ?case
    proof (cases "\<exists>c. e = Console c")
      case True
      then obtain c where c: "e = Console c" by blast
      then have s': "pc_console s' = fst (consoleEvent c (pc_console s) w)"
        using used.hyps by (auto simp: inConsole_def within_def split: prod.splits)
      have offer: "consoleOffers (operatorScreen fmt v s) (TenantActionModal (pc_console s)) c" using used.hyps c by simp
      have a: "ac_tenantAction (pc_console s) = None" using used.IH by simp
      show ?thesis
        using offered_keys_valid [OF _ event_keys [OF a, of c w] disjI2 [OF offer]] event_keeps_closed [OF a, of c w] used.IH s'
        by simp
    next
      case False
      then have "pc_console s' = pc_console s"
        using used.hyps by (cases e) (auto simp: inOps_def inTenants_def within_def split: prod.splits)
      then show ?thesis using used.IH by simp
    qed
  qed
  then show ?thesis by (auto simp: tenantQuery_def validQuery_def)
qed

theorem console_queries_valid_witness:
  "1 \<le> aq_page (tenantQuery (pc_console supportConsole))"
  using console_queries_valid [OF support_mounted(1)] by simp

end
