(* ===== verification/Tenant_Views.thy ===== *)
theory Tenant_Views
  imports Overview_Page
begin

section \<open>The backups and the billing of a tenant as they are shown\<close>

text \<open>
  The pages \<^verbatim>\<open>backups/page.tsx\<close> and \<^verbatim>\<open>billing/page.tsx\<close> of a tenant: what they show of the states of the theories
  Tenant_Backups and Tenant_Billing, with the frame both share, the controls they offer and their runs. A dialog is
  in front of the page: while it is open, only its own controls can be used.
\<close>

subsection \<open>The frame\<close>

record workspace_layout =
  wl_crumbs :: "(string \<times> string option) list"
  wl_title :: string
  wl_context :: string
  wl_links :: "TenantSectionNavItem list"
  wl_footer :: "string option"

definition TenantWorkspacePageLayout ::
  "string \<Rightarrow> string \<Rightarrow> string \<Rightarrow> string \<Rightarrow> string option \<Rightarrow> workspace_layout" where
  "TenantWorkspacePageLayout pathname tenantId title context footerError =
     \<lparr>wl_crumbs = layoutCrumbs tenantId title context, wl_title = title, wl_context = context,
      wl_links = buildTenantSectionNavItems pathname tenantId, wl_footer = shownText footerError\<rparr>"

subsection \<open>Backups\<close>

text \<open>What stands where the rows are: while the list is loading, missing, failed or empty nothing of a restore is shown.\<close>

definition backupsListed :: "backups_page \<Rightarrow> bool" where
  "backupsListed s \<longleftrightarrow> \<not> bk_loading s \<and> bk_supported s \<and> \<not> truthyStr (bk_error s) \<and> bk_backups s \<noteq> []"

record restore_dialog =
  rd_dialog :: confirmation
  rd_warning :: string
  rd_error :: "string option"

definition restoreDialog :: "backups_page \<Rightarrow> restore_dialog option" where
  "restoreDialog s =
     (if backupsListed s \<and> bk_restoreTarget s \<noteq> None
      then Some \<lparr>rd_dialog = \<lparr>cn_title = ''Confirm restore'',
          cn_body = ''This will overwrite all current workspace data. Create a backup first if you need the current state. Type RESTORE to continue.'',
          cn_buttons = ConfirmActionDialog ''Confirm restore'' (bk_restoreBusy s),
          cn_field = Some (''Type RESTORE'', bk_restoreConfirm s)\<rparr>,
        rd_warning = ''This will overwrite all current workspace data. If you need the current state, create a backup first.'',
        rd_error = shownText (bk_restoreError s)\<rparr>
      else None)"

record backups_shown =
  bs_layout :: workspace_layout
  bs_queue :: "string \<times> bool"
  bs_blocked :: "string option"
  bs_notice :: "string option"
  bs_error :: "string option"
  bs_columns :: "string list"
  bs_list :: "(string list \<times> string option) page_content"
  bs_restore :: "(BackupManifestEntry \<times> bool) list"
  bs_dialog :: "restore_dialog option"
  bs_restoreNotice :: "string option"
  bs_widget :: "(string \<times> string) option"

text \<open>\<open>bs_restore\<close> are the entries of the rows, each with whether its button is disabled.\<close>

definition backupsShown ::
  "(string \<Rightarrow> string \<Rightarrow> bool) \<Rightarrow> browser_texts \<Rightarrow> string \<Rightarrow> Tenant query_state \<Rightarrow> backups_page \<Rightarrow> backups_shown" where
  "backupsShown collate b ident q s =
     (let tenant = tx_tenant (useTenantRouteContext q); listed = backupsListed s in
      \<lparr>bs_layout = TenantWorkspacePageLayout (bt_pathname b) ident ''Backups'' (tenantContext tenant)
         (tx_error (useTenantRouteContext q)),
       bs_queue = (if bk_queueBusy s then ''Queuing...'' else ''Queue backup'', billingBlocked tenant \<or> bk_queueBusy s),
       bs_blocked = (if billingBlocked tenant then Some (blockedActionReason ''Backup restore'') else None),
       bs_notice = shownText (bk_queueNotice s),
       bs_error = shownText (bk_queueError s),
       bs_columns = [''Created'', ''Backup file'', ''Size'', ''Expires'', ''Action''],
       bs_list = backupsContent collate (bt_date b) s,
       bs_restore = (if listed
         then map (\<lambda>entry. (entry, restoreDisabled tenant s entry)) (sortedBackups collate (bk_backups s)) else []),
       bs_dialog = restoreDialog s,
       bs_restoreNotice = (if listed then shownText (bk_restoreNotice s) else None),
       bs_widget = (if listed then map_option (Pair ''Restore progress'') (shownText (bk_restoreJobId s)) else None)\<rparr>)"

definition TenantBackupsPage ::
  "(string \<Rightarrow> string \<Rightarrow> bool) \<Rightarrow> browser_texts \<Rightarrow> string \<Rightarrow> Tenant query_state \<Rightarrow> backups_page \<Rightarrow> string + backups_shown" where
  "TenantBackupsPage collate b ident q s =
     (if ident = [] then Inl ''Tenant id is missing from route.'' else Inr (backupsShown collate b ident q s))"

datatype backups_event = Backup backup_action | AskRestore BackupManifestEntry | TypeRestore string | LeaveRestore

primrec backupOffered :: "backups_shown \<Rightarrow> backup_action \<Rightarrow> bool" where
  "backupOffered v QueueBackup = (bs_dialog v = None \<and> \<not> snd (bs_queue v))"
| "backupOffered v ReloadBackups = (bs_dialog v = None)"
| "backupOffered v ConfirmRestore = confirmEnabled (map_option rd_dialog (bs_dialog v))"

primrec backupsOffer :: "backups_shown \<Rightarrow> backups_event \<Rightarrow> bool" where
  "backupsOffer v (Backup a) = backupOffered v a"
| "backupsOffer v (AskRestore entry) = (bs_dialog v = None \<and> (entry, False) \<in> set (bs_restore v))"
| "backupsOffer v (TypeRestore x) = (bs_dialog v \<noteq> None)"
| "backupsOffer v LeaveRestore = leaveEnabled (map_option rd_dialog (bs_dialog v))"

primrec backupsEvent :: "string \<Rightarrow> backups_event \<Rightarrow> backups_page handler" where
  "backupsEvent ident (Backup a) = backupAct ident a"
| "backupsEvent ident (AskRestore entry) = staying (openRestore entry)"
| "backupsEvent ident (TypeRestore x) = staying (\<lambda>s. s\<lparr>bk_restoreConfirm := x\<rparr>)"
| "backupsEvent ident LeaveRestore = staying cancelRestore"

text \<open>
  The runs of the page: \<open>T\<close> says what the query of the tenant can hold while the page is used. The first load is the effect of
  the mounted page.
\<close>

inductive backups_reaches :: "(Tenant query_state \<Rightarrow> bool) \<Rightarrow> string \<Rightarrow> world \<Rightarrow> backups_page \<Rightarrow> world \<Rightarrow> bool"
  for T ident w0 where
  mounted: "loadBackupsData ident initialBackups w0 = (s, w) \<Longrightarrow> backups_reaches T ident w0 s w"
| used: "backups_reaches T ident w0 s w \<Longrightarrow> T q \<Longrightarrow> TenantBackupsPage collate b ident q s = Inr v \<Longrightarrow>
    backupsOffer v e \<Longrightarrow> backupsEvent ident e s w = (s', w') \<Longrightarrow> backups_reaches T ident w0 s' w'"

subsection \<open>Billing\<close>

record billing_shown =
  ps_layout :: workspace_layout
  ps_caption :: string
  ps_plan :: "string \<times> (string \<times> string) list"
  ps_app :: "string \<times> (string \<times> string) list"
  ps_button :: "string \<times> bool"
  ps_alerts :: "string list"
  ps_recovery :: "((string \<times> bool) \<times> string option) option"
  ps_subscription :: "string option \<times> subscription_section"
  ps_dialog :: "confirmation option"

definition planDialog :: "billing_page \<Rightarrow> confirmation option" where
  "planDialog s =
     (if bp_confirmPlanOpen s
      then Some \<lparr>cn_title = ''Update tenant plan'',
        cn_body = ''Confirm this plan change. Billing may be prorated by the provider, and downgrades can reduce feature access.'',
        cn_buttons = ConfirmActionDialog ''Update tenant plan'' (bp_planBusy s), cn_field = None\<rparr>
      else None)"

definition paymentRecovery :: "billing_page \<Rightarrow> ((string \<times> bool) \<times> string option) option" where
  "paymentRecovery s =
     (if showPaymentRetry s
      then Some ((if bp_retryBusy s then ''Generating...'' else ''Generate payment link'', bp_retryBusy s), shownText (bp_retryError s))
      else None)"

definition billingShown ::
  "(int \<Rightarrow> string) \<Rightarrow> browser_texts \<Rightarrow> string \<Rightarrow> billing_page \<Rightarrow> billing_shown" where
  "billingShown price b ident s =
     (let context = useTenantRouteContext (bp_tenant s) in
      \<lparr>ps_layout = TenantWorkspacePageLayout (bt_pathname b) ident ''Billing & subscription'' (tenantContext (tx_tenant context))
         (tx_error context),
       ps_caption = planCaption s,
       ps_plan = (bp_planChoice s, planMenu price s),
       ps_app = (bp_planAppChoice s, appMenu s),
       ps_button = planButton s,
       ps_alerts = planAlerts s,
       ps_recovery = paymentRecovery s,
       ps_subscription = subscriptionSection (bt_date b) (useTenantSubscriptionData (bp_subscription s)),
       ps_dialog = planDialog s\<rparr>)"

definition TenantBillingPage ::
  "(int \<Rightarrow> string) \<Rightarrow> browser_texts \<Rightarrow> string \<Rightarrow> billing_page \<Rightarrow> string + billing_shown" where
  "TenantBillingPage price b ident s =
     (if ident = [] then Inl ''Tenant id is missing from route.'' else Inr (billingShown price b ident s))"

datatype billing_event =
  Billing billing_action | RefreshAll | RefreshSubscription | ChoosePlan string | ChooseApp string | AskPlan | LeavePlan

primrec billingOffered :: "billing_shown \<Rightarrow> billing_action \<Rightarrow> bool" where
  "billingOffered v SubmitPlan = confirmEnabled (ps_dialog v)"
| "billingOffered v RetryPayment =
     (ps_dialog v = None \<and> (case ps_recovery v of Some ((_, d), _) \<Rightarrow> \<not> d | None \<Rightarrow> False))"

primrec billingOffer :: "billing_shown \<Rightarrow> billing_event \<Rightarrow> bool" where
  "billingOffer v (Billing a) = billingOffered v a"
| "billingOffer v RefreshAll = (ps_dialog v = None)"
| "billingOffer v RefreshSubscription = (ps_dialog v = None)"
| "billingOffer v (ChoosePlan x) = (ps_dialog v = None \<and> x \<in> fst ` set (snd (ps_plan v)))"
| "billingOffer v (ChooseApp x) = (ps_dialog v = None \<and> x \<in> fst ` set (snd (ps_app v)))"
| "billingOffer v AskPlan = (ps_dialog v = None \<and> \<not> snd (ps_button v))"
| "billingOffer v LeavePlan = leaveEnabled (ps_dialog v)"

primrec billingEvent :: "string \<Rightarrow> billing_event \<Rightarrow> billing_page handler" where
  "billingEvent ident (Billing a) = billingAct ident a"
| "billingEvent ident RefreshAll = refreshBilling ident"
| "billingEvent ident RefreshSubscription = billingSubscription ident"
| "billingEvent ident (ChoosePlan x) = staying (choosePlan x)"
| "billingEvent ident (ChooseApp x) = staying (chooseApp x)"
| "billingEvent ident AskPlan = staying openPlanConfirm"
| "billingEvent ident LeavePlan = staying cancelPlanConfirm"

text \<open>The runs of the page, with the load of the plans and fresh answers of its two queries, of which \<open>T\<close> says what they can be.\<close>

inductive billing_reaches ::
  "(Tenant query_state \<Rightarrow> TenantSubscription OptionalEndpointResult query_state \<Rightarrow> bool) \<Rightarrow> string \<Rightarrow> world \<Rightarrow> billing_page \<Rightarrow> world \<Rightarrow> bool"
  for T ident w0 where
  mounted: "T t u \<Longrightarrow> billing_reaches T ident w0 (mountBilling t u) w0"
| plans: "billing_reaches T ident w0 s w \<Longrightarrow> plansEffect currency s w = (s', w') \<Longrightarrow> billing_reaches T ident w0 s' w'"
| fresh: "billing_reaches T ident w0 s w \<Longrightarrow> T t u \<Longrightarrow> billing_reaches T ident w0 (s\<lparr>bp_tenant := t, bp_subscription := u\<rparr>) w"
| used: "billing_reaches T ident w0 s w \<Longrightarrow> TenantBillingPage price b ident s = Inr v \<Longrightarrow> billingOffer v e \<Longrightarrow>
    billingEvent ident e s w = (s', w') \<Longrightarrow> billing_reaches T ident w0 s' w'"

subsection \<open>Restoring a backup\<close>

definition backupsReady :: "backups_page \<Rightarrow> bool" where
  "backupsReady s \<longleftrightarrow> \<not> bk_loading s \<and> \<not> bk_queueBusy s \<and> \<not> bk_restoreBusy s \<and>
     (\<forall>entry. bk_restoreTarget s = Some entry \<longrightarrow>
        backupsListed s \<and> entry \<in> set (bk_backups s) \<and> orElse (bm_id entry) [] \<noteq> [])"

lemma set_sortedBackups: "set (sortedBackups collate bs) = set bs"
  by (induction bs) (simp_all add: sortedBackups_def)

lemma loadBackups_fields:
  assumes "ident \<noteq> []"
  shows "\<not> bk_loading (fst (loadBackupsData ident s w))"
    "bk_queueBusy (fst (loadBackupsData ident s w)) = bk_queueBusy s"
    "bk_restoreBusy (fst (loadBackupsData ident s w)) = bk_restoreBusy s"
    "bk_restoreTarget (fst (loadBackupsData ident s w)) = bk_restoreTarget s"
  using assms by (auto simp: loadBackupsData_def fst_answered backupsLoaded_def split: sum.split OptionalEndpointResult.split)

lemma queueBackup_fields:
  "bk_loading (fst (queueBackup ident s w)) = bk_loading s" "bk_backups (fst (queueBackup ident s w)) = bk_backups s"
  "bk_supported (fst (queueBackup ident s w)) = bk_supported s" "bk_error (fst (queueBackup ident s w)) = bk_error s"
  "bk_restoreBusy (fst (queueBackup ident s w)) = bk_restoreBusy s"
  "bk_restoreTarget (fst (queueBackup ident s w)) = bk_restoreTarget s"
  "\<not> bk_queueBusy s \<Longrightarrow> \<not> bk_queueBusy (fst (queueBackup ident s w))"
  by (auto simp: queueBackup_def onlyWhen_def attemptCall_def staying_def split: prod.split sum.split)

lemma confirmRestore_fields:
  "bk_loading (fst (confirmRestore ident s w)) = bk_loading s" "bk_backups (fst (confirmRestore ident s w)) = bk_backups s"
  "bk_supported (fst (confirmRestore ident s w)) = bk_supported s" "bk_error (fst (confirmRestore ident s w)) = bk_error s"
  "bk_queueBusy (fst (confirmRestore ident s w)) = bk_queueBusy s"
  "\<not> bk_restoreBusy s \<Longrightarrow> \<not> bk_restoreBusy (fst (confirmRestore ident s w))"
  "bk_restoreTarget (fst (confirmRestore ident s w)) \<in> {None, bk_restoreTarget s}"
  by (auto simp: confirmRestore_def attempt_def staying_def split: prod.split sum.split OptionalEndpointResult.split)

lemma TenantBackupsPage_shown:
  "TenantBackupsPage collate b ident q s = Inr v \<longleftrightarrow> ident \<noteq> [] \<and> v = backupsShown collate b ident q s"
  by (auto simp: TenantBackupsPage_def)

lemma shown_dialog: "bs_dialog (backupsShown collate b ident q s) = restoreDialog s"
  by (simp add: backupsShown_def Let_def)

lemma no_dialog: "backupsReady s \<Longrightarrow> restoreDialog s = None \<longleftrightarrow> bk_restoreTarget s = None"
  by (auto simp: restoreDialog_def backupsReady_def)

lemma ready_step:
  assumes "backupsReady s" and "ident \<noteq> []" and "backupsOffer (backupsShown collate b ident q s) e"
  shows "backupsReady (fst (backupsEvent ident e s w))"
proof (cases e)
  case (Backup a)
  then show ?thesis
  proof (cases a)
    case QueueBackup
    then show ?thesis using Backup assms(1) by (simp add: backupsReady_def queueBackup_fields backupsListed_def)
  next
    case ConfirmRestore
    then show ?thesis using Backup assms(1) confirmRestore_fields [where ident = ident and s = s and w = w]
      by (auto simp: backupsReady_def backupsListed_def)
  next
    case ReloadBackups
    then show ?thesis using Backup assms no_dialog [OF assms(1)]
      by (simp add: backupsReady_def loadBackups_fields shown_dialog)
  qed
next
  case (AskRestore entry)
  then show ?thesis using assms
    by (auto simp: staying_def openRestore_def backupsReady_def backupsShown_def Let_def restoreDisabled_def set_sortedBackups
        backupsListed_def split: if_splits)
qed (use assms(1) in \<open>auto simp: staying_def cancelRestore_def backupsReady_def backupsListed_def\<close>)


text \<open>The page of a tenant with one backup, and its restore dialog, for the examples.\<close>

definition backupsBrowser :: world where
  "backupsBrowser = signedIn [(1, jsonResponse 200 (JArr [JObj [(''id'', JStr ''b1''), (''created_at'', JStr ''2'')]]))]"

definition oneBackup :: BackupManifestEntry where
  "oneBackup = \<lparr>bm_id = Some ''b1'', bm_tenant_id = None, bm_job_id = None, bm_file_path = None, bm_file_size_bytes = None,
     bm_created_at = Some ''2'', bm_expires_at = None, bm_s3_key = None, bm_download_url = None\<rparr>"

definition loadedBackups :: backups_page where
  "loadedBackups = initialBackups\<lparr>bk_backups := [oneBackup], bk_loading := False\<rparr>"

lemma loaded_reached: "backups_reaches T ''t1'' backupsBrowser loadedBackups (snd (loadBackupsData ''t1'' initialBackups backupsBrowser))"
proof -
  have "fst (loadBackupsData ''t1'' initialBackups backupsBrowser) = loadedBackups" by code_simp
  then show ?thesis
    by (intro backups_reaches.mounted) (metis prod.collapse)
qed

lemma asked_reached:
  assumes "T q" and "\<not> billingBlocked (qs_data q)"
  shows "backups_reaches T ''t1'' backupsBrowser (openRestore oneBackup loadedBackups)
    (snd (loadBackupsData ''t1'' initialBackups backupsBrowser))"
proof -
  have d: "TenantBackupsPage collate b ''t1'' q loadedBackups = Inr (backupsShown collate b ''t1'' q loadedBackups)" for collate b
    by (simp add: TenantBackupsPage_def)
  have o: "backupsOffer (backupsShown collate b ''t1'' q loadedBackups) (AskRestore oneBackup)" for collate b
    using assms(2)
    by (simp add: backupsShown_def Let_def restoreDialog_def loadedBackups_def initialBackups_def backupsListed_def truthyStr_def
        sortedBackups_def restoreDisabled_def oneBackup_def orElse_def useTenantRouteContext_def)
  show ?thesis
    using backups_reaches.used [of T "''t1''" backupsBrowser loadedBackups _ q "\<lambda>_ _. True" sampleTexts, OF loaded_reached assms(1) d o]
    by (simp add: staying_def)
qed


subsection \<open>A tenant with its billing in arrears\<close>

lemma blocked_offers:
  assumes "backupsOffer (backupsShown collate b ident q s) e" and "billingBlocked (qs_data q)" and "bk_restoreTarget s = None"
  shows "e = Backup ReloadBackups"
proof (cases e)
  case (Backup a)
  then show ?thesis using assms
    by (cases a) (simp_all add: backupsShown_def Let_def useTenantRouteContext_def restoreDialog_def confirmEnabled_def)
next
  case (AskRestore entry)
  then show ?thesis using assms
    by (auto simp: backupsShown_def Let_def useTenantRouteContext_def restoreDisabled_def split: if_splits)
qed (use assms(1,3) in \<open>auto simp: shown_dialog restoreDialog_def leaveEnabled_def\<close>)

lemma loadBackups_reads: "addressed (\<lambda>m p. m = ''GET'') w (snd (loadBackupsData ident s w))"
proof -
  have "keeps (addressed (\<lambda>m p. m = ''GET'')) (loadTenantBackupManifest ident)"
    unfolding loadTenantBackupManifest_def fetchTenantBackups_def api_listTenantBackups_def
    by (rule addressed_optional) simp
  then show ?thesis unfolding loadBackupsData_def by (intro addressed_onlyWhen addressed_answered)
qed

text \<open>
  While the page knows that the billing of its tenant blocks it, no backup is queued and none is restored: every run sends
  reads only, and no restore is being confirmed.
\<close>

theorem blocked_tenant_reads:
  assumes "backups_reaches (\<lambda>q. billingBlocked (qs_data q)) ident w0 s w"
  shows "addressed (\<lambda>m p. m = ''GET'') w0 w \<and> bk_restoreTarget s = None"
  using assms
proof induction
  case (mounted s w)
  then have "s = fst (loadBackupsData ident initialBackups w0)" "w = snd (loadBackupsData ident initialBackups w0)" by simp_all
  then show ?case using loadBackups_reads [of w0 ident initialBackups]
    by (cases "ident = []") (simp_all add: loadBackups_fields, simp_all add: loadBackupsData_def initialBackups_def)
next
  case (used s w q collate b v e s' w')
  then have i: "ident \<noteq> []" and e: "e = Backup ReloadBackups"
    using blocked_offers unfolding TenantBackupsPage_shown by blast+
  then have "s' = fst (loadBackupsData ident s w)" "w' = snd (loadBackupsData ident s w)" using used.hyps(5) by simp_all
  then show ?case using used.IH loadBackups_fields(4) [OF i, of s w] loadBackups_reads [of w ident s] addressed_trans by auto
qed

theorem blocked_tenant_reads_witness:
  "addressed (\<lambda>m p. m = ''GET'') backupsBrowser (snd (loadBackupsData ''t1'' initialBackups backupsBrowser))"
  using blocked_tenant_reads [OF loaded_reached] by simp

text \<open>
  But the page does not know it before the tenant has arrived, and what was asked before stays: a queue of a backup is offered
  while the tenant is loading, and an open dialog can still be confirmed when the tenant is blocked.
\<close>

lemma backup_offered_while_loading:
  "billingBlocked (qs_data \<lparr>qs_data = Some (sampleTenant ''suspended_billing'' None None), qs_error = None\<rparr>) \<and>
   backupsOffer (backupsShown collate b ''t1'' noData loadedBackups) (Backup QueueBackup) \<and>
   backupsOffer (backupsShown collate b ''t1'' \<lparr>qs_data = Some (sampleTenant ''suspended_billing'' None None), qs_error = None\<rparr>
     (openRestore oneBackup loadedBackups)) (Backup ConfirmRestore)"
proof -
  have "billingBlocked (qs_data \<lparr>qs_data = Some (sampleTenant ''suspended_billing'' None None), qs_error = None\<rparr>)" by code_simp
  then show ?thesis
    by (simp add: backupsShown_def Let_def restoreDialog_def loadedBackups_def initialBackups_def backupsListed_def truthyStr_def
        openRestore_def useTenantRouteContext_def noData_def billingBlocked_def isTenantBillingBlocked_def
        isTenantBillingBlockedStatus_def confirmEnabled_def ConfirmActionDialog_def)
qed

subsection \<open>The dialog of a change of plan\<close>

definition billingIdle :: "billing_page \<Rightarrow> bool" where
  "billingIdle s \<longleftrightarrow> \<not> bp_planBusy s \<and> \<not> bp_retryBusy s"

lemma billing_loads_idle:
  "billingIdle (fst (billingTenant ident s w)) = billingIdle s" "billingIdle (fst (billingSubscription ident s w)) = billingIdle s"
  "billingIdle (fst (refreshBilling ident s w)) = billingIdle s" "billingIdle (fst (plansEffect currency s w)) = billingIdle s"
  by (auto simp: billing_loads refreshBilling_def fst_afterwards plansEffect_def fst_answered plansLoaded_def billingIdle_def
      split: sum.split)

lemma billing_events_idle: "billingIdle s \<Longrightarrow> billingIdle (fst (billingEvent ident e s w))"
proof (cases e)
  case (Billing a)
  assume idle: "billingIdle s"
  show ?thesis
  proof (cases "qs_data (bp_tenant s)")
    case None
    then show ?thesis using Billing idle by (cases a) (simp_all add: submitPlanChange_def retryPayment_def)
  next
    case (Some t)
    have plan: "bp_retryBusy (fst (attempt call missing ok failed lastly s0 w)) = bp_retryBusy s0"
      if "\<And>s. bp_retryBusy (missing s) = bp_retryBusy s" "\<And>x s w. bp_retryBusy (fst (ok x s w)) = bp_retryBusy s"
        "\<And>e s. bp_retryBusy (failed e s) = bp_retryBusy s" "\<And>s. bp_retryBusy (lastly s) = bp_retryBusy s"
      for call :: "'x OptionalEndpointResult io" and missing ok failed lastly s0
      by (rule attempt_keeps [where P = bp_retryBusy]) (rule that)+
    have retry: "bp_planBusy (fst (attempt call missing ok failed lastly s0 w)) = bp_planBusy s0"
      if "\<And>s. bp_planBusy (missing s) = bp_planBusy s" "\<And>x s w. bp_planBusy (fst (ok x s w)) = bp_planBusy s"
        "\<And>e s. bp_planBusy (failed e s) = bp_planBusy s" "\<And>s. bp_planBusy (lastly s) = bp_planBusy s"
      for call :: "'x OptionalEndpointResult io" and missing ok failed lastly s0
      by (rule attempt_keeps [where P = bp_planBusy]) (rule that)+
    show ?thesis
    proof (cases a)
      case SubmitPlan
      have "bp_retryBusy (fst (submitPlanChange ident s w)) = bp_retryBusy s"
        by (simp add: submitPlanChange_def Some plan fst_afterwards billing_loads)
      moreover have "\<not> bp_planBusy (fst (submitPlanChange ident s w))"
        by (auto simp: submitPlanChange_def Some attempt_def split: prod.split sum.split OptionalEndpointResult.split)
      ultimately show ?thesis using Billing SubmitPlan idle by (simp add: billingIdle_def)
    next
      case RetryPayment
      have "bp_planBusy (fst (retryPayment ident s w)) = bp_planBusy s"
        by (simp add: retryPayment_def Some retry billing_loads paymentLink_def)
      moreover have "\<not> bp_retryBusy (fst (retryPayment ident s w))"
        by (auto simp: retryPayment_def Some attempt_def split: prod.split sum.split OptionalEndpointResult.split)
      ultimately show ?thesis using Billing RetryPayment idle by (simp add: billingIdle_def)
    qed
  qed
qed (simp_all add: billing_loads_idle staying_def, simp_all add: billingIdle_def choosePlan_def chooseApp_def openPlanConfirm_def
    cancelPlanConfirm_def)

text \<open>
  The billing page is never stuck: in every run its dialog, when it is open, can be left and confirmed, and when it is closed can
  be asked for; a new payment link is offered exactly to a subscription that waits for a payment.
\<close>

theorem billing_dialog_usable:
  assumes "billing_reaches T ident w0 s w"
  shows "let v = billingShown price b ident s in
    billingOffer v LeavePlan = bp_confirmPlanOpen s \<and> billingOffer v (Billing SubmitPlan) = bp_confirmPlanOpen s \<and>
    billingOffer v AskPlan = (\<not> bp_confirmPlanOpen s) \<and>
    billingOffer v (Billing RetryPayment) = (\<not> bp_confirmPlanOpen s \<and> showPaymentRetry s)"
proof -
  have "billingIdle s"
    using assms
  proof induction
    case (mounted t u)
    then show ?case by (simp add: billingIdle_def mountBilling_def)
  next
    case (plans s w currency s' w')
    then show ?case using billing_loads_idle(4) [of currency s w] by simp
  next
    case (fresh s w t u)
    then show ?case by (simp add: billingIdle_def)
  next
    case (used s w price b v e s' w')
    then show ?case using billing_events_idle [OF used.IH, of ident e w] by simp
  qed
  then show ?thesis
    by (auto simp: billingIdle_def billingShown_def Let_def planDialog_def confirmEnabled_def leaveEnabled_def
        ConfirmActionDialog_def planButton_def paymentRecovery_def)
qed

theorem billing_dialog_usable_witness:
  "billingOffer (billingShown (\<lambda>_. []) sampleTexts ''t1'' (mountBilling noData noData)) AskPlan"
proof -
  have "billing_reaches (\<lambda>_ _. True) ''t1'' freshBrowser (mountBilling noData noData) freshBrowser"
    by (rule billing_reaches.mounted) simp
  from billing_dialog_usable [OF this, of "\<lambda>_. []" sampleTexts] show ?thesis
    by (simp add: Let_def mountBilling_def del: billingOffer.simps)
qed

end
