(* ===== verification/Onboarding_Page.thy ===== *)
theory Onboarding_Page
  imports Onboarding_Flow Subscription
begin

section \<open>Onboarding: the page\<close>

text \<open>
  The state and the handlers of \<^verbatim>\<open>saas-ui/app/(onboarding)/onboarding/page.tsx\<close>: restoring and
  storing the form, checking the subdomain, submitting, paying, retrying, and the polling of
  the tenant's status, whose timers, answers and visibility changes interleave and are
  modelled as a transition system.
\<close>

subsection \<open>The state of the page\<close>

definition ONBOARDING_STATE_KEY :: string where
  "ONBOARDING_STATE_KEY = ''erp-saas:onboarding-state:v1''"

record onboarding_page =
  pg_step :: OnboardingStep
  pg_subdomain :: string
  pg_companyName :: string
  pg_plan :: string
  pg_chosenApp :: string
  pg_tenant :: "TenantRecord option"
  pg_checkoutUrl :: "string option"
  pg_progress :: int
  pg_busy :: bool
  pg_error :: "string option"
  pg_notice :: "string option"
  pg_availability :: "SubdomainAvailability option"
  pg_checking :: bool
  pg_restored :: bool
  pg_user :: "UserProfile option"
  pg_resendBusy :: bool
  pg_verificationNotice :: "string option"
  pg_readiness :: "(bool \<times> string) option"
  pg_readinessChecking :: bool
  pg_renewBusy :: bool
  pg_renewNotice :: "string option"
  pg_renewError :: "string option"
  pg_longWait :: "string option"
  pg_retryBusy :: bool
  pg_retryError :: "string option"
  pg_jobId :: "string option"
  pg_job :: "Job option"
  pg_catalog :: "PlanCatalogItem list"

definition initialPage :: onboarding_page where
  "initialPage = \<lparr>pg_step = Details, pg_subdomain = [], pg_companyName = [], pg_plan = ''starter'',
     pg_chosenApp = ''erpnext'', pg_tenant = None, pg_checkoutUrl = None, pg_progress = 0, pg_busy = False,
     pg_error = None, pg_notice = None, pg_availability = None, pg_checking = False, pg_restored = False,
     pg_user = None, pg_resendBusy = False, pg_verificationNotice = None, pg_readiness = None,
     pg_readinessChecking = False, pg_renewBusy = False, pg_renewNotice = None, pg_renewError = None,
     pg_longWait = None, pg_retryBusy = False, pg_retryError = None, pg_jobId = None, pg_job = None,
     pg_catalog = []\<rparr>"

subsection \<open>Derived values\<close>

definition cleanSubdomain :: "onboarding_page \<Rightarrow> string" where
  "cleanSubdomain pg = sanitizeSubdomain (pg_subdomain pg)"

definition previewDomain :: "onboarding_page \<Rightarrow> string" where
  "previewDomain pg = orElse (Some (cleanSubdomain pg)) ''your-company'' @ ''.erp.your-domain.com''"

definition planOptions :: "onboarding_page \<Rightarrow> PlanOption list" where
  "planOptions pg = mapPlanCatalogToOptions (pg_catalog pg)"

definition selectedPlan :: "onboarding_page \<Rightarrow> PlanCatalogItem option" where
  "selectedPlan pg = find (\<lambda>item. pc_slug item = toLowerCase (pg_plan pg)) (pg_catalog pg)"

definition businessAppOptions :: "onboarding_page \<Rightarrow> BusinessAppOption list" where
  "businessAppOptions pg =
     mapSelectableEntitlementsToBusinessApps
       (case selectedPlan pg of None \<Rightarrow> [] | Some p \<Rightarrow> pc_selectableEntitlements p) BUSINESS_APP_OPTIONS"

definition canUseSubdomain :: "onboarding_page \<Rightarrow> bool" where
  "canUseSubdomain pg \<longleftrightarrow> length (cleanSubdomain pg) \<ge> 3 \<and>
     (case pg_availability pg of None \<Rightarrow> False | Some a \<Rightarrow> sa_available a)"

definition emailVerificationRequired :: "onboarding_page \<Rightarrow> bool" where
  "emailVerificationRequired pg \<longleftrightarrow> (case pg_user pg of None \<Rightarrow> False | Some u \<Rightarrow> \<not> usr_email_verified u)"

definition provisioningProgressState :: "onboarding_page \<Rightarrow> string" where
  "provisioningProgressState pg =
     progressStateLabel (Some (case pg_tenant pg of None \<Rightarrow> ''pending'' | Some t \<Rightarrow> tr_status t))
       (if truthyStr (pg_jobId pg) then map_option jb_logs (pg_job pg) else None)"

definition submitDisabled :: "onboarding_page \<Rightarrow> bool" where
  "submitDisabled pg \<longleftrightarrow>
     pg_busy pg \<or> \<not> canUseSubdomain pg \<or> pg_checking pg \<or> emailVerificationRequired pg"

definition tenantId :: "onboarding_page \<Rightarrow> string option" where
  "tenantId pg = Option.bind (pg_tenant pg) (\<lambda>t. orNull (tr_id t))"

subsection \<open>Effects\<close>

definition planEffect :: "onboarding_page \<Rightarrow> onboarding_page" where
  "planEffect pg =
     (if toLowerCase (pg_plan pg) \<noteq> ''business'' then pg\<lparr>pg_chosenApp := ''erpnext''\<rparr> else pg)"

definition appEffect :: "onboarding_page \<Rightarrow> onboarding_page" where
  "appEffect pg =
     (if toLowerCase (pg_plan pg) \<noteq> ''business'' then pg
      else if businessAppOptions pg = [] then pg
      else if pg_chosenApp pg \<in> ba_id ` set (businessAppOptions pg) then pg
      else pg\<lparr>pg_chosenApp := ba_id (hd (businessAppOptions pg))\<rparr>)"

definition clearPersistedState :: "world \<Rightarrow> world" where
  "clearPersistedState w = (if \<not> hasWindow w then w else storageRemove ONBOARDING_STATE_KEY w)"

definition fillForm :: "PersistedOnboardingState \<Rightarrow> onboarding_page \<Rightarrow> onboarding_page" where
  "fillForm parsed pg = pg\<lparr>
     pg_step := po_step parsed,
     pg_subdomain := po_subdomain parsed,
     pg_companyName := po_companyName parsed,
     pg_plan := orElse (Some (po_plan parsed)) ''starter'',
     pg_chosenApp := orElse (Some (po_chosenApp parsed)) ''erpnext'',
     pg_checkoutUrl := Option.bind (po_checkoutUrl parsed) orNull,
     pg_jobId := Option.bind (po_jobId parsed) orNull,
     pg_job := None\<rparr>"

definition hydrate :: "onboarding_page \<Rightarrow> world \<Rightarrow> onboarding_page \<times> world" where
  "hydrate pg w =
     (if \<not> hasWindow w then (pg, w)
      else
        (let raw = localStorage w ONBOARDING_STATE_KEY in
         if \<not> truthyStr raw then (pg\<lparr>pg_restored := True\<rparr>, w)
         else
           (case parsePersistedOnboardingState raw of
              None \<Rightarrow> (pg\<lparr>pg_restored := True\<rparr>, clearPersistedState w)
            | Some parsed \<Rightarrow>
                (let pg1 = fillForm parsed pg in
                 if \<not> truthyStr (po_tenantId parsed) then (pg1\<lparr>pg_restored := True\<rparr>, w)
                 else
                   (case restorePersistedTenant (the (po_tenantId parsed))
                           (Option.bind (po_checkoutUrl parsed) orNull) w of
                      (Inr restoredState, w1) \<Rightarrow>
                        (pg1\<lparr>pg_tenant := Some (rs_tenant restoredState),
                             pg_progress := rs_progress restoredState,
                             pg_step := rs_step restoredState, pg_restored := True\<rparr>, w1)
                    | (Inl err, w1) \<Rightarrow>
                        (let message = errorText err ''Unable to restore onboarding state'' in
                         (pg1\<lparr>pg_tenant := None, pg_step := Details, pg_jobId := None, pg_job := None,
                              pg_error := Some (if includesStr (toLowerCase message) ''404''
                                then ''Saved onboarding session was not found. Please start again.''
                                else message),
                              pg_restored := True\<rparr>, clearPersistedState w1)))))))"

definition persistedOf :: "onboarding_page \<Rightarrow> PersistedOnboardingState" where
  "persistedOf pg = \<lparr>po_step = pg_step pg, po_subdomain = pg_subdomain pg,
     po_companyName = pg_companyName pg, po_plan = pg_plan pg, po_chosenApp = pg_chosenApp pg,
     po_tenantId = map_option tr_id (pg_tenant pg), po_checkoutUrl = pg_checkoutUrl pg,
     po_jobId = pg_jobId pg\<rparr>"

definition persist :: "onboarding_page \<Rightarrow> world \<Rightarrow> world" where
  "persist pg w =
     (if \<not> pg_restored pg \<or> \<not> hasWindow w then w
      else if pg_step pg = Success then clearPersistedState w
      else storageSet ONBOARDING_STATE_KEY
             (JSON_stringify (json_PersistedOnboardingState (persistedOf pg))) w)"

text \<open>The check of the subdomain: the guard of the effect, and what it does when its timer fires.\<close>

definition subdomainCheckDue :: "onboarding_page \<Rightarrow> bool" where
  "subdomainCheckDue pg \<longleftrightarrow> pg_restored pg \<and> tenantId pg = None \<and> pg_step pg \<in> {Details, Plan}"

definition subdomainEffect :: "onboarding_page \<Rightarrow> onboarding_page" where
  "subdomainEffect pg =
     (if \<not> subdomainCheckDue pg then pg
      else if cleanSubdomain pg = [] then pg\<lparr>pg_availability := None, pg_checking := False\<rparr>
      else pg\<lparr>pg_checking := True\<rparr>)"

definition subdomainTimer :: "string \<Rightarrow> bool \<Rightarrow> onboarding_page \<Rightarrow> world \<Rightarrow> onboarding_page \<times> world" where
  "subdomainTimer clean stillActive pg w =
     (case validateSubdomain clean w of
        (Inr result, w1) \<Rightarrow>
          (if \<not> stillActive then (pg, w1)
           else (pg\<lparr>pg_availability := Some result, pg_checking := False\<rparr>, w1))
      | (Inl _, w1) \<Rightarrow> (pg, w1))"

definition welcomeEffect :: "query \<Rightarrow> onboarding_page \<Rightarrow> onboarding_page" where
  "welcomeEffect searchParams pg =
     (if queryGet ''welcome'' searchParams = Some ''1''
      then pg\<lparr>pg_notice := Some (''Welcome! Let'' @ [CHR 0xE2, CHR 0x80, CHR 0x99] @ ''s configure your first workspace.'')\<rparr>
      else pg)"

definition loadUserEffect :: "onboarding_page \<Rightarrow> world \<Rightarrow> onboarding_page \<times> world" where
  "loadUserEffect pg w =
     (case loadCurrentUserProfile w of
        (Inr user, w1) \<Rightarrow> (pg\<lparr>pg_user := Some user\<rparr>, w1)
      | (Inl _, w1) \<Rightarrow> (pg, w1))"

definition catalogEffect :: "(int \<Rightarrow> string) \<Rightarrow> onboarding_page \<Rightarrow> world \<Rightarrow> onboarding_page \<times> world" where
  "catalogEffect currency pg w =
     (case loadPublicPlanCatalog currency w of
        (Inr catalog, w1) \<Rightarrow> (pg\<lparr>pg_catalog := catalog\<rparr>, w1)
      | (Inl _, w1) \<Rightarrow> (pg, w1))"

definition readinessEffect :: "onboarding_page \<Rightarrow> world \<Rightarrow> onboarding_page \<times> world" where
  "readinessEffect pg w =
     (if pg_step pg \<noteq> Success then (pg, w)
      else (case tenantId pg of
        None \<Rightarrow> (pg, w)
      | Some tid \<Rightarrow>
          (case loadWorkspaceReadiness tid w of
             (Inr (Supported d), w1) \<Rightarrow>
               (pg\<lparr>pg_readiness := Some (rd_ready d, rd_message d), pg_readinessChecking := False\<rparr>, w1)
           | (Inr Unsupported, w1) \<Rightarrow>
               (pg\<lparr>pg_readiness := Some (True, ''Workspace status check not available.''),
                    pg_readinessChecking := False\<rparr>, w1)
           | (Inl err, w1) \<Rightarrow>
               (pg\<lparr>pg_readiness := Some (False, errorText err ''Readiness check failed.''),
                    pg_readinessChecking := False\<rparr>, w1))))"

subsection \<open>Handlers\<close>

definition continueToPlan :: "onboarding_page \<Rightarrow> onboarding_page" where
  "continueToPlan pg =
     (if \<not> canUseSubdomain pg \<or> pg_checking pg then pg else pg\<lparr>pg_error := None, pg_step := Plan\<rparr>)"

definition submitTenant :: "onboarding_page \<Rightarrow> world \<Rightarrow> onboarding_page \<times> world" where
  "submitTenant pg w =
     (let available = (case pg_availability pg of None \<Rightarrow> False | Some a \<Rightarrow> sa_available a) in
      if emailVerificationRequired pg then
        (pg\<lparr>pg_verificationNotice := Some ''Please verify your email before creating a workspace.''\<rparr>, w)
      else if length (cleanSubdomain pg) < 3 then
        (pg\<lparr>pg_error := Some ''Please choose a valid subdomain (at least 3 characters).''\<rparr>, w)
      else if \<not> available then
        (pg\<lparr>pg_error := Some (orElse (map_option sa_message (pg_availability pg))
            ''Please choose an available subdomain before continuing.'')\<rparr>, w)
      else if trim (pg_companyName pg) = [] then (pg\<lparr>pg_error := Some ''Company name is required.''\<rparr>, w)
      else
        (let pg1 = pg\<lparr>pg_busy := True, pg_error := None\<rparr> in
         (case submitTenantOnboarding \<lparr>si_subdomain = cleanSubdomain pg, si_companyName = pg_companyName pg,
                 si_plan = pg_plan pg, si_chosenApp = pg_chosenApp pg\<rparr> w of
            (Inr onboardingState, w1) \<Rightarrow>
              (pg1\<lparr>pg_tenant := Some (sr_tenant onboardingState),
                   pg_checkoutUrl := sr_checkoutUrl onboardingState,
                   pg_progress := sr_progress onboardingState,
                   pg_jobId := sr_jobId onboardingState, pg_job := None,
                   pg_step := sr_step onboardingState, pg_busy := False\<rparr>, w1)
          | (Inl err, w1) \<Rightarrow>
              (let message = errorText err ''Unable to create tenant''; low = toLowerCase message in
               (pg1\<lparr>pg_error := Some message,
                    pg_verificationNotice :=
                      (if includesStr low ''verify'' \<and> includesStr low ''email''
                       then Some ''Please verify your email first, then retry tenant creation.''
                       else pg_verificationNotice pg1),
                    pg_busy := False\<rparr>, w1)))))"

definition resendVerification :: "onboarding_page \<Rightarrow> world \<Rightarrow> onboarding_page \<times> world" where
  "resendVerification pg w =
     (case sendVerificationEmailAgain w of
        (Inr result, w1) \<Rightarrow>
          (pg\<lparr>pg_verificationNotice :=
             Some (orElse (Some (mr_message result)) ''Verification email sent. Check your inbox.''),
             pg_resendBusy := False\<rparr>, w1)
      | (Inl err, w1) \<Rightarrow>
          (pg\<lparr>pg_verificationNotice := Some (errorText err ''Unable to resend verification email.''),
              pg_resendBusy := False\<rparr>, w1))"

text \<open>Opening the checkout in a new window is the event \<^verbatim>\<open>open:\<close> with its address.\<close>

definition launchCheckout :: "onboarding_page \<Rightarrow> world \<Rightarrow> onboarding_page \<times> world" where
  "launchCheckout pg w =
     (pg\<lparr>pg_step := Waiting, pg_progress := max (pg_progress pg) 35\<rparr>,
      if truthyStr (pg_checkoutUrl pg) then dispatch (''open:'' @ the (pg_checkoutUrl pg)) w else w)"

definition renewCheckout :: "onboarding_page \<Rightarrow> world \<Rightarrow> onboarding_page \<times> world" where
  "renewCheckout pg w =
     (case tenantId pg of
        None \<Rightarrow> (pg, w)
      | Some tid \<Rightarrow>
          (let pg1 = pg\<lparr>pg_renewBusy := True, pg_renewNotice := None, pg_renewError := None\<rparr> in
           case renewCheckoutLink tid w of
             (Inr Unsupported, w1) \<Rightarrow>
               (pg1\<lparr>pg_renewError := Some (''Renewing the payment link isn'' @ [CHR 0xE2, CHR 0x80, CHR 0x99] @
                      ''t available right now. Please contact support.''), pg_renewBusy := False\<rparr>, w1)
           | (Inr (Supported d), w1) \<Rightarrow>
               (pg1\<lparr>pg_tenant := Some (recordOfTenant (cr_tenant d)), pg_checkoutUrl := cr_checkout_url d,
                    pg_renewNotice := Some ''A new checkout link is ready.'', pg_renewBusy := False\<rparr>, w1)
           | (Inl err, w1) \<Rightarrow>
               (pg1\<lparr>pg_renewError := Some (errorText err ''Unable to renew checkout link.''),
                    pg_renewBusy := False\<rparr>, w1)))"

definition retryTenant :: "onboarding_page \<Rightarrow> world \<Rightarrow> onboarding_page \<times> world" where
  "retryTenant pg w =
     (case tenantId pg of
        None \<Rightarrow> (pg, w)
      | Some tid \<Rightarrow>
          (let pg1 = pg\<lparr>pg_retryBusy := True, pg_retryError := None, pg_error := None\<rparr> in
           case retryProvisioning tid w of
             (Inr Unsupported, w1) \<Rightarrow>
               (pg1\<lparr>pg_retryError := Some (''Retrying provisioning isn'' @ [CHR 0xE2, CHR 0x80, CHR 0x99] @
                      ''t available right now. Please contact support.''), pg_retryBusy := False\<rparr>, w1)
           | (Inr (Supported job), w1) \<Rightarrow>
               (pg1\<lparr>pg_jobId := Some (jb_id job), pg_job := Some job, pg_step := Waiting, pg_progress := 35,
                    pg_longWait := None, pg_retryBusy := False\<rparr>, w1)
           | (Inl err, w1) \<Rightarrow>
               (pg1\<lparr>pg_retryError := Some (errorText err ''Retry failed.''), pg_retryBusy := False\<rparr>, w1)))"

definition handleProvisioningJobUpdate :: "Job \<Rightarrow> onboarding_page \<Rightarrow> onboarding_page" where
  "handleProvisioningJobUpdate job pg = pg\<lparr>pg_job := Some job\<rparr>"

definition erpUrl :: "onboarding_page \<Rightarrow> string" where
  "erpUrl pg =
     ''https://'' @ (case Option.bind (pg_tenant pg) (\<lambda>t. orNull (tr_domain t)) of
        Some d \<Rightarrow> d | None \<Rightarrow> previewDomain pg)"

subsection \<open>Facts about the form\<close>

text \<open>
  C11: A tenant is created only from a checked form: when the submission puts anything on the
  wire, the email is not known to be unverified, the cleaned subdomain has at least three
  characters and was reported available, and the company has a name; and in every case the page
  is left not busy, when it was not busy.
\<close>

theorem submitTenant_guarded:
  assumes "\<not> pg_busy pg" and "submitTenant pg w = (pg', w')"
  shows "\<not> pg_busy pg' \<and> (w' \<noteq> w \<longrightarrow> \<not> emailVerificationRequired pg \<and> canUseSubdomain pg \<and>
    trim (pg_companyName pg) \<noteq> [])"
  using assms
  by (auto simp: submitTenant_def Let_def canUseSubdomain_def
      split: if_splits prod.splits sum.splits option.splits)

definition readyPage :: onboarding_page where
  "readyPage = initialPage\<lparr>pg_subdomain := ''acme'', pg_companyName := ''Acme'', pg_step := Plan, pg_restored := True,
     pg_availability := Some \<lparr>sa_subdomain = ''acme'', sa_domain = None, sa_available = True, sa_reason = None,
       sa_message = ''ok''\<rparr>\<rparr>"

lemma ready_sends: "length (sent (snd (submitTenant readyPage submitWorld))) = 1"
  by code_simp

theorem submitTenant_guarded_witness:
  "\<not> pg_busy (fst (submitTenant readyPage submitWorld)) \<and> canUseSubdomain readyPage"
proof -
  have "snd (submitTenant readyPage submitWorld) \<noteq> submitWorld"
    using ready_sends by (auto simp: submitWorld_def)
  moreover have "\<not> pg_busy readyPage" by (simp add: readyPage_def initialPage_def)
  ultimately show ?thesis
    using submitTenant_guarded [of readyPage submitWorld] by (metis prod.collapse)
qed

text \<open>
  After the two effects on the plan the chosen app fits the plan: the core app on every
  other plan, one of the plan's selectable apps on the business plan; running them again
  changes nothing.
\<close>

theorem chosen_app_fits_plan:
  "(toLowerCase (pg_plan pg) \<noteq> ''business'' \<longrightarrow>
      pg_chosenApp (appEffect (planEffect pg)) = ''erpnext'') \<and>
   (toLowerCase (pg_plan pg) = ''business'' \<longrightarrow>
      pg_chosenApp (appEffect (planEffect pg)) \<in> ba_id ` set (businessAppOptions pg)) \<and>
   appEffect (planEffect (appEffect (planEffect pg))) = appEffect (planEffect pg)"
proof -
  have opt: "businessAppOptions (pg\<lparr>pg_chosenApp := a\<rparr>) = businessAppOptions pg" for a
    by (simp add: businessAppOptions_def selectedPlan_def)
  have "map ba_id (businessAppOptions pg) \<noteq> []"
    by (auto simp: businessAppOptions_def business_app_ids BUSINESS_APP_OPTIONS_def)
  then have ne: "businessAppOptions pg \<noteq> []" by auto
  then show ?thesis
    by (auto simp: planEffect_def appEffect_def opt)
qed

theorem chosen_app_fits_plan_witness:
  "pg_chosenApp (appEffect (planEffect (initialPage\<lparr>pg_plan := ''Business'', pg_chosenApp := ''lms''\<rparr>)))
     \<in> ba_id ` set (businessAppOptions (initialPage\<lparr>pg_plan := ''Business'', pg_chosenApp := ''lms''\<rparr>))"
proof -
  have "toLowerCase (pg_plan (initialPage\<lparr>pg_plan := ''Business'', pg_chosenApp := ''lms''\<rparr>)) = ''business''"
    by (simp add: js_defs)
  then show ?thesis using chosen_app_fits_plan by blast
qed



end
