(* ===== verification/Onboarding_Polling.thy ===== *)
theory Onboarding_Polling
  imports Onboarding_Page
begin

section \<open>Onboarding: the polling of the tenant's status\<close>

text \<open>
  The polling effect of \<^verbatim>\<open>saas-ui/app/(onboarding)/onboarding/page.tsx\<close> (lines 266 to 404): a
  timer asks for the status, backs off and asks again until the tenant reaches a final status,
  an error says so, or half an hour has passed; hiding the document clears the timer, showing
  it asks at once. Timers that fire, answers that arrive and changes of visibility interleave
  freely: they are the events of a transition system.
\<close>

subsection \<open>The state\<close>

text \<open>A pending timer is its handle and the time it is due; \<open>pl_stored\<close> says whether the stored
  form is still there, \<open>pl_pushed\<close> where the router was sent.\<close>

record poll =
  pl_active :: bool
  pl_hidden :: bool
  pl_delay :: int
  pl_start :: int
  pl_clock :: int
  pl_timers :: "(nat \<times> int) list"
  pl_timerRef :: "nat option"
  pl_nextTimer :: nat
  pl_inflightTimer :: nat
  pl_inflightVisible :: nat
  pl_page :: onboarding_page
  pl_stored :: bool
  pl_pushed :: "string list"

datatype poll_outcome = Loaded TenantStatusReport | LoadFailed string

definition clearTimer :: "poll \<Rightarrow> poll" where
  "clearTimer s =
     (case pl_timerRef s of
        None \<Rightarrow> s
      | Some i \<Rightarrow> s\<lparr>pl_timers := filter (\<lambda>t. fst t \<noteq> i) (pl_timers s), pl_timerRef := None\<rparr>)"

definition stopPolling :: "poll \<Rightarrow> poll" where
  "stopPolling s = clearTimer (s\<lparr>pl_active := False\<rparr>)"

definition schedulePoll :: "poll \<Rightarrow> poll" where
  "schedulePoll s =
     (if \<not> pl_active s \<or> pl_hidden s then s
      else s\<lparr>pl_timers := pl_timers s @ [(pl_nextTimer s, pl_clock s + pl_delay s)],
             pl_timerRef := Some (pl_nextTimer s), pl_nextTimer := Suc (pl_nextTimer s)\<rparr>)"

text \<open>The effect is run for a page that waits for a tenant.\<close>

definition startPolling :: "int \<Rightarrow> bool \<Rightarrow> onboarding_page \<Rightarrow> poll" where
  "startPolling t hid pg =
     schedulePoll \<lparr>pl_active = True, pl_hidden = hid, pl_delay = 5000, pl_start = t, pl_clock = t,
       pl_timers = [], pl_timerRef = None, pl_nextTimer = 1, pl_inflightTimer = 0, pl_inflightVisible = 0,
       pl_page = pg\<lparr>pg_longWait := None\<rparr>, pl_stored = True, pl_pushed = []\<rparr>"

definition pollKey :: "onboarding_page \<Rightarrow> OnboardingStep \<times> string option" where
  "pollKey pg = (pg_step pg, tenantId pg)"

definition pollingWanted :: "onboarding_page \<Rightarrow> bool" where
  "pollingWanted pg \<longleftrightarrow> pg_step pg = Waiting \<and> tenantId pg \<noteq> None"

definition onPage :: "(onboarding_page \<Rightarrow> onboarding_page) \<Rightarrow> poll \<Rightarrow> poll" where
  "onPage f s = s\<lparr>pl_page := f (pl_page s)\<rparr>"

definition showReport :: "TenantStatusReport \<Rightarrow> onboarding_page \<Rightarrow> onboarding_page" where
  "showReport rep pg = pg\<lparr>pg_tenant := Some (st_tenant rep), pg_progress := st_progress rep\<rparr>"

definition finishPolling :: "poll \<Rightarrow> poll" where
  "finishPolling s =
     stopPolling ((onPage (\<lambda>pg. pg\<lparr>pg_step := Success, pg_error := None\<rparr>) s)\<lparr>pl_stored := False\<rparr>)"

definition failedMessage :: string where
  "failedMessage = ''Provisioning failed. You can retry or contact support.''"

definition notFoundMessage :: string where
  "notFoundMessage = ''Saved onboarding session was not found. Please start again.''"

definition LONG_WAIT :: int where "LONG_WAIT = 15 * 60 * 1000"

definition GIVE_UP :: int where "GIVE_UP = 30 * 60 * 1000"

definition longWaitMessage :: string where
  "longWaitMessage = ''Provisioning is taking longer than expected. We are still working'' @
     [CHR 0xE2, CHR 0x80, CHR 0x94] @ ''contact support if this persists.''"

definition timedOutMessage :: string where
  "timedOutMessage = ''Provisioning timed out. Please contact support to continue.''"

text \<open>The end of the timer's callback: the elapsed time, the next delay, the next timer.\<close>

definition backOff :: "int \<Rightarrow> poll \<Rightarrow> poll" where
  "backOff jitter s =
     (let elapsed = pl_clock s - pl_start s;
          s1 = (if elapsed > LONG_WAIT then onPage (\<lambda>pg. pg\<lparr>pg_longWait := Some longWaitMessage\<rparr>) s else s) in
      if elapsed > GIVE_UP then stopPolling (onPage (\<lambda>pg. pg\<lparr>pg_longWait := Some timedOutMessage\<rparr>) s1)
      else schedulePoll (s1\<lparr>pl_delay := min (pl_delay s1 * 2) 30000 + jitter\<rparr>))"

definition onTimerAnswer :: "int \<Rightarrow> poll_outcome \<Rightarrow> poll \<Rightarrow> poll" where
  "onTimerAnswer jitter out s =
     (if \<not> pl_active s then s
      else (case out of
        Loaded latest \<Rightarrow>
          (let s1 = onPage (showReport latest) s; nextStatus = st_status latest in
           if nextStatus = ''active'' then finishPolling s1
           else if nextStatus = ''failed'' then
             stopPolling (onPage (\<lambda>pg. pg\<lparr>pg_error := Some failedMessage\<rparr>) s1)
           else if nextStatus \<in> set TERMINAL_TENANT_STATUSES then stopPolling s1
           else backOff jitter s1)
      | LoadFailed message \<Rightarrow>
          (if includesStr (toLowerCase message) ''404'' then
             stopPolling ((onPage (\<lambda>pg. pg\<lparr>pg_tenant := None, pg_step := Details, pg_jobId := None,
               pg_job := None, pg_error := Some notFoundMessage\<rparr>) s)\<lparr>pl_stored := False\<rparr>)
           else if includesStr message ''401'' \<or> includesStr (toLowerCase message) ''not authenticated'' then
             stopPolling (s\<lparr>pl_pushed := pl_pushed s @ [''/login?sessionExpired=1&next=/onboarding'']\<rparr>)
           else backOff jitter (onPage (\<lambda>pg. pg\<lparr>pg_error := Some message\<rparr>) s))))"

definition onVisibleAnswer :: "poll_outcome \<Rightarrow> poll \<Rightarrow> poll" where
  "onVisibleAnswer out s =
     (if \<not> pl_active s then s
      else (case out of
        Loaded latest \<Rightarrow>
          (let s1 = onPage (showReport latest) s; nextStatus = st_status latest in
           if nextStatus = ''active'' then finishPolling s1
           else if nextStatus \<in> set TERMINAL_TENANT_STATUSES then
             stopPolling (if nextStatus = ''failed''
               then onPage (\<lambda>pg. pg\<lparr>pg_error := Some failedMessage\<rparr>) s1 else s1)
           else schedulePoll s1)
      | LoadFailed _ \<Rightarrow> schedulePoll s))"

definition onVisibilityChange :: "bool \<Rightarrow> poll \<Rightarrow> poll" where
  "onVisibilityChange hid s =
     (let s1 = s\<lparr>pl_hidden := hid\<rparr> in
      if hid then clearTimer s1
      else s1\<lparr>pl_delay := 5000, pl_inflightVisible := Suc (pl_inflightVisible s1)\<rparr>)"

subsection \<open>The transition system\<close>

datatype poll_event =
    TimerFires nat
  | TimerAnswer nat int poll_outcome
  | VisibilityChange bool
  | VisibleAnswer nat poll_outcome
  | CleanUp

text \<open>An answer arrives some milliseconds later; the jitter is below half a second. Visibility
  changes reach the page while its listener is registered, that is while polling is mounted,
  which is always the case here up to the clean-up of the effect.\<close>

inductive polls :: "poll \<Rightarrow> poll_event \<Rightarrow> poll \<Rightarrow> bool" where
  fires: "(i, due) \<in> set (pl_timers s) \<Longrightarrow>
    polls s (TimerFires i)
      (s\<lparr>pl_clock := max (pl_clock s) due, pl_timers := filter (\<lambda>t. fst t \<noteq> i) (pl_timers s),
         pl_inflightTimer := Suc (pl_inflightTimer s)\<rparr>)"
| timer_answer: "pl_inflightTimer s = Suc n \<Longrightarrow> 0 \<le> jitter \<Longrightarrow> jitter < 500 \<Longrightarrow>
    polls s (TimerAnswer d jitter out)
      (onTimerAnswer jitter out (s\<lparr>pl_inflightTimer := n, pl_clock := pl_clock s + int d\<rparr>))"
| visibility: "hid \<noteq> pl_hidden s \<Longrightarrow> polls s (VisibilityChange hid) (onVisibilityChange hid s)"
| visible_answer: "pl_inflightVisible s = Suc n \<Longrightarrow>
    polls s (VisibleAnswer d out)
      (onVisibleAnswer out (s\<lparr>pl_inflightVisible := n, pl_clock := pl_clock s + int d\<rparr>))"
| clean_up: "polls s CleanUp (stopPolling s)"

inductive poll_run :: "poll \<Rightarrow> poll_event list \<Rightarrow> poll \<Rightarrow> bool" where
  run_nil: "poll_run s [] s"
| run_cons: "polls s e s' \<Longrightarrow> poll_run s' es s'' \<Longrightarrow> poll_run s (e # es) s''"

inductive_cases pollsE: "polls s e s'"
inductive_simps poll_run_simps: "poll_run s [] s'" "poll_run s (e # es) s'"
inductive_simps polls_simps:
  "polls s (TimerFires i) s'" "polls s (TimerAnswer d j out) s'" "polls s (VisibilityChange h) s'"
  "polls s (VisibleAnswer d out) s'" "polls s CleanUp s'"

lemma poll_run_append: "poll_run s es s' \<Longrightarrow> poll_run s' fs s'' \<Longrightarrow> poll_run s (es @ fs) s''"
  by (induction rule: poll_run.induct) (auto intro: poll_run.intros)

lemma poll_run_invariant:
  assumes "poll_run s es s'" and "I s" and "\<And>s e s'. I s \<Longrightarrow> polls s e s' \<Longrightarrow> I s'"
  shows "I s'"
  using assms by (induction rule: poll_run.induct) blast+

subsection \<open>The invariant\<close>

text \<open>
  The delay stays between five seconds and half a minute with its jitter; handles are fresh; the
  referenced timer belongs to this page; a stopped page references no timer; and no timer is due
  less than five seconds after the start.
\<close>

definition pollInv :: "poll \<Rightarrow> bool" where
  "pollInv s \<longleftrightarrow> 5000 \<le> pl_delay s \<and> pl_delay s < 30500 \<and>
     (\<forall>(i, due) \<in> set (pl_timers s). i < pl_nextTimer s \<and> pl_start s + 5000 \<le> due) \<and>
     (\<not> pl_active s \<longrightarrow> pl_timerRef s = None) \<and> pl_start s \<le> pl_clock s"

lemma onPage_simps [simp]:
  "pl_active (onPage f s) = pl_active s" "pl_hidden (onPage f s) = pl_hidden s"
  "pl_delay (onPage f s) = pl_delay s" "pl_start (onPage f s) = pl_start s" "pl_clock (onPage f s) = pl_clock s"
  "pl_timers (onPage f s) = pl_timers s" "pl_timerRef (onPage f s) = pl_timerRef s"
  "pl_nextTimer (onPage f s) = pl_nextTimer s" "pl_page (onPage f s) = f (pl_page s)"
  "pl_stored (onPage f s) = pl_stored s" "pl_pushed (onPage f s) = pl_pushed s"
  "pl_inflightTimer (onPage f s) = pl_inflightTimer s" "pl_inflightVisible (onPage f s) = pl_inflightVisible s"
  by (simp_all add: onPage_def)

lemma pollInv_frame:
  "pollInv (onPage f s) = pollInv s" "pollInv (s\<lparr>pl_stored := b\<rparr>) = pollInv s"
  "pollInv (s\<lparr>pl_pushed := p\<rparr>) = pollInv s" "pollInv (s\<lparr>pl_hidden := h\<rparr>) = pollInv s"
  "pollInv (s\<lparr>pl_inflightTimer := n\<rparr>) = pollInv s" "pollInv (s\<lparr>pl_inflightVisible := m\<rparr>) = pollInv s"
  by (simp_all add: pollInv_def)

lemma pollInv_clearTimer [simp]: "pollInv s \<Longrightarrow> pollInv (clearTimer s)"
  by (auto simp: pollInv_def clearTimer_def split: option.split)

lemma pollInv_stopPolling [simp]: "pollInv s \<Longrightarrow> pollInv (stopPolling s)"
  by (auto simp: pollInv_def stopPolling_def clearTimer_def split: option.split)

lemma pollInv_schedulePoll [simp]: "pollInv s \<Longrightarrow> pollInv (schedulePoll s)"
  by (auto simp: pollInv_def schedulePoll_def)

lemma pollInv_delay: "pollInv s \<Longrightarrow> 5000 \<le> d \<Longrightarrow> d < 30500 \<Longrightarrow> pollInv (s\<lparr>pl_delay := d\<rparr>)"
  by (auto simp: pollInv_def)

lemma pollInv_clock: "pollInv s \<Longrightarrow> pl_clock s \<le> t \<Longrightarrow> pollInv (s\<lparr>pl_clock := t\<rparr>)"
  by (auto simp: pollInv_def)

lemma pollInv_backOff: "pollInv s \<Longrightarrow> 0 \<le> j \<Longrightarrow> j < 500 \<Longrightarrow> pollInv (backOff j s)"
  by (auto simp: backOff_def Let_def pollInv_frame intro!: pollInv_schedulePoll pollInv_stopPolling pollInv_delay)
     (auto simp: pollInv_def)

lemma pollInv_onTimerAnswer:
  "pollInv s \<Longrightarrow> 0 \<le> j \<Longrightarrow> j < 500 \<Longrightarrow> pollInv (onTimerAnswer j out s)"
  by (auto simp: onTimerAnswer_def finishPolling_def Let_def pollInv_frame pollInv_backOff split: poll_outcome.split)

lemma pollInv_onVisibleAnswer: "pollInv s \<Longrightarrow> pollInv (onVisibleAnswer out s)"
  by (auto simp: onVisibleAnswer_def finishPolling_def Let_def pollInv_frame split: poll_outcome.split)

lemma pollInv_step: "pollInv s \<Longrightarrow> polls s e s' \<Longrightarrow> pollInv s'"
proof (erule pollsE, goal_cases)
  case 1
  then show ?case by (auto simp: pollInv_def)
next
  case 2
  then show ?case by (auto intro!: pollInv_onTimerAnswer pollInv_clock simp: pollInv_frame)
next
  case 3
  then show ?case
    by (auto simp: onVisibilityChange_def Let_def pollInv_frame intro!: pollInv_clearTimer pollInv_delay)
next
  case 4
  then show ?case by (auto intro!: pollInv_onVisibleAnswer pollInv_clock simp: pollInv_frame)
qed simp

lemma pollInv_start: "pollInv (startPolling t hid pg)"
  by (auto simp: pollInv_def startPolling_def schedulePoll_def)

lemma pollInv_run: "poll_run (startPolling t hid pg) es s \<Longrightarrow> pollInv s"
  by (rule poll_run_invariant [where I = pollInv]) (use pollInv_start pollInv_step in blast)+

lemma poll_frame [simp]:
  "pl_start (clearTimer s) = pl_start s" "pl_start (stopPolling s) = pl_start s" "pl_start (schedulePoll s) = pl_start s"
  "pl_page (clearTimer s) = pl_page s" "pl_page (stopPolling s) = pl_page s" "pl_page (schedulePoll s) = pl_page s"
  by (simp_all add: clearTimer_def stopPolling_def schedulePoll_def split: option.split)

lemma pl_start_step: "polls s e s' \<Longrightarrow> pl_start s' = pl_start s"
  by (erule polls.cases) (auto simp: onTimerAnswer_def onVisibleAnswer_def onVisibilityChange_def finishPolling_def backOff_def
      Let_def split: poll_outcome.split)

text \<open>
  However timers, answers and visibility changes interleave, the next delay is at least five
  seconds and below 30.5 seconds, and no poll is made within five seconds of the start.
\<close>

theorem polling_delay_bounds:
  assumes "poll_run (startPolling t hid pg) es s"
  shows "5000 \<le> pl_delay s \<and> pl_delay s < 30500 \<and>
    (\<forall>(i, due) \<in> set (pl_timers s). t + 5000 \<le> due)"
proof -
  have "pl_start s = t"
    by (rule poll_run_invariant [OF assms, where I = "\<lambda>s. pl_start s = t"])
      (simp_all add: startPolling_def pl_start_step)
  with pollInv_run [OF assms] show ?thesis by (auto simp: pollInv_def)
qed

theorem polling_delay_bounds_witness:
  "5000 \<le> pl_delay (startPolling 0 False initialPage) \<and> pl_delay (startPolling 0 False initialPage) < 30500 \<and>
    pl_timers (startPolling 0 False initialPage) = [(1, 5000)]"
  using polling_delay_bounds [OF run_nil, of 0 False initialPage]
  by (simp add: startPolling_def schedulePoll_def)

subsection \<open>A stopped page is left alone\<close>

lemma onTimerAnswer_inactive: "\<not> pl_active s \<Longrightarrow> onTimerAnswer j out s = s"
  by (simp add: onTimerAnswer_def)

lemma onVisibleAnswer_inactive: "\<not> pl_active s \<Longrightarrow> onVisibleAnswer out s = s"
  by (simp add: onVisibleAnswer_def)

lemma clearTimer_simps [simp]:
  "pl_active (clearTimer s) = pl_active s" "pl_page (clearTimer s) = pl_page s"
  "pl_stored (clearTimer s) = pl_stored s" "pl_pushed (clearTimer s) = pl_pushed s"
  "set (pl_timers (clearTimer s)) \<subseteq> set (pl_timers s)" "pl_start (clearTimer s) = pl_start s"
  "pl_clock (clearTimer s) = pl_clock s"
  by (auto simp: clearTimer_def split: option.split)

lemma stopPolling_simps [simp]:
  "\<not> pl_active (stopPolling s)" "pl_page (stopPolling s) = pl_page s"
  "pl_stored (stopPolling s) = pl_stored s" "pl_pushed (stopPolling s) = pl_pushed s"
  "set (pl_timers (stopPolling s)) \<subseteq> set (pl_timers s)"
  using clearTimer_simps(5) [of "s\<lparr>pl_active := False\<rparr>"] by (simp_all add: stopPolling_def)

definition quietStep :: "poll \<Rightarrow> poll \<Rightarrow> bool" where
  "quietStep s s' \<longleftrightarrow> \<not> pl_active s' \<and> pl_page s' = pl_page s \<and> pl_stored s' = pl_stored s \<and>
     pl_pushed s' = pl_pushed s \<and> set (pl_timers s') \<subseteq> set (pl_timers s)"

lemma inactive_step:
  assumes "\<not> pl_active s" and "polls s e s'"
  shows "quietStep s s'"
  using assms(2) assms(1)
proof cases
  case visibility
  then show ?thesis
    using assms(1) clearTimer_simps(5) [of "s\<lparr>pl_hidden := True\<rparr>"]
    by (auto simp: quietStep_def onVisibilityChange_def Let_def)
next
  case clean_up
  then show ?thesis using stopPolling_simps(5) [of s] by (auto simp: quietStep_def)
qed (use assms(1) in \<open>auto simp: quietStep_def onTimerAnswer_inactive onVisibleAnswer_inactive\<close>)

text \<open>
  Once polling has stopped, the page is left alone: whatever timers still fire, answers
  still arrive or visibility changes, the page, the stored form and the router stay as they
  are, polling does not start again and no new timer is set.
\<close>

theorem stopped_polling_is_quiet:
  assumes "poll_run s es s'" and "\<not> pl_active s"
  shows "\<not> pl_active s' \<and> pl_page s' = pl_page s \<and> pl_stored s' = pl_stored s \<and>
    pl_pushed s' = pl_pushed s \<and> set (pl_timers s') \<subseteq> set (pl_timers s)"
proof -
  have "quietStep s s'"
  proof (rule poll_run_invariant [OF assms(1), where I = "quietStep s"])
    show "quietStep s s" using assms(2) by (simp add: quietStep_def)
    show "quietStep s s2" if "quietStep s s1" "polls s1 e s2" for s1 e s2
      using that inactive_step [of s1 e s2] by (auto simp: quietStep_def)
  qed
  then show ?thesis by (simp add: quietStep_def)
qed

theorem stopped_polling_is_quiet_witness:
  "pl_page (onVisibilityChange True (stopPolling (startPolling 0 False initialPage))) =
    pl_page (startPolling 0 False initialPage)"
proof -
  let ?s = "stopPolling (startPolling 0 False initialPage)"
  have "\<not> pl_hidden ?s" by (simp add: stopPolling_def clearTimer_def startPolling_def schedulePoll_def)
  then have "poll_run ?s [VisibilityChange True] (onVisibilityChange True ?s)"
    by (intro run_cons [OF visibility run_nil]) simp
  from stopped_polling_is_quiet [OF this] show ?thesis by simp
qed

subsection \<open>Polling ends\<close>

text \<open>One round of an undisturbed page: its timer fires and is answered.\<close>

fun pollRound :: "poll \<Rightarrow> nat \<times> int \<times> poll_outcome \<Rightarrow> poll" where
  "pollRound s (d, jitter, out) =
     (case pl_timers s of
        [] \<Rightarrow> s
      | (i, due) # _ \<Rightarrow>
          onTimerAnswer jitter out
            (s\<lparr>pl_clock := max (pl_clock s) due + int d, pl_timers := filter (\<lambda>t. fst t \<noteq> i) (pl_timers s)\<rparr>))"

lemma pollRound_run:
  assumes "pl_timers s = (i, due) # ts" and "0 \<le> j" and "j < 500"
  shows "poll_run s [TimerFires i, TimerAnswer d j out] (pollRound s (d, j, out))"
proof -
  let ?s1 = "s\<lparr>pl_clock := max (pl_clock s) due, pl_timers := filter (\<lambda>t. fst t \<noteq> i) (pl_timers s),
         pl_inflightTimer := Suc (pl_inflightTimer s)\<rparr>"
  have "polls s (TimerFires i) ?s1" by (rule fires) (simp add: assms(1))
  moreover have "polls ?s1 (TimerAnswer d j out) (onTimerAnswer j out
      (?s1\<lparr>pl_inflightTimer := pl_inflightTimer s, pl_clock := pl_clock ?s1 + int d\<rparr>))"
    by (rule timer_answer) (simp_all add: assms)
  moreover have "pollRound s (d, j, out) = onTimerAnswer j out
      (?s1\<lparr>pl_inflightTimer := pl_inflightTimer s, pl_clock := pl_clock ?s1 + int d\<rparr>)"
    by (simp add: assms(1)) (rule arg_cong, simp)
  ultimately show ?thesis by (auto intro: poll_run.intros)
qed

text \<open>A chain of \<open>k\<close> rounds: one timer, at least five seconds away, and five seconds for each round.\<close>

definition chainOk :: "nat \<Rightarrow> poll \<Rightarrow> bool" where
  "chainOk k s \<longleftrightarrow> pl_active s \<longrightarrow>
     (\<exists>i due. pl_timers s = [(i, due)] \<and> pl_clock s + 5000 \<le> due) \<and> \<not> pl_hidden s \<and>
     5000 \<le> pl_delay s \<and> pl_start s + 5000 * int k \<le> pl_clock s \<and> (0 < k \<longrightarrow> pl_clock s - pl_start s \<le> GIVE_UP)"

lemma chainOk_inactive [simp]: "\<not> pl_active s \<Longrightarrow> chainOk k s"
  by (simp add: chainOk_def)

lemma chainOk_backOff:
  assumes "pl_timers s = []" and "\<not> pl_hidden s" and "5000 \<le> pl_delay s" and "0 \<le> j"
    and "pl_start s + 5000 * int k \<le> pl_clock s"
  shows "chainOk k (backOff j s)"
  using assms by (auto simp: chainOk_def backOff_def Let_def schedulePoll_def)

lemma chainOk_answer:
  assumes "pl_timers s = []" and "\<not> pl_hidden s" and "5000 \<le> pl_delay s" and "0 \<le> j"
    and "pl_start s + 5000 * int k \<le> pl_clock s"
  shows "chainOk k (onTimerAnswer j out s)"
  using assms
  by (cases out) (auto simp: onTimerAnswer_def Let_def finishPolling_def intro!: chainOk_backOff)

lemma chainOk_round:
  assumes "chainOk k s" and "0 \<le> j"
  shows "chainOk (Suc k) (pollRound s (d, j, out))"
proof (cases "pl_active s")
  case True
  then obtain i due where s: "pl_timers s = [(i, due)]" "pl_clock s + 5000 \<le> due" "\<not> pl_hidden s"
    "5000 \<le> pl_delay s" "pl_start s + 5000 * int k \<le> pl_clock s"
    using assms(1) by (auto simp: chainOk_def)
  show ?thesis
    using s assms(2) by (auto intro!: chainOk_answer)
next
  case False
  then have "\<not> pl_active (pollRound s (d, j, out))"
    by (auto simp: onTimerAnswer_inactive split: list.split)
  then show ?thesis by simp
qed

lemma chainOk_rounds:
  "chainOk k s \<Longrightarrow> \<forall>(d, j, out) \<in> set script. 0 \<le> j \<Longrightarrow> chainOk (k + length script) (foldl pollRound s script)"
proof (induction script arbitrary: k s)
  case (Cons r script)
  obtain d j out where r: "r = (d, j, out)" by (cases r)
  have "chainOk (Suc k) (pollRound s r)" using Cons.prems r by (auto intro: chainOk_round simp del: pollRound.simps)
  then show ?case using Cons.IH [of "Suc k" "pollRound s r"] Cons.prems by simp
qed simp

lemma chainOk_start: "chainOk 0 (startPolling t False pg)"
  by (simp add: chainOk_def startPolling_def schedulePoll_def)

text \<open>
  C13: Polling always ends: on a page that stays visible, after at most 361 polls, whatever the
  server answers, how late it answers and whatever the jitter is, polling has stopped. (Each
  round takes at least five seconds, and a round that ends after half an hour is the last.)
\<close>

theorem polling_gives_up:
  assumes "\<forall>(d, jitter, out) \<in> set script. 0 \<le> jitter" and "361 \<le> length script"
  shows "\<not> pl_active (foldl pollRound (startPolling t False pg) script)"
proof
  let ?s = "foldl pollRound (startPolling t False pg) script"
  assume "pl_active ?s"
  moreover have "chainOk (length script) ?s"
    using chainOk_rounds [OF chainOk_start assms(1)] by simp
  ultimately have "5000 * int (length script) \<le> GIVE_UP"
    using assms(2) by (auto simp: chainOk_def)
  then show False using assms(2) by (simp add: GIVE_UP_def)
qed

theorem polling_gives_up_witness:
  "\<not> pl_active (foldl pollRound (startPolling 0 False initialPage) (replicate 361 (0, 0, LoadFailed ''HTTP 500'')))"
  by (rule polling_gives_up) simp_all

subsection \<open>What the page misses\<close>

text \<open>The outcome of a poll: the report of the use case, or the text of its error.\<close>

definition pollOutcome :: "exn + TenantStatusReport \<Rightarrow> poll_outcome" where
  "pollOutcome r =
     (case r of Inr rep \<Rightarrow> Loaded rep
      | Inl err \<Rightarrow> LoadFailed (errorText err ''Unable to load provisioning status''))"

text \<open>How React treats the polling effect after the page has changed: the effect is cleaned up and
  run again when one of its dependencies, the step and the tenant's identifier, changed.\<close>

definition rerunPolling :: "int \<Rightarrow> onboarding_page \<Rightarrow> poll \<Rightarrow> poll" where
  "rerunPolling t new s =
     (if pollKey new = pollKey (pl_page s) then s\<lparr>pl_page := new\<rparr>
      else if pollingWanted new then startPolling t (pl_hidden s) new
      else (stopPolling s)\<lparr>pl_page := new\<rparr>)"

text \<open>
  Retrying a failed provisioning does not resume the polling: the failed status stops it,
  and the retry sets the step to the waiting step it already is, so the effect is not run again
  and the page never learns that the retry succeeded.
\<close>

theorem retry_does_not_resume_polling:
  assumes "pg_step (pl_page s) = Waiting" and "st_status rep = ''failed''"
  shows "let s' = onTimerAnswer jitter (Loaded rep) s; pg' = fst (retryTenant (pl_page s') w) in
    \<not> pl_active (rerunPolling t pg' s')"
proof -
  let ?s = "onTimerAnswer jitter (Loaded rep) s"
  have i: "\<not> pl_active ?s" and w: "pg_step (pl_page ?s) = Waiting"
    using assms by (auto simp: onTimerAnswer_def Let_def showReport_def)
  have "pollKey (fst (retryTenant pg w)) = pollKey pg" if "pg_step pg = Waiting" for pg
    using that
    by (auto simp: retryTenant_def pollKey_def tenantId_def Let_def
        split: option.split prod.split sum.split OptionalEndpointResult.split)
  then show ?thesis using i w by (simp add: rerunPolling_def Let_def)
qed

definition failedReport :: TenantStatusReport where
  "failedReport = \<lparr>st_tenant = \<lparr>tr_id = ''t1'', tr_subdomain = ''acme'', tr_domain = ''acme.test'',
     tr_company_name = ''Acme'', tr_plan = ''starter'', tr_chosen_app = None, tr_status = ''failed''\<rparr>,
     st_status = ''failed'', st_progress = 100\<rparr>"

theorem retry_does_not_resume_polling_witness:
  "let s' = onTimerAnswer 0 (Loaded failedReport) (startPolling 0 False (initialPage\<lparr>pg_step := Waiting\<rparr>));
       pg' = fst (retryTenant (pl_page s') freshBrowser) in
    \<not> pl_active (rerunPolling 9 pg' s')"
  by (rule retry_does_not_resume_polling)
     (simp_all add: startPolling_def schedulePoll_def failedReport_def)

text \<open>
  Two chains of polls can run at once: a document hidden and shown while a poll is under way
  gives two timers, and stopping clears only the one it knows, so that the other still asks the
  server once more.
\<close>

theorem polling_orphan_timer:
  "\<exists>s. poll_run (startPolling 0 False pg)
      [TimerFires 1, VisibilityChange True, VisibilityChange False,
       TimerAnswer 10 0 (LoadFailed ''HTTP 500''), VisibleAnswer 10 (LoadFailed ''HTTP 500''), CleanUp] s \<and>
    \<not> pl_active s \<and> length (pl_timers s) = 1"
  by (simp add: poll_run_simps polls_simps startPolling_def schedulePoll_def onVisibilityChange_def
      clearTimer_def onTimerAnswer_def onVisibleAnswer_def backOff_def onPage_def stopPolling_def
      LONG_WAIT_def GIVE_UP_def js_defs Let_def)

text \<open>
  A missing tenant is recognised only by the digits 404 in the error's text: the server's
  answer with status 404 and its own message leaves the polling on and the stored form in place.
\<close>

theorem missing_tenant_not_recognised:
  "let s = onTimerAnswer 0 (pollOutcome (Inl (ApiRequestError ''Tenant not found'' 404 body path False)))
             (startPolling 0 False pg) in
   pl_active s \<and> pl_stored s \<and> pg_error (pl_page s) = Some ''Tenant not found''"
  by (simp add: pollOutcome_def onTimerAnswer_def startPolling_def schedulePoll_def backOff_def onPage_def
      LONG_WAIT_def GIVE_UP_def js_defs Let_def)

end
