(* ===== verification/Onboarding_View.thy ===== *)
theory Onboarding_View
  imports Onboarding_Polling Request_Traffic Billing
begin

section \<open>Onboarding: what the page shows, and its runs\<close>

text \<open>
  The five steps of \<^verbatim>\<open>app/(onboarding)/onboarding/page.tsx\<close> as they are shown, with their controls, the plan selector
  and the panels of \<^verbatim>\<open>domains/onboarding/ui\<close>, and the runs of the page across its effects, its controls, the
  polling of Onboarding_Polling and reloads. Restoring the stored form is one step, from the stored text to the
  settled promise. The label of the button that copies the address is an argument of the view.
\<close>

subsection \<open>The plan selector\<close>

record plan_selector =
  ps_plans :: "(PlanOption \<times> bool) list"
  ps_apps :: "(BusinessAppOption \<times> bool) list option"

definition PlanSelector ::
  "string \<Rightarrow> string option \<Rightarrow> PlanOption list \<Rightarrow> BusinessAppOption list \<Rightarrow> plan_selector" where
  "PlanSelector value chosenApp plans apps =
     (let resolvedPlans = (if plans \<noteq> [] then plans else PLAN_OPTIONS);
          resolvedApps = (if apps \<noteq> [] then apps else BUSINESS_APP_OPTIONS);
          selectedApp = (if \<not> truthyStr chosenApp then hd resolvedApps
            else (case find (\<lambda>option. Some (ba_id option) = chosenApp) resolvedApps of
              Some option \<Rightarrow> option | None \<Rightarrow> hd resolvedApps)) in
      \<lparr>ps_plans = map (\<lambda>plan. (plan, op_id plan = value)) resolvedPlans,
       ps_apps = (if toLowerCase value = ''business''
         then Some (map (\<lambda>option. (option, ba_id selectedApp = ba_id option)) resolvedApps) else None)\<rparr>)"

definition selectedBusinessApp_onboarding :: "onboarding_page \<Rightarrow> BusinessAppOption option" where
  "selectedBusinessApp_onboarding pg = find (\<lambda>option. ba_id option = pg_chosenApp pg) (businessAppOptions pg)"

definition appLabel :: "onboarding_page \<Rightarrow> string" where
  "appLabel pg = nullish (map_option ba_label (selectedBusinessApp_onboarding pg)) (pg_chosenApp pg)"

subsection \<open>The steps\<close>

definition subdomainHint :: "onboarding_page \<Rightarrow> string" where
  "subdomainHint pg =
     (if cleanSubdomain pg = [] then ''Enter a subdomain to verify availability.''
      else if pg_checking pg then ''Checking subdomain availability...''
      else nullish (map_option sa_message (pg_availability pg)) ''Subdomain availability not checked yet.'')"

record details_form =
  df_company :: string
  df_subdomain :: string
  df_preview :: string
  df_hint :: string
  df_continueDisabled :: bool

definition detailsForm :: "onboarding_page \<Rightarrow> details_form" where
  "detailsForm pg =
     \<lparr>df_company = pg_companyName pg, df_subdomain = pg_subdomain pg,
      df_preview = ''https://'' @ previewDomain pg, df_hint = subdomainHint pg,
      df_continueDisabled = (\<not> canUseSubdomain pg \<or> pg_checking pg)\<rparr>"

record plan_form =
  pf_selector :: plan_selector
  pf_selected :: "string \<times> string option"
  pf_submit :: "string \<times> bool"

definition planForm :: "onboarding_page \<Rightarrow> plan_form" where
  "planForm pg =
     \<lparr>pf_selector = PlanSelector (pg_plan pg) (Some (pg_chosenApp pg)) (planOptions pg) (businessAppOptions pg),
      pf_selected = (pg_plan pg, if toLowerCase (pg_plan pg) = ''business'' then Some (appLabel pg) else None),
      pf_submit = (if pg_busy pg then ''Submitting...'' else ''Submit and continue'', submitDisabled pg)\<rparr>"

record payment_card =
  py_ready :: "string option \<times> string"
  py_app :: "string option"
  py_openDisabled :: bool
  py_renew :: "string \<times> bool"
  py_missing :: "string option"
  py_notice :: "string option"
  py_error :: "string option"

definition paymentCard :: "onboarding_page \<Rightarrow> payment_card" where
  "paymentCard pg =
     \<lparr>py_ready = (map_option tr_company_name (pg_tenant pg), pg_plan pg),
      py_app = (if toLowerCase (pg_plan pg) = ''business'' then Some (''Primary app: '' @ appLabel pg) else None),
      py_openDisabled = (\<not> truthyStr (pg_checkoutUrl pg)),
      py_renew = (if pg_renewBusy pg then ''Generating link...'' else ''Generate new checkout link'', pg_renewBusy pg),
      py_missing = (if truthyStr (pg_checkoutUrl pg) then None
        else Some ''Checkout link has expired or is missing. Generate a new link.''),
      py_notice = (if truthyStr (pg_renewNotice pg) then pg_renewNotice pg else None),
      py_error = (if truthyStr (pg_renewError pg) then pg_renewError pg else None)\<rparr>"

record waiting_card =
  wt_state :: string
  wt_bar :: int
  wt_status :: string
  wt_log :: "string + string"
  wt_longWait :: "string option"
  wt_failed :: "((string \<times> bool) \<times> string option) option"
  wt_reopen :: bool

definition currentStatus :: "onboarding_page \<Rightarrow> string" where
  "currentStatus pg = statusLabel (map_option tr_status (pg_tenant pg))"

definition waitingCard :: "onboarding_page \<Rightarrow> waiting_card" where
  "waitingCard pg =
     \<lparr>wt_state = provisioningProgressState pg @ ''. Status refresh runs automatically every few seconds.'',
      wt_bar = pg_progress pg,
      wt_status = ''Current status: '' @ currentStatus pg,
      wt_log = (if truthyStr (pg_jobId pg) then Inr (the (pg_jobId pg))
        else Inl ''Live job logs will appear here when the backend returns a job id.''),
      wt_longWait = (if truthyStr (pg_longWait pg) then pg_longWait pg else None),
      wt_failed = (if toLowerCase (case pg_tenant pg of Some t \<Rightarrow> tr_status t | None \<Rightarrow> []) = ''failed''
        then Some ((if pg_retryBusy pg then ''Retrying...'' else ''Retry provisioning'', pg_retryBusy pg),
          if truthyStr (pg_retryError pg) then pg_retryError pg else None)
        else None),
      wt_reopen = truthyStr (pg_checkoutUrl pg)\<rparr>"

datatype readiness_panel = NoReadiness | Readiness bool string | CheckingReadiness string

record success_card =
  su_url :: string
  su_readiness :: readiness_panel
  su_copy :: string

definition successCard :: "bool \<Rightarrow> onboarding_page \<Rightarrow> success_card" where
  "successCard copied pg =
     \<lparr>su_url = erpUrl pg,
      su_readiness = (case pg_readiness pg of
         Some (ready, message) \<Rightarrow> Readiness ready message
       | None \<Rightarrow> if pg_readinessChecking pg then CheckingReadiness ''Checking workspace readiness...'' else NoReadiness),
      su_copy = (if copied then ''Copied'' else ''Copy URL'')\<rparr>"

datatype step_view =
  DetailsStep details_form | PlanStep plan_form | PaymentStep payment_card | WaitingStep waiting_card | SuccessStep success_card

definition stepView :: "bool \<Rightarrow> onboarding_page \<Rightarrow> step_view" where
  "stepView copied pg =
     (case pg_step pg of
        Details \<Rightarrow> DetailsStep (detailsForm pg) | Plan \<Rightarrow> PlanStep (planForm pg) | Payment \<Rightarrow> PaymentStep (paymentCard pg)
      | Waiting \<Rightarrow> WaitingStep (waitingCard pg) | Success \<Rightarrow> SuccessStep (successCard copied pg))"

subsection \<open>The page\<close>

text \<open>\<^verbatim>\<open>OnboardingEmailVerificationPanel.tsx\<close>: the address, the button, the notice.\<close>

definition OnboardingEmailVerificationPanel ::
  "string option \<Rightarrow> bool \<Rightarrow> string option \<Rightarrow> string \<times> (string \<times> bool) \<times> string option" where
  "OnboardingEmailVerificationPanel email resendBusy notice =
     (''We sent a verification link to '' @ nullish email [] @ ''.'',
      (if resendBusy then ''Sending...'' else ''Resend verification email'', resendBusy),
      if truthyStr notice then notice else None)"

definition setupSnapshot :: "onboarding_page \<Rightarrow> (string \<times> string) list" where
  "setupSnapshot pg =
     [(''Company:'', orElse (Some (pg_companyName pg)) EM_DASH),
      (''Subdomain:'', orElse (Some (cleanSubdomain pg)) EM_DASH),
      (''Plan:'', pg_plan pg),
      (''Business app:'', if pg_plan pg = ''business'' then appLabel pg else ''n/a''),
      (''Status:'', currentStatus pg),
      (''Progress:'', provisioningProgressState pg)]"

record onboarding_view =
  on_tracker :: "(string \<times> bool) list"
  on_notice :: "string option"
  on_error :: "string option"
  on_verification :: "(string \<times> (string \<times> bool) \<times> string option) option"
  on_step :: step_view
  on_snapshot :: "(string \<times> string) list"

definition OnboardingContent :: "bool \<Rightarrow> onboarding_page \<Rightarrow> onboarding_view" where
  "OnboardingContent copied pg =
     \<lparr>on_tracker = OnboardingStepTracker onboardingFlow flowLabels (pg_step pg),
      on_notice = (if truthyStr (pg_notice pg) then pg_notice pg else None),
      on_error = (if truthyStr (pg_error pg) then pg_error pg else None),
      on_verification = (if emailVerificationRequired pg
        then Some (OnboardingEmailVerificationPanel (map_option usr_email (pg_user pg)) (pg_resendBusy pg)
          (pg_verificationNotice pg))
        else None),
      on_step = stepView copied pg,
      on_snapshot = setupSnapshot pg\<rparr>"

subsection \<open>The controls\<close>

datatype onboarding_event =
    TypeCompany string | TypeSubdomain string | ContinueToPlans | ChoosePlan string | ChooseApp string | BackToDetails
  | SubmitWorkspace | ResendEmail | OpenCheckout | RenewLink | AlreadyPaid | RetrySetup | ReportJob Job
  | OpenSettings | OpenDashboard

definition stepOffers :: "step_view \<Rightarrow> onboarding_event \<Rightarrow> bool" where
  "stepOffers st e \<longleftrightarrow>
     (case st of
        DetailsStep f \<Rightarrow> (case e of TypeCompany _ \<Rightarrow> True | TypeSubdomain _ \<Rightarrow> True
          | ContinueToPlans \<Rightarrow> \<not> df_continueDisabled f | _ \<Rightarrow> False)
      | PlanStep f \<Rightarrow> (case e of ChoosePlan p \<Rightarrow> p \<in> op_id ` fst ` set (ps_plans (pf_selector f))
          | ChooseApp a \<Rightarrow> (case ps_apps (pf_selector f) of None \<Rightarrow> False | Some apps \<Rightarrow> a \<in> ba_id ` fst ` set apps)
          | BackToDetails \<Rightarrow> True | SubmitWorkspace \<Rightarrow> \<not> snd (pf_submit f) | _ \<Rightarrow> False)
      | PaymentStep c \<Rightarrow> (case e of OpenCheckout \<Rightarrow> \<not> py_openDisabled c | RenewLink \<Rightarrow> \<not> snd (py_renew c)
          | AlreadyPaid \<Rightarrow> True | _ \<Rightarrow> False)
      | WaitingStep c \<Rightarrow> (case e of ReportJob _ \<Rightarrow> (case wt_log c of Inr _ \<Rightarrow> True | Inl _ \<Rightarrow> False)
          | RetrySetup \<Rightarrow> (case wt_failed c of None \<Rightarrow> False | Some (b, _) \<Rightarrow> \<not> snd b)
          | OpenSettings \<Rightarrow> wt_failed c \<noteq> None | OpenCheckout \<Rightarrow> wt_reopen c | _ \<Rightarrow> False)
      | SuccessStep c \<Rightarrow> e = OpenDashboard)"

definition onboardingOffers :: "onboarding_view \<Rightarrow> onboarding_event \<Rightarrow> bool" where
  "onboardingOffers v e \<longleftrightarrow>
     (if e = ResendEmail then (case on_verification v of None \<Rightarrow> False | Some (_, b, _) \<Rightarrow> \<not> snd b)
      else stepOffers (on_step v) e)"

definition goTo :: "string \<Rightarrow> onboarding_page \<Rightarrow> world \<Rightarrow> onboarding_page \<times> world" where
  "goTo path pg w = (pg, dispatch (''push:'' @ path) w)"

primrec onboardingEvent :: "onboarding_event \<Rightarrow> onboarding_page \<Rightarrow> world \<Rightarrow> onboarding_page \<times> world" where
  "onboardingEvent (TypeCompany x) pg w = (pg\<lparr>pg_companyName := x\<rparr>, w)"
| "onboardingEvent (TypeSubdomain x) pg w = (pg\<lparr>pg_subdomain := x\<rparr>, w)"
| "onboardingEvent ContinueToPlans pg w = (continueToPlan pg, w)"
| "onboardingEvent (ChoosePlan p) pg w = (pg\<lparr>pg_plan := p\<rparr>, w)"
| "onboardingEvent (ChooseApp a) pg w = (pg\<lparr>pg_chosenApp := a\<rparr>, w)"
| "onboardingEvent BackToDetails pg w = (pg\<lparr>pg_step := Details\<rparr>, w)"
| "onboardingEvent SubmitWorkspace pg w = submitTenant pg w"
| "onboardingEvent ResendEmail pg w = resendVerification pg w"
| "onboardingEvent OpenCheckout pg w = launchCheckout pg w"
| "onboardingEvent RenewLink pg w = renewCheckout pg w"
| "onboardingEvent AlreadyPaid pg w = (pg\<lparr>pg_step := Waiting\<rparr>, w)"
| "onboardingEvent RetrySetup pg w = retryTenant pg w"
| "onboardingEvent (ReportJob job) pg w = (handleProvisioningJobUpdate job pg, w)"
| "onboardingEvent OpenSettings pg w = goTo ''/app/account/settings'' pg w"
| "onboardingEvent OpenDashboard pg w = goTo ''/app/overview'' pg w"

subsection \<open>The runs\<close>

text \<open>A tenant of the server has an identifier.\<close>

definition namedTenant :: "onboarding_page \<Rightarrow> bool" where
  "namedTenant pg \<longleftrightarrow> (case pg_tenant pg of None \<Rightarrow> True | Some t \<Rightarrow> tr_id t \<noteq> [])"

text \<open>The effects of the page beside the restoring, the storing and the polling.\<close>

datatype page_effect = PlanEffect | AppEffect | SubdomainEffect | SubdomainAnswer string bool | WelcomeEffect query
  | UserEffect | CatalogEffect "int \<Rightarrow> string" | ReadinessEffect

primrec pageEffect :: "page_effect \<Rightarrow> onboarding_page \<Rightarrow> world \<Rightarrow> onboarding_page \<times> world" where
  "pageEffect PlanEffect pg w = (planEffect pg, w)"
| "pageEffect AppEffect pg w = (appEffect pg, w)"
| "pageEffect SubdomainEffect pg w = (subdomainEffect pg, w)"
| "pageEffect (SubdomainAnswer name active) pg w = subdomainTimer name active pg w"
| "pageEffect (WelcomeEffect q) pg w = (welcomeEffect q pg, w)"
| "pageEffect UserEffect pg w = loadUserEffect pg w"
| "pageEffect (CatalogEffect currency) pg w = catalogEffect currency pg w"
| "pageEffect ReadinessEffect pg w = readinessEffect pg w"

text \<open>
  What the page and the browser can be after the page was opened in the browser \<open>w0\<close>: any control it shows enabled,
  any effect, any step of the polling, the storing of the form and a reload, in any order. Whenever the server names
  a tenant it names it by an identifier.
\<close>

inductive onboarding_reaches :: "world \<Rightarrow> onboarding_page \<Rightarrow> world \<Rightarrow> bool" for w0 where
  opened: "hydrate initialPage w0 = (pg, w) \<Longrightarrow> namedTenant pg \<Longrightarrow> onboarding_reaches w0 pg w"
| reloaded: "onboarding_reaches w0 pg w \<Longrightarrow> hydrate initialPage w = (pg', w') \<Longrightarrow> namedTenant pg' \<Longrightarrow>
    onboarding_reaches w0 pg' w'"
| stored: "onboarding_reaches w0 pg w \<Longrightarrow> onboarding_reaches w0 pg (persist pg w)"
| effect: "onboarding_reaches w0 pg w \<Longrightarrow> pageEffect f pg w = (pg', w') \<Longrightarrow> onboarding_reaches w0 pg' w'"
| used: "onboarding_reaches w0 pg w \<Longrightarrow> onboardingOffers (OnboardingContent copied pg) e \<Longrightarrow>
    onboardingEvent e pg w = (pg', w') \<Longrightarrow> namedTenant pg' \<Longrightarrow> onboarding_reaches w0 pg' w'"
| polled: "onboarding_reaches w0 pg w \<Longrightarrow> pollingWanted pg \<Longrightarrow> pl_page s = pg \<Longrightarrow> pl_stored s \<Longrightarrow> polls s e s' \<Longrightarrow>
    namedTenant (pl_page s') \<Longrightarrow>
    onboarding_reaches w0 (pl_page s') (if pl_stored s' then w else clearPersistedState w)"

subsection \<open>The stored form is the page's own\<close>

text \<open>A request changes no entry of the storage but those of the session.\<close>

definition entryKept :: "string \<Rightarrow> world \<Rightarrow> world \<Rightarrow> bool" where
  "entryKept k w w' \<longleftrightarrow> localStorage w' k = localStorage w k \<and> hasWindow w' = hasWindow w"

lemma reflp_entryKept: "reflp (entryKept k)" and transp_entryKept: "transp (entryKept k)"
  by (auto simp: entryKept_def intro: reflpI transpI)

lemmas entryKept_intros =
  keeps_ret [OF reflp_entryKept] keeps_throw [OF reflp_entryKept] keeps_asks [OF reflp_entryKept]
  keeps_liftResult [OF reflp_entryKept] keeps_await [OF transp_entryKept] keeps_catching [OF transp_entryKept]
  keeps_if keeps_option keeps_modify

definition sessionEntry :: "string \<Rightarrow> bool" where
  "sessionEntry k \<longleftrightarrow> k = TOKEN_KEY \<or> k = ROLE_KEY \<or> k = USER_KEY"

lemma entryKept_fetch: "keeps (entryKept k) (fetch rq)"
  by (auto simp: keeps_def entryKept_def fetch_def Let_def split: list.splits fetch_outcome.splits prod.splits)

lemma entryKept_saveToken: "\<not> sessionEntry k \<Longrightarrow> entryKept k w (saveToken t w)"
  by (auto simp: entryKept_def saveToken_def saveEntry_def setCookie_def storageSet_def sessionEntry_def Let_def
      split: option.split)

lemma entryKept_performFetch: "keeps (entryKept k) (performFetch path init headers)"
  unfolding performFetch_def by (intro entryKept_intros entryKept_fetch)

lemma entryKept_refresh: "\<not> sessionEntry k \<Longrightarrow> keeps (entryKept k) refreshAccessToken"
  unfolding refreshAccessToken_def Let_def by (intro entryKept_intros entryKept_fetch entryKept_saveToken)

lemma entryKept_expired: "\<not> sessionEntry k \<Longrightarrow> entryKept k w ((if b then notifySessionExpired else id) w)"
  by (simp add: entryKept_def notifySessionExpired_def dispatch_def clearToken_def clearCookie_def storageRemove_def
      sessionEntry_def Let_def)

lemma entryKept_request: "\<not> sessionEntry k \<Longrightarrow> keeps (entryKept k) (request view path init key)"
  unfolding request_def Let_def freshToken_def retryUnauthorized_def settle_def
  by (intro entryKept_intros entryKept_performFetch entryKept_refresh entryKept_expired)

lemma entryKept_optional: "\<not> sessionEntry k \<Longrightarrow> keeps (entryKept k) (requestOptionalEndpoint view path init)"
  unfolding requestOptionalEndpoint_def by (intro entryKept_intros entryKept_request)


lemma entryKept_creation: "\<not> sessionEntry k \<Longrightarrow> keeps (entryKept k) (submitTenantOnboarding input)"
proof -
  assume k: "\<not> sessionEntry k"
  have key: "keeps (entryKept k) createIdempotencyKey"
    by (simp add: keeps_def createIdempotencyKey_def entryKept_def)
  show ?thesis
    unfolding submitTenantOnboarding_def createTenantCheckout_def api_createTenant_def createTenantWithCompatibility_def Let_def
    by (intro entryKept_intros key entryKept_request k)
qed

lemma entryKept_validate: "\<not> sessionEntry k \<Longrightarrow> keeps (entryKept k) (validateSubdomain name)"
  unfolding validateSubdomain_def checkSubdomainAvailability_def api_checkSubdomainAvailability_def
  by (intro entryKept_intros entryKept_request)

lemma entryKept_catalog: "\<not> sessionEntry k \<Longrightarrow> keeps (entryKept k) (loadPublicPlanCatalog currency)"
  unfolding loadPublicPlanCatalog_def listPublicPlans_def api_listPlans_def
  by (intro entryKept_intros entryKept_request)

lemma entryKept_calls:
  assumes "\<not> sessionEntry k"
  shows "keeps (entryKept k) (restorePersistedTenant i url)" "keeps (entryKept k) loadCurrentUserProfile"
    "keeps (entryKept k) sendVerificationEmailAgain" "keeps (entryKept k) (renewCheckoutLink i)"
    "keeps (entryKept k) (retryProvisioning i)" "keeps (entryKept k) (loadWorkspaceReadiness i)"
  unfolding restorePersistedTenant_def fetchTenant_def api_getTenant_def loadCurrentUserProfile_def fetchCurrentUser_def
    api_getCurrentUser_def sendVerificationEmailAgain_def resendVerificationEmail_def api_resendVerification_def
    renewCheckoutLink_def renewTenantCheckout_def api_renewCheckout_def retryProvisioning_def retryTenantProvisioning_def
    api_retryTenant_def loadWorkspaceReadiness_def fetchTenantReadiness_def api_getTenantReadiness_def
  by (intro entryKept_intros entryKept_request entryKept_optional assms)+

lemma formEntry: "\<not> sessionEntry ONBOARDING_STATE_KEY"
  by (simp add: sessionEntry_def ONBOARDING_STATE_KEY_def key_defs)

lemmas form_kept = entryKept_creation [OF formEntry] entryKept_validate [OF formEntry] entryKept_catalog [OF formEntry]
  entryKept_calls [OF formEntry]

subsection \<open>No step without its tenant\<close>

definition lateStep :: "onboarding_page \<Rightarrow> bool" where
  "lateStep pg \<longleftrightarrow> pg_step pg \<in> {Payment, Waiting, Success}"

definition storedOk :: "world \<Rightarrow> bool" where
  "storedOk w \<longleftrightarrow>
     (case parsePersistedOnboardingState (localStorage w ONBOARDING_STATE_KEY) of
        None \<Rightarrow> True | Some p \<Rightarrow> po_step p \<in> {Details, Plan} \<or> truthyStr (po_tenantId p))"

definition tenantKnown :: "onboarding_page \<Rightarrow> bool" where
  "tenantKnown pg \<longleftrightarrow> (lateStep pg \<longrightarrow> pg_tenant pg \<noteq> None)"

lemma storedOk_kept: "keeps (entryKept ONBOARDING_STATE_KEY) m \<Longrightarrow> m w = (r, w') \<Longrightarrow> storedOk w' = storedOk w"
proof -
  assume "keeps (entryKept ONBOARDING_STATE_KEY) m" and r: "m w = (r, w')"
  then have "entryKept ONBOARDING_STATE_KEY w (snd (m w))" unfolding keeps_def by blast
  then show ?thesis unfolding r by (simp add: entryKept_def storedOk_def)
qed

lemma parse_missing: "parsePersistedOnboardingState None = None"
  by (simp add: parsePersistedOnboardingState_def truthyStr_def)

lemma storedOk_cleared: "storedOk w \<Longrightarrow> storedOk (clearPersistedState w)"
  unfolding clearPersistedState_def storageRemove_def by (simp add: storedOk_def parse_missing)

lemma initial_tenant: "pg_step initialPage = Details" "pg_tenant initialPage = None"
  by (simp_all add: initialPage_def)

lemma tenantKnown_early: "pg_step pg = Details \<or> pg_step pg = Plan \<Longrightarrow> tenantKnown pg"
  and tenantKnown_tenant: "pg_tenant pg = Some t \<Longrightarrow> tenantKnown pg"
  by (auto simp: tenantKnown_def lateStep_def)

lemma storedOk_persist:
  assumes "tenantKnown pg" and "namedTenant pg" and "storedOk w"
  shows "storedOk (persist pg w)"
proof (cases "pg_restored pg \<and> hasWindow w \<and> pg_step pg \<noteq> Success")
  case True
  then have "localStorage (persist pg w) ONBOARDING_STATE_KEY =
      Some (JSON_stringify (json_PersistedOnboardingState (persistedOf pg)))"
    by (simp add: persist_def storageSet_def)
  then have "parsePersistedOnboardingState (localStorage (persist pg w) ONBOARDING_STATE_KEY) = Some (persistedOf pg)"
    using persisted_parse by metis
  then show ?thesis
    using assms(1,2)
    by (cases "pg_step pg") (auto simp: storedOk_def tenantKnown_def lateStep_def namedTenant_def persistedOf_def truthyStr_def)
qed (use assms(3) in \<open>auto simp: persist_def storedOk_cleared\<close>)

lemma hydrate_ok:
  assumes "hydrate initialPage w = (pg, w')" and "storedOk w"
  shows "tenantKnown pg \<and> storedOk w'"
proof -
  let ?raw = "localStorage w ONBOARDING_STATE_KEY"
  consider "\<not> hasWindow w" | "hasWindow w" "\<not> truthyStr ?raw"
    | "hasWindow w" "truthyStr ?raw" "parsePersistedOnboardingState ?raw = None"
    | p where "hasWindow w" "truthyStr ?raw" "parsePersistedOnboardingState ?raw = Some p" "\<not> truthyStr (po_tenantId p)"
    | p where "hasWindow w" "truthyStr ?raw" "parsePersistedOnboardingState ?raw = Some p" "truthyStr (po_tenantId p)"
    by blast
  then show ?thesis
  proof cases
    case 1
    then have "pg = initialPage" "w' = w" using assms(1) by (simp_all add: hydrate_def)
    then show ?thesis using assms(2) by (simp add: tenantKnown_early initial_tenant)
  next
    case 2
    then have "pg = initialPage\<lparr>pg_restored := True\<rparr>" "w' = w" using assms(1) by (simp_all add: hydrate_def)
    then show ?thesis using assms(2) by (simp add: tenantKnown_early initial_tenant)
  next
    case 3
    then have "pg = initialPage\<lparr>pg_restored := True\<rparr>" "w' = clearPersistedState w"
      using assms(1) by (simp_all add: hydrate_def)
    then show ?thesis using assms(2) by (simp add: tenantKnown_early initial_tenant storedOk_cleared)
  next
    case (4 p)
    then have "pg = (fillForm p initialPage)\<lparr>pg_restored := True\<rparr>" "w' = w" using assms(1) by (simp_all add: hydrate_def)
    moreover have "po_step p = Details \<or> po_step p = Plan" using assms(2) 4 by (simp add: storedOk_def)
    ultimately show ?thesis using assms(2) by (auto simp: fillForm_def intro!: tenantKnown_early)
  next
    case (5 p)
    obtain r w1 where r: "restorePersistedTenant (the (po_tenantId p)) (Option.bind (po_checkoutUrl p) orNull) w = (r, w1)"
      by (cases "restorePersistedTenant (the (po_tenantId p)) (Option.bind (po_checkoutUrl p) orNull) w")
    then have w1: "storedOk w1" using storedOk_kept [OF form_kept(4) r] assms(2) by simp
    show ?thesis
    proof (cases r)
      case (Inl e)
      then have "pg_step pg = Details \<and> w' = clearPersistedState w1" using assms(1) 5 r by (auto simp: hydrate_def Let_def)
      then show ?thesis using w1 by (simp add: tenantKnown_early storedOk_cleared)
    next
      case (Inr x)
      then have "pg_tenant pg = Some (rs_tenant x) \<and> w' = w1" using assms(1) 5 r by (auto simp: hydrate_def Let_def)
      then show ?thesis using w1 tenantKnown_tenant by blast
    qed
  qed
qed

lemma event_ok:
  assumes "onboardingOffers (OnboardingContent copied pg) e" and "onboardingEvent e pg w = (pg', w')"
    and "tenantKnown pg" and "storedOk w"
  shows "tenantKnown pg' \<and> storedOk w'"
proof -
  note d = tenantKnown_def lateStep_def onboardingOffers_def OnboardingContent_def stepOffers_def stepView_def
  have same: "storedOk (dispatch ev w) = storedOk w" for ev by (simp add: storedOk_def dispatch_def)
  show ?thesis
  proof (cases e)
    case SubmitWorkspace
    then have s: "submitTenant pg w = (pg', w')" using assms(2) by simp
    obtain r w1 where r: "submitTenantOnboarding \<lparr>si_subdomain = cleanSubdomain pg, si_companyName = pg_companyName pg,
        si_plan = pg_plan pg, si_chosenApp = pg_chosenApp pg\<rparr> w = (r, w1)"
      by (cases "submitTenantOnboarding \<lparr>si_subdomain = cleanSubdomain pg, si_companyName = pg_companyName pg,
        si_plan = pg_plan pg, si_chosenApp = pg_chosenApp pg\<rparr> w")
    have "storedOk w1" using storedOk_kept [OF form_kept(1) r] assms(4) by simp
    then show ?thesis
      using s r assms(3,4) by (cases r) (auto simp: submitTenant_def Let_def d split: if_splits)
  next
    case ResendEmail
    obtain r w1 where r: "sendVerificationEmailAgain w = (r, w1)" by (cases "sendVerificationEmailAgain w")
    have "storedOk w1" using storedOk_kept [OF form_kept(6) r] assms(4) by simp
    then show ?thesis
      using ResendEmail r assms(2,3) by (cases r) (auto simp: resendVerification_def d)
  next
    case RenewLink
    then show ?thesis
    proof (cases "tenantId pg")
      case (Some i)
      obtain r w1 where r: "renewCheckoutLink i w = (r, w1)" by (cases "renewCheckoutLink i w")
      have "storedOk w1" using storedOk_kept [OF form_kept(7) r] assms(4) by simp
      then show ?thesis
        using RenewLink Some r assms(2,3)
        by (auto simp: renewCheckout_def Let_def d split: sum.splits OptionalEndpointResult.splits)
    qed (use RenewLink assms(2-4) in \<open>auto simp: renewCheckout_def d\<close>)
  next
    case RetrySetup
    then show ?thesis
    proof (cases "tenantId pg")
      case (Some i)
      obtain r w1 where r: "retryProvisioning i w = (r, w1)" by (cases "retryProvisioning i w")
      have "storedOk w1" using storedOk_kept [OF form_kept(8) r] assms(4) by simp
      then show ?thesis
        using RetrySetup Some r assms(2,3)
        by (auto simp: retryTenant_def Let_def d tenantId_def bind_eq_Some_conv split: sum.splits OptionalEndpointResult.splits)
    qed (use RetrySetup assms(2-4) in \<open>auto simp: retryTenant_def d\<close>)
  qed (use assms in \<open>auto simp: d continueToPlan_def launchCheckout_def goTo_def same handleProvisioningJobUpdate_def
      split: OnboardingStep.splits if_splits\<close>)
qed


lemma plain_effects:
  "pg_step (planEffect pg) = pg_step pg" "pg_tenant (planEffect pg) = pg_tenant pg"
  "pg_step (appEffect pg) = pg_step pg" "pg_tenant (appEffect pg) = pg_tenant pg"
  "pg_step (subdomainEffect pg) = pg_step pg" "pg_tenant (subdomainEffect pg) = pg_tenant pg"
  "pg_step (welcomeEffect q pg) = pg_step pg" "pg_tenant (welcomeEffect q pg) = pg_tenant pg"
  by (simp_all add: planEffect_def appEffect_def subdomainEffect_def welcomeEffect_def)

lemma effect_ok:
  assumes "pageEffect f pg w = (pg', w')" and "tenantKnown pg" and "storedOk w" and "namedTenant pg"
  shows "tenantKnown pg' \<and> storedOk w' \<and> namedTenant pg'"
proof -
  note d = tenantKnown_def lateStep_def namedTenant_def
  show ?thesis
  proof (cases f)
    case (SubdomainAnswer name active)
    obtain r w1 where r: "validateSubdomain name w = (r, w1)" by (cases "validateSubdomain name w")
    have "storedOk w1" using storedOk_kept [OF form_kept(2) r] assms(3) by simp
    then show ?thesis using SubdomainAnswer r assms(1,2,4) by (cases r) (auto simp: subdomainTimer_def d split: if_splits)
  next
    case UserEffect
    obtain r w1 where r: "loadCurrentUserProfile w = (r, w1)" by (cases "loadCurrentUserProfile w")
    have "storedOk w1" using storedOk_kept [OF form_kept(5) r] assms(3) by simp
    then show ?thesis using UserEffect r assms(1,2,4) by (cases r) (auto simp: loadUserEffect_def d)
  next
    case (CatalogEffect currency)
    obtain r w1 where r: "loadPublicPlanCatalog currency w = (r, w1)" by (cases "loadPublicPlanCatalog currency w")
    have "storedOk w1" using storedOk_kept [OF form_kept(3) r] assms(3) by simp
    then show ?thesis using CatalogEffect r assms(1,2,4) by (cases r) (auto simp: catalogEffect_def d)
  next
    case ReadinessEffect
    show ?thesis
    proof (cases "tenantId pg")
      case (Some i)
      obtain r w1 where r: "loadWorkspaceReadiness i w = (r, w1)" by (cases "loadWorkspaceReadiness i w")
      have "storedOk w1" using storedOk_kept [OF form_kept(9) r] assms(3) by simp
      then show ?thesis
        using ReadinessEffect Some r assms
        by (auto simp: readinessEffect_def d split: if_splits sum.splits OptionalEndpointResult.splits)
    qed (use ReadinessEffect assms in \<open>auto simp: readinessEffect_def split: if_splits\<close>)
  next
    case PlanEffect
    then show ?thesis using assms by (auto simp: d plain_effects)
  next
    case AppEffect
    then show ?thesis using assms by (auto simp: d plain_effects)
  next
    case SubdomainEffect
    then show ?thesis using assms by (auto simp: d plain_effects)
  next
    case (WelcomeEffect q)
    then show ?thesis using assms by (auto simp: d plain_effects)
  qed
qed

lemma polls_ok:
  assumes "polls s e s'" and "tenantKnown (pl_page s)"
  shows "tenantKnown (pl_page s')"
  using assms
proof cases
  case (timer_answer n jitter d out)
  show ?thesis
    using assms(2) unfolding timer_answer(2)
    by (cases out) (auto simp: onTimerAnswer_def backOff_def finishPolling_def showReport_def tenantKnown_def lateStep_def Let_def)
next
  case (visibility hid)
  show ?thesis using assms(2) unfolding visibility(2) by (simp add: onVisibilityChange_def Let_def)
next
  case (visible_answer n d out)
  show ?thesis
    using assms(2) unfolding visible_answer(2)
    by (cases out) (auto simp: onVisibleAnswer_def finishPolling_def showReport_def tenantKnown_def lateStep_def Let_def)
next
  case (fires i due)
  show ?thesis using assms(2) unfolding fires(2) by simp
next
  case clean_up
  show ?thesis using assms(2) unfolding clean_up(2) by simp
qed

lemma onboarding_ok:
  assumes "onboarding_reaches w0 pg w" and "storedOk w0"
  shows "tenantKnown pg \<and> namedTenant pg \<and> storedOk w"
  using assms(1)
proof induction
  case (opened pg w)
  then show ?case using hydrate_ok assms(2) by blast
next
  case (reloaded pg w pg' w')
  then show ?case using hydrate_ok by blast
next
  case (stored pg w)
  then show ?case using storedOk_persist by blast
next
  case (effect pg w f pg' w')
  then show ?case using effect_ok by blast
next
  case (used pg w copied e pg' w')
  then show ?case using event_ok by blast
next
  case (polled pg w s e s')
  then show ?case using polls_ok storedOk_cleared by auto
qed


subsection \<open>Reloading at the payment\<close>

definition waitingTenantJson :: "string \<Rightarrow> json" where
  "waitingTenantJson status = JObj [(''id'', JStr ''t1''), (''owner_id'', JStr ''u1''), (''subdomain'', JStr ''acme''),
     (''domain'', JStr ''acme.test''), (''site_name'', JStr ''acme''), (''company_name'', JStr ''Acme''),
     (''plan'', JStr ''starter''), (''status'', JStr status), (''created_at'', JStr []), (''updated_at'', JStr [])]"

definition unpaidTenant :: TenantRecord where
  "unpaidTenant = recordOfTenant (sampleTenant ''pending_payment'' None None)"

text \<open>A browser in which the page was left at the payment, with or without the address of the checkout.\<close>

definition leftAtPayment :: "string option \<Rightarrow> world" where
  "leftAtPayment url = persist (readyPage\<lparr>pg_step := Payment, pg_tenant := Some unpaidTenant, pg_checkoutUrl := url\<rparr>)
     (signedIn [(9, jsonResponse 200 (waitingTenantJson ''pending_payment''))])"

lemma left_stored:
  "parsePersistedOnboardingState (localStorage (leftAtPayment url) ONBOARDING_STATE_KEY) =
     Some (persistedOf (readyPage\<lparr>pg_step := Payment, pg_tenant := Some unpaidTenant, pg_checkoutUrl := url\<rparr>))"
proof -
  let ?pg = "readyPage\<lparr>pg_step := Payment, pg_tenant := Some unpaidTenant, pg_checkoutUrl := url\<rparr>"
  have "localStorage (leftAtPayment url) ONBOARDING_STATE_KEY =
      Some (JSON_stringify (json_PersistedOnboardingState (persistedOf ?pg)))"
    by (simp add: leftAtPayment_def persist_def storageSet_def readyPage_def)
  then show ?thesis using persisted_parse by metis
qed

lemma left_answer:
  "map_sum (\<lambda>_. ()) (\<lambda>r. (rs_step r, tr_id (rs_tenant r))) (fst (restorePersistedTenant ''t1'' None (leftAtPayment None))) =
     Inr (Waiting, ''t1'')"
  by code_simp

text \<open>
  C38: A reload at the payment without the address of the checkout is a dead end: the page comes back as the waiting page,
  for a tenant that waits for its payment, and offers no control: no way to pay, to renew the link, or back.
\<close>

theorem lost_link_dead_end:
  assumes "hydrate initialPage w = (pg, w')" and "hasWindow w"
    and "parsePersistedOnboardingState (localStorage w ONBOARDING_STATE_KEY) = Some p"
    and "po_tenantId p = Some i" and "i \<noteq> []" and "\<not> truthyStr (po_checkoutUrl p)" and "\<not> truthyStr (po_jobId p)"
    and "pg_tenant pg = Some t" and "normalizeTenantStatus (Some (tr_status t)) = ''pending_payment''"
  shows "pg_step pg = Waiting \<and> pollingWanted pg = (tr_id t \<noteq> []) \<and> \<not> onboardingOffers (OnboardingContent copied pg) e"
proof -
  have url: "Option.bind (po_checkoutUrl p) orNull = None"
    using assms(6) by (cases "po_checkoutUrl p") (auto simp: truthyStr_def orNull_def)
  have job: "Option.bind (po_jobId p) orNull = None"
    using assms(7) by (cases "po_jobId p") (auto simp: truthyStr_def orNull_def)
  have raw: "truthyStr (localStorage w ONBOARDING_STATE_KEY)"
    using assms(3) by (cases "truthyStr (localStorage w ONBOARDING_STATE_KEY)") (simp_all add: parsePersistedOnboardingState_def)
  obtain r w1 where r: "restorePersistedTenant i None w = (r, w1)" by (cases "restorePersistedTenant i None w")
  have h: "hydrate initialPage w = (case (r, w1) of
      (Inr x, w1) \<Rightarrow> ((fillForm p initialPage)\<lparr>pg_tenant := Some (rs_tenant x), pg_progress := rs_progress x,
         pg_step := rs_step x, pg_restored := True\<rparr>, w1)
    | (Inl err, w1) \<Rightarrow> (let message = errorText err ''Unable to restore onboarding state'' in
         ((fillForm p initialPage)\<lparr>pg_tenant := None, pg_step := Details, pg_jobId := None, pg_job := None,
            pg_error := Some (if includesStr (toLowerCase message) ''404''
              then ''Saved onboarding session was not found. Please start again.'' else message), pg_restored := True\<rparr>,
          clearPersistedState w1)))"
    using assms(2-5) raw by (simp add: hydrate_def Let_def url r truthyStr_def)
  show ?thesis
  proof (cases r)
    case (Inl err)
    then show ?thesis using h assms(1,8) by (auto simp: Let_def)
  next
    case (Inr x)
    then have pg: "pg = (fillForm p initialPage)\<lparr>pg_tenant := Some (rs_tenant x), pg_progress := rs_progress x,
        pg_step := rs_step x, pg_restored := True\<rparr>" using h assms(1) by simp
    then have t: "rs_tenant x = t" using assms(8) by simp
    have "rs_step x = deriveStepFromTenant (tr_status (rs_tenant x)) None"
      using r Inr by (auto simp: restorePersistedTenant_def await_Inr_iff ret_def)
    then have step: "rs_step x = Waiting" using assms(9) by (simp add: t deriveStepFromTenant_def truthyStr_def)
    have "toLowerCase (tr_status t) \<noteq> ''failed''"
    proof
      assume "toLowerCase (tr_status t) = ''failed''"
      then have "normalizeTenantStatus (Some (tr_status t)) = trim ''failed''"
        by (simp add: normalizeTenantStatus_def flip: trim_toLowerCase)
      moreover have "trim ''failed'' = ''failed''" by code_simp
      ultimately show False using assms(9) by simp
    qed
    then show ?thesis
      using step unfolding pg
      by (cases e) (auto simp: pollingWanted_def tenantId_def t fillForm_def url job onboardingOffers_def OnboardingContent_def stepOffers_def
        stepView_def waitingCard_def truthyStr_def initialPage_def emailVerificationRequired_def orNull_def)
  qed
qed


lemma left_reached:
  obtains pg w' t where "hydrate initialPage (leftAtPayment None) = (pg, w')" "pg_tenant pg = Some t"
    "tr_id t = ''t1''" "normalizeTenantStatus (Some (tr_status t)) = ''pending_payment''" "pg_step pg = Waiting"
proof -
  have "(\<lambda>pg. (pg_step pg, map_option (\<lambda>t. (tr_id t, normalizeTenantStatus (Some (tr_status t)))) (pg_tenant pg)))
      (fst (hydrate initialPage (leftAtPayment None))) = (Waiting, Some (''t1'', ''pending_payment''))"
    by code_simp
  then show ?thesis
    using that [of "fst (hydrate initialPage (leftAtPayment None))" "snd (hydrate initialPage (leftAtPayment None))"] by auto
qed

theorem lost_link_dead_end_witness:
  "pg_step (fst (hydrate initialPage (leftAtPayment None))) = Waiting \<and>
   \<not> onboardingOffers (OnboardingContent False (fst (hydrate initialPage (leftAtPayment None)))) RenewLink"
proof -
  from left_reached obtain pg w' t where h: "hydrate initialPage (leftAtPayment None) = (pg, w')" "pg_tenant pg = Some t"
    "tr_id t = ''t1''" "normalizeTenantStatus (Some (tr_status t)) = ''pending_payment''" by metis
  have job: "pg_jobId readyPage = None" by (simp add: readyPage_def initialPage_def)
  have "hasWindow (leftAtPayment None)" by (simp add: leftAtPayment_def persist_def storageSet_def readyPage_def)
  then show ?thesis
    using lost_link_dead_end [OF h(1) _ left_stored _ _ _ _ h(2,4), of "''t1''" False RenewLink]
    by (simp add: h job persistedOf_def unpaidTenant_def recordOfTenant_def sampleTenant_def truthyStr_def)
qed


text \<open>
  Any failure of the restoring forgets the tenant, a lost connection as well as a missing tenant: the stored form is
  removed and the page is back at its first step.
\<close>

lemma failed_restore_forgets:
  assumes "hasWindow w" and "parsePersistedOnboardingState (localStorage w ONBOARDING_STATE_KEY) = Some p"
    and "po_tenantId p = Some i" and "i \<noteq> []"
    and "restorePersistedTenant i (Option.bind (po_checkoutUrl p) orNull) w = (Inl err, w1)"
  shows "pg_tenant (fst (hydrate initialPage w)) = None \<and> pg_step (fst (hydrate initialPage w)) = Details \<and>
    localStorage (snd (hydrate initialPage w)) ONBOARDING_STATE_KEY = None"
proof -
  have raw: "truthyStr (localStorage w ONBOARDING_STATE_KEY)"
    using assms(2) by (cases "truthyStr (localStorage w ONBOARDING_STATE_KEY)") (simp_all add: parsePersistedOnboardingState_def)
  have "entryKept ONBOARDING_STATE_KEY w (snd (restorePersistedTenant i (Option.bind (po_checkoutUrl p) orNull) w))"
    using form_kept(4) unfolding keeps_def by blast
  then have "hasWindow w1" using assms(1,5) by (simp add: entryKept_def)
  then show ?thesis
    using assms raw by (simp add: hydrate_def Let_def truthyStr_def clearPersistedState_def storageRemove_def)
qed

subsection \<open>The submit button\<close>

text \<open>
  The button that submits and the handler agree: when the button is enabled the handler refuses only a missing
  company name, which the button does not test, and otherwise sends the form; its other refusals cannot be reached
  from the page.
\<close>

theorem submit_button_agrees:
  assumes "pg_step pg = Plan" and "onboardingOffers (OnboardingContent copied pg) SubmitWorkspace"
  shows "if trim (pg_companyName pg) = []
    then submitTenant pg w = (pg\<lparr>pg_error := Some ''Company name is required.''\<rparr>, w)
    else snd (submitTenant pg w) = snd (submitTenantOnboarding \<lparr>si_subdomain = cleanSubdomain pg,
      si_companyName = pg_companyName pg, si_plan = pg_plan pg, si_chosenApp = pg_chosenApp pg\<rparr> w)"
proof -
  have b: "\<not> submitDisabled pg"
    using assms by (simp add: onboardingOffers_def OnboardingContent_def stepView_def stepOffers_def planForm_def)
  then show ?thesis
    by (auto simp: submitDisabled_def canUseSubdomain_def submitTenant_def Let_def split: option.splits prod.splits sum.splits)
qed

theorem submit_button_agrees_witness:
  "snd (submitTenant readyPage submitWorld) = snd (submitTenantOnboarding \<lparr>si_subdomain = cleanSubdomain readyPage,
     si_companyName = ''Acme'', si_plan = ''starter'', si_chosenApp = ''erpnext''\<rparr> submitWorld)"
proof -
  have f: "pg_step readyPage = Plan" "pg_companyName readyPage = ''Acme''" "pg_plan readyPage = ''starter''"
    "pg_chosenApp readyPage = ''erpnext''" by (simp_all add: readyPage_def initialPage_def)
  have "onboardingOffers (OnboardingContent False readyPage) SubmitWorkspace" by code_simp
  moreover have "trim ''Acme'' \<noteq> []" by code_simp
  ultimately show ?thesis using submit_button_agrees [of readyPage False submitWorld] by (simp add: f)
qed

end
