(* ===== verification/Workspace_Create.thy ===== *)
theory Workspace_Create
  imports Tenant_Billing
begin

section \<open>Requesting a workspace\<close>

text \<open>
  The form \<^verbatim>\<open>domains/dashboard/components/TenantCreateForm.tsx\<close> of the workspace queue, and its
  composition with the page that holds it, which is told of a created tenant.
\<close>

subsection \<open>Names\<close>

definition nameChar :: "char \<Rightarrow> char" where
  "nameChar c = (if subdomainChar c then c else CHR ''-'')"

text \<open>\<^verbatim>\<open>replace(/-+/g, "-")\<close> and \<^verbatim>\<open>replace(/^-|-$/g, "")\<close>.\<close>

fun collapseHyphens :: "string \<Rightarrow> string" where
  "collapseHyphens (a # b # cs) =
     (if a = CHR ''-'' \<and> b = CHR ''-'' then collapseHyphens (b # cs) else a # collapseHyphens (b # cs))"
| "collapseHyphens cs = cs"

definition stripEnds :: "string \<Rightarrow> string" where
  "stripEnds s =
     (let t = (case s of [] \<Rightarrow> [] | c # cs \<Rightarrow> if c = CHR ''-'' then cs else s) in
      if t \<noteq> [] \<and> last t = CHR ''-'' then butlast t else t)"

definition normalizeSubdomain :: "string \<Rightarrow> string" where
  "normalizeSubdomain input = stripEnds (collapseHyphens (map nameChar (trim (toLowerCase input))))"

subsection \<open>The form\<close>

record create_form =
  tf_subdomain :: string
  tf_companyName :: string
  tf_plan :: string
  tf_chosenApp :: string
  tf_busy :: bool
  tf_error :: "string option"
  tf_created :: "TenantCreateResponse option"

definition initialForm :: create_form where
  "initialForm = \<lparr>tf_subdomain = [], tf_companyName = [], tf_plan = ''starter'', tf_chosenApp = ''erpnext'', tf_busy = False,
     tf_error = None, tf_created = None\<rparr>"

definition isBusinessPlan :: "string \<Rightarrow> bool" where
  "isBusinessPlan plan \<longleftrightarrow> toLowerCase plan = ''business''"

definition typeSubdomain :: "string \<Rightarrow> create_form \<Rightarrow> create_form" where
  "typeSubdomain v s = s\<lparr>tf_subdomain := normalizeSubdomain v\<rparr>"

definition typeCompany :: "string \<Rightarrow> create_form \<Rightarrow> create_form" where
  "typeCompany v s = s\<lparr>tf_companyName := v\<rparr>"

definition createPlanEffect :: "create_form \<Rightarrow> create_form" where
  "createPlanEffect s = (if \<not> isBusinessPlan (tf_plan s) then s\<lparr>tf_chosenApp := ''erpnext''\<rparr> else s)"

text \<open>Choosing a plan, after which the effect runs; the menus offer only the options.\<close>

definition choosePlanOption :: "string \<Rightarrow> create_form \<Rightarrow> create_form" where
  "choosePlanOption v s =
     (if v \<in> op_id ` set PLAN_OPTIONS then (if v = tf_plan s then s else createPlanEffect (s\<lparr>tf_plan := v\<rparr>)) else s)"

definition chooseBusinessApp :: "string \<Rightarrow> create_form \<Rightarrow> create_form" where
  "chooseBusinessApp v s =
     (if isBusinessPlan (tf_plan s) \<and> v \<in> ba_id ` set BUSINESS_APP_OPTIONS then s\<lparr>tf_chosenApp := v\<rparr> else s)"

definition createPayload :: "create_form \<Rightarrow> TenantCreatePayload" where
  "createPayload s =
     \<lparr>cp_subdomain = normalizeSubdomain (tf_subdomain s), cp_company_name = trim (tf_companyName s), cp_plan = tf_plan s,
      cp_chosen_app = (if isBusinessPlan (tf_plan s) then Some (tf_chosenApp s) else None)\<rparr>"

definition createdTenant :: "TenantCreatePayload \<Rightarrow> TenantCreateResponse io" where
  "createdTenant payload =
     await (createWorkspaceTenant payload) (\<lambda>j.
       case as_TenantCreateResponse j of None \<Rightarrow> throw IllTyped | Some r \<Rightarrow> ret r)"

text \<open>
  The handler of the form, with the state of the page that holds it beside the form's own; what
  \<^verbatim>\<open>onCreated\<close> does is a handler of that page.
\<close>

definition submitForm :: "bool \<Rightarrow> (TenantCreateResponse \<Rightarrow> 'p handler) \<Rightarrow> (create_form \<times> 'p) handler" where
  "submitForm canCreate onCreated sp w =
     (let (s, p) = sp in
      if \<not> canCreate then ((s\<lparr>tf_error := Some ''Verify your email before creating a workspace.''\<rparr>, p), w)
      else if length (normalizeSubdomain (tf_subdomain s)) < 3
      then ((s\<lparr>tf_busy := False, tf_error := Some ''Subdomain must be at least 3 characters.''\<rparr>, p), w)
      else if trim (tf_companyName s) = []
      then ((s\<lparr>tf_busy := False, tf_error := Some ''Company name is required.''\<rparr>, p), w)
      else attemptCall (createdTenant (createPayload s))
        (\<lambda>result sp. within snd (\<lambda>p sp. (fst sp, p)) (onCreated result)
           ((fst sp)\<lparr>tf_created := Some result, tf_subdomain := [], tf_companyName := []\<rparr>, snd sp))
        (\<lambda>err (s, p). (s\<lparr>tf_error := Some (toWorkspaceQueueErrorMessage err ''Failed to create tenant'')\<rparr>, p))
        (\<lambda>(s, p). (s\<lparr>tf_busy := False\<rparr>, p))
        (s\<lparr>tf_busy := True, tf_error := None\<rparr>, p) w)"

definition submitDisabled_form :: "bool \<Rightarrow> create_form \<Rightarrow> bool" where
  "submitDisabled_form canCreate s \<longleftrightarrow> tf_busy s \<or> \<not> canCreate"

text \<open>The form on the queue's page.\<close>

definition createWorkspace :: "QueueConfig \<Rightarrow> (create_form \<times> queue_page) handler" where
  "createWorkspace cfg sp = submitForm (canCreateTenants (snd sp)) (onTenantCreated cfg) sp"

subsection \<open>What the form shows\<close>

definition domainPreview :: "string \<Rightarrow> create_form \<Rightarrow> string" where
  "domainPreview domainSuffix s =
     (let name = normalizeSubdomain (tf_subdomain s) in
      (if name \<noteq> [] then name else ''your-company'') @ ''.'' @ domainSuffix)"

definition selectedBusinessApp :: "create_form \<Rightarrow> string" where
  "selectedBusinessApp s =
     (case find (\<lambda>option. ba_id option = tf_chosenApp s) BUSINESS_APP_OPTIONS of
        Some b \<Rightarrow> ba_label b | None \<Rightarrow> tf_chosenApp s)"

definition createPlanMenu :: "string list" where
  "createPlanMenu = map (\<lambda>option. op_label option @ '' '' @ EM_DASH @ '' '' @ op_price option) PLAN_OPTIONS"

definition businessMenu :: "create_form \<Rightarrow> string list" where
  "businessMenu s =
     (if isBusinessPlan (tf_plan s)
      then map (\<lambda>option. ba_label option @ '' ('' @ ba_profile option @ '')'') BUSINESS_APP_OPTIONS else [])"

definition requestPreview :: "create_form \<Rightarrow> string list" where
  "requestPreview s =
     [''Plan: '' @ tf_plan s,
      if isBusinessPlan (tf_plan s) then ''Chosen app: '' @ selectedBusinessApp s
      else ''Chosen app: auto-managed by selected plan'']"

definition submitLabel :: "create_form \<Rightarrow> string" where
  "submitLabel s = (if tf_busy s then ''Submitting workspace...'' else ''Create workspace'')"

definition createdAlert :: "create_form \<Rightarrow> (string list \<times> string option) option" where
  "createdAlert s =
     (case tf_created s of None \<Rightarrow> None
      | Some c \<Rightarrow> Some
          ([''Workspace request accepted'', ''Domain: '' @ tn_domain (cr_tenant c), ''Status: '' @ tn_status (cr_tenant c)] @
             (if isBusinessPlan (tf_plan s) then [''Business focus: '' @ selectedBusinessApp s] else []) @
             (if \<not> truthyStr (cr_checkout_url c)
              then [''Checkout link not returned. Contact support if payment is expected.''] else []),
           if truthyStr (cr_checkout_url c) then cr_checkout_url c else None))"

definition verificationAlert :: "bool \<Rightarrow> string option \<Rightarrow> bool \<Rightarrow> (string list \<times> bool) option" where
  "verificationAlert canCreate notice canResend =
     (if canCreate then None
      else Some ([''Email verification required'', ''Please verify your email before creating a workspace.''] @
        (if truthyStr notice then [the notice] else []), canResend))"

subsection \<open>What a name becomes\<close>

text \<open>A clean name: allowed characters, no two hyphens in a row, none at an end.\<close>

definition cleanName :: "string \<Rightarrow> bool" where
  "cleanName t \<longleftrightarrow> list_all subdomainChar t \<and> \<not> includesStr t ''--'' \<and> (t \<noteq> [] \<longrightarrow> hd t \<noteq> CHR ''-'' \<and> last t \<noteq> CHR ''-'')"

lemma nameChar_allowed: "subdomainChar (nameChar c)"
  by (simp add: nameChar_def subdomainChar_def)

lemma nameChar_id: "list_all subdomainChar t \<Longrightarrow> map nameChar t = t"
  by (induction t) (simp_all add: nameChar_def)

lemma subdomainChar_plain: "subdomainChar c \<Longrightarrow> \<not> js_ws c \<and> lowerChar c = c"
  by (auto simp: subdomainChar_def js_ws_def lowerChar_def Let_def)

lemma plain_untouched:
  assumes "list_all subdomainChar t"
  shows "trim (toLowerCase t) = t"
proof -
  have l: "toLowerCase t = t"
    unfolding toLowerCase_def by (rule map_idI) (use assms subdomainChar_plain in \<open>auto simp: list_all_iff\<close>)
  have d: "dropWhile js_ws xs = xs" if "set xs \<subseteq> set t" for xs
    using assms that subdomainChar_plain by (cases xs) (auto simp: list_all_iff)
  show ?thesis by (simp add: l trim_def trimStart_def trimEnd_def d)
qed

lemma collapse_set: "set (collapseHyphens s) \<subseteq> set s"
  by (induction s rule: collapseHyphens.induct) auto

lemma collapse_hd: "collapseHyphens s = [] \<longleftrightarrow> s = []" "s \<noteq> [] \<Longrightarrow> hd (collapseHyphens s) = hd s"
  by (induction s rule: collapseHyphens.induct) auto

lemma prefix_one [simp]: "prefix [c] s \<longleftrightarrow> s \<noteq> [] \<and> hd s = c"
  by (cases s) auto

lemma no_double_Cons: "includesStr (a # s) ''--'' \<longleftrightarrow> a = CHR ''-'' \<and> s \<noteq> [] \<and> hd s = CHR ''-'' \<or> includesStr s ''--''"
  by (cases s) auto

lemma collapse_no_double: "\<not> includesStr (collapseHyphens s) ''--''"
proof (induction s rule: collapseHyphens.induct)
  case (1 a b cs)
  then show ?case using collapse_hd(2) [of "b # cs"] by (auto simp: no_double_Cons)
qed simp_all

lemma collapse_id: "\<not> includesStr s ''--'' \<Longrightarrow> collapseHyphens s = s"
  by (induction s rule: collapseHyphens.induct) (auto simp: no_double_Cons)

lemma includes_part: "sublist x y \<Longrightarrow> includesStr x p \<Longrightarrow> includesStr y p"
  unfolding includes_sublist by (rule sublist_order.order.trans)

lemma double_snoc: "includesStr (t @ [a, a']) ''--'' \<longleftrightarrow> includesStr (t @ [a]) ''--'' \<or> a = CHR ''-'' \<and> a' = CHR ''-''"
proof (induction t)
  case (Cons c t)
  have "(t @ [a, a'] \<noteq> [] \<and> hd (t @ [a, a']) = CHR ''-'') = (t @ [a] \<noteq> [] \<and> hd (t @ [a]) = CHR ''-'')" by (cases t) auto
  then show ?case using Cons by (simp only: append_Cons no_double_Cons) blast
qed auto

lemma stripEnds_clean:
  assumes "list_all subdomainChar s" and "\<not> includesStr s ''--''"
  shows "cleanName (stripEnds s)"
proof -
  define t where "t = (case s of [] \<Rightarrow> [] | c # cs \<Rightarrow> if c = CHR ''-'' then cs else s)"
  have t: "list_all subdomainChar t" "\<not> includesStr t ''--''" "t \<noteq> [] \<longrightarrow> hd t \<noteq> CHR ''-''"
    using assms by (auto simp: t_def no_double_Cons split: list.splits)
  have st: "stripEnds s = (if t \<noteq> [] \<and> last t = CHR ''-'' then butlast t else t)"
    by (simp add: stripEnds_def t_def Let_def)
  show ?thesis
  proof (cases "t \<noteq> [] \<and> last t = CHR ''-''")
    case True
    then obtain u where u: "t = u @ [CHR ''-'']" by (metis append_butlast_last_id)
    have "u \<noteq> [] \<longrightarrow> last u \<noteq> CHR ''-''"
      using t(2) double_snoc [of "butlast u" "last u" "CHR ''-''"] u by (cases u rule: rev_cases) auto
    moreover have "\<not> includesStr u ''--''" using t(2) u includes_part [of u t] by auto
    moreover have "u \<noteq> [] \<longrightarrow> hd u \<noteq> CHR ''-''" using t(3) u by auto
    ultimately show ?thesis using t(1) True by (simp add: st cleanName_def u)
  qed (use t in \<open>auto simp: st cleanName_def\<close>)
qed

lemma stripEnds_id: "t = [] \<or> hd t \<noteq> CHR ''-'' \<and> last t \<noteq> CHR ''-'' \<Longrightarrow> stripEnds t = t"
  by (auto simp: stripEnds_def Let_def split: list.splits)

lemma normalize_clean: "cleanName t \<Longrightarrow> normalizeSubdomain t = t"
  by (auto simp: normalizeSubdomain_def cleanName_def plain_untouched nameChar_id collapse_id intro: stripEnds_id)

lemma clean_sanitized: "cleanName t \<Longrightarrow> length t \<le> 63 \<Longrightarrow> sanitizeSubdomain t = t"
proof -
  assume c: "cleanName t" "length t \<le> 63"
  have d: "dropWhile (\<lambda>c. c = CHR ''-'') xs = xs" if "xs = [] \<or> hd xs \<noteq> CHR ''-''" for xs :: string
    using that by (cases xs) auto
  have "stripHyphens t = t" using c(1) by (auto simp: stripHyphens_def cleanName_def d hd_rev)
  then show "sanitizeSubdomain t = t" using c sanitizeSubdomain_label [of t t] by (simp add: cleanName_def)
qed

text \<open>
  Whatever is typed, the name the form asks for consists of lower-case letters, digits and
  single hyphens inside it; a name of this form is kept as it is, so that normalising twice
  changes nothing, and if it is not longer than a DNS label the onboarding flow keeps it too.
\<close>

theorem normalized_name_clean:
  "cleanName (normalizeSubdomain s) \<and>
   (cleanName s \<longleftrightarrow> normalizeSubdomain s = s) \<and>
   normalizeSubdomain (normalizeSubdomain s) = normalizeSubdomain s \<and>
   sanitizeSubdomain (take 63 (normalizeSubdomain s)) = stripHyphens (take 63 (normalizeSubdomain s))"
proof -
  have a: "list_all subdomainChar (collapseHyphens (map nameChar x))" for x
    using collapse_set [of "map nameChar x"] nameChar_allowed by (auto simp: list_all_iff)
  have c: "cleanName (normalizeSubdomain x)" for x
    unfolding normalizeSubdomain_def by (rule stripEnds_clean [OF a collapse_no_double])
  let ?t = "take 63 (normalizeSubdomain s)"
  have l: "list_all subdomainChar ?t" using c [of s] by (auto simp: cleanName_def list_all_iff dest: in_set_takeD)
  have "toLowerCase ?t = ?t"
    unfolding toLowerCase_def by (rule map_idI) (use l subdomainChar_plain in \<open>auto simp: list_all_iff\<close>)
  moreover have "filter subdomainChar ?t = ?t" using l by (auto simp: list_all_iff intro: filter_True)
  moreover have "length (stripHyphens ?t) \<le> length ?t"
    by (simp add: stripHyphens_def le_trans [OF length_dropWhile_le])
  ultimately have "sanitizeSubdomain ?t = stripHyphens ?t"
    by (simp add: sanitizeSubdomain_def)
  moreover have "cleanName s" if "normalizeSubdomain s = s" using c [of s] that by simp
  ultimately show ?thesis using c [of s] normalize_clean by blast
qed

text \<open>
  A hyphen cannot be typed: the field normalises with every key, and the hyphen just typed at
  the end is stripped. And nothing limits the length to that of a DNS label.
\<close>

lemma hyphen_cannot_be_typed:
  "tf_subdomain (typeSubdomain (normalizeSubdomain v @ ''-'') s) = normalizeSubdomain v"
proof -
  let ?t = "normalizeSubdomain v"
  have c: "cleanName ?t" using normalized_name_clean by blast
  have l: "list_all subdomainChar (?t @ ''-'')" using c by (simp add: cleanName_def subdomainChar_def)
  have "\<not> includesStr (?t @ ''-'') ''--''"
  proof (cases ?t rule: rev_cases)
    case (snoc u a)
    then show ?thesis using c double_snoc [of u a "CHR ''-''"] by (auto simp: cleanName_def)
  qed simp
  then have "normalizeSubdomain (?t @ ''-'') = stripEnds (?t @ ''-'')"
    using l by (simp add: normalizeSubdomain_def plain_untouched nameChar_id collapse_id del: map_append)
  moreover have "stripEnds (?t @ ''-'') = ?t"
    using c by (cases ?t) (simp_all add: stripEnds_def Let_def cleanName_def)
  ultimately show ?thesis by (simp add: typeSubdomain_def)
qed

lemma long_name_kept: "length (normalizeSubdomain (replicate 64 (CHR ''a''))) = 64"
proof -
  have "cleanName (replicate 64 (CHR ''a''))" by code_simp
  then show ?thesis by (simp add: normalize_clean)
qed

subsection \<open>The request\<close>

lemma addressed_create:
  assumes "P ''POST'' ''/tenants''"
  shows "keeps (addressed P) (createdTenant payload)"
proof -
  have k: "keeps (addressed P) createIdempotencyKey"
    by (simp add: keeps_def createIdempotencyKey_def addressed_same)
  show ?thesis
    unfolding createdTenant_def createWorkspaceTenant_def createTenantWorkspace_def api_createTenant_def
      createTenantWithCompatibility_def Let_def
    by (intro addressed_intros addressed_request k) (simp_all add: assms)
qed

lemma addressed_queueLoad:
  assumes "\<And>p. P ''GET'' p"
  shows "keeps (addressed P) (loadWorkspaceQueue params)"
proof -
  have "keeps (addressed P) (loadWorkspaceQueuePage q)" for q
    unfolding loadWorkspaceQueuePage_def pageOrAll_def api_listTenantsPaged_def api_listTenants_def
    by (rule keeps_await [OF transp_addressed])
      (auto split: OptionalEndpointResult.split intro!: addressed_optional addressed_intros addressed_request simp: assms)
  then show ?thesis
    unfolding loadWorkspaceQueue_def Let_def by (intro addressed_intros) auto
qed

lemma addressed_onTenantCreated:
  assumes "\<And>p. P ''GET'' p"
  shows "addressed P w (snd (onTenantCreated cfg result pg w))"
proof -
  have "addressed P w (snd (runQueueQuery cfg q w))" for q
    using addressed_queueLoad [of P "queueParams cfg q"] assms
    by (auto simp: runQueueQuery_def keeps_def split: prod.split sum.split) (metis snd_conv)+
  then show ?thesis by (simp add: onTenantCreated_def Let_def)
qed

lemma onTenantCreated_notifies:
  "wq_notifications (fst (onTenantCreated cfg result pg w)) = wq_notifications pg @
     [(NSuccess, ''Workspace requested'', ''Workspace '' @ tn_domain (cr_tenant result) @ '' is queued for setup.'')]"
  by (simp add: onTenantCreated_def runQueueQuery_def notify_def setTenantJob_def Let_def split: prod.split sum.split option.split)

lemma errorText_queue [simp]: "toWorkspaceQueueErrorMessage e ''Failed to create tenant'' \<noteq> []"
  by (simp add: toWorkspaceQueueErrorMessage_def)

text \<open>
  The form on the queue's page asks for a workspace only when the user may create one and the
  name and the company are given; it then posts to the tenants and otherwise only reads. A
  created tenant empties the form and is announced once; a failure leaves an error, everything
  typed and the page as they were; a refused form sends nothing.
\<close>

theorem workspace_request_checked:
  assumes "createWorkspace cfg (s, p) w = ((s', p'), w')"
  shows "if canCreateTenants p \<and> 3 \<le> length (cp_subdomain (createPayload s)) \<and> cp_company_name (createPayload s) \<noteq> []
    then addressed (\<lambda>m q. readsOnly m q \<or> m = ''POST'' \<and> q = ''/tenants'') w w' \<and> \<not> tf_busy s' \<and>
      (case fst (createdTenant (createPayload s) w) of
         Inr r \<Rightarrow> tf_created s' = Some r \<and> tf_subdomain s' = [] \<and> tf_companyName s' = [] \<and> tf_error s' = None \<and>
           wq_notifications p' = wq_notifications p @
             [(NSuccess, ''Workspace requested'', ''Workspace '' @ tn_domain (cr_tenant r) @ '' is queued for setup.'')]
       | Inl e \<Rightarrow> tf_subdomain s' = tf_subdomain s \<and> tf_companyName s' = tf_companyName s \<and> truthyStr (tf_error s') \<and> p' = p)
    else w' = w \<and> p' = p \<and> truthyStr (tf_error s') \<and> createPayload s' = createPayload s"
proof (cases "canCreateTenants p \<and> 3 \<le> length (cp_subdomain (createPayload s)) \<and> cp_company_name (createPayload s) \<noteq> []")
  case True
  let ?P = "\<lambda>m q. readsOnly m q \<or> m = ''POST'' \<and> q = ''/tenants''"
  let ?ok = "\<lambda>result sp. within snd (\<lambda>p sp. (fst sp, p)) (onTenantCreated cfg result)
           ((fst sp)\<lparr>tf_created := Some result, tf_subdomain := [], tf_companyName := []\<rparr>, snd sp)"
  from assms True have a: "attemptCall (createdTenant (createPayload s)) ?ok
        (\<lambda>err (s, p). (s\<lparr>tf_error := Some (toWorkspaceQueueErrorMessage err ''Failed to create tenant'')\<rparr>, p))
        (\<lambda>(s, p). (s\<lparr>tf_busy := False\<rparr>, p)) (s\<lparr>tf_busy := True, tf_error := None\<rparr>, p) w = ((s', p'), w')"
    by (simp add: createWorkspace_def submitForm_def createPayload_def)
  have "addressed ?P w w'"
    by (rule addressed_attemptCallD [OF a]) (intro addressed_create addressed_within addressed_onTenantCreated; simp)+
  moreover from a have "\<not> tf_busy s' \<and>
      (case fst (createdTenant (createPayload s) w) of
         Inr r \<Rightarrow> tf_created s' = Some r \<and> tf_subdomain s' = [] \<and> tf_companyName s' = [] \<and> tf_error s' = None \<and>
           wq_notifications p' = wq_notifications p @
             [(NSuccess, ''Workspace requested'', ''Workspace '' @ tn_domain (cr_tenant r) @ '' is queued for setup.'')]
       | Inl e \<Rightarrow> tf_subdomain s' = tf_subdomain s \<and> tf_companyName s' = tf_companyName s \<and> truthyStr (tf_error s') \<and> p' = p)"
  proof (cases rule: attemptCall_cases)
    case (ok x w1 sp1)
    from ok(2) have "sp1 = fst (?ok x (s\<lparr>tf_busy := True, tf_error := None\<rparr>, p) w1)" by simp
    then show ?thesis using ok(1,3) by (simp add: fst_within onTenantCreated_notifies)
  qed simp
  ultimately show ?thesis using True by simp
qed (use assms in \<open>auto simp: createWorkspace_def submitForm_def createPayload_def split: if_splits\<close>)

definition workspacesConfig :: QueueConfig where
  "workspacesConfig = \<lparr>qc_title = ''Workspaces'', qc_adminScope = False, qc_statusFilter = None, qc_billingFilter = None,
     qc_billingFilterMode = AndMode, qc_paymentChannelFilter = None, qc_handoffLinks = [], qc_showStatusFilter = True,
     qc_attentionNote = None\<rparr>"

definition typedForm :: create_form where
  "typedForm = typeCompany ''Acme'' (typeSubdomain ''acme'' initialForm)"

theorem workspace_request_checked_witness:
  "tf_companyName (fst (fst (createWorkspace workspacesConfig (typedForm, initialQueuePage) freshBrowser))) = ''Acme''"
proof -
  obtain s' p' w' where r: "createWorkspace workspacesConfig (typedForm, initialQueuePage) freshBrowser = ((s', p'), w')"
    by (metis prod.collapse)
  have "canCreateTenants initialQueuePage" "3 \<le> length (cp_subdomain (createPayload typedForm))"
    "cp_company_name (createPayload typedForm) \<noteq> []" "tf_companyName typedForm = ''Acme''"
    "case fst (createdTenant (createPayload typedForm) freshBrowser) of Inl e \<Rightarrow> True | _ \<Rightarrow> False"
    by code_simp+
  then show ?thesis using workspace_request_checked [OF r] r by (auto split: sum.splits)
qed

text \<open>
  The business app asked for is always one of the menu's, and the plain one for every other
  plan, whatever is chosen in whatever order.
\<close>

definition appValid :: "create_form \<Rightarrow> bool" where
  "appValid s \<longleftrightarrow> tf_chosenApp s \<in> ba_id ` set BUSINESS_APP_OPTIONS \<and>
     (\<not> isBusinessPlan (tf_plan s) \<longrightarrow> tf_chosenApp s = ''erpnext'')"

lemma erpnext_option: "''erpnext'' \<in> ba_id ` set BUSINESS_APP_OPTIONS"
  by (simp add: BUSINESS_APP_OPTIONS_def)

lemma appValid_choices:
  "appValid initialForm"
  "appValid s \<Longrightarrow> appValid (choosePlanOption v s)"
  "appValid s \<Longrightarrow> appValid (chooseBusinessApp v s)"
  "appValid s \<Longrightarrow> appValid (typeSubdomain v s)"
  "appValid s \<Longrightarrow> appValid (typeCompany v s)"
  using erpnext_option by (auto simp: appValid_def initialForm_def choosePlanOption_def createPlanEffect_def chooseBusinessApp_def
      typeSubdomain_def typeCompany_def isBusinessPlan_def js_defs)

text \<open>
  The alert of a created workspace follows the form, not the request: a later change of the plan
  adds a business focus that was never asked for.
\<close>

lemma created_alert_follows_form:
  assumes "tf_created s = Some c" and "\<not> isBusinessPlan (tf_plan s)"
  shows "\<exists>lines. map_option fst (createdAlert (choosePlanOption ''business'' s)) = Some lines \<and>
    ''Business focus: '' @ selectedBusinessApp s \<in> set lines"
proof -
  have b: "''business'' \<in> op_id ` set PLAN_OPTIONS" by (simp add: PLAN_OPTIONS_def)
  have p: "isBusinessPlan ''business''" by code_simp
  have "choosePlanOption ''business'' s = s\<lparr>tf_plan := ''business''\<rparr>"
    using b p assms(2) by (auto simp: choosePlanOption_def createPlanEffect_def)
  moreover have "selectedBusinessApp (s\<lparr>tf_plan := ''business''\<rparr>) = selectedBusinessApp s"
    by (simp add: selectedBusinessApp_def split: option.split)
  ultimately show ?thesis using assms p by (simp add: createdAlert_def)
qed

end
