(* ===== verification/Workspace_Table.thy ===== *)
theory Workspace_Table
  imports Tenant_Billing
begin

section \<open>The table of workspaces and the page of recent activity\<close>

text \<open>
  \<^verbatim>\<open>domains/dashboard/components/TenantTable.tsx\<close>, the table of the workspace queue, and
  \<^verbatim>\<open>overview/activity/page.tsx\<close>. Dates are read by the parameter \<open>time\<close>: the texts the server
  sends are dates.
\<close>

subsection \<open>Labels and counts\<close>

definition getBillingLabel :: "Tenant \<Rightarrow> string" where
  "getBillingLabel t =
     (if nullish (map_option trim (tn_billing_status t)) [] \<noteq> [] then the (tn_billing_status t)
      else if truthyStr (tn_platform_customer_id t) then ''platform_customer_linked''
      else if truthyStr (tn_payment_provider t) \<and> tn_payment_provider t \<noteq> Some ''stripe'' then the (tn_payment_provider t)
      else if truthyStr (tn_stripe_subscription_id t) then ''subscribed''
      else if truthyStr (tn_stripe_checkout_session_id t) then ''checkout_created''
      else ''n/a'')"

definition PAYMENT_ACTION_STATUSES :: "string list" where
  "PAYMENT_ACTION_STATUSES = [''pending'', ''pending_payment'', ''suspended_billing'']"

definition withStatus :: "string list \<Rightarrow> Tenant list \<Rightarrow> nat" where
  "withStatus statuses ts = length (filter (\<lambda>t. toLowerCase (tn_status t) \<in> set statuses) ts)"

definition failedCount_table :: "Tenant list \<Rightarrow> nat" where
  "failedCount_table ts = withStatus [''failed''] ts"

definition setupCount :: "Tenant list \<Rightarrow> nat" where
  "setupCount ts =
     withStatus [''pending'', ''pending_payment'', ''provisioning'', ''upgrading'', ''restoring'', ''pending_deletion''] ts"

definition liveCount :: "Tenant list \<Rightarrow> nat" where
  "liveCount ts = withStatus [''active''] ts"

text \<open>A table of counters with its keys in the order of their first use.\<close>

definition bumpEntry :: "string \<Rightarrow> (string \<times> nat) list \<Rightarrow> (string \<times> nat) list" where
  "bumpEntry k kvs =
     (if k \<in> fst ` set kvs then map (\<lambda>(k', n). (k', if k' = k then n + 1 else n)) kvs else kvs @ [(k, 1)])"

definition channelCounts :: "Tenant list \<Rightarrow> (string \<times> nat) list" where
  "channelCounts ts = fold (\<lambda>t. bumpEntry (nullish (tn_payment_channel t) ''unknown'')) ts []"

definition channelChips :: "Tenant list \<Rightarrow> string list" where
  "channelChips ts = map (\<lambda>(c, n). replaceChar (CHR ''_'') (CHR '' '') c @ '': '' @ natStr n) (channelCounts ts)"

subsection \<open>The table\<close>

text \<open>The properties of the table, with their defaults; \<open>tt_canResume\<close> and \<open>tt_canRetry\<close> say that a handler was given.\<close>

record table_props =
  tt_adminScope :: bool
  tt_canResume :: bool
  tt_resumingCheckoutTenantId :: "string option"
  tt_paymentCenterHref :: "string option"
  tt_paymentCenterLabel :: "string option"
  tt_canRetry :: bool
  tt_retryingTenantId :: "string option"
  tt_emptyStateTitle :: "string option"
  tt_emptyStateBody :: "string option"
  tt_emptyStateActionLabel :: "string option"
  tt_emptyStateActionHref :: "string option"
  tt_filterLabel :: "string option"
  tt_showPaymentChannel :: bool

datatype table_button = ResumeButton string bool | RetryButton string bool | LinkButton string string

definition renderPaymentActions :: "table_props \<Rightarrow> Tenant \<Rightarrow> table_button list" where
  "renderPaymentActions pr t =
     (let status = toLowerCase (tn_status t); busy = (tt_resumingCheckoutTenantId pr = Some (tn_id t)) in
      if status \<notin> set PAYMENT_ACTION_STATUSES then []
      else
        (if tt_canResume pr \<and> status \<in> set [''pending'', ''pending_payment'']
         then [ResumeButton (if busy then ''Opening...'' else ''Resume checkout'') busy] else []) @
        [LinkButton (nullish (tt_paymentCenterLabel pr) ''Open billing portal'')
           (nullish (tt_paymentCenterHref pr) ''/app/billing/invoices''),
         LinkButton ''Open tenant billing'' (''/app/tenants/'' @ tn_id t @ ''/billing'')])"

definition tenantIdentity :: "Tenant \<Rightarrow> string list" where
  "tenantIdentity t = [tn_company_name t, tn_subdomain t, tn_domain t, ''https://'' @ tn_domain t]"

definition channelText :: "Tenant \<Rightarrow> string" where
  "channelText t =
     (if truthyStr (tn_payment_channel t) then replaceChar (CHR ''_'') (CHR '' '') (the (tn_payment_channel t)) else EM_DASH)"

definition tenantMeta :: "(string \<Rightarrow> string option) \<Rightarrow> table_props \<Rightarrow> Tenant \<Rightarrow> Job option \<Rightarrow> string list" where
  "tenantMeta fmt pr t job =
     [''Focus: '' @ orElse (tn_chosen_app t) ''auto'', ''Billing: '' @ getBillingLabel t] @
     (if tt_showPaymentChannel pr then [''Channel: '' @ channelText t] else []) @
     [''Created: '' @ formatTimestamp fmt (Some (tn_created_at t)),
      ''Health: '' @ getTenantStatusHint (tn_status t) (tt_adminScope pr)] @
     (case job of None \<Rightarrow> [] | Some j \<Rightarrow> [''Job: '' @ jb_status j])"

definition tenantActions :: "table_props \<Rightarrow> Tenant \<Rightarrow> table_button list" where
  "tenantActions pr t =
     [LinkButton ''Details'' (''/app/tenants/'' @ tn_id t @ ''/overview''), LinkButton ''Jobs'' (''/app/tenants/'' @ tn_id t @ ''/jobs''),
      LinkButton ''Backups'' (''/app/tenants/'' @ tn_id t @ ''/backups'')] @ renderPaymentActions pr t"

definition mobileCard ::
  "(string \<Rightarrow> string option) \<Rightarrow> table_props \<Rightarrow> Tenant \<Rightarrow> Job option \<Rightarrow> string \<times> string list \<times> table_button list" where
  "mobileCard fmt pr t job =
     (nullish (getTenantRowToneSx (tn_status t)) ''background.paper'',
      tenantIdentity t @ [plan_chip.pc_label (getPlanChip (tn_plan t)), tn_status t] @ tenantMeta fmt pr t job, tenantActions pr t)"

definition retryButton :: "table_props \<Rightarrow> Tenant \<Rightarrow> table_button list" where
  "retryButton pr t =
     (let busy = (tt_retryingTenantId pr = Some (tn_id t)) in
      if toLowerCase (tn_status t) = ''failed'' \<and> tt_canRetry pr
      then [RetryButton (if busy then ''Retrying...'' else ''Retry'') busy] else [])"

definition tableRow ::
  "(string \<Rightarrow> string option) \<Rightarrow> table_props \<Rightarrow> Tenant \<Rightarrow> Job option \<Rightarrow>
   string option \<times> string list list \<times> table_button list" where
  "tableRow fmt pr t job =
     (getTenantRowToneSx (tn_status t),
      [tenantIdentity t,
       [plan_chip.pc_label (getPlanChip (tn_plan t)), ''Focus: '' @ orElse (tn_chosen_app t) ''auto''] @
         (if truthyStr (tn_payment_provider t) then [''Provider: '' @ the (tn_payment_provider t)] else []),
       [tn_status t, getTenantStatusHint (tn_status t) (tt_adminScope pr)] @
         (case job of None \<Rightarrow> [] | Some j \<Rightarrow> [''Job: '' @ jb_status j]),
       [getBillingLabel t]] @
      (if tt_showPaymentChannel pr then [[channelText t]] else []) @
      [[formatTimestamp fmt (Some (tn_created_at t))]],
      retryButton pr t @ tenantActions pr t)"

definition tableHeads :: "table_props \<Rightarrow> string list" where
  "tableHeads pr =
     [''Workspace'', ''Package / focus'', ''Health'', ''Billing''] @ (if tt_showPaymentChannel pr then [''Channel''] else []) @
     [''Created'', ''Quick actions'']"

datatype table_content =
    NoWorkspaces string string "(string \<times> string) option"
  | WorkspaceRows "string option" "string list" "(string \<times> nat) list" "string list"
      "(string option \<times> string list list \<times> table_button list) list"

definition tenantTable ::
  "(string \<Rightarrow> string option) \<Rightarrow> table_props \<Rightarrow> Tenant list \<Rightarrow> (string \<times> Job) list \<Rightarrow> table_content" where
  "tenantTable fmt pr ts jobs =
     (if ts = [] then
        (let href = nullish (tt_emptyStateActionHref pr) ''#create-tenant'' in
         NoWorkspaces (nullish (tt_emptyStateTitle pr) ''No workspaces yet'')
           (nullish (tt_emptyStateBody pr) ''Create your first workspace to start onboarding and daily operations.'')
           (if href \<noteq> [] then Some (nullish (tt_emptyStateActionLabel pr) ''Create first workspace'', href) else None))
      else WorkspaceRows (if truthyStr (tt_filterLabel pr) then tt_filterLabel pr else None)
        (if tt_showPaymentChannel pr then channelChips ts else [])
        [(''Live environments'', liveCount ts), (''In setup flow'', setupCount ts), (''Need intervention'', failedCount_table ts)]
        (tableHeads pr)
        (map (\<lambda>t. tableRow fmt pr t (map_of jobs (tn_id t))) ts))"

subsection \<open>Recent activity\<close>

record ActivitySummary =
  as_active :: nat
  as_pendingPayment :: nat
  as_provisioning :: nat
  as_suspended :: nat
  as_failed :: nat

definition countActivity :: "Tenant \<Rightarrow> ActivitySummary \<Rightarrow> ActivitySummary" where
  "countActivity t acc =
     (let status = toLowerCase (tn_status t);
          plus = (\<lambda>b n. if b then n + 1 else n) in
      \<lparr>as_active = plus (status = ''active'') (as_active acc),
       as_pendingPayment = plus (status = ''pending_payment'') (as_pendingPayment acc),
       as_provisioning = plus (status \<in> set [''provisioning'', ''pending'', ''upgrading'', ''restoring'']) (as_provisioning acc),
       as_suspended = plus (status \<in> set [''suspended'', ''suspended_admin'', ''suspended_billing'']) (as_suspended acc),
       as_failed = plus (status = ''failed'') (as_failed acc)\<rparr>)"

definition summaryFor :: "Tenant list \<Rightarrow> ActivitySummary" where
  "summaryFor ts = fold countActivity ts \<lparr>as_active = 0, as_pendingPayment = 0, as_provisioning = 0, as_suspended = 0, as_failed = 0\<rparr>"

definition entrySummary :: "string \<Rightarrow> string" where
  "entrySummary status =
     (let value = toLowerCase status in
      if value = ''active'' then ''Workspace is live and ready for daily work.''
      else if value = ''pending_payment'' then ''Waiting for payment confirmation.''
      else if value \<in> set [''pending'', ''provisioning''] then ''Setup is in progress.''
      else if value = ''upgrading'' then ''Plan upgrade is being applied.''
      else if value = ''restoring'' then ''Restore from backup is running.''
      else if value = ''suspended_billing'' then ''Access paused for billing resolution.''
      else if value = ''suspended_admin'' then ''Access paused by an administrator.''
      else if value = ''suspended'' then ''Access is paused.''
      else if value = ''failed'' then ''Last lifecycle step failed and needs attention.''
      else if value = ''pending_deletion'' \<or> value = ''deleting'' then ''Deletion is in progress.''
      else if value = ''deleted'' then ''Workspace has been removed.''
      else ''Status changed recently.'')"

record ActivityEntry =
  ae_id :: string
  ae_tenantName :: string
  ae_tenantPath :: string
  ae_timestamp :: string
  ae_status :: string
  ae_summary :: string

definition changedAt :: "Tenant \<Rightarrow> string" where
  "changedAt t = orElse (Some (tn_updated_at t)) (tn_created_at t)"

definition recentTenants :: "(string \<Rightarrow> int) \<Rightarrow> Tenant list \<Rightarrow> Tenant list" where
  "recentTenants time ts = take 8 (sort_key (\<lambda>t. - time (changedAt t)) ts)"

definition buildEntries :: "(string \<Rightarrow> int) \<Rightarrow> (string \<Rightarrow> string option) \<Rightarrow> Tenant list \<Rightarrow> ActivityEntry list" where
  "buildEntries time fmt ts =
     map (\<lambda>t. \<lparr>ae_id = tn_id t, ae_tenantName = tn_company_name t, ae_tenantPath = ''/app/tenants/'' @ tn_id t @ ''/overview'',
        ae_timestamp = formatTimestamp fmt (Some (changedAt t)), ae_status = tn_status t, ae_summary = entrySummary (tn_status t)\<rparr>)
       (recentTenants time ts)"

record activity_page =
  av_tenants :: "Tenant list"
  av_totalTenants :: int
  av_loading :: bool
  av_error :: "string option"

definition initialActivity :: activity_page where
  "initialActivity = \<lparr>av_tenants = [], av_totalTenants = 0, av_loading = True, av_error = None\<rparr>"

definition activityParams :: LoadWorkspaceQueueParams where
  "activityParams = \<lparr>lq_page = 1, lq_limit = 12, lq_showStatusFilter = False, lq_statusFilter = None,
     lq_statusFilterValue = ''all'', lq_search = [], lq_planFilter = ''all'', lq_billingFilter = None,
     lq_paymentChannelFilter = None, lq_billingFilterMode = None\<rparr>"

definition activityLoaded :: "exn + TenantQueueData \<Rightarrow> activity_page \<Rightarrow> activity_page" where
  "activityLoaded r s =
     (case r of
        Inr feed \<Rightarrow> s\<lparr>av_tenants := td_tenants feed, av_totalTenants := td_total feed, av_loading := False\<rparr>
      | Inl err \<Rightarrow> s\<lparr>av_error := Some (toWorkspaceQueueErrorMessage err ''Failed to load workspace activity.''),
          av_tenants := [], av_totalTenants := 0, av_loading := False\<rparr>)"

definition loadActivity :: "activity_page handler" where
  "loadActivity = answered (loadWorkspaceQueueData activityParams) activityLoaded"

definition needsAttention :: "Tenant list \<Rightarrow> nat" where
  "needsAttention ts =
     (let s = summaryFor ts in as_pendingPayment s + as_provisioning s + as_suspended s + as_failed s)"

definition activityCards :: "(string \<Rightarrow> int) \<Rightarrow> (string \<Rightarrow> string option) \<Rightarrow> activity_page \<Rightarrow> (string \<times> nat) list" where
  "activityCards time fmt s =
     [(''Active'', as_active (summaryFor (av_tenants s))), (''Needs attention'', needsAttention (av_tenants s)),
      (''Recent updates'', length (buildEntries time fmt (av_tenants s)))]"

definition activityFeed ::
  "(string \<Rightarrow> int) \<Rightarrow> (string \<Rightarrow> string option) \<Rightarrow> activity_page \<Rightarrow> ActivityEntry page_content" where
  "activityFeed time fmt s =
     (let entries = buildEntries time fmt (av_tenants s) in
      if av_loading s then LoadingText (''Loading activity'' @ [CHR 0xE2, CHR 0x80, CHR 0xA6])
      else Content (if entries = [] then EmptyText ''No activity yet'' else RowsShown entries))"

subsection \<open>The counts\<close>

text \<open>
  The three counts over the table are those of the operators' console for the same tenants,
  and they never count a tenant twice.
\<close>

theorem table_counts_agree:
  "liveCount ts = tc_activeCount (deriveAdminTenantCounts ts) \<and>
   setupCount ts = tc_provisioningCount (deriveAdminTenantCounts ts) \<and>
   failedCount_table ts = tc_failedCount (deriveAdminTenantCounts ts) \<and>
   liveCount ts + setupCount ts + failedCount_table ts \<le> length ts"
proof -
  have set: "setupCount ts = withStatus PROVISIONING_STATUSES_admin ts"
    by (simp only: setupCount_def PROVISIONING_STATUSES_admin_def)
  have "liveCount ts + withStatus PROVISIONING_STATUSES_admin ts + failedCount_table ts \<le> length ts"
  proof (induction ts)
    case (Cons t ts)
    then show ?case
      using adminGroups_disjoint [of "toLowerCase (tn_status t)"]
      by (simp add: adminGroups_def liveCount_def failedCount_table_def withStatus_def split: if_splits)
  qed (simp add: liveCount_def failedCount_table_def withStatus_def)
  then show ?thesis
    by (simp add: set) (simp add: liveCount_def failedCount_table_def withStatus_def deriveAdminTenantCounts_def fold_countTenant)
qed

text \<open>The chips of the payment channels count every tenant once, and each channel has one chip.\<close>

definition channelKey :: "Tenant \<Rightarrow> string" where
  "channelKey t = nullish (tn_payment_channel t) ''unknown''"

lemma bumpEntry_keys:
  assumes "distinct (map fst kvs)"
  shows "distinct (map fst (bumpEntry k kvs))"
proof (cases "k \<in> fst ` set kvs")
  case True
  have "map fst (map (\<lambda>(k', n). (k', f k' n)) kvs) = map fst kvs" for f :: "string \<Rightarrow> nat \<Rightarrow> nat"
    by (induction kvs) auto
  then show ?thesis using assms True unfolding bumpEntry_def by (simp only: if_True)
qed (use assms in \<open>simp add: bumpEntry_def\<close>)

lemma map_of_map_with_key: "map_of (map (\<lambda>(x, n). (x, f x n)) kvs) k = map_option (f k) (map_of kvs k)"
  by (induction kvs) auto

lemma bumpEntry_lookup:
  "nullish (map_of (bumpEntry k kvs) k') 0 = nullish (map_of kvs k') 0 + (if k' = k then 1 else 0)"
proof (cases "k \<in> fst ` set kvs")
  case True
  then have "map_of kvs k \<noteq> None" by (simp add: map_of_eq_None_iff)
  then show ?thesis using True map_of_map_with_key [of "\<lambda>x n. if x = k then n + 1 else n" kvs k']
    by (auto simp: bumpEntry_def nullish_def split: option.split)
next
  case False
  then have "map_of kvs k = None" by (simp add: map_of_eq_None_iff)
  then show ?thesis using False by (simp add: bumpEntry_def map_add_def nullish_def split: option.split)
qed

lemma channel_counts:
  "distinct (map fst (channelCounts ts)) \<and>
   nullish (map_of (channelCounts ts) c) 0 = length (filter (\<lambda>t. channelKey t = c) ts)"
proof -
  have "distinct (map fst kvs) \<Longrightarrow> distinct (map fst (fold (\<lambda>t. bumpEntry (channelKey t)) ts kvs)) \<and>
    nullish (map_of (fold (\<lambda>t. bumpEntry (channelKey t)) ts kvs) c) 0 =
      nullish (map_of kvs c) 0 + length (filter (\<lambda>t. channelKey t = c) ts)" for kvs
    by (induction ts arbitrary: kvs) (auto simp: bumpEntry_keys bumpEntry_lookup)
  from this [of "[]"] show ?thesis by (simp add: channelCounts_def channelKey_def)
qed

text \<open>A resume button is enabled for no tenant but those still to be paid, and a retry only for failed ones.\<close>

lemma row_actions:
  "ResumeButton l b \<in> set (tenantActions pr t) \<Longrightarrow>
     toLowerCase (tn_status t) \<in> set [''pending'', ''pending_payment''] \<and> tt_canResume pr"
  "RetryButton l b \<in> set (retryButton pr t) \<Longrightarrow> toLowerCase (tn_status t) = ''failed'' \<and> tt_canRetry pr"
  by (auto simp: tenantActions_def renderPaymentActions_def retryButton_def Let_def split: if_splits)

subsection \<open>The page of recent activity\<close>

lemma fold_countActivity:
  "fold countActivity ts c =
     \<lparr>as_active = as_active c + withStatus [''active''] ts,
      as_pendingPayment = as_pendingPayment c + withStatus [''pending_payment''] ts,
      as_provisioning = as_provisioning c + withStatus [''provisioning'', ''pending'', ''upgrading'', ''restoring''] ts,
      as_suspended = as_suspended c + withStatus [''suspended'', ''suspended_admin'', ''suspended_billing''] ts,
      as_failed = as_failed c + withStatus [''failed''] ts\<rparr>"
  by (induction ts arbitrary: c) (simp_all add: countActivity_def withStatus_def Let_def)

text \<open>
  The list of recent changes has as many entries as there are tenants, up to eight; the latest
  change comes first, and no tenant that is left out has changed later than one that is listed.
\<close>

theorem activity_most_recent:
  "length (buildEntries time fmt ts) = min 8 (length ts) \<and>
   sorted (map (\<lambda>t. - time (changedAt t)) (recentTenants time ts)) \<and>
   set (recentTenants time ts) \<subseteq> set ts \<and>
   map ae_id (buildEntries time fmt ts) = map tn_id (recentTenants time ts) \<and>
   (\<exists>rest. mset ts = mset (recentTenants time ts) + mset rest \<and>
      list_all (\<lambda>l. list_all (\<lambda>r. time (changedAt r) \<le> time (changedAt l)) rest) (recentTenants time ts))"
proof -
  define f where "f = (\<lambda>t. - time (changedAt t))"
  define xs where "xs = sort_key f ts"
  have s: "sorted (map f xs)" by (simp add: xs_def)
  have m: "mset ts = mset (take 8 xs) + mset (drop 8 xs)"
    by (metis append_take_drop_id mset_append mset_sort xs_def)
  have "sorted (map f (take 8 xs) @ map f (drop 8 xs))" using s by (metis append_take_drop_id map_append)
  then have "\<forall>l\<in>set (take 8 xs). \<forall>r\<in>set (drop 8 xs). f l \<le> f r" and s8: "sorted (map f (take 8 xs))"
    by (auto simp: sorted_append)
  then have "\<forall>l\<in>set (take 8 xs). \<forall>r\<in>set (drop 8 xs). time (changedAt r) \<le> time (changedAt l)"
    by (simp add: f_def)
  moreover have "set (take 8 xs) \<subseteq> set ts" unfolding xs_def by (metis set_take_subset set_sort)
  moreover have r: "recentTenants time ts = take 8 xs" by (simp add: recentTenants_def xs_def f_def)
  moreover have "length (buildEntries time fmt ts) = min 8 (length ts)"
    by (simp add: buildEntries_def r xs_def)
  moreover have "map ae_id (buildEntries time fmt ts) = map tn_id (recentTenants time ts)"
    by (simp add: buildEntries_def)
  ultimately show ?thesis using m s8 unfolding r f_def [symmetric] list_all_iff by blast
qed

text \<open>
  The page asks for twelve tenants and counts and sorts only those: with more tenants than that
  the total in its heading and the counts below it are about different sets, and the eight last
  changed of all need not be among them. A tenant being deleted is in none of the counts.
\<close>

lemma activity_counts_page_only:
  "lq_limit activityParams = 12"
  "fst (loadWorkspaceQueueData activityParams w) = Inr d \<Longrightarrow>
     av_totalTenants (fst (loadActivity s w)) = td_total d \<and> av_tenants (fst (loadActivity s w)) = td_tenants d"
  "tn_status t = ''pending_deletion'' \<Longrightarrow> as_active (summaryFor [t]) = 0 \<and> needsAttention [t] = 0"
proof -
  have "toLowerCase ''pending_deletion'' = ''pending_deletion''" by code_simp
  then show "tn_status t = ''pending_deletion'' \<Longrightarrow> as_active (summaryFor [t]) = 0 \<and> needsAttention [t] = 0"
    by (simp add: summaryFor_def countActivity_def needsAttention_def Let_def)
qed (simp_all add: activityParams_def loadActivity_def fst_answered activityLoaded_def)

end
