(* ===== verification/Account.thy ===== *)
theory Account
  imports Billing Optional_Section Request_Traffic
begin

section \<open>The account of the user\<close>

text \<open>
  \<^verbatim>\<open>domains/account\<close> (\<^verbatim>\<open>settingsPreferences.ts\<close>, the repository and the use cases) and the pages
  \<^verbatim>\<open>account/settings\<close> and \<^verbatim>\<open>account/profile\<close>.
\<close>

subsection \<open>Notification preferences\<close>

record NotificationPreferences =
  pf_emailAlerts :: bool
  pf_smsAlerts :: bool
  pf_billingAlerts :: bool
  pf_provisioningAlerts :: bool
  pf_supportAlerts :: bool

definition DEFAULT_PREFERENCES :: NotificationPreferences where
  "DEFAULT_PREFERENCES = \<lparr>pf_emailAlerts = True, pf_smsAlerts = True, pf_billingAlerts = True,
     pf_provisioningAlerts = True, pf_supportAlerts = True\<rparr>"

definition PREFERENCES_STORAGE_KEY :: string where
  "PREFERENCES_STORAGE_KEY = ''erp-saas:notification-preferences:v1''"

text \<open>
  The stored text may be no JSON at all, or \<^verbatim>\<open>null\<close>, whose fields cannot be read: then the
  defaults are used. A field that is missing or \<^verbatim>\<open>null\<close> has its default; a field that is no
  boolean is taken over unchecked by the sources, and the model stops with \<open>None\<close>.
\<close>

definition preferenceField :: "json \<Rightarrow> string \<Rightarrow> bool \<Rightarrow> bool option" where
  "preferenceField j k d =
     (case j of
        JObj fs \<Rightarrow> (case map_of fs k of
            None \<Rightarrow> Some d | Some JNull \<Rightarrow> Some d | Some (JBool b) \<Rightarrow> Some b | _ \<Rightarrow> None)
      | _ \<Rightarrow> Some d)"

definition parsePreferences :: "string option \<Rightarrow> NotificationPreferences option" where
  "parsePreferences raw =
     (if \<not> truthyStr raw then Some DEFAULT_PREFERENCES
      else case JSON_parse (the raw) of
        None \<Rightarrow> Some DEFAULT_PREFERENCES
      | Some JNull \<Rightarrow> Some DEFAULT_PREFERENCES
      | Some j \<Rightarrow>
          Option.bind (preferenceField j ''emailAlerts'' True) (\<lambda>e.
          Option.bind (preferenceField j ''smsAlerts'' True) (\<lambda>s.
          Option.bind (preferenceField j ''billingAlerts'' True) (\<lambda>b.
          Option.bind (preferenceField j ''provisioningAlerts'' True) (\<lambda>p.
          Option.bind (preferenceField j ''supportAlerts'' True) (\<lambda>u.
            Some \<lparr>pf_emailAlerts = e, pf_smsAlerts = s, pf_billingAlerts = b, pf_provisioningAlerts = p, pf_supportAlerts = u\<rparr>))))))"

definition fromApiPreferences :: "NotificationPreferencesApiPayload option \<Rightarrow> NotificationPreferences" where
  "fromApiPreferences payload =
     (case payload of
        None \<Rightarrow> DEFAULT_PREFERENCES
      | Some x \<Rightarrow> \<lparr>pf_emailAlerts = nullish (np_email_alerts x) (pf_emailAlerts DEFAULT_PREFERENCES),
          pf_smsAlerts = nullish (np_sms_alerts x) (pf_smsAlerts DEFAULT_PREFERENCES),
          pf_billingAlerts = nullish (np_billing_alerts x) (pf_billingAlerts DEFAULT_PREFERENCES),
          pf_provisioningAlerts = nullish (np_provisioning_alerts x) (pf_provisioningAlerts DEFAULT_PREFERENCES),
          pf_supportAlerts = nullish (np_support_alerts x) (pf_supportAlerts DEFAULT_PREFERENCES)\<rparr>)"

definition toApiPreferences :: "NotificationPreferences \<Rightarrow> NotificationPreferencesApiPayload" where
  "toApiPreferences p =
     \<lparr>np_email_alerts = Some (pf_emailAlerts p), np_sms_alerts = Some (pf_smsAlerts p),
      np_billing_alerts = Some (pf_billingAlerts p), np_provisioning_alerts = Some (pf_provisioningAlerts p),
      np_support_alerts = Some (pf_supportAlerts p)\<rparr>"

text \<open>The preferences as the object whose text \<open>parsePreferences\<close> reads.\<close>

definition json_NotificationPreferences :: "NotificationPreferences \<Rightarrow> json" where
  "json_NotificationPreferences p =
     JObj [(''emailAlerts'', JBool (pf_emailAlerts p)), (''smsAlerts'', JBool (pf_smsAlerts p)),
       (''billingAlerts'', JBool (pf_billingAlerts p)), (''provisioningAlerts'', JBool (pf_provisioningAlerts p)),
       (''supportAlerts'', JBool (pf_supportAlerts p))]"

subsection \<open>Repository and use cases\<close>

definition fetchCurrentUserProfile_account :: "UserProfile io" where
  "fetchCurrentUserProfile_account = api_getCurrentUser"

definition updateCurrentUserPhone :: "string option \<Rightarrow> UserProfile io" where
  "updateCurrentUserPhone phone = api_updateCurrentUser phone"

definition fetchBillingPortalUrl_account :: "(bool \<times> string option) io" where
  "fetchBillingPortalUrl_account =
     await api_getBillingPortal (\<lambda>result.
       case result of Unsupported \<Rightarrow> ret (False, None) | Supported d \<Rightarrow> ret (True, Some (bp_url d)))"

definition fetchBillingInvoices_account :: "(bool \<times> BillingInvoice list) io" where
  "fetchBillingInvoices_account =
     await api_listBillingInvoices (\<lambda>result.
       case result of Unsupported \<Rightarrow> ret (False, []) | Supported d \<Rightarrow> ret (True, nullish (bl_invoices d) []))"

definition fetchNotificationPreferences :: "(bool \<times> NotificationPreferences) io" where
  "fetchNotificationPreferences =
     await api_getCurrentUserNotificationPreferences (\<lambda>result.
       case result of Unsupported \<Rightarrow> ret (False, fromApiPreferences None)
       | Supported d \<Rightarrow> ret (True, fromApiPreferences (Some d)))"

definition updateNotificationPreferences :: "NotificationPreferences \<Rightarrow> (bool \<times> NotificationPreferences) io" where
  "updateNotificationPreferences p =
     await (api_updateCurrentUserNotificationPreferences (toApiPreferences p)) (\<lambda>result.
       case result of Unsupported \<Rightarrow> ret (False, p) | Supported d \<Rightarrow> ret (True, fromApiPreferences (Some d)))"

definition loadAccountProfile :: "UserProfile io" where
  "loadAccountProfile = fetchCurrentUserProfile_account"

definition loadAccountBillingPortal :: "(bool \<times> string option) io" where
  "loadAccountBillingPortal = fetchBillingPortalUrl_account"

definition loadAccountBillingInvoices :: "(bool \<times> BillingInvoice list) io" where
  "loadAccountBillingInvoices = fetchBillingInvoices_account"

definition saveAccountPhone :: "string \<Rightarrow> UserProfile io" where
  "saveAccountPhone phoneInput = updateCurrentUserPhone (orNull (trim phoneInput))"

definition loadAccountNotificationPreferences :: "(bool \<times> NotificationPreferences) io" where
  "loadAccountNotificationPreferences = fetchNotificationPreferences"

definition saveAccountNotificationPreferences :: "NotificationPreferences \<Rightarrow> (bool \<times> NotificationPreferences) io" where
  "saveAccountNotificationPreferences p = updateNotificationPreferences p"

definition toAccountErrorMessage :: "exn \<Rightarrow> string \<Rightarrow> string" where
  "toAccountErrorMessage err fallback = getApiErrorMessage err fallback"

text \<open>
  The latest invoice is the first of a stable sort by \<^verbatim>\<open>localeCompare\<close>, newest first; \<open>collate a b\<close>
  says that \<open>a\<close> is not after \<open>b\<close> in the order of the browser's locale.
\<close>

definition invoiceCreated :: "BillingInvoice \<Rightarrow> string" where
  "invoiceCreated i = nullish (bi_created_at i) []"

fun insertInvoice :: "(string \<Rightarrow> string \<Rightarrow> bool) \<Rightarrow> BillingInvoice \<Rightarrow> BillingInvoice list \<Rightarrow> BillingInvoice list" where
  "insertInvoice collate i [] = [i]"
| "insertInvoice collate i (j # js) =
     (if collate (invoiceCreated j) (invoiceCreated i) then i # j # js else j # insertInvoice collate i js)"

definition pickLatestInvoice :: "(string \<Rightarrow> string \<Rightarrow> bool) \<Rightarrow> BillingInvoice list \<Rightarrow> BillingInvoice option" where
  "pickLatestInvoice collate invoices =
     (if invoices = [] then None
      else case foldr (insertInvoice collate) invoices [] of [] \<Rightarrow> None | i # _ \<Rightarrow> Some i)"

subsection \<open>The settings\<close>

text \<open>
  A notice is cleared by a timer 2.4 seconds after it was set; \<open>st_noticeTimers\<close> holds the times of
  the timers that are set.
\<close>

record settings_page =
  st_profile :: "UserProfile option"
  st_profileLoading :: bool
  st_phoneInput :: string
  st_phoneBusy :: bool
  st_phoneNotice :: "string option"
  st_phoneError :: "string option"
  st_preferences :: NotificationPreferences
  st_preferencesBusy :: bool
  st_preferencesNotice :: "string option"
  st_preferencesError :: "string option"
  st_error :: "string option"
  st_noticeTimers :: "int list"

definition initialSettings :: settings_page where
  "initialSettings = \<lparr>st_profile = None, st_profileLoading = True, st_phoneInput = [], st_phoneBusy = False,
     st_phoneNotice = None, st_phoneError = None, st_preferences = DEFAULT_PREFERENCES, st_preferencesBusy = False,
     st_preferencesNotice = None, st_preferencesError = None, st_error = None, st_noticeTimers = []\<rparr>"

definition profileLoaded :: "exn + UserProfile \<Rightarrow> settings_page \<Rightarrow> settings_page" where
  "profileLoaded r s =
     (case r of
        Inr current \<Rightarrow> s\<lparr>st_profile := Some current, st_phoneInput := nullish (usr_phone current) [], st_error := None,
          st_profileLoading := False\<rparr>
      | Inl err \<Rightarrow> s\<lparr>st_profile := None, st_error := Some (toAccountErrorMessage err ''Failed to load user settings''),
          st_profileLoading := False\<rparr>)"

definition loadProfile :: "settings_page handler" where
  "loadProfile s = answered loadAccountProfile profileLoaded (s\<lparr>st_profileLoading := True\<rparr>)"

definition preferencesLoaded :: "exn + (bool \<times> NotificationPreferences) \<Rightarrow> settings_page \<Rightarrow> settings_page" where
  "preferencesLoaded r s =
     (case r of
        Inr (isSupported, p) \<Rightarrow> if \<not> isSupported then s else s\<lparr>st_preferences := p\<rparr>
      | Inl err \<Rightarrow> s\<lparr>st_preferencesError := Some (toAccountErrorMessage err ''Failed to load notification preferences.'')\<rparr>)"

definition loadPreferences :: "settings_page handler" where
  "loadPreferences = answered loadAccountNotificationPreferences preferencesLoaded"

definition savePhone :: "settings_page handler" where
  "savePhone s =
     attemptCall (saveAccountPhone (st_phoneInput s))
       (\<lambda>updated. staying (\<lambda>s. s\<lparr>st_profile := Some updated, st_phoneInput := nullish (usr_phone updated) [],
          st_phoneNotice := Some ''Phone number saved.''\<rparr>))
       (\<lambda>err s. s\<lparr>st_phoneError := Some (toAccountErrorMessage err ''Unable to update phone number.'')\<rparr>)
       (\<lambda>s. s\<lparr>st_phoneBusy := False\<rparr>)
       (s\<lparr>st_phoneBusy := True, st_phoneNotice := None, st_phoneError := None\<rparr>)"

definition NOTICE_TIME :: int where "NOTICE_TIME = 2400"

definition preferencesSaved :: "int \<Rightarrow> exn + (bool \<times> NotificationPreferences) \<Rightarrow> settings_page \<Rightarrow> settings_page" where
  "preferencesSaved nowMs r s =
     (case r of
        Inr (isSupported, p) \<Rightarrow>
          s\<lparr>st_preferences := p,
            st_preferencesNotice := Some (if isSupported then ''Notification preferences saved.''
              else ''Notification preferences aren'' @ [CHR 0xE2, CHR 0x80, CHR 0x99] @ ''t available on your workspace yet.''),
            st_noticeTimers := st_noticeTimers s @ [nowMs + NOTICE_TIME], st_preferencesBusy := False\<rparr>
      | Inl err \<Rightarrow> s\<lparr>st_preferencesError := Some (toAccountErrorMessage err ''Unable to save notification preferences.''),
          st_preferencesBusy := False\<rparr>)"

definition savePreferences :: "settings_page handler" where
  "savePreferences s w =
     (case saveAccountNotificationPreferences (st_preferences s) w of
        (r, w1) \<Rightarrow> (preferencesSaved (now w1) r
          (s\<lparr>st_preferencesBusy := True, st_preferencesError := None, st_preferencesNotice := None\<rparr>), w1))"

definition noticeTimers :: "int \<Rightarrow> settings_page \<Rightarrow> settings_page" where
  "noticeTimers nowMs s =
     (if list_ex (\<lambda>t. t \<le> nowMs) (st_noticeTimers s)
      then s\<lparr>st_preferencesNotice := None, st_noticeTimers := filter (\<lambda>t. nowMs < t) (st_noticeTimers s)\<rparr>
      else s)"

datatype preference_key = EmailAlerts | SmsAlerts | BillingAlerts | ProvisioningAlerts | SupportAlerts

definition preferenceOptions :: "(preference_key \<times> string \<times> string) list" where
  "preferenceOptions =
     [(EmailAlerts, ''General email'', ''Account-level updates and announcements.''),
      (SmsAlerts, ''SMS alerts'', ''Urgent payment and provisioning issues.''),
      (BillingAlerts, ''Billing'', ''Invoices, payment retries, and trial status.''),
      (ProvisioningAlerts, ''Provisioning'', ''Workspace setup, backups, and restores.''),
      (SupportAlerts, ''Support'', ''Replies and updates on support requests.'')]"

primrec preferenceOn :: "preference_key \<Rightarrow> NotificationPreferences \<Rightarrow> bool" where
  "preferenceOn EmailAlerts p = pf_emailAlerts p"
| "preferenceOn SmsAlerts p = pf_smsAlerts p"
| "preferenceOn BillingAlerts p = pf_billingAlerts p"
| "preferenceOn ProvisioningAlerts p = pf_provisioningAlerts p"
| "preferenceOn SupportAlerts p = pf_supportAlerts p"

primrec setPreference :: "preference_key \<Rightarrow> bool \<Rightarrow> NotificationPreferences \<Rightarrow> NotificationPreferences" where
  "setPreference EmailAlerts b p = p\<lparr>pf_emailAlerts := b\<rparr>"
| "setPreference SmsAlerts b p = p\<lparr>pf_smsAlerts := b\<rparr>"
| "setPreference BillingAlerts b p = p\<lparr>pf_billingAlerts := b\<rparr>"
| "setPreference ProvisioningAlerts b p = p\<lparr>pf_provisioningAlerts := b\<rparr>"
| "setPreference SupportAlerts b p = p\<lparr>pf_supportAlerts := b\<rparr>"

definition togglePreference :: "preference_key \<Rightarrow> bool \<Rightarrow> settings_page \<Rightarrow> settings_page" where
  "togglePreference k b s = s\<lparr>st_preferences := setPreference k b (st_preferences s)\<rparr>"

definition clearPhone :: "settings_page \<Rightarrow> settings_page" where
  "clearPhone s = (if st_phoneBusy s then s else s\<lparr>st_phoneInput := []\<rparr>)"

text \<open>What the page shows.\<close>

datatype settings_content =
  SettingsLoading string | SettingsError string | SettingsEmpty string
| SettingsShown string string "(string \<times> bool) list"

definition ELLIPSIS :: string where
  "ELLIPSIS = [CHR 0xE2, CHR 0x80, CHR 0xA6]"

definition settingsContent :: "settings_page \<Rightarrow> settings_content" where
  "settingsContent s =
     (if st_profileLoading s then SettingsLoading (''Loading account settings'' @ ELLIPSIS)
      else case st_profile s of
        Some p \<Rightarrow> SettingsShown (usr_email p) (if usr_email_verified p then ''Verified'' else ''Pending verification'')
          (map (\<lambda>(k, l, _). (l, preferenceOn k (st_preferences s))) preferenceOptions)
      | None \<Rightarrow> if truthyStr (st_error s) then SettingsError (the (st_error s))
          else SettingsEmpty ''Account profile unavailable'')"

subsection \<open>The profile\<close>

record profile_page =
  pp_profile :: "UserProfile option"
  pp_profileError :: "string option"
  pp_portalUrl :: "string option"
  pp_portalError :: "string option"
  pp_invoices :: "BillingInvoice list"
  pp_invoiceError :: "string option"
  pp_invoicesSupported :: bool

definition initialProfile :: profile_page where
  "initialProfile = \<lparr>pp_profile = None, pp_profileError = None, pp_portalUrl = None, pp_portalError = None,
     pp_invoices = [], pp_invoiceError = None, pp_invoicesSupported = True\<rparr>"

definition ownProfileLoaded :: "exn + UserProfile \<Rightarrow> profile_page \<Rightarrow> profile_page" where
  "ownProfileLoaded r s =
     (case r of Inr next_ \<Rightarrow> s\<lparr>pp_profile := Some next_, pp_profileError := None\<rparr>
      | Inl err \<Rightarrow> s\<lparr>pp_profileError := Some (toAccountErrorMessage err ''Failed to load profile'')\<rparr>)"

definition portalLoaded :: "exn + (bool \<times> string option) \<Rightarrow> profile_page \<Rightarrow> profile_page" where
  "portalLoaded r s =
     (case r of
        Inr (isSupported, url) \<Rightarrow> if \<not> isSupported then s\<lparr>pp_portalUrl := None\<rparr> else s\<lparr>pp_portalUrl := url\<rparr>
      | Inl err \<Rightarrow> s\<lparr>pp_portalError := Some (toAccountErrorMessage err ''Billing portal unavailable'')\<rparr>)"

definition ownInvoicesLoaded :: "exn + (bool \<times> BillingInvoice list) \<Rightarrow> profile_page \<Rightarrow> profile_page" where
  "ownInvoicesLoaded r s =
     (case r of
        Inr (isSupported, is) \<Rightarrow>
          if \<not> isSupported then s\<lparr>pp_invoicesSupported := False, pp_invoices := []\<rparr>
          else s\<lparr>pp_invoicesSupported := True, pp_invoices := is\<rparr>
      | Inl err \<Rightarrow> s\<lparr>pp_invoiceError := Some (toAccountErrorMessage err ''Failed to load invoices'')\<rparr>)"

text \<open>The effects of the page, each of which runs once.\<close>

definition profileEffects :: "profile_page handler" where
  "profileEffects =
     afterwards (answered loadAccountProfile ownProfileLoaded)
       (afterwards (answered loadAccountBillingPortal portalLoaded) (answered loadAccountBillingInvoices ownInvoicesLoaded))"

definition profileDetails :: "profile_page \<Rightarrow> (string \<times> string) list" where
  "profileDetails s =
     [(''Email'', (case pp_profile s of Some p \<Rightarrow> usr_email p | None \<Rightarrow> EM_DASH)),
      (''Role'', (case pp_profile s of Some p \<Rightarrow> usr_role p | None \<Rightarrow> EM_DASH)),
      (''Phone'', orElse (Option.bind (pp_profile s) usr_phone) ''Not set'')]"

text \<open>The chip of the verification, with the link that is offered beside it.\<close>

definition verificationChip :: "profile_page \<Rightarrow> string \<times> string option" where
  "verificationChip s =
     (let verified = (case pp_profile s of Some p \<Rightarrow> usr_email_verified p | None \<Rightarrow> False) in
      (if verified then ''Verified'' else ''Pending'', if \<not> verified then Some ''/verify-email'' else None))"

definition portalButton :: "profile_page \<Rightarrow> string \<times> string" where
  "portalButton s =
     (if truthyStr (pp_portalUrl s) then (''Open invoice portal'', the (pp_portalUrl s))
      else (''View invoices'', ''/app/billing/invoices''))"

datatype invoice_card = InvoicesMissing string | LatestInvoice "string list" "string option" | NoInvoices string

definition invoiceCard ::
  "(string \<Rightarrow> string \<Rightarrow> bool) \<Rightarrow> (string \<Rightarrow> int \<Rightarrow> string option) \<Rightarrow> (string \<Rightarrow> string option) \<Rightarrow> profile_page \<Rightarrow> invoice_card" where
  "invoiceCard collate money fmt s =
     (if \<not> pp_invoicesSupported s then InvoicesMissing ''Invoice history''
      else case pickLatestInvoice collate (pp_invoices s) of
        Some i \<Rightarrow> LatestInvoice
          [formatMoney money (bi_amount_due i) (bi_currency i), nullish (bi_status i) ''unknown'', formatTimestamp fmt (bi_created_at i)]
          (if truthyStr (bi_hosted_invoice_url i) then bi_hosted_invoice_url i else None)
      | None \<Rightarrow> NoInvoices ''No invoices billed yet.'')"

subsection \<open>Preferences go around\<close>

lemma parsePreferences_stored:
  "JSON_parse txt = Some (json_NotificationPreferences p) \<Longrightarrow> txt \<noteq> [] \<Longrightarrow> parsePreferences (Some txt) = Some p"
  by (simp add: parsePreferences_def json_NotificationPreferences_def preferenceField_def)

text \<open>
  Preferences survive both of their formats: what is sent to the server and read back is what
  was set, and so is what is stored as text and parsed.
\<close>

theorem preferences_roundtrip:
  "fromApiPreferences (as_NotificationPreferencesApiPayload
     (json_NotificationPreferencesApiPayload (toApiPreferences p))) = p \<and>
   parsePreferences (Some (JSON_stringify (json_NotificationPreferences p))) = Some p"
proof -
  have "as_NotificationPreferencesApiPayload (json_NotificationPreferencesApiPayload (toApiPreferences p)) = Some (toApiPreferences p)"
    by (simp add: as_NotificationPreferencesApiPayload_def json_NotificationPreferencesApiPayload_def toApiPreferences_def
        boolField_def optBool_def optVal_def)
  moreover have "fromApiPreferences (Some (toApiPreferences p)) = p"
    by (simp add: fromApiPreferences_def toApiPreferences_def)
  moreover have "JSON_parse [] = None" by code_simp
  then have "JSON_stringify (json_NotificationPreferences p) \<noteq> []"
    using JSON_parse_stringify [of "json_NotificationPreferences p"] by auto
  then have "parsePreferences (Some (JSON_stringify (json_NotificationPreferences p))) = Some p"
    by (rule parsePreferences_stored [OF JSON_parse_stringify])
  ultimately show ?thesis by simp
qed

text \<open>Whatever is stored, reading it never fails for a text that is no object.\<close>

lemma parsePreferences_default:
  "\<not> truthyStr raw \<Longrightarrow> parsePreferences raw = Some DEFAULT_PREFERENCES"
  "JSON_parse txt = None \<Longrightarrow> parsePreferences (Some txt) = Some DEFAULT_PREFERENCES"
  "JSON_parse txt = Some JNull \<Longrightarrow> parsePreferences (Some txt) = Some DEFAULT_PREFERENCES"
  by (simp_all add: parsePreferences_def)

text \<open>
  Saving the preferences leaves the page with what the server has stored, or with what was
  chosen when the server does not know them or the save failed; it says which, and is not busy.
\<close>

theorem saved_preferences_shown:
  assumes "savePreferences s w = (s', w')"
  shows "\<not> st_preferencesBusy s' \<and>
    (case fst (api_updateCurrentUserNotificationPreferences (toApiPreferences (st_preferences s)) w) of
       Inl e \<Rightarrow> st_preferences s' = st_preferences s \<and> st_preferencesError s' \<noteq> None \<and> st_preferencesNotice s' = None
     | Inr Unsupported \<Rightarrow> st_preferences s' = st_preferences s \<and> st_preferencesError s' = None \<and> st_preferencesNotice s' \<noteq> None
     | Inr (Supported d) \<Rightarrow> st_preferences s' = fromApiPreferences (Some d) \<and> st_preferencesError s' = None \<and>
         st_preferencesNotice s' = Some ''Notification preferences saved.'')"
  using assms
  by (auto simp: savePreferences_def saveAccountNotificationPreferences_def updateNotificationPreferences_def io_simps
      preferencesSaved_def split: prod.splits sum.splits OptionalEndpointResult.splits)

theorem saved_preferences_shown_witness:
  "let s' = fst (savePreferences (togglePreference SmsAlerts False initialSettings) freshBrowser) in
   \<not> pf_smsAlerts (st_preferences s') \<and> st_preferencesError s' \<noteq> None"
proof -
  let ?s = "togglePreference SmsAlerts False initialSettings"
  obtain s' w' where s': "savePreferences ?s freshBrowser = (s', w')" by (metis prod.collapse)
  have "case fst (api_updateCurrentUserNotificationPreferences (toApiPreferences (st_preferences ?s)) freshBrowser) of
      Inl e \<Rightarrow> True | _ \<Rightarrow> False" by code_simp
  moreover have "\<not> pf_smsAlerts (st_preferences ?s)" by (simp add: togglePreference_def)
  ultimately show ?thesis using saved_preferences_shown [OF s'] s' by (auto simp: Let_def split: sum.splits)
qed

subsection \<open>The latest invoice\<close>

lemma insertInvoice_set [simp]: "set (insertInvoice collate i js) = insert i (set js)"
  by (induction js) auto

lemma insertInvoice_hd:
  assumes "js = [] \<or> (\<forall>j \<in> set js. collate (invoiceCreated j) (invoiceCreated (hd js)))"
    and total: "\<And>a b. collate a b \<or> collate b a" and trans: "\<And>a b c. collate a b \<Longrightarrow> collate b c \<Longrightarrow> collate a c"
  shows "\<forall>j \<in> set (insertInvoice collate i js). collate (invoiceCreated j) (invoiceCreated (hd (insertInvoice collate i js)))"
proof (cases js)
  case Nil
  then show ?thesis using total [of "invoiceCreated i" "invoiceCreated i"] by simp
next
  case (Cons j ks)
  have top: "collate (invoiceCreated x) (invoiceCreated j)" if "x \<in> set js" for x using assms(1) that Cons by auto
  show ?thesis
  proof (cases "collate (invoiceCreated j) (invoiceCreated i)")
    case True
    then have "collate (invoiceCreated x) (invoiceCreated i)" if "x \<in> set js" for x using top [OF that] trans by blast
    then show ?thesis using True Cons total [of "invoiceCreated i" "invoiceCreated i"] by auto
  next
    case False
    then have "collate (invoiceCreated i) (invoiceCreated j)" using total by blast
    then show ?thesis using False Cons top by auto
  qed
qed

text \<open>
  The invoice the profile shows is one of the list that no other is newer than, and there is
  one exactly when the list is not empty.
\<close>

theorem latest_invoice_newest:
  assumes "\<And>a b. collate a b \<or> collate b a" and "\<And>a b c. collate a b \<Longrightarrow> collate b c \<Longrightarrow> collate a c"
  shows "case pickLatestInvoice collate is of
      None \<Rightarrow> is = []
    | Some i \<Rightarrow> i \<in> set is \<and> list_all (\<lambda>j. collate (invoiceCreated j) (invoiceCreated i)) is"
proof -
  let ?s = "foldr (insertInvoice collate) is []"
  have set: "set ?s = set is" by (induction "is") auto
  have "?s = [] \<or> (\<forall>j \<in> set ?s. collate (invoiceCreated j) (invoiceCreated (hd ?s)))"
  proof (induction "is")
    case (Cons i "is")
    show ?case using insertInvoice_hd [OF Cons assms] by simp
  qed simp
  then show ?thesis
  proof
    assume "?s = []"
    then show ?thesis using set by (simp add: pickLatestInvoice_def)
  next
    assume top: "\<forall>j \<in> set ?s. collate (invoiceCreated j) (invoiceCreated (hd ?s))"
    show ?thesis
    proof (cases ?s)
      case (Cons i js)
      then have "i \<in> set is" using set by auto
      then have "is \<noteq> []" by auto
      then have "pickLatestInvoice collate is = Some i" using Cons by (simp add: pickLatestInvoice_def)
      moreover have "list_all (\<lambda>j. collate (invoiceCreated j) (invoiceCreated i)) is"
      proof -
        have "set is = insert i (set js)" using set Cons by simp
        then show ?thesis using top Cons by (simp add: list_all_iff)
      qed
      ultimately show ?thesis using \<open>i \<in> set is\<close> by simp
    qed (use set in \<open>simp add: pickLatestInvoice_def\<close>)
  qed
qed

definition invoiceAt :: "string \<Rightarrow> string \<Rightarrow> BillingInvoice" where
  "invoiceAt i t = \<lparr>bi_id = i, bi_status = None, bi_amount_due = Some 125000, bi_amount_paid = None, bi_currency = Some ''TZS'',
     bi_collection_method = None, bi_payment_method_types = None, bi_metadata = None, bi_hosted_invoice_url = None,
     bi_invoice_pdf = None, bi_created_at = Some t\<rparr>"

theorem latest_invoice_newest_witness:
  "case pickLatestInvoice (\<lambda>a b. length a \<le> length b) [invoiceAt ''a'' ''1'', invoiceAt ''b'' ''12''] of
     None \<Rightarrow> False | Some i \<Rightarrow> list_all (\<lambda>j. length (invoiceCreated j) \<le> length (invoiceCreated i)) [invoiceAt ''a'' ''1'', invoiceAt ''b'' ''12'']"
proof -
  let ?is = "[invoiceAt ''a'' ''1'', invoiceAt ''b'' ''12'']" and ?c = "\<lambda>a b :: string. length a \<le> length b"
  have "case pickLatestInvoice ?c ?is of None \<Rightarrow> ?is = []
    | Some i \<Rightarrow> i \<in> set ?is \<and> list_all (\<lambda>j. ?c (invoiceCreated j) (invoiceCreated i)) ?is"
    by (rule latest_invoice_newest) auto
  then show ?thesis by (cases "pickLatestInvoice ?c ?is") simp_all
qed

subsection \<open>Shortcomings\<close>

text \<open>The same amount is printed as whole units by one helper and as hundredths by the other.\<close>

lemma amount_due_two_scales:
  "formatAmount money (Some n) currency = nullish (money currency (100 * n)) (intStr n @ '' '' @ currency)"
  "toUpperCase (orElse (Some currency) ''USD'') = currency \<Longrightarrow>
   formatMoney money (Some n) (Some currency) = nullish (money currency n) (fixed2 n @ '' '' @ currency)"
  by (simp_all add: formatAmount_def formatMoney_def Let_def)

text \<open>The timer of one save clears the notice of the next.\<close>

lemma notice_cleared_early:
  "let s1 = preferencesSaved 0 (Inr (True, p)) initialSettings;
       s2 = preferencesSaved 2000 (Inr (True, p)) s1 in
   st_preferencesNotice s2 \<noteq> None \<and> st_preferencesNotice (noticeTimers 2400 s2) = None"
  by (simp add: preferencesSaved_def noticeTimers_def initialSettings_def NOTICE_TIME_def Let_def)

text \<open>A choice made before the preferences have arrived is overwritten by their arrival.\<close>

lemma early_choice_lost:
  "pf_smsAlerts (st_preferences (preferencesLoaded (Inr (True, DEFAULT_PREFERENCES)) (togglePreference SmsAlerts False initialSettings)))"
  by (simp add: preferencesLoaded_def DEFAULT_PREFERENCES_def)

text \<open>
  Without a profile, be it still under way or failed, the page says that the address is to be
  verified; without an answer about invoices it says that there are none.
\<close>

lemma unknown_shown_as_pending:
  "let s = ownInvoicesLoaded (Inl e) (ownProfileLoaded (Inl e) initialProfile) in
   verificationChip s = (''Pending'', Some ''/verify-email'') \<and> invoiceCard collate money fmt s = NoInvoices ''No invoices billed yet.''"
  by (simp add: ownInvoicesLoaded_def ownProfileLoaded_def initialProfile_def verificationChip_def invoiceCard_def
      pickLatestInvoice_def Let_def)

end
