(* ===== verification/Workspace_Pages.thy ===== *)
theory Workspace_Pages
  imports Workspace_Create Workspace_Table Tenant_Support Account Platform_Health Site_Redirects
begin

section \<open>The pages of the workspace queue\<close>

text \<open>
  What \<^verbatim>\<open>domains/dashboard/components/WorkspaceQueuePage.tsx\<close> shows of the state of the theory
  Workspace_Queue, with the table of Workspace_Table and the form of Workspace_Create, and the
  nine pages of \<^verbatim>\<open>workspace-pages\<close> that are this page with other properties. Of the query the screen
  keeps whether it is under way and when it last answered, of the two mutations the tenant they were
  last called with, which the library keeps after they are settled.
\<close>

subsection \<open>Properties\<close>

datatype CardTone = DefaultTone | GoodCard | WarnTone

record QueuePageProps = QueueConfig +
  qp_description :: string
  qp_callout :: "(string \<times> string \<times> CardTone) option"
  qp_showCreate :: bool
  qp_showMetrics :: bool
  qp_showAttention :: bool
  qp_showActionCenter :: bool
  qp_showBillingAlert :: bool
  qp_emptyStateTitle :: "string option"
  qp_emptyStateBody :: "string option"
  qp_emptyStateActionLabel :: "string option"
  qp_emptyStateActionHref :: "string option"

definition config :: "QueuePageProps \<Rightarrow> QueueConfig" where
  "config pr = QueueConfig.truncate pr"

record queue_screen =
  sc_page :: queue_page
  sc_fetching :: bool
  sc_updatedAt :: "string option"
  sc_resending :: bool
  sc_resumed :: "string option"
  sc_retried :: "string option"

definition openedScreen :: queue_screen where
  "openedScreen = \<lparr>sc_page = initialQueuePage, sc_fetching = True, sc_updatedAt = None, sc_resending = False,
     sc_resumed = None, sc_retried = None\<rparr>"

subsection \<open>The sections\<close>

definition headerActions :: "QueuePageProps \<Rightarrow> queue_screen \<Rightarrow> (string \<times> string option \<times> bool) list" where
  "headerActions pr s =
     (if qp_showCreate pr then [(''New workspace'', Some ''#create-tenant'', False)] else []) @
     [(if sc_fetching s then ''Refreshing...'' else ''Refresh data'', None, sc_fetching s)]"

definition pageOverline :: "QueuePageProps \<Rightarrow> string" where
  "pageOverline pr = (if qc_adminScope pr then ''Operations'' else ''Workspace'')"

definition lastUpdatedLabel :: "queue_screen \<Rightarrow> string" where
  "lastUpdatedLabel s = nullish (sc_updatedAt s) ''Not refreshed yet''"

record attention_panel =
  ap_chip :: "string \<times> bool"
  ap_summary :: string
  ap_counts :: "(string \<times> nat) list"
  ap_pulse :: "(string \<times> string) list"

definition attentionPanel :: "QueuePageProps \<Rightarrow> queue_screen \<Rightarrow> attention_panel option" where
  "attentionPanel pr s =
     (let m = queueSnapshot (sc_page s); n = qm_needsAttentionCount m in
      if qp_showAttention pr
      then Some \<lparr>ap_chip = (if n \<noteq> 0 then (natStr n @ '' item(s) need review'', True) else (''No blockers right now'', False)),
        ap_summary = attentionSummary (config pr) (sc_page s),
        ap_counts = [(''Failed workspaces: '', qm_failedTenants m), (''Provisioning queue: '', qm_provisioningTenants m),
          (''Live jobs: '', activeJobs (sc_page s))],
        ap_pulse = [(if qc_adminScope pr then ''Ops pulse'' else ''Workspace pulse'', []),
          (''Last refresh'', lastUpdatedLabel s),
          (''Coverage note'',
             if qc_adminScope pr then ''Designed for branch teams running on laptop + phone across Tanzania.''
             else ''Designed for customer teams running sales, finance, and stock workflows across Tanzania.''),
          (''Next best action'',
             if n > 0 then
               (if qc_adminScope pr then ''Review failed or provisioning workspaces first.''
                else ''Review pending payments and setup blockers first.'')
             else ''Audit active tenants or queue new workspaces.'')]\<rparr>
      else None)"

definition verificationAlert_queue :: "queue_screen \<Rightarrow> (string \<times> (string \<times> bool) \<times> string option) option" where
  "verificationAlert_queue s =
     (case wq_user (sc_page s) of
        None \<Rightarrow> None
      | Some u \<Rightarrow>
          if usr_email_verified u then None
          else Some (''Verify '' @ usr_email u @ '' before creating a workspace. Check your inbox for the verification link.'',
            (if sc_resending s then ''Sending...'' else ''Resend verification'', sc_resending s),
            if truthyStr (wq_verificationNotice (sc_page s)) then wq_verificationNotice (sc_page s) else None))"

record metric_card_queue =
  mq_label :: string
  mq_value :: nat
  mq_hint :: string
  mq_toneSx :: "string \<times> string \<times> string"

definition metricCard_queue :: "string \<Rightarrow> nat \<Rightarrow> string \<Rightarrow> CardTone \<Rightarrow> metric_card_queue" where
  "metricCard_queue label value hint tone =
     \<lparr>mq_label = label, mq_value = value, mq_hint = hint,
      mq_toneSx = (case tone of
         GoodCard \<Rightarrow> (''#a7f3d0'', ''#ecfdf5'', ''#065f46'')
       | WarnTone \<Rightarrow> (''#fcd34d'', ''#fffbeb'', ''#92400e'')
       | DefaultTone \<Rightarrow> (''divider'', ''background.paper'', ''text.primary''))\<rparr>"

definition metricCards_queue :: "QueuePageProps \<Rightarrow> queue_screen \<Rightarrow> metric_card_queue list" where
  "metricCards_queue pr s =
     (let m = queueSnapshot (sc_page s) in
      if qp_showMetrics pr
      then [metricCard_queue ''Total workspaces'' (qm_totalTenants m) ''All customer environments under management'' DefaultTone,
        metricCard_queue ''Healthy'' (qm_activeTenants m) ''Ready for daily sales, stock, and finance activity'' GoodCard,
        metricCard_queue ''In setup'' (qm_provisioningTenants m) ''Still being provisioned or awaiting payment checks'' WarnTone,
        metricCard_queue ''Needs follow-up'' (qm_failedTenants m)
          (if qc_adminScope pr then ''Provisioning failed and requires operator action''
           else ''Provisioning failed and needs support follow-up'')
          (if qm_failedTenants m > 0 then WarnTone else DefaultTone)]
      else [])"

definition actionCenter :: "QueuePageProps \<Rightarrow> queue_screen \<Rightarrow> (string \<times> string \<times> (string \<times> nat) list) option" where
  "actionCenter pr s =
     (if qp_showActionCenter pr
      then Some (if qc_adminScope pr then ''Queues that need attention'' else ''Workspace priorities'',
        if qc_adminScope pr then ''Inspired by AWS Health dashboards'' else ''Journey-first workspace routing'',
        actionCenterCards (qc_adminScope pr) (queueSnapshot (sc_page s)))
      else None)"

definition calloutAlert :: "QueuePageProps \<Rightarrow> (string \<times> string \<times> string) option" where
  "calloutAlert pr =
     (case qp_callout pr of None \<Rightarrow> None
      | Some (title, body, tone) \<Rightarrow> Some (if tone = WarnTone then ''warning'' else ''info'', title, body))"

definition billingFollowUpLabel :: "QueuePageProps \<Rightarrow> string" where
  "billingFollowUpLabel pr = (if qc_adminScope pr then ''Go to billing follow-ups'' else ''Open billing portal'')"

record billing_alert =
  ba_body :: string
  ba_followUp :: "string \<times> string"
  ba_portal :: "string option"
  ba_error :: "string option"

definition billingAlert :: "QueuePageProps \<Rightarrow> queue_screen \<Rightarrow> billing_alert option" where
  "billingAlert pr s =
     (let pg = sc_page s; n = qm_billingQueueCount (queueSnapshot pg) in
      if qp_showBillingAlert pr \<and> n > 0
      then Some \<lparr>ba_body = natStr n @
          '' workspace(s) need payment attention (pending, suspended, or unpaid). Direct them to settle invoices so provisioning and upgrades can resume.'',
        ba_followUp = (billingFollowUpLabel pr, billingFollowUpHref (config pr)),
        ba_portal = (if truthyStr (wq_billingPortalUrl pg) then wq_billingPortalUrl pg else None),
        ba_error = (if truthyStr (wq_billingPortalError pg) then wq_billingPortalError pg else None)\<rparr>
      else None)"

definition planOptions_queue :: "string list" where
  "planOptions_queue = [''all'', ''starter'', ''business'', ''enterprise'']"

text \<open>The filter of the status is a menu, or the text of the page's own filter.\<close>

definition statusFilterShown :: "QueuePageProps \<Rightarrow> string list + string" where
  "statusFilterShown pr =
     (if qc_showStatusFilter pr then Inl (statusOptions (qc_adminScope pr))
      else Inr (case qc_statusFilter pr of
         Some (st # sts) \<Rightarrow> ''Queue: '' @ joinWith '', '' (map (replaceFirst (CHR ''_'') (CHR '' '')) (st # sts))
       | _ \<Rightarrow> ''All statuses''))"

definition loadingRoute :: "queue_screen \<Rightarrow> bool" where
  "loadingRoute s \<longleftrightarrow> sc_fetching s \<and> visibleTenants (sc_page s) = [] \<and> queueErrorText (sc_page s) = None"

definition tableProps :: "QueuePageProps \<Rightarrow> queue_screen \<Rightarrow> table_props" where
  "tableProps pr s =
     (let channels = nullish (qc_paymentChannelFilter pr) [] in
      \<lparr>tt_adminScope = qc_adminScope pr, tt_canResume = True, tt_resumingCheckoutTenantId = sc_resumed s,
       tt_paymentCenterHref = Some (billingFollowUpHref (config pr)), tt_paymentCenterLabel = Some (billingFollowUpLabel pr),
       tt_canRetry = True, tt_retryingTenantId = sc_retried s,
       tt_emptyStateTitle = qp_emptyStateTitle pr, tt_emptyStateBody = qp_emptyStateBody pr,
       tt_emptyStateActionLabel = qp_emptyStateActionLabel pr, tt_emptyStateActionHref = qp_emptyStateActionHref pr,
       tt_filterLabel = (if channels \<noteq> []
         then Some (''Payment channel filter: '' @ replaceChar (CHR ''_'') (CHR '' '') (joinWith '', '' channels)) else None),
       tt_showPaymentChannel = (channels \<noteq> [])\<rparr>)"

datatype queue_body = LoadingQueue string | QueueFailed string | QueueTable table_content

definition queueBody :: "(string \<Rightarrow> string option) \<Rightarrow> QueuePageProps \<Rightarrow> queue_screen \<Rightarrow> queue_body" where
  "queueBody fmt pr s =
     (if loadingRoute s then LoadingQueue (''Loading workspace queue'' @ ELLIPSIS)
      else if showRouteError (sc_page s) then QueueFailed (nullish (queueErrorText (sc_page s)) ''Failed to load workspace queue.'')
      else QueueTable (tenantTable fmt (tableProps pr s) (visibleTenants (sc_page s)) (wq_jobs (sc_page s))))"

definition pager_queue :: "queue_screen \<Rightarrow> string \<times> bool \<times> bool" where
  "pager_queue s =
     (let pg = sc_page s in
      (''Page '' @ intStr (wq_page pg) @ '' of '' @ intStr (totalPages pg) @ '' '' @ BULLET @ '' '' @ intStr (queueTotal pg) @ '' workspaces'',
       wq_page pg \<le> 1, wq_page pg \<ge> totalPages pg))"

record queue_view =
  qv_header :: "string \<times> string \<times> string \<times> (string \<times> string option) list"
  qv_actions :: "(string \<times> string option \<times> bool) list"
  qv_attention :: "attention_panel option"
  qv_verification :: "(string \<times> (string \<times> bool) \<times> string option) option"
  qv_metrics :: "metric_card_queue list"
  qv_actionCenter :: "(string \<times> string \<times> (string \<times> nat) list) option"
  qv_handoff :: "(string \<times> string) list"
  qv_callout :: "(string \<times> string \<times> string) option"
  qv_billing :: "billing_alert option"
  qv_search :: string
  qv_plan :: "string \<times> string list"
  qv_status :: "string list + string"
  qv_create :: "(bool \<times> string option) option"
  qv_error :: "string option"
  qv_body :: queue_body
  qv_pager :: "string \<times> bool \<times> bool"

definition queueView :: "(string \<Rightarrow> string option) \<Rightarrow> QueuePageProps \<Rightarrow> queue_screen \<Rightarrow> queue_view" where
  "queueView fmt pr s =
     (let pg = sc_page s in
      \<lparr>qv_header = (pageOverline pr, qc_title pr, qp_description pr, headerCrumbs (config pr)),
       qv_actions = headerActions pr s, qv_attention = attentionPanel pr s, qv_verification = verificationAlert_queue s,
       qv_metrics = metricCards_queue pr s, qv_actionCenter = actionCenter pr s, qv_handoff = visibleHandoffLinks (config pr),
       qv_callout = calloutAlert pr, qv_billing = billingAlert pr s,
       qv_search = wq_search pg, qv_plan = (wq_planFilter pg, planOptions_queue), qv_status = statusFilterShown pr,
       qv_create = (if qp_showCreate pr then Some (canCreateTenants pg, wq_verificationNotice pg) else None),
       qv_error = (if queueErrorText pg \<noteq> None \<and> \<not> showRouteError pg then queueErrorText pg else None),
       qv_body = queueBody fmt pr s, qv_pager = pager_queue s\<rparr>)"

subsection \<open>The nine pages\<close>

definition ARROW :: string where
  "ARROW = [CHR 0xE2, CHR 0x86, CHR 0x92]"

definition ActiveWorkspacesPage :: QueuePageProps where
  "ActiveWorkspacesPage =
     \<lparr>qc_title = ''Active workspaces'', qc_adminScope = False, qc_statusFilter = Some [''active''],
      qc_billingFilter = None, qc_billingFilterMode = AndMode, qc_paymentChannelFilter = None,
      qc_handoffLinks =
       [(''Billing recovery'', ''/app/billing/recovery''),
        (''Provisioning'', ''/app/platform/provisioning''),
        (''Support'', ''/app/support/queue'')],
      qc_showStatusFilter = False,
      qc_attentionNote = Some ''Focus on uptime, backups, and growth actions; move payment risk items into billing recovery.'',
      qp_description = ''You are in Dashboard '' @ ARROW @ '' Active workspaces. Keep healthy tenants stable and route exceptions to the right follow-up flow.'',
      qp_callout =
       Some (''What to do next'',
        ''Complete routine checks here, then hand off failed billing or provisioning regressions to their dedicated queues.'', DefaultTone),
      qp_showCreate = False, qp_showMetrics = True, qp_showAttention = False,
      qp_showActionCenter = False, qp_showBillingAlert = False,
      qp_emptyStateTitle = Some ''No active workspaces yet'',
      qp_emptyStateBody = Some ''Once provisioning is complete, live workspaces will appear here for routine workflows.'',
      qp_emptyStateActionLabel = Some ''Review onboarding queue'', qp_emptyStateActionHref = Some ''/onboarding''\<rparr>"

definition BillingRecoveryWorkspacePage :: QueuePageProps where
  "BillingRecoveryWorkspacePage =
     \<lparr>qc_title = ''Billing recovery'', qc_adminScope = False, qc_statusFilter = Some [''pending_payment'', ''suspended_billing''],
      qc_billingFilter = Some [''failed'', ''past_due'', ''unpaid'', ''cancelled''], qc_billingFilterMode = OrMode, qc_paymentChannelFilter = None,
      qc_handoffLinks =
       [(''Billing details'', ''/app/billing/invoices''),
        (''Suspensions'', ''/app/tenants/suspensions'')],
      qc_showStatusFilter = False,
      qc_attentionNote = Some ''Prioritize past-due and failed payments before they turn into service suspensions.'',
      qp_description = ''Work dunning, retry, and overdue payment queues without leaving the dashboard journey.'',
      qp_callout =
       Some (''Collections focus'',
        ''Use this queue to target overdue invoices and coordinate retries by payment channel.'', DefaultTone),
      qp_showCreate = False, qp_showMetrics = True, qp_showAttention = True,
      qp_showActionCenter = False, qp_showBillingAlert = True,
      qp_emptyStateTitle = Some ''No billing recovery backlog'',
      qp_emptyStateBody = Some ''No pending payment follow-ups are currently in the queue.'',
      qp_emptyStateActionLabel = Some ''Open billing portal'', qp_emptyStateActionHref = Some ''/billing''\<rparr>"

definition IncidentsWorkspacePage :: QueuePageProps where
  "IncidentsWorkspacePage =
     \<lparr>qc_title = ''Incident queue'', qc_adminScope = False, qc_statusFilter = Some [''failed''],
      qc_billingFilter = None, qc_billingFilterMode = AndMode, qc_paymentChannelFilter = None,
      qc_handoffLinks =
       [(''Suspensions'', ''/app/tenants/suspensions''),
        (''Support'', ''/app/support/queue''),
        (''Billing recovery'', ''/app/billing/recovery'')],
      qc_showStatusFilter = False,
      qc_attentionNote = Some ''Resolve failed workspaces first, then post a customer-safe update with owner and next checkpoint.'',
      qp_description = ''You are in Dashboard '' @ ARROW @ '' Incidents. Use this queue for failed workspaces that need immediate recovery and customer communication.'',
      qp_callout =
       Some (''What to do next'',
        ''Assign owner, capture recovery step, and coordinate support updates before routing to suspension or billing flows.'', WarnTone),
      qp_showCreate = False, qp_showMetrics = True, qp_showAttention = True,
      qp_showActionCenter = False, qp_showBillingAlert = True,
      qp_emptyStateTitle = Some ''No incident workspaces'',
      qp_emptyStateBody = Some ''There are no failed workspaces in this queue right now.'',
      qp_emptyStateActionLabel = Some ''Back to provisioning'', qp_emptyStateActionHref = Some ''/app/platform/provisioning''\<rparr>"

definition OnboardingWorkspacePage :: QueuePageProps where
  "OnboardingWorkspacePage =
     \<lparr>qc_title = ''Onboarding payments'', qc_adminScope = False, qc_statusFilter = Some [''pending_payment''],
      qc_billingFilter = None, qc_billingFilterMode = AndMode, qc_paymentChannelFilter = None,
      qc_handoffLinks =
       [],
      qc_showStatusFilter = False,
      qc_attentionNote = Some ''Clear pending payments quickly, then hand each paid tenant to provisioning with clear ownership.'',
      qp_description = ''You are in Dashboard '' @ ARROW @ '' Onboarding. Track sign-ups waiting for payment so provisioning can start without delay.'',
      qp_callout =
       Some (''What to do next'',
        ''Confirm payment status, contact customers missing payment details, then move ready tenants into provisioning.'', WarnTone),
      qp_showCreate = False, qp_showMetrics = True, qp_showAttention = True,
      qp_showActionCenter = False, qp_showBillingAlert = True,
      qp_emptyStateTitle = Some ''No pending onboarding payments'',
      qp_emptyStateBody = Some ''All onboarding tenants have either paid or moved to provisioning.'',
      qp_emptyStateActionLabel = Some ''Open provisioning queue'', qp_emptyStateActionHref = Some ''/app/platform/provisioning''\<rparr>"

definition OverviewWorkspacePage :: QueuePageProps where
  "OverviewWorkspacePage =
     \<lparr>qc_title = ''Workspace overview'', qc_adminScope = False, qc_statusFilter = None,
      qc_billingFilter = None, qc_billingFilterMode = AndMode, qc_paymentChannelFilter = None,
      qc_handoffLinks =
       [(''Onboarding'', ''/onboarding''),
        (''Provisioning'', ''/app/platform/provisioning''),
        (''Incidents'', ''/app/platform/incidents''),
        (''Billing recovery'', ''/app/billing/recovery'')],
      qc_showStatusFilter = True,
      qc_attentionNote = Some ''Start with payment and provisioning blockers, then route to incidents or billing recovery.'',
      qp_description = ''You are in Dashboard '' @ ARROW @ '' Overview. Use this page to understand workspace health, then move into the queue that needs action next.'',
      qp_callout =
       Some (''What to do next'',
        ''Review diagnostics and action-center cards, then open the queue with the highest customer impact.'', DefaultTone),
      qp_showCreate = True, qp_showMetrics = True, qp_showAttention = True,
      qp_showActionCenter = True, qp_showBillingAlert = True,
      qp_emptyStateTitle = None,
      qp_emptyStateBody = None,
      qp_emptyStateActionLabel = None, qp_emptyStateActionHref = None\<rparr>"

definition ProvisioningWorkspacePage :: QueuePageProps where
  "ProvisioningWorkspacePage =
     \<lparr>qc_title = ''Provisioning queue'', qc_adminScope = False, qc_statusFilter = Some [''pending'', ''provisioning'', ''upgrading'', ''restoring''],
      qc_billingFilter = None, qc_billingFilterMode = AndMode, qc_paymentChannelFilter = None,
      qc_handoffLinks =
       [(''Onboarding'', ''/app/platform/onboarding''),
        (''Incidents'', ''/app/platform/incidents'')],
      qc_showStatusFilter = False,
      qc_attentionNote = Some ''Prioritize blocked provisioning jobs first, then confirm each workspace has a clear next owner.'',
      qp_description = ''You are in Dashboard '' @ ARROW @ '' Provisioning. Focus on setup, upgrade, and restore blockers so new workspaces can go live quickly.'',
      qp_callout =
       Some (''What to do next'',
        ''Review stalled tenants, retry or escalate quickly, then hand off unresolved failures to the incidents queue.'', DefaultTone),
      qp_showCreate = False, qp_showMetrics = True, qp_showAttention = True,
      qp_showActionCenter = False, qp_showBillingAlert = False,
      qp_emptyStateTitle = Some ''No provisioning workspaces in progress'',
      qp_emptyStateBody = Some ''Current setup and upgrade tasks are clear.'',
      qp_emptyStateActionLabel = Some ''Review active tenants'', qp_emptyStateActionHref = Some ''/app/tenants/active''\<rparr>"

definition SupportQueueWorkspacePage :: QueuePageProps where
  "SupportQueueWorkspacePage =
     \<lparr>qc_title = ''Support escalations queue'', qc_adminScope = False, qc_statusFilter = Some [''failed'', ''suspended'', ''suspended_admin'', ''suspended_billing''],
      qc_billingFilter = Some [''failed'', ''past_due'', ''unpaid''], qc_billingFilterMode = OrMode, qc_paymentChannelFilter = None,
      qc_handoffLinks =
       [(''Incidents'', ''/app/platform/incidents''),
        (''Suspensions'', ''/app/tenants/suspensions''),
        (''Billing recovery'', ''/app/billing/recovery''),
        (''Contact settings'', ''/app/account/settings'')],
      qc_showStatusFilter = False,
      qc_attentionNote = Some ''Set owner, next action, and customer update ETA for each escalation before handoff.'',
      qp_description = ''You are in Dashboard '' @ ARROW @ '' Support. Use this queue to triage customer-impacting incidents first, then hand off billing and suspension follow-up.'',
      qp_callout =
       Some (''What to do next'',
        ''Start with failed workspaces, capture customer communication details, then route to incidents or billing recovery as needed.'', WarnTone),
      qp_showCreate = False, qp_showMetrics = True, qp_showAttention = True,
      qp_showActionCenter = False, qp_showBillingAlert = True,
      qp_emptyStateTitle = Some ''No open support escalations'',
      qp_emptyStateBody = Some ''There are no failed or suspended workspace escalations requiring follow-up right now.'',
      qp_emptyStateActionLabel = Some ''Open overview'', qp_emptyStateActionHref = Some ''/app/overview''\<rparr>"

definition SuspensionsWorkspacePage :: QueuePageProps where
  "SuspensionsWorkspacePage =
     \<lparr>qc_title = ''Suspensions queue'', qc_adminScope = False, qc_statusFilter = Some [''suspended'', ''suspended_admin'', ''suspended_billing''],
      qc_billingFilter = None, qc_billingFilterMode = AndMode, qc_paymentChannelFilter = None,
      qc_handoffLinks =
       [(''Billing recovery'', ''/app/billing/recovery''),
        (''Support'', ''/app/support/queue'')],
      qc_showStatusFilter = False,
      qc_attentionNote = Some ''Verify suspension reason and next action for each impacted customer.'',
      qp_description = ''Review suspended workspaces and coordinate reactivation with billing or support owners.'',
      qp_callout =
       Some (''Reactivation checklist'',
        ''Confirm payment state, support notes, and customer acknowledgement before restoring access.'', WarnTone),
      qp_showCreate = False, qp_showMetrics = True, qp_showAttention = True,
      qp_showActionCenter = False, qp_showBillingAlert = True,
      qp_emptyStateTitle = Some ''No suspended workspaces'',
      qp_emptyStateBody = Some ''No customer workspaces are currently suspended.'',
      qp_emptyStateActionLabel = Some ''Go to billing recovery'', qp_emptyStateActionHref = Some ''/app/billing/recovery''\<rparr>"

definition TenantRegistryWorkspacePage :: QueuePageProps where
  "TenantRegistryWorkspacePage =
     \<lparr>qc_title = ''Workspace registry'', qc_adminScope = False, qc_statusFilter = None,
      qc_billingFilter = None, qc_billingFilterMode = AndMode, qc_paymentChannelFilter = None,
      qc_handoffLinks =
       [(''Provisioning'', ''/app/platform/provisioning''),
        (''Incidents'', ''/app/platform/incidents''),
        (''Support'', ''/app/support/queue''),
        (''Billing recovery'', ''/app/billing/recovery'')],
      qc_showStatusFilter = True,
      qc_attentionNote = Some ''Use registry search to find the workspace quickly, then continue in the owning queue.'',
      qp_description = ''You are in Dashboard '' @ ARROW @ '' Workspace registry. Search all customer workspaces, confirm status, then route each case to the right flow.'',
      qp_callout =
       Some (''What to do next'',
        ''After locating a workspace, open provisioning, incidents, support, or billing recovery based on current status.'', DefaultTone),
      qp_showCreate = True, qp_showMetrics = True, qp_showAttention = True,
      qp_showActionCenter = False, qp_showBillingAlert = True,
      qp_emptyStateTitle = None,
      qp_emptyStateBody = None,
      qp_emptyStateActionLabel = None, qp_emptyStateActionHref = None\<rparr>"

definition workspacePages :: "QueuePageProps list" where
  "workspacePages =
     [ActiveWorkspacesPage, BillingRecoveryWorkspacePage, IncidentsWorkspacePage, OnboardingWorkspacePage, OverviewWorkspacePage,
      ProvisioningWorkspacePage, SupportQueueWorkspacePage, SuspensionsWorkspacePage, TenantRegistryWorkspacePage]"

text \<open>The overview's own diagnostics.\<close>

record diagnostics =
  dg_authHealth :: string
  dg_billingHealth :: string

definition initialDiagnostics :: diagnostics where
  "initialDiagnostics = \<lparr>dg_authHealth = ''checking'', dg_billingHealth = ''checking''\<rparr>"

definition diagnosticsLoaded ::
  "exn + (DashboardEndpointHealth \<times> DashboardEndpointHealth) \<Rightarrow> diagnostics \<Rightarrow> diagnostics" where
  "diagnosticsLoaded r s =
     (case r of
        Inr health \<Rightarrow> s\<lparr>dg_authHealth := eh_message (fst health), dg_billingHealth := eh_message (snd health)\<rparr>
      | Inl _ \<Rightarrow> s\<lparr>dg_authHealth := ''unavailable'', dg_billingHealth := ''unavailable''\<rparr>)"

definition loadDiagnostics :: "diagnostics handler" where
  "loadDiagnostics = answered loadDashboardServiceHealthSnapshot diagnosticsLoaded"

definition diagnosticsCards :: "diagnostics \<Rightarrow> (string \<times> string) list" where
  "diagnosticsCards s = [(''API'', ''ok''), (''Auth'', dg_authHealth s), (''Billing'', dg_billingHealth s)]"

subsection \<open>The handlers of the screen\<close>

definition runUserQuery :: "queue_page \<Rightarrow> world \<Rightarrow> queue_page \<times> world" where
  "runUserQuery pg w =
     (case loadWorkspaceCurrentUserProfile w of
        (Inr u, w1) \<Rightarrow> (pg\<lparr>wq_user := Some u, wq_userError := None\<rparr>, w1)
      | (Inl e, w1) \<Rightarrow> (pg\<lparr>wq_userError := Some e\<rparr>, w1))"

definition onPage_queue :: "(queue_page \<Rightarrow> world \<Rightarrow> queue_page \<times> world) \<Rightarrow> queue_screen \<Rightarrow> world \<Rightarrow> queue_screen \<times> world" where
  "onPage_queue f s w = (let (pg, w1) = f (sc_page s) w in (s\<lparr>sc_page := pg\<rparr>, w1))"

text \<open>A finished query, with the time it reports when it has data.\<close>

definition refreshScreen :: "string \<Rightarrow> QueuePageProps \<Rightarrow> queue_screen \<Rightarrow> world \<Rightarrow> queue_screen \<times> world" where
  "refreshScreen stamp pr s w =
     (let (s1, w1) = onPage_queue (runQueueQuery (config pr)) s w in
      (s1\<lparr>sc_fetching := False,
          sc_updatedAt := (if wq_queueError (sc_page s1) = None then Some stamp else sc_updatedAt s1)\<rparr>, w1))"

definition clickResume :: "QueuePageProps \<Rightarrow> string \<Rightarrow> queue_screen \<Rightarrow> world \<Rightarrow> queue_screen \<times> world" where
  "clickResume pr tenantId s = onPage_queue (onResumeCheckout (config pr) tenantId) (s\<lparr>sc_resumed := Some tenantId\<rparr>)"

definition clickRetry :: "QueuePageProps \<Rightarrow> string \<Rightarrow> queue_screen \<Rightarrow> world \<Rightarrow> queue_screen \<times> world" where
  "clickRetry pr tenantId s = onPage_queue (onRetryProvisioning (config pr) tenantId) (s\<lparr>sc_retried := Some tenantId\<rparr>)"

definition clickResend :: "queue_screen \<Rightarrow> world \<Rightarrow> queue_screen \<times> world" where
  "clickResend s w = (if sc_resending s then (s, w) else onPage_queue onResendVerification s w)"

subsection \<open>Facts\<close>

lemma portalError_unseen [simp]:
  "queueSnapshot (portalError m pg) = queueSnapshot pg" "visibleTenants (portalError m pg) = visibleTenants pg"
  "queueErrorText (portalError m pg) = queueErrorText pg" "showRouteError (portalError m pg) = showRouteError pg"
  "wq_jobs (portalError m pg) = wq_jobs pg" "wq_user (portalError m pg) = wq_user pg"
  "activeJobs (portalError m pg) = activeJobs pg" "canCreateTenants (portalError m pg) = canCreateTenants pg"
  "wq_verificationNotice (portalError m pg) = wq_verificationNotice pg"
  "wq_page (portalError m pg) = wq_page pg" "totalPages (portalError m pg) = totalPages pg"
  "queueTotal (portalError m pg) = queueTotal pg" "attentionSummary cfg (portalError m pg) = attentionSummary cfg pg"
  "wq_search (portalError m pg) = wq_search pg" "wq_planFilter (portalError m pg) = wq_planFilter pg"
  "wq_billingPortalUrl (portalError m pg) = wq_billingPortalUrl pg" "wq_billingPortalError (portalError m pg) = Some m"
  by (simp_all add: portalError_def queueSnapshot_def activeJobs_def visibleTenants_def queueErrorText_def showRouteError_def
      canCreateTenants_def totalPages_def queueTotal_def attentionSummary_def split: option.split)


text \<open>
  A row button stays busy: once a retry or a resumed checkout was asked for, the button of that tenant
  reads as if it were still under way, and is disabled, however it ended.
\<close>

lemma onPage_ui [simp]:
  "sc_resumed (fst (onPage_queue f s w)) = sc_resumed s" "sc_retried (fst (onPage_queue f s w)) = sc_retried s"
  by (simp_all add: onPage_queue_def split: prod.split)

theorem row_button_stays_busy:
  "set (retryButton (tableProps pr (fst (clickRetry pr (tn_id t) s w))) t) \<subseteq> {RetryButton ''Retrying...'' True} \<and>
   set (tenantActions (tableProps pr (fst (clickResume pr (tn_id t) s w))) t) \<inter> {ResumeButton l b | l b. \<not> b} = {}"
  by (auto simp: clickRetry_def clickResume_def retryButton_def tenantActions_def renderPaymentActions_def tableProps_def Let_def)

text \<open>
  An error of the queue is shown exactly once, in place of the table when there is no tenant to show and over the
  table otherwise; without an error neither is shown, and the loading text only then.
\<close>

theorem queue_error_shown_once:
  "let v = queueView fmt pr s in
   (queueErrorText (sc_page s) = None) = (qv_error v = None \<and> (case qv_body v of QueueFailed _ \<Rightarrow> False | _ \<Rightarrow> True)) \<and>
   (case qv_body v of
      QueueFailed e \<Rightarrow> queueErrorText (sc_page s) = Some e \<and> qv_error v = None \<and> visibleTenants (sc_page s) = []
    | LoadingQueue _ \<Rightarrow> sc_fetching s \<and> qv_error v = None
    | QueueTable _ \<Rightarrow> qv_error v = queueErrorText (sc_page s))"
  by (auto simp: Let_def queueView_def queueBody_def showRouteError_def loadingRoute_def nullish_def split: option.split)

definition pageLinks :: "QueuePageProps \<Rightarrow> string list" where
  "pageLinks pr =
     List.map_filter snd (headerCrumbs (config pr)) @ map snd (visibleHandoffLinks (config pr)) @ [billingFollowUpHref (config pr)] @
     (if qp_showActionCenter pr then map fst (actionCenterCards (qc_adminScope pr) (queueSnapshot initialQueuePage)) else []) @
     (case qp_emptyStateActionHref pr of None \<Rightarrow> if qp_showCreate pr then [] else [''#create-tenant''] | Some href \<Rightarrow> [href])"

definition linkOpens :: "string \<Rightarrow> bool" where
  "linkOpens href = (case follow 2 (pathSegments href) [] of None \<Rightarrow> False | Some a \<Rightarrow> inApp a)"

lemma linkOpens_app:
  assumes "pathSegments href = ''app'' # rest" and "inApp (pageAt (''app'' # rest))"
  shows "linkOpens href"
  using assms by (cases "pageAt (''app'' # rest)") (simp_all add: linkOpens_def follow.simps siteAnswer_def inApp_def)

definition appLink :: "string \<Rightarrow> bool" where
  "appLink href =
     (let ss = pathSegments href in (case ss of [] \<Rightarrow> False | s # _ \<Rightarrow> s = ''app'') \<and> inApp (pageAt ss))"

lemma appLink_opens: "appLink href \<Longrightarrow> linkOpens href"
  using linkOpens_app by (auto simp: appLink_def Let_def split: list.splits)

lemma list_all_remdups_concat:
  "list_all P (remdups (concat (map f ps))) \<Longrightarrow> (\<And>x. P x \<Longrightarrow> Q x) \<Longrightarrow> list_all (\<lambda>p. list_all Q (f p)) ps"
  by (auto simp: list_all_iff)

lemma former_links: "linkOpens ''/onboarding''" "linkOpens ''/billing''"
  by code_simp+


end
