(* ===== verification/Billing_Ops.thy ===== *)
theory Billing_Ops
  imports Tenant_Billing Account
begin

section \<open>Billing operations and invoices\<close>

text \<open>
  The operators' page \<^verbatim>\<open>admin/billing-ops\<close>, which follows up overdue subscriptions, and the
  customers' list of invoices \<^verbatim>\<open>billing/invoices\<close>. Tabs that are opened are recorded.
\<close>

subsection \<open>The state and the loads of the dunning queue\<close>

datatype CycleAction = CycleRun | CycleDry

record billing_ops =
  bo_operatorRole :: string
  bo_tenants :: "DunningItem list"
  bo_supported :: bool
  bo_loading :: bool
  bo_error :: "string option"
  bo_runningCycle :: bool
  bo_cycleNotice :: "string option"
  bo_cycleError :: "string option"
  bo_confirmCycle :: "CycleAction option"
  bo_resumeBusyTenantId :: "string option"
  bo_resumeNotice :: "string option"
  bo_resumeError :: "string option"
  bo_opened :: "string list"

definition initialBillingOps :: billing_ops where
  "initialBillingOps = \<lparr>bo_operatorRole = ''user'', bo_tenants = [], bo_supported = True, bo_loading = False, bo_error = None,
     bo_runningCycle = False, bo_cycleNotice = None, bo_cycleError = None, bo_confirmCycle = None,
     bo_resumeBusyTenantId = None, bo_resumeNotice = None, bo_resumeError = None, bo_opened = []\<rparr>"

definition canRunBillingActions :: "billing_ops \<Rightarrow> bool" where
  "canRunBillingActions s \<longleftrightarrow> bo_operatorRole s = ''admin''"

definition readBillingRole :: "world \<Rightarrow> billing_ops \<Rightarrow> exn + billing_ops" where
  "readBillingRole w s =
     (case getSessionRole w of Inl e \<Rightarrow> Inl e | Inr role \<Rightarrow> Inr (s\<lparr>bo_operatorRole := nullish role ''user''\<rparr>))"

definition dunningStarted :: "billing_ops \<Rightarrow> billing_ops" where
  "dunningStarted s = s\<lparr>bo_loading := True, bo_error := None\<rparr>"

definition dunningLoaded :: "exn + DunningItem OptionalListResult \<Rightarrow> billing_ops \<Rightarrow> billing_ops" where
  "dunningLoaded r s =
     (case r of
        Inr result \<Rightarrow>
          (if ol_supported result then s\<lparr>bo_tenants := ol_data result, bo_supported := True\<rparr>
           else s\<lparr>bo_supported := False, bo_tenants := []\<rparr>)
      | Inl err \<Rightarrow> s\<lparr>bo_error := Some (toAdminErrorMessage err ''Failed to load billing operations.'')\<rparr>)
     \<lparr>bo_loading := False\<rparr>"

definition loadDunning :: "billing_ops handler" where
  "loadDunning s = answered loadBillingDunningQueue dunningLoaded (dunningStarted s)"

definition refreshDunning :: "billing_ops handler" where
  "refreshDunning s = onlyWhen (\<not> bo_loading s) loadDunning s"

subsection \<open>The actions\<close>

definition checkoutGenerated :: "TenantCreateResponse \<Rightarrow> billing_ops handler" where
  "checkoutGenerated x s w =
     (if \<not> truthyStr (cr_checkout_url x)
      then (s\<lparr>bo_resumeError := Some ''Billing provider did not return a checkout URL.''\<rparr>, w)
      else loadDunning (s\<lparr>bo_opened := bo_opened s @ [the (cr_checkout_url x)],
        bo_resumeNotice := Some ''Checkout link generated and opened in a new tab.''\<rparr>) w)"

definition resumeStarted :: "string \<Rightarrow> billing_ops \<Rightarrow> billing_ops" where
  "resumeStarted tenantId s = s\<lparr>bo_resumeBusyTenantId := Some tenantId, bo_resumeNotice := None, bo_resumeError := None\<rparr>"

definition resumeCheckout_ops :: "string \<Rightarrow> billing_ops handler" where
  "resumeCheckout_ops tenantId s w =
     (if \<not> canRunBillingActions s then (s\<lparr>bo_resumeError := Some ''Only admin role can resume checkout links.''\<rparr>, w)
      else attempt (renewTenantCheckout_admin tenantId)
        (\<lambda>s. s\<lparr>bo_resumeError := Some (featureUnavailableMessage ''Renewing checkout'' None)\<rparr>)
        checkoutGenerated
        (\<lambda>err s. s\<lparr>bo_resumeError := Some (toAdminErrorMessage err ''Failed to renew checkout link.'')\<rparr>)
        (\<lambda>s. s\<lparr>bo_resumeBusyTenantId := None\<rparr>)
        (resumeStarted tenantId s) w)"

definition resumeDisabled :: "DunningItem \<Rightarrow> billing_ops \<Rightarrow> bool" where
  "resumeDisabled tenant s \<longleftrightarrow>
     di_status tenant \<noteq> ''pending_payment'' \<or> \<not> canRunBillingActions s \<or> bo_resumeBusyTenantId s = Some (di_tenant_id tenant)"

definition pressResume :: "DunningItem \<Rightarrow> billing_ops handler" where
  "pressResume tenant s = onlyWhen (\<not> resumeDisabled tenant s) (resumeCheckout_ops (di_tenant_id tenant)) s"

definition cycleQueued :: "bool \<times> string \<Rightarrow> billing_ops handler" where
  "cycleQueued result s w =
     (if \<not> fst result then (s\<lparr>bo_cycleError := Some (featureUnavailableMessage ''Running the dunning cycle'' None)\<rparr>, w)
      else loadDunning (s\<lparr>bo_cycleNotice := Some (orElse (Some (snd result)) ''Dunning cycle queued.''), bo_confirmCycle := None\<rparr>) w)"

definition runCycle :: "CycleAction \<Rightarrow> billing_ops handler" where
  "runCycle action s w =
     (if \<not> canRunBillingActions s then (s\<lparr>bo_cycleError := Some ''Only admin role can run billing dunning cycles.''\<rparr>, w)
      else attemptCall (queueBillingDunningCycle (action = CycleDry)) cycleQueued
        (\<lambda>err s. s\<lparr>bo_cycleError := Some (toAdminErrorMessage err ''Failed to queue dunning cycle.'')\<rparr>)
        (\<lambda>s. s\<lparr>bo_runningCycle := False\<rparr>)
        (s\<lparr>bo_runningCycle := True, bo_cycleNotice := None, bo_cycleError := None\<rparr>) w)"

text \<open>The buttons of the header, and the two dialogs, whose buttons are disabled while a cycle runs.\<close>

definition askCycle :: "CycleAction \<Rightarrow> billing_ops \<Rightarrow> billing_ops" where
  "askCycle action s = (if canRunBillingActions s \<and> \<not> bo_runningCycle s then s\<lparr>bo_confirmCycle := Some action\<rparr> else s)"

definition cancelCycle :: "billing_ops \<Rightarrow> billing_ops" where
  "cancelCycle s = (if bo_runningCycle s then s else s\<lparr>bo_confirmCycle := None\<rparr>)"

definition confirmCycle :: "billing_ops handler" where
  "confirmCycle s w =
     (case bo_confirmCycle s of None \<Rightarrow> (s, w) | Some action \<Rightarrow> onlyWhen (\<not> bo_runningCycle s) (runCycle action) s w)"

subsection \<open>What the page shows\<close>

definition pendingCount :: "billing_ops \<Rightarrow> nat" where
  "pendingCount s = length (filter (\<lambda>t. di_status t = ''pending_payment'') (bo_tenants s))"

definition suspendedCount_ops :: "billing_ops \<Rightarrow> nat" where
  "suspendedCount_ops s = length (filter (\<lambda>t. di_status t = ''suspended_billing'') (bo_tenants s))"

definition pastDueCount :: "billing_ops \<Rightarrow> nat" where
  "pastDueCount s =
     length (filter (\<lambda>t. nullish (map_option toLowerCase (di_billing_status t)) [] \<in>
       set [''failed'', ''past_due'', ''unpaid'', ''cancelled'']) (bo_tenants s))"

definition billingCards :: "billing_ops \<Rightarrow> (string \<times> nat \<times> string) list option" where
  "billingCards s =
     (if bo_supported s then Some
       [(''Pending payment'', pendingCount s, ''Waiting for checkout confirmation''),
        (''Suspended (billing)'', suspendedCount_ops s, ''Service paused for non-payment''),
        (''Past due'', pastDueCount s, ''Failed or overdue invoices'')]
      else None)"

datatype alert_tone = AlertSuccess | AlertError

definition alertLine :: "alert_tone \<Rightarrow> string option \<Rightarrow> (alert_tone \<times> string) list" where
  "alertLine tone m = (if truthyStr m then [(tone, the m)] else [])"

definition billingAlerts :: "billing_ops \<Rightarrow> (alert_tone \<times> string) list" where
  "billingAlerts s =
     alertLine AlertError (bo_error s) @ alertLine AlertSuccess (bo_cycleNotice s) @ alertLine AlertError (bo_cycleError s) @
     alertLine AlertSuccess (bo_resumeNotice s) @ alertLine AlertError (bo_resumeError s)"

definition dunningRow :: "(string \<Rightarrow> string option) \<Rightarrow> billing_ops \<Rightarrow> DunningItem \<Rightarrow> string list \<times> (string \<times> bool) \<times> string list" where
  "dunningRow fmt s tenant =
     ([di_tenant_name tenant, di_domain tenant, di_status tenant, nullish (di_billing_status tenant) EM_DASH,
       nullish (di_payment_channel tenant) EM_DASH, nullish (di_last_invoice_id tenant) EM_DASH,
       formatTimestamp fmt (di_last_payment_attempt tenant), formatTimestamp fmt (di_next_retry_at tenant),
       formatTimestamp fmt (di_grace_ends_at tenant)],
      (if bo_resumeBusyTenantId s = Some (di_tenant_id tenant) then ''Generating...'' else ''Resume checkout'', resumeDisabled tenant s),
      map (\<lambda>page. ''/app/tenants/'' @ di_tenant_id tenant @ page) [''/overview'', ''/billing'', ''/support''])"

definition dunningTable ::
  "(string \<Rightarrow> string option) \<Rightarrow> billing_ops \<Rightarrow> (string + (string list \<times> (string \<times> bool) \<times> string list) list) option" where
  "dunningTable fmt s =
     (if \<not> bo_supported s then None
      else if bo_tenants s = []
      then Some (Inl (if bo_loading s then ''Loading billing queue'' @ ELLIPSIS else ''No billing escalations right now.''))
      else Some (Inr (map (dunningRow fmt s) (bo_tenants s))))"

definition headerButtons :: "billing_ops \<Rightarrow> (string \<times> bool) list \<times> string option" where
  "headerButtons s =
     ((if bo_loading s then ''Refreshing'' @ ELLIPSIS else ''Refresh'', bo_loading s) #
        (if canRunBillingActions s then [(''Run dunning cycle'', bo_runningCycle s), (''Dry run'', bo_runningCycle s)] else []),
      if canRunBillingActions s then None else Some ''Read-only (support scope)'')"

text \<open>The title, the text and the button of the dialog of a cycle.\<close>

primrec cycleDialog :: "CycleAction \<Rightarrow> string \<times> string \<times> string" where
  "cycleDialog CycleRun =
     (''Run dunning cycle?'',
      ''This will trigger automated payment retries and reminder notifications across the queue.'', ''Run cycle'')"
| "cycleDialog CycleDry =
     (''Run dunning dry-run?'',
      ''No billing actions will be taken. The result will preview what a real cycle would do.'', ''Run dry run'')"

subsection \<open>The list of invoices\<close>

definition invoiceAction :: "BillingInvoice \<Rightarrow> (string \<times> string) option" where
  "invoiceAction i =
     (if truthyStr (bi_hosted_invoice_url i) then Some (''Resume payment'', the (bi_hosted_invoice_url i))
      else if truthyStr (bi_invoice_pdf i) then Some (''Download'', the (bi_invoice_pdf i))
      else None)"

definition statusChipColor :: "string option \<Rightarrow> chip_color" where
  "statusChipColor status =
     (let value = toLowerCase (nullish status []) in
      if value \<in> set [''paid'', ''settled'', ''closed''] then ChipSuccess
      else if value \<in> set [''past_due'', ''overdue'', ''failed'', ''uncollectible''] then ChipError
      else if value \<in> set [''open'', ''unpaid'', ''draft''] then ChipWarning
      else ChipDefault)"

record invoices_page =
  ip_invoices :: "BillingInvoice list"
  ip_supported :: bool
  ip_error :: "string option"
  ip_portalUrl :: "string option"

definition initialInvoices :: invoices_page where
  "initialInvoices = \<lparr>ip_invoices = [], ip_supported = True, ip_error = None, ip_portalUrl = None\<rparr>"

definition invoicesLoaded :: "exn + BillingWorkspaceSnapshot \<Rightarrow> invoices_page \<Rightarrow> invoices_page" where
  "invoicesLoaded r s =
     (case r of
        Inr snapshot \<Rightarrow>
          (if \<not> bw_invoicesSupported snapshot then s\<lparr>ip_portalUrl := bw_portalUrl snapshot, ip_supported := False, ip_invoices := []\<rparr>
           else s\<lparr>ip_portalUrl := bw_portalUrl snapshot, ip_supported := True, ip_invoices := bw_invoices snapshot\<rparr>)
      | Inl err \<Rightarrow> s\<lparr>ip_error := Some (toBillingErrorMessage err ''Failed to load invoices'')\<rparr>)"

definition loadInvoicesPage :: "invoices_page handler" where
  "loadInvoicesPage = answered loadBillingWorkspaceSnapshot invoicesLoaded"

definition workspaceName :: "BillingInvoice \<Rightarrow> string" where
  "workspaceName i =
     (case bi_metadata i of None \<Rightarrow> ''Workspace''
      | Some m \<Rightarrow> nullish (asStr (getProp m ''company_name'')) (nullish (asStr (getProp m ''tenant_domain'')) ''Workspace''))"

definition invoiceRow ::
  "(string \<Rightarrow> int \<Rightarrow> string option) \<Rightarrow> (string \<Rightarrow> string option) \<Rightarrow> BillingInvoice \<Rightarrow>
   string list \<times> chip_color \<times> (string \<times> string) option" where
  "invoiceRow money fmt i =
     ([workspaceName i, bi_id i, nullish (bi_status i) EM_DASH, formatMoney money (bi_amount_due i) (bi_currency i),
       formatMoney money (bi_amount_paid i) (bi_currency i), formatTimestamp fmt (bi_created_at i)],
      statusChipColor (bi_status i), invoiceAction i)"

definition invoicesView :: "invoices_page \<Rightarrow> BillingInvoice list section_view" where
  "invoicesView s = \<lparr>sv_supported = ip_supported s, sv_data = ip_invoices s, sv_error = ip_error s\<rparr>"

definition invoicesContent ::
  "(string \<Rightarrow> int \<Rightarrow> string option) \<Rightarrow> (string \<Rightarrow> string option) \<Rightarrow> invoices_page \<Rightarrow>
   (string list \<times> chip_color \<times> (string \<times> string) option) section_content" where
  "invoicesContent money fmt s = sectionContent ''Invoices'' ''No invoices yet'' (invoiceRow money fmt) (invoicesView s)"

subsection \<open>The sections\<close>

definition dunningView :: "billing_ops \<Rightarrow> DunningItem list section_view" where
  "dunningView s = \<lparr>sv_supported = bo_supported s, sv_data = bo_tenants s, sv_error = bo_error s\<rparr>"

interpretation dunning: optional_section listAnswer "\<lambda>r s. dunningLoaded r (dunningStarted s)" dunningView
  "\<lambda>e. toAdminErrorMessage e ''Failed to load billing operations.''"
  by unfold_locales
    (auto simp: listAnswer_def dunningLoaded_def dunningStarted_def dunningView_def split: if_splits)

text \<open>
  Loads of the queue in any order never leave rows beside the word that the queue is missing,
  and the error shown is that of the last load.
\<close>

lemma dunning_loads:
  assumes "rs \<noteq> []" and "coherent (dunningView s)"
  shows "coherent (dunningView (fold (\<lambda>r s. dunningLoaded r (dunningStarted s)) rs s))"
    and "(\<exists>m. bo_error (fold (\<lambda>r s. dunningLoaded r (dunningStarted s)) rs s) = Some m) \<longleftrightarrow> (\<exists>e. last rs = Inl e)"
  using dunning.coherent_answers [OF assms(2)] dunning.error_after_answers [OF assms(1)]
  by (simp_all add: dunningView_def)

lemma loadDunning_keeps:
  "bo_confirmCycle (fst (loadDunning s w)) = bo_confirmCycle s"
  "bo_cycleError (fst (loadDunning s w)) = bo_cycleError s"
  "bo_opened (fst (loadDunning s w)) = bo_opened s"
  "bo_resumeError (fst (loadDunning s w)) = bo_resumeError s"
  "\<not> bo_loading (fst (loadDunning s w))"
  by (auto simp: loadDunning_def fst_answered dunningLoaded_def dunningStarted_def split: sum.split)

lemma addressed_loadDunning:
  assumes "\<And>p. P ''GET'' p"
  shows "addressed P w (snd (loadDunning s w))"
proof -
  have "keeps (addressed P) loadBillingDunningQueue"
    unfolding loadBillingDunningQueue_def fetchBillingDunningQueue_def api_listBillingDunning_def
    by (intro addressed_intros addressed_optional) (simp add: assms)
  then show ?thesis by (simp add: loadDunning_def addressed_answered)
qed

subsection \<open>Cycles and checkouts\<close>

definition cyclePath :: "CycleAction \<Rightarrow> string" where
  "cyclePath action = ''/admin/billing/dunning/run?dry_run='' @ (if action = CycleDry then ''true'' else ''false'')"

lemma addressed_cycle:
  assumes "P ''POST'' (cyclePath action)"
  shows "keeps (addressed P) (queueBillingDunningCycle (action = CycleDry))"
proof -
  have e: "encodeURIComponent (boolStr True) = ''true''" "encodeURIComponent (boolStr False) = ''false''" by code_simp+
  have "P ''POST'' (''/admin/billing/dunning/run?dry_run='' @ encodeURIComponent (boolStr (action = CycleDry)))"
    using assms by (cases action) (simp_all only: cyclePath_def e simp_thms if_True if_False CycleAction.distinct)
  then show ?thesis
    unfolding queueBillingDunningCycle_def triggerBillingDunningCycle_def api_runBillingDunningCycle_def
    by (intro addressed_intros addressed_optional) simp
qed

text \<open>
  C27: A dunning cycle is sent only by the role admin, only when it is the one in the open dialog,
  and never as a real cycle when a dry run was confirmed; everything else that is sent only
  reads. The dialog closes exactly when the server has queued the cycle, and otherwise the page
  has an error.
\<close>

theorem dunning_cycle_confirmed:
  assumes "confirmCycle s w = (s', w')" and "bo_confirmCycle s = Some action" and "\<not> bo_runningCycle s"
  shows "if canRunBillingActions s
    then addressed (\<lambda>m p. readsOnly m p \<or> m = ''POST'' \<and> p = cyclePath action) w w' \<and> \<not> bo_runningCycle s' \<and>
      (if \<exists>m. fst (queueBillingDunningCycle (action = CycleDry) w) = Inr (True, m)
       then bo_confirmCycle s' = None \<and> bo_cycleError s' = None
       else bo_confirmCycle s' = Some action \<and> truthyStr (bo_cycleError s'))
    else w' = w \<and> bo_cycleError s' \<noteq> None \<and> bo_confirmCycle s' = Some action"
proof (cases "canRunBillingActions s")
  case True
  let ?P = "\<lambda>m p. readsOnly m p \<or> m = ''POST'' \<and> p = cyclePath action"
  let ?s = "s\<lparr>bo_runningCycle := True, bo_cycleNotice := None, bo_cycleError := None\<rparr>"
  from assms True have a: "attemptCall (queueBillingDunningCycle (action = CycleDry)) cycleQueued
        (\<lambda>err s. s\<lparr>bo_cycleError := Some (toAdminErrorMessage err ''Failed to queue dunning cycle.'')\<rparr>)
        (\<lambda>s. s\<lparr>bo_runningCycle := False\<rparr>) ?s w = (s', w')"
    by (simp add: confirmCycle_def runCycle_def)
  have "addressed ?P w w'"
    by (rule addressed_attemptCallD [OF a])
      (auto intro: addressed_cycle addressed_loadDunning simp: cycleQueued_def addressed_refl)
  moreover from a have "\<not> bo_runningCycle s' \<and>
      (if \<exists>m. fst (queueBillingDunningCycle (action = CycleDry) w) = Inr (True, m)
       then bo_confirmCycle s' = None \<and> bo_cycleError s' = None
       else bo_confirmCycle s' = Some action \<and> truthyStr (bo_cycleError s'))"
  proof (cases rule: attemptCall_cases)
    case (ok x w1 s1)
    obtain b m where x: "x = (b, m)" by (cases x)
    from ok(2) have s1: "s1 = fst (cycleQueued x ?s w1)" by simp
    have "if b then bo_confirmCycle s1 = None \<and> bo_cycleError s1 = None
      else bo_confirmCycle s1 = Some action \<and> truthyStr (bo_cycleError s1)"
      unfolding s1 using assms(2) by (simp add: x cycleQueued_def loadDunning_keeps featureUnavailableMessage_def Let_def)
    then show ?thesis using ok(1,3) x by (cases b) simp_all
  qed (use assms(2) in simp_all)
  ultimately show ?thesis using True by simp
qed (use assms in \<open>auto simp: confirmCycle_def runCycle_def\<close>)

theorem dunning_cycle_confirmed_witness:
  "bo_confirmCycle (fst (confirmCycle (askCycle CycleDry (initialBillingOps\<lparr>bo_operatorRole := ''admin''\<rparr>)) freshBrowser)) = Some CycleDry"
proof -
  let ?s = "askCycle CycleDry (initialBillingOps\<lparr>bo_operatorRole := ''admin''\<rparr>)"
  obtain s' w' where s': "confirmCycle ?s freshBrowser = (s', w')" by (metis prod.collapse)
  have i: "bo_confirmCycle ?s = Some CycleDry" "\<not> bo_runningCycle ?s" "canRunBillingActions ?s"
    by (simp_all add: askCycle_def initialBillingOps_def canRunBillingActions_def)
  have "case fst (queueBillingDunningCycle True freshBrowser) of Inr (b, m) \<Rightarrow> \<not> b | _ \<Rightarrow> True" by code_simp
  then show ?thesis using dunning_cycle_confirmed [OF s' i(1,2)] i(3) s' by (auto split: if_splits)
qed

lemma addressed_renewCheckout:
  "P ''POST'' (''/tenants/'' @ i @ ''/checkout/renew'') \<Longrightarrow> keeps (addressed P) (renewTenantCheckout_admin i)"
  unfolding renewTenantCheckout_admin_def renewTenantCheckoutLink_admin_def api_renewCheckout_def
  by (rule addressed_optional) simp

text \<open>
  Pressing \<^verbatim>\<open>Resume checkout\<close> asks for a link only for a tenant whose payment is pending and
  only for the role admin; at most one tab is opened, with the address the server answered, and
  the page has an error exactly when no tab was opened.
\<close>

theorem checkout_resumed:
  assumes "pressResume tenant s w = (s', w')" and "\<not> resumeDisabled tenant s"
  shows "di_status tenant = ''pending_payment'' \<and> canRunBillingActions s \<and>
    addressed (\<lambda>m p. readsOnly m p \<or> m = ''POST'' \<and> p = ''/tenants/'' @ di_tenant_id tenant @ ''/checkout/renew'') w w' \<and>
    bo_resumeBusyTenantId s' = None \<and>
    bo_opened s' = bo_opened s @
      (case fst (renewTenantCheckout_admin (di_tenant_id tenant) w) of
         Inr (Supported x) \<Rightarrow> if truthyStr (cr_checkout_url x) then [the (cr_checkout_url x)] else []
       | _ \<Rightarrow> []) \<and>
    (bo_resumeError s' = None \<longleftrightarrow> bo_opened s' \<noteq> bo_opened s)"
proof -
  let ?i = "di_tenant_id tenant"
  let ?P = "\<lambda>m p. readsOnly m p \<or> m = ''POST'' \<and> p = ''/tenants/'' @ ?i @ ''/checkout/renew''"
  from assms have a: "attempt (renewTenantCheckout_admin ?i)
        (\<lambda>s. s\<lparr>bo_resumeError := Some (featureUnavailableMessage ''Renewing checkout'' None)\<rparr>)
        checkoutGenerated
        (\<lambda>err s. s\<lparr>bo_resumeError := Some (toAdminErrorMessage err ''Failed to renew checkout link.'')\<rparr>)
        (\<lambda>s. s\<lparr>bo_resumeBusyTenantId := None\<rparr>)
        (resumeStarted ?i s) w = (s', w')"
    by (simp add: pressResume_def resumeCheckout_ops_def resumeDisabled_def)
  have "addressed ?P w w'"
    by (rule addressed_attemptD [OF a])
      (auto intro: addressed_renewCheckout addressed_loadDunning simp: checkoutGenerated_def addressed_refl)
  moreover from a have "bo_resumeBusyTenantId s' = None \<and> bo_opened s' = bo_opened s @
      (case fst (renewTenantCheckout_admin ?i w) of
         Inr (Supported x) \<Rightarrow> if truthyStr (cr_checkout_url x) then [the (cr_checkout_url x)] else []
       | _ \<Rightarrow> []) \<and> (bo_resumeError s' = None \<longleftrightarrow> bo_opened s' \<noteq> bo_opened s)"
  proof (cases rule: attempt_cases)
    case (ok x w1 s1)
    from ok(2) have s1: "s1 = fst (checkoutGenerated x (resumeStarted ?i s) w1)" by simp
    show ?thesis using ok(1,3)
      by (simp add: s1 checkoutGenerated_def resumeStarted_def loadDunning_keeps)
  qed (simp_all add: resumeStarted_def)
  ultimately show ?thesis using assms(2) by (simp add: resumeDisabled_def)
qed

definition overdueItem :: DunningItem where
  "overdueItem = \<lparr>di_tenant_id = ''t1'', di_tenant_name = ''Acme'', di_domain = ''acme.test'', di_status = ''pending_payment'',
     di_billing_status = None, di_payment_channel = None, di_next_retry_at = None, di_grace_ends_at = None,
     di_last_invoice_id = None, di_last_payment_attempt = None\<rparr>"

theorem checkout_resumed_witness:
  "bo_resumeError (fst (pressResume overdueItem (initialBillingOps\<lparr>bo_operatorRole := ''admin''\<rparr>) freshBrowser)) \<noteq> None"
proof -
  let ?s = "initialBillingOps\<lparr>bo_operatorRole := ''admin''\<rparr>"
  obtain s' w' where s': "pressResume overdueItem ?s freshBrowser = (s', w')" by (metis prod.collapse)
  have d: "\<not> resumeDisabled overdueItem ?s"
    by (simp add: resumeDisabled_def overdueItem_def initialBillingOps_def canRunBillingActions_def)
  have "case fst (renewTenantCheckout_admin (di_tenant_id overdueItem) freshBrowser) of Inr (Supported x) \<Rightarrow> False | _ \<Rightarrow> True"
    by code_simp
  then show ?thesis using checkout_resumed [OF s' d] s' by (auto split: sum.splits OptionalEndpointResult.splits)
qed

subsection \<open>What the pages get wrong\<close>

text \<open>
  One field marks the row that is busy: starting a second row enables the first again while its
  link is still being made, so that it can be asked for twice.
\<close>

lemma second_row_enables_first:
  assumes "canRunBillingActions s" and "di_status a = ''pending_payment''" and "di_tenant_id a \<noteq> b"
  shows "resumeDisabled a (resumeStarted (di_tenant_id a) s) \<and> \<not> resumeDisabled a (resumeStarted b (resumeStarted (di_tenant_id a) s))"
  using assms by (simp add: resumeDisabled_def resumeStarted_def canRunBillingActions_def)

text \<open>
  A paid invoice with a hosted page is offered for payment, not for download; and before its
  invoices have arrived the page says that there are none.
\<close>

lemma paid_invoice_offers_payment:
  assumes "bi_status i = Some ''paid''" and "truthyStr (bi_hosted_invoice_url i)"
  shows "statusChipColor (bi_status i) = ChipSuccess \<and> map_option fst (invoiceAction i) = Some ''Resume payment''"
  using assms by (simp add: statusChipColor_def invoiceAction_def js_defs)

lemma no_invoices_before_answer: "invoicesContent money fmt initialInvoices = EmptyText ''No invoices yet''"
  by (simp add: invoicesContent_def sectionContent_def invoicesView_def initialInvoices_def)

end
