(* ===== verification/Job_Widget.thy ===== *)
theory Job_Widget
  imports Tenant_Display
begin

section \<open>The status of a queued job\<close>

text \<open>
  \<^verbatim>\<open>saas-ui/domains/shared/components/JobStatusWidget.tsx\<close> as a transition system. The state holds
  what the component shows, the job its interval asks for when it is running, and the loads that
  are under way, each with the job it was started for. The steps are the ticks of the interval,
  the refresh button, the answers in any order, and a change of the job by the page around it.
\<close>

record job_widget =
  jw_jobId :: string
  jw_job :: "Job option"
  jw_error :: "string option"
  jw_loading :: bool
  jw_timer :: "string option"
  jw_pending :: "string list"

definition emptyWidget :: "string \<Rightarrow> job_widget" where
  "emptyWidget jobId = \<lparr>jw_jobId = jobId, jw_job = None, jw_error = None, jw_loading = False, jw_timer = None,
     jw_pending = []\<rparr>"

definition loadJob :: "string \<Rightarrow> job_widget \<Rightarrow> job_widget" where
  "loadJob jobId w = (if jobId = [] then w else w\<lparr>jw_loading := True, jw_pending := jw_pending w @ [jobId]\<rparr>)"

definition widgetDone :: "job_widget \<Rightarrow> bool" where
  "widgetDone w \<longleftrightarrow> (case jw_job w of None \<Rightarrow> False | Some job \<Rightarrow> isTerminalJobStatus (Some (jb_status job)))"

text \<open>The second effect, which runs again when the job or its identifier has changed.\<close>

definition intervalEffect :: "job_widget \<Rightarrow> job_widget" where
  "intervalEffect w = w\<lparr>jw_timer := (if jw_jobId w = [] \<or> widgetDone w then None else Some (jw_jobId w))\<rparr>"

definition mountWidget :: "string \<Rightarrow> job_widget" where
  "mountWidget jobId = intervalEffect (loadJob jobId (emptyWidget jobId))"

definition jobLoaded :: "exn + Job \<Rightarrow> job_widget \<Rightarrow> job_widget" where
  "jobLoaded r w =
     (case r of
        Inr nextJob \<Rightarrow> intervalEffect (w\<lparr>jw_job := Some nextJob, jw_error := None, jw_loading := False\<rparr>)
      | Inl err \<Rightarrow> w\<lparr>jw_error := Some (getApiErrorMessage err ''Failed to load job status.''), jw_loading := False\<rparr>)"

definition changeJob :: "string \<Rightarrow> job_widget \<Rightarrow> job_widget" where
  "changeJob jobId w =
     (if jobId = jw_jobId w then w else intervalEffect (loadJob jobId (w\<lparr>jw_jobId := jobId\<rparr>)))"

text \<open>What the component shows below its title.\<close>

definition widgetLines :: "(string \<Rightarrow> string option) \<Rightarrow> job_widget \<Rightarrow> string list" where
  "widgetLines fmt w =
     (if truthyStr (jw_error w) then [the (jw_error w)] else []) @
     (case jw_job w of
        Some job \<Rightarrow>
          [''Status: '' @ jb_status job @
             (if \<not> isTerminalJobStatus (Some (jb_status job)) then '' '' @ [CHR 0xC2, CHR 0xB7] @ '' polling every 5s'' else []),
           ''Type: '' @ jb_type job @ '' '' @ [CHR 0xC2, CHR 0xB7] @ '' Created: '' @ formatTimestamp fmt (jb_created_at job)] @
          (if truthyStr (jb_error job) then [the (jb_error job)] else [])
      | None \<Rightarrow> if \<not> truthyStr (jw_error w) then [''Loading job status...''] else [])"

inductive widget_step :: "job_widget \<Rightarrow> job_widget \<Rightarrow> bool" where
  tick: "jw_timer w = Some jobId \<Longrightarrow> widget_step w (loadJob jobId w)"
| refresh: "\<not> jw_loading w \<Longrightarrow> widget_step w (loadJob (jw_jobId w) w)"
| answer: "jw_pending w = before @ jobId # after \<Longrightarrow>
    widget_step w (jobLoaded r (w\<lparr>jw_pending := before @ after\<rparr>))"
| change: "widget_step w (changeJob jobId w)"

inductive widget_reachable :: "job_widget \<Rightarrow> bool" where
  mount: "widget_reachable (mountWidget jobId)"
| step: "widget_reachable w \<Longrightarrow> widget_step w w' \<Longrightarrow> widget_reachable w'"

inductive_cases widget_stepE: "widget_step w w'"

definition widgetOk :: "job_widget \<Rightarrow> bool" where
  "widgetOk w \<longleftrightarrow> jw_timer w = (if jw_jobId w = [] \<or> widgetDone w then None else Some (jw_jobId w)) \<and>
     [] \<notin> set (jw_pending w) \<and> (jw_job w \<noteq> None \<or> jw_error w \<noteq> None \<or> jw_pending w \<noteq> [] \<or> jw_jobId w = [])"

lemma loadJob_fields [simp]:
  "jw_jobId (loadJob i w) = jw_jobId w" "jw_job (loadJob i w) = jw_job w" "jw_error (loadJob i w) = jw_error w"
  "jw_timer (loadJob i w) = jw_timer w" "widgetDone (loadJob i w) = widgetDone w"
  "jw_pending (loadJob i w) = jw_pending w @ (if i = [] then [] else [i])"
  by (simp_all add: loadJob_def widgetDone_def)

lemma intervalEffect_fields [simp]:
  "jw_jobId (intervalEffect w) = jw_jobId w" "jw_job (intervalEffect w) = jw_job w"
  "jw_error (intervalEffect w) = jw_error w" "jw_pending (intervalEffect w) = jw_pending w"
  "widgetDone (intervalEffect w) = widgetDone w"
  "jw_timer (intervalEffect w) = (if jw_jobId w = [] \<or> widgetDone w then None else Some (jw_jobId w))"
  by (simp_all add: intervalEffect_def widgetDone_def)

lemma widgetOk_step: "widget_step w w' \<Longrightarrow> widgetOk w \<Longrightarrow> widgetOk w'"
  by (induction rule: widget_step.induct)
     (auto simp: widgetOk_def changeJob_def jobLoaded_def widgetDone_def split: sum.split)

lemma widgetOk_reachable: "widget_reachable w \<Longrightarrow> widgetOk w"
  by (induction rule: widget_reachable.induct)
     (auto simp: mountWidget_def widgetOk_def emptyWidget_def widgetDone_def dest: widgetOk_step [unfolded widgetOk_def])

text \<open>
  However ticks, refreshes, answers and changes of the job interleave, the job widget's
  interval is running for the current job exactly as long as the job it shows is not finished,
  and the widget always shows a job or an error or has a load under way.
\<close>

theorem widget_polls_until_done:
  assumes "widget_reachable w" and "jw_jobId w \<noteq> []"
  shows "(jw_timer w = Some (jw_jobId w) \<longleftrightarrow> \<not> widgetDone w) \<and> (jw_timer w = None \<longleftrightarrow> widgetDone w) \<and>
    widgetLines fmt w \<noteq> [] \<and> (jw_job w \<noteq> None \<or> jw_error w \<noteq> None \<or> jw_pending w \<noteq> [])"
  using widgetOk_reachable [OF assms(1)] assms(2)
  by (auto simp: widgetOk_def widgetLines_def split: option.split)

definition jobNow :: "string \<Rightarrow> string \<Rightarrow> Job" where
  "jobNow ident status = \<lparr>jb_id = ident, jb_tenant_id = ''t1'', jb_type = ''restore'', jb_status = status, jb_rq_job_id = None,
     jb_logs = [], jb_error = None, jb_created_at = None, jb_started_at = None, jb_finished_at = None\<rparr>"

definition finishedWidget :: job_widget where
  "finishedWidget = jobLoaded (Inr (jobNow ''a'' ''Succeeded'')) ((mountWidget ''a'')\<lparr>jw_pending := []\<rparr>)"

lemma finishedWidget_reachable: "widget_reachable finishedWidget"
proof -
  have "widget_step (mountWidget ''a'') (jobLoaded (Inr (jobNow ''a'' ''Succeeded'')) ((mountWidget ''a'')\<lparr>jw_pending := [] @ []\<rparr>))"
    by (rule widget_step.answer [where before = "[]" and jobId = "''a''" and after = "[]"])
       (simp add: mountWidget_def emptyWidget_def)
  then show ?thesis by (auto simp: finishedWidget_def intro: widget_reachable.intros)
qed

lemma finishedWidget_done: "widgetDone finishedWidget" "jw_jobId finishedWidget = ''a''" "jw_pending finishedWidget = []"
  by (simp_all add: finishedWidget_def jobLoaded_def widgetDone_def jobNow_def mountWidget_def emptyWidget_def
      terminal_everywhere terminalStatus_def TERMINAL_STATUSES_def js_defs)

theorem widget_polls_until_done_witness:
  "jw_timer (mountWidget ''a'') = Some ''a'' \<and> jw_timer finishedWidget = None \<and> widgetLines Some finishedWidget \<noteq> []"
  using widget_polls_until_done [OF widget_reachable.mount, of "''a''" Some]
    widget_polls_until_done [OF finishedWidget_reachable, of Some] finishedWidget_done
  by (simp add: mountWidget_def emptyWidget_def widgetDone_def)

text \<open>
  A page that shows the widget for a new job while it still has a finished one: the interval is
  decided by the old job, so that when the first load of the new job fails no poll follows.
\<close>

lemma widget_stuck_after_change:
  "\<exists>w. widget_reachable w \<and> jw_jobId w = ''b'' \<and> map_option jb_id (jw_job w) = Some ''a'' \<and> jw_error w \<noteq> None \<and>
     jw_timer w = None \<and> jw_pending w = []"
proof -
  let ?c = "changeJob ''b'' finishedWidget"
  let ?w = "jobLoaded (Inl IllTyped) (?c\<lparr>jw_pending := [] @ []\<rparr>)"
  have c: "jw_pending ?c = [''b'']" "widgetDone ?c" "jw_jobId ?c = ''b''" "jw_job ?c = jw_job finishedWidget"
    using finishedWidget_done by (simp_all add: changeJob_def widgetDone_def)
  have "widget_reachable ?c"
    by (rule widget_reachable.step [OF finishedWidget_reachable]) (rule widget_step.change)
  then have "widget_reachable ?w"
    by (rule widget_reachable.step)
       (rule widget_step.answer [where before = "[]" and jobId = "''b''" and after = "[]"], simp add: c)
  moreover have "jw_timer ?c = None" using c(2) by (simp add: changeJob_def finishedWidget_done)
  moreover have "map_option jb_id (jw_job finishedWidget) = Some ''a''"
    by (simp add: finishedWidget_def jobLoaded_def jobNow_def)
  ultimately show ?thesis using c by (intro exI [of _ ?w]) (simp add: jobLoaded_def)
qed

end
