(* ===== verification/Spec2Isabelle.thy ===== *)
theory Spec2Isabelle
  imports Operator_Pages Tenant_Views Onboarding_View Overview_Page Site_Redirects Shell_Frame Admin_Page Workspace_Pages Account Admin_Console Admin_Repository Admin_Views Api_Client Api_Endpoints App_Shell Auth_Pages Billing Billing_Ops Bounded_History Browser Job_Log Job_Widget Js_Encoding Js_Json Navigation Notifications Onboarding_Flow Onboarding_Page Onboarding_Polling Optional_Section Platform_Health Prelude Request_Traffic Route_Guard Routes Session Subscription Tenant_Backups Tenant_Billing Tenant_Display Tenant_Hooks Tenant_Overview Tenant_Repository Tenant_Support Tenant_Team Tenant_Workspace Types Workspace_Create Workspace_Queue Workspace_Table
begin

text \<open>
  The browser client of the ERPNext control plane, \<^verbatim>\<open>src/saas-ui\<close> (TypeScript, Next.js and React): the program through which
  customers sign up, create a workspace, pay for it and run it, and operators follow all of them. The client's own
  logic is modelled; the server is seen through the answers of its HTTP interface, for every answer it may give.

  \<^bold>\<open>How the program is put together, and which theory models which part.\<close> All paths are below \<^verbatim>\<open>src/saas-ui\<close>.

  The language and the browser. \<^verbatim>\<open>Prelude\<close> has what the sources use of the language's strings and lists. \<^verbatim>\<open>Js_Json\<close>
  has JSON values with the printer and the parser, \<^verbatim>\<open>Js_Encoding\<close> percent encoding, base64 and decimal numbers,
  \<^verbatim>\<open>Browser\<close> the state the code shares (local storage, cookies, clock, events, the requests sent and the script of
  the server's answers) and asynchronous functions as a state and exception monad. \<^verbatim>\<open>Types\<close> is
  \<^verbatim>\<open>domains/shared/lib/types.ts\<close>: a record for each wire type with the reading of an answer at that type.

  The session. \<^verbatim>\<open>Session\<close> is \<^verbatim>\<open>domains/auth/auth.ts\<close> (the token in storage and cookies); \<^verbatim>\<open>Route_Guard\<close> is
  \<^verbatim>\<open>middleware.ts\<close> and the client's policy for admin routes; \<^verbatim>\<open>Auth_Pages\<close> the sign-in, sign-up and recovery pages
  and the background refresh; \<^verbatim>\<open>App_Shell\<close> and \<^verbatim>\<open>Shell_Frame\<close> the frames around the pages with their checks of the
  session, the navigation, headers, bell and dialogs.

  The client of the API. \<^verbatim>\<open>Api_Client\<close> is the pipeline of a request in \<^verbatim>\<open>domains/shared/lib/api.ts\<close> (refresh ahead of
  time, refresh after a 401, errors, optional endpoints); \<^verbatim>\<open>Api_Endpoints\<close> has a definition for each method of its
  \<^verbatim>\<open>api\<close> object; \<^verbatim>\<open>Request_Traffic\<close> says what a call puts on the wire, and \<^verbatim>\<open>Optional_Section\<close> and \<^verbatim>\<open>Bounded_History\<close>
  are the interfaces that several pages share.

  Becoming a customer. \<^verbatim>\<open>Subscription\<close> (plans), \<^verbatim>\<open>Onboarding_Flow\<close> (the steps, the stored form and the use cases),
  \<^verbatim>\<open>Onboarding_Page\<close> (state and handlers), \<^verbatim>\<open>Onboarding_Polling\<close> (the polling as a transition system) and
  \<^verbatim>\<open>Onboarding_View\<close> (what each step shows, and the runs of the page across reloads).

  Moving about. \<^verbatim>\<open>Routes\<close> and \<^verbatim>\<open>Navigation\<close> are the navigation models, \<^verbatim>\<open>Site_Redirects\<close> the redirects of
  \<^verbatim>\<open>next.config.js\<close> with the framework's matching of paths and the pages by their directories.

  The workspaces. \<^verbatim>\<open>Tenant_Repository\<close> (calls and use cases), \<^verbatim>\<open>Workspace_Queue\<close> (filters, counts, loading and the state of
  the queue page), \<^verbatim>\<open>Workspace_Table\<close>, \<^verbatim>\<open>Workspace_Create\<close> and \<^verbatim>\<open>Workspace_Pages\<close> (table, form and the nine pages).
  The pages of one tenant: \<^verbatim>\<open>Tenant_Hooks\<close> (queries), \<^verbatim>\<open>Tenant_Backups\<close>, \<^verbatim>\<open>Tenant_Team\<close> (domains and members),
  \<^verbatim>\<open>Tenant_Billing\<close>, \<^verbatim>\<open>Tenant_Support\<close>, \<^verbatim>\<open>Tenant_Overview\<close>, \<^verbatim>\<open>Overview_Page\<close> and \<^verbatim>\<open>Tenant_Views\<close> (the
  overview, and the backups and the billing, as they are shown, with their runs) and, for all of them together,
  \<^verbatim>\<open>Tenant_Workspace\<close>. \<^verbatim>\<open>Billing\<close> has the gates and invoices, \<^verbatim>\<open>Tenant_Display\<close> the texts and tones of a status.

  Operating. \<^verbatim>\<open>Admin_Repository\<close>, \<^verbatim>\<open>Admin_Console\<close> (the controller), \<^verbatim>\<open>Admin_Views\<close> and \<^verbatim>\<open>Admin_Page\<close> are the console;
  \<^verbatim>\<open>Billing_Ops\<close> the dunning queue, \<^verbatim>\<open>Platform_Health\<close> the health pages, \<^verbatim>\<open>Operator_Pages\<close> what the console and the
  operators' health page show, with their runs, and \<^verbatim>\<open>Account\<close> the account pages.
  \<^verbatim>\<open>Notifications\<close>, \<^verbatim>\<open>Job_Log\<close> and \<^verbatim>\<open>Job_Widget\<close> are the stateful components the pages share.

  \<^bold>\<open>How the code is represented.\<close> An object type is a record and an enumeration a datatype; a page is a record with one
  field for each \<^verbatim>\<open>useState\<close>, a handler a function from the page and the browser to both, an effect a function
  that is run again, and what the page shows a function from its state to texts, links and buttons with whether they
  are disabled. An awaited call runs from the call to its settled promise; where the interleaving matters
  (polling, the log panel, the job widget, the console, the password dialog, timers of notices) the parts between
  two awaits are the events of a transition system. An exception is the left of a sum, an endpoint that a server may
  not have is \<open>Unsupported\<close>. An answer is read at the type the source casts it to; one that does not have the
  type is the error \<open>IllTyped\<close>, where the source would go on with a wrong value. Names are the source's, with a suffix where
  two modules use the same name.

  \<^bold>\<open>What the lemmas show.\<close> The session: stored in one place and mirrored in the other, what the middleware serves, that no
  redirect leaves the site (but for a backslash), that both shells and the policy decide alike. Requests: at most four messages for one
  call, one refresh after a 401, a session dropped exactly after a final 401, one body for an idempotency key, and for every page that its actions
  write only to the tenant it shows. Onboarding: checked submission, a stored form that comes back, bounded back-off,
  an end to polling, no late step without a tenant. The log panel never falls silent and is bounded. Pages:
  what is asked is confirmed first, what fails is shown, what is for operators is offered to operators only, links lead to pages that
  exist. Lemmas at the end of a theory state what the code does where it does not do what it means to.

  \<^bold>\<open>Interfaces.\<close> The locales \<open>token_store\<close> (Session), \<open>bounded_history\<close> (Bounded_History), \<open>optional_section\<close>
  (Optional_Section), \<open>route_matcher\<close> (Routes) and \<open>tenant_section\<close> (Tenant_Workspace) state what their clients rely on; each is interpreted on the
  functions of the code that provide it.

  \<^bold>\<open>Bounds.\<close> The JSON parser has fuel of twice the length of its text and one more, which every step of the descent
  consumes less of than it reads, so that it never runs out (the round trip is proved with it). Polling makes at most 361
  polls. An effect of the log panel settles within three renders; the panel keeps 300 lines, the notifications
  200 entries. Redirects are followed for the number of segments and two more, and settle before.

  \<^bold>\<open>Parameters.\<close> The browser's formats of dates and currencies, its reading of a date and its collation, and the values of the
  environment are arguments, as are random identifiers and jitter.

  \<^bold>\<open>Not modelled.\<close> The provisioning API and its migrations (\<^verbatim>\<open>src/provisioning-api\<close>, Python), another program;
  markup, styling and animation; pages of fixed text (the landing page, the escalation page, the theme); tests and scripts.
  Characters are bytes: case mapping and trimming are those of ASCII. Numbers in JSON are integers. \<^verbatim>\<open>Promise.all\<close> and
  \<^verbatim>\<open>Promise.allSettled\<close> make their calls one after the other. Of the query library a query is its last data and its last error,
  with one fetch for an invalidation or a refetch. The framework's matching of paths is the documented one.
\<close>

end
